(* ===== verification/Prelude.thy ===== *)
theory Prelude
  imports Complex_Main "HOL-Library.AList" "HOL-Library.Char_ord" "HOL-Library.List_Lexorder"
    "HOL-Library.Multiset"
begin

text \<open>
  What every component of the model shares: errors and results, Go maps as association
  lists, loops over lists that stop at the first error, and the stable sort of Go's
  \<open>sort.SliceStable\<close> with the facts that determine its result.
\<close>

named_theorems res_simps \<open>unfolding of results and their sequencing\<close>
named_theorems map_simps \<open>lookup and domain of association-list maps\<close>

section \<open>Errors and results\<close>

text \<open>
  A Go error is the text its \<open>Error()\<close> method returns; a run-time panic (a nil dereference, a
  slice out of range) is a failure too, which no caller wraps. A function \<open>(T, error)\<close> is a sum,
  a function that returns an error only is an \<open>error option\<close> (\<open>nil\<close> is \<open>None\<close>).
\<close>

datatype error = Err string | Panic string

fun err_text :: "error \<Rightarrow> string" where
  "err_text (Err s) = s"
| "err_text (Panic s) = s"

type_synonym 'a res = "error + 'a"

text \<open>\<open>fmt.Errorf("prefix: %w", err)\<close>, the prefix with its separator.\<close>

fun wrap_err :: "string \<Rightarrow> error \<Rightarrow> error" where
  "wrap_err p (Err s) = Err (p @ s)"
| "wrap_err p (Panic s) = Panic s"

definition bind_res :: "'a res \<Rightarrow> ('a \<Rightarrow> 'b res) \<Rightarrow> 'b res" where
  "bind_res r f = (case r of Inl e \<Rightarrow> Inl e | Inr x \<Rightarrow> f x)"

lemma bind_res_simps [simp, res_simps]:
  "bind_res (Inl e) f = Inl e"
  "bind_res (Inr x) f = f x"
  by (simp_all add: bind_res_def)

lemma bind_res_Inr [res_simps]:
  "bind_res r f = Inr y \<longleftrightarrow> (\<exists>x. r = Inr x \<and> f x = Inr y)"
  by (cases r) auto

lemma bind_res_Inl [res_simps]:
  "bind_res r f = Inl e \<longleftrightarrow> r = Inl e \<or> (\<exists>x. r = Inr x \<and> f x = Inl e)"
  by (cases r) auto

text \<open>The loop \<open>for _, x := range xs { y, err := f(x); if err != nil { return err }; ... }\<close>.\<close>

fun map_res :: "('a \<Rightarrow> 'b res) \<Rightarrow> 'a list \<Rightarrow> 'b list res" where
  "map_res f [] = Inr []"
| "map_res f (x # xs) =
     (case f x of
        Inl e \<Rightarrow> Inl e
      | Inr y \<Rightarrow> (case map_res f xs of Inl e \<Rightarrow> Inl e | Inr ys \<Rightarrow> Inr (y # ys)))"

lemma map_res_Inr_iff:
  "map_res f xs = Inr ys \<longleftrightarrow> list_all2 (\<lambda>x y. f x = Inr y) xs ys"
proof (induction xs arbitrary: ys)
  case Nil
  then show ?case by auto
next
  case (Cons x xs)
  show ?case
  proof (cases "f x")
    case (Inl e)
    then show ?thesis by (simp add: list_all2_Cons1)
  next
    case (Inr y)
    then show ?thesis
      by (cases "map_res f xs") (simp_all add: list_all2_Cons1 flip: Cons.IH, blast)
  qed
qed

lemma map_res_length: "map_res f xs = Inr ys \<Longrightarrow> length ys = length xs"
  by (simp add: map_res_Inr_iff list_all2_lengthD)

text \<open>
  The same loop over an effect: \<open>f\<close> takes the state of the world and may fail; the loop stops
  at the first failure and keeps the state reached there.
\<close>

fun each_w :: "('a \<Rightarrow> 'w \<Rightarrow> error option \<times> 'w) \<Rightarrow> 'a list \<Rightarrow> 'w \<Rightarrow> error option \<times> 'w" where
  "each_w f [] w = (None, w)"
| "each_w f (x # xs) w =
     (case f x w of (Some e, w') \<Rightarrow> (Some e, w') | (None, w') \<Rightarrow> each_w f xs w')"

lemma each_w_append:
  "each_w f (xs @ ys) w =
     (case each_w f xs w of (Some e, w') \<Rightarrow> (Some e, w') | (None, w') \<Rightarrow> each_w f ys w')"
  by (induction xs arbitrary: w) (auto split: prod.splits option.splits)

section \<open>Go maps\<close>

text \<open>
  A Go map is an association list. Reading is \<open>map_of\<close>, storing \<open>AList.update\<close>, deleting
  \<open>AList.delete\<close>; the order of the list is one of the orders \<open>range\<close> may visit the map in.
  A well-formed map holds each key once.
\<close>

type_synonym 'v smap = "(string \<times> 'v) list"

abbreviation mget :: "('k \<times> 'v) list \<Rightarrow> 'k \<Rightarrow> 'v option" where
  "mget m k \<equiv> map_of m k"

abbreviation mput :: "'k \<Rightarrow> 'v \<Rightarrow> ('k \<times> 'v) list \<Rightarrow> ('k \<times> 'v) list" where
  "mput k v m \<equiv> AList.update k v m"

abbreviation mdel :: "'k \<Rightarrow> ('k \<times> 'v) list \<Rightarrow> ('k \<times> 'v) list" where
  "mdel k m \<equiv> AList.delete k m"

abbreviation mkeys :: "('k \<times> 'v) list \<Rightarrow> 'k list" where
  "mkeys m \<equiv> map fst m"

abbreviation wf_map :: "('k \<times> 'v) list \<Rightarrow> bool" where
  "wf_map m \<equiv> distinct (map fst m)"

lemma mget_mput [simp, map_simps]: "mget (mput k v m) k' = (if k' = k then Some v else mget m k')"
  by (simp add: update_conv')

lemma mget_mdel [simp, map_simps]: "mget (mdel k m) k' = (if k' = k then None else mget m k')"
  by (simp add: delete_conv')

lemma wf_map_mput [simp, map_simps]: "wf_map m \<Longrightarrow> wf_map (mput k v m)"
  by (rule distinct_update)

lemma wf_map_mdel [simp, map_simps]: "wf_map m \<Longrightarrow> wf_map (mdel k m)"
  by (rule distinct_delete)

lemma keys_mput [simp, map_simps]: "fst ` set (mput k v m) = insert k (fst ` set m)"
  by (simp add: dom_update)

lemma keys_mdel [simp, map_simps]: "fst ` set (mdel k m) = fst ` set m - {k}"
  by (induction m) auto

lemma mget_in_keys: "mget m k = Some v \<Longrightarrow> k \<in> fst ` set m"
  by (metis map_of_eq_None_iff option.distinct(1))

lemma mget_None_iff: "mget m k = None \<longleftrightarrow> k \<notin> fst ` set m"
  by (simp add: map_of_eq_None_iff)

text \<open>The keys in the order \<open>sort.Strings\<close> leaves them: byte order.\<close>

definition sorted_keys :: "('k::linorder \<times> 'v) list \<Rightarrow> 'k list" where
  "sorted_keys m = sort (mkeys m)"

lemma set_sorted_keys [simp]: "set (sorted_keys m) = fst ` set m"
  by (simp add: sorted_keys_def)

lemma sorted_sorted_keys [simp]: "sorted (sorted_keys m)"
  by (simp add: sorted_keys_def)

lemma distinct_sorted_keys [simp]: "wf_map m \<Longrightarrow> distinct (sorted_keys m)"
  by (simp add: sorted_keys_def)

lemma length_sorted_keys [simp]: "length (sorted_keys m) = length m"
  by (simp add: sorted_keys_def)

text \<open>Two well-formed maps with the same bindings have the same sorted keys.\<close>

lemma sorted_keys_cong:
  assumes "wf_map m" and "wf_map m'" and "map_of m = map_of m'"
  shows "sorted_keys m = sorted_keys m'"
proof -
  have "fst ` set m = fst ` set m'"
    using assms(3) by (metis dom_map_of_conv_image_fst)
  with assms(1,2) show ?thesis
    by (auto intro!: sorted_distinct_set_unique)
qed

section \<open>The stable sort\<close>

text \<open>
  \<open>sort.SliceStable(xs, less)\<close> as insertion from the right: an element goes before the
  elements it is not greater than, so equal elements keep their order. For a strict weak
  order the result is the only sorted and stable rearrangement (\<open>sorted_stable_unique\<close> below), so it is
  what Go's implementation returns as well.
\<close>

fun insert_by :: "('a \<Rightarrow> 'a \<Rightarrow> bool) \<Rightarrow> 'a \<Rightarrow> 'a list \<Rightarrow> 'a list" where
  "insert_by lt x [] = [x]"
| "insert_by lt x (y # ys) = (if lt y x then y # insert_by lt x ys else x # y # ys)"

fun sort_by :: "('a \<Rightarrow> 'a \<Rightarrow> bool) \<Rightarrow> 'a list \<Rightarrow> 'a list" where
  "sort_by lt [] = []"
| "sort_by lt (x # xs) = insert_by lt x (sort_by lt xs)"

lemma mset_insert_by [simp]: "mset (insert_by lt x xs) = add_mset x (mset xs)"
  by (induction xs) auto

lemma mset_sort_by [simp]: "mset (sort_by lt xs) = mset xs"
  by (induction xs) auto

lemma set_insert_by [simp]: "set (insert_by lt x xs) = insert x (set xs)"
  by (induction xs) auto

lemma set_sort_by [simp]: "set (sort_by lt xs) = set xs"
  by (induction xs) auto

lemma length_sort_by [simp]: "length (sort_by lt xs) = length xs"
  by (metis mset_sort_by size_mset)

lemma sort_by_Nil_iff [simp]: "sort_by lt xs = [] \<longleftrightarrow> xs = []"
  by (metis length_0_conv length_sort_by)

lemma map_insert_by:
  assumes "\<And>a b. lt' (f a) (f b) = lt a b"
  shows "map f (insert_by lt x xs) = insert_by lt' (f x) (map f xs)"
  by (induction xs) (auto simp: assms)

lemma map_sort_by:
  assumes "\<And>a b. lt' (f a) (f b) = lt a b"
  shows "map f (sort_by lt xs) = sort_by lt' (map f xs)"
  by (induction xs) (auto simp: map_insert_by [where lt = lt and lt' = lt' and f = f, OF assms])

text \<open>
  The contract of a comparison function passed to the sort, on the elements \<open>ok\<close> it is used for
  (comparisons of floating-point numbers keep it only away from NaN).
\<close>

locale strict_weak_order =
  fixes ok :: "'a \<Rightarrow> bool" and lt :: "'a \<Rightarrow> 'a \<Rightarrow> bool"
  assumes less_irrefl: "ok x \<Longrightarrow> \<not> lt x x"
    and less_trans: "ok x \<Longrightarrow> ok y \<Longrightarrow> ok z \<Longrightarrow> lt x y \<Longrightarrow> lt y z \<Longrightarrow> lt x z"
    and not_less_trans: "ok x \<Longrightarrow> ok y \<Longrightarrow> ok z \<Longrightarrow> \<not> lt x y \<Longrightarrow> \<not> lt y z \<Longrightarrow> \<not> lt x z"
begin

lemma less_asym: "ok x \<Longrightarrow> ok y \<Longrightarrow> lt x y \<Longrightarrow> \<not> lt y x"
  using less_irrefl less_trans by blast

lemma sorted_insert_by:
  "\<forall>y \<in> set xs. ok y \<Longrightarrow> ok x \<Longrightarrow> sorted_wrt (\<lambda>a b. \<not> lt b a) xs \<Longrightarrow>
   sorted_wrt (\<lambda>a b. \<not> lt b a) (insert_by lt x xs)"
  by (induction xs) (auto dest: less_asym, metis not_less_trans)

lemma sorted_sort_by: "\<forall>y \<in> set xs. ok y \<Longrightarrow> sorted_wrt (\<lambda>a b. \<not> lt b a) (sort_by lt xs)"
  by (induction xs) (auto intro: sorted_insert_by)

lemma filter_insert_by:
  assumes "\<And>b. b \<in> set xs \<Longrightarrow> P x \<Longrightarrow> P b \<Longrightarrow> \<not> lt b x"
  shows "filter P (insert_by lt x xs) = (if P x then x # filter P xs else filter P xs)"
  using assms by (induction xs) auto

text \<open>Stability: the elements equivalent to one of them come in the order of the input.\<close>

lemma stable_sort_by:
  assumes "\<forall>y \<in> set xs. ok y" and "ok x"
  shows "filter (\<lambda>y. \<not> lt x y \<and> \<not> lt y x) (sort_by lt xs) =
         filter (\<lambda>y. \<not> lt x y \<and> \<not> lt y x) xs"
  using assms(1)
proof (induction xs)
  case Nil
  then show ?case by simp
next
  case (Cons a xs)
  have "filter (\<lambda>y. \<not> lt x y \<and> \<not> lt y x) (insert_by lt a (sort_by lt xs)) =
    (if \<not> lt x a \<and> \<not> lt a x then a # filter (\<lambda>y. \<not> lt x y \<and> \<not> lt y x) (sort_by lt xs)
     else filter (\<lambda>y. \<not> lt x y \<and> \<not> lt y x) (sort_by lt xs))"
    by (rule filter_insert_by) (use Cons.prems assms(2) not_less_trans in auto)
  with Cons show ?case by simp
qed

lemma head_minimal:
  assumes "\<forall>y \<in> set xs. ok y" and "sort_by lt xs = y # ys" and "x \<in> set xs"
  shows "\<not> lt x y"
proof -
  have "sorted_wrt (\<lambda>a b. \<not> lt b a) (y # ys)"
    using sorted_sort_by [of xs] assms by simp
  moreover have "x \<in> set (y # ys)"
    using assms by (metis set_sort_by)
  ultimately show ?thesis
    using less_irrefl assms by auto
qed

text \<open>A list that is sorted, stable and has the same elements is the sorted list.\<close>

lemma sorted_stable_unique:
  assumes "\<forall>y \<in> set xs. ok y"
    and "sorted_wrt (\<lambda>a b. \<not> lt b a) xs" and "sorted_wrt (\<lambda>a b. \<not> lt b a) ys"
    and "mset xs = mset ys"
    and "\<And>x. x \<in> set xs \<Longrightarrow>
      filter (\<lambda>y. \<not> lt x y \<and> \<not> lt y x) xs = filter (\<lambda>y. \<not> lt x y \<and> \<not> lt y x) ys"
  shows "xs = ys"
  using assms
proof (induction xs arbitrary: ys)
  case Nil
  then show ?case by simp
next
  case (Cons x xs)
  from Cons.prems(4) obtain y ys' where ys: "ys = y # ys'"
    by (cases ys) auto
  have in_ys: "x \<in> set ys" "y \<in> set (x # xs)"
    using Cons.prems(4) ys by (metis list.set_intros(1) set_mset_mset)+
  then have "\<not> lt x y" "\<not> lt y x"
    using Cons.prems(1,2,3) ys less_irrefl by auto
  with Cons.prems(1) Cons.prems(5) [of x] ys less_irrefl have "x = y"
    by simp
  moreover have "xs = ys'"
  proof (rule Cons.IH)
    show "mset xs = mset ys'" using Cons.prems(4) ys \<open>x = y\<close> by simp
    show "filter (\<lambda>b. \<not> lt a b \<and> \<not> lt b a) xs = filter (\<lambda>b. \<not> lt a b \<and> \<not> lt b a) ys'"
      if "a \<in> set xs" for a
      using Cons.prems(5) [of a] that ys \<open>x = y\<close> by (simp split: if_splits)
  qed (use Cons.prems(1,2,3) ys in auto)
  ultimately show ?case using ys by simp
qed

end

end
