(* ===== verification/Go_Float.thy ===== *)
theory Go_Float
  imports Go_Strings
begin

text \<open>
  Go's \<open>float64\<close> as far as gpi uses it: parsing with \<open>strconv.ParseFloat\<close>, printing with
  \<open>%g\<close>, comparing, multiplying and converting to \<open>int\<close>. A finite value is the exact rational it
  was written as: the rounding to 53 bits is not modelled, nor the sign of zero, nor the
  hexadecimal notation \<open>ParseFloat\<close> also accepts. The infinities and NaN are values of their own,
  with the comparisons of IEEE 754.
\<close>

datatype f64 = Fin rat | PInf | NInf | NaN

definition f_lt :: "f64 \<Rightarrow> f64 \<Rightarrow> bool" where
  "f_lt a b = (case (a, b) of
      (Fin x, Fin y) \<Rightarrow> x < y
    | (Fin _, PInf) \<Rightarrow> True
    | (NInf, Fin _) \<Rightarrow> True
    | (NInf, PInf) \<Rightarrow> True
    | _ \<Rightarrow> False)"

text \<open>\<open>==\<close>: NaN differs from itself.\<close>

definition f_eq :: "f64 \<Rightarrow> f64 \<Rightarrow> bool" where
  "f_eq a b \<longleftrightarrow> a = b \<and> a \<noteq> NaN"

definition f_le :: "f64 \<Rightarrow> f64 \<Rightarrow> bool" where
  "f_le a b \<longleftrightarrow> f_lt a b \<or> f_eq a b"

lemma f_lt_simps [simp]:
  "f_lt (Fin x) (Fin y) \<longleftrightarrow> x < y"
  "f_lt NaN a \<longleftrightarrow> False" "f_lt a NaN \<longleftrightarrow> False"
  "f_lt PInf a \<longleftrightarrow> False" "f_lt a NInf \<longleftrightarrow> False"
  "f_lt (Fin x) PInf \<longleftrightarrow> True" "f_lt NInf (Fin x) \<longleftrightarrow> True" "f_lt NInf PInf \<longleftrightarrow> True"
  by (auto simp: f_lt_def split: f64.splits)

lemma f_lt_irrefl [simp]: "\<not> f_lt a a"
  by (cases a) simp_all

lemma f_lt_trans: "f_lt a b \<Longrightarrow> f_lt b c \<Longrightarrow> f_lt a c"
  by (cases a; cases b; cases c) auto

text \<open>Among values that are not NaN, being incomparable is being equal.\<close>

lemma f_lt_total: "a \<noteq> NaN \<Longrightarrow> b \<noteq> NaN \<Longrightarrow> \<not> f_lt a b \<Longrightarrow> \<not> f_lt b a \<Longrightarrow> a = b"
  by (cases a; cases b) auto

lemma f_not_lt_trans:
  "a \<noteq> NaN \<Longrightarrow> b \<noteq> NaN \<Longrightarrow> c \<noteq> NaN \<Longrightarrow> \<not> f_lt a b \<Longrightarrow> \<not> f_lt b c \<Longrightarrow> \<not> f_lt a c"
  by (cases a; cases b; cases c) auto

lemma f_le_Fin [simp]: "f_le (Fin x) (Fin y) \<longleftrightarrow> x \<le> y"
  by (auto simp: f_le_def f_eq_def)

section \<open>Arithmetic and conversions\<close>

fun f_mul :: "f64 \<Rightarrow> f64 \<Rightarrow> f64" where
  "f_mul (Fin x) (Fin y) = Fin (x * y)"
| "f_mul NaN _ = NaN"
| "f_mul _ NaN = NaN"
| "f_mul (Fin x) PInf = (if x = 0 then NaN else if x < 0 then NInf else PInf)"
| "f_mul (Fin x) NInf = (if x = 0 then NaN else if x < 0 then PInf else NInf)"
| "f_mul PInf (Fin y) = (if y = 0 then NaN else if y < 0 then NInf else PInf)"
| "f_mul NInf (Fin y) = (if y = 0 then NaN else if y < 0 then PInf else NInf)"
| "f_mul PInf PInf = PInf"
| "f_mul NInf NInf = PInf"
| "f_mul PInf NInf = NInf"
| "f_mul NInf PInf = NInf"

lemma f_mul_pos: "f_lt (Fin 0) a \<Longrightarrow> 0 < r \<Longrightarrow> f_lt (Fin 0) (f_mul a (Fin r))"
  by (cases a) auto

definition f_of_int :: "int \<Rightarrow> f64" where
  "f_of_int i = Fin (of_int i)"

text \<open>
  \<open>int(f)\<close>: towards zero. Outside the range of \<open>int64\<close>, and for the values that are not finite, Go
  leaves the result to the implementation: amd64 gives the smallest integer.
\<close>

definition f_trunc :: "f64 \<Rightarrow> int" where
  "f_trunc f = (case f of
      Fin q \<Rightarrow> (let i = (if 0 \<le> q then \<lfloor>q\<rfloor> else \<lceil>q\<rceil>)
               in if int64_ok i then i else - (2 ^ 63))
    | _ \<Rightarrow> - (2 ^ 63))"

lemma f_trunc_of_int [simp]: "int64_ok i \<Longrightarrow> f_trunc (f_of_int i) = i"
  by (simp add: f_trunc_def f_of_int_def)

section \<open>Parsing\<close>

text \<open>The first magnitude that rounds to infinity.\<close>

definition f_overflow :: rat where
  "f_overflow = of_int (2 ^ 1024 - 2 ^ 970)"

definition parse_exponent :: "string \<Rightarrow> int option" where
  "parse_exponent s =
     (let neg = (s \<noteq> [] \<and> hd s = CHR ''-'');
          body = (if s \<noteq> [] \<and> (hd s = CHR ''-'' \<or> hd s = CHR ''+'') then tl s else s)
      in if all_digits body
         then Some (if neg then - int (digits_val body) else int (digits_val body)) else None)"

definition pow10 :: "int \<Rightarrow> rat" where
  "pow10 e = (if 0 \<le> e then 10 ^ nat e else 1 / 10 ^ nat (- e))"

definition parse_unsigned :: "string \<Rightarrow> rat option" where
  "parse_unsigned s =
     (let mant = takeWhile (\<lambda>c. c \<noteq> CHR ''e'' \<and> c \<noteq> CHR ''E'') s;
          rest = drop (length mant) s
      in case cut_at CHR ''.'' mant of (ip, fpo) \<Rightarrow>
           (let fp = (case fpo of None \<Rightarrow> [] | Some x \<Rightarrow> x)
            in if \<not> all_digits (ip @ fp) then None
               else (let m = of_nat (digits_val (ip @ fp)) / 10 ^ length fp
                     in case rest of
                          [] \<Rightarrow> Some m
                        | _ # ex \<Rightarrow> map_option (\<lambda>e. m * pow10 e) (parse_exponent ex))))"

text \<open>\<open>strconv.ParseFloat(s, 64)\<close>; \<open>None\<close> stands for a syntax or a range error.\<close>

definition parse_float :: "string \<Rightarrow> f64 option" where
  "parse_float s =
     (let neg = (s \<noteq> [] \<and> hd s = CHR ''-'');
          signed = (s \<noteq> [] \<and> (hd s = CHR ''-'' \<or> hd s = CHR ''+''));
          body = (if signed then tl s else s);
          low = to_lower body
      in if low = ''inf'' \<or> low = ''infinity'' then Some (if neg then NInf else PInf)
         else if low = ''nan'' \<and> \<not> signed then Some NaN
         else (case parse_unsigned body of
                 None \<Rightarrow> None
               | Some q \<Rightarrow> if f_overflow \<le> q then None else Some (Fin (if neg then - q else q))))"

section \<open>Printing\<close>

text \<open>The number of decimals of a decimal fraction, at most \<open>fuel\<close>: the smallest negative exponent
  a \<open>float64\<close> is written with is below 1100.\<close>

fun decimals :: "nat \<Rightarrow> rat \<Rightarrow> nat" where
  "decimals 0 q = 0"
| "decimals (Suc fuel) q = (if of_int \<lfloor>q\<rfloor> = q then 0 else Suc (decimals fuel (q * 10)))"

definition strip_zeros :: "string \<Rightarrow> string" where
  "strip_zeros s = rev (dropWhile (\<lambda>c. c = CHR ''0'') (rev s))"

definition zeros :: "nat \<Rightarrow> string" where
  "zeros n = replicate n CHR ''0''"

text \<open>\<open>%g\<close> of a positive decimal fraction: its digits, the place of the decimal point among
  them, and the exponent form outside \<open>1e-4 .. 1e6\<close>.\<close>

definition fmt_g_pos :: "rat \<Rightarrow> string" where
  "fmt_g_pos q =
     (let k = decimals 1100 q;
          all = nat_str (nat \<lfloor>q * 10 ^ k\<rfloor>);
          dp = int (length all) - int k;
          ds = strip_zeros all;
          ex = dp - 1
      in if ex < - 4 \<or> 6 \<le> ex then
           (let mant = (case ds of [] \<Rightarrow> ''0'' | [d] \<Rightarrow> [d] | d # r \<Rightarrow> d # CHR ''.'' # r);
                es = nat_str (nat \<bar>ex\<bar>)
            in mant @ ''e'' @ (if ex < 0 then ''-'' else ''+'') @ (if length es < 2 then ''0'' @ es else es))
         else if dp \<le> 0 then ''0.'' @ zeros (nat (- dp)) @ ds
         else if int (length ds) \<le> dp then ds @ zeros (nat dp - length ds)
         else take (nat dp) ds @ ''.'' @ drop (nat dp) ds)"

definition fmt_g :: "f64 \<Rightarrow> string" where
  "fmt_g f = (case f of
      Fin q \<Rightarrow> if q = 0 then ''0'' else if q < 0 then CHR ''-'' # fmt_g_pos (- q) else fmt_g_pos q
    | PInf \<Rightarrow> ''+Inf'' | NInf \<Rightarrow> ''-Inf'' | NaN \<Rightarrow> ''NaN'')"

lemma strip_zeros_pad:
  "strip_zeros s @ zeros (length s - length (strip_zeros s)) = s"
proof -
  let ?z = "takeWhile (\<lambda>c. c = CHR ''0'') (rev s)"
  have "rev s = ?z @ dropWhile (\<lambda>c. c = CHR ''0'') (rev s)"
    by simp
  then have s: "s = strip_zeros s @ rev ?z"
    unfolding strip_zeros_def by (metis rev_append rev_rev_ident)
  have "\<forall>c \<in> set ?z. c = CHR ''0''"
    by (auto dest: set_takeWhileD)
  then have "rev ?z = zeros (length ?z)"
    unfolding zeros_def by (metis map_replicate_const map_idI length_rev set_rev)
  moreover have "length ?z = length s - length (strip_zeros s)"
    by (metis add_diff_cancel_left' length_append length_rev s)
  ultimately show ?thesis
    using s by simp
qed

lemma length_strip_zeros: "length (strip_zeros s) \<le> length s"
  unfolding strip_zeros_def using length_dropWhile_le by (metis length_rev)

text \<open>A natural number below a million prints as its digits.\<close>

lemma length_nat_str: "n < 10 ^ k \<Longrightarrow> 0 < k \<Longrightarrow> length (nat_str n) \<le> k"
proof (induction n arbitrary: k rule: nat_str.induct)
  case (1 n)
  show ?case
  proof (cases "n < 10")
    case True
    with 1 show ?thesis by (simp add: nat_str.simps [of n])
  next
    case False
    obtain j where k: "k = Suc j"
      using 1 by (cases k) auto
    have "0 < j"
      using False 1 k by (cases j) auto
    then have "n div 10 < 10 ^ j"
      using 1 k by (simp add: less_mult_imp_div_less mult.commute)
    with 1 False k \<open>0 < j\<close> show ?thesis
      by (simp add: nat_str.simps [of n])
  qed
qed

lemma decimals_nat [simp]: "decimals (Suc f) (of_nat n) = 0"
  by simp

lemma fmt_g_nat:
  assumes "n < 1000000"
  shows "fmt_g (Fin (of_nat n)) = nat_str n"
proof (cases "n = 0")
  case True
  then show ?thesis by (simp add: fmt_g_def nat_str.simps [of 0])
next
  case False
  have len: "length (nat_str n) \<le> 6" "0 < length (nat_str n)"
    using assms by (auto intro: length_nat_str)
  have dec: "decimals 1100 (of_nat n) = 0"
    using decimals_nat [of 1099 n] by (simp add: numeral_eq_Suc)
  have "fmt_g_pos (of_nat n) = nat_str n"
    using len strip_zeros_pad [of "nat_str n"] length_strip_zeros [of "nat_str n"]
    by (simp add: fmt_g_pos_def dec Let_def)
  with False show ?thesis by (simp add: fmt_g_def)
qed

lemma takeWhile_digits:
  "\<forall>c \<in> set s. is_digit c \<Longrightarrow> takeWhile (\<lambda>c. c \<noteq> CHR ''e'' \<and> c \<noteq> CHR ''E'') s = s"
  by (auto simp: takeWhile_eq_all_conv is_digit_iff)

lemma parse_unsigned_nat_str: "parse_unsigned (nat_str n) = Some (of_nat n)"
proof -
  have "takeWhile (\<lambda>c. c \<noteq> CHR ''e'' \<and> c \<noteq> CHR ''E'') (nat_str n) = nat_str n"
    by (rule takeWhile_digits) (simp add: digit_in_nat_str)
  moreover have "cut_at CHR ''.'' (nat_str n) = (nat_str n, None)"
    by (rule cut_at_None) simp
  ultimately show ?thesis
    unfolding parse_unsigned_def Let_def by (simp only: split_conv) simp
qed

lemma to_lower_nat_str: "to_lower (nat_str n) = nat_str n"
proof -
  have "lower_char c = c" if "is_digit c" for c
    using that by (auto simp: lower_char_def is_upper_iff is_digit_iff)
  then show ?thesis
    unfolding to_lower_def by (metis digit_in_nat_str map_idI)
qed

lemma nat_str_not_word: "\<not> is_digit c \<Longrightarrow> nat_str n \<noteq> c # w"
  by (metis hd_nat_str list.sel(1))

lemma parse_float_nat_str:
  assumes "of_nat n < f_overflow"
  shows "parse_float (nat_str n) = Some (Fin (of_nat n))"
proof -
  have "\<not> is_digit CHR ''i''" "\<not> is_digit CHR ''n''"
    by (simp_all add: is_digit_iff)
  then have "nat_str n \<noteq> ''inf''" "nat_str n \<noteq> ''infinity''" "nat_str n \<noteq> ''nan''"
    by (simp_all add: nat_str_not_word)
  moreover have "hd (nat_str n) \<noteq> CHR ''-''" "hd (nat_str n) \<noteq> CHR ''+''"
    using hd_nat_str [of n] by auto
  ultimately show ?thesis
    using assms by (simp add: parse_float_def Let_def to_lower_nat_str parse_unsigned_nat_str)
qed

end
