(* ===== verification/Go_Time.thy ===== *)
theory Go_Time
  imports Go_Float
begin

text \<open>
  The parts of Go's package \<open>time\<close> the program uses. A \<open>Duration\<close> is an integer of nanoseconds, an
  instant a number of seconds (\<open>Unix\<close>) or of nanoseconds since 1970 in UTC. The clock fields of
  an instant (minute, hour, day, month, weekday) are those of the proleptic Gregorian calendar in
  a location, which the model takes as the function from an instant to the offset from UTC that
  holds there. \<open>ParseDuration\<close> follows the parser of the standard library, with its 64-bit overflow
  tests; the fraction is computed exactly.
\<close>

section \<open>Clock fields\<close>

text \<open>
  Days since 1970-01-01 to month and day: 400-year eras that start in March are cut into centuries,
  4-year cycles and years; the leap day is the last of its year, so the last century and the last
  year of a cycle may be one day longer.
\<close>

definition day_of_year :: "int \<Rightarrow> int" where
  "day_of_year doe =
     (let in_century = doe - 36524 * min 3 (doe div 36524);
          in_cycle = in_century mod 1461
      in in_cycle - 365 * min 3 (in_cycle div 365))"

definition month_and_day :: "int \<Rightarrow> int \<times> int" where
  "month_and_day days =
     (let doy = day_of_year ((days + 719468) mod 146097);
          mp = (5 * doy + 2) div 153
      in (if mp < 10 then mp + 3 else mp - 9, doy - (153 * mp + 2) div 5 + 1))"

record clock_fields =
  ck_minute :: int
  ck_hour :: int
  ck_day :: int
  ck_month :: int
  ck_weekday :: int

text \<open>\<open>zone t\<close> is the offset in seconds of the location at the instant \<open>t\<close>; Sunday is day 0 of the week.\<close>

definition clock :: "(int \<Rightarrow> int) \<Rightarrow> int \<Rightarrow> clock_fields" where
  "clock zone t =
     (let l = t + zone t; days = l div 86400; secs = l mod 86400
      in \<lparr>ck_minute = secs div 60 mod 60, ck_hour = secs div 3600,
          ck_day = snd (month_and_day days), ck_month = fst (month_and_day days),
          ck_weekday = (days + 4) mod 7\<rparr>)"

text \<open>The day of the year of every day of an era.\<close>

lemma day_of_year_bounds: "0 \<le> day_of_year doe \<and> day_of_year doe \<le> 365"
proof -
  define s where "s = (doe - 36524 * min 3 (doe div 36524)) mod 1461"
  have "0 \<le> s" "s < 1461" unfolding s_def by simp_all
  then show ?thesis
    unfolding day_of_year_def Let_def s_def [symmetric] by linarith
qed

lemma month_and_day_bounds:
  "1 \<le> fst (month_and_day d) \<and> fst (month_and_day d) \<le> 12 \<and>
   1 \<le> snd (month_and_day d) \<and> snd (month_and_day d) \<le> 31"
proof -
  obtain doy where doy: "doy = day_of_year ((d + 719468) mod 146097)" "0 \<le> doy" "doy \<le> 365"
    using day_of_year_bounds by blast
  define mp where "mp = (5 * doy + 2) div 153"
  have "0 \<le> mp" "mp \<le> 11" "153 * mp \<le> 5 * doy + 2" "5 * doy + 2 < 153 * mp + 153"
    using doy(2,3) unfolding mp_def by linarith+
  then show ?thesis
    unfolding month_and_day_def Let_def doy(1) [symmetric] mp_def [symmetric] by auto
qed

lemma clock_bounds:
  "0 \<le> ck_minute (clock zone t)" "ck_minute (clock zone t) \<le> 59"
  "0 \<le> ck_hour (clock zone t)" "ck_hour (clock zone t) \<le> 23"
  "1 \<le> ck_day (clock zone t)" "ck_day (clock zone t) \<le> 31"
  "1 \<le> ck_month (clock zone t)" "ck_month (clock zone t) \<le> 12"
  "0 \<le> ck_weekday (clock zone t)" "ck_weekday (clock zone t) \<le> 6"
proof -
  define s where "s = (t + zone t) mod 86400"
  have s: "0 \<le> s" "s < 86400" unfolding s_def by simp_all
  then have "0 \<le> s div 3600" "s div 3600 \<le> 23" by linarith+
  then show "0 \<le> ck_hour (clock zone t)" "ck_hour (clock zone t) \<le> 23"
    by (simp_all add: clock_def Let_def s_def)
  have m: "n mod k \<le> k - 1" if "0 < k" for n k :: int
    using pos_mod_bound [OF that, of n] by linarith
  show "0 \<le> ck_minute (clock zone t)" "ck_minute (clock zone t) \<le> 59"
    "0 \<le> ck_weekday (clock zone t)" "ck_weekday (clock zone t) \<le> 6"
    using m [of 60] m [of 7] by (simp_all add: clock_def Let_def)
  show "1 \<le> ck_day (clock zone t)" "ck_day (clock zone t) \<le> 31"
    "1 \<le> ck_month (clock zone t)" "ck_month (clock zone t) \<le> 12"
    using month_and_day_bounds by (simp_all add: clock_def Let_def)
qed

lemma leap_day: "month_and_day 19782 = (2, 29)" "month_and_day 19783 = (3, 1)" "month_and_day 0 = (1, 1)"
  by (simp_all add: month_and_day_def day_of_year_def Let_def)

section \<open>Parsing a duration\<close>

definition unit_nanos :: "(string \<times> int) list" where
  "unit_nanos =
     [(''ns'', 1), (''us'', 1000), ([CHR 0xC2, CHR 0xB5, CHR ''s''], 1000), ([CHR 0xCE, CHR 0xBC, CHR ''s''], 1000),
      (''ms'', 1000000), (''s'', 1000000000), (''m'', 60000000000), (''h'', 3600000000000)]"

text \<open>\<open>leadingFraction\<close>: digits that no longer fit are skipped.\<close>

fun frac_loop :: "bool \<Rightarrow> int \<Rightarrow> int \<Rightarrow> string \<Rightarrow> int \<times> int" where
  "frac_loop overflow x scale [] = (x, scale)"
| "frac_loop overflow x scale (c # s) =
     (if overflow then frac_loop True x scale s
      else if (2 ^ 63 - 1) div 10 < x then frac_loop True x scale s
      else (let y = x * 10 + int (digit_val c)
            in if 2 ^ 63 < y then frac_loop True x scale s else frac_loop False y (scale * 10) s))"

definition bad_duration :: "string \<Rightarrow> string \<Rightarrow> error" where
  "bad_duration what orig = Err (''time: '' @ what @ quote_str orig)"

definition not_num :: "char \<Rightarrow> bool" where
  "not_num c \<longleftrightarrow> c \<noteq> CHR ''.'' \<and> \<not> is_digit c"

lemma length_dropWhile_less: "s \<noteq> [] \<Longrightarrow> P (hd s) \<Longrightarrow> length (dropWhile P s) < length s"
  by (cases s) (simp_all add: length_dropWhile_le less_Suc_eq_le)

text \<open>One round of the loop: a number, its fraction and its unit; what is left of the text.\<close>

definition duration_part :: "string \<Rightarrow> string \<Rightarrow> (int \<times> string) res" where
  "duration_part orig s =
     (let digits = takeWhile is_digit s;
          s1 = dropWhile is_digit s;
          v = int (digits_val digits);
          dot = (s1 \<noteq> [] \<and> hd s1 = CHR ''.'');
          frac = (if dot then takeWhile is_digit (tl s1) else []);
          s2 = (if dot then dropWhile is_digit (tl s1) else s1);
          (f, scale) = frac_loop False 0 1 frac;
          u = takeWhile not_num s2;
          s3 = dropWhile not_num s2
      in if s = [] \<or> not_num (hd s) then Inl (bad_duration ''invalid duration '' orig)
         else if 2 ^ 63 < v then Inl (bad_duration ''invalid duration '' orig)
         else if digits = [] \<and> frac = [] then Inl (bad_duration ''invalid duration '' orig)
         else if u = [] then Inl (bad_duration ''missing unit in duration '' orig)
         else (case map_of unit_nanos u of
            None \<Rightarrow> Inl (Err (''time: unknown unit '' @ quote_str u @ '' in duration '' @ quote_str orig))
          | Some n \<Rightarrow>
              if 2 ^ 63 div n < v then Inl (bad_duration ''invalid duration '' orig)
              else (let t = v * n + (if 0 < f then f * n div scale else 0)
                    in if 0 < f \<and> 2 ^ 63 < t then Inl (bad_duration ''invalid duration '' orig)
                       else Inr (t, s3))))"

fun duration_loop :: "nat \<Rightarrow> string \<Rightarrow> int \<Rightarrow> string \<Rightarrow> int res" where
  "duration_loop 0 orig d s = Inr d"
| "duration_loop (Suc n) orig d s =
     (if s = [] then Inr d
      else (case duration_part orig s of
         Inl e \<Rightarrow> Inl e
       | Inr (t, rest) \<Rightarrow>
           (let d' = (d + t) mod 2 ^ 64
            in if 2 ^ 63 < d' then Inl (bad_duration ''invalid duration '' orig)
               else duration_loop n orig d' rest)))"

definition parse_duration :: "string \<Rightarrow> int res" where
  "parse_duration orig =
     (let signed = (orig \<noteq> [] \<and> (hd orig = CHR ''-'' \<or> hd orig = CHR ''+''));
          neg = (orig \<noteq> [] \<and> hd orig = CHR ''-'');
          s = (if signed then tl orig else orig)
      in if s = ''0'' then Inr 0
         else if s = [] then Inl (bad_duration ''invalid duration '' orig)
         else (case duration_loop (length s) orig 0 s of
            Inl e \<Rightarrow> Inl e
          | Inr d \<Rightarrow>
              if neg then Inr (- d)
              else if 2 ^ 63 - 1 < d then Inl (bad_duration ''invalid duration '' orig)
              else Inr d))"

text \<open>Every round consumes a character, so as many rounds as characters are enough.\<close>

lemma duration_part_consumes:
  assumes "duration_part orig s = Inr (t, rest)"
  shows "length rest < length s"
proof -
  define s1 where "s1 = dropWhile is_digit s"
  define s2 where "s2 = (if s1 \<noteq> [] \<and> hd s1 = CHR ''.'' then dropWhile is_digit (tl s1) else s1)"
  have "length s1 \<le> length s"
    unfolding s1_def by (rule length_dropWhile_le)
  moreover have "length s2 \<le> length s1"
    unfolding s2_def by (cases s1) (auto intro: le_SucI length_dropWhile_le)
  moreover from assms have u: "takeWhile not_num s2 \<noteq> []" and rest: "rest = dropWhile not_num s2"
    unfolding duration_part_def s1_def s2_def
    by (auto simp: Let_def split: if_splits prod.splits option.splits)
  from u have "length rest < length s2"
    unfolding rest by (cases s2) (auto simp: less_Suc_eq_le length_dropWhile_le split: if_splits)
  ultimately show ?thesis by linarith
qed

lemma duration_loop_fuel:
  "length s \<le> n \<Longrightarrow> duration_loop n orig d s = duration_loop (length s) orig d s"
proof (induction n arbitrary: d s rule: less_induct)
  case (less n)
  show ?case
  proof (cases s)
    case Nil
    then show ?thesis by (cases n) simp_all
  next
    case (Cons c s')
    then obtain m where n: "n = Suc m" using less.prems by (cases n) auto
    have "duration_loop m orig d' rest = duration_loop (length s') orig d' rest"
      if "duration_part orig s = Inr (t, rest)" for t rest d'
    proof -
      from duration_part_consumes [OF that] Cons have "length rest \<le> length s'" by simp
      moreover have "length s' \<le> m" using less.prems Cons n by simp
      ultimately show ?thesis
        using less.IH [of m rest d'] less.IH [of "length s'" rest d'] n by simp
    qed
    with Cons n show ?thesis
      by (simp add: Let_def split: sum.splits prod.splits)
  qed
qed

end
