(* ===== verification/Task_Accel.thy ===== *)
theory Task_Accel
  imports Go_Float
begin

text \<open>
  Accelerator requests, \<open>internal/task/accelerators.go\<close>: a map from an accelerator name to a
  count, written in a task as \<open>"A100:4,T4"\<close>, as a list or as a map.
\<close>

section \<open>Decoded values\<close>

text \<open>
  The \<open>any\<close> a YAML or JSON decoder produces: \<open>AMap\<close> is Go's \<open>map[any]any\<close>, \<open>AObj\<close> its
  \<open>map[string]any\<close>.
\<close>

datatype any = ANil | ABool bool | AInt int | AFloat f64 | AStr string
  | AList "any list" | AMap "(any \<times> any) list" | AObj "(string \<times> any) list"

text \<open>\<open>fmt.Sprintf("%v", x)\<close>; the entries of a map are printed by the text of their keys.\<close>

fun fmt_v :: "any \<Rightarrow> string" where
  "fmt_v ANil = ''<nil>''"
| "fmt_v (ABool b) = (if b then ''true'' else ''false'')"
| "fmt_v (AInt i) = itoa i"
| "fmt_v (AFloat f) = fmt_g f"
| "fmt_v (AStr s) = s"
| "fmt_v (AList xs) = ''['' @ join_with '' '' (map fmt_v xs) @ '']''"
| "fmt_v (AMap m) = ''map['' @ join_with '' '' (sort (map (\<lambda>(k, v). fmt_v k @ '':'' @ fmt_v v) m)) @ '']''"
| "fmt_v (AObj m) = ''map['' @ join_with '' '' (sort (map (\<lambda>(k, v). k @ '':'' @ fmt_v v) m)) @ '']''"

text \<open>\<open>%T\<close>.\<close>

fun fmt_T :: "any \<Rightarrow> string" where
  "fmt_T ANil = ''<nil>''"
| "fmt_T (ABool b) = ''bool''"
| "fmt_T (AInt i) = ''int''"
| "fmt_T (AFloat f) = ''float64''"
| "fmt_T (AStr s) = ''string''"
| "fmt_T (AList xs) = ''[]interface {}''"
| "fmt_T (AMap m) = ''map[interface {}]interface {}''"
| "fmt_T (AObj m) = ''map[string]interface {}''"

section \<open>Parsing and printing\<close>

text \<open>\<open>Accelerators\<close>: the nil map is the empty one, no caller tells them apart.\<close>

type_synonym accelerators = "(string \<times> int) list"

definition accelerator_part :: "accelerators \<Rightarrow> string \<Rightarrow> string" where
  "accelerator_part a name =
     (case mget a name of
        Some n \<Rightarrow> if n = 1 then name else name @ '':'' @ itoa n
      | None \<Rightarrow> name)"

definition accelerators_string :: "accelerators \<Rightarrow> string" where
  "accelerators_string a = (if a = [] then [] else join_with '','' (map (accelerator_part a) (sorted_keys a)))"

definition add_accelerator :: "accelerators \<Rightarrow> string \<Rightarrow> bool \<Rightarrow> accelerators" where
  "add_accelerator result item0 no_count =
     (let item = trim_space item0
      in if item = [] then result
         else (case cut_at CHR '':'' item of
                 (_, None) \<Rightarrow> mput item 1 result
               | (name, Some r) \<Rightarrow>
                   if no_count then mput item 1 result
                   else (let count = (case atoi (trim_space (fst (cut_at CHR '':'' r))) of
                                        None \<Rightarrow> 1
                                      | Some n \<Rightarrow> if n \<le> 0 then 1 else n)
                         in mput (trim_space name) count result)))"

text \<open>The two loops over a map: \<open>map[any]any\<close> takes \<open>int\<close> counts only, \<open>map[string]any\<close> also
  \<open>float64\<close> ones, and neither looks at the sign.\<close>

fun accel_any_map :: "(any \<times> any) list \<Rightarrow> accelerators \<Rightarrow> accelerators res" where
  "accel_any_map [] result = Inr result"
| "accel_any_map ((k, v) # m) result =
     (case v of
        AInt n \<Rightarrow> accel_any_map m (mput (fmt_v k) n result)
      | _ \<Rightarrow> Inl (Err (''invalid accelerator count '' @ fmt_v v @ '' for '' @ fmt_v k)))"

fun accel_str_map :: "(string \<times> any) list \<Rightarrow> accelerators \<Rightarrow> accelerators res" where
  "accel_str_map [] result = Inr result"
| "accel_str_map ((k, v) # m) result =
     (case v of
        AInt n \<Rightarrow> accel_str_map m (mput k n result)
      | AFloat f \<Rightarrow> accel_str_map m (mput k (f_trunc f) result)
      | _ \<Rightarrow> Inl (Err (''invalid accelerator count '' @ fmt_v v @ '' for '' @ k)))"

definition add_all :: "accelerators \<Rightarrow> string list \<Rightarrow> accelerators" where
  "add_all result items = foldl (\<lambda>acc item. add_accelerator acc item False) result items"

definition parse_accelerators :: "any \<Rightarrow> accelerators res" where
  "parse_accelerators spec =
     (case spec of
        ANil \<Rightarrow> Inr []
      | AStr v \<Rightarrow> Inr (add_all [] (split_on CHR '','' v))
      | AList v \<Rightarrow> Inr (add_all [] (map fmt_v v))
      | AMap m \<Rightarrow> accel_any_map m []
      | AObj m \<Rightarrow> accel_str_map m []
      | _ \<Rightarrow> Inl (Err (''accelerators must be a string (e.g. '' @ quote_str ''A100:4''
                       @ ''), a list, or a map, got '' @ fmt_T spec)))"

section \<open>What parsing promises\<close>

lemma add_all_Nil [simp]: "add_all acc [] = acc"
  by (simp add: add_all_def)

lemma add_all_Cons [simp]: "add_all acc (x # xs) = add_all (add_accelerator acc x False) xs"
  by (simp add: add_all_def)

text \<open>A count read from text is positive, and a name is never surrounded by space.\<close>

definition accel_ok :: "accelerators \<Rightarrow> bool" where
  "accel_ok a \<longleftrightarrow> wf_map a \<and> (\<forall>(k, n) \<in> set a. 1 \<le> n \<and> no_outer_space k)"

lemma accel_ok_mput:
  assumes "accel_ok a" and "1 \<le> n" and "no_outer_space k"
  shows "accel_ok (mput k n a)"
proof -
  have "\<forall>(k', n') \<in> set (mput k n a). (k', n') = (k, n) \<or> (k', n') \<in> set a"
    by (induction a) auto
  with assms show ?thesis
    unfolding accel_ok_def by (auto simp: distinct_update)
qed

lemma accel_ok_add_accelerator: "accel_ok a \<Longrightarrow> accel_ok (add_accelerator a item nc)"
  by (auto simp: add_accelerator_def Let_def no_outer_space_trim_space
      intro!: accel_ok_mput split: prod.splits option.splits)

lemma accel_ok_add_all: "accel_ok a \<Longrightarrow> accel_ok (add_all a items)"
  by (induction items arbitrary: a) (auto intro: accel_ok_add_accelerator)

lemma wf_accel_any_map: "accel_any_map m a = Inr b \<Longrightarrow> wf_map a \<Longrightarrow> wf_map b"
  by (induction m a rule: accel_any_map.induct) (auto split: any.splits)

lemma wf_accel_str_map: "accel_str_map m a = Inr b \<Longrightarrow> wf_map a \<Longrightarrow> wf_map b"
  by (induction m a rule: accel_str_map.induct) (auto split: any.splits)

lemma parse_accelerators_wf: "parse_accelerators spec = Inr a \<Longrightarrow> wf_map a"
  using accel_ok_add_all [of "[]"]
  by (auto simp: parse_accelerators_def accel_ok_def split: any.splits
      intro: wf_accel_any_map wf_accel_str_map)

section \<open>Printing and parsing back\<close>

text \<open>The names a request can carry through its text form.\<close>

definition plain_name :: "string \<Rightarrow> bool" where
  "plain_name n \<longleftrightarrow> n \<noteq> [] \<and> no_outer_space n \<and> CHR '':'' \<notin> set n \<and> CHR '','' \<notin> set n"

lemma no_outer_space_nat_str: "no_outer_space (nat_str n)"
proof -
  have "\<not> is_space c" if "c \<in> set (nat_str n)" for c
    using digit_in_nat_str [OF that] by (auto simp: is_digit_iff is_space_def)
  then show ?thesis by (simp add: no_outer_space_def)
qed

lemma no_outer_space_itoa: "no_outer_space (itoa i)"
  using no_outer_space_nat_str by (auto simp: itoa_def no_outer_space_def is_space_def)

lemma not_in_itoa [simp]: "\<not> is_digit c \<Longrightarrow> c \<noteq> CHR ''-'' \<Longrightarrow> c \<notin> set (itoa i)"
  by (simp add: itoa_def)

lemma itoa_not_Nil [simp]: "itoa i \<noteq> []"
  by (simp add: itoa_def)

lemma add_accelerator_part:
  assumes "plain_name name" and "mget a name = Some n" and "1 \<le> n" and "int64_ok n"
  shows "add_accelerator acc (accelerator_part a name) False = mput name n acc"
proof (cases "n = 1")
  case True
  with assms show ?thesis
    by (simp add: add_accelerator_def accelerator_part_def plain_name_def trim_space_id cut_at_None)
next
  case False
  let ?item = "name @ CHR '':'' # itoa n"
  have "no_outer_space ?item"
    using assms(1) no_outer_space_itoa [of n] by (cases name) (auto simp: plain_name_def no_outer_space_def)
  moreover have "cut_at CHR '':'' ?item = (name, Some (itoa n))"
    using assms(1) by (simp add: plain_name_def cut_at_append)
  moreover have "cut_at CHR '':'' (itoa n) = (itoa n, None)"
    by (simp add: cut_at_None)
  ultimately show ?thesis
    using assms False
    by (simp add: add_accelerator_def accelerator_part_def plain_name_def trim_space_id
        no_outer_space_itoa atoi_itoa)
qed

lemma add_all_parts:
  assumes "\<forall>k \<in> set ks. \<exists>n. plain_name k \<and> mget a k = Some n \<and> 1 \<le> n \<and> int64_ok n"
  shows "mget (add_all acc (map (accelerator_part a) ks)) =
    (\<lambda>k. if k \<in> set ks then mget a k else mget acc k)"
  using assms
proof (induction ks arbitrary: acc)
  case Nil
  then show ?case by simp
next
  case (Cons k ks)
  from Cons.prems obtain n where "mget a k = Some n" "plain_name k" "1 \<le> n" "int64_ok n"
    by auto
  with Cons show ?case
    by (auto simp: add_accelerator_part fun_eq_iff)
qed

definition printable_accel :: "accelerators \<Rightarrow> bool" where
  "printable_accel a \<longleftrightarrow> wf_map a \<and> (\<forall>(k, n) \<in> set a. plain_name k \<and> 1 \<le> n \<and> int64_ok n)"

lemma printable_keys:
  assumes "printable_accel a" and "k \<in> fst ` set a"
  shows "\<exists>n. plain_name k \<and> mget a k = Some n \<and> 1 \<le> n \<and> int64_ok n"
proof -
  from assms obtain n where "(k, n) \<in> set a"
    by auto
  moreover have "mget a k = Some n"
    using assms(1) calculation by (simp add: printable_accel_def)
  ultimately show ?thesis
    using assms(1) by (auto simp: printable_accel_def)
qed

lemma accelerators_roundtrip_aux:
  assumes "printable_accel a"
  shows "\<exists>b. parse_accelerators (AStr (accelerators_string a)) = Inr b \<and> wf_map b \<and> mget b = mget a"
proof (cases "a = []")
  case True
  then show ?thesis
    by (simp add: parse_accelerators_def accelerators_string_def add_accelerator_def trim_space_def
        trim_left_def)
next
  case False
  let ?ks = "sorted_keys a"
  have part: "CHR '','' \<notin> set (accelerator_part a k)" if "k \<in> set ?ks" for k
    using printable_keys [OF assms, of k] that
    by (auto simp: accelerator_part_def plain_name_def split: if_splits)
  have "?ks \<noteq> []"
    using False by (metis length_0_conv length_sorted_keys)
  then have "split_on CHR '','' (accelerators_string a) = map (accelerator_part a) ?ks"
    using False part unfolding accelerators_string_def by (simp add: split_on_join)
  then have "parse_accelerators (AStr (accelerators_string a)) =
      Inr (add_all [] (map (accelerator_part a) ?ks))"
    by (simp add: parse_accelerators_def)
  moreover have "mget (add_all [] (map (accelerator_part a) ?ks)) = mget a"
    using add_all_parts [of ?ks a "[]"] printable_keys [OF assms]
    by (fastforce simp: fun_eq_iff map_of_eq_None_iff [THEN iffD2])
  ultimately show ?thesis
    using parse_accelerators_wf by blast
qed

end
