(* ===== verification/Task_Range.thy ===== *)
theory Task_Range
  imports Go_Float
begin

text \<open>
  Numeric ranges, \<open>internal/task/range.go\<close>: \<open>"8"\<close>, \<open>"8+"\<close>, \<open>"-8"\<close> and \<open>"4-8"\<close>, their test, their
  text and the way back.
\<close>

record range =
  rmin :: "f64 option"
  rmax :: "f64 option"

definition parse_float_err :: "string \<Rightarrow> string" where
  "parse_float_err s = ''strconv.ParseFloat: parsing '' @ quote_str s @ '': invalid syntax''"

text \<open>One bound, with the error of \<open>ParseFloat\<close> behind the function's own text (the error of a value
  too large is reported with the text of a syntax error).\<close>

definition parse_bound :: "string \<Rightarrow> string \<Rightarrow> string \<Rightarrow> f64 res" where
  "parse_bound what shown s =
     (case parse_float (trim_space s) of
        Some v \<Rightarrow> Inr v
      | None \<Rightarrow> Inl (Err (''invalid range '' @ what @ '' '' @ quote_str shown @ '': ''
                          @ parse_float_err (trim_space s))))"

definition parse_range :: "string \<Rightarrow> range option res" where
  "parse_range s0 =
     (if s0 = [] then Inr None
      else
        (let s1 = trim_space s0;
             lower0 = has_suffix s1 ''+'';
             upper0 = (\<not> lower0 \<and> has_prefix s1 ''-'');
             s = (if lower0 then trim_suffix s1 ''+'' else if upper0 then trim_prefix s1 ''-'' else s1)
         in case cut_at CHR ''-'' s of
              (p, None) \<Rightarrow>
                bind_res (parse_bound ''value'' s p) (\<lambda>v.
                  Inr (Some (if lower0 then \<lparr>rmin = Some v, rmax = None\<rparr>
                             else if upper0 then \<lparr>rmin = None, rmax = Some v\<rparr>
                             else \<lparr>rmin = Some v, rmax = Some v\<rparr>)))
            | (p, Some q) \<Rightarrow>
                (let upper = (upper0 \<or> trim_space p = []);
                     lower = (lower0 \<or> trim_space q = [])
                 in bind_res
                      (if lower then Inr None
                       else map_sum id Some (parse_bound ''lower bound'' p p)) (\<lambda>lo.
                    bind_res
                      (if upper then Inr None
                       else map_sum id Some (parse_bound ''upper bound'' q q)) (\<lambda>hi.
                    Inr (Some \<lparr>rmin = lo, rmax = hi\<rparr>))))))"

definition range_matches :: "range option \<Rightarrow> f64 \<Rightarrow> bool" where
  "range_matches r v =
     (case r of
        None \<Rightarrow> True
      | Some r \<Rightarrow>
          (case rmin r of Some lo \<Rightarrow> \<not> f_lt v lo | None \<Rightarrow> True) \<and>
          (case rmax r of Some hi \<Rightarrow> \<not> f_lt hi v | None \<Rightarrow> True))"

definition range_string :: "range option \<Rightarrow> string" where
  "range_string r =
     (case r of
        None \<Rightarrow> []
      | Some r \<Rightarrow>
          (case (rmin r, rmax r) of
             (Some lo, Some hi) \<Rightarrow>
               if f_eq lo hi then fmt_g lo else fmt_g lo @ ''-'' @ fmt_g hi
           | (Some lo, None) \<Rightarrow> fmt_g lo @ ''+''
           | (None, Some hi) \<Rightarrow> ''-'' @ fmt_g hi
           | (None, None) \<Rightarrow> []))"

text \<open>
  \<open>UnmarshalYAML\<close> and \<open>UnmarshalJSON\<close> have the same body over a decoder that is asked for a string
  first and for a number next: \<open>as_str\<close> and \<open>as_num\<close> are its two answers, \<open>r\<close> the receiver.
\<close>

definition range_unmarshal :: "string option \<Rightarrow> f64 option \<Rightarrow> range \<Rightarrow> range res" where
  "range_unmarshal as_str as_num r =
     (case as_str of
        Some s \<Rightarrow> bind_res (parse_range s) (\<lambda>parsed. case parsed of None \<Rightarrow> Inr r | Some p \<Rightarrow> Inr p)
      | None \<Rightarrow>
          (case as_num of
             Some f \<Rightarrow> Inr \<lparr>rmin = Some f, rmax = Some f\<rparr>
           | None \<Rightarrow> Inl (Err ''range must be a number or a range string like 4+, 4-8'')))"

section \<open>Round trip\<close>

text \<open>The ranges with at least one bound and natural bounds below a million.\<close>

definition nat_bound :: "f64 option \<Rightarrow> bool" where
  "nat_bound b = (case b of
      None \<Rightarrow> True
    | Some (Fin q) \<Rightarrow> 0 \<le> q \<and> q < 1000000 \<and> q = of_int \<lfloor>q\<rfloor>
    | _ \<Rightarrow> False)"

definition nat_range :: "range \<Rightarrow> bool" where
  "nat_range r \<longleftrightarrow> nat_bound (rmin r) \<and> nat_bound (rmax r) \<and> (rmin r \<noteq> None \<or> rmax r \<noteq> None)"

lemma nat_bound_Some:
  assumes "nat_bound (Some f)"
  obtains n where "f = Fin (of_nat n)" and "n < 1000000"
proof -
  from assms obtain q where q: "f = Fin q" "0 \<le> q" "q < 1000000" "q = of_int \<lfloor>q\<rfloor>"
    by (auto simp: nat_bound_def split: f64.splits)
  then have "q = of_nat (nat \<lfloor>q\<rfloor>)"
    by (metis of_nat_nat zero_le_floor of_int_of_nat_eq)
  moreover from this q have "nat \<lfloor>q\<rfloor> < 1000000"
    by (simp add: floor_less_iff nat_less_iff)
  ultimately show ?thesis
    using that q(1) by metis
qed

lemma nat_str_no_space: "trim_space (nat_str n) = nat_str n"
proof -
  have "\<not> is_space c" if "c \<in> set (nat_str n)" for c
    using digit_in_nat_str [OF that] by (auto simp: is_digit_iff is_space_def)
  then show ?thesis
    by (simp add: trim_space_id no_outer_space_def)
qed

lemma parse_bound_nat:
  assumes "n < 1000000"
  shows "parse_bound what shown (nat_str n) = Inr (Fin (of_nat n))"
proof -
  have "of_nat n < f_overflow"
    using assms by (simp add: f_overflow_def)
  then show ?thesis
    by (simp add: parse_bound_def nat_str_no_space parse_float_nat_str)
qed

lemma no_space_sign: "\<not> is_space CHR ''+''" "\<not> is_space CHR ''-''"
  by (simp_all add: is_space_def)

lemma outer_digits:
  "\<not> is_space (hd (nat_str n))" "\<not> is_space (last (nat_str n))" "last (nat_str n) \<noteq> CHR ''+''"
  "hd (nat_str n) \<noteq> CHR ''-''"
proof -
  have "is_digit (hd (nat_str n))" "is_digit (last (nat_str n))"
    by (rule digit_in_nat_str [OF hd_in_set], simp, rule digit_in_nat_str [OF last_in_set], simp)
  then show "\<not> is_space (hd (nat_str n))" "\<not> is_space (last (nat_str n))"
    "last (nat_str n) \<noteq> CHR ''+''" "hd (nat_str n) \<noteq> CHR ''-''"
    by (auto simp: is_digit_iff is_space_def)
qed

lemma has_suffix_last: "s \<noteq> [] \<Longrightarrow> has_suffix s [c] \<longleftrightarrow> last s = c"
  by (cases s rule: rev_cases) (simp_all add: has_suffix_snoc)

lemma has_prefix_hd: "s \<noteq> [] \<Longrightarrow> has_prefix s [c] \<longleftrightarrow> hd s = c"
  by (cases s) (simp_all add: has_prefix_Cons)

lemma parse_range_exact:
  assumes "n < 1000000"
  shows "parse_range (nat_str n) = Inr (Some \<lparr>rmin = Some (Fin (of_nat n)), rmax = Some (Fin (of_nat n))\<rparr>)"
  using assms
  by (simp add: parse_range_def nat_str_no_space has_suffix_last has_prefix_hd outer_digits
      cut_at_None parse_bound_nat)

lemma parse_range_from:
  assumes "n < 1000000"
  shows "parse_range (nat_str n @ ''+'') = Inr (Some \<lparr>rmin = Some (Fin (of_nat n)), rmax = None\<rparr>)"
proof -
  have "trim_space (nat_str n @ ''+'') = nat_str n @ ''+''"
    by (rule trim_space_id) (simp add: no_outer_space_def outer_digits no_space_sign)
  then show ?thesis
    using assms by (simp add: parse_range_def has_suffix_last cut_at_None parse_bound_nat)
qed

lemma parse_range_upto:
  assumes "n < 1000000"
  shows "parse_range (''-'' @ nat_str n) = Inr (Some \<lparr>rmin = None, rmax = Some (Fin (of_nat n))\<rparr>)"
proof -
  have "trim_space (''-'' @ nat_str n) = ''-'' @ nat_str n"
    by (rule trim_space_id) (simp add: no_outer_space_def outer_digits no_space_sign)
  moreover have "trim_prefix (CHR ''-'' # nat_str n) ''-'' = nat_str n"
    by (simp add: trim_prefix_def has_prefix_Cons)
  ultimately show ?thesis
    using assms
    by (simp add: parse_range_def has_suffix_last has_prefix_hd outer_digits cut_at_None parse_bound_nat)
qed

lemma parse_range_between:
  assumes "n < 1000000" and "m < 1000000"
  shows "parse_range (nat_str n @ ''-'' @ nat_str m) =
    Inr (Some \<lparr>rmin = Some (Fin (of_nat n)), rmax = Some (Fin (of_nat m))\<rparr>)"
proof -
  have "trim_space (nat_str n @ ''-'' @ nat_str m) = nat_str n @ ''-'' @ nat_str m"
    by (rule trim_space_id) (simp add: no_outer_space_def outer_digits)
  moreover have "cut_at CHR ''-'' (nat_str n @ CHR ''-'' # nat_str m) = (nat_str n, Some (nat_str m))"
    by (simp add: cut_at_append)
  ultimately show ?thesis
    using assms
    by (simp add: parse_range_def has_suffix_last has_prefix_hd outer_digits nat_str_no_space parse_bound_nat)
qed

lemma range_roundtrip_aux:
  assumes "nat_range r"
  shows "parse_range (range_string (Some r)) = Inr (Some r)"
proof (cases r)
  case (fields lo hi)
  show ?thesis
  proof (cases lo; cases hi)
    assume "lo = None" "hi = None"
    with assms fields show ?thesis by (simp add: nat_range_def)
  next
    fix b assume h: "lo = None" "hi = Some b"
    with assms fields obtain n where "b = Fin (of_nat n)" "n < 1000000"
      by (auto simp: nat_range_def elim: nat_bound_Some)
    with h fields show ?thesis
      using parse_range_upto [of n] by (simp add: range_string_def fmt_g_nat)
  next
    fix a assume h: "lo = Some a" "hi = None"
    with assms fields obtain n where "a = Fin (of_nat n)" "n < 1000000"
      by (auto simp: nat_range_def elim: nat_bound_Some)
    with h fields show ?thesis
      using parse_range_from [of n] by (simp add: range_string_def fmt_g_nat)
  next
    fix a b assume h: "lo = Some a" "hi = Some b"
    with assms fields obtain n m where "a = Fin (of_nat n)" "n < 1000000" "b = Fin (of_nat m)" "m < 1000000"
      by (auto simp: nat_range_def elim!: nat_bound_Some)
    with h fields show ?thesis
      using parse_range_between [of n m] parse_range_exact [of n]
      by (auto simp: range_string_def fmt_g_nat f_eq_def)
  qed
qed

text \<open>Whatever a range matches lies between its bounds.\<close>

lemma range_matches_iff:
  "range_matches (Some r) (Fin v) \<longleftrightarrow>
     (\<forall>lo. rmin r = Some (Fin lo) \<longrightarrow> lo \<le> v) \<and> (\<forall>hi. rmax r = Some (Fin hi) \<longrightarrow> v \<le> hi) \<and>
     rmin r \<noteq> Some PInf \<and> rmax r \<noteq> Some NInf"
  by (cases "rmin r"; cases "rmax r")
    (auto simp: range_matches_def not_less f_lt_def split: option.splits f64.splits)

end
