(* ===== verification/Task_Resources.thy ===== *)
theory Task_Resources
  imports Task_Accel Task_Range
begin

text \<open>
  Resource requirements and credentials of a task, \<open>internal/task/resources.go\<close> and
  \<open>internal/task/credentials.go\<close>: what the user asks for, the failover list with its inherited
  defaults, validation and text.
\<close>

section \<open>Resources\<close>

text \<open>
  The struct without its list of alternatives, and the struct: a nil pointer is \<open>None\<close>, a nil map
  the empty one (the code only asks for its length).
\<close>

record res_fields =
  r_cloud :: string
  r_region :: string
  r_zone :: string
  r_instance_type :: string
  r_cpus :: "range option"
  r_memory :: "range option"
  r_disk :: "range option"
  r_accel :: accelerators
  r_use_spot :: "bool option"
  r_time_sec :: "int option"
  r_labels :: "string smap"

datatype resources = Resources (res_f: res_fields) (res_ordered: "resources list")

definition no_fields :: res_fields where
  "no_fields = \<lparr>r_cloud = [], r_region = [], r_zone = [], r_instance_type = [], r_cpus = None,
     r_memory = None, r_disk = None, r_accel = [], r_use_spot = None, r_time_sec = None, r_labels = []\<rparr>"

definition default_resources :: resources where
  "default_resources = Resources no_fields []"

text \<open>\<open>rawResources\<close>: accelerators as decoded, the entries of \<open>ordered\<close> already decoded; a null entry is
  a nil pointer.\<close>

record raw_resources =
  raw_fields :: res_fields
  raw_accel :: any
  raw_ordered :: "resources option list"

text \<open>\<open>if r.X == "" { r.X = base.X }\<close>, for every notion of an unset field.\<close>

definition if_unset :: "('a \<Rightarrow> bool) \<Rightarrow> 'a \<Rightarrow> 'a \<Rightarrow> 'a" where
  "if_unset unset own inherited = (if unset own then inherited else own)"

definition fill_fields_from :: "res_fields \<Rightarrow> res_fields \<Rightarrow> res_fields" where
  "fill_fields_from r base =
     \<lparr>r_cloud = if_unset ((=) []) (r_cloud r) (r_cloud base),
      r_region = if_unset ((=) []) (r_region r) (r_region base),
      r_zone = if_unset ((=) []) (r_zone r) (r_zone base),
      r_instance_type = if_unset ((=) []) (r_instance_type r) (r_instance_type base),
      r_cpus = if_unset ((=) None) (r_cpus r) (r_cpus base),
      r_memory = if_unset ((=) None) (r_memory r) (r_memory base),
      r_disk = if_unset ((=) None) (r_disk r) (r_disk base),
      r_accel = if_unset (\<lambda>a. length a = 0) (r_accel r) (r_accel base),
      r_use_spot = if_unset ((=) None) (r_use_spot r) (r_use_spot base),
      r_time_sec = if_unset ((=) None) (r_time_sec r) (r_time_sec base),
      r_labels = if_unset (\<lambda>a. length a = 0) (r_labels r) (r_labels base)\<rparr>"

definition fill_defaults_from :: "resources \<Rightarrow> resources \<Rightarrow> resources" where
  "fill_defaults_from r base = Resources (fill_fields_from (res_f r) (res_f base)) (res_ordered r)"

text \<open>The loop over \<open>raw.Ordered\<close>: filling a nil entry dereferences it.\<close>

fun append_ordered :: "resources \<Rightarrow> resources option list \<Rightarrow> resources res" where
  "append_ordered r [] = Inr r"
| "append_ordered r (None # es) = Inl (Panic ''nil pointer dereference'')"
| "append_ordered r (Some e # es) =
     append_ordered (Resources (res_f r) (res_ordered r @ [fill_defaults_from e r])) es"

definition unmarshal_resources :: "raw_resources \<Rightarrow> resources res" where
  "unmarshal_resources raw =
     bind_res (if raw_accel raw = ANil then Inr [] else parse_accelerators (raw_accel raw)) (\<lambda>accel.
       append_ordered (Resources ((raw_fields raw)\<lparr>r_accel := accel\<rparr>) []) (raw_ordered raw))"

definition resources_nothing :: "resources option \<Rightarrow> bool" where
  "resources_nothing ro =
     (case ro of
        None \<Rightarrow> True
      | Some r \<Rightarrow>
          (let f = res_f r
           in r_cloud f = [] \<and> r_region f = [] \<and> r_zone f = [] \<and> r_instance_type f = [] \<and>
              r_cpus f = None \<and> r_memory f = None \<and> r_disk f = None \<and>
              length (r_accel f) = 0 \<and> r_use_spot f = None \<and> r_time_sec f = None \<and>
              length (r_labels f) = 0 \<and> length (res_ordered r) = 0))"

definition valid_cloud_char :: "char \<Rightarrow> bool" where
  "valid_cloud_char c \<longleftrightarrow>
     is_lower c \<or> is_upper c \<or> is_digit c \<or> c = CHR ''-'' \<or> c = CHR ''_''"

definition valid_cloud_name :: "string \<Rightarrow> bool" where
  "valid_cloud_name name \<longleftrightarrow> list_all valid_cloud_char name \<and> trim_space name \<noteq> []"

definition validate_resources :: "resources option \<Rightarrow> error option" where
  "validate_resources ro =
     (case ro of
        None \<Rightarrow> Some (Err ''resources must not be nil'')
      | Some r \<Rightarrow>
          if r_cloud (res_f r) \<noteq> [] \<and> \<not> valid_cloud_name (r_cloud (res_f r))
          then Some (Err (''unknown cloud '' @ quote_str (r_cloud (res_f r))))
          else None)"

definition resources_string :: "resources \<Rightarrow> string" where
  "resources_string r =
     (let f = res_f r;
          parts =
            (if r_instance_type f \<noteq> [] then [r_instance_type f] else []) @
            (if 0 < length (r_accel f) then [accelerators_string (r_accel f)] else []) @
            (if r_cpus f \<noteq> None then [''cpus:'' @ range_string (r_cpus f)] else []) @
            (if r_memory f \<noteq> None then [''mem:'' @ range_string (r_memory f)] else []) @
            (if r_disk f \<noteq> None then [''disk:'' @ range_string (r_disk f)] else []) @
            (if r_cloud f \<noteq> [] then [''cloud:'' @ r_cloud f] else []) @
            (if r_region f \<noteq> [] then [r_region f] else []) @
            (if r_zone f \<noteq> [] then [r_zone f] else []) @
            (if r_use_spot f = Some True then [''spot''] else []) @
            (case r_time_sec f of Some t \<Rightarrow> [''time:'' @ itoa t @ ''s''] | None \<Rightarrow> []) @
            (if 0 < length (res_ordered r) then [''ordered:'' @ itoa (int (length (res_ordered r)))] else [])
      in if length parts = 0 then ''[default]'' else join_with '', '' parts)"

section \<open>Inheritance\<close>

lemma if_unset_simps [simp]:
  "if_unset u x x = x"
  "if_unset u (if_unset u x y) y = if_unset u x y"
  "if_unset u (if_unset u x y) z = if_unset u x (if_unset u y z)"
  "u x \<Longrightarrow> if_unset u x y = y"
  "\<not> u x \<Longrightarrow> if_unset u x y = x"
  by (auto simp: if_unset_def)

lemma if_unset_unset [simp]: "(\<And>z. u z \<longleftrightarrow> z = y) \<Longrightarrow> if_unset u x y = x"
  by (auto simp: if_unset_def)

lemma fill_fields_idem [simp]: "fill_fields_from (fill_fields_from r b) b = fill_fields_from r b"
  by (simp add: fill_fields_from_def)

lemma fill_fields_self [simp]: "fill_fields_from r r = r"
  by (cases r) (simp add: fill_fields_from_def)

lemma fill_fields_no_fields [simp]: "fill_fields_from no_fields b = b"
  by (cases b) (simp add: fill_fields_from_def no_fields_def)

lemma fill_fields_assoc:
  "fill_fields_from (fill_fields_from r b) c = fill_fields_from r (fill_fields_from b c)"
  by (simp add: fill_fields_from_def)

lemma append_ordered_fields: "append_ordered r es = Inr r' \<Longrightarrow> res_f r' = res_f r"
  by (induction r es rule: append_ordered.induct) auto

lemma append_ordered_Inr:
  "append_ordered r es = Inr r' \<Longrightarrow>
   None \<notin> set es \<and>
   res_ordered r' = res_ordered r @ map (\<lambda>e. fill_defaults_from (the e) (Resources (res_f r) [])) es"
  by (induction r es rule: append_ordered.induct) (auto simp: fill_defaults_from_def)

lemma append_ordered_panics: "None \<in> set es \<Longrightarrow> \<exists>s. append_ordered r es = Inl (Panic s)"
  by (induction r es rule: append_ordered.induct) auto

lemma append_ordered_total: "None \<notin> set es \<Longrightarrow> \<exists>r'. append_ordered r es = Inr r'"
  by (induction r es rule: append_ordered.induct) auto

lemma unmarshal_resources_Inr:
  assumes "unmarshal_resources raw = Inr r"
  obtains a where
    "raw_accel raw = ANil \<and> a = [] \<or> parse_accelerators (raw_accel raw) = Inr a"
    and "res_f r = (raw_fields raw)\<lparr>r_accel := a\<rparr>"
    and "None \<notin> set (raw_ordered raw)"
    and "res_ordered r =
           map (\<lambda>e. Resources (fill_fields_from (res_f (the e)) (res_f r)) (res_ordered (the e))) (raw_ordered raw)"
proof -
  from assms obtain a where a: "raw_accel raw = ANil \<and> a = [] \<or> parse_accelerators (raw_accel raw) = Inr a"
    and r: "append_ordered (Resources ((raw_fields raw)\<lparr>r_accel := a\<rparr>) []) (raw_ordered raw) = Inr r"
    unfolding unmarshal_resources_def bind_res_Inr by (auto split: if_splits)
  from append_ordered_fields [OF r] append_ordered_Inr [OF r] show ?thesis
    by (intro that [OF a]) (auto simp: fill_defaults_from_def)
qed

section \<open>Credentials\<close>

record cloud_credentials =
  access_key_id :: string
  secret_access_key :: string
  cred_region :: string

text \<open>\<open>Credentials.Clouds\<close>: a JSON body may hold a null entry, which is a nil pointer.\<close>

type_synonym credentials = "cloud_credentials option smap"

record cred_entry =
  ce_access_key_id :: string
  ce_secret_access_key :: string
  ce_access_key_secret :: string
  ce_region :: string

definition unmarshal_credentials :: "cred_entry smap \<Rightarrow> credentials" where
  "unmarshal_credentials raw =
     foldl (\<lambda>c (name, r).
        let secret = (if ce_secret_access_key r = [] then ce_access_key_secret r else ce_secret_access_key r)
        in mput name (Some \<lparr>access_key_id = ce_access_key_id r, secret_access_key = secret,
                            cred_region = ce_region r\<rparr>) c) [] raw"

definition marshal_credentials :: "credentials \<Rightarrow> string smap smap res" where
  "marshal_credentials c =
     map_res (\<lambda>(name, cc).
       (case cc of
          None \<Rightarrow> Inl (Panic ''nil pointer dereference'')
        | Some k \<Rightarrow> Inr (name, [(''access_key_id'', access_key_id k),
                                 (''secret_access_key'', secret_access_key k),
                                 (''region'', cred_region k)]))) c"

fun validate_clouds :: "credentials \<Rightarrow> error option" where
  "validate_clouds [] = None"
| "validate_clouds ((name, cc) # c) =
     (case cc of
        None \<Rightarrow> Some (Panic ''nil pointer dereference'')
      | Some k \<Rightarrow>
          if access_key_id k = [] \<or> secret_access_key k = []
          then Some (Err (name @ '' credentials require access_key_id and secret_access_key''))
          else validate_clouds c)"

definition validate_credentials :: "credentials option \<Rightarrow> error option" where
  "validate_credentials c = (case c of None \<Rightarrow> None | Some clouds \<Rightarrow> validate_clouds clouds)"

definition for_cloud :: "credentials option \<Rightarrow> string \<Rightarrow> cloud_credentials option" where
  "for_cloud c name =
     (case c of None \<Rightarrow> None
      | Some clouds \<Rightarrow> (case mget clouds name of None \<Rightarrow> None | Some p \<Rightarrow> p))"

definition cred_complete :: "cloud_credentials \<Rightarrow> bool" where
  "cred_complete k \<longleftrightarrow> access_key_id k \<noteq> [] \<and> secret_access_key k \<noteq> []"

lemma validate_clouds_None:
  "validate_clouds c = None \<longleftrightarrow> (\<forall>(name, cc) \<in> set c. \<exists>k. cc = Some k \<and> cred_complete k)"
  by (induction c rule: validate_clouds.induct) (auto simp: cred_complete_def split: option.splits)

text \<open>Keys that pass validation are usable for every cloud they are asked for.\<close>

lemma for_cloud_complete:
  "validate_credentials c = None \<Longrightarrow> for_cloud c name = Some k \<Longrightarrow> cred_complete k"
  by (auto simp: validate_credentials_def for_cloud_def validate_clouds_None
      dest!: map_of_SomeD split: option.splits)

text \<open>What \<open>MarshalYAML\<close> writes, read as the entries \<open>UnmarshalYAML\<close> decodes.\<close>

definition entry_of :: "string smap \<Rightarrow> cred_entry" where
  "entry_of m =
     (let get = (\<lambda>k. case mget m k of None \<Rightarrow> [] | Some v \<Rightarrow> v)
      in \<lparr>ce_access_key_id = get ''access_key_id'', ce_secret_access_key = get ''secret_access_key'',
          ce_access_key_secret = get ''access_key_secret'', ce_region = get ''region''\<rparr>)"

lemma unmarshal_credentials_append:
  "unmarshal_credentials (raw @ [(name, r)]) =
     mput name (Some \<lparr>access_key_id = ce_access_key_id r,
                  secret_access_key = (if ce_secret_access_key r = [] then ce_access_key_secret r
                                       else ce_secret_access_key r),
                  cred_region = ce_region r\<rparr>) (unmarshal_credentials raw)"
  by (simp add: unmarshal_credentials_def Let_def)

lemma mput_fresh: "k \<notin> fst ` set m \<Longrightarrow> mput k v m = m @ [(k, v)]"
  by (induction m) auto

lemma map_res_snoc:
  "map_res f (xs @ [x]) =
     bind_res (map_res f xs) (\<lambda>ys. bind_res (f x) (\<lambda>y. Inr (ys @ [y])))"
  by (induction xs) (auto simp: bind_res_def split: sum.splits)

lemma credentials_roundtrip_aux:
  assumes "marshal_credentials c = Inr m" and "wf_map c"
  shows "unmarshal_credentials (map (\<lambda>(k, v). (k, entry_of v)) m) = c"
  using assms
proof (induction c arbitrary: m rule: rev_induct)
  case Nil
  then show ?case by (simp add: marshal_credentials_def unmarshal_credentials_def)
next
  case (snoc x c)
  obtain name cc where x: "x = (name, cc)" by force
  with snoc.prems obtain k m' where cc: "cc = Some k" and m': "marshal_credentials c = Inr m'"
    and m: "m = m' @ [(name, [(''access_key_id'', access_key_id k),
              (''secret_access_key'', secret_access_key k), (''region'', cred_region k)])]"
    unfolding marshal_credentials_def map_res_snoc by (auto simp: bind_res_Inr split: option.splits)
  have "unmarshal_credentials (map (\<lambda>(k, v). (k, entry_of v)) m') = c"
    using snoc.IH [OF m'] snoc.prems(2) by simp
  moreover have "name \<notin> fst ` set c"
    using snoc.prems(2) x by (metis distinct.simps(2) distinct1_rotate list.set_map rotate1.simps(2)
        fst_conv list.simps(9) map_append distinct_append disjoint_insert(1) list.set(2) append_Nil2)
  ultimately show ?case
    by (simp add: m x cc unmarshal_credentials_append mput_fresh entry_of_def)
qed

end
