(* ===== verification/Task_Spec.thy ===== *)
theory Task_Spec
  imports Task_Resources
begin

text \<open>
  The task, \<open>internal/task/task.go\<close> and \<open>internal/task/spec.go\<close>: the record a task file is decoded
  into, the defaults and the validation every entry point runs, and the texts shown to users.
\<close>

section \<open>The task record\<close>

record ssh_target =
  ssh_host :: string
  ssh_user :: string
  ssh_key :: string
  ssh_port :: int

record docker_spec =
  dk_image :: string
  dk_volumes :: "string smap"
  dk_envs :: "string smap"
  dk_gpus :: int

record service_spec =
  sv_replicas :: int
  sv_port :: int
  sv_health_check :: string
  sv_working_dir :: string
  sv_run :: string
  sv_ready_server :: string
  sv_ports :: "int list"
  sv_target_sessions :: int

record task =
  t_name :: string
  t_num_nodes :: int
  t_resources :: "resources option"
  t_workdir :: string
  t_file_mounts :: "string smap"
  t_tags :: "string smap"
  t_credentials :: "credentials option"
  t_backend :: string
  t_ssh :: "ssh_target option"
  t_docker :: "docker_spec option"
  t_setup :: string
  t_run :: string
  t_envs :: "string smap"
  t_service :: "service_spec option"

definition valid_backends :: "string list" where
  "valid_backends = [''cloud'', ''existing'', ''docker'', ''local'']"

definition backend_valid :: "task \<Rightarrow> bool" where
  "backend_valid t \<longleftrightarrow> list_ex (\<lambda>b. t_backend t = b) valid_backends"

definition validate_backend_config :: "task \<Rightarrow> error option" where
  "validate_backend_config t =
     (if t_backend t = ''existing'' then
        (case t_ssh t of
           Some s \<Rightarrow> if ssh_host s = [] then
             Some (Err (''backend '' @ quote_str ''existing'' @ '' requires an ssh: block with host'')) else None
         | None \<Rightarrow> Some (Err (''backend '' @ quote_str ''existing'' @ '' requires an ssh: block with host'')))
      else if t_backend t = ''docker'' then
        (case t_docker t of
           Some d \<Rightarrow> if dk_image d = [] then
             Some (Err (''backend '' @ quote_str ''docker'' @ '' requires a docker: block with image'')) else None
         | None \<Rightarrow> Some (Err (''backend '' @ quote_str ''docker'' @ '' requires a docker: block with image'')))
      else None)"

section \<open>Defaults and validation\<close>

text \<open>
  \<open>SetDefaults\<close> in its stages, each on the task the stage before left: the method mutates the task
  in place, so an error comes with the task as it was changed up to there.
\<close>

definition default_name :: "task \<Rightarrow> task" where
  "default_name t = (if t_name t = [] then t\<lparr>t_name := ''task''\<rparr> else t)"

definition default_nodes :: "task \<Rightarrow> task" where
  "default_nodes t = (if t_num_nodes t = 0 then t\<lparr>t_num_nodes := 1\<rparr> else t)"

definition default_backend :: "task \<Rightarrow> task" where
  "default_backend t = (if t_backend t = [] then t\<lparr>t_backend := ''cloud''\<rparr> else t)"

definition default_res :: "task \<Rightarrow> task" where
  "default_res t = (if t_resources t = None then t\<lparr>t_resources := Some default_resources\<rparr> else t)"

definition default_service :: "task \<Rightarrow> task" where
  "default_service t =
     (case t_service t of
        None \<Rightarrow> t
      | Some s \<Rightarrow> if sv_replicas s = 0 then t\<lparr>t_service := Some (s\<lparr>sv_replicas := 1\<rparr>)\<rparr> else t)"

definition service_problem :: "task \<Rightarrow> error option" where
  "service_problem t =
     (case t_service t of
        None \<Rightarrow> None
      | Some s \<Rightarrow>
          if sv_port s = 0 \<and> length (sv_ports s) = 0 then Some (Err ''service requires at least one port'')
          else if sv_run s = [] \<and> t_run t = [] then Some (Err ''service requires a run command'')
          else None)"

definition set_defaults :: "task \<Rightarrow> error option \<times> task" where
  "set_defaults t0 =
     (let t1 = default_nodes (default_name t0)
      in if t_num_nodes t1 < 1 then (Some (Err ''num_nodes must be >= 1''), t1)
         else
           (let t2 = default_backend t1
            in if \<not> backend_valid t2 then
                 (Some (Err (''unknown backend '' @ quote_str (t_backend t2) @ '' (want one of ''
                             @ join_with '', '' valid_backends @ '')'')), t2)
               else (case validate_backend_config t2 of
                  Some e \<Rightarrow> (Some e, t2)
                | None \<Rightarrow>
                    (let t3 = default_res t2
                     in case validate_resources (t_resources t3) of
                          Some e \<Rightarrow> (Some e, t3)
                        | None \<Rightarrow>
                            (let t4 = default_service t3
                             in case service_problem t4 of
                                  Some e \<Rightarrow> (Some e, t4)
                                | None \<Rightarrow> (validate_credentials (t_credentials t4), t4))))))"

text \<open>\<open>Load\<close> and \<open>Parse\<close>: \<open>yaml.Unmarshal\<close> (module \<open>gopkg.in/yaml.v3\<close>) and the file's contents are
  parameters.\<close>

definition parse_task :: "(string \<Rightarrow> task res) \<Rightarrow> string \<Rightarrow> task res" where
  "parse_task yaml_unmarshal data =
     (case yaml_unmarshal data of
        Inl e \<Rightarrow> Inl (wrap_err ''parse task yaml: '' e)
      | Inr t \<Rightarrow> (case set_defaults t of (Some e, _) \<Rightarrow> Inl e | (None, t') \<Rightarrow> Inr t'))"

definition load_task :: "(string \<Rightarrow> task res) \<Rightarrow> (string \<Rightarrow> string res) \<Rightarrow> string \<Rightarrow> task res" where
  "load_task yaml_unmarshal read_file path =
     (case read_file path of
        Inl e \<Rightarrow> Inl (wrap_err ''read task file: '' e)
      | Inr data \<Rightarrow> parse_task yaml_unmarshal data)"

section \<open>Texts\<close>

definition task_command :: "task option \<Rightarrow> string" where
  "task_command t =
     (case t of None \<Rightarrow> [] | Some t \<Rightarrow> if trim_space (t_run t) = [] then [] else t_run t)"

definition reflect_non_default :: "task \<Rightarrow> string \<Rightarrow> bool" where
  "reflect_non_default t f =
     (if f = ''num_nodes'' then 0 < t_num_nodes t
      else if f = ''file_mounts'' then 0 < length (t_file_mounts t)
      else if f = ''workdir'' then t_workdir t \<noteq> []
      else if f = ''tags'' then 0 < length (t_tags t)
      else if f = ''credentials'' then t_credentials t \<noteq> None
      else if f = ''backend'' then t_backend t \<noteq> [] \<and> t_backend t \<noteq> ''cloud''
      else if f = ''ssh'' then t_ssh t \<noteq> None
      else if f = ''docker'' then t_docker t \<noteq> None
      else if f = ''setup'' then t_setup t \<noteq> []
      else if f = ''run'' then t_run t \<noteq> []
      else if f = ''envs'' then 0 < length (t_envs t)
      else if f = ''service'' then t_service t \<noteq> None
      else False)"

definition order_fields :: "task \<Rightarrow> string list" where
  "order_fields t =
     [''name'', ''resources''] @
     filter (reflect_non_default t)
       [''num_nodes'', ''file_mounts'', ''workdir'', ''tags'', ''credentials'', ''backend'', ''ssh'',
        ''docker'', ''setup'', ''run'', ''envs'', ''time'', ''service'']"

definition key_value :: "string smap \<Rightarrow> string \<Rightarrow> string" where
  "key_value m k = k @ ''='' @ (case mget m k of None \<Rightarrow> [] | Some v \<Rightarrow> v)"

definition env_slice :: "string smap \<Rightarrow> string list" where
  "env_slice envs = (if length envs = 0 then [] else map (key_value envs) (sorted_keys envs))"

definition map_string :: "string smap \<Rightarrow> string" where
  "map_string m = (if length m = 0 then [] else join_with '','' (map (key_value m) (sorted_keys m)))"

definition task_string :: "task \<Rightarrow> string" where
  "task_string t = join_with [CHR 0x0A] (
     [''name: '' @ t_name t] @
     (case t_resources t of Some r \<Rightarrow> [''resources: '' @ resources_string r] | None \<Rightarrow> []) @
     (if 1 < t_num_nodes t then [''num_nodes: '' @ itoa (t_num_nodes t)] else []) @
     (if 0 < length (t_tags t) then [''tags: '' @ map_string (t_tags t)] else []) @
     (if t_credentials t \<noteq> None then [''credentials: <provided>''] else []) @
     (if t_backend t \<noteq> [] \<and> t_backend t \<noteq> ''cloud'' then [''backend: '' @ t_backend t] else []) @
     (case t_ssh t of Some s \<Rightarrow> [''ssh: '' @ ssh_host s] | None \<Rightarrow> []) @
     (case t_docker t of Some d \<Rightarrow> [''docker: '' @ dk_image d] | None \<Rightarrow> []) @
     (if t_setup t \<noteq> [] then [''setup: <script>''] else []) @
     (if t_run t \<noteq> [] then [''run: <command>''] else []))"

section \<open>What validation promises\<close>

text \<open>The invariant of a task the rest of the program receives.\<close>

definition task_ok :: "task \<Rightarrow> bool" where
  "task_ok t \<longleftrightarrow>
     t_name t \<noteq> [] \<and> 1 \<le> t_num_nodes t \<and> backend_valid t \<and> validate_backend_config t = None \<and>
     t_resources t \<noteq> None \<and> validate_resources (t_resources t) = None \<and>
     (\<forall>s. t_service t = Some s \<longrightarrow> sv_replicas s \<noteq> 0) \<and> service_problem t = None \<and>
     validate_credentials (t_credentials t) = None"

named_theorems stage_simps \<open>the stages of \<open>SetDefaults\<close> field by field\<close>

lemma default_name_fields [stage_simps]:
  "t_name (default_name t) = (if t_name t = [] then ''task'' else t_name t)"
  "t_num_nodes (default_name t) = t_num_nodes t" "t_backend (default_name t) = t_backend t"
  "t_resources (default_name t) = t_resources t" "t_service (default_name t) = t_service t"
  "t_credentials (default_name t) = t_credentials t" "t_ssh (default_name t) = t_ssh t"
  "t_docker (default_name t) = t_docker t" "t_run (default_name t) = t_run t"
  by (simp_all add: default_name_def)

lemma default_nodes_fields [stage_simps]:
  "t_num_nodes (default_nodes t) = (if t_num_nodes t = 0 then 1 else t_num_nodes t)"
  "t_name (default_nodes t) = t_name t" "t_backend (default_nodes t) = t_backend t"
  "t_resources (default_nodes t) = t_resources t" "t_service (default_nodes t) = t_service t"
  "t_credentials (default_nodes t) = t_credentials t" "t_ssh (default_nodes t) = t_ssh t"
  "t_docker (default_nodes t) = t_docker t" "t_run (default_nodes t) = t_run t"
  by (simp_all add: default_nodes_def)

lemma default_backend_fields [stage_simps]:
  "t_backend (default_backend t) = (if t_backend t = [] then ''cloud'' else t_backend t)"
  "t_name (default_backend t) = t_name t" "t_num_nodes (default_backend t) = t_num_nodes t"
  "t_resources (default_backend t) = t_resources t" "t_service (default_backend t) = t_service t"
  "t_credentials (default_backend t) = t_credentials t" "t_ssh (default_backend t) = t_ssh t"
  "t_docker (default_backend t) = t_docker t" "t_run (default_backend t) = t_run t"
  by (simp_all add: default_backend_def)

lemma default_res_fields [stage_simps]:
  "t_resources (default_res t) =
     (case t_resources t of None \<Rightarrow> Some default_resources | Some r \<Rightarrow> Some r)"
  "t_name (default_res t) = t_name t" "t_num_nodes (default_res t) = t_num_nodes t"
  "t_backend (default_res t) = t_backend t" "t_service (default_res t) = t_service t"
  "t_credentials (default_res t) = t_credentials t" "t_ssh (default_res t) = t_ssh t"
  "t_docker (default_res t) = t_docker t" "t_run (default_res t) = t_run t"
  by (simp_all add: default_res_def split: option.splits)

lemma default_service_fields [stage_simps]:
  "t_service (default_service t) =
     map_option (\<lambda>s. if sv_replicas s = 0 then s\<lparr>sv_replicas := 1\<rparr> else s) (t_service t)"
  "t_name (default_service t) = t_name t" "t_num_nodes (default_service t) = t_num_nodes t"
  "t_backend (default_service t) = t_backend t" "t_resources (default_service t) = t_resources t"
  "t_credentials (default_service t) = t_credentials t" "t_ssh (default_service t) = t_ssh t"
  "t_docker (default_service t) = t_docker t" "t_run (default_service t) = t_run t"
  by (simp_all add: default_service_def split: option.splits)

lemma backend_valid_cong: "t_backend t = t_backend t' \<Longrightarrow> backend_valid t = backend_valid t'"
  by (simp add: backend_valid_def)

lemma backend_config_cong:
  "t_backend t = t_backend t' \<Longrightarrow> t_ssh t = t_ssh t' \<Longrightarrow> t_docker t = t_docker t' \<Longrightarrow>
   validate_backend_config t = validate_backend_config t'"
  by (simp add: validate_backend_config_def)

lemma default_stages_id:
  "t_name t \<noteq> [] \<Longrightarrow> default_name t = t"
  "t_num_nodes t \<noteq> 0 \<Longrightarrow> default_nodes t = t"
  "t_backend t \<noteq> [] \<Longrightarrow> default_backend t = t"
  "t_resources t \<noteq> None \<Longrightarrow> default_res t = t"
  "(\<And>s. t_service t = Some s \<Longrightarrow> sv_replicas s \<noteq> 0) \<Longrightarrow> default_service t = t"
  by (simp_all add: default_name_def default_nodes_def default_backend_def default_res_def
      default_service_def split: option.splits)

text \<open>What \<open>SetDefaults\<close> leaves, whether or not it fails later.\<close>

definition defaulted :: "task \<Rightarrow> task" where
  "defaulted t = default_service (default_res (default_backend (default_nodes (default_name t))))"

lemma set_defaults_success:
  assumes "set_defaults t = (None, t')"
  shows "t' = defaulted t" and "task_ok t'"
proof -
  let ?t1 = "default_nodes (default_name t)"
  let ?t2 = "default_backend ?t1"
  let ?t3 = "default_res ?t2"
  let ?t4 = "default_service ?t3"
  have **: "\<not> t_num_nodes ?t1 < 1 \<and> backend_valid ?t2 \<and> validate_backend_config ?t2 = None \<and>
    validate_resources (t_resources ?t3) = None \<and> service_problem ?t4 = None \<and>
    validate_credentials (t_credentials ?t4) = None \<and> ?t4 = t'"
    using assms unfolding set_defaults_def Let_def by (auto split: if_splits option.splits)
  then have *: "\<not> t_num_nodes ?t1 < 1" "backend_valid ?t2" "validate_backend_config ?t2 = None"
    "validate_resources (t_resources ?t3) = None" "service_problem ?t4 = None"
    "validate_credentials (t_credentials ?t4) = None" "t' = ?t4"
    by blast+
  then show "t' = defaulted t"
    by (simp add: defaulted_def)
  have "backend_valid ?t4"
    using *(2) backend_valid_cong [of ?t4 ?t2] by (simp add: stage_simps)
  moreover have "validate_backend_config ?t4 = None"
    using *(3) backend_config_cong [of ?t4 ?t2] by (simp add: stage_simps)
  moreover have "1 \<le> t_num_nodes ?t4"
    using *(1) by (simp add: stage_simps split: if_splits)
  moreover have "t_resources ?t4 = t_resources ?t3"
    by (simp only: stage_simps)
  moreover have "sv_replicas s \<noteq> 0" if "t_service ?t4 = Some s" for s
  proof -
    from that obtain s0 where "s = (if sv_replicas s0 = 0 then s0\<lparr>sv_replicas := 1\<rparr> else s0)"
      by (auto simp: default_service_fields)
    then show ?thesis by simp
  qed
  moreover have "t_resources ?t3 \<noteq> None" "t_name ?t4 \<noteq> []"
    by (simp_all add: stage_simps split: option.splits)
  ultimately have "task_ok ?t4"
    using *(4-6) unfolding task_ok_def by (metis option.sel)
  then show "task_ok t'"
    using *(7) by simp
qed

lemma set_defaults_ok:
  assumes "task_ok t"
  shows "set_defaults t = (None, t)"
proof -
  have b: "t_backend t \<noteq> []"
    using assms by (auto simp: task_ok_def backend_valid_def valid_backends_def)
  have s: "default_service t = t" and r: "default_res t = t"
    using assms by (auto intro!: default_stages_id simp: task_ok_def)
  have "default_nodes (default_name t) = t" "default_backend t = t"
    using assms b by (simp_all add: task_ok_def default_stages_id)
  with assms s r show ?thesis
    by (simp add: set_defaults_def task_ok_def Let_def)
qed

section \<open>The order of environment entries\<close>

lemma env_slice_cong:
  assumes "wf_map m" and "wf_map m'" and "map_of m = map_of m'"
  shows "env_slice m = env_slice m'"
proof -
  have "length m = length m'"
    using sorted_keys_cong [OF assms] by (metis length_sorted_keys)
  moreover have "key_value m = key_value m'"
    using assms(3) by (simp add: fun_eq_iff key_value_def)
  ultimately show ?thesis
    using sorted_keys_cong [OF assms] by (simp add: env_slice_def)
qed

lemma set_env_slice:
  assumes "wf_map m"
  shows "set (env_slice m) = {k @ ''='' @ v | k v. mget m k = Some v}"
proof -
  have "key_value m k = k @ ''='' @ v" if "mget m k = Some v" for k v
    using that by (simp add: key_value_def)
  then have "key_value m ` dom (map_of m) = {k @ ''='' @ v | k v. mget m k = Some v}"
    by (force simp: dom_def)
  then show ?thesis
    by (simp add: env_slice_def dom_map_of_conv_image_fst) blast?
qed

lemma length_env_slice: "length (env_slice m) = length m"
  by (simp add: env_slice_def)

section \<open>Properties\<close>

text \<open>A list of accelerators printed as text and parsed again is the same map, when its names
  are free of the separators and of surrounding space and its counts are positive.\<close>

theorem accelerators_roundtrip:
  assumes "printable_accel a"
  shows "\<exists>b. parse_accelerators (AStr (accelerators_string a)) = Inr b \<and> mget b = mget a"
  using accelerators_roundtrip_aux [OF assms] by blast

theorem accelerators_roundtrip_witness:
  "\<exists>b. parse_accelerators (AStr (accelerators_string [(''T4'', 1), (''A100'', 8)])) = Inr b \<and>
     mget b = mget [(''T4'', 1), (''A100'', 8)]"
  by (rule accelerators_roundtrip)
    (simp add: printable_accel_def plain_name_def no_outer_space_def is_space_def int64_ok_def)

text \<open>Accelerators parsed from text or from a list have each name once, without surrounding space,
  and positive counts: a missing, malformed, zero or negative count becomes one.\<close>

theorem accelerators_text_positive:
  assumes "parse_accelerators spec = Inr a" and "\<exists>s. spec = AStr s \<or> spec = AList xs"
  shows "wf_map a \<and> (\<forall>(k, n) \<in> set a. 1 \<le> n \<and> no_outer_space k)"
proof -
  have "accel_ok a"
    using assms accel_ok_add_all [of "[]"]
    by (auto simp: parse_accelerators_def accel_ok_def [of "[]"])
  then show ?thesis by (simp add: accel_ok_def)
qed

theorem accelerators_text_positive_witness:
  "wf_map [(''T4'', 1::int)] \<and> (\<forall>(k, n) \<in> set [(''T4'', 1::int)]. 1 \<le> n \<and> no_outer_space k)"
proof (rule accelerators_text_positive [where spec = "AStr ''T4:-3''" and xs = "[]"])
  show "parse_accelerators (AStr ''T4:-3'') = Inr [(''T4'', 1)]"
    by code_simp
qed simp

text \<open>A range with natural bounds below a million is printed to a text that parses back to it.\<close>

theorem range_roundtrip:
  assumes "nat_range r"
  shows "parse_range (range_string (Some r)) = Inr (Some r)"
  by (rule range_roundtrip_aux [OF assms])

theorem range_roundtrip_witness:
  "parse_range (range_string (Some \<lparr>rmin = Some (Fin 4), rmax = Some (Fin 8)\<rparr>)) =
     Inr (Some \<lparr>rmin = Some (Fin 4), rmax = Some (Fin 8)\<rparr>)"
  by (rule range_roundtrip) (simp add: nat_range_def nat_bound_def)

text \<open>The text of a range does not always parse back: a bound below \<open>1e-4\<close> prints with an
  exponent, whose minus sign the parser takes for the one between two bounds, and a negative lower
  bound parses to a range without bounds.\<close>

theorem range_text_lossy:
  "parse_range (range_string (Some \<lparr>rmin = Some (Fin (1 / 100000)), rmax = None\<rparr>)) \<noteq>
     Inr (Some \<lparr>rmin = Some (Fin (1 / 100000)), rmax = None\<rparr>) \<and>
   parse_range (range_string (Some \<lparr>rmin = Some (Fin (- 8)), rmax = None\<rparr>)) =
     Inr (Some \<lparr>rmin = None, rmax = None\<rparr>)"
  by code_simp


text \<open>Validation is idempotent, and keeps every field the user has set: the fields it changes are
  those that were empty.\<close>

theorem set_defaults_idempotent:
  assumes "set_defaults t = (None, t')"
  shows "set_defaults t' = (None, t') \<and>
    (t_name t \<noteq> [] \<longrightarrow> t_name t' = t_name t) \<and>
    (t_num_nodes t \<noteq> 0 \<longrightarrow> t_num_nodes t' = t_num_nodes t) \<and>
    (t_backend t \<noteq> [] \<longrightarrow> t_backend t' = t_backend t) \<and>
    (t_resources t \<noteq> None \<longrightarrow> t_resources t' = t_resources t) \<and>
    t_credentials t' = t_credentials t \<and> t_run t' = t_run t \<and> t_ssh t' = t_ssh t \<and> t_docker t' = t_docker t"
  using set_defaults_ok [OF set_defaults_success(2) [OF assms]] set_defaults_success(1) [OF assms]
  by (auto simp: defaulted_def stage_simps split: option.splits)

definition sample_task :: task where
  "sample_task = \<lparr>t_name = [], t_num_nodes = 0, t_resources = None, t_workdir = [], t_file_mounts = [],
     t_tags = [], t_credentials = Some [(''aws'', Some \<lparr>access_key_id = ''a'', secret_access_key = ''s'', cred_region = []\<rparr>)],
     t_backend = [], t_ssh = None, t_docker = None, t_setup = [], t_run = ''echo'', t_envs = [],
     t_service = Some \<lparr>sv_replicas = 0, sv_port = 80, sv_health_check = [], sv_working_dir = [], sv_run = [],
       sv_ready_server = [], sv_ports = [], sv_target_sessions = 0\<rparr>\<rparr>"

lemma sample_task_defaults: "set_defaults sample_task = (None, defaulted sample_task)"
  by code_simp


theorem set_defaults_idempotent_witness:
  "set_defaults (defaulted sample_task) = (None, defaulted sample_task)"
  using set_defaults_idempotent [OF sample_task_defaults] by blast

text \<open>The contract of inheritance: every field of \<open>r\<close> is the entry's own where it is set, the enclosing one
  otherwise.\<close>

definition inherits :: "res_fields \<Rightarrow> res_fields \<Rightarrow> res_fields \<Rightarrow> bool" where
  "inherits own base r \<longleftrightarrow>
     r_cloud r = (if r_cloud own = [] then r_cloud base else r_cloud own) \<and>
     r_region r = (if r_region own = [] then r_region base else r_region own) \<and>
     r_zone r = (if r_zone own = [] then r_zone base else r_zone own) \<and>
     r_instance_type r = (if r_instance_type own = [] then r_instance_type base else r_instance_type own) \<and>
     r_cpus r = (if r_cpus own = None then r_cpus base else r_cpus own) \<and>
     r_memory r = (if r_memory own = None then r_memory base else r_memory own) \<and>
     r_disk r = (if r_disk own = None then r_disk base else r_disk own) \<and>
     r_accel r = (if r_accel own = [] then r_accel base else r_accel own) \<and>
     r_use_spot r = (if r_use_spot own = None then r_use_spot base else r_use_spot own) \<and>
     r_time_sec r = (if r_time_sec own = None then r_time_sec base else r_time_sec own) \<and>
     r_labels r = (if r_labels own = [] then r_labels base else r_labels own)"

lemma inherits_fill_fields: "inherits own base (fill_fields_from own base)"
  by (simp add: inherits_def fill_fields_from_def if_unset_def)

text \<open>Every alternative of a failover list inherits: after decoding, an entry has, field by field,
  its own value or the one of the enclosing resources, so filling it once more changes nothing; the
  entries keep their order, and a null entry makes the decoder panic.\<close>

theorem ordered_entries_inherit:
  shows "(\<forall>r. unmarshal_resources raw = Inr r \<longrightarrow>
           length (res_ordered r) = length (raw_ordered raw) \<and>
           (\<forall>i < length (res_ordered r). \<exists>e. raw_ordered raw ! i = Some e \<and>
              inherits (res_f e) (res_f r) (res_f (res_ordered r ! i)) \<and>
              fill_fields_from (res_f (res_ordered r ! i)) (res_f r) = res_f (res_ordered r ! i) \<and>
              res_ordered (res_ordered r ! i) = res_ordered e)) \<and>
         (None \<in> set (raw_ordered raw) \<longrightarrow> \<not> (\<exists>r. unmarshal_resources raw = Inr r))"
proof (intro conjI allI impI notI, goal_cases)
  case (1 r)
  then show ?case by (elim unmarshal_resources_Inr) simp
next
  case (2 r i)
  from 2(1) show ?case
  proof (elim unmarshal_resources_Inr)
    fix a
    assume *: "None \<notin> set (raw_ordered raw)"
      "res_ordered r = map (\<lambda>e. Resources (fill_fields_from (res_f (the e)) (res_f r)) (res_ordered (the e))) (raw_ordered raw)"
    with 2(2) have "raw_ordered raw ! i \<in> set (raw_ordered raw)"
      by simp
    with * obtain e where "raw_ordered raw ! i = Some e"
      by (metis not_None_eq)
    with * 2(2) show ?case by (simp add: inherits_fill_fields)
  qed
next
  case 3
  then show ?case by (elim exE unmarshal_resources_Inr) simp
qed

theorem ordered_entries_inherit_witness:
  "\<exists>r. unmarshal_resources \<lparr>raw_fields = no_fields\<lparr>r_cloud := ''aws''\<rparr>, raw_accel = ANil,
         raw_ordered = [Some default_resources]\<rparr> = Inr r \<and>
     res_f (res_ordered r ! 0) = no_fields\<lparr>r_cloud := ''aws''\<rparr>"
proof -
  let ?raw = "\<lparr>raw_fields = no_fields\<lparr>r_cloud := ''aws''\<rparr>, raw_accel = ANil,
    raw_ordered = [Some default_resources]\<rparr>"
  let ?r = "Resources (no_fields\<lparr>r_cloud := ''aws''\<rparr>) [Resources (no_fields\<lparr>r_cloud := ''aws''\<rparr>) []]"
  have r: "unmarshal_resources ?raw = Inr ?r"
    by code_simp
  then show ?thesis
    using ordered_entries_inherit [of ?raw] by (auto simp: default_resources_def)
qed

text \<open>The environment passed to a shell does not depend on the order in which Go ranges over the
  map, and holds exactly one \<open>KEY=value\<close> entry for every binding.\<close>

theorem env_slice_deterministic:
  assumes "wf_map m" and "wf_map m'" and "map_of m = map_of m'"
  shows "env_slice m = env_slice m' \<and> set (env_slice m) = {k @ ''='' @ v | k v. mget m k = Some v} \<and>
    length (env_slice m) = length m"
  by (intro conjI env_slice_cong [OF assms] set_env_slice [OF assms(1)] length_env_slice)

theorem env_slice_deterministic_witness:
  "env_slice [(''B'', ''2''), (''A'', ''1'')] = env_slice [(''A'', ''1''), (''B'', ''2'')]"
  using env_slice_deterministic [of "[(''B'', ''2''), (''A'', ''1'')]" "[(''A'', ''1''), (''B'', ''2'')]"]
  by (simp add: fun_eq_iff)

text \<open>Credentials written to YAML and decoded again are the same keys for the same clouds.\<close>

theorem credentials_roundtrip:
  assumes "marshal_credentials c = Inr m" and "wf_map c"
  shows "unmarshal_credentials (map (\<lambda>(k, v). (k, entry_of v)) m) = c"
  by (rule credentials_roundtrip_aux [OF assms])

theorem credentials_roundtrip_witness:
  "\<exists>m. marshal_credentials [(''aws'', Some \<lparr>access_key_id = ''a'', secret_access_key = ''s'', cred_region = ''r''\<rparr>)] = Inr m \<and>
     unmarshal_credentials (map (\<lambda>(k, v). (k, entry_of v)) m) =
       [(''aws'', Some \<lparr>access_key_id = ''a'', secret_access_key = ''s'', cred_region = ''r''\<rparr>)]"
  using credentials_roundtrip [of "[(''aws'', Some \<lparr>access_key_id = ''a'', secret_access_key = ''s'', cred_region = ''r''\<rparr>)]"]
  by (simp add: marshal_credentials_def)

end
