(* ===== verification/Cloud_Base.thy ===== *)
theory Cloud_Base
  imports Task_Spec
begin

text \<open>
  The cloud abstraction, \<open>internal/cloud/cloud.go\<close> and \<open>internal/cloud/catalog/catalog.go\<close>: instances
  and launch specifications, instance-type specs and prices, the source of metadata of a cloud,
  and the two registries (providers and metadata sources) with the choice between a provider
  bound to the task's keys and the default one.
\<close>

section \<open>Instances\<close>

text \<open>\<open>InstanceStatus\<close> is a string type; a provider may report any text.\<close>

type_synonym instance_status = string

definition status_running :: instance_status where "status_running = ''running''"
definition status_stopped :: instance_status where "status_stopped = ''stopped''"
definition status_terminated :: instance_status where "status_terminated = ''terminated''"

record inst =
  i_id :: string
  i_name :: string
  i_public_ip :: string
  i_private_ip :: string
  i_status :: instance_status
  i_type :: string
  i_region :: string
  i_zone :: string
  i_created_at :: int
  i_tags :: "string smap"

record launch_spec =
  ls_instance_type :: string
  ls_region :: string
  ls_zone :: string
  ls_num_nodes :: int
  ls_image_id :: string
  ls_key_name :: string
  ls_security_group :: string
  ls_vswitch :: string
  ls_vpc :: string
  ls_spot_strategy :: string
  ls_disk_gib :: int
  ls_user_data :: string
  ls_tags :: "string smap"
  ls_name_prefix :: string
  ls_resume :: bool

section \<open>Metadata\<close>

record itype =
  it_cloud :: string
  it_region :: string
  it_type :: string
  it_vcpus :: int
  it_memory :: f64
  it_accel :: "(string \<times> int) list"
  it_max_disk :: f64

record price =
  p_on_demand :: f64
  p_spot :: f64

text \<open>
  \<open>catalog.Source\<close>: the metadata of one cloud. Its three calls go to the network: they read and
  change the outside world \<open>'w\<close>. Durations are nanoseconds.
\<close>

record 'w source =
  src_specs_ttl :: int
  src_price_ttl :: int
  src_regions :: "'w \<Rightarrow> string list res \<times> 'w"
  src_fetch_specs :: "string \<Rightarrow> 'w \<Rightarrow> itype list res \<times> 'w"
  src_fetch_prices :: "string \<Rightarrow> string list \<Rightarrow> 'w \<Rightarrow> price smap res \<times> 'w"

definition second :: int where "second = 1000000000"

definition default_specs_ttl :: int where "default_specs_ttl = 24 * 3600 * second"

definition default_price_ttl :: int where "default_price_ttl = 10 * 60 * second"

section \<open>Registries\<close>

text \<open>
  The package variables: providers by name, constructors by name, metadata sources by cloud. A
  provider of type \<open>'p\<close> is opaque here; registering one passes its name and, when it implements
  the metadata contract, its source with the cloud that source names.
\<close>

record ('p, 'w) registries =
  reg_providers :: "'p smap"
  reg_factories :: "(cloud_credentials \<Rightarrow> 'p res) smap"
  reg_sources :: "'w source smap"

definition catalog_register :: "string \<Rightarrow> 'w source \<Rightarrow> ('p, 'w) registries \<Rightarrow> ('p, 'w) registries" where
  "catalog_register cloud s r = r\<lparr>reg_sources := mput cloud s (reg_sources r)\<rparr>"

definition register_provider ::
  "string \<Rightarrow> 'p \<Rightarrow> (string \<times> 'w source) option \<Rightarrow> ('p, 'w) registries \<Rightarrow> ('p, 'w) registries" where
  "register_provider name p source r =
     (let r' = r\<lparr>reg_providers := mput name p (reg_providers r)\<rparr>
      in case source of None \<Rightarrow> r' | Some (cloud, s) \<Rightarrow> catalog_register cloud s r')"

definition register_factory ::
  "string \<Rightarrow> (cloud_credentials \<Rightarrow> 'p res) \<Rightarrow> ('p, 'w) registries \<Rightarrow> ('p, 'w) registries" where
  "register_factory name f r = r\<lparr>reg_factories := mput name f (reg_factories r)\<rparr>"

definition get_provider :: "string \<Rightarrow> ('p, 'w) registries \<Rightarrow> 'p option" where
  "get_provider name r = mget (reg_providers r) name"

definition new_provider :: "('p, 'w) registries \<Rightarrow> string \<Rightarrow> cloud_credentials option \<Rightarrow> 'p res" where
  "new_provider r name creds =
     (let fallback = (case mget (reg_providers r) name of
                        None \<Rightarrow> Inl (Err (''cloud provider '' @ quote_str name @ '' not registered''))
                      | Some p \<Rightarrow> Inr p)
      in case creds of
           Some k \<Rightarrow>
             if access_key_id k \<noteq> [] then
               (case mget (reg_factories r) name of Some f \<Rightarrow> f k | None \<Rightarrow> fallback)
             else fallback
         | None \<Rightarrow> fallback)"

definition has_provider :: "string \<Rightarrow> ('p, 'w) registries \<Rightarrow> bool" where
  "has_provider name r \<longleftrightarrow> mget (reg_providers r) name \<noteq> None"

definition provider_names :: "('p, 'w) registries \<Rightarrow> string list" where
  "provider_names r = mkeys (reg_providers r)"

definition source_for :: "string \<Rightarrow> ('p, 'w) registries \<Rightarrow> 'w source option" where
  "source_for cloud r = mget (reg_sources r) cloud"

definition has_cloud :: "string \<Rightarrow> ('p, 'w) registries \<Rightarrow> bool" where
  "has_cloud cloud r \<longleftrightarrow> source_for cloud r \<noteq> None"

definition catalog_clouds :: "('p, 'w) registries \<Rightarrow> string list" where
  "catalog_clouds r = mkeys (reg_sources r)"

text \<open>Registering is seen by every reader, and the last registration of a name wins.\<close>

lemma registered_provider [simp]:
  "get_provider n (register_provider name p src r) = (if n = name then Some p else get_provider n r)"
  by (simp add: get_provider_def register_provider_def catalog_register_def Let_def split: option.splits)

lemma registered_source [simp]:
  "source_for c (register_provider name p src r) =
     (case src of Some (cloud, s) \<Rightarrow> if c = cloud then Some s else source_for c r | None \<Rightarrow> source_for c r)"
  by (simp add: source_for_def register_provider_def catalog_register_def Let_def split: option.splits)

lemma new_provider_keys:
  "access_key_id k \<noteq> [] \<Longrightarrow> mget (reg_factories r) name = Some f \<Longrightarrow> new_provider r name (Some k) = f k"
  by (simp add: new_provider_def)

lemma new_provider_default:
  "creds = None \<or> access_key_id (the creds) = [] \<or> mget (reg_factories r) name = None \<Longrightarrow>
   new_provider r name creds =
     (case get_provider name r of
        None \<Rightarrow> Inl (Err (''cloud provider '' @ quote_str name @ '' not registered'')) | Some p \<Rightarrow> Inr p)"
  by (cases creds) (auto simp: new_provider_def get_provider_def Let_def split: option.splits)

end
