(* ===== verification/Metacache.thy ===== *)
theory Metacache
  imports Cloud_Base
begin

text \<open>
  The metadata cache, \<open>internal/metacache/metacache.go\<close>: instance specs, regions and prices with a
  time to live, read through the source of the cloud. A call takes the outside world and the
  cache and returns the value, the error (Go returns both), and the two states. A call is
  one step here; \<open>Metacache_Steps\<close> has the interleavings of calls between their locked sections.
\<close>

section \<open>State\<close>

text \<open>Instants and durations are nanoseconds; \<open>failed_at\<close> is \<open>None\<close> for Go's zero time.\<close>

record spec_entry =
  se_instances :: "itype list"
  se_fetched :: int

record region_entry =
  re_regions :: "string list"
  re_fetched :: int

record price_entry =
  pe_prices :: "price smap"
  pe_fetched :: int
  pe_failed_at :: "int option"

record cache =
  c_specs :: "spec_entry smap"
  c_regions :: "region_entry smap"
  c_prices :: "price_entry smap"

definition new_cache :: cache where
  "new_cache = \<lparr>c_specs = [], c_regions = [], c_prices = []\<rparr>"

definition cache_key :: "string \<Rightarrow> string \<Rightarrow> string" where
  "cache_key cloud region = cloud @ [CHR 0x00] @ region"

text \<open>What a call sees of its surroundings: the registered sources and the clock.\<close>

record 'w env =
  env_sources :: "'w source smap"
  env_now :: "'w \<Rightarrow> int"

type_synonym ('v, 'w) cached = "'v \<times> error option \<times> cache \<times> 'w"

section \<open>Operations\<close>

definition cache_instances ::
  "'w env \<Rightarrow> string \<Rightarrow> string \<Rightarrow> cache \<Rightarrow> 'w \<Rightarrow> (itype list, 'w) cached" where
  "cache_instances env cloud region c w =
     (case mget (env_sources env) cloud of
        None \<Rightarrow> ([], None, c, w)
      | Some s \<Rightarrow>
          (let ttl = (if src_specs_ttl s \<le> 0 then default_specs_ttl else src_specs_ttl s);
               k = cache_key cloud region;
               now = env_now env w;
               entry = mget (c_specs c) k;
               fetch = (case src_fetch_specs s region w of
                   (Inl e, w') \<Rightarrow>
                     ((case entry of Some en \<Rightarrow> se_instances en | None \<Rightarrow> []), Some e, c, w')
                 | (Inr fresh, w') \<Rightarrow>
                     (fresh, None,
                      c\<lparr>c_specs := mput k \<lparr>se_instances = fresh, se_fetched = now\<rparr> (c_specs c)\<rparr>, w'))
           in case entry of
                Some en \<Rightarrow> if now - se_fetched en \<le> ttl then (se_instances en, None, c, w) else fetch
              | None \<Rightarrow> fetch))"

definition cache_regions :: "'w env \<Rightarrow> string \<Rightarrow> cache \<Rightarrow> 'w \<Rightarrow> (string list, 'w) cached" where
  "cache_regions env cloud c w =
     (case mget (env_sources env) cloud of
        None \<Rightarrow> ([], None, c, w)
      | Some s \<Rightarrow>
          (let ttl = (if src_specs_ttl s \<le> 0 then default_specs_ttl else src_specs_ttl s);
               now = env_now env w;
               fetch = (case src_regions s w of
                   (Inl e, w') \<Rightarrow> ([], Some e, c, w')
                 | (Inr fresh, w') \<Rightarrow>
                     (fresh, None,
                      c\<lparr>c_regions := mput cloud \<lparr>re_regions = fresh, re_fetched = now\<rparr> (c_regions c)\<rparr>, w'))
           in case mget (c_regions c) cloud of
                Some en \<Rightarrow> if now - re_fetched en \<le> ttl then (re_regions en, None, c, w) else fetch
              | None \<Rightarrow> fetch))"

text \<open>\<open>for it, p := range fresh { merged[it] = p }\<close>.\<close>

definition merge_prices :: "price smap \<Rightarrow> price smap \<Rightarrow> price smap" where
  "merge_prices old fresh = foldl (\<lambda>m (it, p). mput it p m) old fresh"

text \<open>The fetch both price calls end with: \<open>entry\<close> is what the cache held before it.\<close>

definition fetch_prices ::
  "'w source \<Rightarrow> string \<Rightarrow> string \<Rightarrow> string list \<Rightarrow> int \<Rightarrow> price_entry option \<Rightarrow> cache \<Rightarrow> 'w \<Rightarrow> (price smap, 'w) cached" where
  "fetch_prices s k region types now entry c w =
     (let old = (case entry of Some en \<Rightarrow> pe_prices en | None \<Rightarrow> [])
      in case src_fetch_prices s region types w of
           (Inl e, w') \<Rightarrow>
             (old, Some e,
              (case entry of
                 Some en \<Rightarrow> c\<lparr>c_prices := mput k (en\<lparr>pe_failed_at := Some now\<rparr>) (c_prices c)\<rparr>
               | None \<Rightarrow> c), w')
         | (Inr fresh, w') \<Rightarrow>
             (merge_prices old fresh, None,
              c\<lparr>c_prices := mput k \<lparr>pe_prices = merge_prices old fresh, pe_fetched = now,
                                    pe_failed_at = None\<rparr> (c_prices c)\<rparr>, w'))"

definition cache_prices ::
  "'w env \<Rightarrow> string \<Rightarrow> string \<Rightarrow> string list \<Rightarrow> cache \<Rightarrow> 'w \<Rightarrow> (price smap, 'w) cached" where
  "cache_prices env cloud region types c w =
     (case mget (env_sources env) cloud of
        None \<Rightarrow> ([], None, c, w)
      | Some s \<Rightarrow>
          (let ttl = (if src_price_ttl s \<le> 0 then default_price_ttl else src_price_ttl s);
               k = cache_key cloud region;
               now = env_now env w
           in case mget (c_prices c) k of
                Some en \<Rightarrow>
                  if now - pe_fetched en \<le> ttl then (pe_prices en, None, c, w)
                  else if (case pe_failed_at en of Some f \<Rightarrow> now - f < 5 * second | None \<Rightarrow> False)
                  then (pe_prices en, None, c, w)
                  else fetch_prices s k region types now (Some en) c w
              | None \<Rightarrow> fetch_prices s k region types now None c w))"

definition cache_prices_forced ::
  "'w env \<Rightarrow> string \<Rightarrow> string \<Rightarrow> string list \<Rightarrow> cache \<Rightarrow> 'w \<Rightarrow> (price smap, 'w) cached" where
  "cache_prices_forced env cloud region types c w =
     (case mget (env_sources env) cloud of
        None \<Rightarrow> ([], None, c, w)
      | Some s \<Rightarrow>
          (let k = cache_key cloud region
           in fetch_prices s k region types (env_now env w) (mget (c_prices c) k) c w))"

definition available_regions :: "'w env \<Rightarrow> string \<Rightarrow> cache \<Rightarrow> 'w \<Rightarrow> (string list, 'w) cached" where
  "available_regions env cloud c w =
     (case mget (env_sources env) cloud of
        None \<Rightarrow> ([], Some (Err (''unknown cloud '' @ quote_str cloud @ '' (registered: ''
                   @ join_with '', '' (mkeys (env_sources env)) @ '')'')), c, w)
      | Some _ \<Rightarrow> cache_regions env cloud c w)"

section \<open>Keys and merging\<close>

lemma cache_key_inj:
  assumes "CHR 0x00 \<notin> set cloud" and "CHR 0x00 \<notin> set cloud'"
  shows "cache_key cloud region = cache_key cloud' region' \<longleftrightarrow> cloud = cloud' \<and> region = region'"
proof
  assume "cache_key cloud region = cache_key cloud' region'"
  then have "cut_at CHR 0x00 (cloud @ CHR 0x00 # region) = cut_at CHR 0x00 (cloud' @ CHR 0x00 # region')"
    by (simp only: cache_key_def append_Cons append_Nil)
  then show "cloud = cloud' \<and> region = region'"
    by (simp only: cut_at_append [OF assms(1)] cut_at_append [OF assms(2)] prod.inject option.inject)
qed simp

lemma merge_prices_snoc: "merge_prices old (fresh @ [(it, p)]) = mput it p (merge_prices old fresh)"
  by (simp add: merge_prices_def)

lemma mget_merge_prices:
  "mget (merge_prices old fresh) k =
     (case mget (rev fresh) k of Some p \<Rightarrow> Some p | None \<Rightarrow> mget old k)"
proof (induction fresh rule: rev_induct)
  case Nil
  then show ?case by (simp add: merge_prices_def)
next
  case (snoc x fresh)
  then show ?case by (cases x) (simp add: merge_prices_snoc)
qed

text \<open>The two price calls change no other entry, and the entry they change loses no price.\<close>

definition known_price :: "cache \<Rightarrow> string \<Rightarrow> string \<Rightarrow> bool" where
  "known_price c k it \<longleftrightarrow> (\<exists>en. mget (c_prices c) k = Some en \<and> mget (pe_prices en) it \<noteq> None)"

lemma fetch_prices_known:
  assumes "fetch_prices s k region types now (mget (c_prices c) k) c w = (v, err, c', w')"
    and "known_price c k' it"
  shows "known_price c' k' it"
proof (cases "mget (c_prices c) k")
  case None
  with assms show ?thesis
    by (auto simp: fetch_prices_def Let_def known_price_def split: prod.splits sum.splits)
next
  case (Some en)
  show ?thesis
  proof (cases "src_fetch_prices s region types w")
    case (Pair r w'')
    show ?thesis
    proof (cases r)
      case (Inl e)
      with Pair Some assms show ?thesis
        by (auto simp: fetch_prices_def Let_def known_price_def)
    next
      case (Inr fresh)
      have "mget (pe_prices en) it \<noteq> None \<Longrightarrow> mget (merge_prices (pe_prices en) fresh) it \<noteq> None"
        by (auto simp: mget_merge_prices split: option.splits)
      with Inr Pair Some assms show ?thesis
        by (auto simp: fetch_prices_def Let_def known_price_def)
    qed
  qed
qed

lemma fetch_prices_stores:
  "fetch_prices s k region types now en c w = (v, None, c', w') \<Longrightarrow>
   mget (c_prices c') k = Some \<lparr>pe_prices = v, pe_fetched = now, pe_failed_at = None\<rparr>"
  by (auto simp: fetch_prices_def Let_def split: prod.splits sum.splits)

lemma cache_prices_hit:
  assumes "mget (env_sources env) cloud = Some s" and "mget (c_prices c) (cache_key cloud region) = Some en"
    and "env_now env w - pe_fetched en \<le> (if src_price_ttl s \<le> 0 then default_price_ttl else src_price_ttl s)"
  shows "cache_prices env cloud region types c w = (pe_prices en, None, c, w)"
  using assms by (simp only: cache_prices_def Let_def option.case if_True)

lemma fetch_prices_frame:
  "fetch_prices s k region types now en c w = (v, err, c', w') \<Longrightarrow>
   c_specs c' = c_specs c \<and> c_regions c' = c_regions c \<and> (\<forall>k'. k' \<noteq> k \<longrightarrow> mget (c_prices c') k' = mget (c_prices c) k')"
  by (auto simp: fetch_prices_def Let_def split: prod.splits sum.splits option.splits)

section \<open>Sequences of calls\<close>

datatype cache_call = CInstances string string | CRegions string
  | CPrices string string "string list" | CForced string string "string list"

fun run_call :: "'w env \<Rightarrow> cache_call \<Rightarrow> cache \<times> 'w \<Rightarrow> cache \<times> 'w" where
  "run_call env (CInstances cl r) (c, w) = (case cache_instances env cl r c w of (_, _, s) \<Rightarrow> s)"
| "run_call env (CRegions cl) (c, w) = (case cache_regions env cl c w of (_, _, s) \<Rightarrow> s)"
| "run_call env (CPrices cl r ts) (c, w) = (case cache_prices env cl r ts c w of (_, _, s) \<Rightarrow> s)"
| "run_call env (CForced cl r ts) (c, w) = (case cache_prices_forced env cl r ts c w of (_, _, s) \<Rightarrow> s)"

definition run_calls :: "'w env \<Rightarrow> cache_call list \<Rightarrow> cache \<times> 'w \<Rightarrow> cache \<times> 'w" where
  "run_calls env calls s = foldl (\<lambda>s call. run_call env call s) s calls"

lemma cache_instances_prices:
  "cache_instances env cl r c w = (v, e, c', w') \<Longrightarrow> c_prices c' = c_prices c"
  by (auto simp: cache_instances_def Let_def split: option.splits prod.splits sum.splits if_splits)

lemma cache_regions_prices:
  "cache_regions env cl c w = (v, e, c', w') \<Longrightarrow> c_prices c' = c_prices c"
  by (auto simp: cache_regions_def Let_def split: option.splits prod.splits sum.splits if_splits)

lemma cache_prices_known:
  assumes "cache_prices env cl r ts c w = (v, e, c', w')" and "known_price c k it"
  shows "known_price c' k it"
proof (cases "mget (env_sources env) cl")
  case None
  with assms show ?thesis by (simp add: cache_prices_def)
next
  case (Some s)
  show ?thesis
  proof (cases "c' = c")
    case True
    with assms show ?thesis by simp
  next
    case False
    then have "fetch_prices s (cache_key cl r) r ts (env_now env w)
        (mget (c_prices c) (cache_key cl r)) c w = (v, e, c', w')"
      using assms(1) Some by (auto simp: cache_prices_def Let_def split: option.splits if_splits)
    then show ?thesis
      by (rule fetch_prices_known [OF _ assms(2)])
  qed
qed

lemma cache_prices_forced_known:
  "cache_prices_forced env cl r ts c w = (v, e, c', w') \<Longrightarrow> known_price c k it \<Longrightarrow> known_price c' k it"
  by (cases "mget (env_sources env) cl")
    (auto simp: cache_prices_forced_def Let_def intro: fetch_prices_known)

lemma known_price_cong: "c_prices c' = c_prices c \<Longrightarrow> known_price c' = known_price c"
  by (simp add: known_price_def fun_eq_iff)

lemma run_call_known:
  assumes "known_price (fst s) k it"
  shows "known_price (fst (run_call env call s)) k it"
proof (cases s)
  case (Pair c w)
  note known = assms [unfolded Pair fst_conv]
  show ?thesis
  proof (cases call)
    case (CInstances cl r)
    obtain v e c' w' where *: "cache_instances env cl r c w = (v, e, c', w')"
      by (metis prod_cases4)
    with known known_price_cong [OF cache_instances_prices [OF *]] show ?thesis
      by (simp add: CInstances Pair)
  next
    case (CRegions cl)
    obtain v e c' w' where *: "cache_regions env cl c w = (v, e, c', w')"
      by (metis prod_cases4)
    with known known_price_cong [OF cache_regions_prices [OF *]] show ?thesis
      by (simp add: CRegions Pair)
  next
    case (CPrices cl r ts)
    obtain v e c' w' where *: "cache_prices env cl r ts c w = (v, e, c', w')"
      by (metis prod_cases4)
    with cache_prices_known [OF * known] show ?thesis
      by (simp add: CPrices Pair)
  next
    case (CForced cl r ts)
    obtain v e c' w' where *: "cache_prices_forced env cl r ts c w = (v, e, c', w')"
      by (metis prod_cases4)
    with cache_prices_forced_known [OF * known] show ?thesis
      by (simp add: CForced Pair)
  qed
qed

lemma run_calls_known: "known_price (fst s) k it \<Longrightarrow> known_price (fst (run_calls env calls s)) k it"
  unfolding run_calls_def by (induction calls arbitrary: s) (simp_all add: run_call_known)

section \<open>Properties\<close>

text \<open>A fresh entry is served without asking the cloud: right after a fetch that succeeded, and until
  the price time to live has passed, a second call for the same cloud and region returns the same
  prices and leaves the world and the cache as they are.\<close>

theorem prices_served_from_cache:
  assumes "cache_prices_forced env cloud region types c w = (v, None, c', w')"
    and "mget (env_sources env) cloud = Some s"
    and "env_now env w'' - env_now env w \<le> (if src_price_ttl s \<le> 0 then default_price_ttl else src_price_ttl s)"
  shows "cache_prices env cloud region types' c' w'' = (v, None, c', w'')"
proof -
  have "mget (c_prices c') (cache_key cloud region) =
      Some \<lparr>pe_prices = v, pe_fetched = env_now env w, pe_failed_at = None\<rparr>"
    using assms(1,2) by (auto simp: cache_prices_forced_def Let_def intro: fetch_prices_stores)
  from cache_prices_hit [OF assms(2) this] assms(3) show ?thesis by simp
qed

definition sample_source :: "int source" where
  "sample_source = \<lparr>src_specs_ttl = 0, src_price_ttl = 60 * second,
     src_regions = (\<lambda>w. (Inr [''r1''], w + 1)),
     src_fetch_specs = (\<lambda>r w. (Inr [], w + 1)),
     src_fetch_prices = (\<lambda>r ts w. if w < 5 * second then (Inr [(''a'', \<lparr>p_on_demand = Fin 1, p_spot = Fin 0\<rparr>)], w + 1)
                                  else (Inl (Err ''timeout''), w + 1))\<rparr>"

definition sample_env :: "int env" where
  "sample_env = \<lparr>env_sources = [(''aws'', sample_source)], env_now = (\<lambda>w. w)\<rparr>"

theorem prices_served_from_cache_witness:
  "\<exists>v c'. cache_prices sample_env ''aws'' ''r1'' [] c' 7 = (v, None, c', 7) \<and>
     mget v ''a'' = Some \<lparr>p_on_demand = Fin 1, p_spot = Fin 0\<rparr>"
proof -
  let ?r = "cache_prices_forced sample_env ''aws'' ''r1'' [''a''] new_cache 0"
  have r: "?r = (fst ?r, None, fst (snd (snd ?r)), 1)"
    by code_simp
  have "cache_prices sample_env ''aws'' ''r1'' [] (fst (snd (snd ?r))) 7 = (fst ?r, None, fst (snd (snd ?r)), 7)"
    by (rule prices_served_from_cache [OF r, where s = sample_source])
      (simp_all add: sample_env_def sample_source_def second_def)
  moreover have "mget (fst ?r) ''a'' = Some \<lparr>p_on_demand = Fin 1, p_spot = Fin 0\<rparr>"
    by code_simp
  ultimately show ?thesis by blast
qed

text \<open>A refresh of prices is a merge: the answer and the stored entry give, for every instance type,
  the fetched price when the cloud returned one and the price known before otherwise, and no
  other entry of the cache changes.\<close>

theorem prices_refresh_merges:
  assumes "mget (env_sources env) cloud = Some s"
    and "src_fetch_prices s region types w = (Inr fresh, w')"
    and "cache_prices_forced env cloud region types c w = (v, e, c', w1)"
  shows "e = None \<and> w1 = w' \<and>
    (\<forall>it. mget v it = (case mget (rev fresh) it of Some p \<Rightarrow> Some p
        | None \<Rightarrow> (case mget (c_prices c) (cache_key cloud region) of None \<Rightarrow> None | Some en \<Rightarrow> mget (pe_prices en) it))) \<and>
    mget (c_prices c') (cache_key cloud region) =
      Some \<lparr>pe_prices = v, pe_fetched = env_now env w, pe_failed_at = None\<rparr> \<and>
    (\<forall>k. k \<noteq> cache_key cloud region \<longrightarrow> mget (c_prices c') k = mget (c_prices c) k) \<and>
    c_specs c' = c_specs c \<and> c_regions c' = c_regions c"
  using assms
  by (auto simp: cache_prices_forced_def fetch_prices_def Let_def mget_merge_prices split: option.splits)

theorem prices_refresh_merges_witness:
  "\<exists>v e c' w1. cache_prices_forced sample_env ''aws'' ''r1'' [''a''] new_cache 0 = (v, e, c', w1) \<and>
     e = None \<and> mget v ''a'' = Some \<lparr>p_on_demand = Fin 1, p_spot = Fin 0\<rparr>"
proof -
  obtain v e c' w1 where r: "cache_prices_forced sample_env ''aws'' ''r1'' [''a''] new_cache 0 = (v, e, c', w1)"
    by (metis prod_cases4)
  have "mget (env_sources sample_env) ''aws'' = Some sample_source"
    by (simp add: sample_env_def)
  moreover have "src_fetch_prices sample_source ''r1'' [''a''] 0 = (Inr [(''a'', \<lparr>p_on_demand = Fin 1, p_spot = Fin 0\<rparr>)], 1)"
    by (simp add: sample_source_def second_def)
  ultimately show ?thesis
    using prices_refresh_merges [OF _ _ r] r by fastforce
qed

text \<open>No sequence of calls forgets a price: once the cache knows a price for an instance type of a
  cloud and region, it still knows one after any further calls, whatever the cloud answers.\<close>

theorem prices_never_forgotten:
  assumes "known_price c k it"
  shows "known_price (fst (run_calls env calls (c, w))) k it"
  using run_calls_known [of "(c, w)"] assms by simp

theorem prices_never_forgotten_witness:
  "known_price (fst (run_calls sample_env [CPrices ''aws'' ''r1'' [], CInstances ''aws'' ''r1'']
     (\<lparr>c_specs = [], c_regions = [], c_prices = [(''k'', \<lparr>pe_prices = [(''a'', \<lparr>p_on_demand = Fin 1, p_spot = Fin 0\<rparr>)],
        pe_fetched = 0, pe_failed_at = None\<rparr>)]\<rparr>, 0))) ''k'' ''a''"
  by (rule prices_never_forgotten) (simp add: known_price_def)

text \<open>A failed fetch loses nothing and answers with what is known: the specs and the prices of the
  failed region come back beside the error, the cached data are those of before; a fetch of regions that
  fails gives no regions even when the cache holds some.\<close>

theorem failed_fetch_keeps_data:
  assumes "mget (env_sources env) cloud = Some s"
  shows "(src_fetch_specs s region w = (Inl e, w') \<longrightarrow>
      mget (c_specs c) (cache_key cloud region) = Some en \<longrightarrow>
      cache_instances env cloud region c w \<in> {(se_instances en, Some e, c, w'), (se_instances en, None, c, w)}) \<and>
    (src_fetch_prices s region types w = (Inl e, w') \<longrightarrow>
      mget (c_prices c) (cache_key cloud region) = Some pn \<longrightarrow>
      (\<exists>c'. cache_prices_forced env cloud region types c w = (pe_prices pn, Some e, c', w') \<and>
        mget (c_prices c') (cache_key cloud region) = Some (pn\<lparr>pe_failed_at := Some (env_now env w)\<rparr>))) \<and>
    (src_regions s w = (Inl e, w') \<longrightarrow> mget (c_regions c) cloud = Some rn \<longrightarrow>
      default_specs_ttl < env_now env w - re_fetched rn \<longrightarrow> src_specs_ttl s \<le> 0 \<longrightarrow>
      cache_regions env cloud c w = ([], Some e, c, w'))"
  using assms
  by (auto simp: cache_instances_def cache_prices_forced_def fetch_prices_def cache_regions_def Let_def)

theorem failed_fetch_keeps_data_witness:
  "\<exists>c'. cache_prices_forced sample_env ''aws'' ''r1'' []
      \<lparr>c_specs = [], c_regions = [], c_prices = [(cache_key ''aws'' ''r1'', \<lparr>pe_prices = [], pe_fetched = 0, pe_failed_at = None\<rparr>)]\<rparr>
      (6 * second) = ([], Some (Err ''timeout''), c', 6 * second + 1)"
proof -
  let ?pn = "\<lparr>pe_prices = [], pe_fetched = 0, pe_failed_at = None\<rparr>"
  have s: "mget (env_sources sample_env) ''aws'' = Some sample_source"
    by (simp add: sample_env_def)
  have f: "src_fetch_prices sample_source ''r1'' [] (6 * second) = (Inl (Err ''timeout''), 6 * second + 1)"
    by (simp add: sample_source_def second_def)
  show ?thesis
    using failed_fetch_keeps_data [OF s, THEN conjunct2, THEN conjunct1, rule_format, OF f,
        where pn = ?pn and c = "\<lparr>c_specs = [], c_regions = [], c_prices = [(cache_key ''aws'' ''r1'', ?pn)]\<rparr>"]
    by auto
qed

text \<open>The five-second pause after a failed price fetch protects only a region whose prices were fetched
  before: on a cold cache every call goes to the cloud again, however recent the failure.\<close>

theorem cold_failure_not_backed_off:
  assumes "mget (env_sources env) cloud = Some s"
    and "\<forall>w. \<exists>e. src_fetch_prices s region types w = (Inl e, next_w w)"
    and "mget (c_prices c) (cache_key cloud region) = None"
  shows "\<exists>e. cache_prices env cloud region types c w = ([], Some e, c, next_w w)"
proof -
  obtain e where "src_fetch_prices s region types w = (Inl e, next_w w)"
    using assms(2) by blast
  with assms show ?thesis
    by (auto simp: cache_prices_def fetch_prices_def Let_def)
qed

theorem cold_failure_not_backed_off_witness:
  "\<exists>e. cache_prices \<lparr>env_sources = [(''aws'', sample_source\<lparr>src_fetch_prices := \<lambda>r ts w. (Inl (Err ''x''), w + 1)\<rparr>)],
      env_now = \<lambda>w. 0\<rparr> ''aws'' ''r1'' [] new_cache 3 = ([], Some e, new_cache, 4)"
  using cold_failure_not_backed_off [of "\<lparr>env_sources = [(''aws'', sample_source\<lparr>src_fetch_prices := \<lambda>r ts w. (Inl (Err ''x''), w + 1)\<rparr>)],
      env_now = \<lambda>w. 0\<rparr>" "''aws''" _ "''r1''" "[]" "\<lambda>w. w + 1" new_cache 3]
  by (simp add: new_cache_def)

end
