(* ===== verification/Metacache_Steps.thy ===== *)
theory Metacache_Steps
  imports Metacache
begin

text \<open>
  The metadata cache under concurrent calls, \<open>internal/metacache/metacache.go\<close>. The lock is held twice in a call, before and after the
  fetch: a call begins, fetches and ends, in three steps, and the steps of several calls interleave in any way. The
  prices of an entry are a map that the entry, its snapshots and the answers share, so maps have addresses. \<open>Metacache\<close> has the calls
  as one step; a call that nothing interrupts is shown to be that.
\<close>

section \<open>State\<close>

text \<open>\<open>sh_map\<close> is the address of a map in \<open>sd_maps\<close>.\<close>

record shared_entry =
  sh_map :: nat
  sh_fetched :: int
  sh_failed_at :: "int option"

record shared =
  sd_specs :: "spec_entry smap"
  sd_regions :: "region_entry smap"
  sd_prices :: "shared_entry smap"
  sd_maps :: "price smap list"

datatype 'p cache_reply = Reply_specs "itype list" "error option" | Reply_regions "string list" "error option"
  | Reply_prices 'p "error option"

text \<open>What a call has at hand while it fetches, with the entry it saw, and after it.\<close>

datatype 'w fetching = Fetch_specs "'w source" string string int "spec_entry option" | Fetch_regions "'w source" string int
  | Fetch_prices "'w source" string "string list" string int "shared_entry option"

datatype fetched = Got_specs string int "spec_entry option" "itype list res" | Got_regions string int "string list res"
  | Got_prices string int "shared_entry option" "price smap res"

datatype 'w thread = Asking cache_call | Fetching "'w fetching" | Got fetched | Replied "nat option cache_reply"

section \<open>Steps\<close>

text \<open>Up to the fetch: an entry that is fresh, or whose last fetch has just failed, is the answer.\<close>

definition specs_ttl :: "'w source \<Rightarrow> int" where
  "specs_ttl s = (if src_specs_ttl s \<le> 0 then default_specs_ttl else src_specs_ttl s)"

definition price_ttl :: "'w source \<Rightarrow> int" where
  "price_ttl s = (if src_price_ttl s \<le> 0 then default_price_ttl else src_price_ttl s)"

definition begin_specs :: "'w source \<Rightarrow> string \<Rightarrow> string \<Rightarrow> int \<Rightarrow> shared \<Rightarrow> 'w thread" where
  "begin_specs s region k now d =
     (case mget (sd_specs d) k of
        None \<Rightarrow> Fetching (Fetch_specs s region k now None)
      | Some en \<Rightarrow> if now - se_fetched en \<le> specs_ttl s then Replied (Reply_specs (se_instances en) None)
                   else Fetching (Fetch_specs s region k now (Some en)))"

definition begin_regions :: "'w source \<Rightarrow> string \<Rightarrow> int \<Rightarrow> shared \<Rightarrow> 'w thread" where
  "begin_regions s cloud now d =
     (case mget (sd_regions d) cloud of
        None \<Rightarrow> Fetching (Fetch_regions s cloud now)
      | Some en \<Rightarrow> if now - re_fetched en \<le> specs_ttl s then Replied (Reply_regions (re_regions en) None)
                   else Fetching (Fetch_regions s cloud now))"

definition begin_prices :: "bool \<Rightarrow> 'w source \<Rightarrow> string \<Rightarrow> string list \<Rightarrow> string \<Rightarrow> int \<Rightarrow> shared \<Rightarrow> 'w thread" where
  "begin_prices forced s region types k now d =
     (case mget (sd_prices d) k of
        None \<Rightarrow> Fetching (Fetch_prices s region types k now None)
      | Some en \<Rightarrow>
          if \<not> forced \<and> (now - sh_fetched en \<le> price_ttl s \<or> (case sh_failed_at en of None \<Rightarrow> False | Some f \<Rightarrow> now - f < 5 * second))
          then Replied (Reply_prices (Some (sh_map en)) None)
          else Fetching (Fetch_prices s region types k now (Some en)))"

fun begin_call :: "'w env \<Rightarrow> cache_call \<Rightarrow> shared \<Rightarrow> 'w \<Rightarrow> 'w thread" where
  "begin_call env (CInstances cloud region) d w =
     (case mget (env_sources env) cloud of
        None \<Rightarrow> Replied (Reply_specs [] None) | Some s \<Rightarrow> begin_specs s region (cache_key cloud region) (env_now env w) d)"
| "begin_call env (CRegions cloud) d w =
     (case mget (env_sources env) cloud of
        None \<Rightarrow> Replied (Reply_regions [] None) | Some s \<Rightarrow> begin_regions s cloud (env_now env w) d)"
| "begin_call env (CPrices cloud region types) d w =
     (case mget (env_sources env) cloud of
        None \<Rightarrow> Replied (Reply_prices None None)
      | Some s \<Rightarrow> begin_prices False s region types (cache_key cloud region) (env_now env w) d)"
| "begin_call env (CForced cloud region types) d w =
     (case mget (env_sources env) cloud of
        None \<Rightarrow> Replied (Reply_prices None None)
      | Some s \<Rightarrow> begin_prices True s region types (cache_key cloud region) (env_now env w) d)"

fun run_fetch :: "'w fetching \<Rightarrow> 'w \<Rightarrow> fetched \<times> 'w" where
  "run_fetch (Fetch_specs s region k now entry) w = (case src_fetch_specs s region w of (a, w1) \<Rightarrow> (Got_specs k now entry a, w1))"
| "run_fetch (Fetch_regions s cloud now) w = (case src_regions s w of (a, w1) \<Rightarrow> (Got_regions cloud now a, w1))"
| "run_fetch (Fetch_prices s region types k now entry) w =
     (case src_fetch_prices s region types w of (a, w1) \<Rightarrow> (Got_prices k now entry a, w1))"

text \<open>The prices go into the map of the entry that was seen, or into a new one; the entry is written back whatever it is by now.\<close>

definition new_map :: "shared \<Rightarrow> nat \<times> shared" where
  "new_map d = (length (sd_maps d), d\<lparr>sd_maps := sd_maps d @ [[]]\<rparr>)"

definition merge_into :: "nat \<Rightarrow> price smap \<Rightarrow> shared \<Rightarrow> shared" where
  "merge_into a fresh d = d\<lparr>sd_maps := (sd_maps d)[a := merge_prices (sd_maps d ! a) fresh]\<rparr>"

definition put_entry :: "string \<Rightarrow> shared_entry \<Rightarrow> shared \<Rightarrow> shared" where
  "put_entry k en d = d\<lparr>sd_prices := mput k en (sd_prices d)\<rparr>"

fun end_fetch :: "fetched \<Rightarrow> shared \<Rightarrow> nat option cache_reply \<times> shared" where
  "end_fetch (Got_specs k now entry (Inl e)) d = (Reply_specs (case entry of None \<Rightarrow> [] | Some en \<Rightarrow> se_instances en) (Some e), d)"
| "end_fetch (Got_specs k now entry (Inr fresh)) d =
     (Reply_specs fresh None, d\<lparr>sd_specs := mput k \<lparr>se_instances = fresh, se_fetched = now\<rparr> (sd_specs d)\<rparr>)"
| "end_fetch (Got_regions cloud now (Inl e)) d = (Reply_regions [] (Some e), d)"
| "end_fetch (Got_regions cloud now (Inr fresh)) d =
     (Reply_regions fresh None, d\<lparr>sd_regions := mput cloud \<lparr>re_regions = fresh, re_fetched = now\<rparr> (sd_regions d)\<rparr>)"
| "end_fetch (Got_prices k now entry (Inl e)) d =
     (Reply_prices (map_option sh_map entry) (Some e),
      case entry of None \<Rightarrow> d | Some en \<Rightarrow> put_entry k (en\<lparr>sh_failed_at := Some now\<rparr>) d)"
| "end_fetch (Got_prices k now entry (Inr fresh)) d =
     (case (case entry of None \<Rightarrow> new_map d | Some en \<Rightarrow> (sh_map en, d)) of
        (a, d1) \<Rightarrow> (Reply_prices (Some a) None,
                    put_entry k \<lparr>sh_map = a, sh_fetched = now, sh_failed_at = None\<rparr> (merge_into a fresh d1)))"

text \<open>Calls arrive and advance in any order; the world may change between any two steps.\<close>

record 'w traffic =
  tr_calls :: "'w thread list"
  tr_shared :: shared
  tr_world :: 'w

definition advance :: "'w env \<Rightarrow> nat \<Rightarrow> 'w traffic \<Rightarrow> 'w traffic" where
  "advance env i t =
     (case tr_calls t ! i of
        Asking c \<Rightarrow> t\<lparr>tr_calls := (tr_calls t)[i := begin_call env c (tr_shared t) (tr_world t)]\<rparr>
      | Fetching f \<Rightarrow> (case run_fetch f (tr_world t) of (g, w1) \<Rightarrow> t\<lparr>tr_calls := (tr_calls t)[i := Got g], tr_world := w1\<rparr>)
      | Got g \<Rightarrow> (case end_fetch g (tr_shared t) of (r, d1) \<Rightarrow> t\<lparr>tr_calls := (tr_calls t)[i := Replied r], tr_shared := d1\<rparr>)
      | Replied r \<Rightarrow> t)"

inductive cache_step :: "'w env \<Rightarrow> 'w traffic \<Rightarrow> 'w traffic \<Rightarrow> bool" for env where
  Arrive: "cache_step env t (t\<lparr>tr_calls := tr_calls t @ [Asking c]\<rparr>)"
| Elapse: "cache_step env t (t\<lparr>tr_world := w\<rparr>)"
| Advance: "i < length (tr_calls t) \<Longrightarrow> cache_step env t (advance env i t)"

inductive_cases cache_stepE: "cache_step env t t'"

definition empty_shared :: shared where
  "empty_shared = \<lparr>sd_specs = [], sd_regions = [], sd_prices = [], sd_maps = []\<rparr>"

section \<open>Prices under concurrent calls\<close>

definition shared_price :: "shared \<Rightarrow> string \<Rightarrow> string \<Rightarrow> bool" where
  "shared_price d k it \<longleftrightarrow>
     (\<exists>en. mget (sd_prices d) k = Some en \<and> sh_map en < length (sd_maps d) \<and> mget (sd_maps d ! sh_map en) it \<noteq> None)"

text \<open>The entry a price call on its way has seen.\<close>

fun snapshot :: "'w thread \<Rightarrow> (string \<times> shared_entry option) option" where
  "snapshot (Fetching (Fetch_prices s region types k now entry)) = Some (k, entry)"
| "snapshot (Got (Got_prices k now entry a)) = Some (k, entry)"
| "snapshot _ = None"

text \<open>The calls on their way for a key have all seen an entry with the map it has now.\<close>

definition no_cold_call :: "string \<Rightarrow> 'w traffic \<Rightarrow> bool" where
  "no_cold_call k t \<longleftrightarrow>
     (\<forall>th \<in> set (tr_calls t). \<forall>entry. snapshot th = Some (k, entry) \<longrightarrow>
        (\<exists>en now. entry = Some en \<and> mget (sd_prices (tr_shared t)) k = Some now \<and> sh_map en = sh_map now))"

definition warm :: "nat \<Rightarrow> string \<Rightarrow> string \<Rightarrow> 'w traffic \<Rightarrow> bool" where
  "warm a k it t \<longleftrightarrow>
     (\<exists>en. mget (sd_prices (tr_shared t)) k = Some en \<and> sh_map en = a) \<and>
     a < length (sd_maps (tr_shared t)) \<and> mget (sd_maps (tr_shared t) ! a) it \<noteq> None \<and>
     (\<forall>th \<in> set (tr_calls t). \<forall>entry. snapshot th = Some (k, entry) \<longrightarrow> (\<exists>en. entry = Some en \<and> sh_map en = a))"

lemma warm_price: "warm a k it t \<Longrightarrow> shared_price (tr_shared t) k it"
  by (auto simp: warm_def shared_price_def)

lemma merge_keeps: "mget old it \<noteq> None \<Longrightarrow> mget (merge_prices old fresh) it \<noteq> None"
  by (auto simp: mget_merge_prices split: option.splits)

lemma put_entry_fields [simp]:
  "sd_specs (put_entry k en d) = sd_specs d" "sd_regions (put_entry k en d) = sd_regions d" "sd_maps (put_entry k en d) = sd_maps d"
  "sd_prices (put_entry k en d) = mput k en (sd_prices d)"
  by (simp_all add: put_entry_def)

lemma merge_into_fields [simp]:
  "sd_specs (merge_into a fresh d) = sd_specs d" "sd_regions (merge_into a fresh d) = sd_regions d"
  "sd_prices (merge_into a fresh d) = sd_prices d" "length (sd_maps (merge_into a fresh d)) = length (sd_maps d)"
  by (simp_all add: merge_into_def)

lemma merge_into_keeps: "mget (sd_maps d ! a) it \<noteq> None \<Longrightarrow> mget (sd_maps (merge_into b fresh d) ! a) it \<noteq> None"
  by (cases "b < length (sd_maps d)") (auto simp: merge_into_def merge_keeps nth_list_update list_update_beyond simp del: not_None_eq)

lemma new_map_keeps:
  "new_map d = (a, d1) \<Longrightarrow> a = length (sd_maps d) \<and> sd_prices d1 = sd_prices d \<and> sd_specs d1 = sd_specs d \<and> sd_regions d1 = sd_regions d \<and>
    sd_maps d1 = sd_maps d @ [[]]"
  by (auto simp: new_map_def)

lemma warm_calls:
  assumes "warm a k it t" "set cs \<subseteq> set (tr_calls t) \<union> {th}"
    "\<And>entry. snapshot th = Some (k, entry) \<Longrightarrow> \<exists>en. entry = Some en \<and> sh_map en = a"
  shows "warm a k it (t\<lparr>tr_calls := cs\<rparr>)"
  using assms unfolding warm_def by simp blast

lemma begin_call_snapshot:
  "snapshot (begin_call env c d w) = Some (k, entry) \<Longrightarrow> entry = mget (sd_prices d) k"
  by (cases c) (auto simp: begin_specs_def begin_regions_def begin_prices_def split: option.splits if_splits)

lemma run_fetch_snapshot: "run_fetch f w = (g, w1) \<Longrightarrow> snapshot (Got g) = snapshot (Fetching f)"
  by (cases f) (auto split: prod.splits)

lemma end_fetch_warm:
  assumes "warm a k it t" "Got g \<in> set (tr_calls t)" "end_fetch g (tr_shared t) = (r, d)"
  shows "warm a k it (t\<lparr>tr_shared := d\<rparr>)"
proof (cases g)
  case (Got_prices k' now entry ans)
  have seen: "k' = k \<Longrightarrow> \<exists>en. entry = Some en \<and> sh_map en = a"
    using assms(1,2) Got_prices by (force simp: warm_def)
  show ?thesis
  proof (cases ans)
    case (Inl e)
    then show ?thesis using assms(1,3) seen Got_prices by (auto simp: warm_def put_entry_def split: option.splits)
  next
    case (Inr fresh)
    obtain b d1 where m: "(case entry of None \<Rightarrow> new_map (tr_shared t) | Some en \<Rightarrow> (sh_map en, tr_shared t)) = (b, d1)" by (rule prod.exhaust)
    have old: "a < length (sd_maps d1)" "mget (sd_maps d1 ! a) it \<noteq> None" "sd_prices d1 = sd_prices (tr_shared t)"
      using assms(1) m new_map_keeps by (auto simp: warm_def nth_append split: option.splits)
    have "d = put_entry k' \<lparr>sh_map = b, sh_fetched = now, sh_failed_at = None\<rparr> (merge_into b fresh d1)"
      using assms(3) m Got_prices Inr by simp
    moreover have "k' = k \<Longrightarrow> b = a" using seen m by auto
    ultimately show ?thesis using assms(1) old merge_into_keeps [OF old(2)] by (auto simp: warm_def simp del: not_None_eq)
  qed
next
  case (Got_specs k' now entry ans)
  then show ?thesis using assms(1,3) by (cases ans) (auto simp: warm_def)
next
  case (Got_regions cl now ans)
  then show ?thesis using assms(1,3) by (cases ans) (auto simp: warm_def)
qed

lemma step_warm: "cache_step env t t' \<Longrightarrow> warm a k it t \<Longrightarrow> warm a k it t'"
proof (induction rule: cache_step.induct)
  case (Arrive t c)
  then show ?case by (auto intro: warm_calls [where th = "Asking c"])
next
  case (Elapse t w)
  then show ?case by (simp add: warm_def)
next
  case (Advance i t)
  note upd = set_update_subset_insert [of "tr_calls t" i]
  have mem: "tr_calls t ! i \<in> set (tr_calls t)" using Advance.hyps by simp
  show ?case
  proof (cases "tr_calls t ! i")
    case (Asking c)
    have "warm a k it (t\<lparr>tr_calls := (tr_calls t)[i := begin_call env c (tr_shared t) (tr_world t)]\<rparr>)"
      using Advance.prems upd by (intro warm_calls) (auto dest!: begin_call_snapshot simp: warm_def)
    then show ?thesis by (simp add: advance_def Asking)
  next
    case (Fetching f)
    obtain g w1 where f: "run_fetch f (tr_world t) = (g, w1)" by (rule prod.exhaust)
    have "warm a k it (t\<lparr>tr_calls := (tr_calls t)[i := Got g]\<rparr>)"
    proof (rule warm_calls [OF Advance.prems])
      show "\<exists>en. entry = Some en \<and> sh_map en = a" if "snapshot (Got g) = Some (k, entry)" for entry
        using that Advance.prems mem unfolding run_fetch_snapshot [OF f] Fetching warm_def by blast
    qed (use upd in auto)
    then show ?thesis by (simp add: advance_def Fetching f warm_def)
  next
    case (Got g)
    obtain r d where g: "end_fetch g (tr_shared t) = (r, d)" by (rule prod.exhaust)
    have "warm a k it (t\<lparr>tr_shared := d\<rparr>)" using end_fetch_warm Advance.prems mem g unfolding Got by blast
    then have "warm a k it (t\<lparr>tr_shared := d\<rparr>\<lparr>tr_calls := (tr_calls t)[i := Replied r]\<rparr>)"
      using upd by (intro warm_calls) auto
    then show ?thesis by (simp add: advance_def Got g warm_def)
  next
    case (Replied r)
    then show ?thesis using Advance.prems by (simp add: advance_def)
  qed
qed

lemma steps_warm: "(cache_step env)\<^sup>*\<^sup>* t t' \<Longrightarrow> warm a k it t \<Longrightarrow> warm a k it t'"
  by (induction rule: rtranclp_induct) (auto intro: step_warm)

text \<open>C29. However calls interleave, a price that the cache knows is kept, once every call on its way for its cloud and region has seen the
  entry in the cache.\<close>

theorem concurrent_prices_kept:
  assumes "(cache_step env)\<^sup>*\<^sup>* t t'" "shared_price (tr_shared t) k it" "no_cold_call k t"
  shows "shared_price (tr_shared t') k it"
proof -
  obtain en where en: "mget (sd_prices (tr_shared t)) k = Some en" using assms(2) by (auto simp: shared_price_def)
  have "warm (sh_map en) k it t" using assms(2,3) en by (fastforce simp: warm_def shared_price_def no_cold_call_def)
  then show ?thesis using assms(1) warm_price steps_warm by blast
qed

text \<open>A cloud that answers the prices asked for, each time a second later, and fails from the fifth.\<close>

definition busy_price :: price where "busy_price = \<lparr>p_on_demand = Fin 1, p_spot = Fin 0\<rparr>"

definition busy_source :: "int source" where
  "busy_source = \<lparr>src_specs_ttl = 0, src_price_ttl = 1, src_regions = (\<lambda>w. (Inr [], w)), src_fetch_specs = (\<lambda>r w. (Inr [], w)),
     src_fetch_prices = (\<lambda>r ts w. (if w < 5 * second then Inr (map (\<lambda>it. (it, busy_price)) ts) else Inl (Err ''timeout''), w + second))\<rparr>"

definition busy_env :: "int env" where
  "busy_env = \<lparr>env_sources = [(''aws'', busy_source)], env_now = (\<lambda>w. w)\<rparr>"

definition asking :: "cache_call list \<Rightarrow> shared \<Rightarrow> int \<Rightarrow> int traffic" where
  "asking cs d w = \<lparr>tr_calls = map Asking cs, tr_shared = d, tr_world = w\<rparr>"

fun advance_all :: "'w env \<Rightarrow> nat list \<Rightarrow> 'w traffic \<Rightarrow> 'w traffic" where
  "advance_all env [] t = t"
| "advance_all env (i # is) t = advance_all env is (advance env i t)"

lemma advance_calls [simp]: "length (tr_calls (advance env i t)) = length (tr_calls t)"
  by (auto simp: advance_def split: thread.splits prod.splits)

lemma advance_all_steps: "list_all (\<lambda>i. i < length (tr_calls t)) is \<Longrightarrow> (cache_step env)\<^sup>*\<^sup>* t (advance_all env is t)"
proof (induction "is" arbitrary: t)
  case (Cons i "is")
  then have "cache_step env t (advance env i t)" by (intro cache_step.Advance) simp
  then show ?case using Cons by (auto intro: converse_rtranclp_into_rtranclp)
qed simp

definition warm_shared :: shared where
  "warm_shared = \<lparr>sd_specs = [], sd_regions = [],
     sd_prices = [(cache_key ''aws'' ''r1'', \<lparr>sh_map = 0, sh_fetched = 0, sh_failed_at = None\<rparr>)], sd_maps = [[(''a'', busy_price)]]\<rparr>"

text \<open>Two calls on a warm entry, whose steps alternate.\<close>

theorem concurrent_prices_kept_witness:
  "shared_price (tr_shared (advance_all busy_env [0, 1, 0, 1, 1, 0]
     (asking [CPrices ''aws'' ''r1'' [''b''], CForced ''aws'' ''r1'' [''c'']] warm_shared second))) (cache_key ''aws'' ''r1'') ''a''"
proof (rule concurrent_prices_kept [OF advance_all_steps])
  show "shared_price (tr_shared (asking [CPrices ''aws'' ''r1'' [''b''], CForced ''aws'' ''r1'' [''c'']] warm_shared second))
      (cache_key ''aws'' ''r1'') ''a''"
    by (simp add: shared_price_def asking_def warm_shared_def)
qed (simp_all add: asking_def no_cold_call_def)

text \<open>
  Two calls on an empty cache make a map each, and the prices of the one that ends first are forgotten. A failure puts the
  time of the last fetch back to what it was when the call began. And the map that a call answers with is written to by later calls.
\<close>

definition two_cold :: "int traffic" where
  "two_cold = asking [CPrices ''aws'' ''r1'' [''a''], CPrices ''aws'' ''r1'' [''b'']] empty_shared 0"

lemma cold_calls_forget:
  "shared_price (tr_shared (advance_all busy_env [0, 1, 0, 1, 0] two_cold)) (cache_key ''aws'' ''r1'') ''a''"
  "\<not> shared_price (tr_shared (advance_all busy_env [0, 1, 0, 1, 0, 1] two_cold)) (cache_key ''aws'' ''r1'') ''a''"
proof -
  let ?k = "cache_key ''aws'' ''r1''"
  have "tr_shared (advance_all busy_env [0, 1, 0, 1, 0] two_cold) = \<lparr>sd_specs = [], sd_regions = [],
      sd_prices = [(?k, \<lparr>sh_map = 0, sh_fetched = 0, sh_failed_at = None\<rparr>)], sd_maps = [[(''a'', busy_price)]]\<rparr>"
    "tr_shared (advance_all busy_env [0, 1, 0, 1, 0, 1] two_cold) = \<lparr>sd_specs = [], sd_regions = [],
      sd_prices = [(?k, \<lparr>sh_map = 1, sh_fetched = 0, sh_failed_at = None\<rparr>)], sd_maps = [[(''a'', busy_price)], [(''b'', busy_price)]]\<rparr>"
    by code_simp+
  then show "shared_price (tr_shared (advance_all busy_env [0, 1, 0, 1, 0] two_cold)) ?k ''a''"
    "\<not> shared_price (tr_shared (advance_all busy_env [0, 1, 0, 1, 0, 1] two_cold)) ?k ''a''"
    by (simp_all add: shared_price_def)
qed

lemma failure_turns_time_back:
  "map_option sh_fetched (mget (sd_prices (tr_shared (advance_all busy_env [0, 1, 0, 0]
     (asking [CForced ''aws'' ''r1'' [''a''], CForced ''aws'' ''r1'' [''a'']] warm_shared (4 * second)))))
     (cache_key ''aws'' ''r1'')) = Some (4 * second)"
  "map_option sh_fetched (mget (sd_prices (tr_shared (advance_all busy_env [0, 1, 0, 0, 1, 1]
     (asking [CForced ''aws'' ''r1'' [''a''], CForced ''aws'' ''r1'' [''a'']] warm_shared (4 * second)))))
     (cache_key ''aws'' ''r1'')) = Some 0"
  by code_simp+

lemma answer_is_written_to:
  assumes "end_fetch (Got_prices k now (Some en) (Inr fresh)) d = (r, d1)" "sh_map en < length (sd_maps d)"
  shows "r = Reply_prices (Some (sh_map en)) None \<and> sd_maps d1 ! sh_map en = merge_prices (sd_maps d ! sh_map en) fresh"
  using assms by (auto simp: merge_into_def put_entry_def)

text \<open>A fresh entry is the answer whatever types are asked for: those it lacks are not fetched until it expires.\<close>

lemma fresh_entry_hides_types:
  assumes "mget (env_sources env) cloud = Some s" "mget (sd_prices d) (cache_key cloud region) = Some en"
    "env_now env w - sh_fetched en \<le> price_ttl s"
  shows "begin_call env (CPrices cloud region types) d w = Replied (Reply_prices (Some (sh_map en)) None)"
  using assms by (simp add: begin_prices_def)

section \<open>A call alone\<close>

text \<open>The cache of \<open>Metacache\<close> that the shared one stands for, when no two entries share a map.\<close>

definition entry_at :: "shared \<Rightarrow> shared_entry \<Rightarrow> price_entry" where
  "entry_at d en = \<lparr>pe_prices = sd_maps d ! sh_map en, pe_fetched = sh_fetched en, pe_failed_at = sh_failed_at en\<rparr>"

definition represents :: "shared \<Rightarrow> cache \<Rightarrow> bool" where
  "represents d c \<longleftrightarrow> sd_specs d = c_specs c \<and> sd_regions d = c_regions c \<and>
     (\<forall>k. mget (c_prices c) k = map_option (entry_at d) (mget (sd_prices d) k))"

definition unshared :: "shared \<Rightarrow> bool" where
  "unshared d \<longleftrightarrow>
     (\<forall>k en. mget (sd_prices d) k = Some en \<longrightarrow> sh_map en < length (sd_maps d) \<and>
        (\<forall>k' en'. mget (sd_prices d) k' = Some en' \<longrightarrow> sh_map en' = sh_map en \<longrightarrow> k' = k))"

fun prices_at :: "shared \<Rightarrow> nat option \<Rightarrow> price smap" where
  "prices_at d None = []"
| "prices_at d (Some a) = sd_maps d ! a"

fun one_step_call :: "'w env \<Rightarrow> cache_call \<Rightarrow> cache \<Rightarrow> 'w \<Rightarrow> price smap cache_reply \<times> cache \<times> 'w" where
  "one_step_call env (CInstances cl r) c w = (case cache_instances env cl r c w of (v, e, c1, w1) \<Rightarrow> (Reply_specs v e, c1, w1))"
| "one_step_call env (CRegions cl) c w = (case cache_regions env cl c w of (v, e, c1, w1) \<Rightarrow> (Reply_regions v e, c1, w1))"
| "one_step_call env (CPrices cl r ts) c w = (case cache_prices env cl r ts c w of (v, e, c1, w1) \<Rightarrow> (Reply_prices v e, c1, w1))"
| "one_step_call env (CForced cl r ts) c w = (case cache_prices_forced env cl r ts c w of (v, e, c1, w1) \<Rightarrow> (Reply_prices v e, c1, w1))"

definition alone :: "'w env \<Rightarrow> cache_call \<Rightarrow> shared \<Rightarrow> 'w \<Rightarrow> 'w traffic" where
  "alone env call d w = advance_all env [0, 0, 0] \<lparr>tr_calls = [Asking call], tr_shared = d, tr_world = w\<rparr>"

definition refines :: "'w traffic \<Rightarrow> price smap cache_reply \<times> cache \<times> 'w \<Rightarrow> bool" where
  "refines t res \<longleftrightarrow>
     (\<exists>r d. t = \<lparr>tr_calls = [Replied r], tr_shared = d, tr_world = snd (snd res)\<rparr> \<and> represents d (fst (snd res)) \<and> unshared d \<and>
        map_cache_reply (prices_at d) r = fst res)"

lemma alone_replied: "begin_call env call d w = Replied r \<Longrightarrow> alone env call d w = \<lparr>tr_calls = [Replied r], tr_shared = d, tr_world = w\<rparr>"
  by (simp add: alone_def advance_def)

lemma alone_fetched:
  "begin_call env call d w = Fetching f \<Longrightarrow> run_fetch f w = (g, w1) \<Longrightarrow> end_fetch g d = (r, d1) \<Longrightarrow>
   alone env call d w = \<lparr>tr_calls = [Replied r], tr_shared = d1, tr_world = w1\<rparr>"
  by (simp add: alone_def advance_def)

lemma representsD: "represents d c \<Longrightarrow> mget (c_prices c) k = map_option (entry_at d) (mget (sd_prices d) k)"
  by (simp add: represents_def)

lemma entry_at_other [simp]: "entry_at (d\<lparr>sd_specs := x\<rparr>) = entry_at d" "entry_at (d\<lparr>sd_regions := y\<rparr>) = entry_at d"
  by (simp_all add: entry_at_def fun_eq_iff)

lemma entry_at_put [simp]: "entry_at (put_entry k en d) = entry_at d"
  by (simp add: entry_at_def fun_eq_iff)

lemma put_entry_refines:
  assumes "represents d c" "unshared d" "mget (sd_prices d) k = Some en" "sh_map en' = sh_map en"
  shows "represents (put_entry k en' d) (c\<lparr>c_prices := mput k (entry_at d en') (c_prices c)\<rparr>) \<and> unshared (put_entry k en' d)"
  using assms by (auto simp: represents_def unshared_def)

lemma merge_into_represents:
  assumes "represents d c" "unshared d" "mget (sd_prices d) k = Some en"
  shows "represents (put_entry k en' (merge_into (sh_map en) fresh d))
      (c\<lparr>c_prices := mput k (entry_at (merge_into (sh_map en) fresh d) en') (c_prices c)\<rparr>)"
proof -
  have "map_option (entry_at (merge_into (sh_map en) fresh d)) (mget (sd_prices d) k') = map_option (entry_at d) (mget (sd_prices d) k')"
    if "k' \<noteq> k" for k'
    using assms(2,3) that by (cases "mget (sd_prices d) k'") (auto simp: entry_at_def merge_into_def unshared_def nth_list_update)
  then show ?thesis using assms(1) by (simp add: represents_def)
qed

lemma merge_into_unshared:
  "unshared d \<Longrightarrow> mget (sd_prices d) k = Some en \<Longrightarrow> sh_map en' = sh_map en \<Longrightarrow> unshared (put_entry k en' (merge_into (sh_map en) fresh d))"
  by (auto simp: unshared_def)

text \<open>A fetch of prices between the two locked sections.\<close>

lemma new_map_refines:
  assumes "represents d c" "unshared d" "mget (sd_prices d) k = None" "new_map d = (a, d1)" "sh_map en = a"
  shows "represents (put_entry k en (merge_into a fresh d1)) (c\<lparr>c_prices := mput k (entry_at (merge_into a fresh d1) en) (c_prices c)\<rparr>)"
    and "unshared (put_entry k en (merge_into a fresh d1))"
proof -
  note m = new_map_keeps [OF assms(4)]
  have "map_option (entry_at (merge_into a fresh d1)) (mget (sd_prices d) k') = map_option (entry_at d) (mget (sd_prices d) k')" for k'
    using assms(2) m by (cases "mget (sd_prices d) k'") (auto simp: entry_at_def merge_into_def unshared_def nth_list_update nth_append)
  then show "represents (put_entry k en (merge_into a fresh d1)) (c\<lparr>c_prices := mput k (entry_at (merge_into a fresh d1) en) (c_prices c)\<rparr>)"
    using assms(1) m by (simp add: represents_def)
  have below: "sh_map x < length (sd_maps d)" if "mget (sd_prices d) k' = Some x" for k' x
    using assms(2) that by (auto simp: unshared_def)
  then have apart: "sh_map x \<noteq> length (sd_maps d)" if "mget (sd_prices d) k' = Some x" for k' x
    using that less_irrefl by metis
  show "unshared (put_entry k en (merge_into a fresh d1))"
    using assms(2,5) m apart by (auto simp: unshared_def less_Suc_eq split: if_splits) blast+
qed

lemma prices_refine:
  assumes "represents d c" "unshared d" "src_fetch_prices s region types w = (ans, w1)"
    "end_fetch (Got_prices k now (mget (sd_prices d) k) ans) d = (r, d1)"
  shows "\<exists>v e c1. fetch_prices s k region types now (mget (c_prices c) k) c w = (v, e, c1, w1) \<and>
    represents d1 c1 \<and> unshared d1 \<and> map_cache_reply (prices_at d1) r = Reply_prices v e"
proof (cases "mget (sd_prices d) k")
  case None
  then have none: "mget (c_prices c) k = None" using representsD [OF assms(1)] by simp
  show ?thesis
  proof (cases ans)
    case (Inl e)
    then show ?thesis using assms None none by (auto simp: fetch_prices_def)
  next
    case (Inr fresh)
    obtain a d0 where m: "new_map d = (a, d0)" by (rule prod.exhaust)
    have d1: "r = Reply_prices (Some a) None" "d1 = put_entry k \<lparr>sh_map = a, sh_fetched = now, sh_failed_at = None\<rparr> (merge_into a fresh d0)"
      using assms(4) None m Inr by auto
    have "entry_at (merge_into a fresh d0) \<lparr>sh_map = a, sh_fetched = now, sh_failed_at = None\<rparr> =
        \<lparr>pe_prices = merge_prices [] fresh, pe_fetched = now, pe_failed_at = None\<rparr>" "sd_maps (merge_into a fresh d0) ! a = merge_prices [] fresh"
      using new_map_keeps [OF m] by (auto simp: entry_at_def merge_into_def)
    then show ?thesis
      using new_map_refines [OF assms(1,2) None m, of "\<lparr>sh_map = a, sh_fetched = now, sh_failed_at = None\<rparr>" fresh] assms(3) Inr none d1
      by (simp add: fetch_prices_def)
  qed
next
  case (Some en)
  then have some: "mget (c_prices c) k = Some (entry_at d en)" using representsD [OF assms(1)] by simp
  show ?thesis
  proof (cases ans)
    case (Inl e)
    have "entry_at d (en\<lparr>sh_failed_at := Some now\<rparr>) = (entry_at d en)\<lparr>pe_failed_at := Some now\<rparr>" by (simp add: entry_at_def)
    then show ?thesis
      using put_entry_refines [OF assms(1,2) Some, of "en\<lparr>sh_failed_at := Some now\<rparr>"] assms(3,4) Inl Some some
      by (auto simp: fetch_prices_def entry_at_def)
  next
    case (Inr fresh)
    let ?en = "\<lparr>sh_map = sh_map en, sh_fetched = now, sh_failed_at = None\<rparr>"
    have "sd_maps (merge_into (sh_map en) fresh d) ! sh_map en = merge_prices (pe_prices (entry_at d en)) fresh"
      using assms(2) Some by (auto simp: merge_into_def unshared_def entry_at_def)
    then show ?thesis
      using merge_into_represents [OF assms(1,2) Some, of ?en fresh] merge_into_unshared [OF assms(2) Some, of ?en fresh] assms(3,4) Inr Some some
      by (auto simp: fetch_prices_def entry_at_def Let_def)
  qed
qed

lemma replied_refines:
  assumes "represents d c" "unshared d" "begin_call env call d w = Replied r"
    "one_step_call env call c w = (map_cache_reply (prices_at d) r, c, w)"
  shows "refines (alone env call d w) (one_step_call env call c w)"
  using assms alone_replied [OF assms(3)] by (simp add: refines_def)

lemma fetched_refines:
  assumes "begin_call env call d w = Fetching f" "run_fetch f w = (g, w1)" "end_fetch g d = (r, d1)" "represents d1 c1" "unshared d1"
    "one_step_call env call c w = (map_cache_reply (prices_at d1) r, c1, w1)"
  shows "refines (alone env call d w) (one_step_call env call c w)"
  using assms alone_fetched [OF assms(1,2,3)] by (simp add: refines_def)

lemma specs_refine:
  assumes "represents d c" "unshared d"
  shows "refines (alone env (CInstances cloud region) d w) (one_step_call env (CInstances cloud region) c w)"
proof (cases "mget (env_sources env) cloud")
  case None
  then show ?thesis using assms by (intro replied_refines [of _ _ _ _ _ "Reply_specs [] None"]) (simp_all add: cache_instances_def)
next
  case (Some s)
  let ?k = "cache_key cloud region"
  have same: "sd_specs d = c_specs c" using assms(1) by (simp add: represents_def)
  obtain a w1 where f: "src_fetch_specs s region w = (a, w1)" by (rule prod.exhaust)
  show ?thesis
  proof (cases "begin_specs s region ?k (env_now env w) d")
    case (Replied r)
    then show ?thesis using assms Some same
      by (intro replied_refines [of _ _ _ _ _ r]) (auto simp: cache_instances_def begin_specs_def specs_ttl_def Let_def split: option.splits if_splits)
  next
    case (Fetching fe)
    then have fe: "fe = Fetch_specs s region ?k (env_now env w) (mget (c_specs c) ?k)"
      using same by (auto simp: begin_specs_def split: option.splits if_splits)
    obtain r d1 where g: "end_fetch (Got_specs ?k (env_now env w) (mget (c_specs c) ?k) a) d = (r, d1)" by (rule prod.exhaust)
    let ?c = "case a of Inl _ \<Rightarrow> c | Inr fresh \<Rightarrow> c\<lparr>c_specs := mput ?k \<lparr>se_instances = fresh, se_fetched = env_now env w\<rparr> (c_specs c)\<rparr>"
    have "represents d1 ?c \<and> unshared d1" using g assms by (cases a) (auto simp: represents_def unshared_def)
    moreover have "one_step_call env (CInstances cloud region) c w = (map_cache_reply (prices_at d1) r, ?c, w1)"
      using Some f g Fetching same
      by (cases a) (auto simp: cache_instances_def begin_specs_def specs_ttl_def Let_def split: option.splits if_splits)
    ultimately show ?thesis using fetched_refines [of env "CInstances cloud region" d w fe] Fetching Some f g fe by auto
  qed (auto simp: begin_specs_def split: option.splits if_splits)
qed

lemma regions_refine:
  assumes "represents d c" "unshared d"
  shows "refines (alone env (CRegions cloud) d w) (one_step_call env (CRegions cloud) c w)"
proof (cases "mget (env_sources env) cloud")
  case None
  then show ?thesis using assms by (intro replied_refines [of _ _ _ _ _ "Reply_regions [] None"]) (simp_all add: cache_regions_def)
next
  case (Some s)
  have same: "sd_regions d = c_regions c" using assms(1) by (simp add: represents_def)
  obtain a w1 where f: "src_regions s w = (a, w1)" by (rule prod.exhaust)
  show ?thesis
  proof (cases "begin_regions s cloud (env_now env w) d")
    case (Replied r)
    then show ?thesis using assms Some same
      by (intro replied_refines [of _ _ _ _ _ r]) (auto simp: cache_regions_def begin_regions_def specs_ttl_def Let_def split: option.splits if_splits)
  next
    case (Fetching fe)
    then have fe: "fe = Fetch_regions s cloud (env_now env w)" by (auto simp: begin_regions_def split: option.splits if_splits)
    obtain r d1 where g: "end_fetch (Got_regions cloud (env_now env w) a) d = (r, d1)" by (rule prod.exhaust)
    let ?c = "case a of Inl _ \<Rightarrow> c | Inr fresh \<Rightarrow> c\<lparr>c_regions := mput cloud \<lparr>re_regions = fresh, re_fetched = env_now env w\<rparr> (c_regions c)\<rparr>"
    have "represents d1 ?c \<and> unshared d1" using g assms by (cases a) (auto simp: represents_def unshared_def)
    moreover have "one_step_call env (CRegions cloud) c w = (map_cache_reply (prices_at d1) r, ?c, w1)"
      using Some f g Fetching same
      by (cases a) (auto simp: cache_regions_def begin_regions_def specs_ttl_def Let_def split: option.splits if_splits)
    ultimately show ?thesis using fetched_refines [of env "CRegions cloud" d w fe] Fetching Some f g fe by auto
  qed (auto simp: begin_regions_def split: option.splits if_splits)
qed

text \<open>Both price calls, of which one looks at the age of the entry.\<close>

definition price_call :: "bool \<Rightarrow> string \<Rightarrow> string \<Rightarrow> string list \<Rightarrow> cache_call" where
  "price_call forced cloud region types = (if forced then CForced cloud region types else CPrices cloud region types)"

lemma begin_price_call:
  "begin_call env (price_call forced cloud region types) d w =
     (case mget (env_sources env) cloud of
        None \<Rightarrow> Replied (Reply_prices None None)
      | Some s \<Rightarrow> begin_prices forced s region types (cache_key cloud region) (env_now env w) d)"
  by (cases forced) (simp_all add: price_call_def split: option.split)

lemma one_step_price_call:
  assumes "mget (env_sources env) cloud = Some s" "represents d c"
  shows "one_step_call env (price_call forced cloud region types) c w =
    (case begin_prices forced s region types (cache_key cloud region) (env_now env w) d of
       Replied r \<Rightarrow> (map_cache_reply (prices_at d) r, c, w)
     | _ \<Rightarrow> (case fetch_prices s (cache_key cloud region) region types (env_now env w) (mget (c_prices c) (cache_key cloud region)) c w of
              (v, e, c1, w1) \<Rightarrow> (Reply_prices v e, c1, w1)))"
  using assms representsD [OF assms(2), of "cache_key cloud region"]
  by (auto simp: price_call_def cache_prices_def cache_prices_forced_def begin_prices_def price_ttl_def entry_at_def Let_def split: option.splits)

lemma prices_call_refine:
  assumes "represents d c" "unshared d"
  shows "refines (alone env (price_call forced cloud region types) d w) (one_step_call env (price_call forced cloud region types) c w)"
proof (cases "mget (env_sources env) cloud")
  case None
  then show ?thesis using assms
    by (intro replied_refines [of _ _ _ _ _ "Reply_prices None None"])
      (simp_all add: begin_price_call, simp add: price_call_def cache_prices_def cache_prices_forced_def)
next
  case (Some s)
  let ?k = "cache_key cloud region"
  note starts = begin_price_call [of env forced cloud region types d w] and one = one_step_price_call [OF Some assms(1), of forced region types w]
  obtain a w1 where f: "src_fetch_prices s region types w = (a, w1)" by (rule prod.exhaust)
  show ?thesis
  proof (cases "begin_prices forced s region types ?k (env_now env w) d")
    case (Replied r)
    then show ?thesis using assms Some starts one by (intro replied_refines [of _ _ _ _ _ r]) simp_all
  next
    case (Fetching fe)
    then have fe: "fe = Fetch_prices s region types ?k (env_now env w) (mget (sd_prices d) ?k)"
      by (auto simp: begin_prices_def split: option.splits if_splits)
    obtain r d1 where g: "end_fetch (Got_prices ?k (env_now env w) (mget (sd_prices d) ?k) a) d = (r, d1)" by (rule prod.exhaust)
    obtain v e c1 where v: "fetch_prices s ?k region types (env_now env w) (mget (c_prices c) ?k) c w = (v, e, c1, w1)"
        "represents d1 c1" "unshared d1" "map_cache_reply (prices_at d1) r = Reply_prices v e"
      using prices_refine [OF assms f g] by blast
    show ?thesis
      by (rule fetched_refines [of _ _ _ _ fe _ w1 r d1 c1]) (use Fetching Some starts one f g fe v in auto)
  qed (auto simp: begin_prices_def split: option.splits if_splits)
qed



end
