(* ===== verification/Optimizer.thy ===== *)
theory Optimizer
  imports Metacache
begin

text \<open>
  The placement optimizer, \<open>internal/optimizer\<close>: which instance types satisfy a task
  (\<open>match.go\<close>, \<open>candidate.go\<close>), what they cost and how long they run (\<open>plan.go\<close>, \<open>cost.go\<close>, \<open>time.go\<close>),
  the lexicographic ranking (\<open>lexicographic.go\<close>) and the registries that turn a name into a
  strategy (\<open>metric.go\<close>, \<open>strategy.go\<close>, \<open>registry.go\<close>, \<open>optimizer.go\<close>).
\<close>

section \<open>Metadata\<close>

text \<open>\<open>Meta\<close> and its default implementation over the cache (\<open>meta.go\<close>).\<close>

record 'w meta =
  m_clouds :: "'w \<Rightarrow> string list res \<times> 'w"
  m_regions :: "string \<Rightarrow> 'w \<Rightarrow> string list res \<times> 'w"
  m_instances :: "string \<Rightarrow> string \<Rightarrow> 'w \<Rightarrow> itype list res \<times> 'w"
  m_prices :: "string \<Rightarrow> string \<Rightarrow> string list \<Rightarrow> 'w \<Rightarrow> price smap \<times> error option \<times> 'w"

definition as_result :: "('v, 'w) cached \<Rightarrow> 'v res \<times> cache \<times> 'w" where
  "as_result r = (case r of (v, e, s) \<Rightarrow> ((case e of Some e \<Rightarrow> Inl e | None \<Rightarrow> Inr v), s))"

definition cache_meta :: "'w env \<Rightarrow> (cache \<times> 'w) meta" where
  "cache_meta env =
     \<lparr>m_clouds = (\<lambda>s. (Inr (mkeys (env_sources env)), s)),
      m_regions = (\<lambda>cloud (c, w). as_result (cache_regions env cloud c w)),
      m_instances = (\<lambda>cloud region (c, w). as_result (cache_instances env cloud region c w)),
      m_prices = (\<lambda>cloud region types (c, w). cache_prices env cloud region types c w)\<rparr>"

section \<open>Matching\<close>

definition matches_accel :: "(string \<times> int) list \<Rightarrow> accelerators \<Rightarrow> bool" where
  "matches_accel have wanted \<longleftrightarrow>
     list_all (\<lambda>(name, count).
        (case (case mget have (to_lower name) of Some n \<Rightarrow> Some n | None \<Rightarrow> mget have name) of
           None \<Rightarrow> False
         | Some n \<Rightarrow> \<not> n < count)) wanted"

definition matches_disk :: "f64 \<Rightarrow> range option \<Rightarrow> bool" where
  "matches_disk max_disk wanted =
     (case wanted of
        None \<Rightarrow> True
      | Some r \<Rightarrow>
          (case (case rmin r of Some q \<Rightarrow> Some q | None \<Rightarrow> rmax r) of
             None \<Rightarrow> True
           | Some requested \<Rightarrow> \<not> f_lt max_disk requested))"

definition matches_resources :: "itype \<Rightarrow> res_fields \<Rightarrow> bool" where
  "matches_resources c rs \<longleftrightarrow>
     \<not> (r_instance_type rs \<noteq> [] \<and> it_type c \<noteq> r_instance_type rs) \<and>
     \<not> (r_cpus rs \<noteq> None \<and> \<not> range_matches (r_cpus rs) (f_of_int (it_vcpus c))) \<and>
     \<not> (r_memory rs \<noteq> None \<and> \<not> range_matches (r_memory rs) (it_memory c)) \<and>
     matches_disk (it_max_disk c) (r_disk rs) \<and>
     matches_accel (it_accel c) (r_accel rs)"

section \<open>Launches and candidates\<close>

record launch =
  l_cloud :: string
  l_region :: string
  l_zone :: string
  l_instance_type :: string
  l_num_nodes :: int
  l_accel :: "(string \<times> int) list"
  l_vcpus :: int
  l_memory :: f64
  l_on_demand :: f64
  l_spot :: f64
  l_use_spot :: bool
  l_time :: f64
  l_order :: int

definition cost_of :: "f64 \<Rightarrow> f64 \<Rightarrow> bool \<Rightarrow> f64" where
  "cost_of on_demand spot use_spot =
     (if use_spot then
        (if f_lt (Fin 0) spot then spot
         else if f_lt (Fin 0) on_demand then f_mul on_demand (Fin (3 / 10)) else Fin 0)
      else if f_lt (Fin 0) on_demand then on_demand
      else if f_lt (Fin 0) spot then f_mul spot (Fin 3) else Fin 0)"

definition cost_per_hour :: "launch \<Rightarrow> f64" where
  "cost_per_hour l = cost_of (l_on_demand l) (l_spot l) (l_use_spot l)"

definition total_cost_per_hour :: "launch \<Rightarrow> f64" where
  "total_cost_per_hour l = f_mul (cost_per_hour l) (f_of_int (l_num_nodes l))"

record plan =
  pl_launches :: "launch list"
  pl_cost :: f64
  pl_time :: f64

record candidate =
  c_inst :: itype
  c_on_demand :: f64
  c_spot :: f64
  c_time :: f64

definition new_candidate :: "itype \<Rightarrow> candidate" where
  "new_candidate i = \<lparr>c_inst = i, c_on_demand = Fin 0, c_spot = Fin 0, c_time = Fin 0\<rparr>"

definition cand_cost :: "candidate \<Rightarrow> bool \<Rightarrow> f64" where
  "cand_cost c use_spot = cost_of (c_on_demand c) (c_spot c) use_spot"

definition priced :: "candidate \<Rightarrow> bool" where
  "priced c \<longleftrightarrow> f_lt (Fin 0) (c_on_demand c) \<or> f_lt (Fin 0) (c_spot c)"

definition max_priced_candidates :: nat where
  "max_priced_candidates = 200"

section \<open>Collecting\<close>

text \<open>\<open>collectCandidates\<close>: the loop over the regions of a cloud and the loop over the clouds.\<close>

fun collect_regions ::
  "'w meta \<Rightarrow> res_fields \<Rightarrow> string \<Rightarrow> string \<Rightarrow> string list \<Rightarrow> 'w \<Rightarrow> candidate list res \<times> 'w" where
  "collect_regions M rs region_filter name [] w = (Inr [], w)"
| "collect_regions M rs region_filter name (region # regions) w =
     (if region_filter \<noteq> [] \<and> region \<noteq> region_filter
      then collect_regions M rs region_filter name regions w
      else (case m_instances M name region w of
              (Inl e, w') \<Rightarrow> (Inl e, w')
            | (Inr insts, w') \<Rightarrow>
                (case collect_regions M rs region_filter name regions w' of
                   (Inl e, w'') \<Rightarrow> (Inl e, w'')
                 | (Inr out, w'') \<Rightarrow>
                     (Inr (map new_candidate (filter (\<lambda>i. matches_resources i rs) insts) @ out), w''))))"

fun collect_clouds ::
  "'w meta \<Rightarrow> res_fields \<Rightarrow> string \<Rightarrow> string list \<Rightarrow> string list \<Rightarrow> 'w \<Rightarrow> candidate list res \<times> 'w" where
  "collect_clouds M rs region_filter selected [] w = (Inr [], w)"
| "collect_clouds M rs region_filter selected (name # names) w =
     (if 0 < length selected \<and> name \<notin> set selected
      then collect_clouds M rs region_filter selected names w
      else (case m_regions M name w of
              (Inl e, w') \<Rightarrow> (Inl e, w')
            | (Inr regions, w') \<Rightarrow>
                (case collect_regions M rs region_filter name regions w' of
                   (Inl e, w'') \<Rightarrow> (Inl e, w'')
                 | (Inr here, w'') \<Rightarrow>
                     (case collect_clouds M rs region_filter selected names w'' of
                        (Inl e, w3) \<Rightarrow> (Inl e, w3)
                      | (Inr out, w3) \<Rightarrow> (Inr (here @ out), w3)))))"

record options =
  o_num_nodes :: int
  o_use_spot :: bool
  o_cloud :: string
  o_region :: string
  o_zone :: string
  o_max_candidates :: int

definition default_options :: options where
  "default_options = \<lparr>o_num_nodes = 1, o_use_spot = False, o_cloud = [], o_region = [], o_zone = [],
     o_max_candidates = 10\<rparr>"

definition collect_candidates ::
  "'w meta \<Rightarrow> res_fields \<Rightarrow> options \<Rightarrow> string \<Rightarrow> 'w \<Rightarrow> candidate list res \<times> 'w" where
  "collect_candidates M rs opts cloud_filter w =
     (let selected = (if cloud_filter \<noteq> [] then map trim_space (split_on CHR '','' cloud_filter) else [])
      in case m_clouds M w of
           (Inl e, w') \<Rightarrow> (Inl e, w')
         | (Inr names, w') \<Rightarrow>
             collect_clouds M rs (if o_region opts = [] then r_region rs else o_region opts) selected names w')"

section \<open>Prices\<close>

text \<open>The groups of \<open>attachPrices\<close>, by the key of cloud and region, with the instance types of each.\<close>

definition group_key :: "candidate \<Rightarrow> string" where
  "group_key c = it_cloud (c_inst c) @ [CHR 0x00] @ it_region (c_inst c)"

definition price_groups :: "candidate list \<Rightarrow> string list smap" where
  "price_groups cands =
     foldl (\<lambda>groups c.
        mput (group_key c)
          ((case mget groups (group_key c) of None \<Rightarrow> [] | Some ts \<Rightarrow> ts) @ [it_type (c_inst c)]) groups)
       [] cands"

definition set_price :: "price smap \<Rightarrow> candidate \<Rightarrow> candidate" where
  "set_price prices c =
     (case mget prices (it_type (c_inst c)) of
        None \<Rightarrow> c
      | Some p \<Rightarrow>
          c\<lparr>c_on_demand := (if f_lt (Fin 0) (p_on_demand p) then p_on_demand p else c_on_demand c),
            c_spot := (if f_lt (Fin 0) (p_spot p) then p_spot p else c_spot c)\<rparr>)"

fun price_group_loop ::
  "'w meta \<Rightarrow> string list smap \<Rightarrow> candidate list \<Rightarrow> 'w \<Rightarrow> candidate list \<times> 'w" where
  "price_group_loop M [] cands w = (cands, w)"
| "price_group_loop M ((g, types) # groups) cands w =
     (case cut_at CHR 0x00 g of (cloud, rest) \<Rightarrow>
        (case m_prices M cloud (case rest of None \<Rightarrow> [] | Some r \<Rightarrow> r) types w of
           (prices, err, w') \<Rightarrow>
             if err \<noteq> None \<or> length prices = 0 then price_group_loop M groups cands w'
             else price_group_loop M groups
                    (map (\<lambda>c. if group_key c = g then set_price prices c else c) cands) w'))"

definition attach_prices :: "'w meta \<Rightarrow> candidate list \<Rightarrow> 'w \<Rightarrow> candidate list \<times> 'w" where
  "attach_prices M cands w = price_group_loop M (price_groups cands) cands w"

definition cloud_names :: "options \<Rightarrow> string" where
  "cloud_names opts = (if o_cloud opts \<noteq> [] then o_cloud opts else ''all clouds'')"

section \<open>Metrics\<close>

record metric =
  mt_name :: string
  mt_rank :: "candidate \<Rightarrow> bool \<Rightarrow> f64"

definition cost_metric :: metric where
  "cost_metric = \<lparr>mt_name = ''cost'', mt_rank = cand_cost\<rparr>"

definition time_metric :: metric where
  "time_metric = \<lparr>mt_name = ''time'', mt_rank = (\<lambda>c _. c_time c)\<rparr>"

definition estimate_runtime :: "res_fields \<Rightarrow> candidate \<Rightarrow> f64" where
  "estimate_runtime rs c =
     (let heuristic =
        (let compute0 = (if it_vcpus (c_inst c) \<le> 0 then 4 else it_vcpus (c_inst c));
             total_gpu = sum_list (map snd (it_accel (c_inst c)));
             compute = (if 0 < total_gpu then compute0 + total_gpu * 16 else compute0)
         in Fin (4 / of_int compute))
      in case r_time_sec rs of
           Some t \<Rightarrow> if 0 < t then Fin (of_int t / 3600) else heuristic
         | None \<Rightarrow> heuristic)"

section \<open>Ranking\<close>

text \<open>A candidate with the index of its group and its scores, in the order of the metrics.\<close>

type_synonym scored = "nat \<times> candidate \<times> f64 list"

fun scores_lt :: "f64 list \<Rightarrow> f64 list \<Rightarrow> bool" where
  "scores_lt (a # as) (b # bs) = (if \<not> f_eq a b then f_lt a b else scores_lt as bs)"
| "scores_lt _ _ = False"

fun scored_lt :: "scored \<Rightarrow> scored \<Rightarrow> bool" where
  "scored_lt (gi, ci, si) (gj, cj, sj) =
     (if gi \<noteq> gj then gi < gj
      else if priced ci \<noteq> priced cj then priced ci
      else scores_lt si sj)"

definition score :: "metric list \<Rightarrow> bool \<Rightarrow> nat \<times> candidate \<Rightarrow> scored" where
  "score ms use_spot gc = (fst gc, snd gc, map (\<lambda>m. mt_rank m (snd gc) use_spot) ms)"

definition with_time :: "metric list \<Rightarrow> res_fields \<Rightarrow> nat \<times> candidate \<Rightarrow> nat \<times> candidate" where
  "with_time ms rs gc =
     (if list_ex (\<lambda>m. mt_name m = ''time'') ms
      then (fst gc, (snd gc)\<lparr>c_time := estimate_runtime rs (snd gc)\<rparr>) else gc)"

definition ranked :: "metric list \<Rightarrow> res_fields \<Rightarrow> bool \<Rightarrow> (nat \<times> candidate) list \<Rightarrow> scored list" where
  "ranked ms rs use_spot cands = sort_by scored_lt (map (\<lambda>gc. score ms use_spot (with_time ms rs gc)) cands)"

definition launch_of :: "options \<Rightarrow> bool \<Rightarrow> nat \<Rightarrow> candidate \<Rightarrow> launch" where
  "launch_of opts use_spot i c =
     \<lparr>l_cloud = it_cloud (c_inst c), l_region = it_region (c_inst c), l_zone = [],
      l_instance_type = it_type (c_inst c), l_num_nodes = o_num_nodes opts, l_accel = it_accel (c_inst c),
      l_vcpus = it_vcpus (c_inst c), l_memory = it_memory (c_inst c), l_on_demand = c_on_demand c,
      l_spot = c_spot c, l_use_spot = use_spot, l_time = c_time c, l_order = int i + 1\<rparr>"

definition rank_plan ::
  "metric list \<Rightarrow> (nat \<times> candidate) list \<Rightarrow> res_fields \<Rightarrow> options \<Rightarrow> bool \<Rightarrow> plan res" where
  "rank_plan ms cands rs opts use_spot =
     (let best = take (nat (o_max_candidates opts)) (map (\<lambda>(g, c, s). c) (ranked ms rs use_spot cands));
          launches = map (\<lambda>(i, c). launch_of opts use_spot i c) (enumerate 0 best)
      in case launches of
           [] \<Rightarrow> Inl (Panic ''index out of range'')
         | l # _ \<Rightarrow> Inr \<lparr>pl_launches = launches, pl_cost = cost_per_hour l, pl_time = l_time l\<rparr>)"

definition collect_and_price ::
  "'w meta \<Rightarrow> res_fields \<Rightarrow> options \<Rightarrow> 'w \<Rightarrow> candidate list res \<times> 'w" where
  "collect_and_price M rs opts w =
     (case collect_candidates M rs opts (o_cloud opts) w of
        (Inl e, w') \<Rightarrow> (Inl e, w')
      | (Inr cands, w') \<Rightarrow>
          (let kept = (if max_priced_candidates < length cands
                       then take max_priced_candidates
                              (sort_by (\<lambda>a b. it_vcpus (c_inst a) < it_vcpus (c_inst b)) cands)
                       else cands)
           in case attach_prices M kept w' of (out, w'') \<Rightarrow> (Inr out, w'')))"

text \<open>The loop over the groups: the primary resources have index 0.\<close>

fun collect_groups ::
  "'w meta \<Rightarrow> options \<Rightarrow> nat \<Rightarrow> res_fields list \<Rightarrow> 'w \<Rightarrow> (nat \<times> candidate) list res \<times> 'w" where
  "collect_groups M opts gi [] w = (Inr [], w)"
| "collect_groups M opts gi (rs # groups) w =
     (case collect_and_price M rs opts w of
        (Inl e, w') \<Rightarrow> (Inl e, w')
      | (Inr cands, w') \<Rightarrow>
          (case collect_groups M opts (Suc gi) groups w' of
             (Inl e, w'') \<Rightarrow> (Inl e, w'')
           | (Inr out, w'') \<Rightarrow> (Inr (map (Pair gi) cands @ out), w'')))"

record request =
  rq_resources :: "resources option"
  rq_options :: "options option"

definition normal_options :: "options option \<Rightarrow> options" where
  "normal_options oo =
     (let o0 = (case oo of None \<Rightarrow> default_options | Some op \<Rightarrow> op);
          o1 = (if o_num_nodes o0 \<le> 0 then o0\<lparr>o_num_nodes := 1\<rparr> else o0)
      in if o_max_candidates o1 \<le> 0 then o1\<lparr>o_max_candidates := 10\<rparr> else o1)"

definition effective_spot :: "options \<Rightarrow> res_fields \<Rightarrow> bool" where
  "effective_spot opts rs = (case r_use_spot rs of Some b \<Rightarrow> b | None \<Rightarrow> o_use_spot opts)"

definition groups_of :: "resources \<Rightarrow> res_fields list" where
  "groups_of rs = res_f rs # map res_f (res_ordered rs)"

definition optimize :: "'w meta \<Rightarrow> metric list \<Rightarrow> request option \<Rightarrow> 'w \<Rightarrow> plan res \<times> 'w" where
  "optimize M ms req w =
     (case (case req of None \<Rightarrow> None | Some r \<Rightarrow> map_option (\<lambda>rs. (r, rs)) (rq_resources r)) of
        None \<Rightarrow> (Inl (Err ''optimizer: request and resources must not be nil''), w)
      | Some (r, rs) \<Rightarrow>
          (let opts = normal_options (rq_options r)
           in if length ms = 0 then (Inl (Err ''optimizer: strategy has no metrics''), w)
              else (case collect_groups M opts 0 (groups_of rs) w of
                      (Inl e, w') \<Rightarrow> (Inl e, w')
                    | (Inr cands, w') \<Rightarrow>
                        if length cands = 0
                        then (Inl (Err (''no instance type found matching resources '' @ resources_string rs
                                        @ '' in '' @ cloud_names opts)), w')
                        else (rank_plan ms cands (res_f rs) opts (effective_spot opts (res_f rs)), w'))))"

section \<open>Strategies and registries\<close>

record opt_registry =
  og_metrics :: "metric smap"
  og_optimizers :: "metric list smap"

definition strategy_name :: "metric list \<Rightarrow> string" where
  "strategy_name ms = join_with '','' (map mt_name ms)"

definition new_strategy :: "metric list \<Rightarrow> metric list" where
  "new_strategy ms = (if length ms = 0 then [cost_metric] else ms)"

definition register_metric :: "string \<Rightarrow> metric \<Rightarrow> opt_registry \<Rightarrow> opt_registry" where
  "register_metric name m g = g\<lparr>og_metrics := mput name m (og_metrics g)\<rparr>"

definition register_optimizer :: "metric list \<Rightarrow> opt_registry \<Rightarrow> opt_registry res" where
  "register_optimizer opt g =
     (if strategy_name opt = [] then Inl (Panic ''optimizer: registered optimizer must have a name'')
      else Inr (g\<lparr>og_optimizers := mput (strategy_name opt) opt (og_optimizers g)\<rparr>))"

definition initial_registry :: opt_registry where
  "initial_registry =
     \<lparr>og_metrics = [(''cost'', cost_metric), (''time'', time_metric)],
      og_optimizers = [(strategy_name [cost_metric], [cost_metric]), (strategy_name [time_metric], [time_metric])]\<rparr>"

fun strategy_metrics :: "opt_registry \<Rightarrow> string list \<Rightarrow> metric list res" where
  "strategy_metrics g [] = Inr []"
| "strategy_metrics g (raw # names) =
     (let name = trim_space raw
      in if name = [] then strategy_metrics g names
         else (case mget (og_metrics g) name of
                 None \<Rightarrow> Inl (Err (''unknown metric '' @ quote_str name @ '' (available: ''
                              @ join_with '', '' (mkeys (og_metrics g)) @ '')''))
               | Some m \<Rightarrow> bind_res (strategy_metrics g names) (\<lambda>ms. Inr (m # ms))))"

definition parse_strategy :: "opt_registry \<Rightarrow> string \<Rightarrow> metric list res" where
  "parse_strategy g spec =
     bind_res (strategy_metrics g (split_on CHR '','' spec)) (\<lambda>ms.
       if length ms = 0 then Inl (Err (''empty optimizer strategy '' @ quote_str spec)) else Inr ms)"

definition get_optimizer :: "opt_registry \<Rightarrow> string \<Rightarrow> metric list option" where
  "get_optimizer g name =
     (case mget (og_optimizers g) name of
        Some opt \<Rightarrow> Some opt
      | None \<Rightarrow>
          if CHR '','' \<in> set name
          then (case parse_strategy g name of Inr opt \<Rightarrow> Some opt | Inl _ \<Rightarrow> None) else None)"

definition resolve_optimizer :: "opt_registry \<Rightarrow> string \<Rightarrow> metric list option res" where
  "resolve_optimizer g spec =
     (if spec = [] then Inr (mget (og_optimizers g) ''cost'')
      else (case get_optimizer g spec of
              Some opt \<Rightarrow> Inr (Some opt)
            | None \<Rightarrow> Inl (Err (''unknown optimizer '' @ quote_str spec @ '' (registered: ''
                         @ join_with '', '' (mkeys (og_optimizers g)) @ '')''))))"

end
