(* ===== verification/Optimizer_Props.thy ===== *)
theory Optimizer_Props
  imports Optimizer
begin

text \<open>
  What the optimizer promises: the comparison it sorts with is a strict weak order, so the ranking
  is the one stable sorted rearrangement; every launch of a plan is an instance type the
  metadata listed and that satisfies the resources of its group; the first launch is optimal.
\<close>

section \<open>The comparison\<close>

definition scored_ok :: "nat \<Rightarrow> scored \<Rightarrow> bool" where
  "scored_ok n x = (case x of (g, c, s) \<Rightarrow> length s = n \<and> NaN \<notin> set s)"

lemma scores_lt_irrefl: "\<not> scores_lt s s"
  by (induction s) simp_all

lemma scores_lt_Cons:
  "a \<noteq> NaN \<Longrightarrow> b \<noteq> NaN \<Longrightarrow> scores_lt (a # as) (b # bs) \<longleftrightarrow> f_lt a b \<or> a = b \<and> scores_lt as bs"
  by (auto simp: f_eq_def)

lemma scores_lt_trans:
  "NaN \<notin> set a \<Longrightarrow> NaN \<notin> set b \<Longrightarrow> NaN \<notin> set c \<Longrightarrow> scores_lt a b \<Longrightarrow> scores_lt b c \<Longrightarrow> scores_lt a c"
proof (induction a b arbitrary: c rule: scores_lt.induct)
  case (1 x xs y ys)
  from 1(6) obtain z zs where c: "c = z # zs"
    by (cases c) auto
  from 1 c have nan: "x \<noteq> NaN" "y \<noteq> NaN" "z \<noteq> NaN"
    by auto
  have "f_lt x y \<or> x = y \<and> scores_lt xs ys"
    using 1(5) scores_lt_Cons [OF nan(1,2)] by blast
  moreover have "f_lt y z \<or> y = z \<and> scores_lt ys zs"
    using 1(6) c scores_lt_Cons [OF nan(2,3)] by blast
  moreover have "scores_lt xs zs" if "x = y" "scores_lt xs ys" "scores_lt ys zs"
  proof (rule 1(1))
    show "\<not> \<not> f_eq x y" using that nan by (simp add: f_eq_def)
  qed (use 1 c that in auto)
  ultimately show ?case
    unfolding c scores_lt_Cons [OF nan(1,3)] by (metis f_lt_trans)
qed auto

lemma not_scores_lt_trans:
  "length a = length b \<Longrightarrow> length b = length c \<Longrightarrow> NaN \<notin> set a \<Longrightarrow> NaN \<notin> set b \<Longrightarrow> NaN \<notin> set c \<Longrightarrow>
   \<not> scores_lt a b \<Longrightarrow> \<not> scores_lt b c \<Longrightarrow> \<not> scores_lt a c"
proof (induction a b arbitrary: c rule: list_induct2')
  case (4 x xs y ys)
  then obtain z zs where c: "c = z # zs" by (cases c) auto
  from 4 c have nan: "x \<noteq> NaN" "y \<noteq> NaN" "z \<noteq> NaN" by auto
  have "\<not> f_lt x y \<and> (x = y \<longrightarrow> \<not> scores_lt xs ys)"
    using 4(7) scores_lt_Cons [OF nan(1,2)] by blast
  moreover have "\<not> f_lt y z \<and> (y = z \<longrightarrow> \<not> scores_lt ys zs)"
    using 4(8) c scores_lt_Cons [OF nan(2,3)] by blast
  moreover have "\<not> scores_lt xs zs" if "\<not> scores_lt xs ys" "\<not> scores_lt ys zs"
    by (rule 4(1)) (use 4 c that in auto)
  ultimately show ?case
    unfolding c scores_lt_Cons [OF nan(1,3)]
    by (metis f_not_lt_trans [OF nan] f_lt_total [OF nan(1,2)] f_lt_total [OF nan(2,3)])
qed auto

text \<open>On scores without NaN the comparison of the ranking meets the contract of the sort.\<close>

lemma scored_lt_trans:
  assumes "scored_ok n x" and "scored_ok n y" and "scored_ok n z" and "scored_lt x y" and "scored_lt y z"
  shows "scored_lt x z"
proof -
  obtain gx cx sx gy cy sy gz cz sz where x: "x = (gx, cx, sx)" "y = (gy, cy, sy)" "z = (gz, cz, sz)"
    by (metis prod_cases3)
  have "scores_lt sx sy \<Longrightarrow> scores_lt sy sz \<Longrightarrow> scores_lt sx sz"
    using scores_lt_trans assms(1-3) by (auto simp: x scored_ok_def)
  with assms(4,5) show ?thesis
    by (simp add: x split: if_splits)
qed

lemma not_scored_lt_trans:
  assumes "scored_ok n x" and "scored_ok n y" and "scored_ok n z" and "\<not> scored_lt x y" and "\<not> scored_lt y z"
  shows "\<not> scored_lt x z"
proof -
  obtain gx cx sx gy cy sy gz cz sz where x: "x = (gx, cx, sx)" "y = (gy, cy, sy)" "z = (gz, cz, sz)"
    by (metis prod_cases3)
  have "\<not> scores_lt sx sy \<Longrightarrow> \<not> scores_lt sy sz \<Longrightarrow> \<not> scores_lt sx sz"
    using not_scores_lt_trans [of sx sy sz] assms(1-3) by (auto simp: x scored_ok_def)
  with assms(4,5) show ?thesis
    by (simp add: x split: if_splits)
qed

interpretation ranking: strict_weak_order "scored_ok n" scored_lt for n
proof
  show "\<not> scored_lt x x" for x
    by (cases x) (simp add: scores_lt_irrefl)
qed (blast intro: scored_lt_trans dest: not_scored_lt_trans)+

interpretation by_vcpus: strict_weak_order "\<lambda>_. True"
    "\<lambda>a b. it_vcpus (c_inst a) < it_vcpus (c_inst b)"
  by unfold_locales auto

section \<open>The contract of a metric\<close>

text \<open>What a metric must promise the ranking: its rank is a number, for candidates whose estimated time
  is one. A metric may then be compared without surprises.\<close>

locale ranking_metric =
  fixes rank :: "candidate \<Rightarrow> bool \<Rightarrow> f64"
  assumes rank_number: "c_time c \<noteq> NaN \<Longrightarrow> rank c spot \<noteq> NaN"
begin

lemma rank_total:
  "c_time c \<noteq> NaN \<Longrightarrow> c_time d \<noteq> NaN \<Longrightarrow> \<not> f_lt (rank c spot) (rank d spot) \<Longrightarrow>
   \<not> f_lt (rank d spot) (rank c spot) \<Longrightarrow> rank c spot = rank d spot"
  by (rule f_lt_total) (simp_all add: rank_number)

lemma single_score_lt:
  "c_time c \<noteq> NaN \<Longrightarrow> c_time d \<noteq> NaN \<Longrightarrow>
   scores_lt [rank c spot] [rank d spot] \<longleftrightarrow> f_lt (rank c spot) (rank d spot)"
  by (auto simp: f_eq_def rank_number)

end

lemma cost_of_not_NaN: "cost_of a b s \<noteq> NaN"
  by (cases a; cases b) (auto simp: cost_of_def)

interpretation cost_rank: ranking_metric cand_cost
  by unfold_locales (simp add: cand_cost_def cost_of_not_NaN)

interpretation time_rank: ranking_metric "\<lambda>c spot. c_time c"
  by unfold_locales

definition metrics_ok :: "metric list \<Rightarrow> bool" where
  "metrics_ok ms \<longleftrightarrow> (\<forall>m \<in> set ms. ranking_metric (mt_rank m))"

lemma metrics_ok_builtin: "set ms \<subseteq> {cost_metric, time_metric} \<Longrightarrow> metrics_ok ms"
  using cost_rank.ranking_metric_axioms time_rank.ranking_metric_axioms
  by (auto simp: metrics_ok_def cost_metric_def time_metric_def)

lemma metrics_ok_cost: "metrics_ok [cost_metric]"
  by (rule metrics_ok_builtin) simp

definition timed :: "(nat \<times> candidate) list \<Rightarrow> bool" where
  "timed cands \<longleftrightarrow> (\<forall>(g, c) \<in> set cands. c_time c \<noteq> NaN)"

lemma estimate_runtime_number: "estimate_runtime rs c \<noteq> NaN"
  by (auto simp: estimate_runtime_def Let_def split: option.splits)

lemma with_time_timed: "c_time (snd gc) \<noteq> NaN \<Longrightarrow> c_time (snd (with_time ms rs gc)) \<noteq> NaN"
  using estimate_runtime_number [of rs "snd gc"] by (auto simp: with_time_def)

lemma with_time_fst [simp]: "fst (with_time ms rs gc) = fst gc"
  by (simp add: with_time_def)

lemma with_time_inst [simp]: "c_inst (snd (with_time ms rs gc)) = c_inst (snd gc)"
  by (simp add: with_time_def)

lemma with_time_prices [simp]:
  "c_on_demand (snd (with_time ms rs gc)) = c_on_demand (snd gc)"
  "c_spot (snd (with_time ms rs gc)) = c_spot (snd gc)"
  by (simp_all add: with_time_def)

lemma score_ok:
  assumes "metrics_ok ms" and "c_time (snd gc) \<noteq> NaN"
  shows "scored_ok (length ms) (score ms spot gc)"
proof -
  have "mt_rank m (snd gc) spot \<noteq> NaN" if "m \<in> set ms" for m
    using assms that by (simp add: metrics_ok_def ranking_metric_def)
  then show ?thesis
    by (auto simp: scored_ok_def score_def dest: sym)
qed

lemma scored_inputs_ok:
  assumes "metrics_ok ms" and "timed cands"
  shows "\<forall>x \<in> set (map (\<lambda>gc. score ms spot (with_time ms rs gc)) cands). scored_ok (length ms) x"
  using assms by (auto simp: timed_def intro!: score_ok with_time_timed)

lemma set_ranked: "set (ranked ms rs spot cands) = (\<lambda>gc. score ms spot (with_time ms rs gc)) ` set cands"
  by (simp add: ranked_def)

lemma sorted_ranked:
  assumes "metrics_ok ms" and "timed cands"
  shows "sorted_wrt (\<lambda>a b. \<not> scored_lt b a) (ranked ms rs spot cands)"
  unfolding ranked_def by (rule ranking.sorted_sort_by [OF scored_inputs_ok [OF assms]])

section \<open>What is collected\<close>

definition listed :: "'w meta \<Rightarrow> itype \<Rightarrow> bool" where
  "listed M i \<longleftrightarrow> (\<exists>cloud region w is w'. m_instances M cloud region w = (Inr is, w') \<and> i \<in> set is)"

lemma listedI: "m_instances M cloud region w = (Inr is, w') \<Longrightarrow> i \<in> set is \<Longrightarrow> listed M i"
  unfolding listed_def by blast

definition feasible :: "'w meta \<Rightarrow> res_fields \<Rightarrow> candidate \<Rightarrow> bool" where
  "feasible M rs c \<longleftrightarrow> listed M (c_inst c) \<and> matches_resources (c_inst c) rs \<and> c_time c \<noteq> NaN"

lemma collect_regions_feasible:
  "collect_regions M rs f name regions w = (Inr cs, w') \<Longrightarrow> c \<in> set cs \<Longrightarrow> feasible M rs c"
proof (induction M rs f name regions w arbitrary: cs w' rule: collect_regions.induct)
  case (2 M rs f name region regions w)
  show ?case
  proof (cases "f \<noteq> [] \<and> region \<noteq> f")
    case True
    with 2 show ?thesis by simp
  next
    case False
    with 2(3) obtain insts w1 out where *: "m_instances M name region w = (Inr insts, w1)"
      "collect_regions M rs f name regions w1 = (Inr out, w')"
      "cs = map new_candidate (filter (\<lambda>i. matches_resources i rs) insts) @ out"
      by (auto split: prod.splits sum.splits)
    have "feasible M rs (new_candidate i)" if "i \<in> set insts" "matches_resources i rs" for i
      using that listedI [OF *(1)] unfolding feasible_def new_candidate_def by simp
    with 2(2) [OF False *(1) [symmetric] refl *(2)] 2(4) * show ?thesis by auto
  qed
qed simp

lemma collect_clouds_feasible:
  "collect_clouds M rs f sel names w = (Inr cs, w') \<Longrightarrow> c \<in> set cs \<Longrightarrow> feasible M rs c"
proof (induction names arbitrary: cs w)
  case (Cons name names)
  show ?case
  proof (cases "0 < length sel \<and> name \<notin> set sel")
    case True
    with Cons show ?thesis by simp
  next
    case False
    with Cons(2) obtain regions w1 here w2 out where *: "m_regions M name w = (Inr regions, w1)"
      "collect_regions M rs f name regions w1 = (Inr here, w2)"
      "collect_clouds M rs f sel names w2 = (Inr out, w')" "cs = here @ out"
      by (auto split: prod.splits sum.splits)
    with Cons.IH [OF *(3)] collect_regions_feasible [OF *(2)] Cons(3) show ?thesis by auto
  qed
qed simp

lemma collect_candidates_feasible:
  "collect_candidates M rs opts f w = (Inr cs, w') \<Longrightarrow> c \<in> set cs \<Longrightarrow> feasible M rs c"
  by (auto simp: collect_candidates_def Let_def split: prod.splits sum.splits
      intro: collect_clouds_feasible)

text \<open>Pricing changes prices only.\<close>

lemma set_price_inst [simp]: "c_inst (set_price p c) = c_inst c" "c_time (set_price p c) = c_time c"
  by (simp_all add: set_price_def split: option.splits)

lemma group_key_set_price [simp]: "group_key (set_price p c) = group_key c"
  by (simp add: group_key_def)

lemma price_group_loop_insts:
  "price_group_loop M groups cands w = (out, w') \<Longrightarrow>
   map c_inst out = map c_inst cands \<and> map c_time out = map c_time cands"
proof (induction M groups cands w arbitrary: out w' rule: price_group_loop.induct)
  case (2 M g types groups cands w)
  obtain cloud rest where c: "cut_at CHR 0x00 g = (cloud, rest)" by force
  obtain prices err w1 where p: "m_prices M cloud (case rest of None \<Rightarrow> [] | Some r \<Rightarrow> r) types w = (prices, err, w1)"
    by (metis prod_cases3)
  show ?case
  proof (cases "err \<noteq> None \<or> length prices = 0")
    case True
    with 2 c p show ?thesis by simp
  next
    case False
    from 2(2) [OF c [symmetric] p [symmetric] refl False] 2(3) False c p
    show ?thesis by (auto simp: comp_def if_distrib cong: if_cong)
  qed
qed simp

lemma attach_prices_feasible:
  assumes "attach_prices M cands w = (out, w')" and "\<forall>c \<in> set cands. feasible M rs c" and "c \<in> set out"
  shows "feasible M rs c"
proof -
  have m: "map c_inst out = map c_inst cands" "map c_time out = map c_time cands"
    using price_group_loop_insts [OF assms(1) [unfolded attach_prices_def]] by blast+
  from assms(3) obtain i where i: "i < length out" "c = out ! i"
    by (auto simp: in_set_conv_nth)
  with m have "i < length cands" "c_inst c = c_inst (cands ! i)" "c_time c = c_time (cands ! i)"
    by (metis length_map, metis length_map nth_map, metis length_map nth_map)
  with assms(2) show ?thesis
    unfolding feasible_def by (metis nth_mem)
qed

lemma collect_and_price_feasible:
  assumes "collect_and_price M rs opts w = (Inr cs, w')" and "c \<in> set cs"
  shows "feasible M rs c"
proof -
  from assms(1) obtain cands w1 where c: "collect_candidates M rs opts (o_cloud opts) w = (Inr cands, w1)"
    by (auto simp: collect_and_price_def split: prod.splits sum.splits)
  let ?kept = "if max_priced_candidates < length cands
    then take max_priced_candidates (sort_by (\<lambda>a b. it_vcpus (c_inst a) < it_vcpus (c_inst b)) cands) else cands"
  have att: "attach_prices M ?kept w1 = (cs, w')"
    using assms(1) c by (auto simp: collect_and_price_def Let_def split: prod.splits)
  have "\<forall>c \<in> set ?kept. feasible M rs c"
    using collect_candidates_feasible [OF c] by (auto dest!: in_set_takeD)
  from attach_prices_feasible [OF att this assms(2)] show ?thesis .
qed

lemma collect_groups_feasible:
  "collect_groups M opts gi gs w = (Inr cs, w') \<Longrightarrow> (g, c) \<in> set cs \<Longrightarrow>
   gi \<le> g \<and> g < gi + length gs \<and> feasible M (gs ! (g - gi)) c"
proof (induction gs arbitrary: gi cs w)
  case (Cons rs gs)
  then obtain here w1 out where *: "collect_and_price M rs opts w = (Inr here, w1)"
    "collect_groups M opts (Suc gi) gs w1 = (Inr out, w')" "cs = map (Pair gi) here @ out"
    by (auto split: prod.splits sum.splits)
  show ?case
  proof (cases "(g, c) \<in> set out")
    case True
    from Cons.IH [OF *(2) this] show ?thesis
      by (auto simp: nth_Cons' Suc_diff_Suc split: nat.splits)
  next
    case False
    with Cons(3) * have "g = gi" "c \<in> set here" by auto
    with collect_and_price_feasible [OF *(1)] show ?thesis by simp
  qed
qed simp

lemma collect_groups_timed: "collect_groups M opts gi gs w = (Inr cs, w') \<Longrightarrow> timed cs"
  using collect_groups_feasible by (fastforce simp: timed_def feasible_def)

section \<open>The plan\<close>

lemma in_enumerate: "(i, c) \<in> set (enumerate n xs) \<Longrightarrow> c \<in> set xs"
  by (auto simp: enumerate_eq_zip dest: set_zip_rightD)

lemma map_enumerate_index: "map (\<lambda>x. f (fst x)) (enumerate 0 xs) = map f [0..<length xs]"
  by (rule nth_equalityI) (simp_all add: nth_enumerate_eq)

lemma cost_metric_rank [simp]: "mt_rank cost_metric = cand_cost" "mt_name cost_metric = ''cost''"
  by (simp_all add: cost_metric_def)

definition best_of :: "metric list \<Rightarrow> (nat \<times> candidate) list \<Rightarrow> res_fields \<Rightarrow> options \<Rightarrow> bool \<Rightarrow> candidate list" where
  "best_of ms cands rs opts spot =
     take (nat (o_max_candidates opts)) (map (\<lambda>(g, c, s). c) (ranked ms rs spot cands))"

lemma rank_plan_Inr:
  assumes "rank_plan ms cands rs opts spot = Inr p"
  shows "pl_launches p = map (\<lambda>(i, c). launch_of opts spot i c) (enumerate 0 (best_of ms cands rs opts spot))"
    and "pl_launches p \<noteq> []"
    and "pl_cost p = cost_per_hour (hd (pl_launches p))" and "pl_time p = l_time (hd (pl_launches p))"
  using assms by (auto simp: rank_plan_def best_of_def Let_def split: list.splits)

lemma rank_plan_total:
  assumes "cands \<noteq> []" and "0 < o_max_candidates opts"
  shows "\<exists>p. rank_plan ms cands rs opts spot = Inr p"
proof -
  have "ranked ms rs spot cands \<noteq> []"
    using assms(1) by (simp add: ranked_def)
  then have "best_of ms cands rs opts spot \<noteq> []"
    using assms(2) by (simp add: best_of_def)
  then show ?thesis
    by (cases "best_of ms cands rs opts spot") (simp_all add: rank_plan_def best_of_def Let_def)
qed

lemma normal_options_pos: "0 < o_max_candidates (normal_options oo)" "0 < o_num_nodes (normal_options oo)"
  by (auto simp: normal_options_def default_options_def Let_def split: option.splits)

lemma optimize_Inr:
  assumes "optimize M ms (Some r) w = (Inr p, w')"
  obtains rs cands where "rq_resources r = Some rs" and "ms \<noteq> []" and "cands \<noteq> []"
    and "collect_groups M (normal_options (rq_options r)) 0 (groups_of rs) w = (Inr cands, w')"
    and "rank_plan ms cands (res_f rs) (normal_options (rq_options r))
           (effective_spot (normal_options (rq_options r)) (res_f rs)) = Inr p"
  using assms
  by (auto simp: optimize_def Let_def split: option.splits prod.splits sum.splits if_splits)

lemma set_best: "c \<in> set (best_of ms cands rs opts spot) \<Longrightarrow>
   \<exists>gc \<in> set cands. c = snd (with_time ms rs gc)"
  by (auto simp: best_of_def set_ranked score_def dest!: in_set_takeD)

section \<open>Strategies by name\<close>

definition name_ok :: "string \<Rightarrow> bool" where
  "name_ok n \<longleftrightarrow> n \<noteq> [] \<and> no_outer_space n \<and> CHR '','' \<notin> set n"

lemma strategy_metrics_names:
  assumes "\<forall>m \<in> set ms. name_ok (mt_name m) \<and> mget (og_metrics g) (mt_name m) = Some m"
  shows "strategy_metrics g (map mt_name ms) = Inr ms"
  using assms by (induction ms) (auto simp: name_ok_def trim_space_id Let_def)

section \<open>Pricing by group\<close>

lemma price_groups_keys:
  "fst ` set (foldl (\<lambda>groups c. mput (group_key c)
      ((case mget groups (group_key c) of None \<Rightarrow> [] | Some ts \<Rightarrow> ts) @ [it_type (c_inst c)]) groups) acc cands) =
   fst ` set acc \<union> group_key ` set cands"
  by (induction cands arbitrary: acc) auto

lemma price_groups_wf:
  "wf_map acc \<Longrightarrow> wf_map (foldl (\<lambda>groups c. mput (group_key c)
      ((case mget groups (group_key c) of None \<Rightarrow> [] | Some ts \<Rightarrow> ts) @ [it_type (c_inst c)]) groups) acc cands)"
  by (induction cands arbitrary: acc) auto

lemma set_price_Nil [simp]: "set_price [] c = c"
  by (simp add: set_price_def)

lemma price_group_loop_pure:
  assumes "\<And>cl rg ts w. m_prices M cl rg ts w = (P cl rg, None, w)"
    and "\<forall>c \<in> set cands. CHR 0x00 \<notin> set (it_cloud (c_inst c))" and "wf_map groups"
  shows "price_group_loop M groups cands w =
    (map (\<lambda>c. if group_key c \<in> fst ` set groups
              then set_price (P (it_cloud (c_inst c)) (it_region (c_inst c))) c else c) cands, w)"
  using assms(2,3)
proof (induction groups arbitrary: cands)
  case (Cons gt groups)
  obtain g types where gt: "gt = (g, types)" by force
  obtain cloud rest where c: "cut_at CHR 0x00 g = (cloud, rest)" by force
  define rg where "rg = (case rest of None \<Rightarrow> [] | Some r \<Rightarrow> r)"
  let ?p = "P cloud rg"
  have key: "P (it_cloud (c_inst x)) (it_region (c_inst x)) = ?p"
    if "x \<in> set cands" "group_key x = g" for x
  proof -
    have "cut_at CHR 0x00 g = (it_cloud (c_inst x), Some (it_region (c_inst x)))"
      using that Cons.prems(1) by (auto simp: group_key_def cut_at_append)
    with c have "cloud = it_cloud (c_inst x)" "rest = Some (it_region (c_inst x))"
      by simp_all
    then show ?thesis by (simp add: rg_def)
  qed
  let ?step = "map (\<lambda>x. if group_key x = g then set_price ?p x else x) cands"
  have step: "price_group_loop M (gt # groups) cands w = price_group_loop M groups ?step w"
  proof (cases "?p = []")
    case True
    have "?step = cands"
      by (rule map_idI) (simp add: True)
    with True show ?thesis by (simp add: gt c assms(1) cong: if_cong flip: rg_def)
  next
    case False
    then show ?thesis by (simp add: gt c assms(1) cong: if_cong flip: rg_def)
  qed
  have "\<forall>x \<in> set ?step. CHR 0x00 \<notin> set (it_cloud (c_inst x))"
    using Cons.prems(1) by auto
  note IH = Cons.IH [OF this]
  have g: "g \<notin> fst ` set groups" "wf_map groups"
    using Cons.prems(2) by (simp_all add: gt)
  have "(if group_key y \<in> fst ` set groups then set_price (P (it_cloud (c_inst y)) (it_region (c_inst y))) y else y) =
      (if group_key x \<in> fst ` set (gt # groups) then set_price (P (it_cloud (c_inst x)) (it_region (c_inst x))) x else x)"
    if "x \<in> set cands" "y = (if group_key x = g then set_price ?p x else x)" for x y
    using that key [OF that(1)] g(1) by (cases "group_key x = g") (simp_all add: gt)
  then show ?case
    unfolding step IH [OF g(2)] map_map comp_def prod.inject by (intro conjI map_cong refl) blast+
qed simp

section \<open>Properties\<close>

text \<open>What a task may ask of a machine, read off its resources: the named instance type, bounds of its
  processors and memory, room for the disk and at least as many of each accelerator.\<close>

definition meets :: "itype \<Rightarrow> res_fields \<Rightarrow> bool" where
  "meets i rs \<longleftrightarrow>
     (r_instance_type rs = [] \<or> it_type i = r_instance_type rs) \<and>
     (r_cpus rs = None \<or> range_matches (r_cpus rs) (f_of_int (it_vcpus i))) \<and>
     (r_memory rs = None \<or> range_matches (r_memory rs) (it_memory i)) \<and>
     (\<forall>(name, n) \<in> set (r_accel rs). \<exists>m. n \<le> m \<and>
        (mget (it_accel i) (to_lower name) = Some m \<or> mget (it_accel i) name = Some m))"

lemma matches_accel_enough:
  assumes "matches_accel have wanted" and "(name, n) \<in> set wanted"
  shows "\<exists>m. n \<le> m \<and> (mget have (to_lower name) = Some m \<or> mget have name = Some m)"
  using bspec [OF assms(1) [unfolded matches_accel_def list_all_iff] assms(2)]
  by (auto split: option.splits intro: linorder_not_less [THEN iffD1])

lemma matches_resources_meets: "matches_resources i rs \<Longrightarrow> meets i rs"
  unfolding matches_resources_def meets_def by (blast intro: matches_accel_enough)


text \<open>A plan is never empty nor longer than asked: the launches are numbered from one in order, carry
  the number of nodes and the spot choice of the request, and the plan's cost is that of its first launch.\<close>

theorem plan_shape:
  assumes "optimize M ms (Some r) w = (Inr p, w')"
  shows "pl_launches p \<noteq> [] \<and> int (length (pl_launches p)) \<le> o_max_candidates (normal_options (rq_options r)) \<and>
    map l_order (pl_launches p) = map (\<lambda>i. int i + 1) [0..<length (pl_launches p)] \<and>
    (\<forall>l \<in> set (pl_launches p). l_num_nodes l = o_num_nodes (normal_options (rq_options r)) \<and> 0 < l_num_nodes l) \<and>
    pl_cost p = cost_per_hour (hd (pl_launches p))"
proof -
  let ?o = "normal_options (rq_options r)"
  from assms obtain rs cands where p: "rank_plan ms cands (res_f rs) ?o (effective_spot ?o (res_f rs)) = Inr p"
    by (auto elim: optimize_Inr)
  note q = rank_plan_Inr [OF p]
  let ?best = "best_of ms cands (res_f rs) ?o (effective_spot ?o (res_f rs))"
  have "length ?best \<le> nat (o_max_candidates ?o)"
    by (simp add: best_of_def)
  then have "int (length (pl_launches p)) \<le> o_max_candidates ?o"
    using normal_options_pos(1) [of "rq_options r"] q(1) by simp
  moreover have "map l_order (pl_launches p) = map (\<lambda>i. int i + 1) [0..<length (pl_launches p)]"
    using map_enumerate_index [of "\<lambda>i. int i + 1" ?best]
    by (simp add: q(1) comp_def case_prod_beta launch_of_def)
  moreover have "\<forall>l \<in> set (pl_launches p). l_num_nodes l = o_num_nodes ?o \<and> 0 < l_num_nodes l"
    using normal_options_pos(2) [of "rq_options r"] by (auto simp: q(1) launch_of_def)
  ultimately show ?thesis
    using q(2,3) by blast
qed


definition itype_a :: itype where
  "itype_a = \<lparr>it_cloud = ''aws'', it_region = ''r1'', it_type = ''a.large'', it_vcpus = 4, it_memory = Fin 16,
     it_accel = [(''t4'', 1)], it_max_disk = Fin 1000\<rparr>"

definition itype_b :: itype where
  "itype_b = itype_a\<lparr>it_cloud := ''gcp'', it_type := ''b.small'', it_vcpus := 2\<rparr>"

definition cand_a :: candidate where
  "cand_a = (new_candidate itype_a)\<lparr>c_on_demand := Fin 2\<rparr>"

definition cand_b :: candidate where
  "cand_b = (new_candidate itype_b)\<lparr>c_on_demand := Fin 1\<rparr>"

lemma sample_timed: "timed [(0, cand_a), (0, cand_b)]"
  by (simp add: timed_def cand_a_def cand_b_def new_candidate_def)


text \<open>The default strategy picks a cheapest machine: ranking one group by cost, the hourly cost of the
  plan is not above the cost of any candidate that has a price, and the first launch has a price
  as soon as one candidate has.\<close>

theorem cheapest_first:
  assumes "rank_plan [cost_metric] (map (Pair 0) cands) rs opts spot = Inr p"
    and "\<forall>c \<in> set cands. c_time c \<noteq> NaN" and "c \<in> set cands" and "priced c"
  shows "\<not> f_lt (cand_cost c spot) (pl_cost p) \<and>
    (f_lt (Fin 0) (l_on_demand (hd (pl_launches p))) \<or> f_lt (Fin 0) (l_spot (hd (pl_launches p))))"
proof -
  let ?r = "ranked [cost_metric] rs spot (map (Pair 0) cands)"
  note q = rank_plan_Inr [OF assms(1)]
  have timed: "timed (map (Pair 0) cands)"
    using assms(2) by (auto simp: timed_def)
  have ok: "metrics_ok [cost_metric]"
    by (rule metrics_ok_builtin) simp
  obtain g d s rest where r: "?r = (g, d, s) # rest"
    using q(1,2) by (cases ?r) (auto simp: best_of_def)
  have wt: "with_time [cost_metric] rs gc = gc" for gc
    by (simp add: with_time_def)
  have "(g, d, s) \<in> set ?r" by (simp add: r)
  then have d: "g = 0" "s = [cand_cost d spot]" "d \<in> set cands"
    by (auto simp: set_ranked wt score_def)
  have "\<not> scored_lt (0, c, [cand_cost c spot]) (g, d, s)"
    using ranking.head_minimal [OF scored_inputs_ok [OF ok timed], of spot rs "(g, d, s)" rest
        "(0, c, [cand_cost c spot])"] r assms(3)
    unfolding ranked_def by (auto simp: wt score_def)
  then have "priced d" and min: "\<not> f_lt (cand_cost c spot) (cand_cost d spot)"
    using assms(4) d cost_rank.single_score_lt [of c d spot] assms(2,3) by (auto split: if_splits)
  have "nat (o_max_candidates opts) \<noteq> 0"
    using q(1,2) by (auto simp: best_of_def)
  then have "hd (pl_launches p) = launch_of opts spot 0 d"
    using q(1) r by (cases "nat (o_max_candidates opts)") (auto simp: best_of_def)
  with q(3) min \<open>priced d\<close> show ?thesis
    by (simp add: cost_per_hour_def launch_of_def cand_cost_def priced_def)
qed

theorem cheapest_first_witness:
  "\<exists>p. rank_plan [cost_metric] (map (Pair 0) [cand_a, cand_b]) no_fields default_options False = Inr p \<and>
     \<not> f_lt (cand_cost cand_a False) (pl_cost p)"
proof -
  obtain p where p: "rank_plan [cost_metric] (map (Pair 0) [cand_a, cand_b]) no_fields default_options False = Inr p"
    using rank_plan_total [of "map (Pair 0) [cand_a, cand_b]" default_options "[cost_metric]" no_fields False]
    by (auto simp: default_options_def [THEN arg_cong [where f = o_max_candidates]])
  have "\<not> f_lt (cand_cost cand_a False) (pl_cost p)"
    using cheapest_first [OF p, of cand_a]
    by (auto simp: cand_a_def cand_b_def new_candidate_def priced_def)
  with p show ?thesis by blast
qed

text \<open>Failover groups are not mixed, and the primary resources come first: candidates are ranked group by
  group, and as soon as the enclosing resources of a list of alternatives match some instance type,
  the first launch is one of theirs, before every listed alternative.\<close>

theorem primary_group_first:
  assumes "metrics_ok ms" and "timed cands"
  shows "sorted (map fst (ranked ms rs spot cands)) \<and>
    ((0, c) \<in> set cands \<longrightarrow> fst (hd (ranked ms rs spot cands)) = 0)"
proof -
  have le: "\<not> scored_lt b a \<Longrightarrow> fst a \<le> fst b" for a b :: scored
    by (cases a; cases b) (auto split: if_splits)
  have s: "sorted_wrt (\<lambda>a b. fst a \<le> fst b) (ranked ms rs spot cands)"
    using sorted_ranked [OF assms] by (rule sorted_wrt_mono_rel [rotated]) (rule le)
  have "fst (hd (ranked ms rs spot cands)) = 0" if "(0, c) \<in> set cands"
  proof -
    have "score ms spot (with_time ms rs (0, c)) \<in> set (ranked ms rs spot cands)"
      using that by (auto simp: set_ranked)
    moreover have "fst (score ms spot (with_time ms rs (0, c))) = 0"
      by (simp add: score_def)
    ultimately show ?thesis
      using s by (cases "ranked ms rs spot cands") auto
  qed
  with s show ?thesis by (simp add: sorted_map)
qed

theorem primary_group_first_witness:
  "fst (hd (ranked [cost_metric] no_fields False [(1, cand_b), (0, cand_a)])) = 0"
  using primary_group_first [OF metrics_ok_cost, of "[(1, cand_b), (0, cand_a)]" no_fields False cand_a]
  by (simp add: timed_def cand_a_def cand_b_def new_candidate_def)

text \<open>The cloud named in the resources of a task does not restrict the search: the candidates of a group are the
  same whatever its \<open>cloud\<close> field says, only the cloud of the options filters.\<close>

theorem resource_cloud_ignored:
  "collect_and_price M (rs\<lparr>r_cloud := cl\<rparr>) opts w = collect_and_price M rs opts w"
proof -
  have m: "matches_resources i (rs\<lparr>r_cloud := cl\<rparr>) = matches_resources i rs" for i
    by (simp add: matches_resources_def)
  have r: "collect_regions M (rs\<lparr>r_cloud := cl\<rparr>) f name regions w = collect_regions M rs f name regions w"
    for f name regions w
    by (induction regions arbitrary: w) (simp_all add: m cong: if_cong prod.case_cong sum.case_cong)
  have c: "collect_clouds M (rs\<lparr>r_cloud := cl\<rparr>) f sel names w = collect_clouds M rs f sel names w" for f sel names w
    by (induction names arbitrary: w) (simp_all add: r cong: if_cong prod.case_cong sum.case_cong)
  have g: "r_region (rs\<lparr>r_cloud := cl\<rparr>) = r_region rs"
    by simp
  show ?thesis
    unfolding collect_and_price_def collect_candidates_def c g ..
qed

text \<open>Prices reach the right machines: when the metadata answers with a price table per cloud and region,
  pricing gives every candidate the prices of its own cloud, region and type, in one question per
  pair, and keeps its order; a price that is not positive never overwrites.\<close>

theorem prices_attached_by_region:
  assumes "\<And>cl rg ts w. m_prices M cl rg ts w = (P cl rg, None, w)"
    and "\<forall>c \<in> set cands. CHR 0x00 \<notin> set (it_cloud (c_inst c))"
  shows "attach_prices M cands w =
    (map (\<lambda>c. set_price (P (it_cloud (c_inst c)) (it_region (c_inst c))) c) cands, w) \<and>
    wf_map (price_groups cands) \<and> fst ` set (price_groups cands) = group_key ` set cands"
proof -
  have wf: "wf_map (price_groups cands)" and keys: "fst ` set (price_groups cands) = group_key ` set cands"
    using price_groups_wf [of "[]" cands] price_groups_keys [of "[]" cands] by (simp_all add: price_groups_def)
  then show ?thesis
    using price_group_loop_pure [of M P cands "price_groups cands" w, OF assms wf]
    by (simp add: attach_prices_def)
qed

definition sample_meta :: "nat meta" where
  "sample_meta = \<lparr>m_clouds = (\<lambda>w. (Inr [''aws'', ''gcp''], w)), m_regions = (\<lambda>c w. (Inr [''r1''], w)),
     m_instances = (\<lambda>c r w. (Inr (if c = ''aws'' then [itype_a] else [itype_b]), w)),
     m_prices = (\<lambda>c r ts w. ([(''a.large'', \<lparr>p_on_demand = Fin 2, p_spot = Fin 0\<rparr>)], None, w))\<rparr>"

theorem prices_attached_by_region_witness:
  "attach_prices sample_meta [new_candidate itype_a, new_candidate itype_b] 0 =
     ([cand_a, new_candidate itype_b], 0)"
proof -
  have "attach_prices sample_meta [new_candidate itype_a, new_candidate itype_b] 0 =
    (map (set_price [(''a.large'', \<lparr>p_on_demand = Fin 2, p_spot = Fin 0\<rparr>)]) [new_candidate itype_a, new_candidate itype_b], 0)"
    using prices_attached_by_region [of sample_meta "\<lambda>_ _. [(''a.large'', \<lparr>p_on_demand = Fin 2, p_spot = Fin 0\<rparr>)]"
        "[new_candidate itype_a, new_candidate itype_b]" 0]
    by (simp add: sample_meta_def new_candidate_def itype_a_def itype_b_def)
  then show ?thesis
    by (simp add: set_price_def new_candidate_def itype_a_def itype_b_def cand_a_def)
qed

definition sample_request :: request where
  "sample_request = \<lparr>rq_resources = Some default_resources, rq_options = None\<rparr>"

lemma sample_optimize:
  "\<exists>p. optimize sample_meta [cost_metric] (Some sample_request) 0 = (Inr p, 0)"
  by (rule exI [of _ "projr (fst (optimize sample_meta [cost_metric] (Some sample_request) 0))"]) code_simp


theorem plan_shape_witness:
  "\<exists>p. optimize sample_meta [cost_metric] (Some sample_request) 0 = (Inr p, 0) \<and> pl_launches p \<noteq> []"
proof -
  obtain p where p: "optimize sample_meta [cost_metric] (Some sample_request) 0 = (Inr p, 0)"
    using sample_optimize by blast
  with plan_shape [OF p] show ?thesis by blast
qed

text \<open>Optimizing fails for a reason only: with a request, resources and a strategy, an error is the one
  the metadata gave, or that no candidate was found; the ranking itself never panics.\<close>

theorem optimize_errors:
  assumes "optimize M ms (Some r) w = (Inl e, w')" and "rq_resources r = Some rs" and "ms \<noteq> []"
  shows "collect_groups M (normal_options (rq_options r)) 0 (groups_of rs) w = (Inl e, w') \<or>
    collect_groups M (normal_options (rq_options r)) 0 (groups_of rs) w = (Inr [], w') \<and>
    e = Err (''no instance type found matching resources '' @ resources_string rs @ '' in '' @
             cloud_names (normal_options (rq_options r)))"
proof (cases "collect_groups M (normal_options (rq_options r)) 0 (groups_of rs) w")
  case (Pair c w1)
  show ?thesis
  proof (cases c)
    case (Inl e')
    with Pair assms show ?thesis by (simp add: optimize_def Let_def)
  next
    case (Inr cands)
    with Pair assms show ?thesis
      using rank_plan_total [of cands "normal_options (rq_options r)" ms "res_f rs"
          "effective_spot (normal_options (rq_options r)) (res_f rs)"] normal_options_pos(1) [of "rq_options r"]
      by (auto simp: optimize_def Let_def split: if_splits)
  qed
qed

theorem optimize_errors_witness:
  "\<exists>e. optimize (sample_meta\<lparr>m_clouds := \<lambda>w. (Inr [], w)\<rparr>) [cost_metric] (Some sample_request) 0 = (Inl e, 0) \<and>
     e = Err ''no instance type found matching resources [default] in all clouds''"
proof -
  let ?M = "sample_meta\<lparr>m_clouds := \<lambda>w. (Inr [], w)\<rparr>"
  have c: "optimize ?M [cost_metric] (Some sample_request) 0 =
      (Inl (projl (fst (optimize ?M [cost_metric] (Some sample_request) 0))), 0)"
    by code_simp
  have g: "collect_groups ?M (normal_options (rq_options sample_request)) 0 (groups_of default_resources) 0 = (Inr [], 0)"
    by code_simp
  have t: "''no instance type found matching resources '' @ resources_string default_resources @ '' in '' @
      cloud_names (normal_options (rq_options sample_request)) =
      ''no instance type found matching resources [default] in all clouds''"
    by code_simp
  show ?thesis
    using optimize_errors [OF c, of default_resources] c g t
    by (auto simp: sample_request_def)
qed

text \<open>A strategy is found under its own name: the names of registered metrics joined by commas parse to
  these metrics in this order, and resolving such a name of two metrics or more gives the strategy unless an
  optimizer of that name was registered.\<close>

theorem strategy_name_roundtrip:
  assumes "ms \<noteq> []"
    and "\<forall>m \<in> set ms. name_ok (mt_name m) \<and> mget (og_metrics g) (mt_name m) = Some m"
  shows "parse_strategy g (strategy_name ms) = Inr ms \<and>
    (2 \<le> length ms \<longrightarrow> mget (og_optimizers g) (strategy_name ms) = None \<longrightarrow>
     resolve_optimizer g (strategy_name ms) = Inr (Some ms))"
proof -
  have "split_on CHR '','' (strategy_name ms) = map mt_name ms"
    unfolding strategy_name_def using assms by (intro split_on_join) (auto simp: name_ok_def)
  then have p: "parse_strategy g (strategy_name ms) = Inr ms"
    using strategy_metrics_names [OF assms(2)] assms(1) by (simp add: parse_strategy_def)
  moreover have "CHR '','' \<in> set (strategy_name ms)" "strategy_name ms \<noteq> []" if "2 \<le> length ms"
  proof -
    from that obtain a b rest where "ms = a # b # rest"
      by (metis One_nat_def Suc_1 Suc_le_length_iff)
    then show "CHR '','' \<in> set (strategy_name ms)" "strategy_name ms \<noteq> []"
      by (simp_all add: strategy_name_def)
  qed
  ultimately show ?thesis
    by (simp add: resolve_optimizer_def get_optimizer_def)
qed

theorem strategy_name_roundtrip_witness:
  "parse_strategy initial_registry (strategy_name [cost_metric, time_metric]) = Inr [cost_metric, time_metric]"
  using strategy_name_roundtrip [of "[cost_metric, time_metric]" initial_registry]
  by (simp add: name_ok_def no_outer_space_def is_space_def cost_metric_def time_metric_def initial_registry_def)

end
