(* ===== verification/State_Types.thy ===== *)
theory State_Types
  imports Optimizer
begin

text \<open>
  The persistent entities of \<open>internal/state\<close> (\<open>state.go\<close>, \<open>services.go\<close>, \<open>jobs.go\<close>, \<open>cluster_yaml.go\<close>,
  \<open>cluster_history.go\<close>, \<open>cluster_events.go\<close>, \<open>config.go\<close>, \<open>token.go\<close>) and their JSON form: the tree
  \<open>encoding/json\<close> builds from the struct tags, and the way back. The text of the tree (quoting,
  white space) is not modelled: a stored document is its tree. Field names are matched exactly.
\<close>

section \<open>Entities\<close>

record node =
  n_id :: string
  n_public_ip :: string
  n_private_ip :: string
  n_instance_type :: string
  n_zone :: string
  n_status :: string
  n_role :: string

definition role_head :: string where "role_head = ''head''"
definition role_worker :: string where "role_worker = ''worker''"

type_synonym cluster_status = string

definition cluster_up :: cluster_status where "cluster_up = ''up''"
definition cluster_stopped :: cluster_status where "cluster_stopped = ''stopped''"
definition cluster_error :: cluster_status where "cluster_error = ''error''"
definition cluster_terminated :: cluster_status where "cluster_terminated = ''terminated''"
definition cluster_provisioning :: cluster_status where "cluster_provisioning = ''provisioning''"
definition cluster_down :: cluster_status where "cluster_down = ''down''"

record cluster =
  cl_name :: string
  cl_status :: cluster_status
  cl_backend :: string
  cl_cloud :: string
  cl_region :: string
  cl_num_nodes :: int
  cl_instances :: "node list"
  cl_launch :: "launch option"
  cl_task_yaml :: string
  cl_tags :: "string smap"
  cl_labels :: "string smap"
  cl_creds :: "cloud_credentials option"
  cl_ssh :: "ssh_target option"
  cl_key_name :: string
  cl_key_path :: string
  cl_security_group :: string
  cl_vpc :: string
  cl_vswitch :: string
  cl_last_error :: string
  cl_created_at :: int
  cl_updated_at :: int

record service =
  sc_name :: string
  sc_status :: string
  sc_replicas :: int
  sc_port :: int
  sc_endpoints :: "string list"
  sc_replica_clusters :: "string list"
  sc_task_yaml :: string
  sc_error :: string
  sc_created_at :: int
  sc_updated_at :: int

record job =
  j_name :: string
  j_task_yaml :: string
  j_schedule :: string
  j_task_path :: string
  j_retries :: int
  j_optimizer :: string
  j_cluster :: string
  j_status :: string
  j_run_count :: int
  j_fail_count :: int
  j_last_run :: int
  j_last_status :: string
  j_next_run :: int
  j_error :: string
  j_created_at :: int
  j_updated_at :: int

record cluster_yaml =
  y_cluster_name :: string
  y_yaml :: string
  y_created_at :: int
  y_updated_at :: int

record cluster_history =
  h_cluster_name :: string
  h_num_nodes :: int
  h_cloud :: string
  h_region :: string
  h_zone :: string
  h_instance_type :: string
  h_backend :: string
  h_task_yaml :: string
  h_launched_at :: int
  h_created_at :: int
  h_updated_at :: int

record cluster_event =
  e_cluster_name :: string
  e_starting_status :: string
  e_ending_status :: string
  e_reason :: string
  e_type :: string
  e_request_id :: string
  e_transitioned_at :: int

record config_entry =
  ce_key :: string
  ce_value :: string
  ce_created_at :: int
  ce_updated_at :: int

record token =
  tk_id :: string
  tk_name :: string
  tk_hash :: string
  tk_created_at :: int
  tk_last_used_at :: int
  tk_expires_at :: int
  tk_creator :: string
  tk_active :: bool

definition token_expired :: "token \<Rightarrow> int \<Rightarrow> bool" where
  "token_expired t now = (0 < tk_expires_at t \<and> tk_expires_at t < now)"

definition token_updated_at :: "token \<Rightarrow> int" where
  "token_updated_at t = (if tk_created_at t < tk_last_used_at t then tk_last_used_at t else tk_created_at t)"

section \<open>Reading a cluster\<close>

text \<open>\<open>GetNodeIP\<close>: two passes over the nodes.\<close>

definition get_node_ip :: "cluster \<Rightarrow> string" where
  "get_node_ip c =
     (case find (\<lambda>n. n_public_ip n \<noteq> [] \<and> n_role n = role_head) (cl_instances c) of
        Some n \<Rightarrow> n_public_ip n
      | None \<Rightarrow>
          (case find (\<lambda>n. n_public_ip n \<noteq> []) (cl_instances c) of
             Some n \<Rightarrow> n_public_ip n
           | None \<Rightarrow> []))"

text \<open>\<open>Head\<close>: the loop tests \<open>i == 0\<close> beside the role, so it stops at the first node.\<close>

fun cluster_head_loop :: "nat \<Rightarrow> node list \<Rightarrow> node option" where
  "cluster_head_loop i [] = None"
| "cluster_head_loop i (n # ns) = (if n_role n = role_head \<or> i = 0 then Some n else cluster_head_loop (Suc i) ns)"

definition cluster_head :: "cluster \<Rightarrow> node option" where
  "cluster_head c = cluster_head_loop 0 (cl_instances c)"

definition cluster_workers :: "cluster \<Rightarrow> node list" where
  "cluster_workers c = filter (\<lambda>n. n_role n = role_worker) (cl_instances c)"

definition node_ips :: "cluster \<Rightarrow> string list" where
  "node_ips c = map n_public_ip (cl_instances c)"

lemma cluster_head_first: "cluster_head c = (case cl_instances c of [] \<Rightarrow> None | n # _ \<Rightarrow> Some n)"
  by (simp add: cluster_head_def split: list.splits)

section \<open>JSON trees\<close>

datatype json = JNull | JBool bool | JNum rat | JStr string | JArr "json list" | JObj "(string \<times> json) list"

text \<open>A field with \<open>omitempty\<close> is written unless empty.\<close>

definition omit :: "bool \<Rightarrow> string \<Rightarrow> json \<Rightarrow> (string \<times> json) list" where
  "omit b k v = (if b then [] else [(k, v)])"

definition field :: "string \<Rightarrow> json \<Rightarrow> (string \<times> json) list" where
  "field k v = [(k, v)]"

definition jint :: "int \<Rightarrow> json" where
  "jint i = JNum (of_int i)"

declare map_of_append [simp del]

lemma map_of_field [simp]:
  "map_of (field k v @ rest) k' = (if k' = k then Some v else map_of rest k')"
  "map_of (field k v) k' = (if k' = k then Some v else None)"
  by (simp_all add: field_def)

lemma map_of_omit [simp]:
  "map_of (omit b k v @ rest) k' = (if k' = k \<and> \<not> b then Some v else map_of rest k')"
  "map_of (omit b k v) k' = (if k' = k \<and> \<not> b then Some v else None)"
  by (simp_all add: omit_def)

text \<open>Decoding a field: a missing or null one keeps the zero value.\<close>

definition bad_json :: "string \<Rightarrow> 'a res" where
  "bad_json what = Inl (Err (''json: cannot unmarshal into Go value of type '' @ what))"

fun dec_str :: "json option \<Rightarrow> string res" where
  "dec_str None = Inr []"
| "dec_str (Some JNull) = Inr []"
| "dec_str (Some (JStr s)) = Inr s"
| "dec_str _ = bad_json ''string''"

fun dec_int :: "json option \<Rightarrow> int res" where
  "dec_int None = Inr 0"
| "dec_int (Some JNull) = Inr 0"
| "dec_int (Some (JNum q)) = (if of_int \<lfloor>q\<rfloor> = q then Inr \<lfloor>q\<rfloor> else bad_json ''int'')"
| "dec_int _ = bad_json ''int''"

fun dec_bool :: "json option \<Rightarrow> bool res" where
  "dec_bool None = Inr False"
| "dec_bool (Some JNull) = Inr False"
| "dec_bool (Some (JBool b)) = Inr b"
| "dec_bool _ = bad_json ''bool''"

fun dec_f64 :: "json option \<Rightarrow> f64 res" where
  "dec_f64 None = Inr (Fin 0)"
| "dec_f64 (Some JNull) = Inr (Fin 0)"
| "dec_f64 (Some (JNum q)) = Inr (Fin q)"
| "dec_f64 _ = bad_json ''float64''"

fun dec_list :: "(json \<Rightarrow> 'a res) \<Rightarrow> json option \<Rightarrow> 'a list res" where
  "dec_list d None = Inr []"
| "dec_list d (Some JNull) = Inr []"
| "dec_list d (Some (JArr js)) = map_res d js"
| "dec_list d _ = bad_json ''slice''"

fun dec_ptr :: "(json \<Rightarrow> 'a res) \<Rightarrow> json option \<Rightarrow> 'a option res" where
  "dec_ptr d None = Inr None"
| "dec_ptr d (Some JNull) = Inr None"
| "dec_ptr d (Some j) = map_sum id Some (d j)"

definition put_all :: "(string \<times> 'a) list \<Rightarrow> 'a smap" where
  "put_all kvs = foldl (\<lambda>m (k, v). mput k v m) [] kvs"

fun dec_map :: "(json \<Rightarrow> 'a res) \<Rightarrow> json option \<Rightarrow> 'a smap res" where
  "dec_map d None = Inr []"
| "dec_map d (Some JNull) = Inr []"
| "dec_map d (Some (JObj kvs)) =
     bind_res (map_res (\<lambda>(k, j). map_sum id (Pair k) (d j)) kvs) (\<lambda>ps. Inr (put_all ps))"
| "dec_map d _ = bad_json ''map''"

definition dec_string :: "json \<Rightarrow> string res" where
  "dec_string j = dec_str (Some j)"

definition enc_map :: "('a \<Rightarrow> json) \<Rightarrow> 'a smap \<Rightarrow> json" where
  "enc_map e m = JObj (map (\<lambda>k. (k, case mget m k of Some v \<Rightarrow> e v | None \<Rightarrow> JNull)) (sorted_keys m))"

definition enc_ptr :: "('a \<Rightarrow> json) \<Rightarrow> 'a option \<Rightarrow> json" where
  "enc_ptr e x = (case x of Some v \<Rightarrow> e v | None \<Rightarrow> JNull)"

definition enc_strs :: "string list \<Rightarrow> json" where
  "enc_strs xs = JArr (map JStr xs)"

lemma dec_int_jint [simp]: "dec_int (Some (jint i)) = Inr i"
  by (simp add: jint_def)

lemma map_res_map: "map_res d (map e xs) = map_res (\<lambda>x. d (e x)) xs"
  by (induction xs) (simp_all cong: sum.case_cong)

lemma map_res_Inr: "(\<And>x. x \<in> set xs \<Longrightarrow> f x = Inr (g x)) \<Longrightarrow> map_res f xs = Inr (map g xs)"
  by (induction xs) simp_all

lemma put_all_snoc: "put_all (xs @ [(k, v)]) = mput k v (put_all xs)"
  by (simp add: put_all_def)

lemma put_all_distinct: "distinct (map fst kvs) \<Longrightarrow> put_all kvs = kvs"
proof (induction kvs rule: rev_induct)
  case Nil
  then show ?case by (simp add: put_all_def)
next
  case (snoc x xs)
  then show ?case by (cases x) (simp add: put_all_snoc mput_fresh)
qed

text \<open>A map read back is the same map, its bindings in the order of the keys.\<close>

definition key_sorted :: "'a smap \<Rightarrow> 'a smap" where
  "key_sorted m = map (\<lambda>k. (k, the (mget m k))) (sorted_keys m)"

lemma map_of_key_sorted: "map_of (key_sorted m) = map_of m"
proof
  fix k
  show "map_of (key_sorted m) k = map_of m k"
  proof (cases "mget m k")
    case None
    then have "k \<notin> set (sorted_keys m)" by (simp add: mget_None_iff)
    then show ?thesis using None unfolding key_sorted_def map_of_map_restrict by (simp add: restrict_out)
  next
    case (Some v)
    then have "k \<in> set (sorted_keys m)" by (simp add: mget_in_keys)
    then show ?thesis using Some unfolding key_sorted_def map_of_map_restrict
      by (simp add: restrict_in)
  qed
qed

lemma wf_key_sorted: "wf_map m \<Longrightarrow> wf_map (key_sorted m)"
  by (simp add: key_sorted_def comp_def)

lemma dec_enc_map:
  assumes "wf_map m" and "\<And>k v. mget m k = Some v \<Longrightarrow> d (e v) = Inr v"
  shows "dec_map d (Some (enc_map e m)) = Inr (key_sorted m)"
proof -
  have "map_res (\<lambda>(k, j). map_sum id (Pair k) (d j))
      (map (\<lambda>k. (k, case mget m k of Some v \<Rightarrow> e v | None \<Rightarrow> JNull)) (sorted_keys m)) =
    Inr (map (\<lambda>k. (k, the (mget m k))) (sorted_keys m))"
    unfolding map_res_map
  proof (rule map_res_Inr)
    fix k assume "k \<in> set (sorted_keys m)"
    then obtain v where "mget m k = Some v"
      by (metis mget_None_iff not_None_eq set_sorted_keys)
    then show "(case (k, case mget m k of Some v \<Rightarrow> e v | None \<Rightarrow> JNull) of
        (k, j) \<Rightarrow> map_sum id (Pair k) (d j)) = Inr (k, the (mget m k))"
      by (simp add: assms(2))
  qed
  moreover have "put_all (key_sorted m) = key_sorted m"
    by (rule put_all_distinct [OF wf_key_sorted [OF assms(1)]])
  ultimately show ?thesis
    by (simp add: enc_map_def key_sorted_def)
qed

lemma dec_enc_strs: "dec_list dec_string (Some (enc_strs xs)) = Inr xs"
  by (simp add: enc_strs_def map_res_map dec_string_def) (rule map_res_Inr [where g = id, simplified], simp)

end
