(* ===== verification/State_Json.thy ===== *)
theory State_Json
  imports State_Types
begin

text \<open>
  The JSON documents of the entities: for every struct the tree its tags produce, the decoder,
  and the round trip. A map comes back with its keys in order, everything else as it was.
\<close>

text \<open>\<open>encoding/json\<close> refuses the floats that are not finite; \<open>jf64\<close> is used on finite ones
  (\<open>launch_finite\<close> below guards the encoding of a cluster).\<close>

fun jf64 :: "f64 \<Rightarrow> json" where
  "jf64 (Fin q) = JNum q"
| "jf64 _ = JNull"

section \<open>Encoders and decoders\<close>

definition enc_node :: "node \<Rightarrow> json" where
  "enc_node x = JObj (
     field ''id'' (JStr (n_id x)) @
     field ''public_ip'' (JStr (n_public_ip x)) @
     field ''private_ip'' (JStr (n_private_ip x)) @
     field ''instance_type'' (JStr (n_instance_type x)) @
     field ''zone'' (JStr (n_zone x)) @
     field ''status'' (JStr (n_status x)) @
     omit (n_role x = []) ''role'' (JStr (n_role x)))"

fun dec_node :: "json \<Rightarrow> node res" where
  "dec_node (JObj kvs) =
        bind_res (dec_str (map_of kvs ''id'')) (\<lambda>v0.
        bind_res (dec_str (map_of kvs ''public_ip'')) (\<lambda>v1.
        bind_res (dec_str (map_of kvs ''private_ip'')) (\<lambda>v2.
        bind_res (dec_str (map_of kvs ''instance_type'')) (\<lambda>v3.
        bind_res (dec_str (map_of kvs ''zone'')) (\<lambda>v4.
        bind_res (dec_str (map_of kvs ''status'')) (\<lambda>v5.
        bind_res (dec_str (map_of kvs ''role'')) (\<lambda>v6.
        Inr \<lparr>n_id = v0, n_public_ip = v1, n_private_ip = v2, n_instance_type = v3, n_zone = v4, n_status = v5, n_role = v6\<rparr>)))))))"
| "dec_node _ = bad_json ''state.Node''"

definition enc_creds :: "cloud_credentials \<Rightarrow> json" where
  "enc_creds x = JObj (
     field ''access_key_id'' (JStr (access_key_id x)) @
     field ''secret_access_key'' (JStr (secret_access_key x)) @
     omit (cred_region x = []) ''region'' (JStr (cred_region x)))"

fun dec_creds :: "json \<Rightarrow> cloud_credentials res" where
  "dec_creds (JObj kvs) =
        bind_res (dec_str (map_of kvs ''access_key_id'')) (\<lambda>v0.
        bind_res (dec_str (map_of kvs ''secret_access_key'')) (\<lambda>v1.
        bind_res (dec_str (map_of kvs ''region'')) (\<lambda>v2.
        Inr \<lparr>access_key_id = v0, secret_access_key = v1, cred_region = v2\<rparr>)))"
| "dec_creds _ = bad_json ''state.CloudCreds''"

definition enc_ssh :: "ssh_target \<Rightarrow> json" where
  "enc_ssh x = JObj (
     field ''host'' (JStr (ssh_host x)) @
     omit (ssh_user x = []) ''user'' (JStr (ssh_user x)) @
     omit (ssh_key x = []) ''key'' (JStr (ssh_key x)) @
     omit (ssh_port x = 0) ''port'' (jint (ssh_port x)))"

fun dec_ssh :: "json \<Rightarrow> ssh_target res" where
  "dec_ssh (JObj kvs) =
        bind_res (dec_str (map_of kvs ''host'')) (\<lambda>v0.
        bind_res (dec_str (map_of kvs ''user'')) (\<lambda>v1.
        bind_res (dec_str (map_of kvs ''key'')) (\<lambda>v2.
        bind_res (dec_int (map_of kvs ''port'')) (\<lambda>v3.
        Inr \<lparr>ssh_host = v0, ssh_user = v1, ssh_key = v2, ssh_port = v3\<rparr>))))"
| "dec_ssh _ = bad_json ''state.SSHTarget''"

definition enc_service :: "service \<Rightarrow> json" where
  "enc_service x = JObj (
     field ''name'' (JStr (sc_name x)) @
     field ''status'' (JStr (sc_status x)) @
     field ''replicas'' (jint (sc_replicas x)) @
     field ''port'' (jint (sc_port x)) @
     field ''endpoints'' (enc_strs (sc_endpoints x)) @
     field ''replica_clusters'' (enc_strs (sc_replica_clusters x)) @
     field ''task_yaml'' (JStr (sc_task_yaml x)) @
     omit (sc_error x = []) ''error'' (JStr (sc_error x)) @
     field ''created_at'' (jint (sc_created_at x)) @
     field ''updated_at'' (jint (sc_updated_at x)))"

fun dec_service :: "json \<Rightarrow> service res" where
  "dec_service (JObj kvs) =
        bind_res (dec_str (map_of kvs ''name'')) (\<lambda>v0.
        bind_res (dec_str (map_of kvs ''status'')) (\<lambda>v1.
        bind_res (dec_int (map_of kvs ''replicas'')) (\<lambda>v2.
        bind_res (dec_int (map_of kvs ''port'')) (\<lambda>v3.
        bind_res (dec_list dec_string (map_of kvs ''endpoints'')) (\<lambda>v4.
        bind_res (dec_list dec_string (map_of kvs ''replica_clusters'')) (\<lambda>v5.
        bind_res (dec_str (map_of kvs ''task_yaml'')) (\<lambda>v6.
        bind_res (dec_str (map_of kvs ''error'')) (\<lambda>v7.
        bind_res (dec_int (map_of kvs ''created_at'')) (\<lambda>v8.
        bind_res (dec_int (map_of kvs ''updated_at'')) (\<lambda>v9.
        Inr \<lparr>sc_name = v0, sc_status = v1, sc_replicas = v2, sc_port = v3, sc_endpoints = v4, sc_replica_clusters = v5, sc_task_yaml = v6, sc_error = v7, sc_created_at = v8, sc_updated_at = v9\<rparr>))))))))))"
| "dec_service _ = bad_json ''state.Service''"

definition enc_job :: "job \<Rightarrow> json" where
  "enc_job x = JObj (
     field ''name'' (JStr (j_name x)) @
     field ''task_yaml'' (JStr (j_task_yaml x)) @
     field ''schedule'' (JStr (j_schedule x)) @
     omit (j_task_path x = []) ''task_path'' (JStr (j_task_path x)) @
     field ''retries'' (jint (j_retries x)) @
     omit (j_optimizer x = []) ''optimizer'' (JStr (j_optimizer x)) @
     omit (j_cluster x = []) ''cluster'' (JStr (j_cluster x)) @
     field ''status'' (JStr (j_status x)) @
     field ''run_count'' (jint (j_run_count x)) @
     field ''fail_count'' (jint (j_fail_count x)) @
     field ''last_run'' (jint (j_last_run x)) @
     omit (j_last_status x = []) ''last_status'' (JStr (j_last_status x)) @
     field ''next_run'' (jint (j_next_run x)) @
     omit (j_error x = []) ''error'' (JStr (j_error x)) @
     field ''created_at'' (jint (j_created_at x)) @
     field ''updated_at'' (jint (j_updated_at x)))"

fun dec_job :: "json \<Rightarrow> job res" where
  "dec_job (JObj kvs) =
        bind_res (dec_str (map_of kvs ''name'')) (\<lambda>v0.
        bind_res (dec_str (map_of kvs ''task_yaml'')) (\<lambda>v1.
        bind_res (dec_str (map_of kvs ''schedule'')) (\<lambda>v2.
        bind_res (dec_str (map_of kvs ''task_path'')) (\<lambda>v3.
        bind_res (dec_int (map_of kvs ''retries'')) (\<lambda>v4.
        bind_res (dec_str (map_of kvs ''optimizer'')) (\<lambda>v5.
        bind_res (dec_str (map_of kvs ''cluster'')) (\<lambda>v6.
        bind_res (dec_str (map_of kvs ''status'')) (\<lambda>v7.
        bind_res (dec_int (map_of kvs ''run_count'')) (\<lambda>v8.
        bind_res (dec_int (map_of kvs ''fail_count'')) (\<lambda>v9.
        bind_res (dec_int (map_of kvs ''last_run'')) (\<lambda>v10.
        bind_res (dec_str (map_of kvs ''last_status'')) (\<lambda>v11.
        bind_res (dec_int (map_of kvs ''next_run'')) (\<lambda>v12.
        bind_res (dec_str (map_of kvs ''error'')) (\<lambda>v13.
        bind_res (dec_int (map_of kvs ''created_at'')) (\<lambda>v14.
        bind_res (dec_int (map_of kvs ''updated_at'')) (\<lambda>v15.
        Inr \<lparr>j_name = v0, j_task_yaml = v1, j_schedule = v2, j_task_path = v3, j_retries = v4, j_optimizer = v5, j_cluster = v6, j_status = v7, j_run_count = v8, j_fail_count = v9, j_last_run = v10, j_last_status = v11, j_next_run = v12, j_error = v13, j_created_at = v14, j_updated_at = v15\<rparr>))))))))))))))))"
| "dec_job _ = bad_json ''state.Job''"

definition enc_yaml :: "cluster_yaml \<Rightarrow> json" where
  "enc_yaml x = JObj (
     field ''cluster_name'' (JStr (y_cluster_name x)) @
     field ''yaml'' (JStr (y_yaml x)) @
     field ''created_at'' (jint (y_created_at x)) @
     field ''updated_at'' (jint (y_updated_at x)))"

fun dec_yaml :: "json \<Rightarrow> cluster_yaml res" where
  "dec_yaml (JObj kvs) =
        bind_res (dec_str (map_of kvs ''cluster_name'')) (\<lambda>v0.
        bind_res (dec_str (map_of kvs ''yaml'')) (\<lambda>v1.
        bind_res (dec_int (map_of kvs ''created_at'')) (\<lambda>v2.
        bind_res (dec_int (map_of kvs ''updated_at'')) (\<lambda>v3.
        Inr \<lparr>y_cluster_name = v0, y_yaml = v1, y_created_at = v2, y_updated_at = v3\<rparr>))))"
| "dec_yaml _ = bad_json ''state.ClusterYAML''"

definition enc_history :: "cluster_history \<Rightarrow> json" where
  "enc_history x = JObj (
     field ''cluster_name'' (JStr (h_cluster_name x)) @
     field ''num_nodes'' (jint (h_num_nodes x)) @
     field ''cloud'' (JStr (h_cloud x)) @
     field ''region'' (JStr (h_region x)) @
     field ''zone'' (JStr (h_zone x)) @
     field ''instance_type'' (JStr (h_instance_type x)) @
     field ''backend'' (JStr (h_backend x)) @
     omit (h_task_yaml x = []) ''task_yaml'' (JStr (h_task_yaml x)) @
     field ''launched_at'' (jint (h_launched_at x)) @
     field ''created_at'' (jint (h_created_at x)) @
     field ''updated_at'' (jint (h_updated_at x)))"

fun dec_history :: "json \<Rightarrow> cluster_history res" where
  "dec_history (JObj kvs) =
        bind_res (dec_str (map_of kvs ''cluster_name'')) (\<lambda>v0.
        bind_res (dec_int (map_of kvs ''num_nodes'')) (\<lambda>v1.
        bind_res (dec_str (map_of kvs ''cloud'')) (\<lambda>v2.
        bind_res (dec_str (map_of kvs ''region'')) (\<lambda>v3.
        bind_res (dec_str (map_of kvs ''zone'')) (\<lambda>v4.
        bind_res (dec_str (map_of kvs ''instance_type'')) (\<lambda>v5.
        bind_res (dec_str (map_of kvs ''backend'')) (\<lambda>v6.
        bind_res (dec_str (map_of kvs ''task_yaml'')) (\<lambda>v7.
        bind_res (dec_int (map_of kvs ''launched_at'')) (\<lambda>v8.
        bind_res (dec_int (map_of kvs ''created_at'')) (\<lambda>v9.
        bind_res (dec_int (map_of kvs ''updated_at'')) (\<lambda>v10.
        Inr \<lparr>h_cluster_name = v0, h_num_nodes = v1, h_cloud = v2, h_region = v3, h_zone = v4, h_instance_type = v5, h_backend = v6, h_task_yaml = v7, h_launched_at = v8, h_created_at = v9, h_updated_at = v10\<rparr>)))))))))))"
| "dec_history _ = bad_json ''state.ClusterHistory''"

definition enc_event :: "cluster_event \<Rightarrow> json" where
  "enc_event x = JObj (
     field ''cluster_name'' (JStr (e_cluster_name x)) @
     field ''starting_status'' (JStr (e_starting_status x)) @
     field ''ending_status'' (JStr (e_ending_status x)) @
     omit (e_reason x = []) ''reason'' (JStr (e_reason x)) @
     field ''type'' (JStr (e_type x)) @
     omit (e_request_id x = []) ''request_id'' (JStr (e_request_id x)) @
     field ''transitioned_at'' (jint (e_transitioned_at x)))"

fun dec_event :: "json \<Rightarrow> cluster_event res" where
  "dec_event (JObj kvs) =
        bind_res (dec_str (map_of kvs ''cluster_name'')) (\<lambda>v0.
        bind_res (dec_str (map_of kvs ''starting_status'')) (\<lambda>v1.
        bind_res (dec_str (map_of kvs ''ending_status'')) (\<lambda>v2.
        bind_res (dec_str (map_of kvs ''reason'')) (\<lambda>v3.
        bind_res (dec_str (map_of kvs ''type'')) (\<lambda>v4.
        bind_res (dec_str (map_of kvs ''request_id'')) (\<lambda>v5.
        bind_res (dec_int (map_of kvs ''transitioned_at'')) (\<lambda>v6.
        Inr \<lparr>e_cluster_name = v0, e_starting_status = v1, e_ending_status = v2, e_reason = v3, e_type = v4, e_request_id = v5, e_transitioned_at = v6\<rparr>)))))))"
| "dec_event _ = bad_json ''state.ClusterEvent''"

definition enc_entry :: "config_entry \<Rightarrow> json" where
  "enc_entry x = JObj (
     field ''key'' (JStr (ce_key x)) @
     field ''value'' (JStr (ce_value x)) @
     field ''created_at'' (jint (ce_created_at x)) @
     field ''updated_at'' (jint (ce_updated_at x)))"

fun dec_entry :: "json \<Rightarrow> config_entry res" where
  "dec_entry (JObj kvs) =
        bind_res (dec_str (map_of kvs ''key'')) (\<lambda>v0.
        bind_res (dec_str (map_of kvs ''value'')) (\<lambda>v1.
        bind_res (dec_int (map_of kvs ''created_at'')) (\<lambda>v2.
        bind_res (dec_int (map_of kvs ''updated_at'')) (\<lambda>v3.
        Inr \<lparr>ce_key = v0, ce_value = v1, ce_created_at = v2, ce_updated_at = v3\<rparr>))))"
| "dec_entry _ = bad_json ''state.ConfigEntry''"

definition enc_token :: "token \<Rightarrow> json" where
  "enc_token x = JObj (
     field ''token_id'' (JStr (tk_id x)) @
     field ''token_name'' (JStr (tk_name x)) @
     field ''token_hash'' (JStr (tk_hash x)) @
     field ''created_at'' (jint (tk_created_at x)) @
     field ''last_used_at'' (jint (tk_last_used_at x)) @
     field ''expires_at'' (jint (tk_expires_at x)) @
     field ''creator'' (JStr (tk_creator x)) @
     omit (\<not> tk_active x) ''active'' (JBool (tk_active x)))"

fun dec_token :: "json \<Rightarrow> token res" where
  "dec_token (JObj kvs) =
        bind_res (dec_str (map_of kvs ''token_id'')) (\<lambda>v0.
        bind_res (dec_str (map_of kvs ''token_name'')) (\<lambda>v1.
        bind_res (dec_str (map_of kvs ''token_hash'')) (\<lambda>v2.
        bind_res (dec_int (map_of kvs ''created_at'')) (\<lambda>v3.
        bind_res (dec_int (map_of kvs ''last_used_at'')) (\<lambda>v4.
        bind_res (dec_int (map_of kvs ''expires_at'')) (\<lambda>v5.
        bind_res (dec_str (map_of kvs ''creator'')) (\<lambda>v6.
        bind_res (dec_bool (map_of kvs ''active'')) (\<lambda>v7.
        Inr \<lparr>tk_id = v0, tk_name = v1, tk_hash = v2, tk_created_at = v3, tk_last_used_at = v4, tk_expires_at = v5, tk_creator = v6, tk_active = v7\<rparr>))))))))"
| "dec_token _ = bad_json ''state.ServiceAccountToken''"

definition enc_launch :: "launch \<Rightarrow> json" where
  "enc_launch x = JObj (
     field ''Cloud'' (JStr (l_cloud x)) @
     field ''Region'' (JStr (l_region x)) @
     field ''Zone'' (JStr (l_zone x)) @
     field ''InstanceType'' (JStr (l_instance_type x)) @
     field ''NumNodes'' (jint (l_num_nodes x)) @
     field ''Accelerators'' (enc_map jint (l_accel x)) @
     field ''VCPUs'' (jint (l_vcpus x)) @
     field ''MemoryGiB'' (jf64 (l_memory x)) @
     field ''OnDemandCost'' (jf64 (l_on_demand x)) @
     field ''SpotCost'' (jf64 (l_spot x)) @
     field ''UseSpot'' (JBool (l_use_spot x)) @
     field ''EstimatedTime'' (jf64 (l_time x)) @
     field ''Order'' (jint (l_order x)))"

fun dec_launch :: "json \<Rightarrow> launch res" where
  "dec_launch (JObj kvs) =
        bind_res (dec_str (map_of kvs ''Cloud'')) (\<lambda>v0.
        bind_res (dec_str (map_of kvs ''Region'')) (\<lambda>v1.
        bind_res (dec_str (map_of kvs ''Zone'')) (\<lambda>v2.
        bind_res (dec_str (map_of kvs ''InstanceType'')) (\<lambda>v3.
        bind_res (dec_int (map_of kvs ''NumNodes'')) (\<lambda>v4.
        bind_res (dec_map (\<lambda>j. dec_int (Some j)) (map_of kvs ''Accelerators'')) (\<lambda>v5.
        bind_res (dec_int (map_of kvs ''VCPUs'')) (\<lambda>v6.
        bind_res (dec_f64 (map_of kvs ''MemoryGiB'')) (\<lambda>v7.
        bind_res (dec_f64 (map_of kvs ''OnDemandCost'')) (\<lambda>v8.
        bind_res (dec_f64 (map_of kvs ''SpotCost'')) (\<lambda>v9.
        bind_res (dec_bool (map_of kvs ''UseSpot'')) (\<lambda>v10.
        bind_res (dec_f64 (map_of kvs ''EstimatedTime'')) (\<lambda>v11.
        bind_res (dec_int (map_of kvs ''Order'')) (\<lambda>v12.
        Inr \<lparr>l_cloud = v0, l_region = v1, l_zone = v2, l_instance_type = v3, l_num_nodes = v4, l_accel = v5, l_vcpus = v6, l_memory = v7, l_on_demand = v8, l_spot = v9, l_use_spot = v10, l_time = v11, l_order = v12\<rparr>)))))))))))))"
| "dec_launch _ = bad_json ''state.optimizer.Launch''"

definition enc_cluster :: "cluster \<Rightarrow> json" where
  "enc_cluster x = JObj (
     field ''name'' (JStr (cl_name x)) @
     field ''status'' (JStr (cl_status x)) @
     omit (cl_backend x = []) ''backend'' (JStr (cl_backend x)) @
     field ''cloud'' (JStr (cl_cloud x)) @
     field ''region'' (JStr (cl_region x)) @
     field ''num_nodes'' (jint (cl_num_nodes x)) @
     field ''instances'' (JArr (map enc_node (cl_instances x))) @
     omit (cl_launch x = None) ''launch'' (enc_ptr enc_launch (cl_launch x)) @
     omit (cl_task_yaml x = []) ''task_yaml'' (JStr (cl_task_yaml x)) @
     omit (cl_tags x = []) ''tags'' (enc_map JStr (cl_tags x)) @
     omit (cl_labels x = []) ''labels'' (enc_map JStr (cl_labels x)) @
     omit (cl_creds x = None) ''cloud_creds'' (enc_ptr enc_creds (cl_creds x)) @
     omit (cl_ssh x = None) ''ssh_target'' (enc_ptr enc_ssh (cl_ssh x)) @
     omit (cl_key_name x = []) ''key_name'' (JStr (cl_key_name x)) @
     omit (cl_key_path x = []) ''key_path'' (JStr (cl_key_path x)) @
     omit (cl_security_group x = []) ''security_group_id'' (JStr (cl_security_group x)) @
     omit (cl_vpc x = []) ''vpc_id'' (JStr (cl_vpc x)) @
     omit (cl_vswitch x = []) ''vswitch_id'' (JStr (cl_vswitch x)) @
     omit (cl_last_error x = []) ''last_error'' (JStr (cl_last_error x)) @
     field ''created_at'' (jint (cl_created_at x)) @
     field ''updated_at'' (jint (cl_updated_at x)))"

fun dec_cluster :: "json \<Rightarrow> cluster res" where
  "dec_cluster (JObj kvs) =
        bind_res (dec_str (map_of kvs ''name'')) (\<lambda>v0.
        bind_res (dec_str (map_of kvs ''status'')) (\<lambda>v1.
        bind_res (dec_str (map_of kvs ''backend'')) (\<lambda>v2.
        bind_res (dec_str (map_of kvs ''cloud'')) (\<lambda>v3.
        bind_res (dec_str (map_of kvs ''region'')) (\<lambda>v4.
        bind_res (dec_int (map_of kvs ''num_nodes'')) (\<lambda>v5.
        bind_res (dec_list dec_node (map_of kvs ''instances'')) (\<lambda>v6.
        bind_res (dec_ptr dec_launch (map_of kvs ''launch'')) (\<lambda>v7.
        bind_res (dec_str (map_of kvs ''task_yaml'')) (\<lambda>v8.
        bind_res (dec_map dec_string (map_of kvs ''tags'')) (\<lambda>v9.
        bind_res (dec_map dec_string (map_of kvs ''labels'')) (\<lambda>v10.
        bind_res (dec_ptr dec_creds (map_of kvs ''cloud_creds'')) (\<lambda>v11.
        bind_res (dec_ptr dec_ssh (map_of kvs ''ssh_target'')) (\<lambda>v12.
        bind_res (dec_str (map_of kvs ''key_name'')) (\<lambda>v13.
        bind_res (dec_str (map_of kvs ''key_path'')) (\<lambda>v14.
        bind_res (dec_str (map_of kvs ''security_group_id'')) (\<lambda>v15.
        bind_res (dec_str (map_of kvs ''vpc_id'')) (\<lambda>v16.
        bind_res (dec_str (map_of kvs ''vswitch_id'')) (\<lambda>v17.
        bind_res (dec_str (map_of kvs ''last_error'')) (\<lambda>v18.
        bind_res (dec_int (map_of kvs ''created_at'')) (\<lambda>v19.
        bind_res (dec_int (map_of kvs ''updated_at'')) (\<lambda>v20.
        Inr \<lparr>cl_name = v0, cl_status = v1, cl_backend = v2, cl_cloud = v3, cl_region = v4, cl_num_nodes = v5, cl_instances = v6, cl_launch = v7, cl_task_yaml = v8, cl_tags = v9, cl_labels = v10, cl_creds = v11, cl_ssh = v12, cl_key_name = v13, cl_key_path = v14, cl_security_group = v15, cl_vpc = v16, cl_vswitch = v17, cl_last_error = v18, cl_created_at = v19, cl_updated_at = v20\<rparr>)))))))))))))))))))))"
| "dec_cluster _ = bad_json ''state.Cluster''"

text \<open>\<open>json.Marshal\<close> on a cluster: an error when the prices or times of its launch are not finite.\<close>

definition is_fin :: "f64 \<Rightarrow> bool" where
  "is_fin f = (case f of Fin _ \<Rightarrow> True | _ \<Rightarrow> False)"

definition launch_finite :: "launch \<Rightarrow> bool" where
  "launch_finite l \<longleftrightarrow> is_fin (l_memory l) \<and> is_fin (l_on_demand l) \<and> is_fin (l_spot l) \<and> is_fin (l_time l)"

definition marshal_cluster :: "cluster \<Rightarrow> json res" where
  "marshal_cluster c =
     (case cl_launch c of
        None \<Rightarrow> Inr (enc_cluster c)
      | Some l \<Rightarrow> if launch_finite l then Inr (enc_cluster c) else Inl (Err ''json: unsupported value''))"

section \<open>Round trips\<close>

lemma dec_omitted [simp]:
  "dec_str (if s = [] then None else Some (JStr s)) = Inr s"
  "dec_int (if i = 0 then None else Some (jint i)) = Inr i"
  "dec_bool (if b then Some (JBool b) else None) = Inr b"
  by (simp_all del: dec_int.simps(3))

lemma dec_jf64 [simp]: "is_fin f \<Longrightarrow> dec_f64 (Some (jf64 f)) = Inr f"
  by (cases f) (simp_all add: is_fin_def)

lemma dec_node_enc [simp]: "dec_node (enc_node x) = Inr x"
  by (cases x) (simp add: enc_node_def)

lemma dec_creds_enc [simp]: "dec_creds (enc_creds x) = Inr x"
  by (cases x) (simp add: enc_creds_def)

lemma dec_ssh_enc [simp]: "dec_ssh (enc_ssh x) = Inr x"
  by (cases x) (simp add: enc_ssh_def)

lemma dec_service_enc [simp]: "dec_service (enc_service x) = Inr x"
  by (cases x) (simp add: enc_service_def dec_enc_strs)

lemma dec_job_enc [simp]: "dec_job (enc_job x) = Inr x"
  by (cases x) (simp add: enc_job_def)

lemma dec_yaml_enc [simp]: "dec_yaml (enc_yaml x) = Inr x"
  by (cases x) (simp add: enc_yaml_def)

lemma dec_history_enc [simp]: "dec_history (enc_history x) = Inr x"
  by (cases x) (simp add: enc_history_def)

lemma dec_event_enc [simp]: "dec_event (enc_event x) = Inr x"
  by (cases x) (simp add: enc_event_def)

lemma dec_entry_enc [simp]: "dec_entry (enc_entry x) = Inr x"
  by (cases x) (simp add: enc_entry_def)

lemma dec_token_enc [simp]: "dec_token (enc_token x) = Inr x"
  by (cases x) (simp add: enc_token_def)

text \<open>A launch and a cluster come back with the keys of their maps in order.\<close>

definition norm_launch :: "launch \<Rightarrow> launch" where
  "norm_launch l = l\<lparr>l_accel := key_sorted (l_accel l)\<rparr>"

definition norm_cluster :: "cluster \<Rightarrow> cluster" where
  "norm_cluster c = c\<lparr>cl_launch := map_option norm_launch (cl_launch c),
     cl_tags := key_sorted (cl_tags c), cl_labels := key_sorted (cl_labels c)\<rparr>"

definition cluster_storable :: "cluster \<Rightarrow> bool" where
  "cluster_storable c \<longleftrightarrow> wf_map (cl_tags c) \<and> wf_map (cl_labels c) \<and>
     (\<forall>l. cl_launch c = Some l \<longrightarrow> launch_finite l \<and> wf_map (l_accel l))"

lemma key_sorted_Nil [simp]: "key_sorted [] = []"
  by (simp add: key_sorted_def sorted_keys_def)

lemma dec_strs_map: "wf_map m \<Longrightarrow> dec_map dec_string (Some (enc_map JStr m)) = Inr (key_sorted m)"
  by (rule dec_enc_map) (simp_all add: dec_string_def)

lemma dec_ints_map: "wf_map m \<Longrightarrow> dec_map (\<lambda>j. dec_int (Some j)) (Some (enc_map jint m)) = Inr (key_sorted m)"
  by (rule dec_enc_map) simp_all

lemma dec_launch_enc: "launch_finite l \<Longrightarrow> wf_map (l_accel l) \<Longrightarrow> dec_launch (enc_launch l) = Inr (norm_launch l)"
  by (cases l) (simp add: enc_launch_def launch_finite_def norm_launch_def dec_ints_map)

lemma dec_omitted_map:
  "wf_map m \<Longrightarrow> dec_map dec_string (if m = [] then None else Some (enc_map JStr m)) = Inr (key_sorted m)"
  by (simp add: dec_strs_map)

lemma dec_ptr_enc:
  assumes "\<And>v. x = Some v \<Longrightarrow> d (e v) = Inr (f v)" and "\<And>v. e v \<noteq> JNull"
  shows "dec_ptr d (if x = None then None else Some (enc_ptr e x)) = Inr (map_option f x)"
proof (cases x)
  case (Some v)
  have "dec_ptr d (Some (e v)) = map_sum id Some (d (e v))"
    using assms(2) [of v] by (cases "e v") simp_all
  with Some assms(1) show ?thesis by (simp add: enc_ptr_def)
qed simp

lemma enc_not_JNull: "enc_launch l \<noteq> JNull" "enc_creds k \<noteq> JNull" "enc_ssh t \<noteq> JNull"
  by (simp_all add: enc_launch_def enc_creds_def enc_ssh_def)

lemma dec_nodes: "dec_list dec_node (Some (JArr (map enc_node ns))) = Inr ns"
  using map_res_Inr [of ns "\<lambda>x. dec_node (enc_node x)" id] by (simp add: map_res_map)

lemma enc_cluster_fields:
  "\<exists>kvs. enc_cluster x = JObj kvs \<and>
     map_of kvs ''name'' = Some (JStr (cl_name x)) \<and>
     map_of kvs ''status'' = Some (JStr (cl_status x)) \<and>
     map_of kvs ''backend'' = (if cl_backend x = [] then None else Some (JStr (cl_backend x))) \<and>
     map_of kvs ''cloud'' = Some (JStr (cl_cloud x)) \<and>
     map_of kvs ''region'' = Some (JStr (cl_region x)) \<and>
     map_of kvs ''num_nodes'' = Some (jint (cl_num_nodes x)) \<and>
     map_of kvs ''instances'' = Some (JArr (map enc_node (cl_instances x))) \<and>
     map_of kvs ''launch'' = (if cl_launch x = None then None else Some (enc_ptr enc_launch (cl_launch x))) \<and>
     map_of kvs ''task_yaml'' = (if cl_task_yaml x = [] then None else Some (JStr (cl_task_yaml x))) \<and>
     map_of kvs ''tags'' = (if cl_tags x = [] then None else Some (enc_map JStr (cl_tags x))) \<and>
     map_of kvs ''labels'' = (if cl_labels x = [] then None else Some (enc_map JStr (cl_labels x))) \<and>
     map_of kvs ''cloud_creds'' = (if cl_creds x = None then None else Some (enc_ptr enc_creds (cl_creds x))) \<and>
     map_of kvs ''ssh_target'' = (if cl_ssh x = None then None else Some (enc_ptr enc_ssh (cl_ssh x))) \<and>
     map_of kvs ''key_name'' = (if cl_key_name x = [] then None else Some (JStr (cl_key_name x))) \<and>
     map_of kvs ''key_path'' = (if cl_key_path x = [] then None else Some (JStr (cl_key_path x))) \<and>
     map_of kvs ''security_group_id'' = (if cl_security_group x = [] then None else Some (JStr (cl_security_group x))) \<and>
     map_of kvs ''vpc_id'' = (if cl_vpc x = [] then None else Some (JStr (cl_vpc x))) \<and>
     map_of kvs ''vswitch_id'' = (if cl_vswitch x = [] then None else Some (JStr (cl_vswitch x))) \<and>
     map_of kvs ''last_error'' = (if cl_last_error x = [] then None else Some (JStr (cl_last_error x))) \<and>
     map_of kvs ''created_at'' = Some (jint (cl_created_at x)) \<and>
     map_of kvs ''updated_at'' = Some (jint (cl_updated_at x))"
  unfolding enc_cluster_def by (rule exI, rule conjI, rule refl) simp

lemma dec_cluster_enc:
  assumes "cluster_storable c"
  shows "dec_cluster (enc_cluster c) = Inr (norm_cluster c)"
proof -
  have l: "dec_ptr dec_launch (if cl_launch c = None then None else Some (enc_ptr enc_launch (cl_launch c))) =
      Inr (map_option norm_launch (cl_launch c))"
    using assms by (intro dec_ptr_enc dec_launch_enc enc_not_JNull) (simp_all add: cluster_storable_def)
  have k: "dec_ptr dec_creds (if cl_creds c = None then None else Some (enc_ptr enc_creds (cl_creds c))) =
      Inr (map_option id (cl_creds c))"
    by (intro dec_ptr_enc enc_not_JNull) simp
  have t: "dec_ptr dec_ssh (if cl_ssh c = None then None else Some (enc_ptr enc_ssh (cl_ssh c))) =
      Inr (map_option id (cl_ssh c))"
    by (intro dec_ptr_enc enc_not_JNull) simp
  have wf: "wf_map (cl_tags c)" "wf_map (cl_labels c)"
    using assms by (simp_all add: cluster_storable_def)
  note fields = l k [simplified option.map_id id_apply] t [simplified option.map_id id_apply]
    dec_omitted_map [OF wf(1)] dec_omitted_map [OF wf(2)] dec_nodes
  have "dec_cluster (enc_cluster c) = Inr
    \<lparr>cl_name = cl_name c, cl_status = cl_status c, cl_backend = cl_backend c, cl_cloud = cl_cloud c, cl_region = cl_region c, cl_num_nodes = cl_num_nodes c, cl_instances = cl_instances c, cl_launch = map_option norm_launch (cl_launch c), cl_task_yaml = cl_task_yaml c, cl_tags = key_sorted (cl_tags c), cl_labels = key_sorted (cl_labels c), cl_creds = cl_creds c, cl_ssh = cl_ssh c, cl_key_name = cl_key_name c, cl_key_path = cl_key_path c, cl_security_group = cl_security_group c, cl_vpc = cl_vpc c, cl_vswitch = cl_vswitch c, cl_last_error = cl_last_error c, cl_created_at = cl_created_at c, cl_updated_at = cl_updated_at c\<rparr>"
    using enc_cluster_fields [of c]
    by (elim exE conjE) (simp only: fields dec_cluster.simps bind_res_simps dec_omitted dec_str.simps dec_int_jint)
  also have "\<dots> = Inr (norm_cluster c)"
    by (cases c) (simp add: norm_cluster_def)
  finally show ?thesis .
qed

lemma marshal_cluster_Inr: "cluster_storable c \<Longrightarrow> marshal_cluster c = Inr (enc_cluster c)"
  by (auto simp: marshal_cluster_def cluster_storable_def split: option.splits)

end
