(* ===== verification/State_Store.thy ===== *)
theory State_Store
  imports State_Json
begin

text \<open>
  The store, \<open>internal/state\<close>: the collections in memory, the operations on them (\<open>state.go\<close>, \<open>services.go\<close>,
  \<open>jobs.go\<close>, \<open>cluster_store.go\<close>, \<open>config_store.go\<close>, \<open>token_store.go\<close>), and how they are saved and loaded
  through a backend (\<open>backend.go\<close>). Every mutation saves all the collections; when saving fails, the
  mutation stays in memory. The store's lock makes each operation atomic. Entities are values here:
  that a caller may later change an entity it has passed to or got from the store is not modelled.
\<close>

section \<open>The backend interface\<close>

record 'w backend_ops =
  b_load_clusters :: "'w \<Rightarrow> cluster smap res \<times> 'w"
  b_load_services :: "'w \<Rightarrow> service smap res \<times> 'w"
  b_load_jobs :: "'w \<Rightarrow> job smap res \<times> 'w"
  b_load_yamls :: "'w \<Rightarrow> cluster_yaml smap res \<times> 'w"
  b_load_history :: "'w \<Rightarrow> cluster_history smap res \<times> 'w"
  b_load_events :: "'w \<Rightarrow> cluster_event list res \<times> 'w"
  b_load_config :: "'w \<Rightarrow> config_entry smap res \<times> 'w"
  b_load_tokens :: "'w \<Rightarrow> token list res \<times> 'w"
  b_save_clusters :: "cluster smap \<Rightarrow> 'w \<Rightarrow> error option \<times> 'w"
  b_save_services :: "service smap \<Rightarrow> 'w \<Rightarrow> error option \<times> 'w"
  b_save_jobs :: "job smap \<Rightarrow> 'w \<Rightarrow> error option \<times> 'w"
  b_save_yamls :: "cluster_yaml smap \<Rightarrow> 'w \<Rightarrow> error option \<times> 'w"
  b_save_history :: "cluster_history smap \<Rightarrow> 'w \<Rightarrow> error option \<times> 'w"
  b_save_events :: "cluster_event list \<Rightarrow> 'w \<Rightarrow> error option \<times> 'w"
  b_save_config :: "config_entry smap \<Rightarrow> 'w \<Rightarrow> error option \<times> 'w"
  b_save_tokens :: "token list \<Rightarrow> 'w \<Rightarrow> error option \<times> 'w"
  b_close :: "'w \<Rightarrow> error option \<times> 'w"

section \<open>The store\<close>

record store =
  st_clusters :: "cluster smap"
  st_services :: "service smap"
  st_jobs :: "job smap"
  st_yamls :: "cluster_yaml smap"
  st_history :: "cluster_history smap"
  st_events :: "cluster_event list"
  st_config :: "config_entry smap"
  st_tokens :: "token list"

definition save_steps :: "'w backend_ops \<Rightarrow> store \<Rightarrow> ('w \<Rightarrow> error option \<times> 'w) list" where
  "save_steps B s =
     [b_save_clusters B (st_clusters s), b_save_services B (st_services s), b_save_jobs B (st_jobs s),
      b_save_yamls B (st_yamls s), b_save_history B (st_history s), b_save_events B (st_events s),
      b_save_config B (st_config s), b_save_tokens B (st_tokens s)]"

definition save_store :: "'w backend_ops \<Rightarrow> store \<Rightarrow> 'w \<Rightarrow> error option \<times> 'w" where
  "save_store B s w = each_w (\<lambda>step. step) (save_steps B s) w"

definition close_store :: "'w backend_ops \<Rightarrow> 'w \<Rightarrow> error option \<times> 'w" where
  "close_store B w = b_close B w"

text \<open>A load that fails closes the backend; the error of closing is dropped.\<close>

definition or_close :: "'w backend_ops \<Rightarrow> 'a res \<times> 'w \<Rightarrow> ('a \<Rightarrow> 'w \<Rightarrow> 'b res \<times> 'w) \<Rightarrow> 'b res \<times> 'w" where
  "or_close B r k = (case r of (Inl e, w) \<Rightarrow> (Inl e, snd (b_close B w)) | (Inr x, w) \<Rightarrow> k x w)"

definition open_store :: "'w backend_ops \<Rightarrow> 'w \<Rightarrow> store res \<times> 'w" where
  "open_store B w0 =
     or_close B (b_load_clusters B w0) (\<lambda>clusters w1.
     or_close B (b_load_services B w1) (\<lambda>services w2.
     or_close B (b_load_jobs B w2) (\<lambda>jobs w3.
     or_close B (b_load_yamls B w3) (\<lambda>yamls w4.
     or_close B (b_load_history B w4) (\<lambda>history w5.
     or_close B (b_load_events B w5) (\<lambda>events w6.
     or_close B (b_load_config B w6) (\<lambda>config w7.
     or_close B (b_load_tokens B w7) (\<lambda>tokens w8.
       (Inr \<lparr>st_clusters = clusters, st_services = services, st_jobs = jobs, st_yamls = yamls,
             st_history = history, st_events = events, st_config = config, st_tokens = tokens\<rparr>, w8)))))))))"

text \<open>The end of a mutation: the new collections are saved, whatever comes of it.\<close>

definition persist :: "'w backend_ops \<Rightarrow> store \<Rightarrow> 'w \<Rightarrow> error option \<times> store \<times> 'w" where
  "persist B s w = (case save_store B s w of (e, w') \<Rightarrow> (e, s, w'))"

section \<open>Clusters\<close>

definition add_cluster :: "'w backend_ops \<Rightarrow> int \<Rightarrow> cluster \<Rightarrow> store \<Rightarrow> 'w \<Rightarrow> error option \<times> store \<times> 'w" where
  "add_cluster B now c s w =
     (if mget (st_clusters s) (cl_name c) \<noteq> None
      then (Some (Err (''cluster '' @ cl_name c @ '' already exists'')), s, w)
      else (let c' = c\<lparr>cl_created_at := now, cl_updated_at := now,
                       cl_status := (if cl_status c = [] then cluster_provisioning else cl_status c)\<rparr>
            in persist B (s\<lparr>st_clusters := mput (cl_name c) c' (st_clusters s)\<rparr>) w))"

definition get_cluster :: "store \<Rightarrow> string \<Rightarrow> cluster res" where
  "get_cluster s name =
     (case mget (st_clusters s) name of None \<Rightarrow> Inl (Err ''cluster not found'') | Some c \<Rightarrow> Inr c)"

definition list_clusters :: "store \<Rightarrow> cluster list" where
  "list_clusters s = map (\<lambda>name. the (mget (st_clusters s) name)) (sorted_keys (st_clusters s))"

text \<open>The function passed may fail after it has changed the entity; the change stays, unsaved.\<close>

definition update_cluster ::
  "'w backend_ops \<Rightarrow> int \<Rightarrow> string \<Rightarrow> (cluster \<Rightarrow> error option \<times> cluster) \<Rightarrow> store \<Rightarrow> 'w \<Rightarrow> error option \<times> store \<times> 'w" where
  "update_cluster B now name fn s w =
     (case mget (st_clusters s) name of
        None \<Rightarrow> (Some (Err ''cluster not found''), s, w)
      | Some c \<Rightarrow>
          (case fn c of
             (Some e, c') \<Rightarrow> (Some e, s\<lparr>st_clusters := mput name c' (st_clusters s)\<rparr>, w)
           | (None, c') \<Rightarrow>
               persist B (s\<lparr>st_clusters := mput name (c'\<lparr>cl_updated_at := now\<rparr>) (st_clusters s)\<rparr>) w))"

definition delete_cluster :: "'w backend_ops \<Rightarrow> string \<Rightarrow> store \<Rightarrow> 'w \<Rightarrow> error option \<times> store \<times> 'w" where
  "delete_cluster B name s w =
     (if mget (st_clusters s) name = None then (Some (Err ''cluster not found''), s, w)
      else persist B (s\<lparr>st_clusters := mdel name (st_clusters s)\<rparr>) w)"

section \<open>Services and jobs\<close>

definition add_service :: "'w backend_ops \<Rightarrow> int \<Rightarrow> service \<Rightarrow> store \<Rightarrow> 'w \<Rightarrow> error option \<times> store \<times> 'w" where
  "add_service B now v s w =
     (if mget (st_services s) (sc_name v) \<noteq> None then (Some (Err ''service already exists''), s, w)
      else persist B (s\<lparr>st_services :=
             mput (sc_name v) (v\<lparr>sc_created_at := now, sc_updated_at := now\<rparr>) (st_services s)\<rparr>) w)"

definition get_service :: "store \<Rightarrow> string \<Rightarrow> service res" where
  "get_service s name =
     (case mget (st_services s) name of None \<Rightarrow> Inl (Err ''service not found'') | Some v \<Rightarrow> Inr v)"

definition list_services :: "store \<Rightarrow> service list" where
  "list_services s = map snd (st_services s)"

definition update_service ::
  "'w backend_ops \<Rightarrow> int \<Rightarrow> string \<Rightarrow> (service \<Rightarrow> error option \<times> service) \<Rightarrow> store \<Rightarrow> 'w \<Rightarrow> error option \<times> store \<times> 'w" where
  "update_service B now name fn s w =
     (case mget (st_services s) name of
        None \<Rightarrow> (Some (Err ''service not found''), s, w)
      | Some v \<Rightarrow>
          (case fn v of
             (Some e, v') \<Rightarrow> (Some e, s\<lparr>st_services := mput name v' (st_services s)\<rparr>, w)
           | (None, v') \<Rightarrow>
               persist B (s\<lparr>st_services := mput name (v'\<lparr>sc_updated_at := now\<rparr>) (st_services s)\<rparr>) w))"

definition delete_service :: "'w backend_ops \<Rightarrow> string \<Rightarrow> store \<Rightarrow> 'w \<Rightarrow> error option \<times> store \<times> 'w" where
  "delete_service B name s w =
     (if mget (st_services s) name = None then (Some (Err ''service not found''), s, w)
      else persist B (s\<lparr>st_services := mdel name (st_services s)\<rparr>) w)"

definition add_job :: "'w backend_ops \<Rightarrow> int \<Rightarrow> job \<Rightarrow> store \<Rightarrow> 'w \<Rightarrow> error option \<times> store \<times> 'w" where
  "add_job B now j s w =
     (if mget (st_jobs s) (j_name j) \<noteq> None then (Some (Err ''job already exists''), s, w)
      else persist B (s\<lparr>st_jobs :=
             mput (j_name j) (j\<lparr>j_created_at := now, j_updated_at := now\<rparr>) (st_jobs s)\<rparr>) w)"

definition get_job :: "store \<Rightarrow> string \<Rightarrow> job res" where
  "get_job s name =
     (case mget (st_jobs s) name of None \<Rightarrow> Inl (Err ''job not found'') | Some j \<Rightarrow> Inr j)"

definition list_jobs :: "store \<Rightarrow> job list" where
  "list_jobs s = map snd (st_jobs s)"

definition update_job ::
  "'w backend_ops \<Rightarrow> int \<Rightarrow> string \<Rightarrow> (job \<Rightarrow> error option \<times> job) \<Rightarrow> store \<Rightarrow> 'w \<Rightarrow> error option \<times> store \<times> 'w" where
  "update_job B now name fn s w =
     (case mget (st_jobs s) name of
        None \<Rightarrow> (Some (Err ''job not found''), s, w)
      | Some j \<Rightarrow>
          (case fn j of
             (Some e, j') \<Rightarrow> (Some e, s\<lparr>st_jobs := mput name j' (st_jobs s)\<rparr>, w)
           | (None, j') \<Rightarrow>
               persist B (s\<lparr>st_jobs := mput name (j'\<lparr>j_updated_at := now\<rparr>) (st_jobs s)\<rparr>) w))"

section \<open>Snapshots, history, events, configuration\<close>

definition record_cluster_yaml ::
  "'w backend_ops \<Rightarrow> int \<Rightarrow> string \<Rightarrow> string \<Rightarrow> store \<Rightarrow> 'w \<Rightarrow> error option \<times> store \<times> 'w" where
  "record_cluster_yaml B now name text s w =
     (let y = (case mget (st_yamls s) name of
                 Some y \<Rightarrow> y\<lparr>y_yaml := text, y_updated_at := now\<rparr>
               | None \<Rightarrow> \<lparr>y_cluster_name = name, y_yaml = text, y_created_at = now, y_updated_at = now\<rparr>)
      in persist B (s\<lparr>st_yamls := mput name y (st_yamls s)\<rparr>) w)"

definition get_cluster_yaml :: "store \<Rightarrow> string \<Rightarrow> cluster_yaml res" where
  "get_cluster_yaml s name =
     (case mget (st_yamls s) name of None \<Rightarrow> Inl (Err ''cluster yaml not found'') | Some y \<Rightarrow> Inr y)"

definition list_cluster_yamls :: "store \<Rightarrow> cluster_yaml list" where
  "list_cluster_yamls s = map snd (st_yamls s)"

definition record_cluster_history ::
  "'w backend_ops \<Rightarrow> int \<Rightarrow> cluster_history \<Rightarrow> store \<Rightarrow> 'w \<Rightarrow> error option \<times> store \<times> 'w" where
  "record_cluster_history B now h s w =
     (let h' = (case mget (st_history s) (h_cluster_name h) of
                  Some old \<Rightarrow>
                    old\<lparr>h_num_nodes := h_num_nodes h, h_cloud := h_cloud h, h_region := h_region h,
                        h_zone := h_zone h, h_instance_type := h_instance_type h, h_backend := h_backend h,
                        h_task_yaml := h_task_yaml h, h_launched_at := h_launched_at h, h_updated_at := now\<rparr>
                | None \<Rightarrow>
                    h\<lparr>h_created_at := (if h_created_at h = 0 then now else h_created_at h),
                      h_launched_at := (if h_launched_at h = 0 then now else h_launched_at h),
                      h_updated_at := now\<rparr>)
      in persist B (s\<lparr>st_history := mput (h_cluster_name h) h' (st_history s)\<rparr>) w)"

definition list_cluster_history :: "store \<Rightarrow> cluster_history list" where
  "list_cluster_history s = map snd (st_history s)"

definition add_cluster_event ::
  "'w backend_ops \<Rightarrow> int \<Rightarrow> cluster_event \<Rightarrow> store \<Rightarrow> 'w \<Rightarrow> error option \<times> store \<times> 'w" where
  "add_cluster_event B now e s w =
     (let e' = (if e_transitioned_at e = 0 then e\<lparr>e_transitioned_at := now\<rparr> else e)
      in persist B (s\<lparr>st_events := st_events s @ [e']\<rparr>) w)"

definition list_cluster_events :: "store \<Rightarrow> cluster_event list" where
  "list_cluster_events s = st_events s"

definition list_cluster_events_for :: "store \<Rightarrow> string \<Rightarrow> cluster_event list" where
  "list_cluster_events_for s name = filter (\<lambda>e. e_cluster_name e = name) (st_events s)"

definition get_config :: "store \<Rightarrow> string \<Rightarrow> string" where
  "get_config s key = (case mget (st_config s) key of Some e \<Rightarrow> ce_value e | None \<Rightarrow> [])"

definition set_config ::
  "'w backend_ops \<Rightarrow> int \<Rightarrow> string \<Rightarrow> string \<Rightarrow> store \<Rightarrow> 'w \<Rightarrow> error option \<times> store \<times> 'w" where
  "set_config B now key value s w =
     (let e = (case mget (st_config s) key of
                 Some e \<Rightarrow> e\<lparr>ce_value := value, ce_updated_at := now\<rparr>
               | None \<Rightarrow> \<lparr>ce_key = key, ce_value = value, ce_created_at = now, ce_updated_at = now\<rparr>)
      in persist B (s\<lparr>st_config := mput key e (st_config s)\<rparr>) w)"

definition list_config :: "store \<Rightarrow> config_entry list" where
  "list_config s = map snd (st_config s)"

section \<open>Tokens\<close>

text \<open>
  \<open>TokenHash\<close> is the hexadecimal SHA-256 of the secret: a parameter \<open>hash\<close>. The random bytes of
  \<open>crypto/rand\<close> are inputs: \<open>secret\<close> and \<open>ident\<close> are the texts \<open>GenerateTokenSecret\<close> and
  \<open>GenerateTokenID\<close> return.
\<close>

definition create_token ::
  "'w backend_ops \<Rightarrow> (string \<Rightarrow> string) \<Rightarrow> int \<Rightarrow> string \<Rightarrow> string \<Rightarrow> string \<Rightarrow> string \<Rightarrow> int \<Rightarrow> store \<Rightarrow> 'w
   \<Rightarrow> (token \<times> string) res \<times> store \<times> 'w" where
  "create_token B hash now secret ident name creator expires s w =
     (let t = \<lparr>tk_id = ident, tk_name = name, tk_hash = hash secret, tk_created_at = now, tk_last_used_at = 0,
               tk_expires_at = expires, tk_creator = creator, tk_active = True\<rparr>
      in case persist B (s\<lparr>st_tokens := st_tokens s @ [t]\<rparr>) w of
           (Some e, s', w') \<Rightarrow> (Inl e, s', w')
         | (None, s', w') \<Rightarrow> (Inr (t, secret), s', w'))"

fun find_token :: "token list \<Rightarrow> string \<Rightarrow> int \<Rightarrow> token res" where
  "find_token [] h now = Inl (Err ''token not found'')"
| "find_token (t # ts) h now =
     (if tk_hash t = h then (if token_expired t now then Inl (Err ''token expired'') else Inr t)
      else find_token ts h now)"

definition get_token_by_hash :: "store \<Rightarrow> string \<Rightarrow> int \<Rightarrow> token res" where
  "get_token_by_hash s h now = find_token (st_tokens s) h now"

definition list_tokens :: "store \<Rightarrow> token list" where
  "list_tokens s = st_tokens s"

text \<open>The two loops that stop at the first token with an identifier.\<close>

fun remove_token :: "string \<Rightarrow> token list \<Rightarrow> token list option" where
  "remove_token ident [] = None"
| "remove_token ident (t # ts) = (if tk_id t = ident then Some ts else map_option (Cons t) (remove_token ident ts))"

fun change_token :: "string \<Rightarrow> (token \<Rightarrow> token) \<Rightarrow> token list \<Rightarrow> (token \<times> token list) option" where
  "change_token ident f [] = None"
| "change_token ident f (t # ts) =
     (if tk_id t = ident then Some (f t, f t # ts)
      else map_option (\<lambda>(x, xs). (x, t # xs)) (change_token ident f ts))"

definition delete_token ::
  "'w backend_ops \<Rightarrow> string \<Rightarrow> store \<Rightarrow> 'w \<Rightarrow> (bool \<times> error option) \<times> store \<times> 'w" where
  "delete_token B ident s w =
     (case remove_token ident (st_tokens s) of
        None \<Rightarrow> ((False, None), s, w)
      | Some ts \<Rightarrow> (case persist B (s\<lparr>st_tokens := ts\<rparr>) w of (e, s', w') \<Rightarrow> ((True, e), s', w')))"

definition rotate_token ::
  "'w backend_ops \<Rightarrow> (string \<Rightarrow> string) \<Rightarrow> int \<Rightarrow> string \<Rightarrow> string \<Rightarrow> int \<Rightarrow> store \<Rightarrow> 'w
   \<Rightarrow> (token \<times> string) res \<times> store \<times> 'w" where
  "rotate_token B hash now secret ident expires s w =
     (case change_token ident
             (\<lambda>t. t\<lparr>tk_hash := hash secret, tk_expires_at := expires, tk_created_at := now, tk_last_used_at := 0\<rparr>)
             (st_tokens s) of
        None \<Rightarrow> (Inl (Err ''token not found''), s, w)
      | Some (t, ts) \<Rightarrow>
          (case persist B (s\<lparr>st_tokens := ts\<rparr>) w of
             (Some e, s', w') \<Rightarrow> (Inl e, s', w')
           | (None, s', w') \<Rightarrow> (Inr (t, secret), s', w')))"

definition mark_token_used ::
  "'w backend_ops \<Rightarrow> int \<Rightarrow> string \<Rightarrow> store \<Rightarrow> 'w \<Rightarrow> error option \<times> store \<times> 'w" where
  "mark_token_used B now ident s w =
     (case change_token ident (\<lambda>t. t\<lparr>tk_last_used_at := now\<rparr>) (st_tokens s) of
        None \<Rightarrow> (None, s, w)
      | Some (t, ts) \<Rightarrow> persist B (s\<lparr>st_tokens := ts\<rparr>) w)"

section \<open>Choosing a backend\<close>

record redis_config =
  rd_addr :: string
  rd_password :: string
  rd_db :: int

record state_config =
  sg_backend :: string
  sg_file_path :: string
  sg_sqlite :: string
  sg_mysql_dsn :: string
  sg_redis :: redis_config

text \<open>The environment is a map of variables; \<open>join\<close> is \<open>filepath.Join\<close> on two elements.\<close>

definition getenv :: "string smap \<Rightarrow> string \<Rightarrow> string" where
  "getenv env k = (case mget env k of Some v \<Rightarrow> v | None \<Rightarrow> [])"

definition env_or :: "string smap \<Rightarrow> string \<Rightarrow> string \<Rightarrow> string" where
  "env_or env k def = (if getenv env k \<noteq> [] then getenv env k else def)"

definition default_dir :: "(string \<Rightarrow> string \<Rightarrow> string) \<Rightarrow> string res \<Rightarrow> string smap \<Rightarrow> string res" where
  "default_dir join home env =
     (if getenv env ''GPI_HOME'' \<noteq> [] then Inr (getenv env ''GPI_HOME'')
      else bind_res home (\<lambda>h. Inr (join h ''.gpi'')))"

definition default_config ::
  "(string \<Rightarrow> string \<Rightarrow> string) \<Rightarrow> string res \<Rightarrow> string smap \<Rightarrow> state_config" where
  "default_config join home env =
     (let dir = (case default_dir join home env of Inr d \<Rightarrow> d | Inl _ \<Rightarrow> []);
          wanted = getenv env ''GPI_STATE_BACKEND'';
          backend = (if wanted \<in> set [''sqlite'', ''mysql'', ''redis''] then wanted else ''file'');
          v = getenv env ''GPI_STATE_REDIS_DB'';
          db = (if v \<noteq> [] then (case atoi v of Some n \<Rightarrow> n | None \<Rightarrow> 0) else 0)
      in \<lparr>sg_backend = backend, sg_file_path = join dir ''state.json'',
          sg_sqlite = env_or env ''GPI_STATE_SQLITE'' (join dir ''gpi.db''),
          sg_mysql_dsn = getenv env ''GPI_STATE_MYSQL_DSN'',
          sg_redis = \<lparr>rd_addr = env_or env ''GPI_STATE_REDIS_ADDR'' ''localhost:6379'',
                      rd_password = getenv env ''GPI_STATE_REDIS_PASSWORD'', rd_db = db\<rparr>\<rparr>)"

text \<open>The constructors of the SQL and the redis backends connect to a server: parameters.\<close>

definition new_backend ::
  "(string \<Rightarrow> 'b) \<Rightarrow> (string \<Rightarrow> string \<Rightarrow> 'b res) \<Rightarrow> (redis_config \<Rightarrow> 'b res) \<Rightarrow> state_config \<Rightarrow> 'b res" where
  "new_backend file sql redis cfg =
     (let b = sg_backend cfg
      in if b = [] \<or> b = ''file'' then Inr (file (sg_file_path cfg))
         else if b = ''sqlite'' then sql ''sqlite'' (sg_sqlite cfg)
         else if b = ''mysql'' then
           (if sg_mysql_dsn cfg = [] then Inl (Err ''mysql backend requires GPI_STATE_MYSQL_DSN'')
            else sql ''mysql'' (sg_mysql_dsn cfg))
         else if b = ''redis'' then redis (sg_redis cfg)
         else Inl (Err (''unknown state backend '' @ quote_str b @ '' (want file|sqlite|mysql|redis)'')))"

section \<open>The invariant of the store\<close>

text \<open>Every map holds each name once and files an entity under its own name.\<close>

definition keyed :: "('a \<Rightarrow> string) \<Rightarrow> 'a smap \<Rightarrow> bool" where
  "keyed nm m \<longleftrightarrow> wf_map m \<and> (\<forall>k v. mget m k = Some v \<longrightarrow> nm v = k)"

definition store_ok :: "store \<Rightarrow> bool" where
  "store_ok s \<longleftrightarrow> keyed cl_name (st_clusters s) \<and> keyed sc_name (st_services s) \<and> keyed j_name (st_jobs s) \<and>
     keyed y_cluster_name (st_yamls s) \<and> keyed h_cluster_name (st_history s) \<and> keyed ce_key (st_config s)"

lemma keyed_mput [intro]: "keyed nm m \<Longrightarrow> nm v = k \<Longrightarrow> keyed nm (mput k v m)"
  by (simp add: keyed_def)

lemma keyed_mdel [intro]: "keyed nm m \<Longrightarrow> keyed nm (mdel k m)"
  by (simp add: keyed_def)

lemma keyed_name: "keyed nm m \<Longrightarrow> mget m k = Some v \<Longrightarrow> nm v = k"
  by (simp add: keyed_def)

lemma keyed_Nil [simp]: "keyed nm []"
  by (simp add: keyed_def)

lemma persist_store: "persist B s w = (e, s', w') \<Longrightarrow> s' = s"
  by (auto simp: persist_def split: prod.splits)

text \<open>The operations as data, and their effect.\<close>

datatype store_op =
    OAddCluster int cluster | OUpdateCluster int string "cluster \<Rightarrow> error option \<times> cluster" | ODeleteCluster string
  | OAddService int service | OUpdateService int string "service \<Rightarrow> error option \<times> service" | ODeleteService string
  | OAddJob int job | OUpdateJob int string "job \<Rightarrow> error option \<times> job"
  | OYaml int string string | OHistory int cluster_history | OEvent int cluster_event | OConfig int string string
  | OCreateToken int string string string string int | ODeleteToken string | ORotateToken int string string int
  | OMarkToken int string

fun run_op :: "'w backend_ops \<Rightarrow> (string \<Rightarrow> string) \<Rightarrow> store_op \<Rightarrow> store \<times> 'w \<Rightarrow> store \<times> 'w" where
  "run_op B hash (OAddCluster now c) (s, w) = snd (add_cluster B now c s w)"
| "run_op B hash (OUpdateCluster now n f) (s, w) = snd (update_cluster B now n f s w)"
| "run_op B hash (ODeleteCluster n) (s, w) = snd (delete_cluster B n s w)"
| "run_op B hash (OAddService now v) (s, w) = snd (add_service B now v s w)"
| "run_op B hash (OUpdateService now n f) (s, w) = snd (update_service B now n f s w)"
| "run_op B hash (ODeleteService n) (s, w) = snd (delete_service B n s w)"
| "run_op B hash (OAddJob now j) (s, w) = snd (add_job B now j s w)"
| "run_op B hash (OUpdateJob now n f) (s, w) = snd (update_job B now n f s w)"
| "run_op B hash (OYaml now n t) (s, w) = snd (record_cluster_yaml B now n t s w)"
| "run_op B hash (OHistory now h) (s, w) = snd (record_cluster_history B now h s w)"
| "run_op B hash (OEvent now e) (s, w) = snd (add_cluster_event B now e s w)"
| "run_op B hash (OConfig now k v) (s, w) = snd (set_config B now k v s w)"
| "run_op B hash (OCreateToken now secret ident n cr ex) (s, w) = snd (create_token B hash now secret ident n cr ex s w)"
| "run_op B hash (ODeleteToken ident) (s, w) = snd (delete_token B ident s w)"
| "run_op B hash (ORotateToken now secret ident ex) (s, w) = snd (rotate_token B hash now secret ident ex s w)"
| "run_op B hash (OMarkToken now ident) (s, w) = snd (mark_token_used B now ident s w)"

text \<open>The functions passed to the updates keep the name of the entity.\<close>

fun op_ok :: "store_op \<Rightarrow> bool" where
  "op_ok (OUpdateCluster now n f) = (\<forall>c. cl_name (snd (f c)) = cl_name c)"
| "op_ok (OUpdateService now n f) = (\<forall>c. sc_name (snd (f c)) = sc_name c)"
| "op_ok (OUpdateJob now n f) = (\<forall>c. j_name (snd (f c)) = j_name c)"
| "op_ok _ = True"

lemma persist_snd [simp]: "fst (snd (persist B s w)) = s"
  by (simp add: persist_def split: prod.splits)

lemma snd_mapped [simp]: "snd (case r of (a, b, c) \<Rightarrow> (f a b c, b, c)) = (fst (snd r), snd (snd r))"
  by (simp split: prod.splits)

definition reach :: "'w backend_ops \<Rightarrow> (string \<Rightarrow> string) \<Rightarrow> store_op list \<Rightarrow> store \<times> 'w \<Rightarrow> store \<times> 'w" where
  "reach B hash ops sw = foldl (\<lambda>sw x. run_op B hash x sw) sw ops"

definition empty_store :: store where
  "empty_store = \<lparr>st_clusters = [], st_services = [], st_jobs = [], st_yamls = [], st_history = [],
     st_events = [], st_config = [], st_tokens = []\<rparr>"

lemma empty_store_ok: "store_ok empty_store"
  by (simp add: store_ok_def empty_store_def)

end
