(* ===== verification/State_File.thy ===== *)
theory State_File
  imports State_Store
begin

text \<open>
  Two backends of the store: the JSON files of \<open>internal/state/file.go\<close>, over a model of the file
  system in which every call may fail, and the redis keys of \<open>internal/state/redis.go\<close>, over the client
  as a parameter. Both put one document per collection under a key of its own; what they share is
  the locale \<open>blob_store\<close>.
\<close>

section \<open>Documents under keys\<close>

text \<open>The contract: a write that succeeds is seen by every later read and touches no other key, a write
  that fails changes nothing a read can see.\<close>

locale blob_store =
  fixes put :: "'k \<Rightarrow> json \<Rightarrow> 'w \<Rightarrow> error option \<times> 'w" and get :: "'w \<Rightarrow> 'k \<Rightarrow> json option"
    and key_ok :: "'k \<Rightarrow> bool"
  assumes put_ok: "put k j w = (None, w') \<Longrightarrow> key_ok k \<Longrightarrow> key_ok k' \<Longrightarrow>
      get w' k' = (if k' = k then Some j else get w k')"
    and put_fails: "put k j w = (Some e, w') \<Longrightarrow> key_ok k \<Longrightarrow> key_ok k' \<Longrightarrow> get w' k' = get w k'"
begin

lemma put_cases:
  "put k j w = (r, w') \<Longrightarrow> key_ok k \<Longrightarrow> key_ok k' \<Longrightarrow>
   get w' k' = (if k' = k \<and> r = None then Some j else get w k')"
  using put_ok put_fails by (cases r) auto

text \<open>Writing a list of documents: all of them are there when every write succeeded.\<close>

lemma put_all_ok:
  "each_w (\<lambda>(k, j). put k j) kjs w = (None, w') \<Longrightarrow> \<forall>(k, j) \<in> set kjs. key_ok k \<Longrightarrow> key_ok k' \<Longrightarrow>
   get w' k' = (case map_of (rev kjs) k' of Some j \<Rightarrow> Some j | None \<Rightarrow> get w k')"
proof (induction kjs arbitrary: w)
  case Nil
  then show ?case by simp
next
  case (Cons kj kjs)
  obtain k j where kj: "kj = (k, j)" by force
  obtain r w1 where p: "put k j w = (r, w1)" by force
  with Cons.prems(1) kj have r: "r = None" and rest: "each_w (\<lambda>(k, j). put k j) kjs w1 = (None, w')"
    by (auto split: option.splits)
  have "get w1 k' = (if k' = k then Some j else get w k')"
    using put_ok p r kj Cons.prems by auto
  with Cons.IH [OF rest] Cons.prems kj show ?case
    by (auto simp: map_of_append map_add_def split: option.splits)
qed

lemma put_all_reads:
  assumes "each_w (\<lambda>(k, j). put k j) kjs w = (None, w')" and "\<forall>(k, j) \<in> set kjs. key_ok k"
    and "distinct (map fst kjs)" and "(k, j) \<in> set kjs"
  shows "get w' k = Some j"
proof -
  have "map_of (rev kjs) k = Some j"
    using assms(3,4) by (intro map_of_is_SomeI) (simp_all add: rev_map [symmetric])
  with put_all_ok [OF assms(1,2), of k] assms(2,4) show ?thesis by auto
qed

text \<open>When one of them fails, every key still holds its old document or the new one.\<close>

lemma put_all_atomic:
  "each_w (\<lambda>(k, j). put k j) kjs w = (r, w') \<Longrightarrow> \<forall>(k, j) \<in> set kjs. key_ok k \<Longrightarrow>
   key_ok k' \<Longrightarrow> get w' k' = get w k' \<or> (\<exists>j. (k', j) \<in> set kjs \<and> get w' k' = Some j)"
proof (induction kjs arbitrary: w)
  case Nil
  then show ?case by simp
next
  case (Cons kj kjs)
  obtain k j where kj: "kj = (k, j)" by force
  obtain r1 w1 where p: "put k j w = (r1, w1)" by force
  have g: "get w1 k' = (if k' = k \<and> r1 = None then Some j else get w k')"
    using put_cases [OF p] kj Cons.prems by auto
  show ?case
  proof (cases r1)
    case (Some e)
    with Cons.prems(1) kj p g show ?thesis by auto
  next
    case None
    with Cons.prems(1) kj p have "each_w (\<lambda>(k, j). put k j) kjs w1 = (r, w')" by simp
    from Cons.IH [OF this] Cons.prems(2,3) kj g None show ?thesis
      by (cases "k' = k") auto
  qed
qed

end

section \<open>The file system\<close>

text \<open>
  A file holds a document or a torn text. \<open>fs_faults\<close> decides the calls to come (\<open>True\<close> makes one
  fail), \<open>fs_unreadable\<close> are the paths whose reading fails although they exist.
\<close>

datatype fcontent = Doc json | Torn

record fsys =
  fs_files :: "fcontent smap"
  fs_faults :: "bool list"
  fs_unreadable :: "string list"

definition next_fault :: "fsys \<Rightarrow> bool \<times> fsys" where
  "next_fault fs = (case fs_faults fs of [] \<Rightarrow> (False, fs) | b # bs \<Rightarrow> (b, fs\<lparr>fs_faults := bs\<rparr>))"

definition read_file :: "string \<Rightarrow> fsys \<Rightarrow> fcontent option" where
  "read_file path fs = (if path \<in> set (fs_unreadable fs) then None else mget (fs_files fs) path)"

definition tmp_of :: "string \<Rightarrow> string" where
  "tmp_of path = path @ ''.tmp''"

text \<open>\<open>writeFile\<close>: make the directory, write the temporary file (torn when that fails), rename it.\<close>

definition write_file :: "string \<Rightarrow> json \<Rightarrow> fsys \<Rightarrow> error option \<times> fsys" where
  "write_file path data fs0 =
     (case next_fault fs0 of
        (True, fs1) \<Rightarrow> (Some (Err ''mkdir failed''), fs1)
      | (False, fs1) \<Rightarrow>
          (case next_fault fs1 of
             (True, fs2) \<Rightarrow>
               (Some (Err ''write failed''), fs2\<lparr>fs_files := mput (tmp_of path) Torn (fs_files fs2)\<rparr>)
           | (False, fs2) \<Rightarrow>
               (let fs2' = fs2\<lparr>fs_files := mput (tmp_of path) (Doc data) (fs_files fs2)\<rparr>
                in case next_fault fs2' of
                     (True, fs3) \<Rightarrow> (Some (Err ''rename failed''), fs3)
                   | (False, fs3) \<Rightarrow>
                       (None, fs3\<lparr>fs_files := mput path (Doc data) (mdel (tmp_of path) (fs_files fs3))\<rparr>))))"

text \<open>The file systems a crash during \<open>writeFile\<close> can leave, in order.\<close>

definition write_states :: "string \<Rightarrow> json \<Rightarrow> fcontent smap \<Rightarrow> fcontent smap list" where
  "write_states path data files =
     [files, mput (tmp_of path) Torn files, mput (tmp_of path) (Doc data) files,
      mput path (Doc data) (mdel (tmp_of path) (mput (tmp_of path) (Doc data) files))]"

section \<open>The file backend\<close>

text \<open>\<open>filepath.Ext\<close>: the suffix from the last dot of the last path element, split off here.\<close>

fun ext_split_rev :: "string \<Rightarrow> string \<Rightarrow> (string \<times> string) option" where
  "ext_split_rev acc [] = None"
| "ext_split_rev acc (c # r) =
     (if c = CHR ''/'' then None
      else if c = CHR ''.'' then Some (rev r, c # acc)
      else ext_split_rev (c # acc) r)"

definition sibling :: "string \<Rightarrow> string \<Rightarrow> string" where
  "sibling path suffix =
     (case ext_split_rev [] (rev path) of
        None \<Rightarrow> path @ ''-'' @ suffix
      | Some (base, ext) \<Rightarrow> base @ ''-'' @ suffix @ ext)"

definition load_file :: "string \<Rightarrow> (json option \<Rightarrow> 'a res) \<Rightarrow> 'a \<Rightarrow> string \<Rightarrow> fsys \<Rightarrow> 'a res \<times> fsys" where
  "load_file what dec empty_value path fs =
     (case read_file path fs of
        None \<Rightarrow> (Inr empty_value, fs)
      | Some Torn \<Rightarrow> (Inl (Err (''corrupt '' @ what @ '' file '' @ path @ '': unexpected end of JSON input'')), fs)
      | Some (Doc j) \<Rightarrow>
          ((case dec (Some j) of
              Inl e \<Rightarrow> Inl (wrap_err (''corrupt '' @ what @ '' file '' @ path @ '': '') e)
            | Inr v \<Rightarrow> Inr v), fs))"

definition load_file_map :: "(json \<Rightarrow> 'a res) \<Rightarrow> string \<Rightarrow> fsys \<Rightarrow> 'a smap res \<times> fsys" where
  "load_file_map dec path fs = load_file ''state'' (dec_map dec) [] path fs"

definition marshal_map :: "('a \<Rightarrow> json res) \<Rightarrow> 'a smap \<Rightarrow> json res" where
  "marshal_map enc m =
     bind_res (map_res (\<lambda>k. case mget m k of
                 Some v \<Rightarrow> map_sum id (Pair k) (enc v) | None \<Rightarrow> Inr (k, JNull)) (sorted_keys m))
       (\<lambda>kvs. Inr (JObj kvs))"

definition write_file_map :: "('a \<Rightarrow> json res) \<Rightarrow> string \<Rightarrow> 'a smap \<Rightarrow> fsys \<Rightarrow> error option \<times> fsys" where
  "write_file_map enc path m fs =
     (case marshal_map enc m of Inl e \<Rightarrow> (Some e, fs) | Inr j \<Rightarrow> write_file path j fs)"

definition write_file_slice :: "('a \<Rightarrow> json) \<Rightarrow> string \<Rightarrow> 'a list \<Rightarrow> fsys \<Rightarrow> error option \<times> fsys" where
  "write_file_slice enc path xs fs = write_file path (JArr (map enc xs)) fs"

definition file_backend :: "string \<Rightarrow> fsys backend_ops" where
  "file_backend path =
     \<lparr>b_load_clusters = load_file_map dec_cluster path,
      b_load_services = load_file_map dec_service (sibling path ''services''),
      b_load_jobs = load_file_map dec_job (sibling path ''jobs''),
      b_load_yamls = load_file_map dec_yaml (sibling path ''cluster-yaml''),
      b_load_history = load_file_map dec_history (sibling path ''cluster-history''),
      b_load_events = load_file ''events'' (dec_list dec_event) [] (sibling path ''cluster-events''),
      b_load_config = load_file_map dec_entry (sibling path ''config''),
      b_load_tokens = load_file ''tokens'' (dec_list dec_token) [] (sibling path ''tokens''),
      b_save_clusters = write_file_map marshal_cluster path,
      b_save_services = write_file_map (\<lambda>v. Inr (enc_service v)) (sibling path ''services''),
      b_save_jobs = write_file_map (\<lambda>v. Inr (enc_job v)) (sibling path ''jobs''),
      b_save_yamls = write_file_map (\<lambda>v. Inr (enc_yaml v)) (sibling path ''cluster-yaml''),
      b_save_history = write_file_map (\<lambda>v. Inr (enc_history v)) (sibling path ''cluster-history''),
      b_save_events = write_file_slice enc_event (sibling path ''cluster-events''),
      b_save_config = write_file_map (\<lambda>v. Inr (enc_entry v)) (sibling path ''config''),
      b_save_tokens = write_file_slice enc_token (sibling path ''tokens''),
      b_close = (\<lambda>fs. (None, fs))\<rparr>"

text \<open>\<open>OpenAt\<close>.\<close>

definition open_at :: "string \<Rightarrow> fsys \<Rightarrow> store res \<times> fsys" where
  "open_at path fs = open_store (file_backend path) fs"

section \<open>The redis backend\<close>

text \<open>The client of \<open>github.com/redis/go-redis\<close> is a parameter: \<open>rget\<close> gives the value of a key, \<open>Inr None\<close>
  for \<open>redis.Nil\<close>, and \<open>rset\<close> sets one without expiry.\<close>

definition redis_key :: "string \<Rightarrow> string" where
  "redis_key name = ''gpi:'' @ name"

definition redis_load ::
  "(string \<Rightarrow> 'w \<Rightarrow> json option res \<times> 'w) \<Rightarrow> string \<Rightarrow> (json option \<Rightarrow> 'a res) \<Rightarrow> 'a \<Rightarrow> 'w \<Rightarrow> 'a res \<times> 'w" where
  "redis_load rget name dec empty_value w =
     (case rget (redis_key name) w of
        (Inl e, w') \<Rightarrow> (Inl (wrap_err (''redis get '' @ name @ '': '') e), w')
      | (Inr None, w') \<Rightarrow> (Inr empty_value, w')
      | (Inr (Some j), w') \<Rightarrow>
          ((case dec (Some j) of
              Inl e \<Rightarrow> Inl (wrap_err (''corrupt redis key '' @ name @ '': '') e) | Inr v \<Rightarrow> Inr v), w'))"

definition redis_save ::
  "(string \<Rightarrow> json \<Rightarrow> 'w \<Rightarrow> error option \<times> 'w) \<Rightarrow> string \<Rightarrow> json res \<Rightarrow> 'w \<Rightarrow> error option \<times> 'w" where
  "redis_save rset name v w =
     (case v of
        Inl e \<Rightarrow> (Some e, w)
      | Inr j \<Rightarrow> (case rset (redis_key name) j w of
                  (Some e, w') \<Rightarrow> (Some (wrap_err (''redis set '' @ name @ '': '') e), w')
                | (None, w') \<Rightarrow> (None, w')))"

definition redis_backend ::
  "(string \<Rightarrow> 'w \<Rightarrow> json option res \<times> 'w) \<Rightarrow> (string \<Rightarrow> json \<Rightarrow> 'w \<Rightarrow> error option \<times> 'w) \<Rightarrow>
   ('w \<Rightarrow> error option \<times> 'w) \<Rightarrow> 'w backend_ops" where
  "redis_backend rget rset rclose =
     \<lparr>b_load_clusters = redis_load rget ''clusters'' (dec_map dec_cluster) [],
      b_load_services = redis_load rget ''services'' (dec_map dec_service) [],
      b_load_jobs = redis_load rget ''jobs'' (dec_map dec_job) [],
      b_load_yamls = redis_load rget ''cluster_yaml'' (dec_map dec_yaml) [],
      b_load_history = redis_load rget ''cluster_history'' (dec_map dec_history) [],
      b_load_events = redis_load rget ''cluster_events'' (dec_list dec_event) [],
      b_load_config = redis_load rget ''config'' (dec_map dec_entry) [],
      b_load_tokens = redis_load rget ''tokens'' (dec_list dec_token) [],
      b_save_clusters = (\<lambda>m. redis_save rset ''clusters'' (marshal_map marshal_cluster m)),
      b_save_services = (\<lambda>m. redis_save rset ''services'' (marshal_map (\<lambda>v. Inr (enc_service v)) m)),
      b_save_jobs = (\<lambda>m. redis_save rset ''jobs'' (marshal_map (\<lambda>v. Inr (enc_job v)) m)),
      b_save_yamls = (\<lambda>m. redis_save rset ''cluster_yaml'' (marshal_map (\<lambda>v. Inr (enc_yaml v)) m)),
      b_save_history = (\<lambda>m. redis_save rset ''cluster_history'' (marshal_map (\<lambda>v. Inr (enc_history v)) m)),
      b_save_events = (\<lambda>xs. redis_save rset ''cluster_events'' (Inr (JArr (map enc_event xs)))),
      b_save_config = (\<lambda>m. redis_save rset ''config'' (marshal_map (\<lambda>v. Inr (enc_entry v)) m)),
      b_save_tokens = (\<lambda>xs. redis_save rset ''tokens'' (Inr (JArr (map enc_token xs)))),
      b_close = rclose\<rparr>"

section \<open>The paths of a store\<close>

definition collections :: "string list" where
  "collections = [''services'', ''jobs'', ''cluster-yaml'', ''cluster-history'', ''cluster-events'', ''config'', ''tokens'']"

definition state_paths :: "string \<Rightarrow> string list" where
  "state_paths path = path # map (sibling path) collections"

lemma ext_split_rev_Some:
  "ext_split_rev acc r = Some (base, ext) \<Longrightarrow> \<exists>m. ext = CHR ''.'' # m @ acc \<and> rev r = base @ CHR ''.'' # m \<and> CHR ''.'' \<notin> set m"
proof (induction acc r rule: ext_split_rev.induct)
  case (2 acc c r)
  show ?case
  proof (cases "c = CHR ''.''")
    case True
    with 2 show ?thesis by auto
  next
    case False
    with 2 obtain m where "ext = CHR ''.'' # m @ c # acc" "rev r = base @ CHR ''.'' # m" "CHR ''.'' \<notin> set m"
      by (auto split: if_splits)
    with False show ?thesis by (intro exI [of _ "m @ [c]"]) auto
  qed
qed simp

text \<open>The eight paths and their temporary files are different from each other.\<close>

lemma sibling_cases:
  obtains base ext where "path = base @ ext" and "\<And>s. sibling path s = base @ CHR ''-'' # s @ ext"
    and "ext = [] \<or> (\<exists>m. ext = CHR ''.'' # m)"
proof (cases "ext_split_rev [] (rev path)")
  case None
  then show ?thesis by (intro that [of path "[]"]) (simp_all add: sibling_def)
next
  case (Some be)
  obtain base ext where be: "be = (base, ext)" by force
  from ext_split_rev_Some [OF Some [unfolded be]] obtain m where "ext = CHR ''.'' # m" "path = base @ CHR ''.'' # m"
    by auto
  with Some be show ?thesis by (intro that [of base ext]) (auto simp: sibling_def)
qed

lemma takeWhile_stops: "c \<notin> set s \<Longrightarrow> e = [] \<or> hd e = c \<Longrightarrow> takeWhile (\<lambda>x. x \<noteq> c) (s @ e) = s"
  by (induction s) (cases e; auto)+

lemma no_dot_cancel:
  assumes "CHR ''.'' \<notin> set s" and "CHR ''.'' \<notin> set t" and "s @ e = t @ e'" and "e = [] \<or> hd e = CHR ''.''"
    and "e' = [] \<or> hd e' = CHR ''.''"
  shows "s = t"
  using takeWhile_stops [OF assms(1,4)] takeWhile_stops [OF assms(2,5)] assms(3) by metis

lemma sibling_inj:
  assumes "CHR ''.'' \<notin> set s" and "CHR ''.'' \<notin> set t"
  shows "sibling path s = sibling path t \<longleftrightarrow> s = t"
  by (rule sibling_cases [of path]) auto

lemma sibling_not_path: "sibling path s \<noteq> path"
proof (rule sibling_cases [of path])
  fix base ext
  assume p: "path = base @ ext" and s: "\<And>s. sibling path s = base @ CHR ''-'' # s @ ext"
  have "length (sibling path s) > length path"
    unfolding s by (simp add: p)
  then show ?thesis by auto
qed

lemma sibling_tmp:
  assumes "CHR ''.'' \<notin> set s" and "CHR ''.'' \<notin> set t"
  shows "tmp_of (sibling path s) \<noteq> sibling path t" and "tmp_of path \<noteq> sibling path t"
    and "tmp_of (sibling path s) \<noteq> path"
proof (rule sibling_cases [of path])
  fix base ext
  assume p: "path = base @ ext" and sib: "\<And>s. sibling path s = base @ CHR ''-'' # s @ ext"
    and e: "ext = [] \<or> (\<exists>m. ext = CHR ''.'' # m)"
  show "tmp_of (sibling path s) \<noteq> sibling path t"
  proof
    assume "tmp_of (sibling path s) = sibling path t"
    then have *: "s @ (ext @ ''.tmp'') = t @ ext"
      unfolding tmp_of_def sib by simp
    then have "s = t"
      using e by (intro no_dot_cancel [OF assms *]) auto
    with * show False by simp
  qed
next
  show "tmp_of path \<noteq> sibling path t"
  proof (rule sibling_cases [of path])
    fix base ext
    assume p: "path = base @ ext" and sib: "\<And>s. sibling path s = base @ CHR ''-'' # s @ ext"
      and e: "ext = [] \<or> (\<exists>m. ext = CHR ''.'' # m)"
    show ?thesis
      unfolding tmp_of_def sib using e by (auto simp: p)
  qed
next
  have "length (tmp_of (sibling path s)) > length path"
  proof (rule sibling_cases [of path])
    fix base ext
    assume p: "path = base @ ext" and sib: "\<And>s. sibling path s = base @ CHR ''-'' # s @ ext"
    show ?thesis
      unfolding tmp_of_def sib by (simp add: p)
  qed
  then show "tmp_of (sibling path s) \<noteq> path" by auto
qed

lemma collections_no_dot: "s \<in> set collections \<Longrightarrow> CHR ''.'' \<notin> set s"
  by (auto simp: collections_def)

lemma distinct_state_paths: "distinct (state_paths path)"
proof -
  have "inj_on (sibling path) (set collections)"
    by (auto simp: inj_on_def sibling_inj collections_no_dot)
  moreover have "distinct collections"
    by (simp add: collections_def)
  moreover have "path \<notin> sibling path ` set collections"
    using sibling_not_path [of path] by (auto dest: sym)
  ultimately show ?thesis
    by (simp add: state_paths_def distinct_map)
qed

lemma state_paths_tmp: "p \<in> set (state_paths path) \<Longrightarrow> q \<in> set (state_paths path) \<Longrightarrow> tmp_of p \<noteq> q"
proof -
  assume "p \<in> set (state_paths path)" "q \<in> set (state_paths path)"
  then consider "p = path" "q = path" | t where "p = path" "q = sibling path t" "t \<in> set collections"
    | s where "p = sibling path s" "q = path" "s \<in> set collections"
    | s t where "p = sibling path s" "q = sibling path t" "s \<in> set collections" "t \<in> set collections"
    by (auto simp: state_paths_def)
  then show ?thesis
    by cases (auto simp: tmp_of_def dest: sibling_tmp [unfolded tmp_of_def, OF collections_no_dot collections_no_dot])
qed

section \<open>The file backend is a blob store\<close>

definition file_view :: "fsys \<Rightarrow> string \<Rightarrow> json option" where
  "file_view fs p = (case mget (fs_files fs) p of Some (Doc j) \<Rightarrow> Some j | _ \<Rightarrow> None)"

lemma next_fault_files: "next_fault fs = (b, fs') \<Longrightarrow> fs_files fs' = fs_files fs"
  by (auto simp: next_fault_def split: list.splits)

lemma next_fault_unreadable: "next_fault fs = (b, fs') \<Longrightarrow> fs_unreadable fs' = fs_unreadable fs"
  by (auto simp: next_fault_def split: list.splits)

lemma write_file_files:
  assumes "write_file p j fs = (r, fs')" and "q \<noteq> tmp_of p"
  shows "mget (fs_files fs') q = (if r = None \<and> q = p then Some (Doc j) else mget (fs_files fs) q)"
  using assms
  by (auto simp: write_file_def Let_def split: prod.splits bool.splits dest!: next_fault_files)

lemma write_file_unreadable: "write_file p j fs = (r, fs') \<Longrightarrow> fs_unreadable fs' = fs_unreadable fs"
  by (auto simp: write_file_def Let_def split: prod.splits bool.splits dest!: next_fault_unreadable)

interpretation file_blob: blob_store "\<lambda>k j. write_file k j" file_view "\<lambda>k. k \<in> set (state_paths path)" for path
proof
  fix k j fs fs' k'
  assume k: "k \<in> set (state_paths path)" "k' \<in> set (state_paths path)"
  then have t: "k' \<noteq> tmp_of k"
    using state_paths_tmp by metis
  show "write_file k j fs = (None, fs') \<Longrightarrow> file_view fs' k' = (if k' = k then Some j else file_view fs k')"
    by (simp add: file_view_def write_file_files [OF _ t])
  show "write_file k j fs = (Some e, fs') \<Longrightarrow> file_view fs' k' = file_view fs k'" for e
    by (simp add: file_view_def write_file_files [OF _ t])
qed

end
