(* ===== verification/State_Props.thy ===== *)
theory State_Props
  imports State_File
begin

text \<open>
  What the store promises: its maps stay filed under the entities' names, an entity added is the one
  read, what was saved is what a later process loads, a crash leaves every file whole, a revoked
  token is refused; and where it promises less than it seems to.
\<close>

section \<open>Documents of a whole store\<close>

definition map_vals :: "('a \<Rightarrow> 'b) \<Rightarrow> 'a smap \<Rightarrow> 'b smap" where
  "map_vals f m = map (\<lambda>(k, v). (k, f v)) m"

lemma marshal_map_Inr:
  assumes "\<And>k v. mget m k = Some v \<Longrightarrow> enc v = Inr (e v)"
  shows "marshal_map enc m = Inr (enc_map e m)"
proof -
  have "map_res (\<lambda>k. case mget m k of Some v \<Rightarrow> map_sum id (Pair k) (enc v) | None \<Rightarrow> Inr (k, JNull)) (sorted_keys m) =
      Inr (map (\<lambda>k. (k, case mget m k of Some v \<Rightarrow> e v | None \<Rightarrow> JNull)) (sorted_keys m))"
    by (rule map_res_Inr) (auto simp: assms split: option.splits)
  then show ?thesis by (simp add: marshal_map_def enc_map_def)
qed

lemma dec_enc_map_vals:
  assumes "wf_map m" and "\<And>k v. mget m k = Some v \<Longrightarrow> d (e v) = Inr (f v)"
  shows "dec_map d (Some (enc_map e m)) = Inr (map_vals f (key_sorted m))"
proof -
  have "map_res (\<lambda>(k, j). map_sum id (Pair k) (d j))
      (map (\<lambda>k. (k, case mget m k of Some v \<Rightarrow> e v | None \<Rightarrow> JNull)) (sorted_keys m)) =
    Inr (map (\<lambda>k. (k, f (the (mget m k)))) (sorted_keys m))"
    unfolding map_res_map
  proof (rule map_res_Inr)
    fix k assume "k \<in> set (sorted_keys m)"
    then obtain v where "mget m k = Some v"
      by (metis mget_None_iff not_None_eq set_sorted_keys)
    then show "(case (k, case mget m k of Some v \<Rightarrow> e v | None \<Rightarrow> JNull) of
        (k, j) \<Rightarrow> map_sum id (Pair k) (d j)) = Inr (k, f (the (mget m k)))"
      by (simp add: assms(2))
  qed
  moreover have "map (\<lambda>k. (k, f (the (mget m k)))) (sorted_keys m) = map_vals f (key_sorted m)"
    by (simp add: map_vals_def key_sorted_def)
  moreover have "put_all (map_vals f (key_sorted m)) = map_vals f (key_sorted m)"
    by (rule put_all_distinct) (use wf_key_sorted [OF assms(1)] in \<open>simp add: map_vals_def comp_def case_prod_beta\<close>)
  ultimately show ?thesis
    by (simp add: enc_map_def)
qed

definition storable :: "store \<Rightarrow> bool" where
  "storable s \<longleftrightarrow> store_ok s \<and> (\<forall>(k, c) \<in> set (st_clusters s). cluster_storable c)"

text \<open>The store a process reads back: the maps in the order of their keys.\<close>

definition norm_store :: "store \<Rightarrow> store" where
  "norm_store s =
     \<lparr>st_clusters = map_vals norm_cluster (key_sorted (st_clusters s)), st_services = key_sorted (st_services s),
      st_jobs = key_sorted (st_jobs s), st_yamls = key_sorted (st_yamls s), st_history = key_sorted (st_history s),
      st_events = st_events s, st_config = key_sorted (st_config s), st_tokens = st_tokens s\<rparr>"

definition store_docs :: "string list \<Rightarrow> store \<Rightarrow> (string \<times> json) list" where
  "store_docs keys s = zip keys
     [enc_map enc_cluster (st_clusters s), enc_map enc_service (st_services s), enc_map enc_job (st_jobs s),
      enc_map enc_yaml (st_yamls s), enc_map enc_history (st_history s), JArr (map enc_event (st_events s)),
      enc_map enc_entry (st_config s), JArr (map enc_token (st_tokens s))]"

lemma storable_cluster: "storable s \<Longrightarrow> mget (st_clusters s) k = Some c \<Longrightarrow> cluster_storable c"
  by (auto simp: storable_def dest!: map_of_SomeD)

lemma storable_wf:
  "storable s \<Longrightarrow> wf_map (st_clusters s)" "storable s \<Longrightarrow> wf_map (st_services s)"
  "storable s \<Longrightarrow> wf_map (st_jobs s)" "storable s \<Longrightarrow> wf_map (st_yamls s)"
  "storable s \<Longrightarrow> wf_map (st_history s)" "storable s \<Longrightarrow> wf_map (st_config s)"
  by (simp_all add: storable_def store_ok_def keyed_def)

lemma marshal_clusters: "storable s \<Longrightarrow> marshal_map marshal_cluster (st_clusters s) = Inr (enc_map enc_cluster (st_clusters s))"
  by (rule marshal_map_Inr) (simp add: marshal_cluster_Inr storable_cluster)

lemma marshal_others [simp]: "marshal_map (\<lambda>v. Inr (e v)) m = Inr (enc_map e m)"
  by (rule marshal_map_Inr) simp

text \<open>Every document decodes to its collection.\<close>

lemma map_vals_id [simp]: "map_vals (\<lambda>x. x) m = m"
  by (simp add: map_vals_def)

lemma dec_store_docs:
  assumes "storable s"
  shows "dec_map dec_cluster (Some (enc_map enc_cluster (st_clusters s))) = Inr (st_clusters (norm_store s))"
    and "dec_map dec_service (Some (enc_map enc_service (st_services s))) = Inr (st_services (norm_store s))"
    and "dec_map dec_job (Some (enc_map enc_job (st_jobs s))) = Inr (st_jobs (norm_store s))"
    and "dec_map dec_yaml (Some (enc_map enc_yaml (st_yamls s))) = Inr (st_yamls (norm_store s))"
    and "dec_map dec_history (Some (enc_map enc_history (st_history s))) = Inr (st_history (norm_store s))"
    and "dec_list dec_event (Some (JArr (map enc_event (st_events s)))) = Inr (st_events (norm_store s))"
    and "dec_map dec_entry (Some (enc_map enc_entry (st_config s))) = Inr (st_config (norm_store s))"
    and "dec_list dec_token (Some (JArr (map enc_token (st_tokens s)))) = Inr (st_tokens (norm_store s))"
proof -
  show "dec_map dec_cluster (Some (enc_map enc_cluster (st_clusters s))) = Inr (st_clusters (norm_store s))"
    using dec_enc_map_vals [OF storable_wf(1) [OF assms], of dec_cluster enc_cluster norm_cluster]
    by (simp add: norm_store_def dec_cluster_enc storable_cluster [OF assms])
qed (use storable_wf [OF assms] in \<open>simp_all add: norm_store_def dec_enc_map map_res_map
      map_res_Inr [where g = "\<lambda>x. x"] del: dec_map.simps\<close>)

lemma each_steps:
  "each_w (\<lambda>step. step) [f1, f2, f3, f4, f5, f6, f7, f8] w =
   each_w (\<lambda>(k, j). put k j) [(k1, j1), (k2, j2), (k3, j3), (k4, j4), (k5, j5), (k6, j6), (k7, j7), (k8, j8)] w"
  if "f1 = put k1 j1" "f2 = put k2 j2" "f3 = put k3 j3" "f4 = put k4 j4" "f5 = put k5 j5" "f6 = put k6 j6"
    "f7 = put k7 j7" "f8 = put k8 j8"
  by (simp add: that split: prod.splits option.splits)

section \<open>The file backend keeps what it saved\<close>

lemma state_paths_list:
  "state_paths path = [path, sibling path ''services'', sibling path ''jobs'', sibling path ''cluster-yaml'',
     sibling path ''cluster-history'', sibling path ''cluster-events'', sibling path ''config'', sibling path ''tokens'']"
  by (simp add: state_paths_def collections_def)

lemma save_store_file:
  assumes "storable s"
  shows "save_store (file_backend path) s w = each_w (\<lambda>(k, j). write_file k j) (store_docs (state_paths path) s) w"
  unfolding save_store_def save_steps_def store_docs_def state_paths_list zip_Cons_Cons zip_Nil
  by (rule each_steps)
    (simp_all add: file_backend_def write_file_map_def write_file_slice_def marshal_clusters [OF assms] fun_eq_iff)

lemma map_fst_store_docs: "length keys = 8 \<Longrightarrow> map fst (store_docs keys s) = keys"
  by (simp add: store_docs_def map_fst_zip)

lemma load_file_view:
  assumes "p \<notin> set (fs_unreadable fs)" and "file_view fs p = Some j" and "dec (Some j) = Inr v"
  shows "load_file what dec d p fs = (Inr v, fs)"
  using assms by (auto simp: load_file_def read_file_def file_view_def split: option.splits fcontent.splits)

lemma saved_documents:
  assumes "storable s" and "save_store (file_backend path) s w = (None, w')" and "(k, j) \<in> set (store_docs (state_paths path) s)"
  shows "file_view w' k = Some j"
proof -
  have l: "length (state_paths path) = 8"
    by (simp add: state_paths_list)
  have "\<forall>(k, j) \<in> set (store_docs (state_paths path) s). k \<in> set (state_paths path)"
    by (auto simp: store_docs_def dest: set_zip_leftD)
  with assms distinct_state_paths [of path] show ?thesis
    unfolding save_store_file [OF assms(1)]
    by (intro file_blob.put_all_reads [of "store_docs (state_paths path) s" w w' path])
      (simp_all add: map_fst_store_docs [OF l])
qed

section \<open>Lists of tokens\<close>

lemma remove_token_split:
  "remove_token i ts = Some rest \<Longrightarrow> \<exists>a t b. ts = a @ t # b \<and> rest = a @ b \<and> tk_id t = i"
proof (induction ts arbitrary: rest)
  case (Cons t ts)
  show ?case
  proof (cases "tk_id t = i")
    case True
    with Cons.prems show ?thesis by (intro exI [of _ "[]"]) auto
  next
    case False
    with Cons.prems obtain r where "remove_token i ts = Some r" "rest = t # r" by auto
    with Cons.IH obtain a u b where "ts = a @ u # b" "r = a @ b" "tk_id u = i" by blast
    with \<open>rest = t # r\<close> show ?thesis by (intro exI [of _ "t # a"]) auto
  qed
qed simp

lemma find_token_none: "h \<notin> tk_hash ` set ts \<Longrightarrow> find_token ts h now = Inl (Err ''token not found'')"
  by (induction ts) auto

lemma find_token_append:
  "h \<notin> tk_hash ` set a \<Longrightarrow> find_token (a @ b) h now = find_token b h now"
  by (induction a) auto

lemma find_token_skip:
  "tk_hash t \<noteq> h \<Longrightarrow> find_token (a @ t # b) h now = find_token (a @ b) h now"
  by (induction a) auto

lemma change_token_split:
  "change_token i f ts = Some (x, ts') \<Longrightarrow> \<exists>a t b. ts = a @ t # b \<and> ts' = a @ x # b \<and> x = f t \<and> tk_id t = i"
proof (induction ts arbitrary: x ts')
  case (Cons t ts)
  show ?case
  proof (cases "tk_id t = i")
    case True
    with Cons.prems show ?thesis by (intro exI [of _ "[]"]) auto
  next
    case False
    with Cons.prems obtain r where r: "change_token i f ts = Some (x, r)" "ts' = t # r" by auto
    with Cons.IH obtain a u b where "ts = a @ u # b" "r = a @ x # b" "x = f u" "tk_id u = i" by blast
    with r show ?thesis by (intro exI [of _ "t # a"]) auto
  qed
qed simp

section \<open>The invariant\<close>

lemma persist_eq: "persist B s w = (fst (persist B s w), s, snd (snd (persist B s w)))"
  by (simp add: persist_def split: prod.splits)

lemma snd_persist: "snd (persist B s w) = (s, snd (snd (persist B s w)))"
  using persist_eq [of B s w] by (metis snd_conv)

lemma run_op_ok:
  assumes "store_ok s" and "op_ok x"
  shows "store_ok (fst (run_op B hash x (s, w)))"
proof (cases x)
  case (OAddCluster now c)
  with assms show ?thesis
    by (auto simp: add_cluster_def Let_def store_ok_def)
next
  case (OUpdateCluster now n f)
  show ?thesis
  proof (cases "mget (st_clusters s) n")
    case None
    with assms OUpdateCluster show ?thesis by (simp add: update_cluster_def)
  next
    case (Some c)
    obtain e c' where f: "f c = (e, c')" by force
    have "cl_name c = n"
      using assms(1) Some by (auto simp: store_ok_def dest: keyed_name)
    with assms(2) OUpdateCluster f have "cl_name c' = n"
      by (metis op_ok.simps(1) snd_conv)
    with assms(1) Some f OUpdateCluster show ?thesis
      by (cases e) (auto simp: update_cluster_def store_ok_def)
  qed
next
  case (ODeleteCluster n)
  with assms show ?thesis by (auto simp: delete_cluster_def store_ok_def)
next
  case (OAddService now v)
  with assms show ?thesis by (auto simp: add_service_def store_ok_def)
next
  case (OUpdateService now n f)
  show ?thesis
  proof (cases "mget (st_services s) n")
    case None
    with assms OUpdateService show ?thesis by (simp add: update_service_def)
  next
    case (Some c)
    obtain e c' where f: "f c = (e, c')" by force
    have "sc_name c = n"
      using assms(1) Some by (auto simp: store_ok_def dest: keyed_name)
    with assms(2) OUpdateService f have "sc_name c' = n"
      by (metis op_ok.simps(2) snd_conv)
    with assms(1) Some f OUpdateService show ?thesis
      by (cases e) (auto simp: update_service_def store_ok_def)
  qed
next
  case (ODeleteService n)
  with assms show ?thesis by (auto simp: delete_service_def store_ok_def)
next
  case (OAddJob now j)
  with assms show ?thesis by (auto simp: add_job_def store_ok_def)
next
  case (OUpdateJob now n f)
  show ?thesis
  proof (cases "mget (st_jobs s) n")
    case None
    with assms OUpdateJob show ?thesis by (simp add: update_job_def)
  next
    case (Some c)
    obtain e c' where f: "f c = (e, c')" by force
    have "j_name c = n"
      using assms(1) Some by (auto simp: store_ok_def dest: keyed_name)
    with assms(2) OUpdateJob f have "j_name c' = n"
      by (metis op_ok.simps(3) snd_conv)
    with assms(1) Some f OUpdateJob show ?thesis
      by (cases e) (auto simp: update_job_def store_ok_def)
  qed
next
  case (OYaml now n t)
  with assms show ?thesis
    by (auto simp: record_cluster_yaml_def Let_def store_ok_def intro!: keyed_mput dest: keyed_name split: option.splits)
next
  case (OHistory now h)
  with assms show ?thesis
    by (auto simp: record_cluster_history_def Let_def store_ok_def intro!: keyed_mput dest: keyed_name split: option.splits)
next
  case (OEvent now e)
  with assms show ?thesis by (simp add: add_cluster_event_def Let_def store_ok_def)
next
  case (OConfig now k v)
  with assms show ?thesis
    by (auto simp: set_config_def Let_def store_ok_def intro!: keyed_mput dest: keyed_name split: option.splits)
next
  case (OCreateToken now secret ident n cr ex)
  with assms show ?thesis
    by (auto simp: create_token_def Let_def store_ok_def dest!: persist_store split: prod.splits option.splits)
next
  case (ODeleteToken ident)
  with assms show ?thesis
    by (auto simp: delete_token_def store_ok_def dest!: persist_store split: prod.splits option.splits)
next
  case (ORotateToken now secret ident ex)
  with assms show ?thesis
    by (auto simp: rotate_token_def store_ok_def dest!: persist_store split: prod.splits option.splits)
next
  case (OMarkToken now ident)
  with assms show ?thesis
    by (auto simp: mark_token_used_def store_ok_def split: prod.splits option.splits)
qed

lemma reach_ok: "store_ok (fst sw) \<Longrightarrow> \<forall>x \<in> set ops. op_ok x \<Longrightarrow> store_ok (fst (reach B hash ops sw))"
proof (induction ops arbitrary: sw)
  case (Cons x ops)
  then show ?case
    using run_op_ok [of "fst sw" x B hash "snd sw"] by (cases sw) (simp add: reach_def)
qed (simp add: reach_def)

section \<open>Properties\<close>

text \<open>C1. The store stays consistent: after any sequence of its operations, successful or not, saved or not,
  every map holds each name once and files every entity under its own name.\<close>

theorem store_invariant:
  assumes "store_ok s" and "\<forall>x \<in> set ops. op_ok x"
  shows "store_ok (fst (reach B hash ops (s, w)))"
  using reach_ok [of "(s, w)"] assms by simp

definition sample_cluster :: cluster where
  "sample_cluster = \<lparr>cl_name = ''c'', cl_status = [], cl_backend = ''cloud'', cl_cloud = ''aws'', cl_region = ''r1'',
     cl_num_nodes = 1, cl_instances = [], cl_launch = None, cl_task_yaml = [], cl_tags = [(''k'', ''v'')], cl_labels = [],
     cl_creds = None, cl_ssh = None, cl_key_name = [], cl_key_path = [], cl_security_group = [], cl_vpc = [],
     cl_vswitch = [], cl_last_error = [], cl_created_at = 0, cl_updated_at = 0\<rparr>"

definition sample_fs :: fsys where
  "sample_fs = \<lparr>fs_files = [], fs_faults = [], fs_unreadable = []\<rparr>"

theorem store_invariant_witness:
  "store_ok (fst (reach (file_backend ''s.json'') id
     [OAddCluster 5 sample_cluster, OUpdateCluster 6 ''c'' (\<lambda>c. (None, c\<lparr>cl_status := ''up''\<rparr>)), OConfig 7 ''k'' ''v'']
     (empty_store, sample_fs)))"
  by (rule store_invariant [OF empty_store_ok]) simp

text \<open>Adding a cluster files it: a name in use is refused and changes nothing; otherwise the cluster is
  read back with the time of the call as its times and a status, and every other cluster and collection
  stays as it was.\<close>

theorem add_cluster_spec:
  assumes "add_cluster B now c s w = (r, s', w')"
  shows "(mget (st_clusters s) (cl_name c) \<noteq> None \<longrightarrow>
      r = Some (Err (''cluster '' @ cl_name c @ '' already exists'')) \<and> s' = s \<and> w' = w) \<and>
    (mget (st_clusters s) (cl_name c) = None \<longrightarrow>
      get_cluster s' (cl_name c) =
        Inr (c\<lparr>cl_created_at := now, cl_updated_at := now,
               cl_status := (if cl_status c = [] then cluster_provisioning else cl_status c)\<rparr>) \<and>
      (\<forall>n. n \<noteq> cl_name c \<longrightarrow> get_cluster s' n = get_cluster s n) \<and>
      s'\<lparr>st_clusters := st_clusters s\<rparr> = s)"
  using assms by (auto simp: add_cluster_def get_cluster_def Let_def dest!: persist_store split: if_splits)

theorem add_cluster_spec_witness:
  "\<exists>r s' w'. add_cluster (file_backend ''s.json'') 5 sample_cluster empty_store sample_fs = (r, s', w') \<and>
     get_cluster s' ''c'' = Inr (sample_cluster\<lparr>cl_created_at := 5, cl_updated_at := 5, cl_status := cluster_provisioning\<rparr>)"
proof -
  obtain r s' w' where a: "add_cluster (file_backend ''s.json'') 5 sample_cluster empty_store sample_fs = (r, s', w')"
    by (metis prod_cases3)
  with add_cluster_spec [OF a] show ?thesis
    by (auto simp: sample_cluster_def empty_store_def)
qed

lemma open_file_saved:
  assumes "storable s" and "save_store (file_backend path) s fs = (None, fs')"
    and "\<forall>p \<in> set (state_paths path). p \<notin> set (fs_unreadable fs')"
  shows "open_at path fs' = (Inr (norm_store s), fs')"
proof -
  note docs = saved_documents [OF assms(1,2), unfolded store_docs_def state_paths_list zip_Cons_Cons zip_Nil]
  have v: "file_view fs' path = Some (enc_map enc_cluster (st_clusters s))"
    "file_view fs' (sibling path ''services'') = Some (enc_map enc_service (st_services s))"
    "file_view fs' (sibling path ''jobs'') = Some (enc_map enc_job (st_jobs s))"
    "file_view fs' (sibling path ''cluster-yaml'') = Some (enc_map enc_yaml (st_yamls s))"
    "file_view fs' (sibling path ''cluster-history'') = Some (enc_map enc_history (st_history s))"
    "file_view fs' (sibling path ''cluster-events'') = Some (JArr (map enc_event (st_events s)))"
    "file_view fs' (sibling path ''config'') = Some (enc_map enc_entry (st_config s))"
    "file_view fs' (sibling path ''tokens'') = Some (JArr (map enc_token (st_tokens s)))"
    by (rule docs, simp)+
  note d = dec_store_docs [OF assms(1)]
  have u: "path \<notin> set (fs_unreadable fs')" "\<And>c. c \<in> set collections \<Longrightarrow> sibling path c \<notin> set (fs_unreadable fs')"
    using assms(3) by (simp_all add: state_paths_def)
  have l: "load_file_map dec_cluster path fs' = (Inr (st_clusters (norm_store s)), fs')"
    "load_file_map dec_service (sibling path ''services'') fs' = (Inr (st_services (norm_store s)), fs')"
    "load_file_map dec_job (sibling path ''jobs'') fs' = (Inr (st_jobs (norm_store s)), fs')"
    "load_file_map dec_yaml (sibling path ''cluster-yaml'') fs' = (Inr (st_yamls (norm_store s)), fs')"
    "load_file_map dec_history (sibling path ''cluster-history'') fs' = (Inr (st_history (norm_store s)), fs')"
    "load_file ''events'' (dec_list dec_event) [] (sibling path ''cluster-events'') fs' = (Inr (st_events (norm_store s)), fs')"
    "load_file_map dec_entry (sibling path ''config'') fs' = (Inr (st_config (norm_store s)), fs')"
    "load_file ''tokens'' (dec_list dec_token) [] (sibling path ''tokens'') fs' = (Inr (st_tokens (norm_store s)), fs')"
    unfolding load_file_map_def
    by (rule load_file_view, rule u, (simp add: collections_def)?, rule v, rule d)+
  show ?thesis
    by (simp add: open_at_def open_store_def or_close_def file_backend_def l)
qed


lemma sample_storable: "storable (empty_store\<lparr>st_clusters := [(''c'', sample_cluster)]\<rparr>)"
  by (simp add: storable_def store_ok_def empty_store_def keyed_def sample_cluster_def cluster_storable_def)


text \<open>C27. A crash leaves every state file whole: at every step of writing a document, each of the files of the store
  holds what it held before or the complete new document; and a save of the whole store that fails midway
  leaves each file old or new.\<close>

theorem crash_atomic:
  assumes "p \<in> set (state_paths path)" and "q \<in> set (state_paths path)" and "storable s"
    and "save_store (file_backend path) s fs = (r, fs')"
  shows "(\<forall>files' \<in> set (write_states p j files). mget files' q = mget files q \<or> q = p \<and> mget files' q = Some (Doc j)) \<and>
    (file_view fs' q = file_view fs q \<or> (\<exists>d. (q, d) \<in> set (store_docs (state_paths path) s) \<and> file_view fs' q = Some d))"
proof -
  have "tmp_of p \<noteq> q"
    by (rule state_paths_tmp [OF assms(1,2)])
  then have "\<forall>files' \<in> set (write_states p j files). mget files' q = mget files q \<or> q = p \<and> mget files' q = Some (Doc j)"
    by (auto simp: write_states_def)
  moreover have "\<forall>(k, j) \<in> set (store_docs (state_paths path) s). k \<in> set (state_paths path)"
    by (auto simp: store_docs_def dest: set_zip_leftD)
  ultimately show ?thesis
    using file_blob.put_all_atomic [OF assms(4) [unfolded save_store_file [OF assms(3)]] _ assms(2)] by blast
qed

theorem crash_atomic_witness:
  "list_all (\<lambda>files'. mget files' ''s.json'' = Some (Doc (JObj [])) \<or> mget files' ''s.json'' = Some (Doc JNull))
     (write_states ''s.json'' JNull [(''s.json'', Doc (JObj []))])"
proof -
  let ?s = "empty_store\<lparr>st_clusters := [(''c'', sample_cluster)]\<rparr>"
  have p: "''s.json'' \<in> set (state_paths ''s.json'')"
    by (simp add: state_paths_def)
  obtain r fs' where "save_store (file_backend ''s.json'') ?s sample_fs = (r, fs')"
    by force
  from crash_atomic [OF p p sample_storable this, of JNull "[(''s.json'', Doc (JObj []))]"] show ?thesis
    by (auto simp: list_all_iff)
qed

text \<open>A state file that exists and cannot be read is taken for an empty one: opening the store succeeds without the
  clusters of the file, and the next mutation writes over them.\<close>

theorem unreadable_file_is_emptied:
  assumes "fs_files fs = [(path, Doc (enc_map enc_cluster (st_clusters s0)))]" and "fs_unreadable fs = [path]"
    and "fs_faults fs = []" and "cl_name c = n" and "cluster_storable c"
  shows "open_at path fs = (Inr empty_store, fs) \<and>
    (\<exists>s' fs'. add_cluster (file_backend path) now c empty_store fs = (None, s', fs') \<and>
       file_view fs' path = Some (enc_map enc_cluster (st_clusters s')) \<and> mkeys (st_clusters s') = [n])"
proof -
  have sib: "sibling path x \<noteq> path" for x by (rule sibling_not_path)
  have o: "open_at path fs = (Inr empty_store, fs)"
    using assms(1,2) sib
    by (simp add: open_at_def open_store_def or_close_def file_backend_def load_file_map_def load_file_def read_file_def
        empty_store_def)
  let ?c = "c\<lparr>cl_created_at := now, cl_updated_at := now,
    cl_status := (if cl_status c = [] then cluster_provisioning else cl_status c)\<rparr>"
  let ?s = "empty_store\<lparr>st_clusters := [(n, ?c)]\<rparr>"
  have st: "storable ?s"
    using assms(4,5) by (simp add: storable_def store_ok_def empty_store_def keyed_def cluster_storable_def)
  have nf: "\<exists>fs2. write_file k j fs1 = (None, fs2) \<and> fs_faults fs2 = []" if "fs_faults fs1 = []" for k j fs1
    using that by (simp add: write_file_def next_fault_def)
  have "\<exists>fs2. each_w (\<lambda>(k, j). write_file k j) kjs fs1 = (None, fs2)" if "fs_faults fs1 = []" for kjs fs1
    using that
  proof (induction kjs arbitrary: fs1)
    case (Cons kj kjs)
    from nf [OF Cons.prems, of "fst kj" "snd kj"] obtain fs2 where "write_file (fst kj) (snd kj) fs1 = (None, fs2)" "fs_faults fs2 = []"
      by blast
    with Cons.IH [of fs2] show ?case by (cases kj) simp
  qed simp
  then obtain fs' where sv: "save_store (file_backend path) ?s fs = (None, fs')"
    unfolding save_store_file [OF st] using assms(3) by blast
  have "file_view fs' path = Some (enc_map enc_cluster (st_clusters ?s))"
    by (rule saved_documents [OF st sv]) (simp add: store_docs_def state_paths_list)
  moreover have "add_cluster (file_backend path) now c empty_store fs = (None, ?s, fs')"
    using assms(4) sv by (simp add: add_cluster_def empty_store_def persist_def)
  ultimately show ?thesis using o by auto
qed

theorem unreadable_file_is_emptied_witness:
  "open_at ''s.json'' \<lparr>fs_files = [(''s.json'', Doc (enc_map enc_cluster [(''old'', sample_cluster)]))], fs_faults = [],
     fs_unreadable = [''s.json'']\<rparr> =
   (Inr empty_store, \<lparr>fs_files = [(''s.json'', Doc (enc_map enc_cluster [(''old'', sample_cluster)]))], fs_faults = [],
     fs_unreadable = [''s.json'']\<rparr>)"
  using unreadable_file_is_emptied [of "\<lparr>fs_files = [(''s.json'', Doc (enc_map enc_cluster [(''old'', sample_cluster)]))], fs_faults = [],
     fs_unreadable = [''s.json'']\<rparr>" "''s.json''" "empty_store\<lparr>st_clusters := [(''old'', sample_cluster)]\<rparr>" sample_cluster "''c''"]
  by (simp add: sample_cluster_def cluster_storable_def)

text \<open>A mutation that could not be saved is kept in memory: when the backend fails, adding a cluster reports the error,
  yet the cluster is there for every reader and adding it again is refused.\<close>

theorem failed_save_not_rolled_back:
  assumes "add_cluster B now c s w = (Some e, s', w')" and "mget (st_clusters s) (cl_name c) = None"
  shows "(\<exists>c'. get_cluster s' (cl_name c) = Inr c') \<and>
    add_cluster B now2 c s' w' = (Some (Err (''cluster '' @ cl_name c @ '' already exists'')), s', w')"
  using assms by (auto simp: add_cluster_def get_cluster_def Let_def dest!: persist_store)

theorem failed_save_not_rolled_back_witness:
  "\<exists>s' w'. add_cluster (file_backend ''s.json'') 5 sample_cluster empty_store (sample_fs\<lparr>fs_faults := [True]\<rparr>) =
       (Some (Err ''mkdir failed''), s', w') \<and>
     add_cluster (file_backend ''s.json'') 6 sample_cluster s' w' = (Some (Err ''cluster c already exists''), s', w')"
proof -
  have "fst (add_cluster (file_backend ''s.json'') 5 sample_cluster empty_store (sample_fs\<lparr>fs_faults := [True]\<rparr>)) =
      Some (Err ''mkdir failed'')"
    by code_simp
  then obtain s' w' where a: "add_cluster (file_backend ''s.json'') 5 sample_cluster empty_store (sample_fs\<lparr>fs_faults := [True]\<rparr>) =
      (Some (Err ''mkdir failed''), s', w')"
    by (metis prod.collapse)
  have n: "cl_name sample_cluster = ''c''" "mget (st_clusters empty_store) (cl_name sample_cluster) = None"
    by (simp_all add: sample_cluster_def empty_store_def)
  from a failed_save_not_rolled_back [OF a n(2), of 6] show ?thesis
    by (simp add: n(1))
qed

text \<open>Revoking works: once a token is deleted its secret is refused and every other token is judged as before, when
  the tokens have different identifiers and hashes.\<close>

theorem revoked_token_refused:
  assumes "t \<in> set (st_tokens s)" and "distinct (map tk_id (st_tokens s))" and "distinct (map tk_hash (st_tokens s))"
    and "delete_token B (tk_id t) s w = ((found, e), s', w')"
  shows "found \<and> get_token_by_hash s' (tk_hash t) now = Inl (Err ''token not found'') \<and>
    (\<forall>h. h \<noteq> tk_hash t \<longrightarrow> get_token_by_hash s' h now = get_token_by_hash s h now)"
proof -
  have "remove_token i ts \<noteq> None" if "i \<in> tk_id ` set ts" for i ts
    using that by (induction ts) auto
  with assms(1) obtain rest where rest: "remove_token (tk_id t) (st_tokens s) = Some rest"
    by fastforce
  then obtain a u b where ab: "st_tokens s = a @ u # b" "rest = a @ b" "tk_id u = tk_id t"
    using remove_token_split by blast
  have "u = t"
    using assms(1,2) ab by (auto dest: image_eqI [where f = tk_id] simp: image_iff)
  moreover have "st_tokens s' = rest" "found"
    using assms(4) rest by (auto simp: delete_token_def dest!: persist_store split: prod.splits)
  moreover have "find_token (a @ b) (tk_hash t) now = Inl (Err ''token not found'')"
    using assms(3) ab \<open>u = t\<close> by (intro find_token_none) auto
  ultimately show ?thesis
    using ab find_token_skip [of t _ a b now] by (auto simp: get_token_by_hash_def)
qed

definition sample_token :: "string \<Rightarrow> token" where
  "sample_token i = \<lparr>tk_id = i, tk_name = ''n'', tk_hash = ''h'' @ i, tk_created_at = 0, tk_last_used_at = 0,
     tk_expires_at = 0, tk_creator = [], tk_active = True\<rparr>"

lemma sample_token_fields [simp]: "tk_id (sample_token i) = i" "tk_hash (sample_token i) = ''h'' @ i"
  by (simp_all add: sample_token_def)

definition two_tokens :: store where
  "two_tokens = empty_store\<lparr>st_tokens := [sample_token ''a'', sample_token ''b'']\<rparr>"

lemma two_tokens_list: "st_tokens two_tokens = [sample_token ''a'', sample_token ''b'']"
  by (simp add: two_tokens_def)

theorem revoked_token_refused_witness:
  "\<exists>s' w'. delete_token (file_backend ''s.json'') ''a'' two_tokens sample_fs = ((True, None), s', w') \<and>
     get_token_by_hash s' ''ha'' 9 = Inl (Err ''token not found'')"
proof -
  have "fst (delete_token (file_backend ''s.json'') ''a'' two_tokens sample_fs) = (True, None)"
    by code_simp
  then obtain s' w' where d: "delete_token (file_backend ''s.json'') ''a'' two_tokens sample_fs = ((True, None), s', w')"
    by (metis prod.collapse)
  then have "delete_token (file_backend ''s.json'') (tk_id (sample_token ''a'')) two_tokens sample_fs = ((True, None), s', w')"
    by simp
  from revoked_token_refused [OF _ _ _ this, of 9] d show ?thesis
    by (simp add: two_tokens_list)
qed

text \<open>Rotating a token replaces its secret: the new secret is accepted until the new expiry, the old one is refused, the
  identifier stays.\<close>

theorem rotated_token:
  assumes "distinct (map tk_hash (st_tokens s))" and "t \<in> set (st_tokens s)" and "distinct (map tk_id (st_tokens s))"
    and "hash secret \<notin> tk_hash ` set (st_tokens s)"
    and "rotate_token B hash now secret (tk_id t) expires s w = (Inr (t', secret'), s', w')"
  shows "secret' = secret \<and> tk_id t' = tk_id t \<and>
    (\<not> (0 < expires \<and> expires < later) \<longrightarrow> get_token_by_hash s' (hash secret) later = Inr t') \<and>
    get_token_by_hash s' (tk_hash t) later = Inl (Err ''token not found'')"
proof -
  let ?f = "\<lambda>t. t\<lparr>tk_hash := hash secret, tk_expires_at := expires, tk_created_at := now, tk_last_used_at := 0\<rparr>"
  from assms(5) obtain ts' where c: "change_token (tk_id t) ?f (st_tokens s) = Some (t', ts')"
    and s': "st_tokens s' = ts'" "secret' = secret"
    by (auto simp: rotate_token_def dest!: persist_store split: option.splits prod.splits)
  from change_token_split [OF c] obtain a u b where ab: "st_tokens s = a @ u # b" "ts' = a @ t' # b" "t' = ?f u" "tk_id u = tk_id t"
    by blast
  have "u = t"
    using assms(2,3) ab by (auto dest: image_eqI [where f = tk_id] simp: image_iff)
  have "find_token (a @ t' # b) (hash secret) later = find_token (t' # b) (hash secret) later"
    using assms(4) ab by (intro find_token_append) auto
  moreover have "find_token (a @ t' # b) (tk_hash t) later = Inl (Err ''token not found'')"
    using assms(1,4) ab \<open>u = t\<close> by (intro find_token_none) auto
  ultimately show ?thesis
    using ab \<open>u = t\<close> s' by (auto simp: get_token_by_hash_def token_expired_def)
qed

theorem rotated_token_witness:
  "\<exists>t' s' w'. rotate_token (file_backend ''s.json'') (\<lambda>x. ''H'' @ x) 5 ''new'' ''a'' 0 two_tokens sample_fs =
       (Inr (t', ''new''), s', w') \<and>
     get_token_by_hash s' ''Hnew'' 100 = Inr t' \<and> get_token_by_hash s' ''ha'' 100 = Inl (Err ''token not found'')"
proof -
  let ?r = "rotate_token (file_backend ''s.json'') (\<lambda>x. ''H'' @ x) 5 ''new'' ''a'' 0 two_tokens sample_fs"
  have "fst ?r = Inr (fst (projr (fst ?r)), ''new'')"
    by code_simp
  then obtain t' s' w' where d: "?r = (Inr (t', ''new''), s', w')"
    by (metis prod.collapse)
  then have "rotate_token (file_backend ''s.json'') (\<lambda>x. ''H'' @ x) 5 ''new'' (tk_id (sample_token ''a'')) 0 two_tokens sample_fs =
      (Inr (t', ''new''), s', w')"
    by simp
  from rotated_token [OF _ _ _ _ this, of 100] d show ?thesis
    by (simp add: two_tokens_list)
qed

end
