(* ===== verification/Effects.thy ===== *)
theory Effects
  imports State_Store
begin

text \<open>
  What the operations on clusters need from outside, and how they are sequenced. An operation is
  an action: a function of the state store and of the outside world that returns a result or an
  error with the new state, so that what happened before an error stays. The outside world is
  opaque: the clock, the cloud providers, the programs run (\<open>ssh\<close>, \<open>scp\<close>, \<open>docker\<close>, \<open>bash\<close>) and the file
  system are functions of it collected in the record \<open>ext\<close>, about which theorems assume what they
  need by name.
\<close>

named_theorems act_simps \<open>unfolding of actions\<close>

section \<open>Actions\<close>

type_synonym ('a, 's) act = "'s \<Rightarrow> 'a res \<times> 's"

definition ret :: "'a \<Rightarrow> ('a, 's) act" where
  "ret x s = (Inr x, s)"

definition raise :: "error \<Rightarrow> ('a, 's) act" where
  "raise e s = (Inl e, s)"

definition bind_act :: "('a, 's) act \<Rightarrow> ('a \<Rightarrow> ('b, 's) act) \<Rightarrow> ('b, 's) act" where
  "bind_act m f s = (case m s of (Inl e, s') \<Rightarrow> (Inl e, s') | (Inr x, s') \<Rightarrow> f x s')"

definition seq_act :: "('a, 's) act \<Rightarrow> ('b, 's) act \<Rightarrow> ('b, 's) act" where
  "seq_act m n = bind_act m (\<lambda>_. n)"

text \<open>\<open>if err := m; err != nil { handler }\<close>, and a call whose error is dropped.\<close>

definition catch_act :: "('a, 's) act \<Rightarrow> (error \<Rightarrow> ('a, 's) act) \<Rightarrow> ('a, 's) act" where
  "catch_act m h s = (case m s of (Inl e, s') \<Rightarrow> h e s' | (Inr x, s') \<Rightarrow> (Inr x, s'))"

definition quiet :: "('a, 's) act \<Rightarrow> (unit, 's) act" where
  "quiet m s = (Inr (), snd (m s))"

definition when_act :: "bool \<Rightarrow> (unit, 's) act \<Rightarrow> (unit, 's) act" where
  "when_act b m = (if b then m else ret ())"

definition of_res :: "'a res \<Rightarrow> ('a, 's) act" where
  "of_res r s = (r, s)"

lemma ret_simps [simp, act_simps]:
  "ret x s = (Inr x, s)" "raise e s = (Inl e, s)" "of_res r s = (r, s)" "quiet m s = (Inr (), snd (m s))"
  by (simp_all add: ret_def raise_def of_res_def quiet_def)

lemma bind_act_Inr [act_simps]:
  "bind_act m f s = (Inr y, s') \<longleftrightarrow> (\<exists>x s1. m s = (Inr x, s1) \<and> f x s1 = (Inr y, s'))"
  by (auto simp: bind_act_def split: prod.splits sum.splits)

lemma bind_act_Inl [act_simps]:
  "bind_act m f s = (Inl e, s') \<longleftrightarrow> m s = (Inl e, s') \<or> (\<exists>x s1. m s = (Inr x, s1) \<and> f x s1 = (Inl e, s'))"
  by (auto simp: bind_act_def split: prod.splits sum.splits)

lemma bind_act_apply: "m s = (Inr x, s1) \<Longrightarrow> bind_act m f s = f x s1"
  by (simp add: bind_act_def)

lemma bind_act_fail: "m s = (Inl e, s1) \<Longrightarrow> bind_act m f s = (Inl e, s1)"
  by (simp add: bind_act_def)

lemma when_act_simps [simp, act_simps]: "when_act True m = m" "when_act False m s = (Inr (), s)"
  by (simp_all add: when_act_def)

text \<open>
  A predicate on the state that an action keeps whatever its outcome. The rules follow the
  structure of an operation, so an invariant of the store is checked call by call.
\<close>

definition keeps :: "('s \<Rightarrow> bool) \<Rightarrow> ('a, 's) act \<Rightarrow> bool" where
  "keeps P m \<longleftrightarrow> (\<forall>s. P s \<longrightarrow> P (snd (m s)))"

named_theorems keeps_intros \<open>rules for \<open>keeps\<close>\<close>

lemma keepsI: "(\<And>s. P s \<Longrightarrow> P (snd (m s))) \<Longrightarrow> keeps P m"
  by (simp add: keeps_def)

lemma keepsD: "keeps P m \<Longrightarrow> P s \<Longrightarrow> m s = (r, s') \<Longrightarrow> P s'"
  by (metis keeps_def snd_conv)

lemma keeps_basic [keeps_intros]: "keeps P (ret x)" "keeps P (raise e)" "keeps P (of_res r)"
  by (simp_all add: keeps_def)

lemma keeps_bind [keeps_intros]: "keeps P m \<Longrightarrow> (\<And>x. keeps P (f x)) \<Longrightarrow> keeps P (bind_act m f)"
  by (force simp: keeps_def bind_act_def split: prod.split sum.split)

lemma keeps_seq [keeps_intros]: "keeps P m \<Longrightarrow> keeps P n \<Longrightarrow> keeps P (seq_act m n)"
  by (simp add: seq_act_def keeps_bind)

lemma keeps_catch [keeps_intros]: "keeps P m \<Longrightarrow> (\<And>e. keeps P (h e)) \<Longrightarrow> keeps P (catch_act m h)"
  by (force simp: keeps_def catch_act_def split: prod.split sum.split)

lemma keeps_quiet [keeps_intros]: "keeps P m \<Longrightarrow> keeps P (quiet m)"
  by (simp add: keeps_def)

lemma keeps_when [keeps_intros]: "keeps P m \<Longrightarrow> keeps P (when_act b m)"
  by (simp add: when_act_def keeps_basic)

lemma keeps_if [keeps_intros]: "keeps P m \<Longrightarrow> keeps P n \<Longrightarrow> keeps P (if b then m else n)"
  by simp

section \<open>The outside world\<close>

text \<open>
  How a program run ends: with an exit code (0 is success, any other an \<open>ExitError\<close>), or without
  having run. Its output is the list of its writes, each with the stream it went to (\<open>False\<close>
  is \<open>stdout\<close>).
\<close>

datatype outcome = Exited int | Not_run error

type_synonym prog_output = "(bool \<times> string) list"

text \<open>
  \<open>x_now\<close> is the clock in nanoseconds. \<open>x_tick d t0 k\<close> waits for the k-th tick of a ticker of period
  \<open>d\<close> made at \<open>t0\<close>, \<open>x_sleep d\<close> for \<open>d\<close>; both return the error of the context when it is done first.
  \<open>x_exec\<close> runs a program with the given text as input. \<open>x_order\<close> is the order in which the
  goroutines of one group run, as a list of positions. \<open>x_emit\<close> passes a line to the caller's callback.
\<close>

record ('p, 'w) ext =
  x_backend :: "'w backend_ops"
  x_now :: "'w \<Rightarrow> int"
  x_sleep :: "int \<Rightarrow> 'w \<Rightarrow> error option \<times> 'w"
  x_tick :: "int \<Rightarrow> int \<Rightarrow> nat \<Rightarrow> 'w \<Rightarrow> error option \<times> 'w"
  x_registries :: "('p, 'w) registries"
  x_create_key :: "'p \<Rightarrow> string \<Rightarrow> string \<Rightarrow> 'w \<Rightarrow> string res \<times> 'w"
  x_get_image :: "'p \<Rightarrow> string \<Rightarrow> string \<Rightarrow> 'w \<Rightarrow> string res \<times> 'w"
  x_run_instances :: "'p \<Rightarrow> launch_spec \<Rightarrow> 'w \<Rightarrow> inst list res \<times> 'w"
  x_describe :: "'p \<Rightarrow> string \<Rightarrow> string list \<Rightarrow> 'w \<Rightarrow> inst list res \<times> 'w"
  x_stop :: "'p \<Rightarrow> string \<Rightarrow> string list \<Rightarrow> 'w \<Rightarrow> error option \<times> 'w"
  x_start :: "'p \<Rightarrow> string \<Rightarrow> string list \<Rightarrow> 'w \<Rightarrow> error option \<times> 'w"
  x_terminate :: "'p \<Rightarrow> string \<Rightarrow> string list \<Rightarrow> 'w \<Rightarrow> error option \<times> 'w"
  x_exists :: "string \<Rightarrow> 'w \<Rightarrow> bool"
  x_is_file :: "string \<Rightarrow> 'w \<Rightarrow> bool"
  x_mkdir :: "string \<Rightarrow> 'w \<Rightarrow> error option \<times> 'w"
  x_write :: "string \<Rightarrow> string \<Rightarrow> 'w \<Rightarrow> error option \<times> 'w"
  x_exec :: "string list \<Rightarrow> string \<Rightarrow> 'w \<Rightarrow> (prog_output \<times> outcome) \<times> 'w"
  x_emit :: "string \<Rightarrow> 'w \<Rightarrow> 'w"
  x_order :: "'w \<Rightarrow> nat \<Rightarrow> nat list"
  x_env :: "string smap"
  x_executable :: "string res"
  x_join :: "string list \<Rightarrow> string"
  x_dir :: "string \<Rightarrow> string"
  x_yaml :: "task \<Rightarrow> string"
  x_load_task :: "string \<Rightarrow> 'w \<Rightarrow> task res"
  x_zone :: "int \<Rightarrow> int"

type_synonym 'w sys = "store \<times> 'w"

definition unix :: "('p, 'w) ext \<Rightarrow> 'w \<Rightarrow> int" where
  "unix X w = x_now X w div 1000000000"

section \<open>Lifting\<close>

definition err_res :: "error option \<Rightarrow> unit res" where
  "err_res e = (case e of None \<Rightarrow> Inr () | Some x \<Rightarrow> Inl x)"

definition world :: "('w \<Rightarrow> 'a res \<times> 'w) \<Rightarrow> ('a, 'w sys) act" where
  "world f = (\<lambda>(s, w). case f w of (r, w') \<Rightarrow> (r, (s, w')))"

definition world_err :: "('w \<Rightarrow> error option \<times> 'w) \<Rightarrow> (unit, 'w sys) act" where
  "world_err f = (\<lambda>(s, w). case f w of (e, w') \<Rightarrow> (err_res e, (s, w')))"

definition stored :: "(store \<Rightarrow> 'w \<Rightarrow> error option \<times> store \<times> 'w) \<Rightarrow> (unit, 'w sys) act" where
  "stored f = (\<lambda>(s, w). case f s w of (e, s', w') \<Rightarrow> (err_res e, (s', w')))"

definition asks :: "(store \<Rightarrow> 'a res) \<Rightarrow> ('a, 'w sys) act" where
  "asks f = (\<lambda>(s, w). (f s, (s, w)))"

definition look :: "('w \<Rightarrow> 'a) \<Rightarrow> ('a, 'w sys) act" where
  "look f = (\<lambda>(s, w). (Inr (f w), (s, w)))"

text \<open>The operations of the store, with the time of the call.\<close>

definition do_add_cluster :: "('p, 'w) ext \<Rightarrow> cluster \<Rightarrow> (unit, 'w sys) act" where
  "do_add_cluster X c = stored (\<lambda>s w. add_cluster (x_backend X) (unix X w) c s w)"

definition do_update_cluster :: "('p, 'w) ext \<Rightarrow> string \<Rightarrow> (cluster \<Rightarrow> cluster) \<Rightarrow> (unit, 'w sys) act" where
  "do_update_cluster X name f =
     stored (\<lambda>s w. update_cluster (x_backend X) (unix X w) name (\<lambda>c. (None, f c)) s w)"

definition do_delete_cluster :: "('p, 'w) ext \<Rightarrow> string \<Rightarrow> (unit, 'w sys) act" where
  "do_delete_cluster X name = stored (delete_cluster (x_backend X) name)"

definition do_event :: "('p, 'w) ext \<Rightarrow> cluster_event \<Rightarrow> (unit, 'w sys) act" where
  "do_event X e = stored (\<lambda>s w. add_cluster_event (x_backend X) (unix X w) e s w)"

definition do_record_yaml :: "('p, 'w) ext \<Rightarrow> string \<Rightarrow> string \<Rightarrow> (unit, 'w sys) act" where
  "do_record_yaml X name y = stored (\<lambda>s w. record_cluster_yaml (x_backend X) (unix X w) name y s w)"

definition do_record_history :: "('p, 'w) ext \<Rightarrow> cluster_history \<Rightarrow> (unit, 'w sys) act" where
  "do_record_history X h = stored (\<lambda>s w. record_cluster_history (x_backend X) (unix X w) h s w)"

definition do_add_job :: "('p, 'w) ext \<Rightarrow> job \<Rightarrow> (unit, 'w sys) act" where
  "do_add_job X j = stored (\<lambda>s w. add_job (x_backend X) (unix X w) j s w)"

definition do_update_job :: "('p, 'w) ext \<Rightarrow> string \<Rightarrow> (job \<Rightarrow> job) \<Rightarrow> (unit, 'w sys) act" where
  "do_update_job X name f = stored (\<lambda>s w. update_job (x_backend X) (unix X w) name (\<lambda>j. (None, f j)) s w)"

definition do_add_service :: "('p, 'w) ext \<Rightarrow> service \<Rightarrow> (unit, 'w sys) act" where
  "do_add_service X v = stored (\<lambda>s w. add_service (x_backend X) (unix X w) v s w)"

definition do_update_service :: "('p, 'w) ext \<Rightarrow> string \<Rightarrow> (service \<Rightarrow> service) \<Rightarrow> (unit, 'w sys) act" where
  "do_update_service X name f =
     stored (\<lambda>s w. update_service (x_backend X) (unix X w) name (\<lambda>v. (None, f v)) s w)"

lemma keeps_world [keeps_intros]:
  "keeps (\<lambda>(s, w). P s) (world f)" "keeps (\<lambda>(s, w). P s) (world_err g)"
  "keeps (\<lambda>(s, w). P s) (asks h)" "keeps (\<lambda>(s, w). P s) (look k)"
  by (auto simp: keeps_def world_def world_err_def asks_def look_def split: prod.splits)

lemma keeps_stored:
  "(\<And>s w. P s \<Longrightarrow> P (fst (snd (f s w)))) \<Longrightarrow> keeps (\<lambda>(s, w). P s) (stored f)"
  by (simp add: keeps_def stored_def split_beta)

section \<open>A group of goroutines\<close>

text \<open>
  The goroutines of a group are run one after the other, in the order \<open>x_order\<close> says; all of them
  run before the caller goes on. Their results come in the order of their completion.
\<close>

fun run_all :: "('n \<Rightarrow> 'w \<Rightarrow> 'r \<times> 'w) \<Rightarrow> 'n list \<Rightarrow> 'w \<Rightarrow> 'r list \<times> 'w" where
  "run_all f [] w = ([], w)"
| "run_all f (n # ns) w =
     (case f n w of (r, w1) \<Rightarrow> (case run_all f ns w1 of (rs, w2) \<Rightarrow> (r # rs, w2)))"

definition parallel :: "('p, 'w) ext \<Rightarrow> ('n \<Rightarrow> 'w \<Rightarrow> 'r \<times> 'w) \<Rightarrow> 'n list \<Rightarrow> 'w \<Rightarrow> 'r list \<times> 'w" where
  "parallel X f ns w = run_all f (map ((!) ns) (x_order X w (length ns))) w"

text \<open>The documented behaviour of goroutines: each runs once.\<close>

definition fair_order :: "('p, 'w) ext \<Rightarrow> bool" where
  "fair_order X \<longleftrightarrow> (\<forall>w n. mset (x_order X w n) = mset [0..<n])"

definition first_error :: "error option list \<Rightarrow> error option" where
  "first_error es = (case find (\<lambda>e. e \<noteq> None) es of None \<Rightarrow> None | Some e \<Rightarrow> e)"

lemma first_error_None: "first_error es = None \<longleftrightarrow> set es \<subseteq> {None}"
  by (induction es) (auto simp: first_error_def)

lemma length_run_all: "length (fst (run_all f ns w)) = length ns"
  by (induction ns arbitrary: w) (simp_all add: split_beta)

lemma fair_order_nodes:
  assumes "fair_order X"
  shows "mset (map ((!) ns) (x_order X w (length ns))) = mset ns"
proof -
  have "mset (map ((!) ns) (x_order X w (length ns))) = image_mset ((!) ns) (mset [0..<length ns])"
    using assms by (simp add: fair_order_def)
  also have "\<dots> = mset (map ((!) ns) [0..<length ns])" by simp
  finally show ?thesis by (simp add: map_nth)
qed

end
