(* ===== verification/Provisioner.thy ===== *)
theory Provisioner
  imports Effects
begin

text \<open>
  \<open>internal/provisioner\<close>: the life of a cluster of cloud machines. Launching finds keys and an image,
  starts the machines, records the cluster, waits until they run, starts Ray and the agent; tasks
  and commands run over \<open>ssh\<close>; stopping, starting and tearing down go through the provider that
  created the cluster. A Go pointer to a cluster is the store's own object, so what an operation
  writes through it is what the store holds: the model reads the stored cluster again where the
  code follows the pointer. The two waiting loops take a number of rounds; \<open>Provisioner_Props\<close>
  shows how many are enough.
\<close>

section \<open>Text helpers\<close>

definition shell_quote :: "string \<Rightarrow> string" where
  "shell_quote s = [CHR 0x27] @ replace_char CHR 0x27 [CHR 0x27, CHR 0x5C, CHR 0x27, CHR 0x27] s @ [CHR 0x27]"

definition nl :: string where "nl = [CHR 0x0A]"

definition dq :: string where "dq = [CHR 0x22]"

definition bootstrap_script :: "string \<Rightarrow> string" where
  "bootstrap_script name =
     ''#!/bin/bash'' @ nl @ ''set -e'' @ nl @
     ''echo '' @ dq @ ''gpi bootstrap started for '' @ name @ dq @ '' >> /var/log/gpi-bootstrap.log'' @ nl @
     ''grep -q gpi-bootstrap /etc/rc.local 2>/dev/null || true'' @ nl"

definition ray_install_script :: string where
  "ray_install_script =
     ''set -e'' @ nl @
     ''which pip3 >/dev/null 2>&1 || (sudo apt-get update -y >/dev/null 2>&1 && sudo apt-get install -y python3-pip >/dev/null 2>&1)'' @ nl @
     ''sudo pip3 install -q ray >/dev/null 2>&1 || true'' @ nl @
     ''ray --version >/dev/null 2>&1''"

definition gpilet_start_script :: string where
  "gpilet_start_script =
     ''chmod +x /usr/local/bin/gpilet && mkdir -p /var/lib/gpilet && (pgrep -f gpilet >/dev/null 2>&1 || nohup /usr/local/bin/gpilet serve --dir /var/lib/gpilet --interval 10 > /var/log/gpilet.log 2>&1 &)''"

definition gpilet_status_script :: string where
  "gpilet_status_script =
     ''/usr/local/bin/gpilet status --dir /var/lib/gpilet 2>/dev/null || cat /var/lib/gpilet/status.json 2>/dev/null || echo '' @
     [CHR 0x27] @ ''{'' @ dq @ ''error'' @ dq @ '':'' @ dq @ ''gpilet not available'' @ dq @ ''}'' @ [CHR 0x27] @ nl"

text \<open>\<open>json.Marshal\<close> of a map of strings: sorted keys, quotes and control characters escaped, and the three
  characters special to HTML; bytes from 0x80 on are taken to be valid text and kept.\<close>

definition hex_digit :: "nat \<Rightarrow> char" where
  "hex_digit n = (if n < 10 then char_of (48 + n) else char_of (87 + n))"

definition json_char :: "char \<Rightarrow> string" where
  "json_char c =
     (if c = CHR 0x22 \<or> c = CHR 0x5C then [CHR 0x5C, c]
      else if c = CHR 0x08 then [CHR 0x5C, CHR ''b'']
      else if c = CHR 0x0C then [CHR 0x5C, CHR ''f'']
      else if c = CHR 0x0A then [CHR 0x5C, CHR ''n'']
      else if c = CHR 0x0D then [CHR 0x5C, CHR ''r'']
      else if c = CHR 0x09 then [CHR 0x5C, CHR ''t'']
      else if c < CHR '' '' \<or> c \<in> {CHR ''<'', CHR ''>'', CHR ''&''}
      then [CHR 0x5C] @ ''u00'' @ [hex_digit (of_char c div 16), hex_digit (of_char c mod 16)]
      else [c])"

definition json_text :: "string \<Rightarrow> string" where
  "json_text s = dq @ concat (map json_char s) @ dq"

definition json_labels :: "string smap \<Rightarrow> string" where
  "json_labels m =
     ''{'' @ join_with '','' (map (\<lambda>k. json_text k @ '':'' @ json_text (the (mget m k))) (sorted_keys m)) @ ''}''"

section \<open>Running programs\<close>

text \<open>\<open>lineWriter.Write\<close>: a scanner over each write on its own; it stops at a line of 64 KiB.\<close>

definition drop_cr :: "string \<Rightarrow> string" where
  "drop_cr l = (if l \<noteq> [] \<and> last l = CHR 0x0D then butlast l else l)"

definition scan_lines :: "string \<Rightarrow> string list" where
  "scan_lines s =
     (let ls = split_on CHR 0x0A s;
          complete = (if last ls = [] then butlast ls else ls)
      in map drop_cr (takeWhile (\<lambda>l. length l < 65536) complete))"

definition emit_lines :: "('p, 'w) ext \<Rightarrow> bool \<Rightarrow> string list \<Rightarrow> 'w \<Rightarrow> 'w" where
  "emit_lines X stream ls w = (if stream then fold (x_emit X) ls w else w)"

definition ssh_bin :: "('p, 'w) ext \<Rightarrow> string" where
  "ssh_bin X = (if getenv (x_env X) ''GPI_SSH'' \<noteq> [] then getenv (x_env X) ''GPI_SSH'' else ''ssh'')"

definition host_options :: "string list" where
  "host_options = [''-o'', ''StrictHostKeyChecking=no'', ''-o'', ''UserKnownHostsFile=/dev/null'']"

definition ssh_args :: "('p, 'w) ext \<Rightarrow> string \<Rightarrow> string \<Rightarrow> string \<Rightarrow> string list" where
  "ssh_args X key user ip = [ssh_bin X] @ host_options @ [''-i'', key, user @ ''@'' @ ip, ''bash -s'']"

definition run_ssh_stream ::
  "('p, 'w) ext \<Rightarrow> bool \<Rightarrow> string \<Rightarrow> string \<Rightarrow> string \<Rightarrow> string \<Rightarrow> 'w \<Rightarrow> int res \<times> 'w" where
  "run_ssh_stream X stream key user ip script w =
     (case x_exec X (ssh_args X key user ip) script w of
        ((out, oc), w1) \<Rightarrow>
          (let w2 = emit_lines X stream (concat (map (\<lambda>(_, chunk). scan_lines chunk) out)) w1
           in case oc of Exited c \<Rightarrow> (Inr c, w2) | Not_run e \<Rightarrow> (Inl e, w2)))"

definition run_ssh_output ::
  "('p, 'w) ext \<Rightarrow> string \<Rightarrow> string \<Rightarrow> string \<Rightarrow> string \<Rightarrow> 'w \<Rightarrow> (string \<times> int) res \<times> 'w" where
  "run_ssh_output X key user ip script w =
     (case x_exec X (ssh_args X key user ip) script w of
        ((out, Exited c), w1) \<Rightarrow> (Inr (trim_space (concat (map snd out)), c), w1)
      | ((out, Not_run e), w1) \<Rightarrow> (Inl e, w1))"

definition scp :: "('p, 'w) ext \<Rightarrow> string list \<Rightarrow> string \<Rightarrow> string \<Rightarrow> string \<Rightarrow> 'w \<Rightarrow> error option \<times> 'w" where
  "scp X flags key source target w =
     (case x_exec X ([''scp''] @ flags @ host_options @ [''-i'', key, source, target]) [] w of
        ((out, oc), w1) \<Rightarrow>
          (if oc = Exited 0 then (None, w1) else (Some (Err (trim_space (concat (map snd out)))), w1)))"

definition copy_file :: "('p, 'w) ext \<Rightarrow> string \<Rightarrow> string \<Rightarrow> string \<Rightarrow> 'w \<Rightarrow> error option \<times> 'w" where
  "copy_file X key source target = scp X [] key source target"

definition copy_dir :: "('p, 'w) ext \<Rightarrow> string \<Rightarrow> string \<Rightarrow> string \<Rightarrow> 'w \<Rightarrow> error option \<times> 'w" where
  "copy_dir X key source target = scp X [''-r''] key source target"

section \<open>Waiting\<close>

definition out_of_rounds :: error where "out_of_rounds = Panic ''the loop has not returned''"

text \<open>\<open>waitSSH\<close>: five seconds between two attempts, ten minutes in all. \<open>None\<close>: the rounds are used up.\<close>

fun wait_ssh_loop :: "nat \<Rightarrow> ('p, 'w) ext \<Rightarrow> string list \<Rightarrow> string \<Rightarrow> int \<Rightarrow> 'w \<Rightarrow> (error option \<times> 'w) option" where
  "wait_ssh_loop 0 X args ip deadline w = None"
| "wait_ssh_loop (Suc n) X args ip deadline w =
     (case x_exec X args [] w of
        ((_, oc), w1) \<Rightarrow>
          (if oc = Exited 0 then Some (None, w1)
           else if deadline < x_now X w1 then Some (Some (Err (''timeout waiting for SSH on '' @ ip)), w1)
           else (case x_sleep X (5 * second) w1 of
               (Some e, w2) \<Rightarrow> Some (Some e, w2)
             | (None, w2) \<Rightarrow> wait_ssh_loop n X args ip deadline w2)))"

definition ssh_wait_time :: int where "ssh_wait_time = 10 * 60 * second"

definition wait_ssh :: "nat \<Rightarrow> ('p, 'w) ext \<Rightarrow> string \<Rightarrow> string \<Rightarrow> string \<Rightarrow> 'w \<Rightarrow> error option \<times> 'w" where
  "wait_ssh n X key user ip w =
     (case wait_ssh_loop n X
        ([ssh_bin X, ''-o'', ''BatchMode=yes''] @ host_options @ [''-i'', key, user @ ''@'' @ ip, ''true''])
        ip (x_now X w + ssh_wait_time) w of
        Some r \<Rightarrow> r
      | None \<Rightarrow> (Some out_of_rounds, w))"

definition wait_all_ssh :: "nat \<Rightarrow> ('p, 'w) ext \<Rightarrow> cluster \<Rightarrow> 'w \<Rightarrow> error option \<times> 'w" where
  "wait_all_ssh n X c w =
     each_w (\<lambda>nd w. if n_public_ip nd = [] then (None, w)
                    else wait_ssh n X (cl_key_path c) ''root'' (n_public_ip nd) w) (cl_instances c) w"

text \<open>\<open>waitReady\<close>: what the provider says of each node is copied into it; a node it does not mention
  keeps what it had and is not running.\<close>

definition by_id :: "inst list \<Rightarrow> inst smap" where
  "by_id is = foldl (\<lambda>m i. mput (i_id i) i m) [] is"

definition refresh_node :: "inst smap \<Rightarrow> node \<Rightarrow> node" where
  "refresh_node m nd =
     (case mget m (n_id nd) of
        None \<Rightarrow> nd
      | Some i \<Rightarrow> nd\<lparr>n_public_ip := i_public_ip i, n_private_ip := i_private_ip i, n_status := i_status i\<rparr>)"

definition all_running :: "inst smap \<Rightarrow> node list \<Rightarrow> bool" where
  "all_running m nds \<longleftrightarrow>
     list_all (\<lambda>nd. case mget m (n_id nd) of None \<Rightarrow> False | Some i \<Rightarrow> i_status i = status_running) nds"

definition set_nodes :: "node list \<Rightarrow> cluster_status \<Rightarrow> cluster \<Rightarrow> cluster" where
  "set_nodes nds st c = c\<lparr>cl_instances := nds, cl_status := st\<rparr>"

fun wait_ready_loop ::
  "nat \<Rightarrow> ('p, 'w) ext \<Rightarrow> 'p \<Rightarrow> string \<Rightarrow> string \<Rightarrow> string list \<Rightarrow> int \<Rightarrow> nat \<Rightarrow> node list \<Rightarrow> 'w sys
   \<Rightarrow> (unit res \<times> 'w sys) option" where
  "wait_ready_loop 0 X p name region ids t0 k nds s = None"
| "wait_ready_loop (Suc n) X p name region ids t0 k nds s =
     (case world (x_describe X p region ids) s of
        (Inl e, s1) \<Rightarrow> Some (Inl (wrap_err ''describe instances: '' e), s1)
      | (Inr is, s1) \<Rightarrow>
          (let m = by_id is;
               nds' = map (refresh_node m) nds;
               s2 = snd (do_update_cluster X name (set_nodes nds' cluster_provisioning) s1)
           in if all_running m nds then Some (do_update_cluster X name (set_nodes nds' cluster_up) s2)
              else if t0 + 15 * 60 * second < x_now X (snd s2)
              then Some (Inl (Err (''timeout waiting for cluster '' @ name @ '' to become ready'')), s2)
              else (case world_err (x_tick X (15 * second) t0 (Suc k)) s2 of
                  (Inl e, s3) \<Rightarrow> Some (Inl e, s3)
                | (Inr _, s3) \<Rightarrow> wait_ready_loop n X p name region ids t0 (Suc k) nds' s3)))"

definition wait_ready :: "nat \<Rightarrow> ('p, 'w) ext \<Rightarrow> 'p \<Rightarrow> cluster \<Rightarrow> (unit, 'w sys) act" where
  "wait_ready n X p c s =
     (case wait_ready_loop n X p (cl_name c) (cl_region c) (map n_id (cl_instances c)) (x_now X (snd s)) 0
             (cl_instances c) s of
        Some r \<Rightarrow> r
      | None \<Rightarrow> (Inl out_of_rounds, s))"

section \<open>Providers and keys\<close>

text \<open>\<open>cloud.New\<close>; a provider is never nil without an error, so the test for nil that follows has no effect.\<close>

definition open_provider :: "('p, 'w) ext \<Rightarrow> string \<Rightarrow> cloud_credentials option \<Rightarrow> ('p, 'w sys) act" where
  "open_provider X cloud creds = of_res (new_provider (x_registries X) cloud creds)"

definition to_cloud_creds :: "cloud_credentials option \<Rightarrow> cloud_credentials option" where
  "to_cloud_creds cc =
     map_option (\<lambda>k. \<lparr>access_key_id = access_key_id k, secret_access_key = secret_access_key k, cred_region = cred_region k\<rparr>) cc"

definition state_cloud_creds :: "cloud_credentials option \<Rightarrow> cloud_credentials option" where
  "state_cloud_creds cc =
     map_option (\<lambda>k. \<lparr>access_key_id = access_key_id k, secret_access_key = secret_access_key k, cred_region = cred_region k\<rparr>) cc"

definition provider_for_cluster :: "('p, 'w) ext \<Rightarrow> cluster \<Rightarrow> ('p, 'w sys) act" where
  "provider_for_cluster X c = open_provider X (cl_cloud c) (to_cloud_creds (cl_creds c))"

definition ensure_key_pair ::
  "('p, 'w) ext \<Rightarrow> string \<Rightarrow> 'p \<Rightarrow> string \<Rightarrow> string \<Rightarrow> (string \<times> string, 'w sys) act" where
  "ensure_key_pair X dir p name region =
     (let key_name = ''gpi-'' @ name @ ''-key'';
          key_dir = x_join X [dir, ''keys''];
          key_path = x_join X [key_dir, key_name @ ''.pem'']
      in bind_act (look (x_exists X key_path)) (\<lambda>found.
         if found then ret (key_name, key_path)
         else seq_act (world_err (x_mkdir X key_dir))
           (bind_act (catch_act (world (x_create_key X p region key_name)) (\<lambda>e. raise (wrap_err ''create keypair: '' e)))
             (\<lambda>private. seq_act (world_err (x_write X key_path private)) (ret (key_name, key_path))))))"

section \<open>Launching\<close>

definition launch_tags :: "task \<Rightarrow> string \<Rightarrow> string \<Rightarrow> string smap" where
  "launch_tags ts name cloud =
     (let base = [(''gpi:cluster'', name), (''gpi:cloud'', cloud)];
          own = foldl (\<lambda>m (k, v). mput k v m) base (t_tags ts)
      in case t_resources ts of
           None \<Rightarrow> own
         | Some r \<Rightarrow> foldl (\<lambda>m (k, v). if mget m k = None then mput k v m else m) own (r_labels (res_f r)))"

text \<open>The size of the disk is read off the resources before they are tested for nil.\<close>

definition disk_gib :: "task \<Rightarrow> int res" where
  "disk_gib ts =
     (case t_resources ts of
        None \<Rightarrow> Inl (Panic ''invalid memory address or nil pointer dereference'')
      | Some r \<Rightarrow>
          (case r_disk (res_f r) of
             None \<Rightarrow> Inr 0
           | Some d \<Rightarrow> (case rmin d of None \<Rightarrow> Inr 0 | Some q \<Rightarrow> Inr (f_trunc q))))"

definition launch_spec_of :: "string \<Rightarrow> launch \<Rightarrow> string \<Rightarrow> string \<Rightarrow> int \<Rightarrow> string smap \<Rightarrow> launch_spec" where
  "launch_spec_of name l image_id key_name disk tags =
     \<lparr>ls_instance_type = l_instance_type l, ls_region = l_region l, ls_zone = l_zone l,
      ls_num_nodes = l_num_nodes l, ls_image_id = image_id, ls_key_name = key_name, ls_security_group = [],
      ls_vswitch = [], ls_vpc = [], ls_spot_strategy = (if l_use_spot l then ''SpotAsPriceGo'' else []),
      ls_disk_gib = disk, ls_user_data = bootstrap_script name, ls_tags = tags, ls_name_prefix = name,
      ls_resume = True\<rparr>"

definition node_of :: "nat \<Rightarrow> nat \<Rightarrow> inst \<Rightarrow> node" where
  "node_of n i inst =
     \<lparr>n_id = i_id inst, n_public_ip = [], n_private_ip = [], n_instance_type = i_type inst,
      n_zone = i_zone inst, n_status = i_status inst,
      n_role = (if 1 < n then (if i = 0 then role_head else role_worker) else [])\<rparr>"

definition nodes_of :: "inst list \<Rightarrow> node list" where
  "nodes_of is = map (\<lambda>(i, inst). node_of (length is) i inst) (enumerate 0 is)"

definition new_cluster ::
  "('p, 'w) ext \<Rightarrow> string \<Rightarrow> task \<Rightarrow> launch \<Rightarrow> string \<Rightarrow> string \<Rightarrow> string smap \<Rightarrow> node list \<Rightarrow> cluster" where
  "new_cluster X name ts l key_name key_path tags nds =
     \<lparr>cl_name = name, cl_status = cluster_provisioning, cl_backend = [], cl_cloud = l_cloud l,
      cl_region = l_region l, cl_num_nodes = l_num_nodes l, cl_instances = nds, cl_launch = Some l,
      cl_task_yaml = x_yaml X ts, cl_tags = tags,
      cl_labels = (case t_resources ts of None \<Rightarrow> [] | Some r \<Rightarrow> r_labels (res_f r)),
      cl_creds = state_cloud_creds (for_cloud (t_credentials ts) (l_cloud l)), cl_ssh = None,
      cl_key_name = key_name, cl_key_path = key_path, cl_security_group = [], cl_vpc = [],
      cl_vswitch = [], cl_last_error = [], cl_created_at = 0, cl_updated_at = 0\<rparr>"

definition record_cluster_event ::
  "('p, 'w) ext \<Rightarrow> string \<Rightarrow> cluster_status \<Rightarrow> cluster_status \<Rightarrow> string \<Rightarrow> string \<Rightarrow> (unit, 'w sys) act" where
  "record_cluster_event X name old_status new_status typ reason =
     quiet (do_event X \<lparr>e_cluster_name = name, e_starting_status = old_status, e_ending_status = new_status,
                        e_reason = reason, e_type = typ, e_request_id = [], e_transitioned_at = 0\<rparr>)"

text \<open>What \<open>Launch\<close> does when a step after the record fails: mark the cluster, record the event, return the error.\<close>

definition failed_launch :: "('p, 'w) ext \<Rightarrow> string \<Rightarrow> string \<Rightarrow> error \<Rightarrow> ('a, 'w sys) act" where
  "failed_launch X name prefix e =
     seq_act (quiet (do_update_cluster X name
        (\<lambda>c. c\<lparr>cl_status := cluster_error, cl_last_error := prefix @ err_text e\<rparr>)))
     (seq_act (record_cluster_event X name cluster_provisioning cluster_error ''status_change'' (prefix @ err_text e))
     (raise e))"

text \<open>The cluster a pointer leads to: the stored one.\<close>

definition cluster_at :: "string \<Rightarrow> (cluster, 'w sys) act" where
  "cluster_at name = asks (\<lambda>s. get_cluster s name)"

section \<open>Ray and the agent\<close>

text \<open>A script on a node: an exit code other than 0 is an error of its own.\<close>

definition checked_ssh ::
  "('p, 'w) ext \<Rightarrow> string \<Rightarrow> string \<Rightarrow> string \<Rightarrow> string \<Rightarrow> string \<Rightarrow> 'w \<Rightarrow> error option \<times> 'w" where
  "checked_ssh X key ip script err_prefix what w =
     (case run_ssh_stream X False key ''root'' ip script w of
        (Inl e, w1) \<Rightarrow> (Some (wrap_err err_prefix e), w1)
      | (Inr code, w1) \<Rightarrow> (if code = 0 then None else Some (Err (what @ itoa code @ '')'')), w1))"

definition then_err :: "('w \<Rightarrow> error option \<times> 'w) \<Rightarrow> ('w \<Rightarrow> error option \<times> 'w) \<Rightarrow> 'w \<Rightarrow> error option \<times> 'w" where
  "then_err f g w = (case f w of (Some e, w1) \<Rightarrow> (Some e, w1) | (None, w1) \<Rightarrow> g w1)"

definition ray_labels :: "task \<Rightarrow> string" where
  "ray_labels ts =
     (case t_resources ts of
        None \<Rightarrow> []
      | Some r \<Rightarrow> if 0 < length (r_labels (res_f r))
                 then '' --labels='' @ shell_quote (json_labels (r_labels (res_f r))) else [])"

definition join_worker :: "('p, 'w) ext \<Rightarrow> string \<Rightarrow> string \<Rightarrow> string \<Rightarrow> node \<Rightarrow> 'w \<Rightarrow> error option \<times> 'w" where
  "join_worker X key head_ip labels nd =
     then_err
       (checked_ssh X key (n_public_ip nd) ray_install_script (''node '' @ n_id nd @ '': '')
          (''node '' @ n_id nd @ '': install ray failed (exit ''))
       (checked_ssh X key (n_public_ip nd)
          (''ray start --address='' @ head_ip @ '':6379 --disable-usage-stats'' @ labels) (''node '' @ n_id nd @ '': '')
          (''node '' @ n_id nd @ '': ray start failed (exit ''))"

definition parallel_err ::
  "('p, 'w) ext \<Rightarrow> ('n \<Rightarrow> 'w \<Rightarrow> error option \<times> 'w) \<Rightarrow> 'n list \<Rightarrow> 'w \<Rightarrow> error option \<times> 'w" where
  "parallel_err X f ns w = (case parallel X f ns w of (es, w1) \<Rightarrow> (first_error es, w1))"

definition bootstrap_ray :: "nat \<Rightarrow> ('p, 'w) ext \<Rightarrow> cluster \<Rightarrow> task \<Rightarrow> 'w \<Rightarrow> error option \<times> 'w" where
  "bootstrap_ray n X c ts w =
     (case cluster_head c of
        None \<Rightarrow> (Some (Err ''cluster has no head node''), w)
      | Some hd_node \<Rightarrow>
          if n_private_ip hd_node = [] then (Some (Err ''head node has no private IP''), w)
          else then_err (wait_all_ssh n X c)
            (then_err (checked_ssh X (cl_key_path c) (n_public_ip hd_node) ray_install_script []
                         ''install ray on head failed (exit '')
            (then_err (checked_ssh X (cl_key_path c) (n_public_ip hd_node)
                         (''ray start --head --port=6379 --dashboard-port=8265 --disable-usage-stats --node-ip-address='' @
                          n_private_ip hd_node @ ray_labels ts) [] ''ray start --head failed (exit '')
               (parallel_err X (join_worker X (cl_key_path c) (n_private_ip hd_node) (ray_labels ts)) (cluster_workers c)))) w)"

definition gpilet_binary_path :: "('p, 'w) ext \<Rightarrow> string \<Rightarrow> 'w \<Rightarrow> string" where
  "gpilet_binary_path X dir w =
     (let e = getenv (x_env X) ''GPI_GPILET'';
          candidates = (if e \<noteq> [] then [e] else []) @ (if dir \<noteq> [] then [x_join X [dir, ''bin'', ''gpilet'']] else []) @
            (case x_executable X of Inr exe \<Rightarrow> [x_join X [x_dir X exe, ''gpilet'']] | Inl _ \<Rightarrow> [])
      in case find (\<lambda>c. c \<noteq> [] \<and> x_is_file X c w) candidates of Some c \<Rightarrow> c | None \<Rightarrow> [])"

definition start_agent :: "('p, 'w) ext \<Rightarrow> string \<Rightarrow> string \<Rightarrow> node \<Rightarrow> 'w \<Rightarrow> error option \<times> 'w" where
  "start_agent X key local_path nd w =
     (case copy_file X key local_path (''root@'' @ n_public_ip nd @ '':/usr/local/bin/gpilet'') w of
        (Some e, w1) \<Rightarrow> (Some (wrap_err (''node '' @ n_id nd @ '': upload gpilet: '') e), w1)
      | (None, w1) \<Rightarrow>
          checked_ssh X key (n_public_ip nd) gpilet_start_script (''node '' @ n_id nd @ '': start gpilet: '')
            (''node '' @ n_id nd @ '': start gpilet failed (exit '') w1)"

definition install_gpilet :: "nat \<Rightarrow> ('p, 'w) ext \<Rightarrow> string \<Rightarrow> cluster \<Rightarrow> 'w \<Rightarrow> error option \<times> 'w" where
  "install_gpilet n X dir c w =
     (let local_path = gpilet_binary_path X dir w
      in if local_path = [] then (None, w)
         else then_err (wait_all_ssh n X c)
           (parallel_err X (start_agent X (cl_key_path c) local_path)
              (filter (\<lambda>nd. n_public_ip nd \<noteq> []) (cl_instances c))) w)"

section \<open>The operations on clusters\<close>

text \<open>\<open>Launch\<close> up to the record of the cluster, and what follows it.\<close>

definition start_machines :: "('p, 'w) ext \<Rightarrow> string \<Rightarrow> string \<Rightarrow> task \<Rightarrow> launch \<Rightarrow> ('p \<times> cluster, 'w sys) act" where
  "start_machines X dir name ts l =
     bind_act (open_provider X (l_cloud l) (to_cloud_creds (for_cloud (t_credentials ts) (l_cloud l)))) (\<lambda>p.
     bind_act (ensure_key_pair X dir p name (l_region l)) (\<lambda>(key_name, key_path).
     bind_act (world (x_get_image X p (l_region l) ''ubuntu'')) (\<lambda>image_id.
     bind_act (of_res (disk_gib ts)) (\<lambda>disk.
     bind_act (catch_act
         (world (x_run_instances X p
            (launch_spec_of name l image_id key_name disk (launch_tags ts name (l_cloud l)))))
         (\<lambda>e. raise (wrap_err ''run instances: '' e))) (\<lambda>insts.
     ret (p, new_cluster X name ts l key_name key_path (launch_tags ts name (l_cloud l)) (nodes_of insts)))))))"

definition make_ready :: "nat \<Rightarrow> ('p, 'w) ext \<Rightarrow> string \<Rightarrow> string \<Rightarrow> task \<Rightarrow> launch \<Rightarrow> 'p \<Rightarrow> cluster \<Rightarrow> (cluster, 'w sys) act" where
  "make_ready n X dir name ts l p c =
     seq_act (catch_act (wait_ready n X p c) (failed_launch X name []))
     (seq_act (if 1 < l_num_nodes l
               then bind_act (cluster_at name) (\<lambda>c'.
                  catch_act (world_err (bootstrap_ray n X c' ts)) (failed_launch X name ''ray bootstrap: ''))
               else ret ())
     (bind_act (cluster_at name) (\<lambda>c'.
        seq_act (catch_act (world_err (install_gpilet n X dir c')) (failed_launch X name ''gpilet install: ''))
          (cluster_at name))))"

definition launch_cluster ::
  "nat \<Rightarrow> ('p, 'w) ext \<Rightarrow> string \<Rightarrow> string \<Rightarrow> task \<Rightarrow> launch \<Rightarrow> (cluster, 'w sys) act" where
  "launch_cluster n X dir name ts l =
     bind_act (start_machines X dir name ts l) (\<lambda>(p, c).
     seq_act (do_add_cluster X c) (make_ready n X dir name ts l p c))"

definition node_ids :: "cluster \<Rightarrow> string list" where
  "node_ids c = map n_id (cl_instances c)"

definition down_cluster :: "('p, 'w) ext \<Rightarrow> string \<Rightarrow> (unit, 'w sys) act" where
  "down_cluster X name =
     bind_act (cluster_at name) (\<lambda>c.
     bind_act (provider_for_cluster X c) (\<lambda>p.
     seq_act (when_act (0 < length (node_ids c)) (world_err (x_terminate X p (cl_region c) (node_ids c))))
     (seq_act (record_cluster_event X name (cl_status c) cluster_down ''down'' ''cluster terminated'')
     (do_delete_cluster X name))))"

definition stop_cluster :: "('p, 'w) ext \<Rightarrow> string \<Rightarrow> (unit, 'w sys) act" where
  "stop_cluster X name =
     bind_act (cluster_at name) (\<lambda>c.
     bind_act (provider_for_cluster X c) (\<lambda>p.
     seq_act (world_err (x_stop X p (cl_region c) (node_ids c)))
     (seq_act (record_cluster_event X name (cl_status c) cluster_stopped ''stop'' ''cluster stopped'')
     (do_update_cluster X name (\<lambda>c. c\<lparr>cl_status := cluster_stopped\<rparr>)))))"

definition start_cluster :: "nat \<Rightarrow> ('p, 'w) ext \<Rightarrow> string \<Rightarrow> (unit, 'w sys) act" where
  "start_cluster n X name =
     bind_act (cluster_at name) (\<lambda>c.
     bind_act (provider_for_cluster X c) (\<lambda>p.
     seq_act (world_err (x_start X p (cl_region c) (node_ids c)))
     (seq_act (record_cluster_event X name (cl_status c) cluster_provisioning ''start'' ''cluster starting'')
     (seq_act (do_update_cluster X name (\<lambda>c. c\<lparr>cl_status := cluster_provisioning\<rparr>))
     (wait_ready n X p c)))))"

section \<open>Tasks and commands\<close>

text \<open>
  \<open>runOnAllNodes\<close>: the script on every node at once; an error of a node wins over exit codes, then
  the first exit code that is not 0.
\<close>

definition first_code :: "int list \<Rightarrow> int" where
  "first_code cs = (case find (\<lambda>c. c \<noteq> 0) cs of Some c \<Rightarrow> c | None \<Rightarrow> 0)"

definition run_on_all_nodes :: "('p, 'w) ext \<Rightarrow> cluster \<Rightarrow> string \<Rightarrow> bool \<Rightarrow> 'w \<Rightarrow> int res \<times> 'w" where
  "run_on_all_nodes X c script stream w =
     (case parallel X (\<lambda>nd w. case run_ssh_stream X stream (cl_key_path c) ''root'' (n_public_ip nd) script w of
                                (Inl e, w1) \<Rightarrow> (Inl (wrap_err (''node '' @ n_id nd @ '': '') e), w1)
                              | (Inr code, w1) \<Rightarrow> (Inr code, w1)) (cl_instances c) w of
        (rs, w1) \<Rightarrow>
          (case find isl rs of
             Some r \<Rightarrow> (Inl (projl r), w1)
           | None \<Rightarrow> (Inr (first_code (map projr rs)), w1)))"

text \<open>\<open>if code, err := f(); err != nil { return code, err }\<close>: the code itself is dropped.\<close>

definition drop_code :: "('w \<Rightarrow> int res \<times> 'w) \<Rightarrow> (unit, 'w sys) act" where
  "drop_code f = bind_act (world f) (\<lambda>_. ret ())"

text \<open>Every error of \<open>RunTask\<close> and \<open>Exec\<close> comes with the code -1.\<close>

definition run_setup :: "('p, 'w) ext \<Rightarrow> cluster \<Rightarrow> node \<Rightarrow> task \<Rightarrow> bool \<Rightarrow> (unit, 'w sys) act" where
  "run_setup X c hd_node ts stream =
     when_act (t_setup ts \<noteq> [])
       (if 1 < cl_num_nodes c then drop_code (run_on_all_nodes X c (t_setup ts) stream)
        else drop_code (run_ssh_stream X stream (cl_key_path c) ''root'' (n_public_ip hd_node) (t_setup ts)))"

definition run_task :: "nat \<Rightarrow> ('p, 'w) ext \<Rightarrow> string \<Rightarrow> task \<Rightarrow> bool \<Rightarrow> (int, 'w sys) act" where
  "run_task n X name ts stream =
     bind_act (cluster_at name) (\<lambda>c.
       case cluster_head c of
         None \<Rightarrow> raise (Err ''cluster has no head node'')
       | Some hd_node \<Rightarrow>
           if n_public_ip hd_node = [] then raise (Err (''cluster '' @ name @ '' has no head public IP''))
           else
             seq_act (world_err (wait_all_ssh n X c))
             (seq_act (when_act (t_workdir ts \<noteq> [])
                (catch_act (world_err (copy_dir X (cl_key_path c) (t_workdir ts)
                              (''root@'' @ n_public_ip hd_node @ '':/root/gpi-workdir'')))
                   (\<lambda>e. raise (wrap_err ''upload workdir: '' e))))
             (seq_act (run_setup X c hd_node ts stream)
             (seq_act (when_act (t_run ts \<noteq> [])
                (drop_code (run_ssh_stream X stream (cl_key_path c) ''root'' (n_public_ip hd_node) (t_run ts))))
             (ret 0)))))"

definition exec_on_cluster :: "nat \<Rightarrow> ('p, 'w) ext \<Rightarrow> string \<Rightarrow> string \<Rightarrow> bool \<Rightarrow> (int, 'w sys) act" where
  "exec_on_cluster n X name cmd stream =
     bind_act (cluster_at name) (\<lambda>c.
       if get_node_ip c = [] then raise (Err (''cluster '' @ name @ '' has no public IP''))
       else seq_act (world_err (wait_ssh n X (cl_key_path c) ''root'' (get_node_ip c)))
              (world (run_ssh_stream X stream (cl_key_path c) ''root'' (get_node_ip c) cmd)))"

section \<open>The agent's report\<close>

definition gpilet_status :: "('p, 'w) ext \<Rightarrow> cluster \<Rightarrow> node \<Rightarrow> 'w \<Rightarrow> string res \<times> 'w" where
  "gpilet_status X c nd w =
     (case run_ssh_output X (cl_key_path c) ''root'' (n_public_ip nd) gpilet_status_script w of
        (Inl e, w1) \<Rightarrow> (Inl e, w1)
      | (Inr (out, code), w1) \<Rightarrow>
          (if code \<noteq> 0 then Inl (Err (''gpilet status exit '' @ itoa code)) else Inr out, w1))"

record health =
  hl_cpus :: int
  hl_cpu_usage :: f64
  hl_load :: f64
  hl_mem_total :: f64
  hl_mem_used :: f64
  hl_gpus :: nat
  hl_ray :: bool

definition truncate_string :: "string \<Rightarrow> nat \<Rightarrow> string" where
  "truncate_string s n = (if length s \<le> n then s else take n s @ ''...'')"

text \<open>\<open>%.nf\<close>: rounded half to even to \<open>n\<close> decimals.\<close>

definition round_even :: "rat \<Rightarrow> int" where
  "round_even q =
     (let f = \<lfloor>q\<rfloor>; d = q - of_int f
      in if d < 1 / 2 then f else if 1 / 2 < d then f + 1 else if even f then f else f + 1)"

definition fixed_pos :: "nat \<Rightarrow> rat \<Rightarrow> string" where
  "fixed_pos n q =
     (let k = nat (round_even (q * 10 ^ n)); d = nat_str (k mod 10 ^ n)
      in nat_str (k div 10 ^ n) @ (if n = 0 then [] else ''.'' @ replicate (n - length d) CHR ''0'' @ d))"

fun fmt_fixed :: "nat \<Rightarrow> f64 \<Rightarrow> string" where
  "fmt_fixed n NaN = ''NaN''"
| "fmt_fixed n PInf = ''+Inf''"
| "fmt_fixed n NInf = ''-Inf''"
| "fmt_fixed n (Fin q) = (if q < 0 then ''-'' @ fixed_pos n (- q) else fixed_pos n q)"

text \<open>The report is decoded by \<open>encoding/json\<close>; \<open>decoded\<close> is what it gives, if it succeeds.\<close>

definition format_gpilet_health :: "health option \<Rightarrow> string \<Rightarrow> string" where
  "format_gpilet_health decoded raw =
     (case decoded of
        Some st \<Rightarrow>
          if hl_cpus st = 0 then ''gpilet offline ('' @ truncate_string raw 40 @ '')''
          else join_with '', ''
            ([''cpu '' @ fmt_fixed 0 (hl_cpu_usage st) @ ''%'', ''load '' @ fmt_fixed 2 (hl_load st),
              ''mem '' @ fmt_fixed 1 (hl_mem_used st) @ ''/'' @ fmt_fixed 1 (hl_mem_total st) @ ''GB''] @
             (if 0 < hl_gpus st then [''gpu '' @ nat_str (hl_gpus st)] else []) @
             (if hl_ray st then [''ray''] else []))
      | None \<Rightarrow> ''gpilet offline ('' @ truncate_string raw 40 @ '')'')"

definition gpilet_health ::
  "('p, 'w) ext \<Rightarrow> (string \<Rightarrow> health option) \<Rightarrow> cluster \<Rightarrow> node \<Rightarrow> 'w \<Rightarrow> string \<times> 'w" where
  "gpilet_health X decode c nd w =
     (case gpilet_status X c nd w of
        (Inl e, w1) \<Rightarrow> (''unavailable: '' @ err_text e, w1)
      | (Inr out, w1) \<Rightarrow> (format_gpilet_health (decode out) out, w1))"

end
