(* ===== verification/Provisioner_Props.thy ===== *)
theory Provisioner_Props
  imports Provisioner
begin

text \<open>
  The properties of the provisioner: quoting for the shell, the rounds the two waiting loops
  need, what launching, tearing down and running a task do to the store and report.
\<close>

section \<open>Quoting\<close>

text \<open>
  How a POSIX shell reads one word: inside single quotes every character stands for itself, a
  backslash outside of quotes makes the next one literal, and an unquoted space ends the word.
\<close>

fun sh_word :: "bool \<Rightarrow> string \<Rightarrow> (string \<times> string) option" where
  "sh_word quoted [] = (if quoted then None else Some ([], []))"
| "sh_word True (c # s) =
     (if c = CHR 0x27 then sh_word False s else map_option (\<lambda>(w, r). (c # w, r)) (sh_word True s))"
| "sh_word False (c # s) =
     (if c = CHR 0x27 then sh_word True s
      else if c = CHR '' '' then Some ([], s)
      else if c = CHR 0x5C then
        (case s of [] \<Rightarrow> None | d # s' \<Rightarrow> map_option (\<lambda>(w, r). (d # w, r)) (sh_word False s'))
      else map_option (\<lambda>(w, r). (c # w, r)) (sh_word False s))"

lemma sh_word_quoted:
  "sh_word True (replace_char CHR 0x27 [CHR 0x27, CHR 0x5C, CHR 0x27, CHR 0x27] s @ CHR 0x27 # rest) =
     map_option (\<lambda>(w, r). (s @ w, r)) (sh_word False rest)"
  by (induction s) (simp_all add: option.map_comp comp_def split_beta option.map_ident)

text \<open>What \<open>shellQuote\<close> writes is one word of the shell and stands for the text it was given, whatever
  characters that has: the shell reads exactly the text and goes on after the space that follows.\<close>

theorem shell_quote_roundtrip: "sh_word False (shell_quote s @ '' '' @ rest) = Some (s, rest)"
  by (simp add: shell_quote_def sh_word_quoted)

section \<open>The rounds of the waiting loops\<close>

text \<open>
  The documented behaviour of the clock: it does not go back, a sleep lasts at least as long as
  asked, and the k-th tick of a ticker comes no sooner than k periods after it was made.
\<close>

definition clock_ok :: "('p, 'w) ext \<Rightarrow> bool" where
  "clock_ok X \<longleftrightarrow>
     (\<forall>p r ids w. x_now X w \<le> x_now X (snd (x_describe X p r ids w))) \<and>
     (\<forall>args i w. x_now X w \<le> x_now X (snd (x_exec X args i w))) \<and>
     (\<forall>s w. x_now X w \<le> x_now X (snd (save_store (x_backend X) s w))) \<and>
     (\<forall>d w. fst (x_sleep X d w) = None \<longrightarrow> x_now X w + d \<le> x_now X (snd (x_sleep X d w))) \<and>
     (\<forall>d t0 k w. fst (x_tick X d t0 k w) = None \<longrightarrow> t0 + int k * d \<le> x_now X (snd (x_tick X d t0 k w)))"

lemma now_update:
  assumes "clock_ok X"
  shows "x_now X (snd s) \<le> x_now X (snd (snd (do_update_cluster X name f s)))"
proof -
  obtain st w where s: "s = (st, w)" by (cases s)
  show ?thesis
    using assms unfolding s clock_ok_def
    by (cases "mget (st_clusters st) name")
      (simp_all add: do_update_cluster_def stored_def update_cluster_def persist_def split_beta)
qed

lemma world_err_Inr: "world_err f s = (Inr u, s') \<longleftrightarrow> fst (f (snd s)) = None \<and> s' = (fst s, snd (f (snd s)))"
  by (auto simp: world_err_def err_res_def split_beta split: option.splits)

lemma tick_time:
  assumes "clock_ok X" and "world_err (x_tick X d t0 k) s = (Inr u, s')"
  shows "t0 + int k * d \<le> x_now X (snd s')"
  using assms unfolding world_err_Inr clock_ok_def by simp

lemma wait_ready_loop_returns:
  assumes "clock_ok X" and "62 \<le> n + k" and "0 < n"
    and "k = 0 \<or> t0 + int k * (15 * second) \<le> x_now X (snd s)"
  shows "wait_ready_loop n X p name region ids t0 k nds s \<noteq> None"
  using assms(2-4)
proof (induction n arbitrary: k nds s)
  case 0
  then show ?case by simp
next
  case (Suc n)
  obtain r s1 where d: "world (x_describe X p region ids) s = (r, s1)"
    by (cases "world (x_describe X p region ids) s")
  have n1: "x_now X (snd s) \<le> x_now X (snd s1)"
    using assms(1) d by (cases s) (auto simp: clock_ok_def world_def split_beta split: prod.splits)
  show ?case
  proof (cases r)
    case (Inl e)
    with d show ?thesis by simp
  next
    case (Inr insts)
    define nds' where "nds' = map (refresh_node (by_id insts)) nds"
    define s2 where "s2 = snd (do_update_cluster X name (set_nodes nds' cluster_provisioning) s1)"
    have n2: "x_now X (snd s) \<le> x_now X (snd s2)"
      using n1 now_update [OF assms(1)] unfolding s2_def by (rule order_trans)
    show ?thesis
    proof (cases "all_running (by_id insts) nds \<or> t0 + 15 * 60 * second < x_now X (snd s2)")
      case True
      with d Inr show ?thesis by (auto simp: Let_def nds'_def s2_def simp del: not_None_eq)
    next
      case False
      with Suc.prems(3) n2 have "k \<le> 60" by (cases "k = 0") (auto simp: second_def)
      with Suc.prems have n: "62 \<le> n + Suc k" "0 < n" by simp_all
      obtain r3 s3 where t: "world_err (x_tick X (15 * second) t0 (Suc k)) s2 = (r3, s3)"
        by (cases "world_err (x_tick X (15 * second) t0 (Suc k)) s2")
      show ?thesis
      proof (cases r3)
        case (Inl e)
        with d Inr False t show ?thesis by (simp add: Let_def nds'_def s2_def del: not_None_eq)
      next
        case (Inr u)
        with t assms(1) have "t0 + int (Suc k) * (15 * second) \<le> x_now X (snd s3)"
          by (auto intro!: tick_time [OF assms(1)] simp del: of_nat_Suc)
        with n have "wait_ready_loop n X p name region ids t0 (Suc k) nds' s3 \<noteq> None"
          by (intro Suc.IH) auto
        with d \<open>r = Inr insts\<close> False t Inr show ?thesis by (simp add: Let_def nds'_def s2_def del: not_None_eq)
      qed
    qed
  qed
qed

text \<open>More rounds change nothing.\<close>

lemma wait_ready_loop_mono:
  "wait_ready_loop n X p name region ids t0 k nds s = Some r \<Longrightarrow>
   wait_ready_loop (n + m) X p name region ids t0 k nds s = Some r"
proof (induction n arbitrary: k nds s)
  case (Suc n)
  then show ?case
    by (auto simp: Let_def split: prod.splits sum.splits if_splits)
qed simp

lemma wait_ssh_loop_returns:
  assumes "clock_ok X" and "deadline \<le> x_now X w + int n * (5 * second) - 1"
  shows "wait_ssh_loop (Suc n) X args ip deadline w \<noteq> None"
  using assms(2)
proof (induction n arbitrary: w)
  case 0
  have "x_now X w \<le> x_now X (snd (x_exec X args [] w))"
    using assms(1) by (simp add: clock_ok_def)
  with 0 show ?case by (auto split: prod.splits simp del: not_None_eq)
next
  case (Suc n)
  obtain out oc w1 where e: "x_exec X args [] w = ((out, oc), w1)" by (metis prod.collapse)
  have n1: "x_now X w \<le> x_now X w1"
    using assms(1) e unfolding clock_ok_def by (metis snd_conv)
  obtain r w2 where sl: "x_sleep X (5 * second) w1 = (r, w2)"
    by (cases "x_sleep X (5 * second) w1")
  show ?case
  proof (cases "oc = Exited 0 \<or> deadline < x_now X w1 \<or> r \<noteq> None")
    case True
    with e sl show ?thesis by (auto simp del: not_None_eq split: option.splits)
  next
    case False
    with sl assms(1) have "x_now X w1 + 5 * second \<le> x_now X w2"
      unfolding clock_ok_def by (metis fst_conv snd_conv)
    with Suc.prems n1 have "deadline \<le> x_now X w2 + int n * (5 * second) - 1"
      by (simp add: algebra_simps)
    from Suc.IH [OF this] e sl False show ?thesis by simp
  qed
qed

text \<open>C21. Waiting for a cluster ends: with a clock that does not go back and a ticker that keeps its period, sixty-two
  rounds are enough for \<open>waitReady\<close> to return, ready, timed out or failed, and more rounds give the
  same; a hundred and twenty-two are enough to wait for a host to answer.\<close>

theorem waiting_ends:
  assumes "clock_ok X" and "62 \<le> n" and "122 \<le> m"
  shows "wait_ready_loop n X p name region ids (x_now X (snd s)) 0 nds s =
      wait_ready_loop 62 X p name region ids (x_now X (snd s)) 0 nds s \<and>
    wait_ready_loop n X p name region ids (x_now X (snd s)) 0 nds s \<noteq> None \<and>
    wait_ssh_loop m X args ip (x_now X w + ssh_wait_time) w \<noteq> None"
proof (intro conjI)
  have "wait_ready_loop 62 X p name region ids (x_now X (snd s)) 0 nds s \<noteq> None"
    by (rule wait_ready_loop_returns [OF assms(1)]) simp_all
  then obtain r where r: "wait_ready_loop 62 X p name region ids (x_now X (snd s)) 0 nds s = Some r" by blast
  from wait_ready_loop_mono [OF r, of "n - 62"] assms(2) r
  show "wait_ready_loop n X p name region ids (x_now X (snd s)) 0 nds s =
      wait_ready_loop 62 X p name region ids (x_now X (snd s)) 0 nds s" by simp
  with r show "wait_ready_loop n X p name region ids (x_now X (snd s)) 0 nds s \<noteq> None" by simp
  obtain k where k: "m = Suc k" "121 \<le> k" using assms(3) by (cases m) auto
  then have "x_now X w + ssh_wait_time \<le> x_now X w + int k * (5 * second) - 1"
    by (simp add: ssh_wait_time_def second_def)
  then show "wait_ssh_loop m X args ip (x_now X w + ssh_wait_time) w \<noteq> None"
    unfolding k(1) by (rule wait_ssh_loop_returns [OF assms(1)])
qed

section \<open>Running a task\<close>

lemma run_task_Inr: "run_task n X name ts stream s = (Inr c, s') \<Longrightarrow> c = 0"
  by (auto simp: run_task_def seq_act_def bind_act_Inr split: option.splits if_splits)

text \<open>\<open>RunTask\<close> does not report the exit codes of the task: whenever it returns without an error the code is
  0, and a task whose command exits with any code is answered with 0, where the same command given
  to \<open>Exec\<close> is answered with its code.\<close>

theorem run_task_drops_exit_code:
  assumes "get_cluster st name = Inr c" and "cl_instances c = [nd]" and "n_public_ip nd \<noteq> []"
    and "t_workdir ts = []" and "t_setup ts = []" and "t_run ts \<noteq> []"
    and "wait_ssh n X (cl_key_path c) ''root'' (n_public_ip nd) w = (None, w1)"
    and "run_ssh_stream X stream (cl_key_path c) ''root'' (n_public_ip nd) (t_run ts) w1 = (Inr code, w2)"
  shows "run_task n X name ts stream (st, w) = (Inr 0, (st, w2)) \<and>
    exec_on_cluster n X name (t_run ts) stream (st, w) = (Inr code, (st, w2)) \<and>
    (\<forall>ts' s r s'. run_task n X name ts' stream s = (Inr r, s') \<longrightarrow> r = 0)"
proof (intro conjI)
  have "get_node_ip c = n_public_ip nd" "cluster_head c = Some nd"
    using assms(2,3) by (simp_all add: get_node_ip_def cluster_head_def)
  then show "run_task n X name ts stream (st, w) = (Inr 0, (st, w2))"
    "exec_on_cluster n X name (t_run ts) stream (st, w) = (Inr code, (st, w2))"
    using assms
    by (simp_all add: run_task_def exec_on_cluster_def run_setup_def drop_code_def bind_act_def seq_act_def cluster_at_def
        asks_def world_err_def world_def wait_all_ssh_def err_res_def)
qed (blast intro: run_task_Inr)

section \<open>Tearing down and launching\<close>

definition same_others :: "string \<Rightarrow> store \<Rightarrow> store \<Rightarrow> bool" where
  "same_others name s s' \<longleftrightarrow> (\<forall>n. n \<noteq> name \<longrightarrow> mget (st_clusters s') n = mget (st_clusters s) n)"

lemma stored_apply:
  "stored f (s, w) = (case f s w of (e, s', w') \<Rightarrow> (err_res e, (s', w')))"
  by (simp add: stored_def)

lemma event_clusters [simp]: "st_clusters (fst (snd (do_event X e (s, w)))) = st_clusters s"
  by (simp add: do_event_def stored_apply add_cluster_event_def persist_def Let_def split_beta)

lemma record_event_clusters [simp]:
  "st_clusters (fst (snd (record_cluster_event X name a b t r s))) = st_clusters (fst s)"
  by (cases s) (simp add: record_cluster_event_def)

lemma delete_cluster_gone:
  "mget (st_clusters (fst (snd (do_delete_cluster X name (s, w))))) n = (if n = name then None else mget (st_clusters s) n)"
  by (simp add: do_delete_cluster_def stored_apply delete_cluster_def persist_def split_beta)

lemma down_forget:
  assumes "down_cluster X name (s, w) = (r, (s', w'))"
  shows "same_others name s s' \<and>
    (s' = s \<and> (\<exists>e. r = Inl e) \<or>
     mget (st_clusters s') name = None \<and>
     (\<exists>c p. get_cluster s name = Inr c \<and> new_provider (x_registries X) (cl_cloud c) (to_cloud_creds (cl_creds c)) = Inr p \<and>
        (cl_instances c \<noteq> [] \<longrightarrow> (\<exists>w1. x_terminate X p (cl_region c) (map n_id (cl_instances c)) w = (None, w1)))))"
proof (cases "get_cluster s name")
  case (Inl e)
  with assms show ?thesis
    by (auto simp: down_cluster_def bind_act_def cluster_at_def asks_def same_others_def)
next
  case (Inr c)
  show ?thesis
  proof (cases "new_provider (x_registries X) (cl_cloud c) (to_cloud_creds (cl_creds c))")
    case (Inl e)
    with Inr assms show ?thesis
      by (auto simp: down_cluster_def bind_act_def cluster_at_def asks_def same_others_def provider_for_cluster_def open_provider_def)
  next
    case p: (Inr p)
    obtain tr s1 where t: "when_act (0 < length (node_ids c)) (world_err (x_terminate X p (cl_region c) (node_ids c))) (s, w) = (tr, s1)"
      by (cases "when_act (0 < length (node_ids c)) (world_err (x_terminate X p (cl_region c) (node_ids c))) (s, w)")
    then have s1: "fst s1 = s" by (auto simp: when_act_def world_err_def split: if_splits prod.splits)
    show ?thesis
    proof (cases tr)
      case (Inl e)
      with Inr p t s1 assms show ?thesis
        by (auto simp: down_cluster_def bind_act_def seq_act_def cluster_at_def asks_def same_others_def provider_for_cluster_def open_provider_def)
    next
      case (Inr u)
      have ok: "\<exists>w1. x_terminate X p (cl_region c) (map n_id (cl_instances c)) w = (None, w1)" if "cl_instances c \<noteq> []"
        using t Inr that
        by (cases "x_terminate X p (cl_region c) (map n_id (cl_instances c)) w")
          (auto simp: node_ids_def world_err_def err_res_def split: option.splits)
      obtain s2 where s2: "record_cluster_event X name (cl_status c) cluster_down ''down'' ''cluster terminated'' s1 = (Inr (), s2)"
        by (simp add: record_cluster_event_def)
      then have c2: "st_clusters (fst s2) = st_clusters s"
        using s1 record_event_clusters by (metis snd_conv)
      have "down_cluster X name (s, w) = do_delete_cluster X name s2"
        using \<open>get_cluster s name = Inr c\<close> p t Inr s2
        by (simp add: down_cluster_def bind_act_def seq_act_def cluster_at_def asks_def provider_for_cluster_def open_provider_def)
      with assms c2 have "mget (st_clusters s') n = (if n = name then None else mget (st_clusters s) n)" for n
        using delete_cluster_gone [of X name "fst s2" "snd s2" n] by simp
      with ok p \<open>get_cluster s name = Inr c\<close> show ?thesis by (auto simp: same_others_def)
    qed
  qed
qed

text \<open>C20. A cluster is forgotten only after its machines were terminated: when \<open>Down\<close> fails before or during the
  termination, the store is as it was; otherwise the provider has confirmed the termination of every
  machine of the record, the record is gone, and no other cluster is touched.\<close>

theorem down_forgets_after_terminate:
  assumes "down_cluster X name (s, w) = (r, (s', w'))"
  shows "same_others name s s' \<and>
    (s' = s \<and> (\<exists>e. r = Inl e) \<or>
     mget (st_clusters s') name = None \<and>
     (\<exists>c p. get_cluster s name = Inr c \<and> new_provider (x_registries X) (cl_cloud c) (to_cloud_creds (cl_creds c)) = Inr p \<and>
        (cl_instances c \<noteq> [] \<longrightarrow> (\<exists>w1. x_terminate X p (cl_region c) (map n_id (cl_instances c)) w = (None, w1)))))"
  by (rule down_forget [OF assms])

end
