(* ===== verification/Provisioner_Life.thy ===== *)
theory Provisioner_Life
  imports Provisioner_Props State_Props
begin

text \<open>
  The states a cluster goes through. A relation gives the steps each operation may take on the
  status of its cluster; every operation of the provisioner, whatever the outside world answers and
  wherever it stops, moves the status along these steps and leaves the other clusters alone. The
  argument is a small Hoare logic over the status: \<open>leads\<close> with one rule for each way of composing
  actions.
\<close>

section \<open>The steps\<close>

datatype operation = Launching | Stopping | Starting | Removing

type_synonym life = "cluster_status option"

inductive life_step :: "operation \<Rightarrow> life \<Rightarrow> life \<Rightarrow> bool" where
  created: "life_step Launching None (Some cluster_provisioning)"
| ready: "x = Launching \<or> x = Starting \<Longrightarrow> life_step x (Some cluster_provisioning) (Some cluster_up)"
| failed: "st = cluster_provisioning \<or> st = cluster_up \<Longrightarrow> life_step Launching (Some st) (Some cluster_error)"
| suspended: "life_step Stopping (Some st) (Some cluster_stopped)"
| resumed: "life_step Starting (Some st) (Some cluster_provisioning)"
| removed: "life_step Removing (Some st) None"

inductive_cases launching_from: "life_step Launching (Some st) l"

definition status_of :: "string \<Rightarrow> store \<Rightarrow> life" where
  "status_of name s = map_option cl_status (mget (st_clusters s) name)"

text \<open>Two stores between which the cluster \<open>name\<close> took steps of \<open>x\<close> and no other cluster changed.\<close>

definition moved :: "operation \<Rightarrow> string \<Rightarrow> store \<Rightarrow> store \<Rightarrow> bool" where
  "moved x name s s' \<longleftrightarrow> (life_step x)\<^sup>*\<^sup>* (status_of name s) (status_of name s') \<and> same_others name s s'"

lemma moved_same: "st_clusters s' = st_clusters s \<Longrightarrow> moved x name s s'"
  by (simp add: moved_def status_of_def same_others_def)

lemma moved_trans: "moved x name s s1 \<Longrightarrow> moved x name s1 s2 \<Longrightarrow> moved x name s s2"
  by (auto simp: moved_def same_others_def intro: rtranclp_trans)

text \<open>From a status in \<open>A\<close>, the action leads along the steps of \<open>x\<close> to a status in \<open>B\<close>, whatever its outcome.\<close>

definition leads :: "operation \<Rightarrow> string \<Rightarrow> life set \<Rightarrow> ('a, 'w sys) act \<Rightarrow> life set \<Rightarrow> bool" where
  "leads x name A m B \<longleftrightarrow>
     (\<forall>st r st'. m st = (r, st') \<longrightarrow> status_of name (fst st) \<in> A \<longrightarrow>
        moved x name (fst st) (fst st') \<and> status_of name (fst st') \<in> B)"

lemma leadsI:
  "(\<And>s w r s' w'. m (s, w) = (r, (s', w')) \<Longrightarrow> status_of name s \<in> A \<Longrightarrow> moved x name s s' \<and> status_of name s' \<in> B) \<Longrightarrow>
   leads x name A m B"
  unfolding leads_def by (metis prod.collapse)

lemma leadsD:
  "leads x name A m B \<Longrightarrow> m st = (r, st') \<Longrightarrow> status_of name (fst st) \<in> A \<Longrightarrow>
   moved x name (fst st) (fst st') \<and> status_of name (fst st') \<in> B"
  unfolding leads_def by blast

lemma leads_weaken: "leads x name A m B \<Longrightarrow> A' \<subseteq> A \<Longrightarrow> B \<subseteq> B' \<Longrightarrow> leads x name A' m B'"
  unfolding leads_def by blast

lemma leads_neutral:
  "(\<And>st. st_clusters (fst (snd (m st))) = st_clusters (fst st)) \<Longrightarrow> A \<subseteq> B \<Longrightarrow> leads x name A m B"
  unfolding leads_def by (metis moved_same status_of_def subsetD snd_conv)

lemma leads_bind:
  assumes "leads x name A m B" and "\<And>y. leads x name B (f y) C" and "B \<subseteq> C"
  shows "leads x name A (bind_act m f) C"
  unfolding leads_def
proof (intro allI impI)
  fix st r st'
  assume "bind_act m f st = (r, st')" and a: "status_of name (fst st) \<in> A"
  then consider e where "m st = (Inl e, st')" | y st1 where "m st = (Inr y, st1)" "f y st1 = (r, st')"
    by (auto simp: bind_act_def split: prod.splits sum.splits)
  then show "moved x name (fst st) (fst st') \<and> status_of name (fst st') \<in> C"
  proof cases
    case 1
    from leadsD [OF assms(1) this a] assms(3) show ?thesis by blast
  next
    case 2
    from leadsD [OF assms(1) 2(1) a] leadsD [OF assms(2) 2(2)] show ?thesis by (blast intro: moved_trans)
  qed
qed

lemma leads_seq: "leads x name A m B \<Longrightarrow> leads x name B n C \<Longrightarrow> B \<subseteq> C \<Longrightarrow> leads x name A (seq_act m n) C"
  unfolding seq_act_def by (rule leads_bind)

lemma leads_catch:
  assumes "leads x name A m B" and "\<And>e. leads x name B (h e) C" and "B \<subseteq> C"
  shows "leads x name A (catch_act m h) C"
  unfolding leads_def
proof (intro allI impI)
  fix st r st'
  assume "catch_act m h st = (r, st')" and a: "status_of name (fst st) \<in> A"
  then consider y where "m st = (Inr y, st')" | e st1 where "m st = (Inl e, st1)" "h e st1 = (r, st')"
    by (auto simp: catch_act_def split: prod.splits sum.splits)
  then show "moved x name (fst st) (fst st') \<and> status_of name (fst st') \<in> C"
  proof cases
    case 1
    from leadsD [OF assms(1) this a] assms(3) show ?thesis by blast
  next
    case 2
    from leadsD [OF assms(1) 2(1) a] leadsD [OF assms(2) 2(2)] show ?thesis by (blast intro: moved_trans)
  qed
qed

lemma leads_quiet: "leads x name A m B \<Longrightarrow> leads x name A (quiet m) B"
  unfolding leads_def quiet_def by (metis prod.collapse snd_conv)

text \<open>Actions that do not touch the clusters.\<close>

lemma neutral_actions [simp]:
  "st_clusters (fst (snd (world f st))) = st_clusters (fst st)"
  "st_clusters (fst (snd (world_err g st))) = st_clusters (fst st)"
  "st_clusters (fst (snd (asks h st))) = st_clusters (fst st)"
  "st_clusters (fst (snd (look k st))) = st_clusters (fst st)"
  "st_clusters (fst (snd (ret y st))) = st_clusters (fst st)"
  "st_clusters (fst (snd (raise e st))) = st_clusters (fst st)"
  "st_clusters (fst (snd (of_res q st))) = st_clusters (fst st)"
  "st_clusters (fst (snd (cluster_at n st))) = st_clusters (fst st)"
  by (cases st; simp add: world_def world_err_def asks_def look_def cluster_at_def split: prod.splits)+

text \<open>A change of the status, saved or not.\<close>

lemma leads_update:
  assumes "\<And>st. Some st \<in> A \<Longrightarrow> st \<noteq> to \<Longrightarrow> life_step x (Some st) (Some to)"
    and "\<And>c. cl_status (f c) = to" and "None \<in> A \<Longrightarrow> None \<in> B" and "Some to \<in> B"
  shows "leads x name A (do_update_cluster X name f) B"
proof (rule leadsI)
  fix s w r s' w'
  assume u: "do_update_cluster X name f (s, w) = (r, (s', w'))" and a: "status_of name s \<in> A"
  show "moved x name s s' \<and> status_of name s' \<in> B"
  proof (cases "mget (st_clusters s) name")
    case None
    with u a assms(3) show ?thesis
      by (auto simp: do_update_cluster_def stored_apply update_cluster_def status_of_def intro: moved_same)
  next
    case (Some c)
    with u have s': "st_clusters s' = mput name ((f c)\<lparr>cl_updated_at := unix X w\<rparr>) (st_clusters s)"
      by (auto simp: do_update_cluster_def stored_apply update_cluster_def persist_def split: prod.splits)
    then have "status_of name s' = Some to" "same_others name s s'"
      by (simp_all add: status_of_def same_others_def assms(2))
    moreover have "status_of name s = Some (cl_status c)"
      using Some by (simp add: status_of_def)
    ultimately show ?thesis
      using assms(1,4) a unfolding moved_def by (cases "cl_status c = to") auto
  qed
qed

section \<open>The operations\<close>

definition prov_st :: life where "prov_st = Some cluster_provisioning"
definition up_st :: life where "up_st = Some cluster_up"
definition err_st :: life where "err_st = Some cluster_error"

lemmas life_sts = prov_st_def up_st_def err_st_def

definition waiter :: "operation \<Rightarrow> bool" where
  "waiter x \<longleftrightarrow> x = Launching \<or> x = Starting"

lemma leads_mark:
  assumes "waiter x" and "\<And>c. cl_status (f c) = cluster_provisioning"
  shows "leads x name {prov_st} (do_update_cluster X name f) {prov_st}"
  by (rule leads_update) (use assms in \<open>auto simp: life_sts\<close>)

lemma leads_ready:
  assumes "waiter x" and "\<And>c. cl_status (f c) = cluster_up"
  shows "leads x name {prov_st} (do_update_cluster X name f) {prov_st, up_st}"
  by (rule leads_update [of _ cluster_up])
    (use assms in \<open>auto simp: life_sts waiter_def intro: life_step.intros\<close>)

lemma wait_ready_loop_moved:
  assumes "waiter x"
  shows "wait_ready_loop n X p name region ids t0 k nds st = Some (r, st') \<Longrightarrow> status_of name (fst st) = prov_st \<Longrightarrow>
    moved x name (fst st) (fst st') \<and> status_of name (fst st') \<in> {prov_st, up_st}"
proof (induction n arbitrary: k nds st)
  case (Suc n)
  obtain q s1 where d: "world (x_describe X p region ids) st = (q, s1)"
    by (cases "world (x_describe X p region ids) st")
  then have c1: "st_clusters (fst s1) = st_clusters (fst st)"
    using neutral_actions(1) by (metis snd_conv)
  then have m1: "moved x name (fst st) (fst s1)" and a1: "status_of name (fst s1) = prov_st"
    using Suc.prems(2) by (auto intro: moved_same simp: status_of_def)
  show ?case
  proof (cases q)
    case (Inl e)
    with d Suc.prems m1 a1 show ?thesis by simp
  next
    case (Inr insts)
    define nds' where "nds' = map (refresh_node (by_id insts)) nds"
    obtain q2 s2 where u: "do_update_cluster X name (set_nodes nds' cluster_provisioning) s1 = (q2, s2)"
      by (cases "do_update_cluster X name (set_nodes nds' cluster_provisioning) s1")
    from leadsD [OF leads_mark [OF assms] u] a1 m1
    have m2: "moved x name (fst st) (fst s2)" and a2: "status_of name (fst s2) = prov_st"
      by (auto simp: set_nodes_def intro: moved_trans)
    consider "all_running (by_id insts) nds"
      | "\<not> all_running (by_id insts) nds" "t0 + 15 * 60 * second < x_now X (snd s2)"
      | "\<not> all_running (by_id insts) nds" "\<not> t0 + 15 * 60 * second < x_now X (snd s2)" by blast
    then show ?thesis
    proof cases
      case 1
      with Suc.prems d Inr u have "do_update_cluster X name (set_nodes nds' cluster_up) s2 = (r, st')"
        by (simp add: Let_def nds'_def)
      from leadsD [OF leads_ready [OF assms] this] a2 m2 show ?thesis
        by (auto simp: set_nodes_def intro: moved_trans)
    next
      case 2
      with Suc.prems d Inr u m2 a2 show ?thesis by (simp add: Let_def nds'_def)
    next
      case 3
      obtain q3 s3 where t: "world_err (x_tick X (15 * second) t0 (Suc k)) s2 = (q3, s3)"
        by (cases "world_err (x_tick X (15 * second) t0 (Suc k)) s2")
      then have c3: "st_clusters (fst s3) = st_clusters (fst s2)"
        using neutral_actions(2) by (metis snd_conv)
      then have m3: "moved x name (fst st) (fst s3)" and a3: "status_of name (fst s3) = prov_st"
        using a2 m2 by (auto intro: moved_same moved_trans simp: status_of_def)
      have "(case q3 of Inl e \<Rightarrow> Some (Inl e, s3)
          | Inr _ \<Rightarrow> wait_ready_loop n X p name region ids t0 (Suc k) nds' s3) = Some (r, st')"
        using 3 Suc.prems d Inr u t unfolding nds'_def by (simp add: Let_def)
      with Suc.IH [OF _ a3] m3 a3 show ?thesis
        by (cases q3) (auto intro: moved_trans)
    qed
  qed
qed simp

lemma leads_wait_ready:
  assumes "waiter x" and "cl_name c = name"
  shows "leads x name {prov_st} (wait_ready n X p c) {prov_st, up_st}"
  unfolding leads_def
proof (intro allI impI)
  fix st r st'
  assume w: "wait_ready n X p c st = (r, st')" and a: "status_of name (fst st) \<in> {prov_st}"
  show "moved x name (fst st) (fst st') \<and> status_of name (fst st') \<in> {prov_st, up_st}"
  proof (cases "wait_ready_loop n X p name (cl_region c) (map n_id (cl_instances c)) (x_now X (snd st)) 0 (cl_instances c) st")
    case None
    with w a assms(2) show ?thesis by (auto simp: wait_ready_def intro: moved_same)
  next
    case (Some q)
    with w assms(2) have "q = (r, st')" by (simp add: wait_ready_def)
    from wait_ready_loop_moved [OF assms(1) Some [unfolded this]] a show ?thesis by simp
  qed
qed

definition launched :: "life set" where "launched = {prov_st, up_st, err_st}"

lemma leads_keep: "(\<And>st. st_clusters (fst (snd (m st))) = st_clusters (fst st)) \<Longrightarrow> leads x name A m A"
  by (rule leads_neutral) simp_all

lemma leads_seq_same: "leads x name A m A \<Longrightarrow> leads x name A n A \<Longrightarrow> leads x name A (seq_act m n) A"
  by (rule leads_seq [OF _ _ subset_refl])

lemma leads_bind_same: "leads x name A m A \<Longrightarrow> (\<And>y. leads x name A (f y) A) \<Longrightarrow> leads x name A (bind_act m f) A"
  by (rule leads_bind [OF _ _ subset_refl])

lemma leads_catch_same: "leads x name A m A \<Longrightarrow> (\<And>e. leads x name A (h e) A) \<Longrightarrow> leads x name A (catch_act m h) A"
  by (rule leads_catch [OF _ _ subset_refl])

lemma leads_failed_launch: "leads Launching name launched (failed_launch X name prefix e) launched"
proof -
  have "leads Launching name launched (do_update_cluster X name f) launched"
    if "\<And>c. cl_status (f c) = cluster_error" for f
    by (rule leads_update [of _ cluster_error])
      (use that in \<open>auto simp: launched_def life_sts intro: life_step.failed\<close>)
  note u = leads_quiet [OF this]
  show ?thesis
    unfolding failed_launch_def
    by (rule leads_seq_same [OF u leads_seq_same [OF leads_keep leads_keep]]) simp_all
qed

lemma leads_checked: "leads Launching name launched (catch_act (world_err f) (failed_launch X name prefix)) launched"
  by (rule leads_catch_same [OF leads_keep leads_failed_launch]) simp

lemma leads_make_ready:
  assumes "cl_name c = name"
  shows "leads Launching name {prov_st} (make_ready n X dir name ts l p c) launched"
proof -
  have "leads Launching name {prov_st} (wait_ready n X p c) launched"
    by (rule leads_weaken [OF leads_wait_ready [OF _ assms]]) (auto simp: waiter_def launched_def)
  then have w: "leads Launching name {prov_st} (catch_act (wait_ready n X p c) (failed_launch X name [])) launched"
    by (rule leads_catch [OF _ leads_failed_launch]) simp
  have look: "leads Launching name launched (cluster_at name) launched"
    by (rule leads_keep) simp
  have ray: "leads Launching name launched (if b then bind_act (cluster_at name) (\<lambda>c'.
      catch_act (world_err (f c')) (failed_launch X name pre)) else ret ()) launched" for b f pre
    by (cases b) (simp_all add: leads_bind_same [OF look leads_checked] leads_keep)
  have agent: "leads Launching name launched (bind_act (cluster_at name) (\<lambda>c'.
      seq_act (catch_act (world_err (f c')) (failed_launch X name pre)) (cluster_at name))) launched" for f pre
    by (rule leads_bind_same [OF look leads_seq_same [OF leads_checked look]])
  show ?thesis
    unfolding make_ready_def by (rule leads_seq [OF w leads_seq_same [OF ray agent] subset_refl])
qed

lemma leads_add_cluster:
  assumes "cl_name c = name" and "cl_status c = cluster_provisioning"
  shows "leads Launching name {None} (do_add_cluster X c) {prov_st}"
proof (rule leadsI)
  fix s w r s' w'
  assume a: "do_add_cluster X c (s, w) = (r, (s', w'))" and n: "status_of name s \<in> {None}"
  then obtain c' where "st_clusters s' = mput name c' (st_clusters s)" "cl_status c' = cluster_provisioning"
    using assms
    by (auto simp: do_add_cluster_def stored_apply add_cluster_def persist_def Let_def status_of_def cluster_provisioning_def
        split: prod.splits if_splits)
  then have "status_of name s' = prov_st" "same_others name s s'"
    by (simp_all add: status_of_def same_others_def prov_st_def)
  with n show "moved Launching name s s' \<and> status_of name s' \<in> {prov_st}"
    by (auto simp: moved_def prov_st_def intro: life_step.created)
qed

text \<open>Actions that leave the store as it is.\<close>

definition read_only :: "('a, 'w sys) act \<Rightarrow> bool" where
  "read_only m \<longleftrightarrow> (\<forall>st. fst (snd (m st)) = fst st)"

lemma read_onlyD: "read_only m \<Longrightarrow> m st = (r, st') \<Longrightarrow> fst st' = fst st"
  unfolding read_only_def by (metis snd_conv)

lemma read_only_intros:
  "read_only (world f)" "read_only (world_err g)" "read_only (look k)" "read_only (asks h)"
  "read_only (ret y)" "read_only (raise e)" "read_only (of_res q)"
  by (simp_all add: read_only_def world_def world_err_def look_def asks_def split_beta)

lemma read_only_bind: "read_only m \<Longrightarrow> (\<And>y. read_only (f y)) \<Longrightarrow> read_only (bind_act m f)"
  unfolding read_only_def bind_act_def by (auto split: prod.split sum.split) (metis fst_conv snd_conv)+

lemma read_only_seq: "read_only m \<Longrightarrow> read_only n \<Longrightarrow> read_only (seq_act m n)"
  unfolding seq_act_def by (rule read_only_bind)

lemma read_only_catch: "read_only m \<Longrightarrow> (\<And>e. read_only (h e)) \<Longrightarrow> read_only (catch_act m h)"
  unfolding read_only_def catch_act_def by (auto split: prod.split sum.split) (metis fst_conv snd_conv)+

lemma read_only_if: "read_only m \<Longrightarrow> read_only n \<Longrightarrow> read_only (if b then m else n)"
  by simp

lemma read_only_pair: "(\<And>a b. read_only (f a b)) \<Longrightarrow> read_only (case q of (a, b) \<Rightarrow> f a b)"
  by (cases q) simp

lemmas read_only_rules = read_only_intros read_only_bind read_only_seq read_only_catch read_only_if read_only_pair

lemma read_only_ensure_key: "read_only (ensure_key_pair X dir p name region)"
  unfolding ensure_key_pair_def Let_def by (intro read_only_rules)

lemma read_only_start_machines: "read_only (start_machines X dir name ts l)"
  unfolding start_machines_def open_provider_def by (intro read_only_rules read_only_ensure_key)

lemma start_machines_cluster:
  "start_machines X dir name ts l st = (Inr (p, c), st') \<Longrightarrow> cl_name c = name \<and> cl_status c = cluster_provisioning"
  by (auto simp: start_machines_def bind_act_Inr new_cluster_def split: prod.splits)

lemma launch_fresh:
  assumes "launch_cluster n X dir name ts l st = (r, st')" and "status_of name (fst st) = None"
  shows "moved Launching name (fst st) (fst st') \<and> status_of name (fst st') \<in> insert None launched"
proof -
  obtain q s1 where q: "start_machines X dir name ts l st = (q, s1)"
    by (cases "start_machines X dir name ts l st")
  from read_onlyD [OF read_only_start_machines this] have s1: "fst s1 = fst st" .
  show ?thesis
  proof (cases q)
    case (Inl e)
    with assms q s1 show ?thesis by (auto simp: launch_cluster_def bind_act_def intro: moved_same)
  next
    case (Inr pc)
    obtain p c where pc: "pc = (p, c)" by (cases pc)
    have c: "cl_name c = name" "cl_status c = cluster_provisioning"
      using start_machines_cluster [OF q [unfolded Inr pc]] by simp_all
    have "leads Launching name {None} (seq_act (do_add_cluster X c) (make_ready n X dir name ts l p c)) launched"
      by (rule leads_seq [OF leads_add_cluster [OF c] leads_make_ready [OF c(1)]]) (simp add: launched_def)
    moreover have "seq_act (do_add_cluster X c) (make_ready n X dir name ts l p c) s1 = (r, st')"
      using assms(1) q Inr pc by (simp add: launch_cluster_def bind_act_def)
    ultimately show ?thesis
      using assms(2) s1 leadsD by fastforce
  qed
qed

text \<open>Under a name in use the machines are started all the same, and the record is refused.\<close>

lemma launch_taken:
  assumes "mget (st_clusters (fst st)) name = Some c0"
  shows "launch_cluster n X dir name ts l st =
    (case start_machines X dir name ts l st of
       (Inl e, st1) \<Rightarrow> (Inl e, st1)
     | (Inr _, st1) \<Rightarrow> (Inl (Err (''cluster '' @ name @ '' already exists'')), st1))"
proof -
  obtain q s w where q: "start_machines X dir name ts l st = (q, (s, w))"
    by (metis prod.collapse)
  from read_onlyD [OF read_only_start_machines this] have "s = fst st" by simp
  moreover have "cl_name c = name" if "q = Inr (p, c)" for p c
    using start_machines_cluster [OF q [unfolded that]] by simp
  ultimately show ?thesis
    using assms q
    by (cases q) (auto simp: launch_cluster_def bind_act_def seq_act_def do_add_cluster_def stored_apply add_cluster_def
        err_res_def)
qed

section \<open>Stopping, starting, removing\<close>

lemma cluster_at_then:
  assumes "bind_act (cluster_at name) f st = (r, st')"
  shows "(\<exists>e. r = Inl e \<and> st' = st) \<or> (\<exists>c. mget (st_clusters (fst st)) name = Some c \<and> f c st = (r, st'))"
  using assms
  by (cases st) (auto simp: bind_act_def cluster_at_def asks_def get_cluster_def split: option.splits)

lemma neutral_record_event: "leads x name A (record_cluster_event X n a b t q) A"
  by (rule leads_keep) simp

lemma stop_moved:
  assumes "stop_cluster X name st = (r, st')"
  shows "moved Stopping name (fst st) (fst st') \<and>
    (status_of name (fst st') = status_of name (fst st) \<or> status_of name (fst st') = Some cluster_stopped)"
proof -
  have u: "leads Stopping name A (do_update_cluster X name (\<lambda>c. c\<lparr>cl_status := cluster_stopped\<rparr>)) (insert (Some cluster_stopped) A)" for A
    by (rule leads_update [of _ cluster_stopped]) (auto intro: life_step.suspended)
  have "leads Stopping name A (bind_act (provider_for_cluster X c) (\<lambda>p.
      seq_act (world_err (x_stop X p (cl_region c) ids))
      (seq_act (record_cluster_event X name (cl_status c) cluster_stopped ''stop'' ''cluster stopped'')
      (do_update_cluster X name (\<lambda>c. c\<lparr>cl_status := cluster_stopped\<rparr>))))) (insert (Some cluster_stopped) A)" for A c ids
    unfolding provider_for_cluster_def open_provider_def
    by (rule leads_bind [OF leads_keep leads_seq [OF leads_keep leads_seq [OF neutral_record_event u]]]) auto
  from this [of "{status_of name (fst st)}"] show ?thesis
    using cluster_at_then [OF assms [unfolded stop_cluster_def]] by (auto dest: leadsD intro: moved_same)
qed

lemma start_moved:
  assumes "start_cluster n X name st = (r, st')" and "store_ok (fst st)"
  shows "moved Starting name (fst st) (fst st') \<and>
    status_of name (fst st') \<in> {status_of name (fst st), prov_st, up_st}"
proof -
  have u: "leads Starting name {Some q} (do_update_cluster X name (\<lambda>c. c\<lparr>cl_status := cluster_provisioning\<rparr>)) {prov_st}" for q
    by (rule leads_update [of _ cluster_provisioning]) (auto simp: prov_st_def intro: life_step.resumed)
  have main: "leads Starting name {Some q} (bind_act (provider_for_cluster X c) (\<lambda>p.
      seq_act (world_err (x_start X p (cl_region c) (node_ids c)))
      (seq_act (record_cluster_event X name (cl_status c) cluster_provisioning ''start'' ''cluster starting'')
      (seq_act (do_update_cluster X name (\<lambda>c. c\<lparr>cl_status := cluster_provisioning\<rparr>))
      (wait_ready n X p c))))) {Some q, prov_st, up_st}" if "cl_name c = name" for q c
  proof -
    have w: "leads Starting name {prov_st} (wait_ready n X p c) {prov_st, up_st}" for p
      by (rule leads_wait_ready) (simp_all add: waiter_def that)
    have "leads Starting name {Some q} (seq_act (do_update_cluster X name (\<lambda>c. c\<lparr>cl_status := cluster_provisioning\<rparr>))
        (wait_ready n X p c)) {Some q, prov_st, up_st}" for p
      by (rule leads_weaken [OF leads_seq [OF u w]]) auto
    then show ?thesis
      unfolding provider_for_cluster_def open_provider_def
      by (intro leads_bind [OF leads_keep leads_seq [OF leads_keep leads_seq [OF neutral_record_event]]]) auto
  qed
  from cluster_at_then [OF assms(1) [unfolded start_cluster_def]] show ?thesis
  proof (elim disjE exE conjE)
    fix c
    assume c: "mget (st_clusters (fst st)) name = Some c"
    with assms(2) have "cl_name c = name" by (auto simp: store_ok_def dest: keyed_name)
    moreover have "status_of name (fst st) = Some (cl_status c)" using c by (simp add: status_of_def)
    moreover assume "bind_act (provider_for_cluster X c) (\<lambda>p.
      seq_act (world_err (x_start X p (cl_region c) (node_ids c)))
      (seq_act (record_cluster_event X name (cl_status c) cluster_provisioning ''start'' ''cluster starting'')
      (seq_act (do_update_cluster X name (\<lambda>c. c\<lparr>cl_status := cluster_provisioning\<rparr>))
      (wait_ready n X p c)))) st = (r, st')"
    ultimately show ?thesis using leadsD [OF main [of c "cl_status c"]] by auto
  qed (auto intro: moved_same)
qed

lemma down_moved:
  assumes "down_cluster X name st = (r, st')"
  shows "moved Removing name (fst st) (fst st') \<and> status_of name (fst st') \<in> {status_of name (fst st), None}"
proof -
  obtain s w s' w' where st: "st = (s, w)" "st' = (s', w')" by (cases st, cases st')
  from down_forget [OF assms [unfolded st]]
  have "same_others name s s'" "s' = s \<or> mget (st_clusters s') name = None \<and> (\<exists>c. get_cluster s name = Inr c)"
    by blast+
  moreover have "(life_step Removing)\<^sup>*\<^sup>* (Some q) None" for q
    by (simp add: r_into_rtranclp life_step.removed)
  ultimately show ?thesis
    unfolding st by (auto simp: moved_def status_of_def get_cluster_def split: option.splits)
qed

section \<open>Sequences of operations\<close>

datatype cluster_op = Op_launch nat string string task launch | Op_stop string | Op_start nat string | Op_down string

fun run_cluster_op :: "('p, 'w) ext \<Rightarrow> cluster_op \<Rightarrow> 'w sys \<Rightarrow> 'w sys" where
  "run_cluster_op X (Op_launch n dir name ts l) st = snd (launch_cluster n X dir name ts l st)"
| "run_cluster_op X (Op_stop name) st = snd (stop_cluster X name st)"
| "run_cluster_op X (Op_start n name) st = snd (start_cluster n X name st)"
| "run_cluster_op X (Op_down name) st = snd (down_cluster X name st)"

fun op_kind :: "cluster_op \<Rightarrow> operation" where
  "op_kind (Op_launch n dir name ts l) = Launching"
| "op_kind (Op_stop name) = Stopping"
| "op_kind (Op_start n name) = Starting"
| "op_kind (Op_down name) = Removing"

fun op_cluster :: "cluster_op \<Rightarrow> string" where
  "op_cluster (Op_launch n dir name ts l) = name"
| "op_cluster (Op_stop name) = name"
| "op_cluster (Op_start n name) = name"
| "op_cluster (Op_down name) = name"

definition live :: "life set" where
  "live = {None, prov_st, up_st, err_st, Some cluster_stopped}"

text \<open>The invariant of the store goes through every call.\<close>

lemma keeps_op:
  assumes "\<And>s w. op_ok (x s w)" and "\<And>s w. snd (f s w) = run_op B id (x s w) (s, w)"
  shows "keeps (\<lambda>(s, w). store_ok s) (stored f)"
  by (rule keeps_stored) (simp add: assms run_op_ok)

lemma keeps_do_add_job [keeps_intros]: "keeps (\<lambda>(s, w). store_ok s) (do_add_job X j)"
  unfolding do_add_job_def by (rule keeps_op [where x = "\<lambda>s w. OAddJob (unix X w) j"]) simp_all

lemma keeps_do_add_service [keeps_intros]: "keeps (\<lambda>(s, w). store_ok s) (do_add_service X v)"
  unfolding do_add_service_def by (rule keeps_op [where x = "\<lambda>s w. OAddService (unix X w) v"]) simp_all

lemma keeps_do_update_job [keeps_intros]: "(\<And>j. j_name (g j) = j_name j) \<Longrightarrow> keeps (\<lambda>(s, w). store_ok s) (do_update_job X name g)"
  unfolding do_update_job_def by (rule keeps_op [where x = "\<lambda>s w. OUpdateJob (unix X w) name (\<lambda>j. (None, g j))"]) simp_all

lemma keeps_do_update_service [keeps_intros]: "(\<And>v. sc_name (k v) = sc_name v) \<Longrightarrow> keeps (\<lambda>(s, w). store_ok s) (do_update_service X name k)"
  unfolding do_update_service_def by (rule keeps_op [where x = "\<lambda>s w. OUpdateService (unix X w) name (\<lambda>v. (None, k v))"]) simp_all

lemma keeps_neutral:
  "(\<And>st. fst (snd (m st)) = fst st) \<Longrightarrow> keeps (\<lambda>(s, w). P s) m"
  unfolding keeps_def by (metis (no_types, lifting) case_prod_beta)

lemma keeps_read_only: "read_only m \<Longrightarrow> keeps (\<lambda>(s, w). P s) m"
  by (rule keeps_neutral) (simp only: read_only_def)

lemma keeps_cluster_at [keeps_intros]: "keeps (\<lambda>(s, w). P s) (cluster_at name)"
  unfolding cluster_at_def by (rule keeps_world)

lemma keeps_pair: "(\<And>a b. keeps P (f a b)) \<Longrightarrow> keeps P (case q of (a, b) \<Rightarrow> f a b)"
  by (cases q) simp

lemma keeps_stD: "keeps (\<lambda>(s, w). P s) m \<Longrightarrow> P (fst st) \<Longrightarrow> P (fst (snd (m st)))"
  by (cases st) (auto simp: keeps_def split_beta)

lemma keeps_stI:
  fixes m :: "('a, 'w sys) act"
  assumes "\<And>st. P (fst st) \<Longrightarrow> P (fst (snd (m st)))"
  shows "keeps (\<lambda>(s, w). P s) m"
  using assms by (auto simp: keeps_def split_beta)

lemmas keeps_store_okD = keeps_stD [where P = store_ok]

lemma set_nodes_name [simp]: "cl_name (set_nodes nds st c) = cl_name c"
  by (simp add: set_nodes_def)

section \<open>What the operations on clusters leave alone\<close>

text \<open>
  A predicate on the store that no change of the clusters, their snapshots, their history and the
  events falsifies, as long as an entity is filed under its own name or replaces one of the same
  name. The operations on clusters keep every such predicate.
\<close>

definition refiled :: "('a \<Rightarrow> string) \<Rightarrow> 'a smap \<Rightarrow> string \<Rightarrow> 'a \<Rightarrow> bool" where
  "refiled nm m k v \<longleftrightarrow> nm v = k \<or> (\<exists>v0. mget m k = Some v0 \<and> nm v0 = nm v)"

locale cluster_invariant =
  fixes P :: "store \<Rightarrow> bool"
  assumes put_cluster: "P s \<Longrightarrow> refiled cl_name (st_clusters s) k c \<Longrightarrow> P (s\<lparr>st_clusters := mput k c (st_clusters s)\<rparr>)"
    and del_cluster: "P s \<Longrightarrow> P (s\<lparr>st_clusters := mdel k (st_clusters s)\<rparr>)"
    and put_yaml: "P s \<Longrightarrow> refiled y_cluster_name (st_yamls s) k y \<Longrightarrow> P (s\<lparr>st_yamls := mput k y (st_yamls s)\<rparr>)"
    and put_history: "P s \<Longrightarrow> refiled h_cluster_name (st_history s) k h \<Longrightarrow> P (s\<lparr>st_history := mput k h (st_history s)\<rparr>)"
    and put_event: "P s \<Longrightarrow> P (s\<lparr>st_events := es\<rparr>)"
begin

lemma keeps_clusters [keeps_intros]:
  "keeps (\<lambda>(s, w). P s) (do_add_cluster X c)" "keeps (\<lambda>(s, w). P s) (do_delete_cluster X name)"
  "keeps (\<lambda>(s, w). P s) (do_event X e)" "keeps (\<lambda>(s, w). P s) (do_record_yaml X name y)"
  "keeps (\<lambda>(s, w). P s) (do_record_history X h)"
  unfolding do_add_cluster_def do_delete_cluster_def do_event_def do_record_yaml_def do_record_history_def
  by (auto simp: add_cluster_def delete_cluster_def add_cluster_event_def record_cluster_yaml_def
      record_cluster_history_def Let_def refiled_def split: option.splits
      intro!: keeps_stored put_cluster del_cluster put_yaml put_history put_event)

lemma keeps_update [keeps_intros]:
  assumes "\<And>c. cl_name (f c) = cl_name c"
  shows "keeps (\<lambda>(s, w). P s) (do_update_cluster X name f)"
  unfolding do_update_cluster_def
  by (rule keeps_stored) (auto simp: update_cluster_def refiled_def assms split: option.splits intro!: put_cluster)

lemma keeps_record_event [keeps_intros]: "keeps (\<lambda>(s, w). P s) (record_cluster_event X n a b t q)"
  unfolding record_cluster_event_def by (intro keeps_intros)

lemma keeps_failed_launch [keeps_intros]: "keeps (\<lambda>(s, w). P s) (failed_launch X name pre e)"
  unfolding failed_launch_def by (intro keeps_intros) simp

lemma keeps_wait_ready_loop:
  "wait_ready_loop n X p name region ids t0 k nds st = Some (r, st') \<Longrightarrow> P (fst st) \<Longrightarrow> P (fst st')"
proof (induction n arbitrary: k nds st)
  case (Suc n)
  have u: "P (fst (snd (do_update_cluster X name (set_nodes nds' q) s)))" if "P (fst s)" for nds' q s
    by (rule keeps_stD [OF keeps_update that]) simp
  obtain q1 s1 where d: "world (x_describe X p region ids) st = (q1, s1)"
    by (cases "world (x_describe X p region ids) st")
  from read_onlyD [OF read_only_intros(1) d] Suc.prems(2) have s1: "P (fst s1)" by simp
  show ?case
  proof (cases q1)
    case (Inl e)
    with d Suc.prems s1 show ?thesis by simp
  next
    case (Inr insts)
    define s2 where "s2 = snd (do_update_cluster X name (set_nodes (map (refresh_node (by_id insts)) nds) cluster_provisioning) s1)"
    have s2: "P (fst s2)" unfolding s2_def by (rule u [OF s1])
    obtain q3 s3 where t: "world_err (x_tick X (15 * second) t0 (Suc k)) s2 = (q3, s3)"
      by (cases "world_err (x_tick X (15 * second) t0 (Suc k)) s2")
    from read_onlyD [OF read_only_intros(2) t] s2 have s3: "P (fst s3)" by simp
    from Suc.prems(1) d Inr t show ?thesis
      using u [OF s2] s2 s3 Suc.IH
      by (auto simp: Let_def s2_def [symmetric] split: if_splits sum.splits) (metis fst_conv snd_conv)+
  qed
qed simp

lemma keeps_wait_ready [keeps_intros]:
  fixes X :: "('p, 'w) ext"
  shows "keeps (\<lambda>(s, w). P s) (wait_ready n X p c)"
proof (rule keeps_stI)
  fix st :: "'w sys"
  assume ok: "P (fst st)"
  let ?loop = "wait_ready_loop n X p (cl_name c) (cl_region c) (map n_id (cl_instances c)) (x_now X (snd st)) 0 (cl_instances c) st"
  show "P (fst (snd (wait_ready n X p c st)))"
    by (cases ?loop) (use ok keeps_wait_ready_loop in \<open>fastforce simp: wait_ready_def\<close>)+
qed

lemma keeps_launch [keeps_intros]: "keeps (\<lambda>(s, w). P s) (launch_cluster n X dir name ts l)"
  unfolding launch_cluster_def make_ready_def
  by (intro keeps_intros keeps_pair keeps_read_only [OF read_only_start_machines])

lemma keeps_stop_start_down [keeps_intros]:
  "keeps (\<lambda>(s, w). P s) (stop_cluster X name)"
  "keeps (\<lambda>(s, w). P s) (start_cluster n X name)"
  "keeps (\<lambda>(s, w). P s) (down_cluster X name)"
  unfolding stop_cluster_def start_cluster_def down_cluster_def provider_for_cluster_def open_provider_def
  by (intro keeps_intros; simp)+

end

lemma refiled_keyed: "keyed nm m \<Longrightarrow> refiled nm m k v \<Longrightarrow> keyed nm (mput k v m)"
  unfolding refiled_def by (metis keyed_mput keyed_name)

interpretation ok: cluster_invariant store_ok
  by unfold_locales (auto simp: store_ok_def refiled_keyed)

interpretation aside: cluster_invariant "\<lambda>s. st_jobs s = J \<and> st_services s = V \<and> st_config s = C \<and> st_tokens s = T" for J V C T
  by unfold_locales simp_all

lemma run_cluster_op_ok: "store_ok (fst st) \<Longrightarrow> store_ok (fst (run_cluster_op X op st))"
  by (cases op) (simp_all add: keeps_store_okD ok.keeps_launch ok.keeps_stop_start_down)

lemma run_cluster_op_moved:
  assumes "store_ok (fst st)" and "status_of (op_cluster op) (fst st) \<in> live"
  shows "moved (op_kind op) (op_cluster op) (fst st) (fst (run_cluster_op X op st)) \<and>
    status_of (op_cluster op) (fst (run_cluster_op X op st)) \<in> live"
proof (cases op)
  case (Op_launch n dir name ts l)
  obtain r st' where l: "launch_cluster n X dir name ts l st = (r, st')" by (cases "launch_cluster n X dir name ts l st")
  show ?thesis
  proof (cases "mget (st_clusters (fst st)) name")
    case None
    with launch_fresh [OF l] Op_launch l show ?thesis by (auto simp: status_of_def live_def launched_def)
  next
    case (Some c)
    obtain q s1 where q: "start_machines X dir name ts l st = (q, s1)" by (cases "start_machines X dir name ts l st")
    from launch_taken [where st = st, OF Some, of n X dir ts l] l q have "st' = s1" by (cases q) (auto split: sum.splits)
    with read_onlyD [OF read_only_start_machines q] Op_launch l assms show ?thesis
      by (auto intro: moved_same)
  qed
next
  case (Op_stop name)
  obtain r st' where l: "stop_cluster X name st = (r, st')" by (cases "stop_cluster X name st")
  from stop_moved [OF l] l Op_stop assms show ?thesis by (auto simp: live_def)
next
  case (Op_start n name)
  obtain r st' where l: "start_cluster n X name st = (r, st')" by (cases "start_cluster n X name st")
  from start_moved [OF l assms(1)] l Op_start assms show ?thesis by (auto simp: live_def)
next
  case (Op_down name)
  obtain r st' where l: "down_cluster X name st = (r, st')" by (cases "down_cluster X name st")
  from down_moved [OF l] l Op_down assms show ?thesis by (auto simp: live_def)
qed

text \<open>C9. The operations on clusters follow the life of a cluster: from a consistent store, every operation moves its own
  cluster along the steps of that operation only and changes no other cluster, whatever the cloud answers; after any
  sequence of operations the store is consistent and every cluster is provisioning, up, stopped or failed.\<close>

theorem cluster_lifecycle:
  fixes X :: "('p, 'w) ext" and st :: "'w sys"
  assumes "store_ok (fst st)" and "\<forall>n. status_of n (fst st) \<in> live"
  shows "(life_step (op_kind op))\<^sup>*\<^sup>* (status_of (op_cluster op) (fst st)) (status_of (op_cluster op) (fst (run_cluster_op X op st))) \<and>
    (\<forall>n. n \<noteq> op_cluster op \<longrightarrow>
       mget (st_clusters (fst (run_cluster_op X op st))) n = mget (st_clusters (fst st)) n) \<and>
    store_ok (fst (foldl (\<lambda>st op. run_cluster_op X op st) st ops)) \<and>
    (\<forall>n. status_of n (fst (foldl (\<lambda>st op. run_cluster_op X op st) st ops)) \<in> live)"
proof -
  have one: "store_ok (fst (run_cluster_op X x q)) \<and> (\<forall>n. status_of n (fst (run_cluster_op X x q)) \<in> live)"
    if "store_ok (fst q)" "\<forall>n. status_of n (fst q) \<in> live" for x and q :: "'w sys"
  proof -
    have "status_of n (fst (run_cluster_op X x q)) \<in> live" for n
      using run_cluster_op_moved [OF that(1), of x X] that(2)
      by (cases "n = op_cluster x") (auto simp: moved_def same_others_def status_of_def)
    with run_cluster_op_ok that(1) show ?thesis by blast
  qed
  have "store_ok (fst (foldl (\<lambda>st op. run_cluster_op X op st) q ops)) \<and>
      (\<forall>n. status_of n (fst (foldl (\<lambda>st op. run_cluster_op X op st) q ops)) \<in> live)"
    if "store_ok (fst q)" "\<forall>n. status_of n (fst q) \<in> live" for q :: "'w sys"
    using that by (induction ops arbitrary: q) (use one in auto)
  with run_cluster_op_moved [OF assms(1), of op X] assms show ?thesis
    by (auto simp: moved_def same_others_def)
qed

section \<open>What a launch returns\<close>

definition ready_cluster :: "string \<Rightarrow> store \<Rightarrow> bool" where
  "ready_cluster name s \<longleftrightarrow>
     (\<exists>c. mget (st_clusters s) name = Some c \<and> cl_status c = cluster_up \<and>
        (\<forall>nd \<in> set (cl_instances c). n_status nd = status_running))"

lemma refreshed_running:
  "all_running m nds \<Longrightarrow> \<forall>nd \<in> set (map (refresh_node m) nds). n_status nd = status_running"
  by (auto simp: all_running_def list_all_iff refresh_node_def split: option.splits)

lemma update_Inr:
  "do_update_cluster X name f st = (Inr u, st') \<Longrightarrow>
   \<exists>c. mget (st_clusters (fst st)) name = Some c \<and>
     st_clusters (fst st') = mput name ((f c)\<lparr>cl_updated_at := unix X (snd st)\<rparr>) (st_clusters (fst st))"
  by (cases st) (auto simp: do_update_cluster_def stored_apply update_cluster_def persist_def err_res_def
      split: prod.splits option.splits)

lemma wait_ready_loop_ready:
  "wait_ready_loop n X p name region ids t0 k nds st = Some (Inr (), st') \<Longrightarrow> ready_cluster name (fst st')"
proof (induction n arbitrary: k nds st)
  case (Suc n)
  obtain q s1 where d: "world (x_describe X p region ids) st = (q, s1)"
    by (cases "world (x_describe X p region ids) st")
  with Suc.prems obtain insts where q: "q = Inr insts" by (cases q) auto
  define s2 where "s2 = snd (do_update_cluster X name (set_nodes (map (refresh_node (by_id insts)) nds) cluster_provisioning) s1)"
  show ?case
  proof (cases "all_running (by_id insts) nds")
    case True
    with Suc.prems d q have
      u: "do_update_cluster X name (set_nodes (map (refresh_node (by_id insts)) nds) cluster_up) s2 = (Inr (), st')"
      by (simp add: Let_def s2_def)
    from update_Inr [OF u] refreshed_running [OF True] show ?thesis
      by (auto simp: ready_cluster_def set_nodes_def)
  next
    case False
    with Suc.prems d q show ?thesis
      by (auto simp: Let_def s2_def [symmetric] split: if_splits prod.splits sum.splits intro: Suc.IH)
  qed
qed simp

lemma wait_ready_ready: "cl_name c = name \<Longrightarrow> wait_ready n X p c st = (Inr u, st') \<Longrightarrow> ready_cluster name (fst st')"
  by (auto simp: wait_ready_def split: option.splits dest: wait_ready_loop_ready)

lemma failed_launch_marks:
  assumes "failed_launch X name pre e st = (r, st')" and "status_of name (fst st) \<noteq> None"
  shows "r = Inl e \<and> status_of name (fst st') = err_st"
proof -
  obtain q s1 where u: "do_update_cluster X name
      (\<lambda>c. c\<lparr>cl_status := cluster_error, cl_last_error := pre @ err_text e\<rparr>) st = (q, s1)"
    by (cases "do_update_cluster X name (\<lambda>c. c\<lparr>cl_status := cluster_error, cl_last_error := pre @ err_text e\<rparr>) st")
  from assms(2) u have "status_of name (fst s1) = err_st"
    by (cases st) (auto simp: do_update_cluster_def stored_apply update_cluster_def persist_def status_of_def err_st_def
        split: prod.splits)
  moreover have "r = Inl e \<and> st_clusters (fst st') = st_clusters (fst s1)"
    using assms(1) u by (auto simp: failed_launch_def seq_act_def bind_act_def record_cluster_event_def dest: sym)
      (metis event_clusters prod.collapse snd_conv)+
  ultimately show ?thesis by (simp add: status_of_def)
qed

text \<open>A step of the launch that is read-only when it succeeds and marks the cluster when it fails.\<close>

lemma checked_step:
  assumes "catch_act (world_err f) (failed_launch X name pre) st = (r, st')" and "status_of name (fst st) \<noteq> None"
  shows "(r = Inr () \<and> fst st' = fst st) \<or> ((\<exists>e. r = Inl e) \<and> status_of name (fst st') = err_st)"
proof -
  obtain q s1 where w: "world_err f st = (q, s1)" by (cases "world_err f st")
  with read_onlyD [OF read_only_intros(2) w] assms show ?thesis
    by (cases q) (auto simp: catch_act_def dest: failed_launch_marks)
qed

lemma make_ready_outcome:
  fixes X :: "('p, 'w) ext"
  assumes "make_ready n X dir name ts l p c st = (r, st')" and "cl_name c = name" and "status_of name (fst st) = prov_st"
  shows "(\<exists>c'. r = Inr c' \<and> mget (st_clusters (fst st')) name = Some c' \<and> ready_cluster name (fst st')) \<or>
    (\<exists>e. r = Inl e) \<and> status_of name (fst st') = err_st"
proof -
  have at: "cluster_at name q = (Inr c', q)" if "mget (st_clusters (fst q)) name = Some c'" for q :: "'w sys" and c'
    using that by (cases q) (simp add: cluster_at_def asks_def get_cluster_def)
  obtain r1 s1 where w: "wait_ready n X p c st = (r1, s1)" by (cases "wait_ready n X p c st")
  have s1: "status_of name (fst s1) \<noteq> None"
    using leadsD [OF leads_wait_ready [OF _ assms(2)] w, of Launching] assms(3) by (auto simp: waiter_def life_sts)
  show ?thesis
  proof (cases r1)
    case (Inl e)
    obtain q2 s2 where f: "(failed_launch X name [] e :: (unit, 'w sys) act) s1 = (q2, s2)"
      by (cases "(failed_launch X name [] e :: (unit, 'w sys) act) s1")
    from failed_launch_marks [OF f s1] w f Inl assms(1) show ?thesis
      by (auto simp: make_ready_def seq_act_def bind_act_def catch_act_def)
  next
    case (Inr u)
    from wait_ready_ready [OF assms(2) w [unfolded Inr]] have ready: "ready_cluster name (fst s1)" .
    then obtain c1 where c1: "mget (st_clusters (fst s1)) name = Some c1" by (auto simp: ready_cluster_def)
    define ray where "ray = (if 1 < l_num_nodes l
               then bind_act (cluster_at name) (\<lambda>c'.
                  catch_act (world_err (bootstrap_ray n X c' ts)) (failed_launch X name ''ray bootstrap: ''))
               else ret ())"
    obtain r2 s2 where r2: "ray s1 = (r2, s2)" by (cases "ray s1")
    have ray: "(r2 = Inr () \<and> fst s2 = fst s1) \<or> ((\<exists>e. r2 = Inl e) \<and> status_of name (fst s2) = err_st)"
    proof (cases "1 < l_num_nodes l")
      case True
      with r2 at [OF c1] have
        "catch_act (world_err (bootstrap_ray n X c1 ts)) (failed_launch X name ''ray bootstrap: '') s1 = (r2, s2)"
        by (simp add: ray_def bind_act_def)
      from checked_step [OF this s1] show ?thesis .
    qed (use r2 in \<open>auto simp: ray_def\<close>)
    have rest: "seq_act ray (bind_act (cluster_at name) (\<lambda>c'.
        seq_act (catch_act (world_err (install_gpilet n X dir c')) (failed_launch X name ''gpilet install: ''))
          (cluster_at name))) s1 = (r, st')"
      using assms(1) w Inr by (simp add: make_ready_def ray_def seq_act_def bind_act_def catch_act_def)
    from ray show ?thesis
    proof (elim disjE conjE exE)
      fix e
      assume "r2 = Inl e" "status_of name (fst s2) = err_st"
      with rest r2 show ?thesis by (auto simp: seq_act_def bind_act_def)
    next
      assume ok: "r2 = Inr ()" "fst s2 = fst s1"
      with c1 s1 have c2: "mget (st_clusters (fst s2)) name = Some c1" "status_of name (fst s2) \<noteq> None" by simp_all
      obtain r3 s3 where i: "catch_act (world_err (install_gpilet n X dir c1)) (failed_launch X name ''gpilet install: '') s2 = (r3, s3)"
        by (cases "catch_act (world_err (install_gpilet n X dir c1)) (failed_launch X name ''gpilet install: '') s2")
      have "(case r3 of Inl e \<Rightarrow> (Inl e, s3) | Inr _ \<Rightarrow> cluster_at name s3) = (r, st')"
        using rest r2 ok at [OF c2(1)] i by (simp add: seq_act_def bind_act_def)
      with checked_step [OF i c2(2)] ok c1 ready at [of s3 c1] show ?thesis by (auto split: sum.splits)
    qed
  qed
qed

lemma launch_result:
  fixes st :: "'w sys"
  assumes "launch_cluster n X dir name ts l st = (r, st')"
  shows "(status_of name (fst st) = None \<longrightarrow>
      (\<exists>c. r = Inr c \<and> get_cluster (fst st') name = Inr c \<and> ready_cluster name (fst st')) \<or>
      (\<exists>e. r = Inl e) \<and> (fst st' = fst st \<or> status_of name (fst st') \<in> {err_st, prov_st})) \<and>
    (status_of name (fst st) \<noteq> None \<longrightarrow>
      fst st' = fst st \<and> (\<exists>e. r = Inl e) \<and>
      (\<forall>p c st1. start_machines X dir name ts l st = (Inr (p, c), st1) \<longrightarrow>
         r = Inl (Err (''cluster '' @ name @ '' already exists'')) \<and> st' = st1))"
proof (cases "mget (st_clusters (fst st)) name")
  case None
  obtain q s1 where q: "start_machines X dir name ts l st = (q, s1)"
    by (cases "start_machines X dir name ts l st")
  from read_onlyD [OF read_only_start_machines q] have s1: "fst s1 = fst st" .
  show ?thesis
  proof (cases q)
    case (Inl e)
    with assms None q s1 show ?thesis by (auto simp: launch_cluster_def bind_act_def status_of_def)
  next
    case (Inr pc)
    obtain p c where pc: "pc = (p, c)" by (cases pc)
    from start_machines_cluster [OF q [unfolded Inr pc]] have c: "cl_name c = name" "cl_status c = cluster_provisioning" by simp_all
    obtain a s2 where a: "do_add_cluster X c s1 = (a, s2)" by (cases "do_add_cluster X c s1")
    from leadsD [OF leads_add_cluster [OF c] a] None s1 have p2: "status_of name (fst s2) = prov_st"
      by (simp add: status_of_def)
    show ?thesis
    proof (cases a)
      case (Inl e)
      with assms None q Inr pc a p2 show ?thesis
        by (auto simp: launch_cluster_def seq_act_def bind_act_def status_of_def)
    next
      case ok: (Inr u)
      with assms q Inr pc a have "make_ready n X dir name ts l p c s2 = (r, st')"
        by (simp add: launch_cluster_def seq_act_def bind_act_def)
      from make_ready_outcome [OF this c(1) p2] None show ?thesis
        by (auto simp: get_cluster_def status_of_def)
    qed
  qed
next
  case (Some c0)
  obtain q s1 where q: "start_machines X dir name ts l st = (q, s1)"
    by (cases "start_machines X dir name ts l st")
  from read_onlyD [OF read_only_start_machines q] launch_taken [where st = st, OF Some, of n X dir ts l] assms q Some
  show ?thesis by (cases q) (auto simp: status_of_def)
qed


section \<open>A world to run it in\<close>

text \<open>A clock and one provider whose machines run at once; commands sent to a host exit with code 7.\<close>

definition memory_backend :: "'w backend_ops" where
  "memory_backend =
     \<lparr>b_load_clusters = Pair (Inr []), b_load_services = Pair (Inr []), b_load_jobs = Pair (Inr []),
      b_load_yamls = Pair (Inr []), b_load_history = Pair (Inr []), b_load_events = Pair (Inr []),
      b_load_config = Pair (Inr []), b_load_tokens = Pair (Inr []),
      b_save_clusters = (\<lambda>_ w. (None, w)), b_save_services = (\<lambda>_ w. (None, w)), b_save_jobs = (\<lambda>_ w. (None, w)),
      b_save_yamls = (\<lambda>_ w. (None, w)), b_save_history = (\<lambda>_ w. (None, w)), b_save_events = (\<lambda>_ w. (None, w)),
      b_save_config = (\<lambda>_ w. (None, w)), b_save_tokens = (\<lambda>_ w. (None, w)), b_close = Pair None\<rparr>"

definition sample_inst :: inst where
  "sample_inst = \<lparr>i_id = ''i-1'', i_name = ''c1'', i_public_ip = ''1.2.3.4'', i_private_ip = ''10.0.0.1'',
     i_status = status_running, i_type = ''small'', i_region = ''r'', i_zone = [], i_created_at = 0, i_tags = []\<rparr>"

definition sample_ext :: "(unit, int) ext" where
  "sample_ext =
     \<lparr>x_backend = memory_backend, x_now = id, x_sleep = (\<lambda>d w. (None, w + d)),
      x_tick = (\<lambda>d t0 k w. (None, max w (t0 + int k * d))),
      x_registries = \<lparr>reg_providers = [(''sim'', ())], reg_factories = [], reg_sources = []\<rparr>,
      x_create_key = (\<lambda>_ _ _ w. (Inr ''key'', w)), x_get_image = (\<lambda>_ _ _ w. (Inr ''img'', w)),
      x_run_instances = (\<lambda>_ _ w. (Inr [sample_inst], w)), x_describe = (\<lambda>_ _ _ w. (Inr [sample_inst], w)),
      x_stop = (\<lambda>_ _ _ w. (None, w)), x_start = (\<lambda>_ _ _ w. (None, w)), x_terminate = (\<lambda>_ _ _ w. (None, w)),
      x_exists = (\<lambda>_ _. False), x_is_file = (\<lambda>_ _. False), x_mkdir = (\<lambda>_ w. (None, w)), x_write = (\<lambda>_ _ w. (None, w)),
      x_exec = (\<lambda>args _ w. (([], Exited (if last args = ''bash -s'' then 7 else 0)), w)),
      x_emit = (\<lambda>_ w. w), x_order = (\<lambda>_ n. [0..<n]), x_env = [], x_executable = Inl (Err ''none''),
      x_join = join_with ''/'', x_dir = id, x_yaml = t_name, x_load_task = (\<lambda>_ _. Inl (Err ''none'')), x_zone = (\<lambda>_. 0)\<rparr>"

definition sample_launch :: launch where
  "sample_launch = \<lparr>l_cloud = ''sim'', l_region = ''r'', l_zone = [], l_instance_type = ''small'', l_num_nodes = 1,
     l_accel = [], l_vcpus = 2, l_memory = Fin 4, l_on_demand = Fin 1, l_spot = Fin 0, l_use_spot = False,
     l_time = Fin 0, l_order = 1\<rparr>"

definition demo_task :: task where
  "demo_task = \<lparr>t_name = ''t'', t_num_nodes = 1, t_resources = Some default_resources, t_workdir = [],
     t_file_mounts = [], t_tags = [], t_credentials = None, t_backend = ''cloud'', t_ssh = None, t_docker = None,
     t_setup = [], t_run = ''false'', t_envs = [], t_service = None\<rparr>"

lemma save_memory [simp]: "save_store memory_backend s w = (None, w)"
  by (simp add: save_store_def save_steps_def memory_backend_def)

lemma sample_clock_ok: "clock_ok sample_ext"
  by (simp add: clock_ok_def sample_ext_def)

theorem waiting_ends_witness:
  "wait_ready_loop 62 sample_ext () ''c1'' ''r'' [''i-1''] 0 0 [] (empty_store, 0) \<noteq> None \<and>
   wait_ssh_loop 122 sample_ext [''ssh''] ''1.2.3.4'' ssh_wait_time 0 \<noteq> None"
  using waiting_ends [OF sample_clock_ok, of 62 122 "()" "''c1''" "''r''" "[''i-1'']" "(empty_store, 0)" "[]" "[''ssh'']" "''1.2.3.4''" 0]
  by (simp add: sample_ext_def)

definition sample_running :: "int sys" where
  "sample_running = snd (launch_cluster 62 sample_ext ''home'' ''c1'' demo_task sample_launch (empty_store, 0))"

lemma sample_running_cluster:
  "\<exists>c. fst (launch_cluster 62 sample_ext ''home'' ''c1'' demo_task sample_launch (empty_store, 0)) = Inr c"
proof -
  have "\<not> isl (fst (launch_cluster 62 sample_ext ''home'' ''c1'' demo_task sample_launch (empty_store, 0)))"
    by code_simp
  then show ?thesis by (metis sum.collapse(2))
qed


theorem cluster_lifecycle_witness:
  "store_ok (fst (foldl (\<lambda>st x. run_cluster_op sample_ext x st) (empty_store, 0)
     [Op_launch 62 ''home'' ''c1'' demo_task sample_launch, Op_stop ''c1'', Op_start 62 ''c1'', Op_down ''c1'']))"
  using cluster_lifecycle [of "(empty_store, 0)" "Op_stop ''c1''" sample_ext
      "[Op_launch 62 ''home'' ''c1'' demo_task sample_launch, Op_stop ''c1'', Op_start 62 ''c1'', Op_down ''c1'']"]
    empty_store_ok
  by (simp add: status_of_def live_def empty_store_def)

theorem down_forgets_after_terminate_witness:
  "mget (st_clusters (fst (snd (down_cluster sample_ext ''c1'' sample_running)))) ''c1'' = None"
proof -
  obtain s w where s: "sample_running = (s, w)" by (cases sample_running)
  obtain r s' w' where d: "down_cluster sample_ext ''c1'' (s, w) = (r, (s', w'))" by (metis prod.collapse)
  have "fst (down_cluster sample_ext ''c1'' sample_running) = Inr ()"
    by code_simp
  with d s have "r = Inr ()" by simp
  with down_forgets_after_terminate [OF d] d s show ?thesis by auto
qed

definition busy_cluster :: cluster where
  "busy_cluster = sample_cluster\<lparr>cl_name := ''c1'', cl_cloud := ''sim'',
     cl_instances := [\<lparr>n_id = ''i-1'', n_public_ip = ''1.2.3.4'', n_private_ip = [], n_instance_type = [],
                       n_zone = [], n_status = status_running, n_role = []\<rparr>]\<rparr>"

theorem run_task_drops_exit_code_witness:
  "run_task 122 sample_ext ''c1'' demo_task False (empty_store\<lparr>st_clusters := [(''c1'', busy_cluster)]\<rparr>, 0) =
     (Inr 0, (empty_store\<lparr>st_clusters := [(''c1'', busy_cluster)]\<rparr>, 0)) \<and>
   exec_on_cluster 122 sample_ext ''c1'' ''false'' False (empty_store\<lparr>st_clusters := [(''c1'', busy_cluster)]\<rparr>, 0) =
     (Inr 7, (empty_store\<lparr>st_clusters := [(''c1'', busy_cluster)]\<rparr>, 0))"
proof -
  let ?nd = "hd (cl_instances busy_cluster)"
  have "wait_ssh 122 sample_ext (cl_key_path busy_cluster) ''root'' (n_public_ip ?nd) 0 = (None, 0)"
    by code_simp
  moreover have "run_ssh_stream sample_ext False (cl_key_path busy_cluster) ''root'' (n_public_ip ?nd) (t_run demo_task) 0 = (Inr 7, 0)"
    by code_simp
  ultimately show ?thesis
    using run_task_drops_exit_code [of "empty_store\<lparr>st_clusters := [(''c1'', busy_cluster)]\<rparr>" "''c1''" busy_cluster ?nd
        demo_task 122 sample_ext 0 0 False 7 0]
    by (simp add: get_cluster_def busy_cluster_def demo_task_def)
qed

end
