(* ===== verification/Backends.thy ===== *)
theory Backends
  imports Provisioner
begin

text \<open>
  \<open>internal/backend\<close>: the execution backends and the manager that chooses among them. A backend is a
  record of operations; the cloud backend delegates to the provisioner, the others run \<open>docker\<close>,
  \<open>bash\<close> or \<open>ssh\<close> on the spot. The manager launches on the backend the task names and later
  dispatches on the backend recorded with the cluster.
\<close>

section \<open>Lines of output\<close>

text \<open>\<open>lineWriter.Write\<close>: what a writer has buffered, then a chunk; the complete lines and the new buffer.\<close>

definition trim_crs :: "string \<Rightarrow> string" where
  "trim_crs l = rev (dropWhile (\<lambda>c. c = CHR 0x0D) (rev l))"

definition write_chunk :: "string \<Rightarrow> string \<Rightarrow> string list \<times> string" where
  "write_chunk buf chunk =
     (let ls = split_on CHR 0x0A (buf @ chunk)
      in (filter (\<lambda>l. l \<noteq> []) (map trim_crs (butlast ls)), last ls))"

text \<open>The two writers of a command, one per stream, fed with its writes in order.\<close>

fun write_all :: "string \<Rightarrow> string \<Rightarrow> prog_output \<Rightarrow> string list" where
  "write_all obuf ebuf [] = []"
| "write_all obuf ebuf ((False, chunk) # out) =
     (case write_chunk obuf chunk of (ls, b) \<Rightarrow> ls @ write_all b ebuf out)"
| "write_all obuf ebuf ((True, chunk) # out) =
     (case write_chunk ebuf chunk of (ls, b) \<Rightarrow> ls @ write_all obuf b out)"

text \<open>Running a command with the two writers: any exit code is the result.\<close>

definition run_command :: "('p, 'w) ext \<Rightarrow> string list \<Rightarrow> bool \<Rightarrow> 'w \<Rightarrow> int res \<times> 'w" where
  "run_command X args stream w =
     (case x_exec X args [] w of
        ((out, oc), w1) \<Rightarrow>
          (let w2 = emit_lines X stream (write_all [] [] out) w1
           in case oc of Exited c \<Rightarrow> (Inr c, w2) | Not_run e \<Rightarrow> (Inl e, w2)))"

text \<open>A command whose output only matters when it fails.\<close>

definition checked_command :: "('p, 'w) ext \<Rightarrow> string \<Rightarrow> string list \<Rightarrow> 'w \<Rightarrow> error option \<times> 'w" where
  "checked_command X what args w =
     (case x_exec X args [] w of
        ((out, oc), w1) \<Rightarrow>
          (if oc = Exited 0 then None else Some (Err (what @ '': '' @ trim_space (concat (map snd out)))), w1))"

definition plain_cluster :: "string \<Rightarrow> string \<Rightarrow> string \<Rightarrow> string \<Rightarrow> node \<Rightarrow> ssh_target option \<Rightarrow> cluster" where
  "plain_cluster name backend cloud yaml nd target =
     \<lparr>cl_name = name, cl_status = cluster_up, cl_backend = backend, cl_cloud = cloud, cl_region = [],
      cl_num_nodes = 1, cl_instances = [nd], cl_launch = None, cl_task_yaml = yaml, cl_tags = [],
      cl_labels = [], cl_creds = None, cl_ssh = target, cl_key_name = [], cl_key_path = [],
      cl_security_group = [], cl_vpc = [], cl_vswitch = [], cl_last_error = [], cl_created_at = 0, cl_updated_at = 0\<rparr>"

definition plain_node :: "string \<Rightarrow> string \<Rightarrow> node" where
  "plain_node ident ip =
     \<lparr>n_id = ident, n_public_ip = ip, n_private_ip = [], n_instance_type = [], n_zone = [],
      n_status = ''running'', n_role = []\<rparr>"

text \<open>Recording a cluster; the pointer returned is the stored one.\<close>

definition record_new :: "('p, 'w) ext \<Rightarrow> cluster \<Rightarrow> (cluster, 'w sys) act" where
  "record_new X c = seq_act (do_add_cluster X c) (cluster_at (cl_name c))"

text \<open>Setup first; an exit code other than 0 ends the task with this code.\<close>

definition setup_then_run :: "('w \<Rightarrow> int res \<times> 'w) \<Rightarrow> ('w \<Rightarrow> int res \<times> 'w) \<Rightarrow> task \<Rightarrow> (int, 'w sys) act" where
  "setup_then_run setup run ts =
     (let finish = (if t_run ts \<noteq> [] then world run else ret 0)
      in if t_setup ts \<noteq> [] then bind_act (world setup) (\<lambda>code. if code \<noteq> 0 then ret code else finish) else finish)"

definition note_workdir :: "('p, 'w) ext \<Rightarrow> bool \<Rightarrow> task \<Rightarrow> string \<Rightarrow> (unit, 'w sys) act" where
  "note_workdir X stream ts line =
     when_act (t_workdir ts \<noteq> [] \<and> stream) (world_err (\<lambda>w. (None, x_emit X line w)))"

section \<open>The interface\<close>

record 'w exec_backend =
  eb_name :: string
  eb_launch :: "string \<Rightarrow> task \<Rightarrow> launch option \<Rightarrow> (cluster, 'w sys) act"
  eb_run_task :: "string \<Rightarrow> task \<Rightarrow> bool \<Rightarrow> (int, 'w sys) act"
  eb_exec :: "string \<Rightarrow> string \<Rightarrow> bool \<Rightarrow> (int, 'w sys) act"
  eb_down :: "string \<Rightarrow> (unit, 'w sys) act"
  eb_stop :: "string \<Rightarrow> (unit, 'w sys) act"
  eb_start :: "string \<Rightarrow> (unit, 'w sys) act"

section \<open>The docker backend\<close>

definition docker_args :: "string \<Rightarrow> docker_spec \<Rightarrow> task \<Rightarrow> string list" where
  "docker_args name d ts =
     [''docker'', ''run'', ''-d'', ''--name'', name] @
     concat (map (\<lambda>(k, v). [''-v'', k @ '':'' @ v]) (dk_volumes d)) @
     concat (map (\<lambda>(k, v). [''-e'', k @ ''='' @ v]) (dk_envs d)) @
     concat (map (\<lambda>(k, v). [''-e'', k @ ''='' @ v]) (t_envs ts)) @
     (if 0 < dk_gpus d then [''--gpus'', ''all''] else []) @
     [''--entrypoint'', ''sleep'', dk_image d, ''infinity'']"

definition docker_launch :: "('p, 'w) ext \<Rightarrow> string \<Rightarrow> task \<Rightarrow> (cluster, 'w sys) act" where
  "docker_launch X name ts =
     (case t_docker ts of
        None \<Rightarrow> raise (Panic ''invalid memory address or nil pointer dereference'')
      | Some d \<Rightarrow>
          seq_act (quiet (world_err (checked_command X [] [''docker'', ''rm'', ''-f'', name])))
          (seq_act (world_err (checked_command X ''docker run'' (docker_args name d ts)))
          (record_new X (plain_cluster name ''docker'' ''docker'' (x_yaml X ts) (plain_node (''docker-'' @ name) ''localhost'') None))))"

definition docker_exec :: "('p, 'w) ext \<Rightarrow> string \<Rightarrow> string \<Rightarrow> bool \<Rightarrow> 'w \<Rightarrow> int res \<times> 'w" where
  "docker_exec X name script stream =
     run_command X [''docker'', ''exec'', name, ''bash'', ''-c'', script] stream"

definition docker_run_task :: "('p, 'w) ext \<Rightarrow> string \<Rightarrow> task \<Rightarrow> bool \<Rightarrow> (int, 'w sys) act" where
  "docker_run_task X name ts stream =
     seq_act (note_workdir X stream ts ''(docker) workdir sync not supported'')
       (setup_then_run (docker_exec X name (t_setup ts) stream) (docker_exec X name (t_run ts) stream) ts)"

definition docker_down :: "('p, 'w) ext \<Rightarrow> string \<Rightarrow> (unit, 'w sys) act" where
  "docker_down X name =
     seq_act (quiet (world_err (checked_command X [] [''docker'', ''rm'', ''-f'', name]))) (do_delete_cluster X name)"

definition docker_switch :: "('p, 'w) ext \<Rightarrow> string \<Rightarrow> cluster_status \<Rightarrow> string \<Rightarrow> (unit, 'w sys) act" where
  "docker_switch X verb st name =
     seq_act (world_err (checked_command X (''docker '' @ verb) [''docker'', verb, name]))
       (do_update_cluster X name (\<lambda>c. c\<lparr>cl_status := st\<rparr>))"

definition docker_stop :: "('p, 'w) ext \<Rightarrow> string \<Rightarrow> (unit, 'w sys) act" where
  "docker_stop X name = docker_switch X ''stop'' cluster_stopped name"

definition docker_start :: "('p, 'w) ext \<Rightarrow> string \<Rightarrow> (unit, 'w sys) act" where
  "docker_start X name = docker_switch X ''start'' cluster_up name"

definition docker_backend :: "('p, 'w) ext \<Rightarrow> 'w exec_backend" where
  "docker_backend X =
     \<lparr>eb_name = ''docker'', eb_launch = (\<lambda>name ts _. docker_launch X name ts), eb_run_task = docker_run_task X,
      eb_exec = (\<lambda>name cmd stream. world (docker_exec X name cmd stream)), eb_down = docker_down X,
      eb_stop = docker_stop X, eb_start = docker_start X\<rparr>"

section \<open>The local backend\<close>

definition local_launch :: "('p, 'w) ext \<Rightarrow> string \<Rightarrow> task \<Rightarrow> (cluster, 'w sys) act" where
  "local_launch X name ts =
     record_new X (plain_cluster name ''local'' ''local'' (x_yaml X ts) (plain_node ''local'' ''localhost'') None)"

definition local_exec :: "('p, 'w) ext \<Rightarrow> string \<Rightarrow> bool \<Rightarrow> 'w \<Rightarrow> int res \<times> 'w" where
  "local_exec X script stream = run_command X [''bash'', ''-c'', script] stream"

definition local_run_task :: "('p, 'w) ext \<Rightarrow> string \<Rightarrow> task \<Rightarrow> bool \<Rightarrow> (int, 'w sys) act" where
  "local_run_task X name ts stream =
     seq_act (note_workdir X stream ts ''(local) workdir sync not supported; run from current dir'')
       (setup_then_run (local_exec X (t_setup ts) stream) (local_exec X (t_run ts) stream) ts)"

definition not_supported :: "string \<Rightarrow> (unit, 'w sys) act" where
  "not_supported what = raise (Err (what @ '' backend''))"

definition local_backend :: "('p, 'w) ext \<Rightarrow> 'w exec_backend" where
  "local_backend X =
     \<lparr>eb_name = ''local'', eb_launch = (\<lambda>name ts _. local_launch X name ts), eb_run_task = local_run_task X,
      eb_exec = (\<lambda>_ cmd stream. world (local_exec X cmd stream)), eb_down = do_delete_cluster X,
      eb_stop = (\<lambda>_. not_supported ''stop is not supported for the local''),
      eb_start = (\<lambda>_. not_supported ''start is not supported for the local'')\<rparr>"

section \<open>The existing backend\<close>

definition ssh_target_args :: "ssh_target \<Rightarrow> string list" where
  "ssh_target_args t =
     [''ssh''] @ host_options @ (if ssh_port t \<noteq> 0 then [''-p'', itoa (ssh_port t)] else []) @
     (if ssh_key t \<noteq> [] then [''-i'', ssh_key t] else []) @
     [(if ssh_user t = [] then ''root'' else ssh_user t) @ ''@'' @ ssh_host t, ''bash -s'']"

definition ssh_run :: "('p, 'w) ext \<Rightarrow> ssh_target \<Rightarrow> string \<Rightarrow> bool \<Rightarrow> 'w \<Rightarrow> (string \<times> int) res \<times> 'w" where
  "ssh_run X t script stream w =
     (case x_exec X (ssh_target_args t) script w of
        ((out, Not_run e), w1) \<Rightarrow> (Inl e, w1)
      | ((out, Exited c), w1) \<Rightarrow>
          (let text = trim_space (concat (map snd out))
           in (Inr (text, c), emit_lines X (stream \<and> text \<noteq> []) (split_on CHR 0x0A text) w1)))"

definition ssh_wait :: "('p, 'w) ext \<Rightarrow> ssh_target \<Rightarrow> 'w \<Rightarrow> error option \<times> 'w" where
  "ssh_wait X t w = (case ssh_run X t ''true'' False w of (Inl e, w1) \<Rightarrow> (Some e, w1) | (Inr _, w1) \<Rightarrow> (None, w1))"

definition ssh_code :: "('p, 'w) ext \<Rightarrow> ssh_target \<Rightarrow> string \<Rightarrow> bool \<Rightarrow> 'w \<Rightarrow> int res \<times> 'w" where
  "ssh_code X t script stream w =
     (case ssh_run X t script stream w of (Inl e, w1) \<Rightarrow> (Inl e, w1) | (Inr (_, c), w1) \<Rightarrow> (Inr c, w1))"

definition existing_launch :: "('p, 'w) ext \<Rightarrow> string \<Rightarrow> task \<Rightarrow> (cluster, 'w sys) act" where
  "existing_launch X name ts =
     (case t_ssh ts of
        None \<Rightarrow> raise (Panic ''invalid memory address or nil pointer dereference'')
      | Some t \<Rightarrow>
          (let target = (if ssh_user t = [] then t\<lparr>ssh_user := ''root''\<rparr> else t)
           in record_new X (plain_cluster name ''existing'' ''existing'' (x_yaml X ts)
                (plain_node (''ssh-'' @ ssh_host target) (ssh_host target)) (Some target))))"

definition target_of :: "string \<Rightarrow> (ssh_target, 'w sys) act" where
  "target_of name =
     bind_act (cluster_at name) (\<lambda>c.
       case cl_ssh c of None \<Rightarrow> raise (Err (''cluster '' @ name @ '' has no SSH target'')) | Some t \<Rightarrow> ret t)"

definition existing_run_task :: "('p, 'w) ext \<Rightarrow> string \<Rightarrow> task \<Rightarrow> bool \<Rightarrow> (int, 'w sys) act" where
  "existing_run_task X name ts stream =
     bind_act (target_of name) (\<lambda>t.
       seq_act (note_workdir X stream ts ''(existing) workdir sync not supported; run from current dir'')
         (setup_then_run (ssh_code X t (t_setup ts) stream) (ssh_code X t (t_run ts) stream) ts))"

definition existing_backend :: "('p, 'w) ext \<Rightarrow> 'w exec_backend" where
  "existing_backend X =
     \<lparr>eb_name = ''existing'', eb_launch = (\<lambda>name ts _. existing_launch X name ts), eb_run_task = existing_run_task X,
      eb_exec = (\<lambda>name cmd stream. bind_act (target_of name) (\<lambda>t. world (ssh_code X t cmd stream))),
      eb_down = do_delete_cluster X,
      eb_stop = (\<lambda>_. not_supported ''stop is not supported for the existing''),
      eb_start = (\<lambda>_. not_supported ''start is not supported for the existing'')\<rparr>"

section \<open>The cloud backend\<close>

text \<open>The provisioner's launch, then the name of the backend on the stored cluster; a failed update comes
  with the cluster, which the manager drops.\<close>

definition cloud_launch :: "nat \<Rightarrow> ('p, 'w) ext \<Rightarrow> string \<Rightarrow> string \<Rightarrow> task \<Rightarrow> launch option \<Rightarrow> (cluster, 'w sys) act" where
  "cloud_launch n X dir name ts l =
     (case l of
        None \<Rightarrow> raise (Panic ''invalid memory address or nil pointer dereference'')
      | Some l \<Rightarrow>
          bind_act (launch_cluster n X dir name ts l) (\<lambda>c.
          seq_act (do_update_cluster X (cl_name c) (\<lambda>c. c\<lparr>cl_backend := ''cloud''\<rparr>)) (cluster_at (cl_name c))))"

definition cloud_backend :: "nat \<Rightarrow> ('p, 'w) ext \<Rightarrow> string \<Rightarrow> 'w exec_backend" where
  "cloud_backend n X dir =
     \<lparr>eb_name = ''cloud'', eb_launch = cloud_launch n X dir, eb_run_task = run_task n X,
      eb_exec = exec_on_cluster n X, eb_down = down_cluster X, eb_stop = stop_cluster X, eb_start = start_cluster n X\<rparr>"

section \<open>The manager\<close>

definition manager_backends :: "nat \<Rightarrow> ('p, 'w) ext \<Rightarrow> string \<Rightarrow> 'w exec_backend smap" where
  "manager_backends n X dir =
     [(''cloud'', cloud_backend n X dir), (''existing'', existing_backend X), (''docker'', docker_backend X),
      (''local'', local_backend X)]"

definition backend_names :: "'w exec_backend smap \<Rightarrow> string list" where
  "backend_names bs = mkeys bs"

definition unknown_backend :: "string \<Rightarrow> error" where
  "unknown_backend name = Err (''unknown execution backend '' @ quote_str name)"

definition record_launch :: "('p, 'w) ext \<Rightarrow> cluster \<Rightarrow> task \<Rightarrow> launch option \<Rightarrow> (unit, 'w sys) act" where
  "record_launch X c ts l =
     seq_act (do_record_yaml X (cl_name c) (x_yaml X ts))
       (do_record_history X
          \<lparr>h_cluster_name = cl_name c, h_num_nodes = cl_num_nodes c, h_cloud = cl_cloud c, h_region = cl_region c,
           h_zone = (case l of None \<Rightarrow> [] | Some l \<Rightarrow> l_zone l),
           h_instance_type = (case l of None \<Rightarrow> [] | Some l \<Rightarrow> l_instance_type l), h_backend = cl_backend c,
           h_task_yaml = x_yaml X ts, h_launched_at = cl_created_at c, h_created_at = 0, h_updated_at = 0\<rparr>)"

definition manager_launch ::
  "('p, 'w) ext \<Rightarrow> 'w exec_backend smap \<Rightarrow> string \<Rightarrow> task \<Rightarrow> launch option \<Rightarrow> (cluster, 'w sys) act" where
  "manager_launch X bs name ts l =
     (case mget bs (t_backend ts) of
        None \<Rightarrow> raise (unknown_backend (t_backend ts))
      | Some b \<Rightarrow>
          bind_act (eb_launch b name ts l) (\<lambda>c.
          seq_act (record_launch X c ts l)
          (seq_act (quiet (do_event X
             \<lparr>e_cluster_name = cl_name c, e_starting_status = [], e_ending_status = cl_status c,
              e_reason = ''cluster launched'', e_type = ''launch'', e_request_id = [],
              e_transitioned_at = cl_created_at c\<rparr>))
          (ret c))))"

text \<open>\<open>forCluster\<close>: a record without a backend belongs to the cloud backend.\<close>

definition for_cluster :: "'w exec_backend smap \<Rightarrow> string \<Rightarrow> ('w exec_backend, 'w sys) act" where
  "for_cluster bs name =
     bind_act (cluster_at name) (\<lambda>c.
       let bname = (if cl_backend c = [] then ''cloud'' else cl_backend c)
       in case mget bs bname of None \<Rightarrow> raise (unknown_backend bname) | Some b \<Rightarrow> ret b)"

definition manager_run_task :: "'w exec_backend smap \<Rightarrow> string \<Rightarrow> task \<Rightarrow> bool \<Rightarrow> (int, 'w sys) act" where
  "manager_run_task bs name ts stream = bind_act (for_cluster bs name) (\<lambda>b. eb_run_task b name ts stream)"

definition manager_exec :: "'w exec_backend smap \<Rightarrow> string \<Rightarrow> string \<Rightarrow> bool \<Rightarrow> (int, 'w sys) act" where
  "manager_exec bs name cmd stream = bind_act (for_cluster bs name) (\<lambda>b. eb_exec b name cmd stream)"

definition manager_down :: "'w exec_backend smap \<Rightarrow> string \<Rightarrow> (unit, 'w sys) act" where
  "manager_down bs name = bind_act (for_cluster bs name) (\<lambda>b. eb_down b name)"

definition manager_stop :: "'w exec_backend smap \<Rightarrow> string \<Rightarrow> (unit, 'w sys) act" where
  "manager_stop bs name = bind_act (for_cluster bs name) (\<lambda>b. eb_stop b name)"

definition manager_start :: "'w exec_backend smap \<Rightarrow> string \<Rightarrow> (unit, 'w sys) act" where
  "manager_start bs name = bind_act (for_cluster bs name) (\<lambda>b. eb_start b name)"

definition manager_health ::
  "('p, 'w) ext \<Rightarrow> (string \<Rightarrow> health option) \<Rightarrow> cluster \<Rightarrow> node \<Rightarrow> 'w \<Rightarrow> string \<times> 'w" where
  "manager_health X decode c nd w =
     (if cl_backend c = [] \<or> cl_backend c = ''cloud'' then gpilet_health X decode c nd w
      else (''n/a (backend: '' @ cl_backend c @ '')'', w))"

section \<open>The writers\<close>

lemma split_on_append_last:
  "split_on c (a @ b) = butlast (split_on c a) @ split_on c (last (split_on c a) @ b)"
proof (induction a)
  case (Cons x a)
  then show ?case
    by (cases "split_on c a") (auto split: list.splits)
qed simp

end
