(* ===== verification/Backend_Props.thy ===== *)
theory Backend_Props
  imports Backends Provisioner_Life
begin

text \<open>
  The properties of the execution backends: what the line writers pass on, the contract every
  backend meets (a launch is recorded under the backend's name, every operation keeps the store
  consistent) as a locale interpreted on the four of them, dispatch, exit codes, and what launching
  over a running container does.
\<close>

section \<open>The writers\<close>

fun writes :: "string \<Rightarrow> string list \<Rightarrow> string list \<times> string" where
  "writes buf [] = ([], buf)"
| "writes buf (chunk # chunks) =
     (case write_chunk buf chunk of (ls, b) \<Rightarrow> (case writes b chunks of (ls', b') \<Rightarrow> (ls @ ls', b')))"

lemma write_all_stdout: "write_all obuf ebuf (map (Pair False) chunks) = fst (writes obuf chunks)"
  by (induction chunks arbitrary: obuf) (simp_all split: prod.splits)

lemma split_on_last_id: "split_on c (last (split_on c s)) = [last (split_on c s)]"
  by (rule split_on_none) (meson last_in_set split_on_no_sep split_on_not_Nil)

lemma split_on_append_last':
  "split_on c (a @ b @ d) = butlast (split_on c (a @ b)) @ split_on c (last (split_on c (a @ b)) @ d)"
  using split_on_append_last [of c "a @ b" d] by simp

lemma writes_concat:
  "buf = last (split_on CHR 0x0A buf) \<Longrightarrow> writes buf chunks = write_chunk buf (concat chunks)"
proof (induction chunks arbitrary: buf)
  case Nil
  then have "split_on CHR 0x0A buf = [buf]" by (metis split_on_last_id)
  then show ?case by (simp add: write_chunk_def)
next
  case (Cons chunk chunks)
  define b where "b = last (split_on CHR 0x0A (buf @ chunk))"
  have "b = last (split_on CHR 0x0A b)" unfolding b_def by (simp add: split_on_last_id)
  from Cons.IH [OF this] show ?case
    by (simp add: write_chunk_def Let_def b_def [symmetric] split_on_append_last' butlast_append)
qed

text \<open>The lines the docker and local backends pass on do not depend on how the output was cut into writes: any
  sequence of writes gives the lines of their concatenation, without a last line that has no end. The writer of
  the provisioner scans each write on its own: it passes on the last line too, but a line cut in two as two.\<close>

theorem lines_independent_of_chunks:
  "write_all [] [] (map (Pair False) chunks) = write_all [] [] [(False, concat chunks)] \<and>
   write_all [] [] [(False, ''ab'' @ nl @ ''c'')] = [''ab''] \<and> scan_lines (''ab'' @ nl @ ''c'') = [''ab'', ''c''] \<and>
   concat (map scan_lines [''ab'', ''c'' @ nl]) = [''ab'', ''c''] \<and> scan_lines (''ab'' @ ''c'' @ nl) = [''abc'']"
proof (intro conjI)
  show "write_all [] [] (map (Pair False) chunks) = write_all [] [] [(False, concat chunks)]"
    using writes_concat [of "[]" chunks] write_all_stdout [of "[]" "[]" chunks] by (simp split: prod.splits)
qed (simp_all add: scan_lines_def nl_def drop_cr_def Let_def write_chunk_def trim_crs_def)

section \<open>The contract of a backend\<close>

text \<open>An action that fails and leaves the store as it is.\<close>

definition refused :: "('a, 'w sys) act \<Rightarrow> 'w sys \<Rightarrow> bool" where
  "refused m st \<longleftrightarrow> isl (fst (m st)) \<and> fst (snd (m st)) = fst st"

locale backend_contract =
  fixes b :: "'w exec_backend"
  assumes launch_recorded:
      "store_ok (fst st) \<Longrightarrow> eb_launch b name ts l st = (Inr c, st') \<Longrightarrow>
       get_cluster (fst st') name = Inr c \<and> cl_name c = name \<and> cl_backend c = eb_name b"
    and launch_keeps: "cluster_invariant P \<Longrightarrow> keeps (\<lambda>(s, w). P s) (eb_launch b name ts l)"
    and launch_refused: "mget (st_clusters (fst st)) name \<noteq> None \<Longrightarrow> refused (eb_launch b name ts l) st"
    and launch_others: "store_ok (fst st) \<Longrightarrow> same_others name (fst st) (fst (snd (eb_launch b name ts l st)))"
    and run_keeps: "keeps (\<lambda>(s, w). s = s0) (eb_run_task b name ts stream)"
    and exec_keeps: "keeps (\<lambda>(s, w). s = s0) (eb_exec b name cmd stream)"
    and life_keeps: "cluster_invariant P \<Longrightarrow> keeps (\<lambda>(s, w). P s) (eb_down b name)"
      "cluster_invariant P \<Longrightarrow> keeps (\<lambda>(s, w). P s) (eb_stop b name)"
      "cluster_invariant P \<Longrightarrow> keeps (\<lambda>(s, w). P s) (eb_start b name)"
begin

text \<open>What the manager adds to a launch leaves the cluster as the backend recorded it.\<close>

lemma launched_is_found:
  assumes "store_ok (fst st)" and "eb_launch b name ts l st = (Inr c, st1)"
    and "st_clusters (fst st') = st_clusters (fst st1)"
  shows "get_cluster (fst st') name = Inr c \<and> cl_backend c = eb_name b"
  using launch_recorded [OF assms(1,2)] assms(3) by (simp add: get_cluster_def)

lemma runs_leave_the_store:
  "eb_run_task b name ts stream st = (r, st') \<Longrightarrow> fst st' = fst st"
  "eb_exec b name cmd stream st = (q, st'') \<Longrightarrow> fst st'' = fst st"
  using run_keeps [of "fst st" name ts stream] exec_keeps [of "fst st" name cmd stream]
  by (auto simp: keeps_def split_beta) (metis prod.collapse snd_conv)+

end

lemma read_only_keeps: "read_only m \<Longrightarrow> keeps (\<lambda>(s, w). s = s0) m"
  by (rule keeps_read_only)

lemma world_err_store [simp]: "fst (snd (world_err f st)) = fst st" "fst (snd (world g st)) = fst st"
  by (cases st; simp add: world_err_def world_def split: prod.splits)+

lemma record_new_Inr:
  assumes "store_ok (fst st)" and "record_new X c st = (Inr c', st')" and "cl_status c \<noteq> []"
  shows "get_cluster (fst st') (cl_name c) = Inr c' \<and> cl_name c' = cl_name c \<and> cl_backend c' = cl_backend c"
  using assms
  by (cases st) (auto simp: record_new_def seq_act_def bind_act_def do_add_cluster_def stored_apply add_cluster_def Let_def
      persist_def err_res_def cluster_at_def asks_def get_cluster_def split: prod.splits option.splits if_splits)

lemma record_new_taken:
  assumes "mget (st_clusters (fst st)) (cl_name c) \<noteq> None"
  shows "refused (record_new X c) st"
  using assms
  by (cases st) (auto simp: refused_def record_new_def seq_act_def bind_act_def do_add_cluster_def stored_apply add_cluster_def err_res_def)

lemma plain_cluster_sel [simp]:
  "cl_name (plain_cluster name backend cloud yaml nd target) = name"
  "cl_backend (plain_cluster name backend cloud yaml nd target) = backend"
  "cl_status (plain_cluster name backend cloud yaml nd target) = cluster_up"
  by (simp_all add: plain_cluster_def)

lemma cluster_up_not_Nil [simp]: "cluster_up \<noteq> []"
  by (simp add: cluster_up_def)

lemma read_only_cluster_at: "read_only (cluster_at name)"
  unfolding cluster_at_def by (rule read_only_intros)

lemma read_only_when: "read_only m \<Longrightarrow> read_only (when_act b m)"
  by (simp add: when_act_def read_only_intros)

lemma read_only_setup_then_run: "read_only (setup_then_run f g ts)"
  unfolding setup_then_run_def Let_def by (intro read_only_rules)

lemma read_only_note: "read_only (note_workdir X stream ts line)"
  unfolding note_workdir_def by (intro read_only_when read_only_intros)

lemma read_only_target: "read_only (target_of name)"
  unfolding target_of_def
  by (intro read_only_bind read_only_cluster_at) (auto split: option.split intro: read_only_intros)

lemma keeps_raise_option:
  "(\<And>x. keeps P (f x)) \<Longrightarrow> keeps P (case q of None \<Rightarrow> raise e | Some x \<Rightarrow> f x)"
  by (cases q) (simp_all add: keeps_basic)

lemma read_only_existing_run: "read_only (existing_run_task X name ts stream)"
  unfolding existing_run_task_def
  by (intro read_only_bind read_only_target read_only_seq read_only_note read_only_setup_then_run)

lemma read_only_drop_code: "read_only (drop_code f)"
  unfolding drop_code_def by (intro read_only_rules)

lemma read_only_run_setup: "read_only (run_setup X c nd ts stream)"
  unfolding run_setup_def by (intro read_only_when read_only_if read_only_drop_code)

lemma read_only_option:
  "(\<And>x. read_only (f x)) \<Longrightarrow> read_only (case q of None \<Rightarrow> raise e | Some x \<Rightarrow> f x)"
  by (cases q) (simp_all add: read_only_intros)

lemma read_only_run_task: "read_only (run_task n X name ts stream)"
  unfolding run_task_def
  by (intro read_only_bind read_only_cluster_at read_only_option read_only_if read_only_seq read_only_when
      read_only_catch read_only_run_setup read_only_drop_code read_only_intros)

lemma read_only_exec: "read_only (exec_on_cluster n X name cmd stream)"
  unfolding exec_on_cluster_def
  by (intro read_only_bind read_only_cluster_at read_only_if read_only_seq read_only_intros)

lemma launch_returns_stored:
  assumes "launch_cluster n X dir name ts l st = (Inr c, st')" and "store_ok (fst st)"
  shows "get_cluster (fst st') name = Inr c \<and> cl_name c = name"
proof -
  have f: "get_cluster (fst st') name = Inr c"
    using launch_result [OF assms(1)] by (auto simp: status_of_def)
  moreover have "store_ok (fst st')"
    using keeps_store_okD [OF ok.keeps_launch assms(2), of n X dir name ts l] assms(1) by simp
  ultimately show ?thesis
    by (auto simp: get_cluster_def store_ok_def split: option.splits dest: keyed_name)
qed

text \<open>Everything a backend does to a cluster keeps what the operations on clusters keep.\<close>

context cluster_invariant
begin

lemma keeps_record_new [keeps_intros]: "keeps (\<lambda>(s, w). P s) (record_new X c)"
  unfolding record_new_def by (intro keeps_intros)

lemma keeps_launches:
  "keeps (\<lambda>(s, w). P s) (docker_launch X name ts)" "keeps (\<lambda>(s, w). P s) (local_launch X name ts)"
  "keeps (\<lambda>(s, w). P s) (existing_launch X name ts)" "keeps (\<lambda>(s, w). P s) (cloud_launch n X dir name ts l)"
  unfolding docker_launch_def local_launch_def existing_launch_def cloud_launch_def Let_def
  by (rule keeps_raise_option | intro keeps_intros | simp)+

lemma keeps_docker_life:
  "keeps (\<lambda>(s, w). P s) (docker_down X name)" "keeps (\<lambda>(s, w). P s) (docker_stop X name)"
  "keeps (\<lambda>(s, w). P s) (docker_start X name)"
  unfolding docker_down_def docker_stop_def docker_start_def docker_switch_def
  by (intro keeps_intros; simp)+

lemma keeps_backend_launch:
  "keeps (\<lambda>(s, w). P s) (eb_launch (docker_backend X) name ts l)" "keeps (\<lambda>(s, w). P s) (eb_launch (local_backend X) name ts l)"
  "keeps (\<lambda>(s, w). P s) (eb_launch (existing_backend X) name ts l)"
  "keeps (\<lambda>(s, w). P s) (eb_launch (cloud_backend n X dir) name ts l)"
  by (simp_all add: docker_backend_def local_backend_def existing_backend_def cloud_backend_def keeps_launches)

lemma keeps_backend_life:
  assumes "b \<in> {docker_backend X, local_backend X, existing_backend X, cloud_backend n X dir}"
  shows "keeps (\<lambda>(s, w). P s) (eb_down b name)" "keeps (\<lambda>(s, w). P s) (eb_stop b name)"
    "keeps (\<lambda>(s, w). P s) (eb_start b name)"
  using assms
  by (auto simp: docker_backend_def local_backend_def existing_backend_def cloud_backend_def not_supported_def
      keeps_docker_life keeps_stop_start_down keeps_clusters keeps_basic)

end

text \<open>A name in use is refused by every backend.\<close>

lemma refused_after_read:
  assumes "read_only m" and "\<And>st'. fst st' = fst st \<Longrightarrow> refused k st'"
  shows "refused (seq_act m k) st"
proof -
  obtain r st' where m: "m st = (r, st')" by (rule prod.exhaust)
  with assms(2) [OF read_onlyD [OF assms(1) m]] read_onlyD [OF assms(1) m] show ?thesis
    by (cases r) (simp_all add: seq_act_def bind_act_def refused_def)
qed

lemma refused_bind: "refused m st \<Longrightarrow> refused (bind_act m f) st"
  by (auto simp: refused_def bind_act_def split: prod.split sum.split)

lemma refused_raise [simp]: "refused (raise e) st"
  by (simp add: refused_def)

lemma read_only_quiet: "read_only m \<Longrightarrow> read_only (quiet m)"
  by (simp add: read_only_def)

lemma launches_refused:
  assumes "mget (st_clusters (fst st)) name \<noteq> None"
  shows "refused (docker_launch X name ts) st" "refused (local_launch X name ts) st"
    "refused (existing_launch X name ts) st" "refused (cloud_launch n X dir name ts l) st"
proof -
  have r: "refused (record_new X (plain_cluster name bk cloud y nd t)) st'" if "fst st' = fst st" for bk cloud y nd t st'
    using assms that by (intro record_new_taken) simp
  show "refused (docker_launch X name ts) st"
    unfolding docker_launch_def
    by (cases "t_docker ts") (simp, simp, intro refused_after_read read_only_quiet read_only_intros, simp add: r)
  show "refused (local_launch X name ts) st"
    unfolding local_launch_def by (rule r) simp
  show "refused (existing_launch X name ts) st"
    unfolding existing_launch_def Let_def by (cases "t_ssh ts") (simp_all add: r)
  show "refused (cloud_launch n X dir name ts l) st"
  proof (cases l)
    case (Some l')
    obtain q st' where q: "launch_cluster n X dir name ts l' st = (q, st')" by (rule prod.exhaust)
    from launch_result [OF q] assms have "isl q \<and> fst st' = fst st" by (auto simp: status_of_def)
    with q have "refused (launch_cluster n X dir name ts l') st" by (simp add: refused_def)
    with Some show ?thesis by (simp add: cloud_launch_def refused_bind)
  qed (simp add: cloud_launch_def)
qed

lemma backend_launch_refused:
  assumes "mget (st_clusters (fst st)) name \<noteq> None"
  shows "refused (eb_launch (docker_backend X) name ts l) st" "refused (eb_launch (local_backend X) name ts l) st"
    "refused (eb_launch (existing_backend X) name ts l) st" "refused (eb_launch (cloud_backend n X dir) name ts l) st"
  using launches_refused [OF assms]
  by (simp_all add: docker_backend_def local_backend_def existing_backend_def cloud_backend_def)

lemma same_others_refl [simp]: "same_others name s s"
  by (simp add: same_others_def)

lemma record_new_others: "same_others (cl_name c) (fst st) (fst (snd (record_new X c st)))"
  by (cases st) (auto simp: same_others_def record_new_def seq_act_def bind_act_def do_add_cluster_def stored_apply
      add_cluster_def Let_def persist_def err_res_def cluster_at_def asks_def split: prod.splits option.splits)

lemma others_after_read:
  assumes "read_only m" and "fst st = s0" and "\<And>st'. fst st' = s0 \<Longrightarrow> same_others name s0 (fst (snd (k st')))"
  shows "same_others name s0 (fst (snd (seq_act m k st)))"
proof -
  obtain r st' where m: "m st = (r, st')" by (rule prod.exhaust)
  from read_onlyD [OF assms(1) m] assms(2) have "fst st' = s0" by simp
  with assms(3) [OF this] m show ?thesis
    by (cases r) (simp_all add: seq_act_def bind_act_def)
qed

lemma launch_cluster_others: "same_others name (fst st) (fst (snd (launch_cluster n X dir name ts l st)))"
proof -
  obtain r st' where l: "launch_cluster n X dir name ts l st = (r, st')" by (rule prod.exhaust)
  show ?thesis
  proof (cases "status_of name (fst st)")
    case None
    with launch_fresh [OF l] l show ?thesis by (simp add: moved_def)
  next
    case (Some q)
    with launch_result [OF l] l show ?thesis by simp
  qed
qed

lemma update_others: "same_others name (fst st) (fst (snd (do_update_cluster X name f st)))"
  by (cases st) (auto simp: same_others_def do_update_cluster_def stored_apply update_cluster_def persist_def
      split: prod.splits option.splits)

lemma same_others_trans: "same_others name s1 s2 \<Longrightarrow> same_others name s2 s3 \<Longrightarrow> same_others name s1 s3"
  by (simp add: same_others_def)

lemma cloud_launch_others:
  fixes X :: "('p, 'w) ext"
  assumes "store_ok (fst st)"
  shows "same_others name (fst st) (fst (snd (cloud_launch n X dir name ts l st)))"
proof (cases l)
  case (Some l')
  obtain r st1 where l: "launch_cluster n X dir name ts l' st = (r, st1)" by (rule prod.exhaust)
  with launch_cluster_others [of name st n X dir ts l'] have o1: "same_others name (fst st) (fst st1)" by simp
  show ?thesis
  proof (cases r)
    case (Inr c)
    let ?u = "do_update_cluster X (cl_name c) (\<lambda>c. c\<lparr>cl_backend := ''cloud''\<rparr>) st1"
    from launch_returns_stored l assms Inr have "cl_name c = name" by blast
    with update_others [of name st1 X "\<lambda>c. c\<lparr>cl_backend := ''cloud''\<rparr>"] o1
    have o2: "same_others name (fst st) (fst (snd ?u))" by (auto intro: same_others_trans)
    have "fst (snd (seq_act (do_update_cluster X (cl_name c) (\<lambda>c. c\<lparr>cl_backend := ''cloud''\<rparr>)) (cluster_at (cl_name c)) st1))
        = fst (snd ?u)"
      by (cases ?u; cases "fst ?u") (auto simp: seq_act_def bind_act_def cluster_at_def asks_def split: prod.splits)
    with o2 l Some Inr show ?thesis by (simp add: cloud_launch_def bind_act_apply)
  qed (use o1 l Some in \<open>simp add: cloud_launch_def bind_act_fail\<close>)
qed (simp add: cloud_launch_def)

lemma backend_launch_others:
  fixes st :: "'w sys"
  assumes "store_ok (fst st)"
  shows "same_others name (fst st) (fst (snd (eb_launch (docker_backend X) name ts l st)))"
    "same_others name (fst st) (fst (snd (eb_launch (local_backend X) name ts l st)))"
    "same_others name (fst st) (fst (snd (eb_launch (existing_backend X) name ts l st)))"
    "same_others name (fst st) (fst (snd (eb_launch (cloud_backend n X dir) name ts l st)))"
proof -
  have r: "same_others name (fst st) (fst (snd (record_new X (plain_cluster name bk cloud y nd t) st')))"
    if "fst st' = fst st" for bk cloud y nd t st'
    using record_new_others [of "plain_cluster name bk cloud y nd t" st' X] that by simp
  have "same_others name (fst st) (fst (snd (docker_launch X name ts st)))"
  proof (cases "t_docker ts")
    case (Some d)
    show ?thesis
      unfolding docker_launch_def Some option.case
      by (intro others_after_read read_only_quiet read_only_intros r refl)
  qed (simp add: docker_launch_def)
  moreover have "same_others name (fst st) (fst (snd (local_launch X name ts st)))"
    unfolding local_launch_def by (rule r) simp
  moreover have "same_others name (fst st) (fst (snd (existing_launch X name ts st)))"
    unfolding existing_launch_def Let_def by (cases "t_ssh ts") (simp_all add: r)
  ultimately show "same_others name (fst st) (fst (snd (eb_launch (docker_backend X) name ts l st)))"
    "same_others name (fst st) (fst (snd (eb_launch (local_backend X) name ts l st)))"
    "same_others name (fst st) (fst (snd (eb_launch (existing_backend X) name ts l st)))"
    "same_others name (fst st) (fst (snd (eb_launch (cloud_backend n X dir) name ts l st)))"
    by (simp_all add: docker_backend_def local_backend_def existing_backend_def cloud_backend_def cloud_launch_others assms)
qed

lemma backend_runs_read_only:
  assumes "b \<in> {docker_backend X, local_backend X, existing_backend X, cloud_backend n X dir}"
  shows "read_only (eb_run_task b name ts stream)" "read_only (eb_exec b name cmd stream)"
  using assms
  by (auto simp: docker_backend_def local_backend_def existing_backend_def cloud_backend_def docker_run_task_def
      local_run_task_def intro!: read_only_seq read_only_note read_only_setup_then_run read_only_intros
      read_only_existing_run read_only_bind read_only_target read_only_run_task read_only_exec)

lemma four_backends:
  "docker_backend X \<in> {docker_backend X, local_backend X, existing_backend X, cloud_backend n X dir}"
  "local_backend X \<in> {docker_backend X, local_backend X, existing_backend X, cloud_backend n X dir}"
  "existing_backend X \<in> {docker_backend X, local_backend X, existing_backend X, cloud_backend n X dir}"
  "cloud_backend n X dir \<in> {docker_backend X, local_backend X, existing_backend X, cloud_backend n X dir}"
  by simp_all

lemmas backend_keeps =
  cluster_invariant.keeps_backend_launch backend_launch_refused backend_launch_others
  four_backends [THEN backend_runs_read_only(1), THEN read_only_keeps]
  four_backends [THEN backend_runs_read_only(2), THEN read_only_keeps]
  cluster_invariant.keeps_backend_life [OF _ four_backends(1)] cluster_invariant.keeps_backend_life [OF _ four_backends(2)]
  cluster_invariant.keeps_backend_life [OF _ four_backends(3)] cluster_invariant.keeps_backend_life [OF _ four_backends(4)]

interpretation docker: backend_contract "docker_backend X" for X :: "('p, 'w) ext"
proof
  fix st st' :: "'w sys" and name ts l c
  assume "store_ok (fst st)" "eb_launch (docker_backend X) name ts l st = (Inr c, st')"
  then show "get_cluster (fst st') name = Inr c \<and> cl_name c = name \<and> cl_backend c = eb_name (docker_backend X)"
    by (auto simp: docker_backend_def docker_launch_def seq_act_def bind_act_Inr world_err_Inr quiet_def
        split: option.splits dest!: record_new_Inr [rotated])
qed (rule backend_keeps; assumption)+

interpretation loc: backend_contract "local_backend X" for X :: "('p, 'w) ext"
proof
  fix st st' :: "'w sys" and name ts l c
  assume "store_ok (fst st)" "eb_launch (local_backend X) name ts l st = (Inr c, st')"
  then show "get_cluster (fst st') name = Inr c \<and> cl_name c = name \<and> cl_backend c = eb_name (local_backend X)"
    by (auto simp: local_backend_def local_launch_def dest!: record_new_Inr [rotated])
qed (rule backend_keeps; assumption)+

interpretation existing: backend_contract "existing_backend X" for X :: "('p, 'w) ext"
proof
  fix st st' :: "'w sys" and name ts l c
  assume "store_ok (fst st)" "eb_launch (existing_backend X) name ts l st = (Inr c, st')"
  then show "get_cluster (fst st') name = Inr c \<and> cl_name c = name \<and> cl_backend c = eb_name (existing_backend X)"
    by (auto simp: existing_backend_def existing_launch_def Let_def split: option.splits dest!: record_new_Inr [rotated])
qed (rule backend_keeps; assumption)+

interpretation cloud: backend_contract "cloud_backend n X dir" for n and X :: "('p, 'w) ext" and dir
proof
  fix st st' :: "'w sys" and name ts l c
  assume ok: "store_ok (fst st)" and e: "eb_launch (cloud_backend n X dir) name ts l st = (Inr c, st')"
  then obtain l' c1 s1 s2 where l: "launch_cluster n X dir name ts l' st = (Inr c1, s1)"
    and u: "do_update_cluster X (cl_name c1) (\<lambda>c. c\<lparr>cl_backend := ''cloud''\<rparr>) s1 = (Inr (), s2)"
    and a: "cluster_at (cl_name c1) s2 = (Inr c, st')"
    by (auto simp: cloud_backend_def cloud_launch_def seq_act_def bind_act_Inr split: option.splits)
  from launch_returns_stored [OF l ok] have c1: "get_cluster (fst s1) name = Inr c1" "cl_name c1 = name" by simp_all
  from update_Inr [OF u] c1 have "st_clusters (fst s2) =
      mput name (c1\<lparr>cl_backend := ''cloud'', cl_updated_at := unix X (snd s1)\<rparr>) (st_clusters (fst s1))"
    by (auto simp: get_cluster_def split: option.splits)
  with a c1(2) show "get_cluster (fst st') name = Inr c \<and> cl_name c = name \<and> cl_backend c = eb_name (cloud_backend n X dir)"
    by (cases s2) (auto simp: cluster_at_def asks_def get_cluster_def cloud_backend_def)
qed (rule backend_keeps; assumption)+

section \<open>The manager\<close>

lemma manager_backend:
  assumes "mget (manager_backends n X dir) nm = Some b"
  shows "backend_contract b \<and> eb_name b = nm"
  using assms docker.backend_contract_axioms [of X] loc.backend_contract_axioms [of X]
    existing.backend_contract_axioms [of X] cloud.backend_contract_axioms [of n X dir]
  by (auto simp: manager_backends_def cloud_backend_def existing_backend_def docker_backend_def local_backend_def
      split: if_splits)

lemma stored_clusters:
  "st_clusters (fst (snd (do_record_yaml X name y st))) = st_clusters (fst st)"
  "st_clusters (fst (snd (do_record_history X h st))) = st_clusters (fst st)"
  by (cases st; simp add: do_record_yaml_def do_record_history_def stored_apply record_cluster_yaml_def
      record_cluster_history_def persist_def Let_def split_beta split: option.splits)+

lemma record_yaml_Inr:
  "do_record_yaml X name y st = (Inr u, st') \<Longrightarrow> map_option y_yaml (mget (st_yamls (fst st')) name) = Some y"
  by (cases st) (auto simp: do_record_yaml_def stored_apply record_cluster_yaml_def persist_def
      Let_def err_res_def split: option.splits prod.splits)

lemma history_yamls: "st_yamls (fst (snd (do_record_history X h st))) = st_yamls (fst st)"
  "st_yamls (fst (snd (do_event X e st))) = st_yamls (fst st)"
  by (cases st; simp add: do_record_history_def do_event_def add_cluster_event_def stored_apply
      record_cluster_history_def persist_def Let_def split_beta split: option.splits)+

lemma record_launch_clusters: "st_clusters (fst (snd (record_launch X c ts l st))) = st_clusters (fst st)"
proof -
  obtain r s1 where q: "do_record_yaml X (cl_name c) (x_yaml X ts) st = (r, s1)" by (rule prod.exhaust)
  with stored_clusters(1) [of X "cl_name c" "x_yaml X ts" st] have "st_clusters (fst s1) = st_clusters (fst st)" by simp
  with q show ?thesis
    by (cases r) (simp_all add: record_launch_def seq_act_def bind_act_def stored_clusters)
qed

lemma record_launch_yaml:
  assumes "record_launch X c ts l st = (Inr u, st')"
  shows "map_option y_yaml (mget (st_yamls (fst st')) (cl_name c)) = Some (x_yaml X ts)"
proof -
  from assms obtain s1 where "do_record_yaml X (cl_name c) (x_yaml X ts) st = (Inr (), s1)"
    and h: "do_record_history X
          \<lparr>h_cluster_name = cl_name c, h_num_nodes = cl_num_nodes c, h_cloud = cl_cloud c, h_region = cl_region c,
           h_zone = (case l of None \<Rightarrow> [] | Some l \<Rightarrow> l_zone l),
           h_instance_type = (case l of None \<Rightarrow> [] | Some l \<Rightarrow> l_instance_type l), h_backend = cl_backend c,
           h_task_yaml = x_yaml X ts, h_launched_at = cl_created_at c, h_created_at = 0, h_updated_at = 0\<rparr> s1 = (Inr u, st')"
    by (auto simp: record_launch_def seq_act_def bind_act_Inr)
  from record_yaml_Inr [OF this(1)] history_yamls(1) [of X _ s1] h show ?thesis by (metis snd_conv)
qed

lemma manager_launch_Inr:
  assumes "manager_launch X bs name ts l st = (Inr c, st')"
  obtains b s1 where "mget bs (t_backend ts) = Some b" "eb_launch b name ts l st = (Inr c, s1)"
    "st_clusters (fst st') = st_clusters (fst s1)"
    "map_option y_yaml (mget (st_yamls (fst st')) (cl_name c)) = Some (x_yaml X ts)"
proof -
  from assms obtain b s1 s2 where b: "mget bs (t_backend ts) = Some b" "eb_launch b name ts l st = (Inr c, s1)"
    and r: "record_launch X c ts l s1 = (Inr (), s2)"
    and q: "st' = snd (do_event X \<lparr>e_cluster_name = cl_name c, e_starting_status = [], e_ending_status = cl_status c,
              e_reason = ''cluster launched'', e_type = ''launch'', e_request_id = [],
              e_transitioned_at = cl_created_at c\<rparr> s2)"
    by (auto simp: manager_launch_def seq_act_def bind_act_Inr split: option.splits)
  have "st_clusters (fst st') = st_clusters (fst s1)"
    using q record_launch_clusters [of X c ts l s1] r by (cases s2) simp
  with b record_launch_yaml [OF r] q history_yamls(2) that show thesis by metis
qed

lemma manager_launch_found:
  assumes "store_ok (fst st)" and "manager_launch X (manager_backends n X dir) name ts l st = (Inr c, st')"
  shows "get_cluster (fst st') name = Inr c \<and> cl_name c = name \<and> cl_backend c = t_backend ts \<and>
    (\<exists>b. mget (manager_backends n X dir) (t_backend ts) = Some b \<and>
       for_cluster (manager_backends n X dir) name st' = (Inr b, st')) \<and>
    map_option y_yaml (mget (st_yamls (fst st')) name) = Some (x_yaml X ts)"
proof -
  from assms(2) obtain b s1 where b: "mget (manager_backends n X dir) (t_backend ts) = Some b"
    and e: "eb_launch b name ts l st = (Inr c, s1)" and c: "st_clusters (fst st') = st_clusters (fst s1)"
    and y: "map_option y_yaml (mget (st_yamls (fst st')) (cl_name c)) = Some (x_yaml X ts)"
    by (rule manager_launch_Inr)
  from manager_backend [OF b] have contract: "backend_contract b" and nm: "eb_name b = t_backend ts" by simp_all
  from backend_contract.launch_recorded [OF contract assms(1) e] c nm
  have g: "get_cluster (fst st') name = Inr c" "cl_name c = name" "cl_backend c = t_backend ts"
    by (simp_all add: get_cluster_def)
  moreover have "for_cluster (manager_backends n X dir) name st' = (Inr b, st')"
  proof -
    have "t_backend ts \<noteq> []" using b by (auto simp: manager_backends_def split: if_splits)
    with g b show ?thesis
      by (cases st') (simp add: for_cluster_def bind_act_def cluster_at_def asks_def)
  qed
  ultimately show ?thesis using b y by simp
qed

text \<open>C23. A launched cluster is found again by the backend that launched it: from a consistent store, a launch that
  succeeds has recorded the cluster under its name with the backend the task names, every later operation on the
  name is dispatched to that backend, and the task's text is kept as its snapshot.\<close>

theorem launch_then_dispatch:
  assumes "store_ok (fst st)" and "manager_launch X (manager_backends n X dir) name ts l st = (Inr c, st')"
  shows "get_cluster (fst st') name = Inr c \<and> cl_name c = name \<and> cl_backend c = t_backend ts \<and>
    (\<exists>b. mget (manager_backends n X dir) (t_backend ts) = Some b \<and>
       for_cluster (manager_backends n X dir) name st' = (Inr b, st')) \<and>
    map_option y_yaml (mget (st_yamls (fst st')) name) = Some (x_yaml X ts)"
  by (rule manager_launch_found [OF assms])

section \<open>Exit codes, containers, environments\<close>

text \<open>The docker and local backends report exit codes: a setup that exits with a code other than 0 ends the task with
  this code and the run command is not started; otherwise the result is that of the run command.\<close>

theorem setup_decides_first:
  assumes "t_setup ts \<noteq> []" and "t_run ts \<noteq> []" and "t_workdir ts = []"
    and "local_exec X (t_setup ts) stream w = (Inr code, w1)"
    and "docker_exec X name (t_setup ts) stream w = (Inr dcode, w2)"
  shows "local_run_task X name ts stream (s, w) =
      (if code \<noteq> 0 then (Inr code, (s, w1))
       else (fst (local_exec X (t_run ts) stream w1), (s, snd (local_exec X (t_run ts) stream w1)))) \<and>
    docker_run_task X name ts stream (s, w) =
      (if dcode \<noteq> 0 then (Inr dcode, (s, w2))
       else (fst (docker_exec X name (t_run ts) stream w2), (s, snd (docker_exec X name (t_run ts) stream w2))))"
  using assms
  by (simp add: local_run_task_def docker_run_task_def seq_act_def bind_act_def note_workdir_def setup_then_run_def
      world_def split_beta)

text \<open>Launching a container under the name of a cluster in use destroys the running one: the old container is
  removed and a new one started before the name is found taken, and the store does not change.\<close>

theorem docker_launch_replaces_container:
  assumes "mget (st_clusters s) name = Some c0" and "t_docker ts = Some d"
    and "x_exec X [''docker'', ''rm'', ''-f'', name] [] w = (r1, w1)"
    and "x_exec X (docker_args name d ts) [] w1 = ((out, Exited 0), w2)"
  shows "docker_launch X name ts (s, w) = (Inl (Err (''cluster '' @ name @ '' already exists'')), (s, w2))"
  using assms
  by (simp add: docker_launch_def seq_act_def bind_act_def quiet_def world_err_def checked_command_def record_new_def
      do_add_cluster_def stored_apply add_cluster_def err_res_def split_beta)

text \<open>The environment and the file mounts of a task reach only containers: outside the docker backend a task runs
  the same whatever they are.\<close>

theorem envs_only_in_docker:
  "run_task n X name (ts\<lparr>t_envs := envs, t_file_mounts := mounts\<rparr>) stream = run_task n X name ts stream \<and>
   local_run_task X name (ts\<lparr>t_envs := envs, t_file_mounts := mounts\<rparr>) stream = local_run_task X name ts stream \<and>
   existing_run_task X name (ts\<lparr>t_envs := envs, t_file_mounts := mounts\<rparr>) stream = existing_run_task X name ts stream"
  unfolding run_task_def run_setup_def local_run_task_def existing_run_task_def setup_then_run_def note_workdir_def
  by (simp cong: option.case_cong if_cong)

text \<open>Every operation of the manager keeps the store consistent, and running never changes it.\<close>

lemma keeps_for_cluster: "keeps (\<lambda>(s, w). P s) (for_cluster bs name)"
  unfolding for_cluster_def Let_def
  by (intro keeps_bind keeps_cluster_at) (auto split: option.split intro: keeps_basic)

lemma for_cluster_backend:
  "for_cluster bs name st = (Inr b, st') \<Longrightarrow> \<exists>nm. mget bs nm = Some b"
  by (auto simp: for_cluster_def Let_def bind_act_Inr split: option.splits)

lemma runs_read_only:
  assumes "manager_run_task (manager_backends n X dir) name ts stream st = (r, st')"
  shows "fst st' = fst st"
proof -
  obtain q s1 where q: "for_cluster (manager_backends n X dir) name st = (q, s1)" by (rule prod.exhaust)
  have "keeps (\<lambda>(s, w). s = fst st) (for_cluster (manager_backends n X dir) name)" by (rule keeps_for_cluster)
  from keepsD [OF this _ q] have f: "fst s1 = fst st" by (simp add: case_prod_beta)
  show ?thesis
  proof (cases q)
    case (Inl e)
    with q f assms show ?thesis by (auto simp: manager_run_task_def bind_act_def)
  next
    case (Inr b)
    with q for_cluster_backend obtain nm where "mget (manager_backends n X dir) nm = Some b" by blast
    with manager_backend have b: "backend_contract b" by blast
    from assms q Inr have "eb_run_task b name ts stream s1 = (r, st')"
      by (simp add: manager_run_task_def bind_act_def)
    from backend_contract.runs_leave_the_store(1) [OF b this] f show ?thesis by simp
  qed
qed

lemma keeps_manager_launch:
  assumes "cluster_invariant P"
  shows "keeps (\<lambda>(s, w). P s) (manager_launch X (manager_backends n X dir) name ts l)"
proof (cases "mget (manager_backends n X dir) (t_backend ts)")
  case (Some b)
  with manager_backend have "backend_contract b" by blast
  note b = backend_contract.launch_keeps [OF this assms]
  from Some show ?thesis
    unfolding manager_launch_def record_launch_def
    by simp (intro keeps_intros b cluster_invariant.keeps_clusters [OF assms])
qed (simp add: manager_launch_def keeps_basic)

lemma manager_launch_refused:
  assumes "mget (st_clusters (fst st)) name \<noteq> None"
  shows "refused (manager_launch X (manager_backends n X dir) name ts l) st"
proof (cases "mget (manager_backends n X dir) (t_backend ts)")
  case (Some b)
  with manager_backend have "backend_contract b" by blast
  from backend_contract.launch_refused [OF this assms] Some show ?thesis
    by (simp add: manager_launch_def refused_bind)
qed (simp add: manager_launch_def)

lemma manager_launch_others:
  fixes X :: "('p, 'w) ext"
  assumes "store_ok (fst st)"
  shows "same_others name (fst st) (fst (snd (manager_launch X (manager_backends n X dir) name ts l st)))"
proof (cases "mget (manager_backends n X dir) (t_backend ts)")
  case (Some b)
  with manager_backend have "backend_contract b" by blast
  note o1 = backend_contract.launch_others [OF this assms, of name ts l]
  obtain r st1 where e: "eb_launch b name ts l st = (r, st1)" by (rule prod.exhaust)
  show ?thesis
  proof (cases r)
    case (Inr c)
    have q: "st_clusters (fst (snd (seq_act (record_launch X c ts l) (seq_act (quiet (do_event X ev)) (ret c)) st1))) =
        st_clusters (fst st1)" for ev
    proof -
      obtain q st2 where r: "record_launch X c ts l st1 = (q, st2)" by (rule prod.exhaust)
      with record_launch_clusters [of X c ts l st1] have "st_clusters (fst st2) = st_clusters (fst st1)" by simp
      with r show ?thesis
        by (cases q; cases st2) (simp_all add: seq_act_def bind_act_def do_event_def stored_apply add_cluster_event_def
            persist_def split_beta Let_def)
    qed
    from o1 e Some Inr show ?thesis
      by (simp add: manager_launch_def bind_act_def same_others_def q)
  qed (use o1 e Some in \<open>simp add: manager_launch_def bind_act_fail\<close>)
qed (simp add: manager_launch_def)

section \<open>Instances\<close>

definition local_task :: task where
  "local_task = demo_task\<lparr>t_backend := ''local'', t_setup := ''bash -s''\<rparr>"

definition box_task :: task where
  "box_task = demo_task\<lparr>t_backend := ''docker'',
     t_docker := Some \<lparr>dk_image = ''img'', dk_volumes = [], dk_envs = [], dk_gpus = 0\<rparr>\<rparr>"

definition local_launched :: "cluster res \<times> int sys" where
  "local_launched =
     manager_launch sample_ext (manager_backends 1 sample_ext ''home'') ''c1'' local_task None (empty_store, 0)"

theorem launch_then_dispatch_witness:
  "(\<exists>c. get_cluster (fst (snd local_launched)) ''c1'' = Inr c \<and> cl_backend c = ''local'')"
proof -
  obtain r st' where l: "local_launched = (r, st')" by (rule prod.exhaust)
  have "\<not> isl (fst local_launched)" by code_simp
  with l obtain c where r: "r = Inr c" by (metis fst_conv sum.collapse(2))
  from launch_then_dispatch [of "(empty_store, 0)" sample_ext 1 "''home''" "''c1''" local_task None c st']
    l r empty_store_ok show ?thesis
    by (simp add: local_launched_def local_task_def)
qed

theorem setup_decides_first_witness:
  "local_run_task sample_ext ''c1'' local_task False (empty_store, 0) = (Inr 7, (empty_store, 0)) \<and>
   docker_run_task sample_ext ''c1'' local_task False (empty_store, 0) = (Inr 7, (empty_store, 0))"
proof -
  have "local_exec sample_ext (t_setup local_task) False 0 = (Inr 7, 0)"
    and "docker_exec sample_ext ''c1'' (t_setup local_task) False 0 = (Inr 7, 0)"
    by code_simp+
  with setup_decides_first [of local_task sample_ext False 0 7 0 "''c1''" 7 0 empty_store] show ?thesis
    by (simp add: local_task_def demo_task_def)
qed

theorem docker_launch_replaces_container_witness:
  "docker_launch sample_ext ''c1'' box_task (empty_store\<lparr>st_clusters := [(''c1'', busy_cluster)]\<rparr>, 0) =
     (Inl (Err ''cluster c1 already exists''), (empty_store\<lparr>st_clusters := [(''c1'', busy_cluster)]\<rparr>, 0))"
  using docker_launch_replaces_container
    [of "empty_store\<lparr>st_clusters := [(''c1'', busy_cluster)]\<rparr>" "''c1''" busy_cluster box_task
      "the (t_docker box_task)" sample_ext 0 "([], Exited 0)" 0 "[]" 0]
  by (simp add: box_task_def sample_ext_def docker_args_def)

end
