(* ===== verification/Jobs_Cron.thy ===== *)
theory Jobs_Cron
  imports Go_Time
begin

text \<open>
  \<open>internal/jobs/cron.go\<close>: schedules. A schedule is five fields, each nil (\<open>*\<close>, here \<open>None\<close>) or a list
  of values; \<open>@every d\<close> is a duration instead. \<open>next\<close> looks at every minute of five years. The
  location of the clock is a parameter. What is proved: the values of a parsed schedule are in
  range, a printed schedule parses back, \<open>next\<close> is the first matching minute after its argument
  and comes within a day when the day fields are free.
\<close>

section \<open>Parsing\<close>

record schedule =
  sd_minute :: "int list option"
  sd_hour :: "int list option"
  sd_dom :: "int list option"
  sd_month :: "int list option"
  sd_dow :: "int list option"

text \<open>The five \<open>valid\<close> functions are intervals, given by their bounds.\<close>

type_synonym interval = "int \<times> int"

definition minute_range :: interval where "minute_range = (0, 59)"
definition hour_range :: interval where "hour_range = (0, 23)"
definition day_range :: interval where "day_range = (1, 31)"
definition month_range :: interval where "month_range = (1, 12)"
definition dow_range :: interval where "dow_range = (0, 6)"

definition in_range :: "interval \<Rightarrow> int \<Rightarrow> bool" where
  "in_range r v \<longleftrightarrow> fst r \<le> v \<and> v \<le> snd r"

definition wrap64 :: "int \<Rightarrow> int" where
  "wrap64 i = (i + 2 ^ 63) mod 2 ^ 64 - 2 ^ 63"

text \<open>
  The loop \<open>for v := start; v <= end; v += step\<close>. It appends at most one value per element of the
  interval: \<open>range_loop_total\<close> shows that the bound on the rounds given in \<open>parse_part\<close> is enough.
\<close>

fun range_loop :: "nat \<Rightarrow> interval \<Rightarrow> int \<Rightarrow> int \<Rightarrow> int \<Rightarrow> int list res" where
  "range_loop 0 r v e step = Inl (Panic ''too many rounds'')"
| "range_loop (Suc n) r v e step =
     (if e < v then Inr []
      else if \<not> in_range r v then Inl (Err (''value '' @ itoa v @ '' out of range''))
      else bind_res (range_loop n r (wrap64 (v + step)) e step) (\<lambda>vs. Inr (v # vs)))"

definition part_step :: "string \<Rightarrow> (string \<times> int) res" where
  "part_step part =
     (case cut_at CHR ''/'' part of
        (rp, None) \<Rightarrow> Inr (rp, 1)
      | (rp, Some st) \<Rightarrow>
          (case atoi st of
             None \<Rightarrow> Inl (Err (''invalid step in '' @ quote_str part))
           | Some n \<Rightarrow> if n < 1 then Inl (Err (''invalid step in '' @ quote_str part)) else Inr (rp, n)))"

definition part_bounds :: "string \<Rightarrow> (int \<times> int) res" where
  "part_bounds rp =
     (if rp = ''*'' then Inr (0, 59)
      else (case cut_at CHR ''-'' rp of
         (a, Some b) \<Rightarrow>
           (case (atoi a, atoi b) of
              (Some s, Some e) \<Rightarrow> Inr (s, e)
            | _ \<Rightarrow> Inl (Err (''invalid range '' @ quote_str rp)))
       | (_, None) \<Rightarrow>
           (case atoi rp of
              Some v \<Rightarrow> Inr (v, v)
            | None \<Rightarrow> Inl (Err (''invalid value '' @ quote_str rp)))))"

definition parse_part :: "interval \<Rightarrow> string \<Rightarrow> int list res" where
  "parse_part r part =
     bind_res (part_step part) (\<lambda>(rp, step).
     bind_res (part_bounds rp) (\<lambda>(s, e).
       range_loop (nat (snd r - fst r + 2)) r s e step))"

definition parse_field :: "interval \<Rightarrow> string \<Rightarrow> int list option res" where
  "parse_field r f =
     (if f = ''*'' then Inr None
      else bind_res (map_res (parse_part r) (split_on CHR '','' f)) (\<lambda>vss. Inr (Some (concat vss))))"

definition schedule_aliases :: "(string \<times> string) list" where
  "schedule_aliases =
     [(''@minutely'', ''* * * * *''), (''@hourly'', ''0 * * * *''), (''@daily'', ''0 0 * * *''),
      (''@midnight'', ''0 0 * * *''), (''@weekly'', ''0 0 * * 0''), (''@monthly'', ''0 0 1 * *'')]"

definition field_at :: "nat \<Rightarrow> interval \<Rightarrow> string \<Rightarrow> int list option res" where
  "field_at i r f =
     (case parse_field r f of
        Inl e \<Rightarrow> Inl (wrap_err (''field '' @ nat_str i @ '': '') e)
      | Inr vs \<Rightarrow> Inr vs)"

definition parse_fields :: "string list \<Rightarrow> schedule res" where
  "parse_fields fs =
     bind_res (field_at 0 minute_range (fs ! 0)) (\<lambda>m.
     bind_res (field_at 1 hour_range (fs ! 1)) (\<lambda>h.
     bind_res (field_at 2 day_range (fs ! 2)) (\<lambda>d.
     bind_res (field_at 3 month_range (fs ! 3)) (\<lambda>mo.
     bind_res (field_at 4 dow_range (fs ! 4)) (\<lambda>w.
       Inr \<lparr>sd_minute = m, sd_hour = h, sd_dom = d, sd_month = mo, sd_dow = w\<rparr>)))))"

text \<open>The result is a schedule and no duration, or no schedule and a duration.\<close>

definition parse_schedule :: "string \<Rightarrow> (schedule option \<times> int) res" where
  "parse_schedule spec =
     (if spec = [] then Inl (Err ''empty schedule'')
      else if has_prefix spec ''@every '' then
        (case parse_duration (trim_space (trim_prefix spec ''@every '')) of
           Inl e \<Rightarrow> Inl (wrap_err ''invalid @every duration: '' e)
         | Inr d \<Rightarrow> Inr (None, d))
      else
        (let fs = Go_Strings.fields (case map_of schedule_aliases spec of Some t \<Rightarrow> t | None \<Rightarrow> spec)
         in if length fs \<noteq> 5
            then Inl (Err (''cron spec must have 5 fields, got '' @ nat_str (length fs)))
            else bind_res (parse_fields fs) (\<lambda>s. Inr (Some s, 0))))"

section \<open>The next run\<close>

definition contains_val :: "int list option \<Rightarrow> int \<Rightarrow> bool" where
  "contains_val vals v = (case vals of None \<Rightarrow> True | Some vs \<Rightarrow> v \<in> set vs)"

definition sched_match :: "(int \<Rightarrow> int) \<Rightarrow> schedule \<Rightarrow> int \<Rightarrow> bool" where
  "sched_match zone s t =
     (if \<not> contains_val (sd_minute s) (ck_minute (clock zone t)) then False
      else if \<not> contains_val (sd_hour s) (ck_hour (clock zone t)) then False
      else if \<not> contains_val (sd_month s) (ck_month (clock zone t)) then False
      else if \<not> contains_val (sd_dow s) (ck_weekday (clock zone t)) then False
      else contains_val (sd_dom s) (ck_day (clock zone t)))"

fun next_loop :: "(int \<Rightarrow> bool) \<Rightarrow> nat \<Rightarrow> int \<Rightarrow> int option" where
  "next_loop P 0 t = None"
| "next_loop P (Suc n) t = (if P t then Some t else next_loop P n (t + 60))"

definition five_years :: nat where "five_years = 5 * 365 * 24 * 60"

text \<open>\<open>from\<close> is in nanoseconds, the result in seconds; the zero time is \<open>None\<close>.\<close>

definition first_minute :: "int \<Rightarrow> int" where
  "first_minute from_ns = from_ns div 60000000000 * 60 + 60"

definition sched_next :: "(int \<Rightarrow> int) \<Rightarrow> schedule \<Rightarrow> int \<Rightarrow> int option" where
  "sched_next zone s from_ns = next_loop (sched_match zone s) five_years (first_minute from_ns)"

section \<open>Values in range\<close>

lemma range_loop_sound:
  "range_loop n r v e step = Inr vs \<Longrightarrow> \<forall>x \<in> set vs. in_range r x \<and> x \<le> e"
  by (induction n r v e step arbitrary: vs rule: range_loop.induct)
    (auto simp: bind_res_Inr split: if_splits)

text \<open>A round that appends a value either moves up by a positive step or wraps below the interval.\<close>

lemma wrap64_id: "- (2 ^ 63) \<le> i \<Longrightarrow> i < 2 ^ 63 \<Longrightarrow> wrap64 i = i"
  by (simp add: wrap64_def mod_pos_pos_trivial)

lemma wrap64_over:
  assumes "2 ^ 63 \<le> i" and "i < 2 ^ 64 + 2 ^ 63"
  shows "wrap64 i = i - 2 ^ 64"
proof -
  have "(i + 2 ^ 63 - 2 ^ 64) mod 2 ^ 64 = i + 2 ^ 63 - 2 ^ 64"
    using assms by (intro mod_pos_pos_trivial) simp_all
  with minus_mod_self2 [of "i + 2 ^ 63" "2 ^ 64"] show ?thesis
    unfolding wrap64_def by linarith
qed

lemma wrap64_step:
  assumes "in_range r v" and "0 \<le> fst r" and "snd r < 2 ^ 63" and "1 \<le> step" and "step < 2 ^ 63"
  shows "v < wrap64 (v + step) \<or> wrap64 (v + step) < fst r"
proof (cases "v + step < 2 ^ 63")
  case True
  have "wrap64 (v + step) = v + step"
    by (rule wrap64_id) (use assms True in \<open>simp_all add: in_range_def\<close>)
  with assms(4) show ?thesis by simp
next
  case False
  have "wrap64 (v + step) = v + step - 2 ^ 64"
    by (rule wrap64_over) (use assms False in \<open>simp_all add: in_range_def\<close>)
  with assms show ?thesis by (simp add: in_range_def)
qed

lemma range_loop_total:
  assumes "0 \<le> fst r" and "snd r < 2 ^ 63" and "1 \<le> step" and "step < 2 ^ 63"
    and "nat (snd r - v + 1) < n \<or> v < fst r \<and> 0 < n"
  shows "range_loop n r v e step \<noteq> Inl (Panic m)"
  using assms(5)
proof (induction n arbitrary: v)
  case 0
  then show ?case by simp
next
  case (Suc n)
  show ?case
  proof (cases "in_range r v")
    case True
    with Suc.prems have "nat (snd r - v + 1) < Suc n" "0 < nat (snd r - v + 1)"
      by (auto simp: in_range_def)
    with wrap64_step [OF True assms(1-4)]
    have "nat (snd r - wrap64 (v + step) + 1) < n \<or> wrap64 (v + step) < fst r \<and> 0 < n"
      by linarith
    from Suc.IH [OF this] show ?thesis
      by (auto simp: bind_res_Inl)
  qed simp
qed

lemma part_step_bounds:
  "part_step part = Inr (rp, step) \<Longrightarrow> 1 \<le> step \<and> step < 2 ^ 63"
  by (auto simp: part_step_def atoi_def Let_def int64_ok_def split: prod.splits option.splits if_splits)

lemma field_bounds:
  "r \<in> {minute_range, hour_range, day_range, month_range, dow_range} \<Longrightarrow>
   0 \<le> fst r \<and> fst r \<le> snd r \<and> snd r < 2 ^ 63"
  by (auto simp: minute_range_def hour_range_def day_range_def month_range_def dow_range_def)

lemma part_no_panic:
  "part_step part \<noteq> Inl (Panic m)" "part_bounds rp \<noteq> Inl (Panic m)"
  by (auto simp: part_step_def part_bounds_def split: prod.splits option.splits)

text \<open>The rounds of \<open>parse_part\<close> are enough, whatever the bounds in the text.\<close>

lemma parse_part_total:
  assumes "0 \<le> fst r" and "snd r < 2 ^ 63" and "fst r \<le> snd r"
  shows "parse_part r part \<noteq> Inl (Panic m)"
proof
  assume "parse_part r part = Inl (Panic m)"
  then obtain rp step s e where p: "part_step part = Inr (rp, step)"
    and l: "range_loop (nat (snd r - fst r + 2)) r s e step = Inl (Panic m)"
    by (auto simp: parse_part_def bind_res_Inl part_no_panic)
  have "nat (snd r - s + 1) < nat (snd r - fst r + 2) \<or> s < fst r \<and> 0 < nat (snd r - fst r + 2)"
    using assms(3) by linarith
  with range_loop_total assms(1,2) part_step_bounds [OF p] l show False by blast
qed

definition field_ok :: "interval \<Rightarrow> int list option \<Rightarrow> bool" where
  "field_ok r vals = (case vals of None \<Rightarrow> True | Some vs \<Rightarrow> list_all (in_range r) vs)"

definition schedule_ok :: "schedule \<Rightarrow> bool" where
  "schedule_ok s \<longleftrightarrow>
     field_ok minute_range (sd_minute s) \<and> field_ok hour_range (sd_hour s) \<and> field_ok day_range (sd_dom s) \<and>
     field_ok month_range (sd_month s) \<and> field_ok dow_range (sd_dow s)"

lemma parse_part_sound: "parse_part r part = Inr vs \<Longrightarrow> list_all (in_range r) vs"
  by (auto simp: parse_part_def bind_res_Inr list_all_iff dest: range_loop_sound)

lemma parse_field_sound:
  assumes "parse_field r f = Inr vals"
  shows "field_ok r vals"
proof (cases "f = ''*''")
  case True
  with assms show ?thesis by (auto simp: parse_field_def field_ok_def)
next
  case False
  with assms obtain vss where v: "vals = Some (concat vss)"
    and a: "list_all2 (\<lambda>p vs. parse_part r p = Inr vs) (split_on CHR '','' f) vss"
    by (auto simp: parse_field_def bind_res_Inr map_res_Inr_iff)
  from a have "list_all (list_all (in_range r)) vss"
    by (induction rule: list_all2_induct) (auto dest: parse_part_sound)
  with v show ?thesis by (auto simp: field_ok_def list_all_iff)
qed

lemma field_at_Inr [simp]: "field_at i r f = Inr vs \<longleftrightarrow> parse_field r f = Inr vs"
  by (auto simp: field_at_def split: sum.splits)

lemma parse_schedule_Inr:
  assumes "parse_schedule spec = Inr (Some s, d)"
  shows "d = 0 \<and> schedule_ok s"
proof -
  from assms obtain fs where "parse_fields fs = Inr s" and "d = 0"
    by (auto simp: parse_schedule_def bind_res_Inr Let_def split: if_splits sum.splits)
  then show ?thesis
    by (auto simp: parse_fields_def bind_res_Inr schedule_ok_def dest: parse_field_sound)
qed

section \<open>The first matching minute\<close>

lemma next_loop_Some:
  "next_loop P n t = Some u \<longleftrightarrow>
     (\<exists>i < n. u = t + 60 * int i \<and> P u \<and> (\<forall>j < i. \<not> P (t + 60 * int j)))"
proof (induction n arbitrary: t)
  case (Suc n)
  have "(\<exists>i < Suc n. u = t + 60 * int i \<and> P u \<and> (\<forall>j < i. \<not> P (t + 60 * int j))) \<longleftrightarrow>
    (if P t then u = t else \<exists>i < n. u = t + 60 + 60 * int i \<and> P u \<and> (\<forall>j < i. \<not> P (t + 60 + 60 * int j)))"
    by (auto simp: Ex_less_Suc2 All_less_Suc2 algebra_simps)
  then show ?case
    by (auto simp: Suc.IH)
qed simp

lemma next_loop_None: "next_loop P n t = None \<longleftrightarrow> (\<forall>i < n. \<not> P (t + 60 * int i))"
  by (induction n arbitrary: t) (auto simp: All_less_Suc2 algebra_simps)

lemma first_minute: "60 dvd first_minute f" "f < first_minute f * 1000000000"
  "60 dvd u \<Longrightarrow> f < u * 1000000000 \<Longrightarrow> first_minute f \<le> u"
proof -
  show "60 dvd first_minute f" by (simp add: first_minute_def)
  define q where "q = f div 60000000000"
  have "f < 60000000000 * q + 60000000000" unfolding q_def by linarith
  then show "f < first_minute f * 1000000000"
    unfolding first_minute_def q_def [symmetric] by simp
  assume "60 dvd u" and u: "f < u * 1000000000"
  from \<open>60 dvd u\<close> obtain k where k: "u = 60 * k" by (rule dvdE)
  with u have "f div 60000000000 < k" by linarith
  then show "first_minute f \<le> u" by (simp add: first_minute_def k)
qed

text \<open>The minutes \<open>next\<close> looks at are those after its argument, without a gap.\<close>

lemma minutes_after:
  assumes "60 dvd u" and "f < u * 1000000000"
  obtains i where "u = first_minute f + 60 * int i"
proof -
  have "60 dvd u - first_minute f" using assms(1) first_minute(1) by (rule dvd_diff)
  then obtain k where "u - first_minute f = 60 * k" by (rule dvdE)
  moreover have "0 \<le> u - first_minute f" using first_minute(3) [OF assms] by simp
  ultimately show thesis using that [of "nat k"] by simp
qed

lemma five_years_numeral: "five_years = 2628000"
  by (simp add: five_years_def)

text \<open>C22. A scheduled run comes at the first matching minute: the minute is whole, lies after the given instant,
  matches the schedule, and no whole minute between the two does; when there is none, no minute of
  the five years after the instant matches.\<close>

theorem next_is_first:
  "(\<forall>t. sched_next zone s from = Some t \<longrightarrow>
      60 dvd t \<and> from < t * 1000000000 \<and> sched_match zone s t \<and>
      (\<forall>u. 60 dvd u \<longrightarrow> from < u * 1000000000 \<longrightarrow> u < t \<longrightarrow> \<not> sched_match zone s u)) \<and>
   (sched_next zone s from = None \<longrightarrow>
      (\<forall>u. 60 dvd u \<longrightarrow> from < u * 1000000000 \<longrightarrow> u * 1000000000 \<le> from + 5 * 365 * 86400 * 1000000000 \<longrightarrow>
         \<not> sched_match zone s u))"
proof (intro conjI allI impI)
  fix t
  assume "sched_next zone s from = Some t"
  then obtain i where t: "t = first_minute from + 60 * int i" and m: "sched_match zone s t"
    and before: "\<forall>j < i. \<not> sched_match zone s (first_minute from + 60 * int j)"
    by (auto simp: sched_next_def next_loop_Some)
  show "60 dvd t" unfolding t by (intro dvd_add first_minute(1)) simp
  show "from < t * 1000000000" unfolding t using first_minute(2) [of "from"] by simp
  show "sched_match zone s t" by (rule m)
  show "\<not> sched_match zone s u" if "60 dvd u" "from < u * 1000000000" "u < t" for u
    using that(1,2) by (rule minutes_after) (use that(3) before t in auto)
next
  fix u
  assume none: "sched_next zone s from = None" and u: "60 dvd u" "from < u * 1000000000"
    and w: "u * 1000000000 \<le> from + 5 * 365 * 86400 * 1000000000"
  from u obtain i where i: "u = first_minute from + 60 * int i" by (rule minutes_after)
  have "i < five_years"
    using w i first_minute(2) [of "from"] unfolding five_years_numeral by linarith
  with none i show "\<not> sched_match zone s u"
    by (auto simp: sched_next_def next_loop_None)
qed

text \<open>In a location with a fixed offset every minute of the day comes around within a day.\<close>

lemma clock_of_day:
  "ck_minute (clock zone t) = (t + zone t) mod 86400 div 60 mod 60"
  "ck_hour (clock zone t) = (t + zone t) mod 86400 div 3600"
  by (simp_all add: clock_def Let_def)

lemma minute_of_day_comes:
  assumes "0 \<le> m" "m \<le> 59" "0 \<le> h" "h \<le> 23" and "60 dvd off" and "60 dvd (f::int)"
  obtains i where "i < 1440" "ck_minute (clock (\<lambda>_. off) (f + 60 * int i)) = m"
    "ck_hour (clock (\<lambda>_. off) (f + 60 * int i)) = h"
proof -
  define T where "T = 3600 * h + 60 * m"
  define k where "k = (T - (f + off)) mod 86400"
  have "60 dvd T - (f + off)"
    unfolding T_def using assms(5,6) by (intro dvd_diff dvd_add) simp_all
  then have "60 dvd k" unfolding k_def by (simp add: dvd_mod)
  then obtain j where j: "k = 60 * j" by (rule dvdE)
  have k: "0 \<le> k" "k < 86400" unfolding k_def by simp_all
  have "T div 60 = h * 60 + m" unfolding T_def by simp
  then have T: "0 \<le> T" "T < 86400" "T div 60 mod 60 = m" "T div 3600 = h"
    using assms(1-4) by (simp_all add: T_def)
  have "(f + off + k) mod 86400 = (f + off + (T - (f + off))) mod 86400"
    unfolding k_def by (rule mod_add_right_eq)
  also have "f + off + (T - (f + off)) = T" by linarith
  also have "T mod 86400 = T" using T(1,2) by (rule mod_pos_pos_trivial)
  also have "f + off + k = f + k + off" by linarith
  finally have "(f + k + off) mod 86400 = T" .
  then have "ck_minute (clock (\<lambda>_. off) (f + k)) = m" "ck_hour (clock (\<lambda>_. off) (f + k)) = h"
    unfolding clock_of_day by (simp_all only: T(3,4))
  moreover have "nat j < 1440" "f + 60 * int (nat j) = f + k" using j k by linarith+
  ultimately show thesis using that [of "nat j"] by (simp only:)
qed

lemma fires_within_day:
  assumes "schedule_ok s" and "sd_dom s = None" and "sd_month s = None" and "sd_dow s = None"
    and "sd_minute s \<noteq> Some []" and "sd_hour s \<noteq> Some []" and "60 dvd off"
  shows "\<exists>t. sched_next (\<lambda>_. off) s from = Some t \<and> t < first_minute from + 86400"
proof -
  have pick: "\<exists>v. contains_val vals v \<and> 0 \<le> v \<and> v \<le> snd r"
    if "field_ok r vals" "fst r = 0" "0 \<le> snd r" "vals \<noteq> Some []" for r vals
    using that by (cases vals; cases "the vals") (auto simp: contains_val_def field_ok_def in_range_def)
  from assms(1) have "field_ok minute_range (sd_minute s)" "field_ok hour_range (sd_hour s)"
    by (simp_all add: schedule_ok_def)
  with pick [of minute_range "sd_minute s"] pick [of hour_range "sd_hour s"] assms(5,6)
  obtain m h where m: "contains_val (sd_minute s) m" "0 \<le> m" "m \<le> 59"
    and h: "contains_val (sd_hour s) h" "0 \<le> h" "h \<le> 23"
    by (auto simp: minute_range_def hour_range_def)
  obtain i where i: "i < 1440" "ck_minute (clock (\<lambda>_. off) (first_minute from + 60 * int i)) = m"
    "ck_hour (clock (\<lambda>_. off) (first_minute from + 60 * int i)) = h"
    using minute_of_day_comes [OF m(2,3) h(2,3) assms(7) first_minute(1)] by blast
  have hit: "sched_match (\<lambda>_. off) s (first_minute from + 60 * int i)"
    using i(2,3) m(1) h(1) assms(2-4) by (simp add: sched_match_def contains_val_def)
  then have "next_loop (sched_match (\<lambda>_. off) s) five_years (first_minute from) \<noteq> None"
    using i(1) unfolding next_loop_None five_years_numeral by (auto intro!: exI [of _ i])
  then obtain t where t: "sched_next (\<lambda>_. off) s from = Some t"
    by (auto simp: sched_next_def)
  then obtain j where j: "t = first_minute from + 60 * int j"
    "\<forall>j' < j. \<not> sched_match (\<lambda>_. off) s (first_minute from + 60 * int j')"
    by (auto simp: sched_next_def next_loop_Some)
  with hit have "j \<le> i" by (meson not_le)
  with j(1) i(1) t show ?thesis by auto
qed


section \<open>Text of a schedule\<close>

text \<open>A field written out value by value; the text of a schedule has the five of them in order.\<close>

definition field_string :: "int list option \<Rightarrow> string" where
  "field_string vals = (case vals of None \<Rightarrow> ''*'' | Some vs \<Rightarrow> join_with '','' (map itoa vs))"

definition schedule_string :: "schedule \<Rightarrow> string" where
  "schedule_string s =
     join_with '' '' (map field_string [sd_minute s, sd_hour s, sd_dom s, sd_month s, sd_dow s])"

definition no_empty_field :: "schedule \<Rightarrow> bool" where
  "no_empty_field s \<longleftrightarrow>
     sd_minute s \<noteq> Some [] \<and> sd_hour s \<noteq> Some [] \<and> sd_dom s \<noteq> Some [] \<and> sd_month s \<noteq> Some [] \<and>
     sd_dow s \<noteq> Some []"

lemma itoa_nonneg: "0 \<le> v \<Longrightarrow> itoa v = nat_str (nat v)"
  by (simp add: itoa_def)

lemma parse_part_value:
  assumes "in_range r v" and "0 \<le> fst r" and "snd r < 2 ^ 62"
  shows "parse_part r (itoa v) = Inr [v]"
proof -
  have v: "0 \<le> v" "v < 2 ^ 62" using assms by (auto simp: in_range_def)
  then have a: "atoi (itoa v) = Some v" by (intro atoi_itoa) (simp add: int64_ok_def)
  have "CHR ''/'' \<notin> set (itoa v)" "CHR ''-'' \<notin> set (itoa v)"
    using v(1) by (simp_all add: itoa_nonneg is_digit_def)
  moreover have "itoa v \<noteq> ''*''"
    using v(1) hd_nat_str [of "nat v"] by (auto simp: itoa_nonneg is_digit_def)
  moreover have "range_loop (nat (snd r - fst r + 2)) r v v 1 = Inr [v]"
  proof -
    obtain n where n: "nat (snd r - fst r + 2) = Suc (Suc n)"
      using assms(1) by (intro that [of "nat (snd r - fst r)"]) (auto simp: in_range_def)
    have "wrap64 (v + 1) = v + 1" using v by (intro wrap64_id) simp_all
    with assms(1) show ?thesis by (simp add: n)
  qed
  ultimately show ?thesis
    by (simp add: parse_part_def part_step_def part_bounds_def cut_at_None a)
qed

lemma set_join_with: "set (join_with sep ws) \<subseteq> set sep \<union> \<Union> (set ` set ws)"
  by (induction sep ws rule: join_with.induct) auto

lemma itoa_digits: "0 \<le> v \<Longrightarrow> c \<in> set (itoa v) \<Longrightarrow> is_digit c"
  by (simp add: itoa_nonneg digit_in_nat_str)

lemma field_string_chars:
  assumes "field_ok r vals" and "0 \<le> fst r" and "c \<in> set (field_string vals)"
  shows "is_digit c \<or> c = CHR '','' \<or> vals = None \<and> c = CHR ''*''"
proof (cases vals)
  case (Some vs)
  with assms(3) set_join_with [of "'',''" "map itoa vs"] have "c \<in> set '','' \<union> \<Union> (set ` set (map itoa vs))"
    by (auto simp: field_string_def)
  moreover have "\<forall>v \<in> set vs. 0 \<le> v"
    using assms(1,2) Some by (auto simp: field_ok_def list_all_iff in_range_def)
  ultimately show ?thesis by (auto dest: itoa_digits)
qed (use assms(3) in \<open>simp add: field_string_def\<close>)

lemma field_string_not_Nil: "vals \<noteq> Some [] \<Longrightarrow> field_ok r vals \<Longrightarrow> 0 \<le> fst r \<Longrightarrow> field_string vals \<noteq> []"
proof (cases vals)
  case (Some vs)
  moreover assume "vals \<noteq> Some []" "field_ok r vals" "0 \<le> fst r"
  ultimately obtain v ws where "vs = v # ws" "0 \<le> v"
    by (cases vs) (auto simp: field_ok_def in_range_def)
  with Some show ?thesis
    by (cases ws) (simp_all add: field_string_def itoa_nonneg)
qed (simp add: field_string_def)

definition field_word :: "string \<Rightarrow> bool" where
  "field_word w \<longleftrightarrow> w \<noteq> [] \<and> (\<forall>c \<in> set w. is_digit c \<or> c = CHR '','' \<or> c = CHR ''*'')"

lemma field_string_word:
  assumes "field_ok r vals" and "vals \<noteq> Some []" and "0 \<le> fst r"
  shows "field_word (field_string vals)"
  unfolding field_word_def
  using field_string_not_Nil [OF assms(2,1,3)] field_string_chars [OF assms(1,3)] by blast

lemma parse_field_string:
  assumes "field_ok r vals" and "vals \<noteq> Some []" and "0 \<le> fst r" and "snd r < 2 ^ 62"
  shows "parse_field r (field_string vals) = Inr vals"
proof (cases vals)
  case None
  then show ?thesis by (simp add: parse_field_def field_string_def)
next
  case (Some vs)
  with assms have ok: "\<forall>v \<in> set vs. in_range r v \<and> 0 \<le> v" and ne: "vs \<noteq> []"
    by (auto simp: field_ok_def list_all_iff in_range_def)
  have "\<forall>w \<in> set (map itoa vs). CHR '','' \<notin> set w"
    using ok itoa_digits by (fastforce simp: is_digit_def)
  then have "split_on CHR '','' (join_with '','' (map itoa vs)) = map itoa vs"
    using ne by (intro split_on_join) auto
  moreover have "map_res (parse_part r) (map itoa vs) = Inr (map (\<lambda>v. [v]) vs)"
    using ok assms(3,4) by (auto simp: map_res_Inr_iff list_all2_conv_all_nth intro: parse_part_value)
  moreover have "field_string vals \<noteq> ''*''"
    using field_string_chars [OF assms(1,3), of "CHR ''*''"] Some by (auto simp: is_digit_def)
  ultimately show ?thesis
    by (simp add: parse_field_def field_string_def Some)
qed

lemma fields_acc_word:
  "\<forall>c \<in> set w. \<not> is_space c \<Longrightarrow> fields_acc acc (w @ rest) = fields_acc (rev w @ acc) rest"
  by (induction w arbitrary: acc) auto

lemma fields_join:
  "\<forall>w \<in> set ws. w \<noteq> [] \<and> (\<forall>c \<in> set w. \<not> is_space c) \<Longrightarrow> Go_Strings.fields (join_with '' '' ws) = ws"
proof (induction "'' ''" ws rule: join_with.induct)
  case (2 w)
  then show ?case
    using fields_acc_word [of w "[]" "[]"] by (simp add: Go_Strings.fields_def)
next
  case (3 w v ws)
  then show ?case
    using fields_acc_word [of w "[]" "CHR '' '' # join_with '' '' (v # ws)"]
    by (simp add: Go_Strings.fields_def is_space_def)
qed (simp add: Go_Strings.fields_def)

text \<open>C31. A schedule written out parses back: for a schedule with values in range and no empty list, parsing its text
  gives the schedule, with no interval; and whatever a text parses to has its values in range.\<close>

theorem schedule_roundtrip:
  assumes "schedule_ok s" and "no_empty_field s"
  shows "parse_schedule (schedule_string s) = Inr (Some s, 0) \<and>
    (\<forall>spec s' d. parse_schedule spec = Inr (Some s', d) \<longrightarrow> d = 0 \<and> schedule_ok s')"
proof
  let ?ws = "map field_string [sd_minute s, sd_hour s, sd_dom s, sd_month s, sd_dow s]"
  note rs = minute_range_def hour_range_def day_range_def month_range_def dow_range_def
  have f: "field_ok minute_range (sd_minute s)" "field_ok hour_range (sd_hour s)" "field_ok day_range (sd_dom s)"
    "field_ok month_range (sd_month s)" "field_ok dow_range (sd_dow s)"
    using assms(1) by (simp_all add: schedule_ok_def)
  have n: "sd_minute s \<noteq> Some []" "sd_hour s \<noteq> Some []" "sd_dom s \<noteq> Some []" "sd_month s \<noteq> Some []" "sd_dow s \<noteq> Some []"
    using assms(2) by (simp_all add: no_empty_field_def)
  have ws: "field_word w" if "w \<in> set ?ws" for w
    using that field_string_word [OF f(1) n(1)] field_string_word [OF f(2) n(2)]
      field_string_word [OF f(3) n(3)] field_string_word [OF f(4) n(4)] field_string_word [OF f(5) n(5)]
    by (auto simp: rs)
  have "Go_Strings.fields (schedule_string s) = ?ws"
    unfolding schedule_string_def
    by (intro fields_join) (use ws in \<open>fastforce simp: field_word_def is_digit_def is_space_def\<close>)
  moreover have "CHR ''@'' \<notin> set (schedule_string s)"
    using set_join_with [of "'' ''" ?ws] ws unfolding schedule_string_def by (fastforce simp: field_word_def is_digit_def)
  moreover have "schedule_string s \<noteq> []"
    by (simp add: schedule_string_def)
  moreover have "parse_fields ?ws = Inr s"
    using parse_field_string [OF f(1) n(1)] parse_field_string [OF f(2) n(2)] parse_field_string [OF f(3) n(3)]
      parse_field_string [OF f(4) n(4)] parse_field_string [OF f(5) n(5)]
    by (simp add: parse_fields_def field_at_def rs)
  ultimately show "parse_schedule (schedule_string s) = Inr (Some s, 0)"
    by (auto simp: parse_schedule_def has_prefix_iff schedule_aliases_def Let_def split: option.splits if_splits)
next
  show "\<forall>spec s' d. parse_schedule spec = Inr (Some s', d) \<longrightarrow> d = 0 \<and> schedule_ok s'"
    using parse_schedule_Inr by blast
qed

definition nightly :: schedule where
  "nightly = \<lparr>sd_minute = Some [30], sd_hour = Some [3], sd_dom = None, sd_month = None, sd_dow = None\<rparr>"

lemma nightly_ok: "schedule_ok nightly" "no_empty_field nightly"
  by (simp_all add: schedule_ok_def no_empty_field_def nightly_def field_ok_def in_range_def minute_range_def hour_range_def)

theorem schedule_roundtrip_witness: "parse_schedule ''30 3 * * *'' = Inr (Some nightly, 0)"
proof -
  have "schedule_string nightly = ''30 3 * * *''" by code_simp
  with schedule_roundtrip [OF nightly_ok] show ?thesis by simp
qed


theorem next_is_first_witness:
  "\<exists>t. sched_next (\<lambda>_. 0) nightly 0 = Some t \<and> 60 dvd t \<and> sched_match (\<lambda>_. 0) nightly t"
  using fires_within_day [of nightly 0 0] nightly_ok next_is_first [of "\<lambda>_. 0" nightly 0]
  by (auto simp: nightly_def)

section \<open>What the syntax rejects, and schedules that never run\<close>

fun is_err :: "'a res \<Rightarrow> bool" where
  "is_err (Inl (Err m)) = True"
| "is_err _ = False"

lemma star_steps:
  "list_all (\<lambda>n. list_all (\<lambda>r. is_err (range_loop (nat (snd r - fst r + 2)) r 0 59 n))
      [hour_range, day_range, month_range, dow_range]) [1..59]"
  "list_all (\<lambda>n. range_loop 61 minute_range 0 59 n = Inr (filter (\<lambda>v. n dvd v) [0..59])) [1..59]"
  by code_simp+

lemma parse_star_step:
  assumes "1 \<le> n" and "n \<le> 59"
  shows "parse_field r (''*/'' @ itoa n) =
    bind_res (range_loop (nat (snd r - fst r + 2)) r 0 59 n) (\<lambda>vs. Inr (Some vs))"
proof -
  have "atoi (itoa n) = Some n" using assms by (intro atoi_itoa) (simp add: int64_ok_def)
  moreover have c: "CHR '','' \<notin> set (itoa n)" using assms itoa_digits [of n] by (fastforce simp: is_digit_def)
  ultimately have "parse_part r (''*/'' @ itoa n) = range_loop (nat (snd r - fst r + 2)) r 0 59 n"
    using assms by (simp add: parse_part_def part_step_def part_bounds_def)
  with c show ?thesis
    by (simp add: parse_field_def string_simps split_on_none bind_res_def split: sum.splits)
qed

text \<open>The step form over a whole field is counted over the minutes of an hour in every field: \<open>*/n\<close> is every n-th
  minute, but in the hour, day, month and weekday fields it is an error, for every n below sixty.\<close>

theorem star_step_only_minutes:
  assumes "1 \<le> n" and "n \<le> 59" and "r \<in> {hour_range, day_range, month_range, dow_range}"
  shows "(\<exists>m. parse_field r (''*/'' @ itoa n) = Inl (Err m)) \<and>
    parse_field minute_range (''*/'' @ itoa n) = Inr (Some (filter (\<lambda>v. n dvd v) [0..59]))"
proof -
  have "n \<in> set [1..59]" using assms by simp
  with star_steps assms(3) have "is_err (range_loop (nat (snd r - fst r + 2)) r 0 59 n)"
    and "range_loop 61 minute_range 0 59 n = Inr (filter (\<lambda>v. n dvd v) [0..59])"
    by (auto simp only: list_all_iff list.set insert_iff empty_iff)
  then show ?thesis
    unfolding parse_star_step [OF assms(1,2)]
    by (auto simp: minute_range_def elim!: is_err.elims)
qed

theorem star_step_only_minutes_witness:
  "(\<exists>m. parse_field hour_range ''*/2'' = Inl (Err m)) \<and> parse_field minute_range ''*/20'' = Inr (Some [0, 20, 40])"
proof -
  have i: "itoa 2 = ''2''" "itoa 20 = ''20''" by code_simp+
  have f: "filter (\<lambda>v. 20 dvd v) [0..59] = [0, 20, 40 :: int]" by code_simp
  show ?thesis
    using star_step_only_minutes [of 2 hour_range] star_step_only_minutes [of 20 hour_range] i f by simp
qed

text \<open>No month has the day a schedule like \<open>0 0 30 2 *\<close> asks for.\<close>

lemma february: "fst (month_and_day d) = 2 \<Longrightarrow> snd (month_and_day d) \<le> 29"
proof -
  obtain doy where doy: "doy = day_of_year ((d + 719468) mod 146097)" "0 \<le> doy" "doy \<le> 365"
    using day_of_year_bounds by blast
  define mp where "mp = (5 * doy + 2) div 153"
  have mp: "153 * mp \<le> 5 * doy + 2" "5 * doy + 2 < 153 * mp + 153" unfolding mp_def by linarith+
  assume "fst (month_and_day d) = 2"
  then have "(if mp < 10 then mp + 3 else mp - 9) = 2"
    unfolding month_and_day_def Let_def doy(1) [symmetric] mp_def [symmetric] by simp
  with mp doy have "mp = 11" by (auto split: if_splits)
  with doy show ?thesis
    unfolding month_and_day_def Let_def doy(1) [symmetric] mp_def [symmetric] by simp
qed

lemma never_in_february:
  assumes "sd_month s = Some [2]" and "sd_dom s = Some ds" and "\<forall>d \<in> set ds. 30 \<le> d"
  shows "sched_next zone s from = None"
  using assms february by (fastforce simp: sched_next_def next_loop_None sched_match_def contains_val_def clock_def Let_def)

text \<open>A reversed range is no error: its list is empty and the schedule matches no minute.\<close>

lemma reversed_range_never: "sd_hour s = Some [] \<Longrightarrow> sched_next zone s from = None"
  by (simp add: sched_next_def next_loop_None sched_match_def contains_val_def)

lemma reversed_range_parses: "parse_field hour_range ''17-9'' = Inr (Some [])"
  by code_simp

end
