(* ===== verification/Jobs.thy ===== *)
theory Jobs
  imports Backends Jobs_Cron
begin

text \<open>
  The job manager, \<open>internal/jobs/jobs.go\<close>, and the scheduler of the server that drives it
  (\<open>scheduler\<close> in \<open>internal/server/server.go\<close>): submitting a job, running it with its retries, finding
  the jobs that are due and setting their next run. A run plans a placement, launches a cluster and runs
  the task on it. A panic is not a failed attempt: it ends the run, and the process with it.
\<close>

section \<open>Planning\<close>

text \<open>
  The registry of the optimizers, and the metadata they read, whose cache is part of the world.
\<close>

record 'w planner =
  pn_registry :: opt_registry
  pn_meta :: "'w meta"

definition nil_deref :: error where
  "nil_deref = Panic ''invalid memory address or nil pointer dereference''"

definition plan_request :: "'w planner \<Rightarrow> string \<Rightarrow> request \<Rightarrow> (plan, 'w sys) act" where
  "plan_request P name req =
     (case resolve_optimizer (pn_registry P) name of
        Inl e \<Rightarrow> raise e
      | Inr None \<Rightarrow> raise nil_deref
      | Inr (Some ms) \<Rightarrow> world (optimize (pn_meta P) ms (Some req)))"

definition first_launch :: "plan \<Rightarrow> launch res" where
  "first_launch p = (case pl_launches p of [] \<Rightarrow> Inl (Panic ''index out of range'') | l # _ \<Rightarrow> Inr l)"

text \<open>The launch of a task outside the cloud backend: only the name of the backend and the nodes.\<close>

definition bare_launch :: "task \<Rightarrow> launch" where
  "bare_launch ts =
     \<lparr>l_cloud = t_backend ts, l_region = [], l_zone = [], l_instance_type = [], l_num_nodes = t_num_nodes ts,
      l_accel = [], l_vcpus = 0, l_memory = Fin 0, l_on_demand = Fin 0, l_spot = Fin 0, l_use_spot = False,
      l_time = Fin 0, l_order = 0\<rparr>"

definition job_options :: "task \<Rightarrow> options" where
  "job_options ts = \<lparr>o_num_nodes = t_num_nodes ts, o_use_spot = False, o_cloud = [], o_region = [], o_zone = [],
     o_max_candidates = 0\<rparr>"

definition launch_for :: "'w planner \<Rightarrow> string \<Rightarrow> options \<Rightarrow> task \<Rightarrow> (launch, 'w sys) act" where
  "launch_for P opt_name opts ts =
     (if t_backend ts \<noteq> ''cloud'' then ret (bare_launch ts)
      else bind_act (plan_request P opt_name \<lparr>rq_resources = t_resources ts, rq_options = Some opts\<rparr>)
             (\<lambda>p. of_res (first_launch p)))"

section \<open>Submitting\<close>

text \<open>The status and the next run of a new job.\<close>

definition first_run :: "('p, 'w) ext \<Rightarrow> string \<Rightarrow> 'w \<Rightarrow> (string \<times> int) res" where
  "first_run X schedule w =
     (if schedule = [] then Inr (''queued'', 0)
      else case parse_schedule schedule of
             Inl e \<Rightarrow> Inl (wrap_err (''invalid schedule '' @ quote_str schedule @ '': '') e)
           | Inr (_, d) \<Rightarrow> Inr (''registered'', if 0 < d then (x_now X w + d) div 1000000000 else unix X w))"

definition load_of :: "('p, 'w) ext \<Rightarrow> string \<Rightarrow> (task, 'w sys) act" where
  "load_of X path = world (\<lambda>w. (x_load_task X path w, w))"

definition new_job ::
  "('p, 'w) ext \<Rightarrow> string \<Rightarrow> task \<Rightarrow> string \<Rightarrow> string \<Rightarrow> int \<Rightarrow> string \<Rightarrow> string \<times> int \<Rightarrow> job" where
  "new_job X name ts path schedule retries optimizer first =
     \<lparr>j_name = (if name = [] then t_name ts else name), j_task_yaml = x_yaml X ts, j_schedule = schedule,
      j_task_path = path, j_retries = retries, j_optimizer = optimizer, j_cluster = [], j_status = fst first,
      j_run_count = 0, j_fail_count = 0, j_last_run = 0, j_last_status = [], j_next_run = snd first,
      j_error = [], j_created_at = 0, j_updated_at = 0\<rparr>"

text \<open>
  The error of \<open>AddJob\<close> is dropped: the job is returned whether it was stored or not, with the times the
  store has set if it was.
\<close>

definition add_and_return :: "('p, 'w) ext \<Rightarrow> job \<Rightarrow> (job, 'w sys) act" where
  "add_and_return X j st =
     (case snd (do_add_job X j st) of
        st1 \<Rightarrow> (Inr (if mget (st_jobs (fst st)) (j_name j) \<noteq> None then j
                    else (case mget (st_jobs (fst st1)) (j_name j) of Some j' \<Rightarrow> j' | None \<Rightarrow> j)), st1))"

definition submit ::
  "('p, 'w) ext \<Rightarrow> string \<Rightarrow> string \<Rightarrow> string \<Rightarrow> int \<Rightarrow> string \<Rightarrow> (job, 'w sys) act" where
  "submit X name path schedule retries optimizer =
     bind_act (load_of X path) (\<lambda>ts.
     bind_act (world (\<lambda>w. (first_run X schedule w, w))) (\<lambda>first.
     add_and_return X (new_job X name ts path schedule retries optimizer first)))"

section \<open>Running\<close>

text \<open>The code the task exits with is dropped.\<close>

definition run_once ::
  "('p, 'w) ext \<Rightarrow> 'w exec_backend smap \<Rightarrow> 'w planner \<Rightarrow> task \<Rightarrow> string \<Rightarrow> string \<Rightarrow> bool \<Rightarrow> (unit, 'w sys) act" where
  "run_once X bs P ts cluster opt_name stream =
     bind_act (launch_for P opt_name (job_options ts) ts) (\<lambda>l.
     seq_act (manager_launch X bs cluster ts (Some l))
     (bind_act (manager_run_task bs cluster ts stream) (\<lambda>_. ret ())))"

definition note_retry :: "('p, 'w) ext \<Rightarrow> bool \<Rightarrow> int \<Rightarrow> int \<Rightarrow> (unit, 'w sys) act" where
  "note_retry X stream attempt retries =
     when_act (0 < attempt \<and> stream)
       (world_err (\<lambda>w. (None, x_emit X (''[retry '' @ itoa attempt @ ''/'' @ itoa retries @ '']'') w)))"

definition mark_started :: "int \<Rightarrow> job \<Rightarrow> job" where
  "mark_started now j = j\<lparr>j_status := ''running'', j_last_run := now\<rparr>"

definition mark_done :: "job \<Rightarrow> job" where
  "mark_done j = j\<lparr>j_status := ''done'', j_run_count := j_run_count j + 1, j_last_status := ''success''\<rparr>"

definition mark_attempt :: "error \<Rightarrow> job \<Rightarrow> job" where
  "mark_attempt e j = j\<lparr>j_fail_count := j_fail_count j + 1, j_last_status := ''failed'', j_error := err_text e\<rparr>"

definition mark_failed :: "job \<Rightarrow> job" where
  "mark_failed j = j\<lparr>j_status := ''failed''\<rparr>"

definition job_update :: "('p, 'w) ext \<Rightarrow> string \<Rightarrow> (job \<Rightarrow> job) \<Rightarrow> (unit, 'w sys) act" where
  "job_update X name f = quiet (do_update_job X name f)"

text \<open>
  The loop over the attempts 0 to \<open>Retries\<close>, with the error of the last one: with a negative number of
  retries there is no attempt and no error.
\<close>

fun attempts ::
  "('p, 'w) ext \<Rightarrow> string \<Rightarrow> bool \<Rightarrow> int \<Rightarrow> (unit, 'w sys) act \<Rightarrow> error option \<Rightarrow> int list \<Rightarrow> (unit, 'w sys) act" where
  "attempts X name stream retries once err [] =
     seq_act (job_update X name mark_failed) (of_res (err_res err))"
| "attempts X name stream retries once err (a # as) =
     seq_act (note_retry X stream a retries) (\<lambda>st.
       case once st of
         (Inr _, st1) \<Rightarrow> job_update X name mark_done st1
       | (Inl (Panic m), st1) \<Rightarrow> (Inl (Panic m), st1)
       | (Inl (Err m), st1) \<Rightarrow>
           attempts X name stream retries once (Some (Err m)) as (snd (job_update X name (mark_attempt (Err m)) st1)))"

definition run_now ::
  "('p, 'w) ext \<Rightarrow> 'w exec_backend smap \<Rightarrow> 'w planner \<Rightarrow> string \<Rightarrow> bool \<Rightarrow> (unit, 'w sys) act" where
  "run_now X bs P name stream =
     bind_act (asks (\<lambda>s. get_job s name)) (\<lambda>j.
     bind_act (load_of X (j_task_path j)) (\<lambda>ts.
     bind_act (look (unix X)) (\<lambda>now.
     seq_act (job_update X name (mark_started now))
       (attempts X name stream (j_retries j)
          (run_once X bs P ts (if j_cluster j = [] then ''job-'' @ name else j_cluster j) (j_optimizer j) stream)
          None [0..j_retries j]))))"

section \<open>Scheduling\<close>

definition is_due :: "int \<Rightarrow> job \<Rightarrow> bool" where
  "is_due now j \<longleftrightarrow> j_schedule j \<noteq> [] \<and> \<not> (j_status j = ''running'' \<or> j_status j = ''queued'') \<and>
     0 < j_next_run j \<and> j_next_run j \<le> now"

definition due :: "('p, 'w) ext \<Rightarrow> 'w sys \<Rightarrow> job list" where
  "due X st = filter (is_due (unix X (snd st))) (list_jobs (fst st))"

text \<open>
  \<open>computeNext\<close>: the zero time is \<open>None\<close>. An interval that is not positive comes without a schedule, whose
  fields \<open>match\<close> then reads through a nil pointer.
\<close>

definition compute_next :: "('p, 'w) ext \<Rightarrow> job \<Rightarrow> 'w \<Rightarrow> int option res" where
  "compute_next X j w =
     (case parse_schedule (j_schedule j) of
        Inl _ \<Rightarrow> Inr None
      | Inr (sched, d) \<Rightarrow>
          if 0 < d then Inr (Some ((x_now X w + d) div 1000000000))
          else (case sched of None \<Rightarrow> Inl nil_deref | Some sc \<Rightarrow> Inr (sched_next (x_zone X) sc (x_now X w))))"

definition set_next :: "int option \<Rightarrow> job \<Rightarrow> job" where
  "set_next next_run j =
     (case next_run of
        None \<Rightarrow> j\<lparr>j_status := ''stopped'', j_next_run := 0\<rparr>
      | Some t \<Rightarrow> j\<lparr>j_next_run := t, j_status := ''registered''\<rparr>)"

definition reschedule :: "('p, 'w) ext \<Rightarrow> string \<Rightarrow> (unit, 'w sys) act" where
  "reschedule X name =
     stored (\<lambda>s w. update_job (x_backend X) (unix X w) name
       (\<lambda>j. case compute_next X j w of Inl e \<Rightarrow> (Some e, j) | Inr t \<Rightarrow> (None, set_next t j)) s w)"

text \<open>What the scheduler does with a job that is due: run it, log its error, set its next run.\<close>

definition unless_panic :: "('a, 's) act \<Rightarrow> (unit, 's) act" where
  "unless_panic m st =
     (case m st of (Inl (Panic e), st1) \<Rightarrow> (Inl (Panic e), st1) | (_, st1) \<Rightarrow> (Inr (), st1))"

definition scheduled_run ::
  "('p, 'w) ext \<Rightarrow> 'w exec_backend smap \<Rightarrow> 'w planner \<Rightarrow> string \<Rightarrow> (unit, 'w sys) act" where
  "scheduled_run X bs P name =
     seq_act (unless_panic (run_now X bs P name False)) (unless_panic (reschedule X name))"

text \<open>
  One tick: the jobs that are due are started at once; here they run one after the other, in the order of
  the goroutines.
\<close>

fun run_due :: "(string \<Rightarrow> (unit, 'w sys) act) \<Rightarrow> string list \<Rightarrow> (unit, 'w sys) act" where
  "run_due f [] = ret ()"
| "run_due f (n # ns) = seq_act (f n) (run_due f ns)"

definition scheduler_tick :: "('p, 'w) ext \<Rightarrow> 'w exec_backend smap \<Rightarrow> 'w planner \<Rightarrow> (unit, 'w sys) act" where
  "scheduler_tick X bs P st =
     (let names = map j_name (due X st)
      in run_due (scheduled_run X bs P) (map ((!) names) (x_order X (snd st) (length names))) st)"

end
