(* ===== verification/Job_Props.thy ===== *)
theory Job_Props
  imports Jobs Backend_Props
begin

text \<open>
  The properties of the job manager: how a run accounts for its attempts, that a job whose cluster is
  there cannot run again, and when a rescheduled job is due.
\<close>

section \<open>What a run changes\<close>

lemma read_only_plan: "read_only (plan_request P name req)"
  unfolding plan_request_def
  by (cases "resolve_optimizer (pn_registry P) name") (auto simp: read_only_intros split: option.split)

lemma read_only_launch_for: "read_only (launch_for P name opts ts)"
  unfolding launch_for_def by (intro read_only_if read_only_bind read_only_plan read_only_intros)

lemma read_only_load_of: "read_only (load_of X path)"
  unfolding load_of_def by (rule read_only_intros)

lemma read_only_note_retry: "read_only (note_retry X stream a retries)"
  unfolding note_retry_def by (intro read_only_when read_only_intros)

lemma read_only_manager_run: "read_only (manager_run_task (manager_backends n X dir) name ts stream)"
  unfolding read_only_def using runs_read_only by (metis prod.collapse)

lemma keeps_run_once:
  assumes "cluster_invariant Q"
  shows "keeps (\<lambda>(s, w). Q s) (run_once X (manager_backends n X dir) P ts cl opt stream)"
  unfolding run_once_def
  by (intro keeps_intros keeps_manager_launch [OF assms] keeps_read_only read_only_launch_for read_only_manager_run)

lemma run_once_jobs:
  "st_jobs (fst (snd (run_once X (manager_backends n X dir) P ts cl opt stream st))) = st_jobs (fst st)"
  using keeps_stD [OF keeps_run_once [OF aside.cluster_invariant_axioms], where st = st] by blast

lemma stored_store: "fst (snd (stored f st)) = fst (snd (f (fst st) (snd st)))"
  by (cases st) (simp add: stored_def split_beta)

lemma job_update_jobs:
  "st_jobs (fst (snd (job_update X name f st))) =
     (case mget (st_jobs (fst st)) name of
        None \<Rightarrow> st_jobs (fst st)
      | Some j \<Rightarrow> mput name ((f j)\<lparr>j_updated_at := unix X (snd st)\<rparr>) (st_jobs (fst st)))"
  by (simp add: job_update_def do_update_job_def stored_store update_job_def split: option.split)

lemma job_update_Inr: "job_update X name f st = (Inr (), snd (job_update X name f st))"
  by (simp add: job_update_def)

lemma job_update_clusters: "st_clusters (fst (snd (job_update X name f st))) = st_clusters (fst st)"
  by (simp add: job_update_def do_update_job_def stored_store update_job_def split: option.split)

section \<open>The accounts of a run\<close>

text \<open>
  \<open>ran k ok j j'\<close>: between the two states of the job there were \<open>k\<close> failed attempts, then a successful one
  or none.
\<close>

definition ran :: "int \<Rightarrow> bool \<Rightarrow> job \<Rightarrow> job \<Rightarrow> bool" where
  "ran k ok j j' \<longleftrightarrow>
     j_fail_count j' = j_fail_count j + k \<and> j_run_count j' = j_run_count j + (if ok then 1 else 0) \<and>
     j_status j' = (if ok then ''done'' else ''failed'') \<and> j_last_run j' = j_last_run j \<and>
     j_retries j' = j_retries j \<and> j_schedule j' = j_schedule j \<and> j_next_run j' = j_next_run j \<and>
     j_last_status j' = (if ok then ''success'' else if 0 < k then ''failed'' else j_last_status j)"

definition only_job :: "string \<Rightarrow> store \<Rightarrow> store \<Rightarrow> bool" where
  "only_job name s s' \<longleftrightarrow> (\<forall>m. m \<noteq> name \<longrightarrow> mget (st_jobs s') m = mget (st_jobs s) m)"

lemma only_job_trans: "only_job name s s1 \<Longrightarrow> only_job name s1 s2 \<Longrightarrow> only_job name s s2"
  by (simp add: only_job_def)

lemma only_job_update: "only_job name (fst st) (fst (snd (job_update X name f st)))"
  by (simp add: only_job_def job_update_jobs split: option.split)

lemma only_job_same: "st_jobs s' = st_jobs s \<Longrightarrow> only_job name s s'"
  by (simp add: only_job_def)

lemma attempts_account:
  assumes "attempts X name stream retries once err as st = (r, st')"
    and "\<And>st. st_jobs (fst (snd (once st))) = st_jobs (fst st)"
    and "mget (st_jobs (fst st)) name = Some j" and "\<forall>m. r \<noteq> Inl (Panic m)"
  shows "only_job name (fst st) (fst st') \<and> (\<exists>j'. mget (st_jobs (fst st')) name = Some j' \<and>
    ((\<exists>k < length as. r = Inr () \<and> ran (int k) True j j') \<or>
     ran (int (length as)) False j j' \<and>
       (if as = [] then r = err_res err \<and> j_error j' = j_error j else \<exists>e. r = Inl e \<and> j_error j' = err_text e)))"
  using assms
proof (induction "as" arbitrary: err st j)
  case Nil
  let ?st = "snd (job_update X name mark_failed st)"
  have "st' = ?st" and "r = err_res err"
    using Nil.prems(1) by (simp_all add: seq_act_def bind_act_def job_update_def)
  moreover have "mget (st_jobs (fst ?st)) name = Some ((mark_failed j)\<lparr>j_updated_at := unix X (snd st)\<rparr>)"
    using Nil.prems(3) by (simp add: job_update_jobs)
  ultimately show ?case
    using only_job_update [of name st X mark_failed] by (simp add: ran_def mark_failed_def)
next
  case (Cons a as)
  obtain q0 st0 where n: "note_retry X stream a retries st = (q0, st0)" by (rule prod.exhaust)
  from read_onlyD [OF read_only_note_retry n] have s0: "fst st0 = fst st" .
  have q0: "q0 = Inr ()"
    using n by (cases st) (auto simp: note_retry_def when_act_def world_err_def err_res_def split: if_splits)
  obtain q st1 where o1: "once st0 = (q, st1)" by (rule prod.exhaust)
  with Cons.prems(2) [of st0] s0 have s1: "st_jobs (fst st1) = st_jobs (fst st)" by simp
  from Cons.prems(1) n q0 o1 have step:
    "(case (q, st1) of (Inr _, st1) \<Rightarrow> job_update X name mark_done st1
       | (Inl (Panic m), st1) \<Rightarrow> (Inl (Panic m), st1)
       | (Inl (Err m), st1) \<Rightarrow>
           attempts X name stream retries once (Some (Err m)) as (snd (job_update X name (mark_attempt (Err m)) st1))) = (r, st')"
    by (simp add: seq_act_def bind_act_def)
  show ?case
  proof (cases q)
    case (Inr u)
    with step have r: "r = Inr ()" and st': "st' = snd (job_update X name mark_done st1)"
      using job_update_Inr [of X name mark_done st1] by simp_all
    have "ran 0 True j ((mark_done j)\<lparr>j_updated_at := unix X (snd st1)\<rparr>)" by (simp add: ran_def mark_done_def)
    moreover have "mget (st_jobs (fst st')) name = Some ((mark_done j)\<lparr>j_updated_at := unix X (snd st1)\<rparr>)"
      using Cons.prems(3) s1 by (simp add: st' job_update_jobs)
    moreover have "only_job name (fst st) (fst st')"
      using only_job_trans [OF only_job_same [OF s1] only_job_update] by (simp add: st')
    ultimately show ?thesis using r by (intro conjI exI [of _ "(mark_done j)\<lparr>j_updated_at := unix X (snd st1)\<rparr>"]) auto
  next
    case (Inl e)
    with step Cons.prems(4) obtain m where e: "e = Err m" by (cases e) auto
    let ?j = "(mark_attempt (Err m) j)\<lparr>j_updated_at := unix X (snd st1)\<rparr>"
    let ?st = "snd (job_update X name (mark_attempt (Err m)) st1)"
    from step Inl e have a: "attempts X name stream retries once (Some (Err m)) as ?st = (r, st')" by simp
    have "mget (st_jobs (fst ?st)) name = Some ?j"
      using Cons.prems(3) s1 by (simp add: job_update_jobs)
    from Cons.IH [OF a Cons.prems(2) this Cons.prems(4)] obtain j' where
      o2: "only_job name (fst ?st) (fst st')" and j': "mget (st_jobs (fst st')) name = Some j'"
      and alt: "(\<exists>k < length as. r = Inr () \<and> ran (int k) True ?j j') \<or>
        ran (int (length as)) False ?j j' \<and>
          (if as = [] then r = Inl (Err m) \<and> j_error j' = m else \<exists>e. r = Inl e \<and> j_error j' = err_text e)"
      by (auto simp: err_res_def mark_attempt_def)
    have more: "ran k ok ?j j' \<Longrightarrow> ran (k + 1) ok j j'" if "0 \<le> k" for k ok
      using that by (auto simp: ran_def mark_attempt_def)
    have "only_job name (fst st) (fst st')"
      using only_job_trans [OF only_job_trans [OF only_job_same [OF s1] only_job_update] o2] .
    moreover have "(\<exists>k < length (a # as). r = Inr () \<and> ran (int k) True j j') \<or>
        ran (int (length (a # as))) False j j' \<and> (\<exists>e. r = Inl e \<and> j_error j' = err_text e)"
    proof (cases "\<exists>k < length as. r = Inr () \<and> ran (int k) True ?j j'")
      case True
      then obtain k where "k < length as" "r = Inr ()" "ran (int k) True ?j j'" by blast
      with more [of "int k" True] show ?thesis by (intro disjI1 exI [of _ "Suc k"]) (simp add: add.commute)
    next
      case False
      with alt more [of "int (length as)" False] show ?thesis by (auto simp: add.commute split: if_splits)
    qed
    ultimately show ?thesis using j' by auto
  qed
qed

lemma run_now_unfold:
  assumes "get_job (fst st) name = Inr j"
  shows "run_now X bs P name stream st =
    (case x_load_task X (j_task_path j) (snd st) of
       Inl e \<Rightarrow> (Inl e, st)
     | Inr ts \<Rightarrow>
         attempts X name stream (j_retries j)
           (run_once X bs P ts (if j_cluster j = [] then ''job-'' @ name else j_cluster j) (j_optimizer j) stream)
           None [0..j_retries j] (snd (job_update X name (mark_started (unix X (snd st))) st)))"
  using assms
  by (cases st) (simp add: run_now_def bind_act_def seq_act_def asks_def load_of_def world_def look_def job_update_def split: sum.split)

text \<open>C26. A run accounts for every attempt: it tries the task once and again up to the number of retries, until an attempt
  succeeds; the failures are counted, a success counts one run and ends as done, otherwise all attempts
  have failed, the error is that of the last one, and the job is marked as failed. No other job changes.\<close>

theorem run_now_accounts:
  assumes "run_now X (manager_backends n X dir) P name stream st = (r, st')"
    and "get_job (fst st) name = Inr j" and "x_load_task X (j_task_path j) (snd st) = Inr ts"
    and "0 \<le> j_retries j" and "\<forall>m. r \<noteq> Inl (Panic m)"
  shows "\<exists>j' k. get_job (fst st') name = Inr j' \<and> j_last_run j' = unix X (snd st) \<and>
    j_fail_count j' = j_fail_count j + int k \<and>
    (r = Inr () \<and> int k \<le> j_retries j \<and> j_run_count j' = j_run_count j + 1 \<and>
       j_status j' = ''done'' \<and> j_last_status j' = ''success'' \<or>
     (\<exists>e. r = Inl e \<and> j_error j' = err_text e) \<and> int k = j_retries j + 1 \<and> j_run_count j' = j_run_count j \<and>
       j_status j' = ''failed'' \<and> j_last_status j' = ''failed'') \<and>
    (\<forall>m. m \<noteq> name \<longrightarrow> mget (st_jobs (fst st')) m = mget (st_jobs (fst st)) m)"
proof -
  let ?st = "snd (job_update X name (mark_started (unix X (snd st))) st)"
  let ?j = "(mark_started (unix X (snd st)) j)\<lparr>j_updated_at := unix X (snd st)\<rparr>"
  from assms(1) have a: "attempts X name stream (j_retries j)
      (run_once X (manager_backends n X dir) P ts (if j_cluster j = [] then ''job-'' @ name else j_cluster j) (j_optimizer j) stream)
      None [0..j_retries j] ?st = (r, st')"
    unfolding run_now_unfold [OF assms(2)] by (simp add: assms(3))
  have j: "mget (st_jobs (fst ?st)) name = Some ?j"
    using assms(2) by (simp add: job_update_jobs get_job_def split: option.splits)
  have l: "int (length [0..j_retries j]) = j_retries j + 1" using assms(4) by simp
  have ne: "[0..j_retries j] \<noteq> []" using assms(4) by simp
  from attempts_account [OF a run_once_jobs j assms(5)] obtain j' where
    o1: "only_job name (fst ?st) (fst st')" and j': "mget (st_jobs (fst st')) name = Some j'"
    and alt: "(\<exists>k < length [0..j_retries j]. r = Inr () \<and> ran (int k) True ?j j') \<or>
      ran (int (length [0..j_retries j])) False ?j j' \<and> (\<exists>e. r = Inl e \<and> j_error j' = err_text e)"
    using ne by auto
  have o2: "\<forall>m. m \<noteq> name \<longrightarrow> mget (st_jobs (fst st')) m = mget (st_jobs (fst st)) m"
    using only_job_trans [OF only_job_update o1] by (simp add: only_job_def)
  from alt show ?thesis
  proof
    assume "\<exists>k < length [0..j_retries j]. r = Inr () \<and> ran (int k) True ?j j'"
    then obtain k where "k < length [0..j_retries j]" and "r = Inr ()" "ran (int k) True ?j j'" by blast
    moreover from this(1) l have "int k \<le> j_retries j" by linarith
    ultimately have "int k \<le> j_retries j" "r = Inr ()" "ran (int k) True ?j j'" by simp_all
    with j' o2 l show ?thesis
      by (intro exI [of _ j'] exI [of _ k]) (auto simp: ran_def mark_started_def get_job_def)
  next
    assume "ran (int (length [0..j_retries j])) False ?j j' \<and> (\<exists>e. r = Inl e \<and> j_error j' = err_text e)"
    with j' o2 l assms(4) show ?thesis
      by (intro exI [of _ j'] exI [of _ "length [0..j_retries j]"]) (auto simp: ran_def mark_started_def get_job_def)
  qed
qed

section \<open>A job whose cluster is there\<close>

lemma refused_after_bind:
  assumes "read_only m" and "\<And>x st'. fst st' = fst st \<Longrightarrow> refused (f x) st'"
  shows "refused (bind_act m f) st"
proof -
  obtain r st' where m: "m st = (r, st')" by (rule prod.exhaust)
  with assms(2) [OF read_onlyD [OF assms(1) m]] read_onlyD [OF assms(1) m] show ?thesis
    by (cases r) (simp_all add: bind_act_def refused_def)
qed

lemma run_once_refused:
  assumes "mget (st_clusters (fst st)) cl \<noteq> None"
  shows "refused (run_once X (manager_backends n X dir) P ts cl opt stream) st"
  unfolding run_once_def seq_act_def
  by (intro refused_after_bind read_only_launch_for refused_bind manager_launch_refused) (simp add: assms)

lemma attempts_refused:
  assumes "\<And>st. mget (st_clusters (fst st)) cl \<noteq> None \<Longrightarrow> refused once st"
    and "mget (st_clusters (fst st)) cl \<noteq> None" and "as \<noteq> [] \<or> err \<noteq> None"
  shows "\<exists>e. fst (attempts X name stream retries once err as st) = Inl e"
  using assms(2,3)
proof (induction "as" arbitrary: err st)
  case Nil
  then show ?case by (auto simp: seq_act_def bind_act_def job_update_def err_res_def)
next
  case (Cons a as)
  obtain q0 st0 where n: "note_retry X stream a retries st = (q0, st0)" by (rule prod.exhaust)
  from read_onlyD [OF read_only_note_retry n] have s0: "fst st0 = fst st" .
  obtain q st1 where o1: "once st0 = (q, st1)" by (rule prod.exhaust)
  with assms(1) [of st0] s0 Cons.prems(1) obtain e where e: "q = Inl e" and s1: "fst st1 = fst st"
    by (cases q) (auto simp: refused_def)
  show ?case
  proof (cases q0)
    case (Inl e0)
    with n show ?thesis by (simp add: seq_act_def bind_act_def)
  next
    case (Inr u)
    with n o1 e Cons.IH [of "snd (job_update X name (mark_attempt e) st1)" "Some e"] s1 Cons.prems(1) show ?thesis
      by (cases e) (simp_all add: seq_act_def bind_act_def job_update_clusters)
  qed
qed

lemma run_now_refused:
  assumes "get_job (fst st) name = Inr j" and "0 \<le> j_retries j"
    and "mget (st_clusters (fst st)) (if j_cluster j = [] then ''job-'' @ name else j_cluster j) \<noteq> None"
  shows "\<exists>e. fst (run_now X (manager_backends n X dir) P name stream st) = Inl e"
proof (cases "x_load_task X (j_task_path j) (snd st)")
  case (Inl e)
  then show ?thesis by (simp add: run_now_unfold [OF assms(1)])
next
  case (Inr ts)
  then show ?thesis unfolding run_now_unfold [OF assms(1)] Inr sum.case
    by (intro attempts_refused [OF run_once_refused]) (use assms(2,3) in \<open>simp_all add: job_update_clusters\<close>)
qed

lemma run_once_stored:
  assumes "store_ok (fst st)" and "run_once X (manager_backends n X dir) P ts cl opt stream st = (Inr (), st')"
  shows "mget (st_clusters (fst st')) cl \<noteq> None"
proof -
  from assms(2) obtain l st0 c st1 code where l: "launch_for P opt (job_options ts) ts st = (Inr l, st0)"
    and m: "manager_launch X (manager_backends n X dir) cl ts (Some l) st0 = (Inr c, st1)"
    and r: "manager_run_task (manager_backends n X dir) cl ts stream st1 = (Inr code, st')"
    by (auto simp: run_once_def seq_act_def bind_act_Inr)
  from read_onlyD [OF read_only_launch_for l] assms(1) have "store_ok (fst st0)" by simp
  from manager_launch_found [OF this m] runs_read_only [OF r] show ?thesis
    by (auto simp: get_cluster_def split: option.splits)
qed

lemma attempts_stored:
  assumes "\<And>st st'. store_ok (fst st) \<Longrightarrow> once st = (Inr (), st') \<Longrightarrow> mget (st_clusters (fst st')) cl \<noteq> None"
    and "keeps (\<lambda>(s, w). store_ok s) once"
    and "store_ok (fst st)" and "as \<noteq> [] \<or> err \<noteq> None"
    and "attempts X name stream retries once err as st = (Inr (), st')"
  shows "mget (st_clusters (fst st')) cl \<noteq> None"
  using assms(3-)
proof (induction "as" arbitrary: err st)
  case Nil
  then show ?case by (auto simp: seq_act_def bind_act_def job_update_def err_res_def)
next
  case (Cons a as)
  obtain q0 st0 where n: "note_retry X stream a retries st = (q0, st0)" by (rule prod.exhaust)
  from read_onlyD [OF read_only_note_retry n] Cons.prems(1) have s0: "store_ok (fst st0)" by simp
  obtain q st1 where o1: "once st0 = (q, st1)" by (rule prod.exhaust)
  have s1: "store_ok (fst st1)" using keeps_store_okD [OF assms(2) s0] o1 by simp
  from Cons.prems(3) n obtain u where q0: "q0 = Inr u" by (cases q0) (auto simp: seq_act_def bind_act_def)
  show ?case
  proof (cases q)
    case (Inr v)
    with Cons.prems(3) n q0 o1 have "st' = snd (job_update X name mark_done st1)"
      by (simp add: seq_act_def bind_act_def job_update_def)
    with assms(1) [OF s0] o1 Inr show ?thesis by (simp add: job_update_clusters)
  next
    case (Inl e)
    have "store_ok (fst (snd (job_update X name (mark_attempt e) st1)))"
      unfolding job_update_def
      by (intro keeps_store_okD [OF _ s1] keeps_intros) (simp add: mark_attempt_def)
    from Cons.IH [OF this, of "Some e"] Cons.prems(3) n q0 o1 Inl show ?thesis
      by (cases e) (simp_all add: seq_act_def bind_act_def)
  qed
qed

text \<open>C40. A job can succeed only once: a successful run leaves its cluster, and as long as it is recorded every later
  run of the job fails, scheduled or not, at any time and whatever the task file says by then.\<close>

theorem job_succeeds_once:
  assumes "store_ok (fst st)" and "get_job (fst st) name = Inr j" and "0 \<le> j_retries j"
    and "run_now X (manager_backends n X dir) P name stream st = (Inr (), st1)"
    and "st_clusters (fst st2) = st_clusters (fst st1)"
    and "get_job (fst st2) name = Inr j2" and "j_cluster j2 = j_cluster j" and "0 \<le> j_retries j2"
  shows "\<exists>e. fst (run_now X (manager_backends n X dir) P name stream2 st2) = Inl e"
proof -
  let ?cl = "if j_cluster j = [] then ''job-'' @ name else j_cluster j"
  let ?st = "snd (job_update X name (mark_started (unix X (snd st))) st)"
  from assms(4) obtain ts where a: "attempts X name stream (j_retries j)
      (run_once X (manager_backends n X dir) P ts ?cl (j_optimizer j) stream) None [0..j_retries j] ?st = (Inr (), st1)"
    unfolding run_now_unfold [OF assms(2)] by (auto split: sum.splits)
  have "store_ok (fst ?st)"
    unfolding job_update_def by (intro keeps_store_okD [OF _ assms(1)] keeps_intros) (simp add: mark_started_def)
  have c: "mget (st_clusters (fst st1)) ?cl \<noteq> None"
    by (rule attempts_stored [OF _ keeps_run_once [OF ok.cluster_invariant_axioms] \<open>store_ok (fst ?st)\<close> _ a],
        rule run_once_stored, assumption, assumption) (use assms(3) in simp)
  show ?thesis by (rule run_now_refused [OF assms(6,8)]) (unfold assms(5,7), rule c)
qed

section \<open>Rescheduling\<close>

lemma reschedule_store:
  assumes "get_job (fst st) name = Inr j" and "compute_next X j (snd st) = Inr t"
  shows "get_job (fst (snd (reschedule X name st))) name = Inr ((set_next t j)\<lparr>j_updated_at := unix X (snd st)\<rparr>) \<and>
    only_job name (fst st) (fst (snd (reschedule X name st)))"
  using assms by (auto simp: reschedule_def stored_store update_job_def get_job_def only_job_def split: option.splits)

lemma parsed_not_empty: "parse_schedule spec = Inr x \<Longrightarrow> spec \<noteq> []"
  by (auto simp: parse_schedule_def)

lemma due_iff:
  assumes "get_job (fst st) name = Inr j"
  shows "j \<in> set (due X st) \<longleftrightarrow> is_due (unix X (snd st)) j"
proof -
  have "mget (st_jobs (fst st)) name = Some j" using assms by (simp add: get_job_def split: option.splits)
  then have "j \<in> set (list_jobs (fst st))" by (force simp: list_jobs_def dest: map_of_SomeD)
  then show ?thesis by (simp add: due_def)
qed

lemma next_after_now:
  assumes "compute_next X j w = Inr (Some t)"
  shows "unix X w \<le> t"
proof -
  from assms consider d sched where "parse_schedule (j_schedule j) = Inr (sched, d)" "0 < d" "t = (x_now X w + d) div 1000000000"
    | sc where "sched_next (x_zone X) sc (x_now X w) = Some t"
    by (auto simp: compute_next_def split: sum.splits if_splits option.splits)
  then show ?thesis
  proof cases
    case 1
    then show ?thesis by (simp add: unix_def zdiv_mono1)
  next
    case 2
    then obtain i where "t = first_minute (x_now X w) + 60 * int i"
      by (auto simp: sched_next_def next_loop_Some)
    with first_minute(2) [of "x_now X w"] have "x_now X w < t * 1000000000" by simp
    then have "x_now X w div 1000000000 \<le> t" by linarith
    then show ?thesis by (simp add: unix_def)
  qed
qed

text \<open>A rescheduled job is due exactly from its next run on, which is never in the past; a job whose schedule has no
  further run is stopped and is never due again.\<close>

theorem reschedule_then_due:
  assumes "get_job (fst st) name = Inr j" and "compute_next X j (snd st) = Inr next_run"
    and "1000000000 \<le> x_now X (snd st)"
  shows "\<exists>j'. get_job (fst (snd (reschedule X name st))) name = Inr j' \<and>
    (case next_run of
       Some t \<Rightarrow> j_status j' = ''registered'' \<and> unix X (snd st) \<le> t \<and>
         (\<forall>w. j' \<in> set (due X (fst (snd (reschedule X name st)), w)) \<longleftrightarrow> t \<le> unix X w)
     | None \<Rightarrow> j_status j' = ''stopped'' \<and> (\<forall>w. j' \<notin> set (due X (fst (snd (reschedule X name st)), w))))"
proof -
  let ?j = "(set_next next_run j)\<lparr>j_updated_at := unix X (snd st)\<rparr>"
  let ?s = "fst (snd (reschedule X name st))"
  have g: "get_job ?s name = Inr ?j" using reschedule_store [OF assms(1,2)] by simp
  have d: "?j \<in> set (due X (?s, w)) \<longleftrightarrow> is_due (unix X w) ?j" for w
    using due_iff [of "(?s, w)" name ?j X] g by simp
  show ?thesis
  proof (cases next_run)
    case None
    with g d show ?thesis by (intro exI [of _ ?j]) (simp add: set_next_def is_due_def)
  next
    case (Some t)
    with assms(2) have t: "unix X (snd st) \<le> t" using next_after_now by simp
    moreover have "0 < unix X (snd st)" using assms(3) by (simp add: unix_def pos_imp_zdiv_pos_iff)
    moreover have "j_schedule j \<noteq> []"
      using assms(2) Some by (auto simp: compute_next_def parse_schedule_def split: sum.splits if_splits)
    ultimately show ?thesis using g d Some by (intro exI [of _ ?j]) (simp add: set_next_def is_due_def)
  qed
qed

lemma submit_fresh:
  assumes "x_load_task X path (snd st) = Inr ts" and "first_run X schedule (snd st) = Inr first" and "name \<noteq> []"
    and "mget (st_jobs (fst st)) name = None"
  shows "\<exists>j st1. submit X name path schedule retries opt st = (Inr j, st1) \<and> get_job (fst st1) name = Inr j \<and>
    j_schedule j = schedule \<and> j_status j = fst first \<and> j_next_run j = snd first"
  using assms
  by (cases st) (simp add: submit_def bind_act_def load_of_def world_def add_and_return_def new_job_def
      do_add_job_def stored_store add_job_def get_job_def)

text \<open>An interval that is not positive is accepted and brings the scheduler down: such a job is submitted without an
  error, is due at once, and setting its next run dereferences a nil pointer.\<close>

theorem zero_interval_crashes:
  assumes "parse_schedule schedule = Inr (None, d)" and "d \<le> 0" and "1000000000 \<le> x_now X (snd st)"
    and "x_load_task X path (snd st) = Inr ts" and "name \<noteq> []" and "mget (st_jobs (fst st)) name = None"
  shows "\<exists>j st1. submit X name path schedule retries opt st = (Inr j, st1) \<and>
    (\<forall>w. unix X (snd st) \<le> unix X w \<longrightarrow>
       j \<in> set (due X (fst st1, w)) \<and> fst (reschedule X name (fst st1, w)) = Inl nil_deref)"
proof -
  have ne: "schedule \<noteq> []" using parsed_not_empty [OF assms(1)] .
  then have f: "first_run X schedule (snd st) = Inr (''registered'', unix X (snd st))"
    using assms(1,2) by (simp add: first_run_def)
  obtain j st1 where s: "submit X name path schedule retries opt st = (Inr j, st1)" and g: "get_job (fst st1) name = Inr j"
    and j: "j_schedule j = schedule" "j_status j = ''registered''" "j_next_run j = unix X (snd st)"
    using submit_fresh [where retries = retries and opt = opt, OF assms(4) f assms(5,6)] by auto
  have "0 < unix X (snd st)" using assms(3) by (simp add: unix_def pos_imp_zdiv_pos_iff)
  then have "j \<in> set (due X (fst st1, w))" if "unix X (snd st) \<le> unix X w" for w
    using due_iff [of "(fst st1, w)" name j X] g j ne that by (simp add: is_due_def)
  moreover have "fst (reschedule X name (fst st1, w)) = Inl nil_deref" for w
  proof -
    have "compute_next X j w = Inl nil_deref" using assms(1,2) j(1) by (simp add: compute_next_def)
    with g show ?thesis
      by (auto simp: reschedule_def stored_def update_job_def get_job_def err_res_def split: option.splits)
  qed
  ultimately show ?thesis using s by blast
qed

text \<open>A name in use: the job is returned as if it were stored.\<close>

lemma submit_taken:
  assumes "x_load_task X path (snd st) = Inr ts" and "first_run X schedule (snd st) = Inr first" and "name \<noteq> []"
    and "mget (st_jobs (fst st)) name \<noteq> None"
  shows "submit X name path schedule retries opt st = (Inr (new_job X name ts path schedule retries opt first), st)"
  using assms
  by (cases st) (auto simp: submit_def bind_act_def load_of_def world_def add_and_return_def new_job_def
      do_add_job_def stored_def add_job_def split: prod.splits)

text \<open>With a negative number of retries nothing is tried, and no error is reported.\<close>

lemma negative_retries:
  assumes "get_job (fst st) name = Inr j" and "j_retries j < 0" and "x_load_task X (j_task_path j) (snd st) = Inr ts"
  shows "fst (run_now X bs P name stream st) = Inr ()"
  using assms(2) unfolding run_now_unfold [OF assms(1)] assms(3)
  by (simp add: seq_act_def bind_act_def job_update_def err_res_def)

section \<open>Instances\<close>

definition job_ext :: "(unit, int) ext" where
  "job_ext = sample_ext\<lparr>x_load_task := (\<lambda>_ _. Inr local_task)\<rparr>"

definition no_catalog :: "int planner" where
  "no_catalog = \<lparr>pn_registry = initial_registry,
     pn_meta = \<lparr>m_clouds = (\<lambda>w. (Inr [], w)), m_regions = (\<lambda>_ w. (Inr [], w)),
       m_instances = (\<lambda>_ _ w. (Inr [], w)), m_prices = (\<lambda>_ _ _ w. ([], None, w))\<rparr>\<rparr>"

definition sample_job :: job where
  "sample_job = new_job job_ext ''j'' local_task ''t.yaml'' ''@every 1h'' 1 [] (''registered'', 1)"

definition job_store :: "int sys" where
  "job_store = (empty_store\<lparr>st_jobs := [(''j'', sample_job)]\<rparr>, 5000000000)"

definition first_run_result :: "unit res \<times> int sys" where
  "first_run_result = run_now job_ext (manager_backends 1 job_ext ''home'') no_catalog ''j'' False job_store"

lemma job_store_facts:
  "store_ok (fst job_store)" "get_job (fst job_store) ''j'' = Inr sample_job" "j_retries sample_job = 1"
  "x_load_task job_ext (j_task_path sample_job) (snd job_store) = Inr local_task"
  by (simp_all add: job_store_def store_ok_def keyed_def empty_store_def get_job_def sample_job_def new_job_def job_ext_def)

lemma first_run_result_ok: "first_run_result = (Inr (), snd first_run_result)"
proof -
  have "\<not> isl (fst first_run_result)" by code_simp
  then show ?thesis by (metis (full_types) old.unit.exhaust prod.collapse sum.collapse(2))
qed

theorem run_now_accounts_witness:
  "\<exists>j'. get_job (fst (snd first_run_result)) ''j'' = Inr j' \<and> j_run_count j' = 1 \<and> j_status j' = ''done''"
  using run_now_accounts [of job_ext 1 "''home''" no_catalog "''j''" False job_store "Inr ()" "snd first_run_result" sample_job local_task]
    job_store_facts first_run_result_ok
  by (auto simp: first_run_result_def sample_job_def new_job_def)

theorem job_succeeds_once_witness:
  "\<exists>e. fst (run_now job_ext (manager_backends 1 job_ext ''home'') no_catalog ''j'' False (snd first_run_result)) = Inl e"
proof -
  have "\<not> isl (get_job (fst (snd first_run_result)) ''j'') \<and>
      j_cluster (projr (get_job (fst (snd first_run_result)) ''j'')) = [] \<and>
      j_retries (projr (get_job (fst (snd first_run_result)) ''j'')) = 1" by code_simp
  then obtain j2 where "get_job (fst (snd first_run_result)) ''j'' = Inr j2" "j_cluster j2 = []" "j_retries j2 = 1"
    by (metis sum.collapse(2))
  with job_succeeds_once [of job_store "''j''" sample_job job_ext 1 "''home''" no_catalog False "snd first_run_result" "snd first_run_result" j2 False]
    job_store_facts first_run_result_ok show ?thesis
    by (simp add: first_run_result_def sample_job_def new_job_def)
qed

theorem reschedule_then_due_witness:
  "\<exists>j'. get_job (fst (snd (reschedule job_ext ''j'' job_store))) ''j'' = Inr j' \<and>
     j' \<in> set (due job_ext (fst (snd (reschedule job_ext ''j'' job_store)), 3605000000000))"
proof -
  have c: "compute_next job_ext sample_job 5000000000 = Inr (Some 3605)" by code_simp
  from reschedule_then_due [of job_store "''j''" sample_job job_ext "Some 3605"] c job_store_facts
  show ?thesis by (auto simp: job_store_def job_ext_def sample_ext_def unix_def)
qed

theorem zero_interval_crashes_witness:
  "\<exists>j st1. submit job_ext ''z'' ''t.yaml'' ''@every 0s'' 0 [] job_store = (Inr j, st1) \<and>
     j \<in> set (due job_ext (fst st1, 5000000000))"
proof -
  have "parse_schedule ''@every 0s'' = Inr (None, 0)" by code_simp
  from zero_interval_crashes [OF this, of job_ext job_store "''t.yaml''" local_task "''z''" 0 "[]"]
  show ?thesis by (fastforce simp: job_store_def job_ext_def sample_ext_def unix_def)
qed

end
