(* ===== verification/Serve.thy ===== *)
theory Serve
  imports Backends Optimizer
begin

text \<open>
  The service manager, \<open>internal/serve\<close>: a service is a number of replicas, each a cluster launched under a
  name of its own. When a launch fails the service is marked as failed and the replicas launched before
  stay. Taking a service down (\<open>handleServiceDown\<close> of the server) takes down its replicas and forgets it.
\<close>

section \<open>The command of a service\<close>

definition service_run_script :: "task \<Rightarrow> service_spec \<Rightarrow> string" where
  "service_run_script ts sv =
     ''nohup bash -c '' @ quote_str (if sv_run sv = [] then t_run ts else sv_run sv) @
     '' > /root/gpi-service.log 2>&1 & echo $! > /root/gpi-service.pid''"

section \<open>Deploying\<close>

definition replica_name :: "string \<Rightarrow> int \<Rightarrow> string" where
  "replica_name name i = ''serve-'' @ name @ ''-'' @ itoa i"

definition replica_task :: "string \<Rightarrow> int \<Rightarrow> task \<Rightarrow> service_spec \<Rightarrow> task" where
  "replica_task name i ts sv =
     ts\<lparr>t_name := replica_name name i, t_service := None, t_run := service_run_script ts sv\<rparr>"

definition new_service :: "('p, 'w) ext \<Rightarrow> string \<Rightarrow> int \<Rightarrow> int \<Rightarrow> task \<Rightarrow> service" where
  "new_service X name replicas port ts =
     \<lparr>sc_name = name, sc_status = ''creating'', sc_replicas = replicas, sc_port = port, sc_endpoints = [],
      sc_replica_clusters = [], sc_task_yaml = x_yaml X ts, sc_error = [], sc_created_at = 0, sc_updated_at = 0\<rparr>"

definition service_update :: "('p, 'w) ext \<Rightarrow> string \<Rightarrow> (service \<Rightarrow> service) \<Rightarrow> (unit, 'w sys) act" where
  "service_update X name f = quiet (do_update_service X name f)"

definition add_replica :: "string \<Rightarrow> string \<Rightarrow> service \<Rightarrow> service" where
  "add_replica cluster endpoint v =
     v\<lparr>sc_replica_clusters := sc_replica_clusters v @ [cluster], sc_endpoints := sc_endpoints v @ [endpoint]\<rparr>"

definition launch_replica_text :: "int \<Rightarrow> string" where
  "launch_replica_text i = ''launch replica '' @ itoa i @ '': ''"

definition failed_replica :: "('p, 'w) ext \<Rightarrow> string \<Rightarrow> int \<Rightarrow> string \<Rightarrow> (unit, 'w sys) act" where
  "failed_replica X name i m =
     seq_act (quiet (do_delete_cluster X (replica_name name i)))
     (seq_act (service_update X name (\<lambda>v. v\<lparr>sc_status := ''error'', sc_error := launch_replica_text i @ m\<rparr>))
     (raise (Err (launch_replica_text i @ m))))"

definition up_replica ::
  "('p, 'w) ext \<Rightarrow> 'w exec_backend smap \<Rightarrow> string \<Rightarrow> task \<Rightarrow> service_spec \<Rightarrow> launch list \<Rightarrow> int \<Rightarrow> (unit, 'w sys) act" where
  "up_replica X bs name ts sv launches i =
     (case launches of
        [] \<Rightarrow> raise (Panic ''index out of range'')
      | l # _ \<Rightarrow> (\<lambda>st.
          case manager_launch X bs (replica_name name i) (replica_task name i ts sv) (Some l) st of
            (Inl (Panic m), st1) \<Rightarrow> (Inl (Panic m), st1)
          | (Inl (Err m), st1) \<Rightarrow> failed_replica X name i m st1
          | (Inr c, st1) \<Rightarrow>
              service_update X name (add_replica (replica_name name i) (get_node_ip c @ '':'' @ itoa (sv_port sv))) st1))"

fun up_replicas :: "(int \<Rightarrow> (unit, 'w sys) act) \<Rightarrow> int list \<Rightarrow> (unit, 'w sys) act" where
  "up_replicas f [] = ret ()"
| "up_replicas f (i # is) = seq_act (f i) (up_replicas f is)"

definition service_up ::
  "('p, 'w) ext \<Rightarrow> 'w exec_backend smap \<Rightarrow> string \<Rightarrow> task \<Rightarrow> plan \<Rightarrow> (service, 'w sys) act" where
  "service_up X bs name ts p =
     (case t_service ts of
        None \<Rightarrow> raise (Err ''task has no service section'')
      | Some sv \<Rightarrow>
          (let replicas = (if sv_replicas sv \<le> 0 then 1 else sv_replicas sv)
           in if sv_port sv = 0 then raise (Err ''service port is required'')
              else seq_act (do_add_service X (new_service X name replicas (sv_port sv) ts))
                (seq_act (up_replicas (up_replica X bs name ts sv (pl_launches p)) [0..replicas - 1])
                (bind_act (look (unix X)) (\<lambda>now.
                 seq_act (service_update X name (\<lambda>v. v\<lparr>sc_status := ''running'', sc_updated_at := now\<rparr>))
                   (asks (\<lambda>s. get_service s name)))))))"

section \<open>Taking down\<close>

definition do_delete_service :: "('p, 'w) ext \<Rightarrow> string \<Rightarrow> (unit, 'w sys) act" where
  "do_delete_service X name = stored (delete_service (x_backend X) name)"

fun each_quiet :: "('a \<Rightarrow> (unit, 'w sys) act) \<Rightarrow> 'a list \<Rightarrow> (unit, 'w sys) act" where
  "each_quiet f [] = ret ()"
| "each_quiet f (x # xs) = seq_act (quiet (f x)) (each_quiet f xs)"

definition service_down :: "('p, 'w) ext \<Rightarrow> 'w exec_backend smap \<Rightarrow> string \<Rightarrow> (unit, 'w sys) act" where
  "service_down X bs name =
     bind_act (asks (\<lambda>s. get_service s name)) (\<lambda>v.
       seq_act (each_quiet (manager_down bs) (sc_replica_clusters v)) (quiet (do_delete_service X name)))"

end
