(* ===== verification/Serve_Props.thy ===== *)
theory Serve_Props
  imports Serve Job_Props
begin

text \<open>
  The properties of the service manager: what a deployment leaves in the store, on success and when a
  replica fails, and that the command of a service is not run by the deployment.
\<close>

section \<open>The replicas and the store\<close>

lemma itoa_inj: "0 \<le> i \<Longrightarrow> 0 \<le> k \<Longrightarrow> itoa i = itoa k \<Longrightarrow> i = k"
  unfolding itoa_def by (metis digits_val_nat_str int_nat_eq not_less)

lemma replica_name_inj: "0 \<le> i \<Longrightarrow> 0 \<le> k \<Longrightarrow> replica_name name i = replica_name name k \<longleftrightarrow> i = k"
  using itoa_inj by (auto simp: replica_name_def)

lemma service_update_store:
  "st_services (fst (snd (service_update X name f st))) =
     (case mget (st_services (fst st)) name of
        None \<Rightarrow> st_services (fst st)
      | Some v \<Rightarrow> mput name ((f v)\<lparr>sc_updated_at := unix X (snd st)\<rparr>) (st_services (fst st)))"
  "st_clusters (fst (snd (service_update X name f st))) = st_clusters (fst st)"
  by (simp_all add: service_update_def do_update_service_def stored_store update_service_def split: option.split)

lemma service_update_Inr: "fst (service_update X name f st) = Inr ()"
  by (simp add: service_update_def)

lemma keeps_service_update [keeps_intros]:
  "(\<And>v. sc_name (f v) = sc_name v) \<Longrightarrow> keeps (\<lambda>(s, w). store_ok s) (service_update X name f)"
  unfolding service_update_def by (intro keeps_intros)

lemma delete_cluster_store:
  "st_services (fst (snd (quiet (do_delete_cluster X k) st))) = st_services (fst st)"
  "mget (st_clusters (fst (snd (quiet (do_delete_cluster X k) st)))) k' =
     (if k' = k then None else mget (st_clusters (fst st)) k')"
  by (auto simp: do_delete_cluster_def stored_store delete_cluster_def)

lemma manager_launch_services:
  "st_services (fst (snd (manager_launch X (manager_backends n X dir) cl ts l st))) = st_services (fst st)"
  using keeps_stD [OF keeps_manager_launch [OF aside.cluster_invariant_axioms], where st = st] by blast

text \<open>The service with its replicas up to \<open>k\<close>, all of them recorded.\<close>

definition deployed :: "string \<Rightarrow> int \<Rightarrow> store \<Rightarrow> service \<Rightarrow> bool" where
  "deployed name k s v \<longleftrightarrow>
     mget (st_services s) name = Some v \<and> sc_replica_clusters v = map (replica_name name) [0..k - 1] \<and>
     length (sc_endpoints v) = nat k \<and> (\<forall>i. 0 \<le> i \<longrightarrow> i < k \<longrightarrow> mget (st_clusters s) (replica_name name i) \<noteq> None)"

lemma up_replica_step:
  fixes X :: "('p, 'w) ext"
  assumes "store_ok (fst st)" and "deployed name k (fst st) v" and "0 \<le> k" and "launches \<noteq> []"
    and "up_replica X (manager_backends n X dir) name ts sv launches k st = (r, st')"
  shows "store_ok (fst st') \<and>
    ((\<exists>m. r = Inl (Panic m)) \<or>
     (\<exists>v'. r = Inr () \<and> deployed name (k + 1) (fst st') v' \<and> sc_replicas v' = sc_replicas v) \<or>
     (\<exists>m v'. r = Inl (Err m) \<and> deployed name k (fst st') v' \<and> sc_status v' = ''error'' \<and> sc_error v' = m \<and>
        mget (st_clusters (fst st')) (replica_name name k) = None))"
proof -
  let ?bs = "manager_backends n X dir" and ?rn = "replica_name name k"
  obtain l ls where ll: "launches = l # ls" using assms(4) by (cases launches) auto
  obtain q st1 where m: "manager_launch X ?bs ?rn (replica_task name k ts sv) (Some l) st = (q, st1)"
    by (rule prod.exhaust)
  have ok1: "store_ok (fst st1)"
    using keeps_store_okD [OF keeps_manager_launch [OF ok.cluster_invariant_axioms] assms(1)] m by (metis snd_conv)
  have sv1: "st_services (fst st1) = st_services (fst st)"
    using manager_launch_services [of X n dir ?rn "replica_task name k ts sv" "Some l" st] m by simp
  have oth: "same_others ?rn (fst st) (fst st1)"
    using manager_launch_others [OF assms(1), of ?rn X n dir "replica_task name k ts sv" "Some l"] m by simp
  have old: "mget (st_clusters (fst st1)) (replica_name name i) \<noteq> None" if "0 \<le> i" "i < k" for i
  proof -
    from that assms(3) have "replica_name name i \<noteq> ?rn" by (simp add: replica_name_inj)
    with oth assms(2) that show ?thesis by (simp add: same_others_def deployed_def)
  qed
  have v: "mget (st_services (fst st1)) name = Some v" using assms(2) sv1 by (simp add: deployed_def)
  show ?thesis
  proof (cases q)
    case (Inr c)
    have "store_ok (fst st)" by (rule assms(1))
    from manager_launch_found [OF this m [unfolded Inr]] have c: "mget (st_clusters (fst st1)) ?rn \<noteq> None"
      by (auto simp: get_cluster_def split: option.splits)
    let ?f = "add_replica ?rn (get_node_ip c @ '':'' @ itoa (sv_port sv))"
    from assms(5) ll m Inr have r: "r = Inr ()" and st': "st' = snd (service_update X name ?f st1)"
      using service_update_Inr [of X name ?f st1] by (auto simp: up_replica_def)
    have "store_ok (fst st')"
      unfolding st' by (intro keeps_store_okD [OF _ ok1] keeps_intros) (simp add: add_replica_def)
    moreover have "deployed name (k + 1) (fst st') ((?f v)\<lparr>sc_updated_at := unix X (snd st1)\<rparr>)"
    proof -
      have up: "[0..k] = [0..k - 1] @ [k]" using assms(3) by (simp add: upto_rec2)
      from assms(2) have d: "sc_replica_clusters v = map (replica_name name) [0..k - 1]" "length (sc_endpoints v) = nat k"
        by (simp_all add: deployed_def)
      show ?thesis unfolding deployed_def
      proof (intro conjI allI impI)
        show "mget (st_services (fst st')) name = Some ((?f v)\<lparr>sc_updated_at := unix X (snd st1)\<rparr>)"
          by (simp add: st' service_update_store v)
        show "sc_replica_clusters ((?f v)\<lparr>sc_updated_at := unix X (snd st1)\<rparr>) = map (replica_name name) [0..k + 1 - 1]"
          by (simp add: add_replica_def d up)
        show "length (sc_endpoints ((?f v)\<lparr>sc_updated_at := unix X (snd st1)\<rparr>)) = nat (k + 1)"
          using assms(3) by (simp add: add_replica_def d nat_add_distrib)
        fix i
        assume "0 \<le> i" "i < k + 1"
        with old c show "mget (st_clusters (fst st')) (replica_name name i) \<noteq> None"
          by (cases "i = k") (simp_all add: st' service_update_store del: not_None_eq)
      qed
    qed
    moreover have "sc_replicas ((?f v)\<lparr>sc_updated_at := unix X (snd st1)\<rparr>) = sc_replicas v" by (simp add: add_replica_def)
    ultimately show ?thesis using r by blast
  next
    case (Inl e)
    show ?thesis
    proof (cases e)
      case (Panic p)
      with assms(5) ll m Inl have "r = Inl (Panic p)" "st' = st1" by (auto simp: up_replica_def)
      with ok1 show ?thesis by simp
    next
      case (Err msg)
      let ?d = "snd (quiet (do_delete_cluster X ?rn) st1)"
      let ?g = "\<lambda>v. v\<lparr>sc_status := ''error'', sc_error := launch_replica_text k @ msg\<rparr>"
      from assms(5) ll m Inl Err have r: "r = Inl (Err (launch_replica_text k @ msg))"
        and st': "st' = snd (service_update X name ?g ?d)"
        using service_update_Inr [of X name ?g ?d]
        by (auto simp: up_replica_def failed_replica_def seq_act_def bind_act_def split: prod.splits)
      have okd: "store_ok (fst ?d)" by (intro keeps_store_okD [OF _ ok1] keeps_intros)
      have "store_ok (fst st')" unfolding st' by (intro keeps_store_okD [OF _ okd] keeps_intros) simp
      moreover have "deployed name k (fst st') ((?g v)\<lparr>sc_updated_at := unix X (snd ?d)\<rparr>)"
      proof -
        from assms(2) have d: "sc_replica_clusters v = map (replica_name name) [0..k - 1]" "length (sc_endpoints v) = nat k"
          by (simp_all add: deployed_def)
        have "mget (st_clusters (fst st')) (replica_name name i) \<noteq> None" if "0 \<le> i" "i < k" for i
          using old [OF that] that assms(3)
          by (simp add: st' service_update_store delete_cluster_store replica_name_inj del: ret_simps not_None_eq)
        then show ?thesis
          unfolding deployed_def by (simp add: d st' service_update_store delete_cluster_store v del: ret_simps not_None_eq)
      qed
      moreover have "mget (st_clusters (fst st')) ?rn = None"
        by (simp add: st' service_update_store delete_cluster_store del: ret_simps)
      moreover have "sc_status ((?g v)\<lparr>sc_updated_at := unix X (snd ?d)\<rparr>) = ''error''"
        "sc_error ((?g v)\<lparr>sc_updated_at := unix X (snd ?d)\<rparr>) = launch_replica_text k @ msg" by simp_all
      ultimately show ?thesis using r by blast
    qed
  qed
qed

lemma up_replicas_steps:
  fixes X :: "('p, 'w) ext"
  assumes "store_ok (fst st)" and "deployed name k (fst st) v" and "0 \<le> k" and "k \<le> n" and "launches \<noteq> []"
    and "up_replicas (up_replica X (manager_backends m X dir) name ts sv launches) [k..n - 1] st = (r, st')"
  shows "store_ok (fst st') \<and>
    ((\<exists>m. r = Inl (Panic m)) \<or>
     (\<exists>v'. r = Inr () \<and> deployed name n (fst st') v' \<and> sc_replicas v' = sc_replicas v) \<or>
     (\<exists>m v' i. r = Inl (Err m) \<and> k \<le> i \<and> i < n \<and> deployed name i (fst st') v' \<and> sc_status v' = ''error'' \<and>
        sc_error v' = m \<and> mget (st_clusters (fst st')) (replica_name name i) = None))"
  using assms
proof (induction "nat (n - k)" arbitrary: k v st)
  case 0
  then show ?case by auto
next
  case (Suc j)
  then have kn: "k < n" by simp
  then have up: "[k..n - 1] = k # [k + 1..n - 1]" by (simp add: upto_rec1)
  obtain q st1 where s: "up_replica X (manager_backends m X dir) name ts sv launches k st = (q, st1)"
    by (rule prod.exhaust)
  note step = up_replica_step [OF Suc.prems(1,2,3,5) s]
  then have ok1: "store_ok (fst st1)" by blast
  show ?case
  proof (cases q)
    case (Inl e)
    with Suc.prems(6) up s have "r = Inl e" "st' = st1" by (simp_all add: seq_act_def bind_act_def)
    with step Inl kn show ?thesis by blast
  next
    case (Inr u)
    with step obtain v' where d: "deployed name (k + 1) (fst st1) v'" "sc_replicas v' = sc_replicas v" by auto
    from Suc.prems(6) up s Inr
    have rest: "up_replicas (up_replica X (manager_backends m X dir) name ts sv launches) [k + 1..n - 1] st1 = (r, st')"
      by (simp add: seq_act_def bind_act_def)
    from Suc.hyps(2) have "j = nat (n - (k + 1))" by simp
    have "0 \<le> k + 1" "k + 1 \<le> n" using Suc.prems(3) kn by simp_all
    note ih = Suc.hyps(1) [OF \<open>j = nat (n - (k + 1))\<close> ok1 d(1) this Suc.prems(5) rest]
    have more: "k \<le> i" if "k + 1 \<le> i" for i using that by simp
    from ih d(2) more show ?thesis by (metis (no_types, lifting))
  qed
qed

lemma add_service_fresh:
  assumes "mget (st_services (fst st)) (sc_name v) = None" and "do_add_service X v st = (r, st')"
  shows "\<exists>v'. mget (st_services (fst st')) (sc_name v) = Some v' \<and> sc_replicas v' = sc_replicas v \<and>
    sc_replica_clusters v' = sc_replica_clusters v \<and> sc_endpoints v' = sc_endpoints v"
  using assms
  by (cases st) (auto simp: do_add_service_def stored_apply add_service_def persist_def err_res_def split: prod.splits option.splits)

text \<open>C33. What a deployment leaves behind: when it succeeds, the service is running and lists its replicas, as many as asked
  for, under the names of the service's scheme, each of them recorded; when replica \<open>i\<close> fails, the service
  is stored as failed with the error, the replicas before it stay listed and recorded, and the record of
  replica \<open>i\<close> is gone, although only the launch knew its machines.\<close>

theorem service_up_outcome:
  fixes X :: "('p, 'w) ext"
  assumes "store_ok (fst st)" and "mget (st_services (fst st)) name = None"
    and "t_service ts = Some sv" and "sv_port sv \<noteq> 0" and "pl_launches p \<noteq> []"
    and "fst (do_add_service X (new_service X name (if sv_replicas sv \<le> 0 then 1 else sv_replicas sv) (sv_port sv) ts) st) = Inr ()"
    and "service_up X (manager_backends n X dir) name ts p st = (r, st')"
  shows "store_ok (fst st') \<and>
    (case r of
       Inr v \<Rightarrow> get_service (fst st') name = Inr v \<and> sc_status v = ''running'' \<and>
         sc_replicas v = (if sv_replicas sv \<le> 0 then 1 else sv_replicas sv) \<and> deployed name (sc_replicas v) (fst st') v
     | Inl (Err m) \<Rightarrow> (\<exists>v i. 0 \<le> i \<and> deployed name i (fst st') v \<and> sc_status v = ''error'' \<and> sc_error v = m \<and>
         mget (st_clusters (fst st')) (replica_name name i) = None)
     | Inl (Panic m) \<Rightarrow> True)"
proof -
  let ?n = "if sv_replicas sv \<le> 0 then 1 else sv_replicas sv"
  let ?ups = "up_replicas (up_replica X (manager_backends n X dir) name ts sv (pl_launches p)) [0..?n - 1]"
  obtain st1 where a: "do_add_service X (new_service X name ?n (sv_port sv) ts) st = (Inr (), st1)"
    using assms(6) by (metis prod.collapse)
  have ok1: "store_ok (fst st1)" using keeps_store_okD [OF keeps_do_add_service assms(1)] a by (metis snd_conv)
  have "sc_name (new_service X name ?n (sv_port sv) ts) = name" by (simp add: new_service_def)
  with add_service_fresh [OF _ a] assms(2) obtain v0 where v0: "mget (st_services (fst st1)) name = Some v0"
    and "sc_replicas v0 = ?n" "sc_replica_clusters v0 = []" "sc_endpoints v0 = []"
    by (auto simp: new_service_def)
  then have d0: "deployed name 0 (fst st1) v0" by (simp add: deployed_def)
  obtain q st2 where u: "?ups st1 = (q, st2)" by (rule prod.exhaust)
  have n: "0 \<le> ?n" by simp
  note steps = up_replicas_steps [OF ok1 d0 order_refl n assms(5) u]
  have unfolded: "service_up X (manager_backends n X dir) name ts p st =
      (case q of Inl e \<Rightarrow> (Inl e, st2)
       | Inr _ \<Rightarrow> (let st3 = snd (service_update X name (\<lambda>v. v\<lparr>sc_status := ''running'', sc_updated_at := unix X (snd st2)\<rparr>) st2)
                  in (get_service (fst st3) name, st3)))"
    using assms(3,4) a u
    by (cases st2) (auto simp: service_up_def seq_act_def bind_act_def look_def asks_def service_update_def Let_def split: sum.split prod.split)
  show ?thesis
  proof (cases q)
    case (Inl e)
    with assms(7) unfolded have "r = Inl e" "st' = st2" by simp_all
    with steps Inl have ok2: "store_ok (fst st')" and c: "(\<exists>m. e = Panic m) \<or> (\<exists>m v i. e = Err m \<and> 0 \<le> i \<and> deployed name i (fst st') v \<and>
        sc_status v = ''error'' \<and> sc_error v = m \<and> mget (st_clusters (fst st')) (replica_name name i) = None)"
      by blast+
    from c show ?thesis
    proof (elim disjE exE conjE)
      fix m v i
      assume "e = Err m" and "0 \<le> i" "deployed name i (fst st') v" "sc_status v = ''error''" "sc_error v = m"
        "mget (st_clusters (fst st')) (replica_name name i) = None"
      with ok2 \<open>r = Inl e\<close> show ?thesis by auto
    qed (use ok2 \<open>r = Inl e\<close> in simp)
  next
    case (Inr x)
    let ?f = "\<lambda>v. v\<lparr>sc_status := ''running'', sc_updated_at := unix X (snd st2)\<rparr>"
    from steps Inr obtain v where d: "deployed name ?n (fst st2) v" "sc_replicas v = sc_replicas v0" and ok2: "store_ok (fst st2)"
      by auto
    let ?v = "(?f v)\<lparr>sc_updated_at := unix X (snd st2)\<rparr>"
    from assms(7) unfolded Inr have st': "st' = snd (service_update X name ?f st2)" and r: "r = get_service (fst st') name"
      by (auto simp: Let_def)
    have "store_ok (fst st')" unfolding st' by (intro keeps_store_okD [OF _ ok2] keeps_intros) simp
    moreover have "mget (st_services (fst st')) name = Some ?v"
      using d(1) by (simp add: st' service_update_store deployed_def)
    moreover from this d \<open>sc_replicas v0 = ?n\<close> have "deployed name (sc_replicas ?v) (fst st') ?v"
      by (simp add: deployed_def st' service_update_store)
    ultimately show ?thesis using r d \<open>sc_replicas v0 = ?n\<close> by (simp add: get_service_def)
  qed
qed

section \<open>The command of a service\<close>

lemma local_launch_runs_nothing:
  fixes X :: "('p, 'w) ext"
  assumes "t_backend ts = ''local''"
  shows "manager_launch (X\<lparr>x_exec := ex\<rparr>) (manager_backends n (X\<lparr>x_exec := ex\<rparr>) dir) name ts l =
    manager_launch X (manager_backends n X dir) name ts l"
  using assms
  by (simp add: manager_launch_def manager_backends_def local_backend_def local_launch_def record_new_def record_launch_def
      do_add_cluster_def do_event_def do_record_yaml_def do_record_history_def unix_def)

lemma service_update_runs_nothing: "service_update (X\<lparr>x_exec := ex\<rparr>) name f = service_update X name f"
  by (simp add: service_update_def do_update_service_def unix_def)

text \<open>Deploying a service does not run it: on the local backend a deployment comes out the same whatever the programs
  of the machine do, so the command of the service is prepared and recorded but never executed.\<close>

theorem service_command_not_run:
  fixes X :: "('p, 'w) ext"
  assumes "t_backend ts = ''local''"
  shows "service_up (X\<lparr>x_exec := ex\<rparr>) (manager_backends n (X\<lparr>x_exec := ex\<rparr>) dir) name ts p =
    service_up X (manager_backends n X dir) name ts p"
proof -
  have launch: "manager_launch (X\<lparr>x_exec := ex\<rparr>) (manager_backends n (X\<lparr>x_exec := ex\<rparr>) dir) cl (replica_task name i ts sv) l =
      manager_launch X (manager_backends n X dir) cl (replica_task name i ts sv) l" for cl i sv l
    by (rule local_launch_runs_nothing) (simp add: replica_task_def assms)
  have fail: "failed_replica (X\<lparr>x_exec := ex\<rparr>) name i m = failed_replica X name i m" for i m
    by (simp add: failed_replica_def service_update_runs_nothing do_delete_cluster_def)
  have one: "up_replica (X\<lparr>x_exec := ex\<rparr>) (manager_backends n (X\<lparr>x_exec := ex\<rparr>) dir) name ts sv (pl_launches p) =
    up_replica X (manager_backends n X dir) name ts sv (pl_launches p)" for sv
    by (rule HOL.ext) (unfold up_replica_def launch fail service_update_runs_nothing, rule refl)
  have "do_add_service (X\<lparr>x_exec := ex\<rparr>) (new_service (X\<lparr>x_exec := ex\<rparr>) name r port ts) =
      do_add_service X (new_service X name r port ts)" and "unix (X\<lparr>x_exec := ex\<rparr>) = unix X" for r port
    by (simp_all add: do_add_service_def new_service_def unix_def fun_eq_iff)
  then show ?thesis
    unfolding service_up_def one service_update_runs_nothing Let_def by (simp only: )
qed

section \<open>Taking down\<close>

lemma each_quiet_Inr: "fst (each_quiet f xs st) = Inr ()"
  by (induction xs arbitrary: st) (simp_all add: seq_act_def bind_act_def)

text \<open>Taking a service down never reports an error and forgets the service, whatever became of its replicas.\<close>

lemma service_down_forgets:
  assumes "get_service (fst st) name = Inr v"
  shows "\<exists>st'. service_down X bs name st = (Inr (), st') \<and> mget (st_services (fst st')) name = None"
proof -
  obtain st1 where e: "each_quiet (manager_down bs) (sc_replica_clusters v) st = (Inr (), st1)"
    using each_quiet_Inr [of "manager_down bs" "sc_replica_clusters v" st] by (metis prod.collapse)
  have "service_down X bs name st = quiet (do_delete_service X name) st1"
    using assms e by (cases st) (simp add: service_down_def bind_act_def seq_act_def asks_def)
  then show ?thesis
    by (auto simp: do_delete_service_def stored_store delete_service_def)
qed

section \<open>Instances\<close>

definition web_task :: task where
  "web_task = local_task\<lparr>t_service := Some \<lparr>sv_replicas = 2, sv_port = 80, sv_health_check = [], sv_working_dir = [],
     sv_run = ''serve'', sv_ready_server = [], sv_ports = [], sv_target_sessions = 0\<rparr>\<rparr>"

definition web_plan :: plan where
  "web_plan = \<lparr>pl_launches = [bare_launch web_task], pl_cost = Fin 0, pl_time = Fin 0\<rparr>"

definition web_up :: "service res \<times> int sys" where
  "web_up = service_up sample_ext (manager_backends 1 sample_ext ''home'') ''web'' web_task web_plan (empty_store, 0)"

theorem service_up_outcome_witness:
  "\<exists>v. get_service (fst (snd web_up)) ''web'' = Inr v \<and> sc_replica_clusters v = [''serve-web-0'', ''serve-web-1'']"
proof -
  have "\<not> isl (fst web_up)" by code_simp
  then obtain v st' where v: "web_up = (Inr v, st')" by (metis prod.collapse sum.collapse(2))
  have names: "map (replica_name ''web'') [0..1] = [''serve-web-0'', ''serve-web-1'']" by code_simp
  from service_up_outcome [of "(empty_store, 0)" "''web''" web_task "the (t_service web_task)" web_plan sample_ext 1 "''home''" "Inr v" st']
    v empty_store_ok
  show ?thesis
    by (simp add: web_up_def web_task_def web_plan_def empty_store_def do_add_service_def stored_apply add_service_def persist_def
        sample_ext_def err_res_def deployed_def names)
qed

theorem service_command_not_run_witness:
  "fst (service_up (sample_ext\<lparr>x_exec := (\<lambda>_ _ w. (([], Not_run (Err ''no'')), w))\<rparr>)
     (manager_backends 1 (sample_ext\<lparr>x_exec := (\<lambda>_ _ w. (([], Not_run (Err ''no'')), w))\<rparr>) ''home'') ''web'' web_task web_plan (empty_store, 0)) =
   fst web_up"
  using service_command_not_run [where X = sample_ext and ts = web_task]
  by (simp add: web_up_def web_task_def local_task_def)

end
