(* ===== verification/Server_Http.thy ===== *)
theory Server_Http
  imports Jobs State_Json
begin

text \<open>
  The HTTP layer of the server, \<open>internal/server\<close>: the case style of JSON keys (\<open>keystyle.go\<close>), the wrapping of
  responses (\<open>response.go\<close>), request identifiers (\<open>requestid.go\<close>) and the middlewares (\<open>middleware.go\<close>, \<open>auth.go\<close>,
  \<open>cors.go\<close>, \<open>security.go\<close>). Keys are taken to be ASCII. The JSON text of a body is left to \<open>encoding/json\<close>:
  a body is the tree it stands for, with finite numbers (others leave the body empty).
\<close>

section \<open>Key styles\<close>

datatype key_style = Camel | Snake | Pascal | Unstyled

definition key_style_of_env :: "string smap \<Rightarrow> key_style" where
  "key_style_of_env env =
     (let v = getenv env ''GPI_API_RESPONSE_KEY_STYLE''
      in if v = ''snake'' then Snake else if v = ''pascal'' then Pascal else Camel)"

text \<open>\<open>splitWords\<close>: the loop with the rune before, the word so far and the rest.\<close>

definition word_start :: "char option \<Rightarrow> string \<Rightarrow> bool" where
  "word_start prev rest =
     (case prev of
        None \<Rightarrow> False
      | Some p \<Rightarrow> is_lower p \<or> is_upper p \<and> (case rest of [] \<Rightarrow> False | n # _ \<Rightarrow> is_lower n))"

definition flush_word :: "string \<Rightarrow> string list" where
  "flush_word cur = (if cur \<noteq> [] then [cur] else [])"

fun words_loop :: "char option \<Rightarrow> string \<Rightarrow> string \<Rightarrow> string list" where
  "words_loop prev cur [] = flush_word cur"
| "words_loop prev cur (r # rest) =
     (if r = CHR ''_'' \<or> r = CHR ''-'' then flush_word cur @ words_loop (Some r) [] rest
      else if is_upper r \<and> word_start prev rest then flush_word cur @ words_loop (Some r) [r] rest
      else words_loop (Some r) (cur @ [r]) rest)"

definition split_words :: "string \<Rightarrow> string list" where
  "split_words s = (case words_loop None [] s of [] \<Rightarrow> [s] | ws \<Rightarrow> ws)"

fun upper_first :: "string \<Rightarrow> string" where
  "upper_first [] = []"
| "upper_first (c # s) = upper_char c # s"

definition to_case :: "key_style \<Rightarrow> string \<Rightarrow> string" where
  "to_case style key =
     (let ws = map to_lower (split_words key)
      in case style of
           Snake \<Rightarrow> join_with ''_'' ws
         | Pascal \<Rightarrow> concat (map upper_first ws)
         | _ \<Rightarrow> (case ws of [] \<Rightarrow> key | w # ws' \<Rightarrow> to_lower w @ concat (map upper_first ws')))"

definition schema_ref :: string where
  "schema_ref = ''#/components/schemas/''"

definition convert_ref :: "key_style \<Rightarrow> string \<Rightarrow> string" where
  "convert_ref style s =
     (if has_prefix s schema_ref \<and> length schema_ref < length s
      then schema_ref @ to_case style (drop (length schema_ref) s) else s)"

text \<open>Keys that become equal overwrite each other; here the last one stays.\<close>

definition put_first :: "string \<Rightarrow> json \<Rightarrow> (string \<times> json) list \<Rightarrow> (string \<times> json) list" where
  "put_first k v rest = (if mget rest k = None then (k, v) # rest else rest)"

fun convert_keys :: "key_style \<Rightarrow> json \<Rightarrow> json" and
    convert_fields :: "key_style \<Rightarrow> (string \<times> json) list \<Rightarrow> (string \<times> json) list" and
    convert_items :: "key_style \<Rightarrow> json list \<Rightarrow> json list" where
  "convert_keys style (JObj kvs) = JObj (convert_fields style kvs)"
| "convert_keys style (JArr xs) = JArr (convert_items style xs)"
| "convert_keys style (JStr s) = JStr (convert_ref style s)"
| "convert_keys style v = v"
| "convert_fields style [] = []"
| "convert_fields style ((k, v) # kvs) =
     put_first (to_case style k) (convert_keys style v) (convert_fields style kvs)"
| "convert_items style [] = []"
| "convert_items style (x # xs) = convert_keys style x # convert_items style xs"

definition apply_key_style :: "json \<Rightarrow> key_style \<Rightarrow> json" where
  "apply_key_style v style = (if style = Unstyled then v else convert_keys style v)"

section \<open>Bodies\<close>

text \<open>What a handler passes on: a Go map, or any other value.\<close>

datatype payload = Mapped "(string \<times> json) list" | Plain json

fun payload_json :: "payload \<Rightarrow> json" where
  "payload_json (Mapped kvs) = JObj kvs"
| "payload_json (Plain v) = v"

record encoder =
  ec_success :: "int \<Rightarrow> payload \<Rightarrow> payload"
  ec_error :: "int \<Rightarrow> error \<Rightarrow> payload"

definition raw_encoder :: encoder where
  "raw_encoder = \<lparr>ec_success = (\<lambda>_ data. data), ec_error = (\<lambda>_ e. Mapped [(''error'', JStr (err_text e))])\<rparr>"

record envelope_config =
  ev_code :: string
  ev_message :: string
  ev_data :: string

definition put_pairs :: "(string \<times> json) list \<Rightarrow> (string \<times> json) list" where
  "put_pairs kvs = foldl (\<lambda>m (k, v). mput k v m) [] kvs"

definition new_envelope_encoder :: "envelope_config \<Rightarrow> encoder" where
  "new_envelope_encoder cfg =
     (let code = (if ev_code cfg = [] then ''code'' else ev_code cfg);
          msg = (if ev_message cfg = [] then ''message'' else ev_message cfg);
          data_field = (if ev_data cfg = [] then ''data'' else ev_data cfg)
      in \<lparr>ec_success = (\<lambda>status data.
            Mapped (put_pairs [(code, jint status), (msg, JStr ''ok''), (data_field, payload_json data)])),
          ec_error = (\<lambda>status e.
            Mapped (put_pairs [(code, jint status), (msg, JStr (err_text e)), (data_field, JNull)]))\<rparr>)"

definition new_response_encoder :: "string \<Rightarrow> encoder" where
  "new_response_encoder format =
     (if format = ''envelope'' then new_envelope_encoder \<lparr>ev_code = [], ev_message = [], ev_data = []\<rparr> else raw_encoder)"

definition response_format_of_env :: "string smap \<Rightarrow> encoder" where
  "response_format_of_env env = new_response_encoder (getenv env ''GPI_RESPONSE_FORMAT'')"

definition inject_request_id :: "payload \<Rightarrow> string \<Rightarrow> string \<Rightarrow> payload" where
  "inject_request_id body ident fld =
     (if ident = [] then body
      else case body of
             Mapped kvs \<Rightarrow> Mapped (mput fld (JStr ident) kvs)
           | Plain v \<Rightarrow> Mapped (put_pairs [(fld, JStr ident), (''data'', v)]))"

definition token_char :: "char \<Rightarrow> bool" where
  "token_char c \<longleftrightarrow> 32 < (of_char c :: nat) \<and> (of_char c :: nat) < 127 \<and> c \<notin> set ''()<>@,;:/[]?={}'' \<and> c \<noteq> CHR 0x5C \<and> c \<noteq> CHR 0x22"

definition validate_header_key :: "string \<Rightarrow> error option" where
  "validate_header_key key =
     (if key = [] then Some (Err ''request id header key must not be empty'')
      else if list_all token_char key then None
      else Some (Err (''invalid request id header key '' @ quote_str key)))"

section \<open>Requests and middlewares\<close>

text \<open>
  Header names are compared without regard to case, as \<open>net/http\<close> canonicalises them. A handler gets
  the writer it is passed: the headers set so far and the request identifier it carries (\<open>reqIDWriter\<close>). It
  always answers with a response, unless it panics.
\<close>

record hreq =
  hq_method :: string
  hq_path :: string
  hq_headers :: "string smap"

record writer =
  wr_headers :: "string smap"
  wr_id :: string

text \<open>What a handler leaves running: a task on a cluster, a run of a job under the context of the request or not.\<close>

datatype background = Run_task string task | Run_job string bool

record response =
  rs_status :: int
  rs_headers :: "string smap"
  rs_body :: "json option"
  rs_background :: "background list"

type_synonym 'w handler = "writer \<Rightarrow> hreq \<Rightarrow> (response, 'w sys) act"

type_synonym 'w middleware = "'w handler \<Rightarrow> 'w handler"

definition canonical_headers :: "string smap \<Rightarrow> string smap" where
  "canonical_headers m = map (\<lambda>(k, v). (to_lower k, v)) m"

definition header_value :: "hreq \<Rightarrow> string \<Rightarrow> string" where
  "header_value r key = (case mget (canonical_headers (hq_headers r)) (to_lower key) of Some v \<Rightarrow> v | None \<Rightarrow> [])"

definition set_header :: "string \<Rightarrow> string \<Rightarrow> writer \<Rightarrow> writer" where
  "set_header key v w = w\<lparr>wr_headers := mput (to_lower key) v (wr_headers w)\<rparr>"

definition answer :: "writer \<Rightarrow> int \<Rightarrow> json option \<Rightarrow> (response, 'w sys) act" where
  "answer w status body = ret \<lparr>rs_status = status, rs_headers = wr_headers w, rs_body = body, rs_background = []\<rparr>"

definition security_headers :: "'w middleware" where
  "security_headers next_h w r =
     next_h (set_header ''Referrer-Policy'' ''no-referrer'' (set_header ''X-Frame-Options'' ''DENY''
       (set_header ''X-Content-Type-Options'' ''nosniff'' w))) r"

definition cors :: "string list \<Rightarrow> 'w middleware" where
  "cors origins next_h w r =
     (let allowed_origins = (if length origins = 0 then [''*''] else origins);
          allowed = (if ''*'' \<in> set allowed_origins then ''*'' else header_value r ''Origin'');
          w' = set_header ''Access-Control-Expose-Headers'' ''X-Request-Id''
            (set_header ''Access-Control-Allow-Headers'' ''Content-Type, Authorization, Origin, X-Request-Id''
            (set_header ''Access-Control-Allow-Methods'' ''GET, POST, PUT, DELETE, OPTIONS''
            (set_header ''Access-Control-Allow-Origin'' allowed w)))
      in if hq_method r = ''OPTIONS'' then answer w' 204 None else next_h w' r)"

definition auth_error :: "writer \<Rightarrow> string \<Rightarrow> (response, 'w sys) act" where
  "auth_error w msg =
     answer (set_header ''Content-Type'' ''application/json'' w) 401 (Some (JObj [(''error'', JStr msg)]))"

definition public_request :: "hreq \<Rightarrow> bool" where
  "public_request r \<longleftrightarrow> hq_path r \<in> {''/healthz'', ''/swagger.json'', ''/docs'', ''/redoc''} \<or>
     hq_method r = ''POST'' \<and> hq_path r = ''/api/v1/tokens''"

definition bearer_secret :: "hreq \<Rightarrow> string" where
  "bearer_secret r =
     (let auth = header_value r ''Authorization''
      in if has_prefix auth ''Bearer '' then trim_space (trim_prefix auth ''Bearer '') else [])"

definition do_mark_token :: "('p, 'w) ext \<Rightarrow> string \<Rightarrow> (unit, 'w sys) act" where
  "do_mark_token X ident = stored (\<lambda>s w. mark_token_used (x_backend X) (unix X w) ident s w)"

text \<open>A missing prefix and an empty secret give the same answer.\<close>

definition auth_middleware :: "('p, 'w) ext \<Rightarrow> (string \<Rightarrow> string) \<Rightarrow> bool \<Rightarrow> 'w middleware" where
  "auth_middleware X hash enabled next_h w r =
     (if \<not> enabled \<or> public_request r then next_h w r
      else if bearer_secret r = [] then auth_error w ''missing bearer token''
      else (\<lambda>st.
        case get_token_by_hash (fst st) (hash (bearer_secret r)) (unix X (snd st)) of
          Inl e \<Rightarrow> auth_error w (err_text e) st
        | Inr t \<Rightarrow> seq_act (quiet (do_mark_token X (tk_id t))) (next_h w r) st))"

definition request_id :: "('w \<Rightarrow> string \<times> 'w) \<Rightarrow> string \<Rightarrow> 'w middleware" where
  "request_id gen key next_h w r = (\<lambda>(s, wd).
     let given = header_value r key;
         (ident, wd') = (if given = [] then gen wd else (given, wd))
     in next_h ((set_header key ident w)\<lparr>wr_id := ident\<rparr>) r (s, wd'))"

text \<open>The logging middleware serves and then logs: it changes nothing here.\<close>

definition logging :: "'w middleware" where
  "logging next_h w r = next_h w r"

definition chain :: "'w handler \<Rightarrow> 'w middleware list \<Rightarrow> 'w handler" where
  "chain h mws = foldr (\<lambda>m h. m h) mws h"

section \<open>The server\<close>

text \<open>
  \<open>hs_hash\<close> is the hash of a token's secret, \<open>hs_random\<close> the generator of request identifiers,
  \<open>hs_new_token\<close> that of a token's secret and identifier, \<open>hs_mktemp\<close> makes a temporary directory.
\<close>

record ('p, 'w) server =
  hs_ext :: "('p, 'w) ext"
  hs_backends :: "'w exec_backend smap"
  hs_planner :: "'w planner"
  hs_hash :: "string \<Rightarrow> string"
  hs_random :: "'w \<Rightarrow> string \<times> 'w"
  hs_new_token :: "'w \<Rightarrow> (string \<times> string) \<times> 'w"
  hs_mktemp :: "'w \<Rightarrow> string res \<times> 'w"
  hs_encoder :: encoder
  hs_id_header :: string
  hs_id_field :: string
  hs_key_style :: key_style
  hs_auth :: bool
  hs_cors :: bool
  hs_docs :: bool
  hs_prefix :: string
  hs_extra :: "'w middleware list"

definition default_api_prefix :: string where
  "default_api_prefix = ''/api/v1/gpi''"

definition new_server ::
  "('p, 'w) ext \<Rightarrow> 'w exec_backend smap \<Rightarrow> 'w planner \<Rightarrow> (string \<Rightarrow> string) \<Rightarrow> ('w \<Rightarrow> string \<times> 'w)
   \<Rightarrow> ('w \<Rightarrow> (string \<times> string) \<times> 'w) \<Rightarrow> ('w \<Rightarrow> string res \<times> 'w) \<Rightarrow> ('p, 'w) server" where
  "new_server X bs P hash random new_token mktemp =
     \<lparr>hs_ext = X, hs_backends = bs, hs_planner = P, hs_hash = hash, hs_random = random, hs_new_token = new_token, hs_mktemp = mktemp,
      hs_encoder = response_format_of_env (x_env X), hs_id_header = env_or (x_env X) ''GPI_REQUEST_ID_HEADER'' ''x-request-id'',
      hs_id_field = ''request_id'', hs_key_style = key_style_of_env (x_env X), hs_auth = False, hs_cors = False,
      hs_docs = False, hs_prefix = env_or (x_env X) ''GPI_API_PREFIX'' default_api_prefix, hs_extra = []\<rparr>"

definition trim_right_slashes :: "string \<Rightarrow> string" where
  "trim_right_slashes s = rev (dropWhile (\<lambda>c. c = CHR ''/'') (rev s))"

definition set_api_prefix :: "string \<Rightarrow> ('p, 'w) server \<Rightarrow> ('p, 'w) server" where
  "set_api_prefix prefix S =
     (if prefix = [] then S
      else S\<lparr>hs_prefix := trim_right_slashes (if has_prefix prefix ''/'' then prefix else ''/'' @ prefix)\<rparr>)"

definition add_middleware :: "'w middleware option \<Rightarrow> ('p, 'w) server \<Rightarrow> ('p, 'w) server" where
  "add_middleware m S = (case m of None \<Rightarrow> S | Some f \<Rightarrow> S\<lparr>hs_extra := hs_extra S @ [f]\<rparr>)"

definition set_response_encoder :: "encoder option \<Rightarrow> ('p, 'w) server \<Rightarrow> ('p, 'w) server" where
  "set_response_encoder enc S = (case enc of None \<Rightarrow> S | Some e \<Rightarrow> S\<lparr>hs_encoder := e\<rparr>)"

definition set_request_id_header :: "string \<Rightarrow> ('p, 'w) server \<Rightarrow> ('p, 'w) server" where
  "set_request_id_header key S = (if validate_header_key key = None then S\<lparr>hs_id_header := key\<rparr> else S)"

definition set_key_style :: "key_style \<Rightarrow> ('p, 'w) server \<Rightarrow> ('p, 'w) server" where
  "set_key_style style S = (if style \<in> {Camel, Snake, Pascal} then S\<lparr>hs_key_style := style\<rparr> else S)"

definition middlewares :: "('p, 'w) server \<Rightarrow> 'w middleware list" where
  "middlewares S =
     hs_extra S @ [security_headers] @ (if hs_cors S then [cors []] else []) @
     [auth_middleware (hs_ext S) (hs_hash S) (hs_auth S), request_id (hs_random S) (hs_id_header S), logging]"

definition render :: "('p, 'w) server \<Rightarrow> writer \<Rightarrow> int \<Rightarrow> payload \<Rightarrow> (response, 'w sys) act" where
  "render S w status body =
     answer (set_header ''Content-Type'' ''application/json'' w) status
       (Some (apply_key_style (payload_json (inject_request_id body (wr_id w) (hs_id_field S))) (hs_key_style S)))"

definition write_json :: "('p, 'w) server \<Rightarrow> writer \<Rightarrow> int \<Rightarrow> payload \<Rightarrow> (response, 'w sys) act" where
  "write_json S w status data = render S w status (ec_success (hs_encoder S) status data)"

definition write_error :: "('p, 'w) server \<Rightarrow> writer \<Rightarrow> int \<Rightarrow> error \<Rightarrow> (response, 'w sys) act" where
  "write_error S w status e = render S w status (ec_error (hs_encoder S) status e)"

text \<open>An action whose error is answered with a status; a panic goes up.\<close>

definition or_status ::
  "('p, 'w) server \<Rightarrow> writer \<Rightarrow> int \<Rightarrow> ('a, 'w sys) act \<Rightarrow> ('a \<Rightarrow> (response, 'w sys) act) \<Rightarrow> (response, 'w sys) act" where
  "or_status S w status m k st =
     (case m st of
        (Inl (Panic p), st1) \<Rightarrow> (Inl (Panic p), st1)
      | (Inl (Err e), st1) \<Rightarrow> write_error S w status (Err e) st1
      | (Inr x, st1) \<Rightarrow> k x st1)"

end
