(* ===== verification/Server_Api.thy ===== *)
theory Server_Api
  imports Server_Http Serve
begin

text \<open>
  The handlers of the REST interface (\<open>server.go\<close>, \<open>admin.go\<close>) and the routes they are served under. The decoding
  of the bodies is left to \<open>encoding/json\<close> and to the YAML library: the functions of \<open>decoders\<close>. What a
  handler starts in a goroutine is listed with its response. The paths of requests are taken as cleaned
  and unescaped by \<open>net/http\<close>, the prefix of the API as a clean path.
\<close>

section \<open>Request bodies\<close>

record launch_request =
  lq_name :: string
  lq_task :: string
  lq_cluster :: string
  lq_cloud :: string
  lq_region :: string
  lq_num_nodes :: int
  lq_use_spot :: bool
  lq_dry_run :: bool
  lq_run_task :: bool
  lq_optimizer :: string

record task_launch_request =
  tq_task :: "task option"
  tq_cloud :: string
  tq_region :: string
  tq_num_nodes :: int
  tq_use_spot :: bool
  tq_dry_run :: bool
  tq_run_task :: bool
  tq_optimizer :: string

record service_up_request =
  uq_name :: string
  uq_task :: string
  uq_cloud :: string
  uq_region :: string
  uq_optimizer :: string

record job_submit_request =
  jq_name :: string
  jq_task_path :: string
  jq_task :: string
  jq_schedule :: string
  jq_retries :: int
  jq_run_now :: bool
  jq_optimizer :: string

record token_request =
  kq_name :: string
  kq_creator :: string
  kq_expires_in :: int

text \<open>\<open>dc_expires\<close> is what is left in the request of a rotation, whose decoding error is dropped.\<close>

record decoders =
  dc_launch :: "hreq \<Rightarrow> launch_request res"
  dc_task_launch :: "hreq \<Rightarrow> task_launch_request res"
  dc_service_up :: "hreq \<Rightarrow> service_up_request res"
  dc_job :: "hreq \<Rightarrow> job_submit_request res"
  dc_token :: "hreq \<Rightarrow> token_request res"
  dc_expires :: "hreq \<Rightarrow> int"
  dc_value :: "hreq \<Rightarrow> string res"
  dc_yaml :: "string \<Rightarrow> task res"

section \<open>Clusters\<close>

definition of_bad :: "('p, 'w) server \<Rightarrow> writer \<Rightarrow> 'a res \<Rightarrow> ('a \<Rightarrow> (response, 'w sys) act) \<Rightarrow> (response, 'w sys) act" where
  "of_bad S w q k = or_status S w 400 (of_res q) k"

definition handle_list_clusters :: "('p, 'w) server \<Rightarrow> writer \<Rightarrow> (response, 'w sys) act" where
  "handle_list_clusters S w st =
     write_json S w 200 (Plain (JArr (map enc_cluster (list_clusters (fst st))))) st"

definition handle_get_cluster :: "('p, 'w) server \<Rightarrow> string \<Rightarrow> writer \<Rightarrow> (response, 'w sys) act" where
  "handle_get_cluster S name w =
     or_status S w 404 (cluster_at name) (\<lambda>c. write_json S w 200 (Plain (enc_cluster c)))"

definition handle_delete_cluster :: "('p, 'w) server \<Rightarrow> string \<Rightarrow> writer \<Rightarrow> (response, 'w sys) act" where
  "handle_delete_cluster S name w =
     or_status S w 500 (manager_down (hs_backends S) name) (\<lambda>_. answer w 204 None)"

definition enc_plan :: "plan \<Rightarrow> json" where
  "enc_plan p = JObj [(''Launches'', JArr (map enc_launch (pl_launches p))), (''TotalCostPerHour'', jf64 (pl_cost p)),
     (''TotalEstimatedTime'', jf64 (pl_time p))]"

definition with_background :: "background list \<Rightarrow> (response, 'w sys) act \<Rightarrow> (response, 'w sys) act" where
  "with_background bg m = bind_act m (\<lambda>r. ret (r\<lparr>rs_background := rs_background r @ bg\<rparr>))"

record launch_args =
  la_cloud :: string
  la_region :: string
  la_use_spot :: bool
  la_dry_run :: bool
  la_run_task :: bool
  la_optimizer :: string

definition provision_and_answer ::
  "('p, 'w) server \<Rightarrow> writer \<Rightarrow> string \<Rightarrow> task \<Rightarrow> launch_args \<Rightarrow> launch \<Rightarrow> (response, 'w sys) act" where
  "provision_and_answer S w name ts a l =
     or_status S w 500 (manager_launch (hs_ext S) (hs_backends S) name ts (Some l)) (\<lambda>c.
       with_background (if la_run_task a then [Run_task (cl_name c) ts] else [])
         (write_json S w 200 (Plain (enc_cluster c))))"

text \<open>\<open>launchTask\<close>: the dry run is looked at only on the cloud backend.\<close>

definition launch_task :: "('p, 'w) server \<Rightarrow> writer \<Rightarrow> string \<Rightarrow> task \<Rightarrow> launch_args \<Rightarrow> (response, 'w sys) act" where
  "launch_task S w name ts a =
     (if t_backend ts \<noteq> ''cloud'' then provision_and_answer S w name ts a (bare_launch ts)
      else or_status S w 400
        (plan_request (hs_planner S) (la_optimizer a)
           \<lparr>rq_resources = t_resources ts,
            rq_options = Some \<lparr>o_num_nodes = t_num_nodes ts, o_use_spot = la_use_spot a, o_cloud = la_cloud a,
              o_region = la_region a, o_zone = [], o_max_candidates = 0\<rparr>\<rparr>) (\<lambda>p.
        if la_dry_run a then write_json S w 200 (Plain (enc_plan p))
        else bind_act (of_res (first_launch p)) (provision_and_answer S w name ts a)))"

definition override_nodes :: "int \<Rightarrow> task \<Rightarrow> task" where
  "override_nodes n ts = (if 0 < n then ts\<lparr>t_num_nodes := n\<rparr> else ts)"

definition parse_request_task :: "decoders \<Rightarrow> string \<Rightarrow> task res" where
  "parse_request_task D yaml =
     (case parse_task (dc_yaml D) yaml of Inl e \<Rightarrow> Inl (wrap_err ''invalid task: '' e) | Inr ts \<Rightarrow> Inr ts)"

definition handle_launch :: "('p, 'w) server \<Rightarrow> decoders \<Rightarrow> hreq \<Rightarrow> writer \<Rightarrow> (response, 'w sys) act" where
  "handle_launch S D r w =
     of_bad S w (dc_launch D r) (\<lambda>q.
     of_bad S w (parse_request_task D (lq_task q)) (\<lambda>ts.
       (let name = (if lq_cluster q \<noteq> [] then lq_cluster q else if lq_name q \<noteq> [] then lq_name q else t_name ts)
        in launch_task S w name (override_nodes (lq_num_nodes q) ts)
             \<lparr>la_cloud = lq_cloud q, la_region = lq_region q, la_use_spot = lq_use_spot q, la_dry_run = lq_dry_run q,
              la_run_task = lq_run_task q, la_optimizer = lq_optimizer q\<rparr>)))"

definition handle_launch_task :: "('p, 'w) server \<Rightarrow> decoders \<Rightarrow> string \<Rightarrow> hreq \<Rightarrow> writer \<Rightarrow> (response, 'w sys) act" where
  "handle_launch_task S D path_name r w =
     of_bad S w (dc_task_launch D r) (\<lambda>q.
       case tq_task q of
         None \<Rightarrow> write_error S w 400 (Err ''task is required'')
       | Some ts \<Rightarrow>
           (let name = (if path_name = [] then t_name ts else path_name)
            in case set_defaults (override_nodes (tq_num_nodes q) ts) of
                 (Some e, _) \<Rightarrow> write_error S w 400 e
               | (None, ts') \<Rightarrow>
                   launch_task S w name (if name \<noteq> [] then ts'\<lparr>t_name := name\<rparr> else ts')
                     \<lparr>la_cloud = tq_cloud q, la_region = tq_region q, la_use_spot = tq_use_spot q,
                      la_dry_run = tq_dry_run q, la_run_task = tq_run_task q, la_optimizer = tq_optimizer q\<rparr>))"

section \<open>Services\<close>

definition handle_list_services :: "('p, 'w) server \<Rightarrow> writer \<Rightarrow> (response, 'w sys) act" where
  "handle_list_services S w st =
     write_json S w 200 (Plain (JArr (map enc_service (list_services (fst st))))) st"

definition handle_service_up :: "('p, 'w) server \<Rightarrow> decoders \<Rightarrow> hreq \<Rightarrow> writer \<Rightarrow> (response, 'w sys) act" where
  "handle_service_up S D r w =
     of_bad S w (dc_service_up D r) (\<lambda>q.
     of_bad S w (parse_request_task D (uq_task q)) (\<lambda>ts.
     or_status S w 400
       (plan_request (hs_planner S) (uq_optimizer q)
          \<lparr>rq_resources = t_resources ts,
           rq_options = Some \<lparr>o_num_nodes = 0, o_use_spot = False, o_cloud = uq_cloud q, o_region = uq_region q,
             o_zone = [], o_max_candidates = 0\<rparr>\<rparr>) (\<lambda>p.
     or_status S w 500
       (service_up (hs_ext S) (hs_backends S) (if uq_name q = [] then t_name ts else uq_name q) ts p) (\<lambda>v.
     write_json S w 200 (Plain (enc_service v))))))"

definition handle_service_down :: "('p, 'w) server \<Rightarrow> string \<Rightarrow> writer \<Rightarrow> (response, 'w sys) act" where
  "handle_service_down S name w =
     or_status S w 404 (service_down (hs_ext S) (hs_backends S) name) (\<lambda>_. answer w 204 None)"

section \<open>Jobs\<close>

definition handle_list_jobs :: "('p, 'w) server \<Rightarrow> writer \<Rightarrow> (response, 'w sys) act" where
  "handle_list_jobs S w st = write_json S w 200 (Plain (JArr (map enc_job (list_jobs (fst st))))) st"

definition write_temp_task :: "('p, 'w) server \<Rightarrow> string \<Rightarrow> (string, 'w sys) act" where
  "write_temp_task S yaml =
     bind_act (world (hs_mktemp S)) (\<lambda>dir.
       seq_act (world_err (x_write (hs_ext S) (dir @ ''/task.yaml'') yaml)) (ret (dir @ ''/task.yaml'')))"

definition handle_submit_job :: "('p, 'w) server \<Rightarrow> decoders \<Rightarrow> hreq \<Rightarrow> writer \<Rightarrow> (response, 'w sys) act" where
  "handle_submit_job S D r w =
     of_bad S w (dc_job D r) (\<lambda>q.
     or_status S w 500
       (if jq_task_path q = [] \<and> jq_task q \<noteq> [] then write_temp_task S (jq_task q) else ret (jq_task_path q)) (\<lambda>path.
     if path = [] then write_error S w 400 (Err ''task_path or task is required'')
     else or_status S w 400
       (submit (hs_ext S) (jq_name q) path (jq_schedule q) (jq_retries q) (jq_optimizer q)) (\<lambda>j.
       with_background (if jq_run_now q then [Run_job (j_name j) True] else [])
         (write_json S w 200 (Plain (enc_job j))))))"

definition handle_run_job :: "('p, 'w) server \<Rightarrow> string \<Rightarrow> writer \<Rightarrow> (response, 'w sys) act" where
  "handle_run_job S name w =
     or_status S w 404 (asks (\<lambda>s. get_job s name)) (\<lambda>j.
       if j_status j = ''running'' then write_error S w 409 (Err (''job '' @ j_name j @ '' is already running''))
       else with_background [Run_job (j_name j) False] (write_json S w 202 (Mapped [(''status'', JStr ''queued'')])))"

section \<open>Tokens and configuration\<close>

definition expiry :: "('p, 'w) ext \<Rightarrow> int \<Rightarrow> 'w \<Rightarrow> int" where
  "expiry X expires_in wd = (if 0 < expires_in then unix X wd + expires_in else 0)"

definition token_payload :: "token \<Rightarrow> string \<Rightarrow> int \<Rightarrow> payload" where
  "token_payload t secret expires =
     Mapped [(''token_id'', JStr (tk_id t)), (''token_name'', JStr (tk_name t)), (''token'', JStr secret),
             (''expires_at'', jint expires)]"

definition do_create_token :: "('p, 'w) server \<Rightarrow> string \<Rightarrow> string \<Rightarrow> int \<Rightarrow> (token \<times> string, 'w sys) act" where
  "do_create_token S name creator expires = (\<lambda>(s, wd).
     case hs_new_token S wd of
       ((secret, ident), wd1) \<Rightarrow>
         (case create_token (x_backend (hs_ext S)) (hs_hash S) (unix (hs_ext S) wd1) secret ident name creator expires s wd1 of
            (r, s', wd2) \<Rightarrow> (r, (s', wd2))))"

definition do_rotate_token :: "('p, 'w) server \<Rightarrow> string \<Rightarrow> int \<Rightarrow> (token \<times> string, 'w sys) act" where
  "do_rotate_token S ident expires = (\<lambda>(s, wd).
     case hs_new_token S wd of
       ((secret, _), wd1) \<Rightarrow>
         (case rotate_token (x_backend (hs_ext S)) (hs_hash S) (unix (hs_ext S) wd1) secret ident expires s wd1 of
            (r, s', wd2) \<Rightarrow> (r, (s', wd2))))"

definition do_delete_token :: "('p, 'w) server \<Rightarrow> string \<Rightarrow> (bool, 'w sys) act" where
  "do_delete_token S ident = (\<lambda>(s, wd).
     case delete_token (x_backend (hs_ext S)) ident s wd of
       ((found, Some e), s', wd') \<Rightarrow> (Inl e, (s', wd')) | ((found, None), s', wd') \<Rightarrow> (Inr found, (s', wd')))"

definition handle_create_token :: "('p, 'w) server \<Rightarrow> decoders \<Rightarrow> hreq \<Rightarrow> writer \<Rightarrow> (response, 'w sys) act" where
  "handle_create_token S D r w =
     of_bad S w (dc_token D r) (\<lambda>q.
     bind_act (look (expiry (hs_ext S) (kq_expires_in q))) (\<lambda>expires.
     or_status S w 500 (do_create_token S (if kq_name q = [] then ''default'' else kq_name q) (kq_creator q) expires)
       (\<lambda>(t, secret). write_json S w 201 (token_payload t secret expires))))"

definition handle_list_tokens :: "('p, 'w) server \<Rightarrow> writer \<Rightarrow> (response, 'w sys) act" where
  "handle_list_tokens S w st = write_json S w 200 (Plain (JArr (map enc_token (list_tokens (fst st))))) st"

definition handle_delete_token :: "('p, 'w) server \<Rightarrow> string \<Rightarrow> writer \<Rightarrow> (response, 'w sys) act" where
  "handle_delete_token S ident w =
     or_status S w 500 (do_delete_token S ident) (\<lambda>found.
       if \<not> found then write_error S w 404 (Err ''token not found'') else answer w 204 None)"

definition handle_rotate_token :: "('p, 'w) server \<Rightarrow> decoders \<Rightarrow> string \<Rightarrow> hreq \<Rightarrow> writer \<Rightarrow> (response, 'w sys) act" where
  "handle_rotate_token S D ident r w =
     bind_act (look (expiry (hs_ext S) (dc_expires D r))) (\<lambda>expires.
     or_status S w 404 (do_rotate_token S ident expires)
       (\<lambda>(t, secret). write_json S w 200 (token_payload t secret expires)))"

definition handle_get_config :: "('p, 'w) server \<Rightarrow> string \<Rightarrow> writer \<Rightarrow> (response, 'w sys) act" where
  "handle_get_config S key w st =
     write_json S w 200 (Mapped [(''key'', JStr key), (''value'', JStr (get_config (fst st) key))]) st"

definition handle_set_config :: "('p, 'w) server \<Rightarrow> decoders \<Rightarrow> string \<Rightarrow> hreq \<Rightarrow> writer \<Rightarrow> (response, 'w sys) act" where
  "handle_set_config S D key r w =
     of_bad S w (dc_value D r) (\<lambda>v.
     or_status S w 500 (stored (\<lambda>s wd. set_config (x_backend (hs_ext S)) (unix (hs_ext S) wd) key v s wd)) (\<lambda>_.
     write_json S w 200 (Mapped [(''key'', JStr key), (''value'', JStr v)])))"

definition handle_list_config :: "('p, 'w) server \<Rightarrow> writer \<Rightarrow> (response, 'w sys) act" where
  "handle_list_config S w st = write_json S w 200 (Plain (JArr (map enc_entry (list_config (fst st))))) st"

section \<open>Routes\<close>

definition api_root :: "('p, 'w) server \<Rightarrow> string" where
  "api_root S =
     (let api = (if hs_prefix S = [] then default_api_prefix else hs_prefix S)
      in if has_prefix api ''/'' then api else ''/'' @ api)"

text \<open>The segments of the path below the root of the API, when it is below it.\<close>

definition api_segments :: "('p, 'w) server \<Rightarrow> string \<Rightarrow> string list option" where
  "api_segments S path =
     (if has_prefix path (api_root S @ ''/'') then Some (split_on CHR ''/'' (drop (length (api_root S) + 1) path)) else None)"

definition is_get :: "hreq \<Rightarrow> bool" where
  "is_get r \<longleftrightarrow> hq_method r = ''GET'' \<or> hq_method r = ''HEAD''"

definition collection_route :: "('p, 'w) server \<Rightarrow> decoders \<Rightarrow> hreq \<Rightarrow> string \<Rightarrow> (writer \<Rightarrow> (response, 'w sys) act) option" where
  "collection_route S D r a =
     (if a = ''clusters'' \<and> is_get r then Some (handle_list_clusters S)
      else if a = ''services'' \<and> is_get r then Some (handle_list_services S)
      else if a = ''jobs'' \<and> is_get r then Some (handle_list_jobs S)
      else if a = ''jobs'' \<and> hq_method r = ''POST'' then Some (handle_submit_job S D r)
      else if a = ''config'' \<and> is_get r then Some (handle_list_config S)
      else if a = ''tokens'' \<and> hq_method r = ''POST'' then Some (handle_create_token S D r)
      else if a = ''tokens'' \<and> is_get r then Some (handle_list_tokens S)
      else None)"

definition item_route :: "('p, 'w) server \<Rightarrow> decoders \<Rightarrow> hreq \<Rightarrow> string \<Rightarrow> string \<Rightarrow> (writer \<Rightarrow> (response, 'w sys) act) option" where
  "item_route S D r a x =
     (if x = [] then None
      else if a = ''clusters'' \<and> is_get r then Some (handle_get_cluster S x)
      else if a = ''clusters'' \<and> hq_method r = ''DELETE'' then Some (handle_delete_cluster S x)
      else if a = ''services'' \<and> x = ''up'' \<and> hq_method r = ''POST'' then Some (handle_service_up S D r)
      else if a = ''services'' \<and> hq_method r = ''DELETE'' then Some (handle_service_down S x)
      else if a = ''config'' \<and> is_get r then Some (handle_get_config S x)
      else if a = ''config'' \<and> hq_method r = ''PUT'' then Some (handle_set_config S D x r)
      else if a = ''tokens'' \<and> hq_method r = ''DELETE'' then Some (handle_delete_token S x)
      else None)"

definition action_route ::
  "('p, 'w) server \<Rightarrow> decoders \<Rightarrow> hreq \<Rightarrow> string \<Rightarrow> string \<Rightarrow> string \<Rightarrow> (writer \<Rightarrow> (response, 'w sys) act) option" where
  "action_route S D r a x b =
     (if x = [] \<or> hq_method r \<noteq> ''POST'' then None
      else if a = ''clusters'' \<and> b = ''launch'' then Some (handle_launch S D r)
      else if a = ''tasks'' \<and> b = ''launch'' then Some (handle_launch_task S D x r)
      else if a = ''jobs'' \<and> b = ''run'' then Some (handle_run_job S x)
      else if a = ''tokens'' \<and> b = ''rotate'' then Some (handle_rotate_token S D x r)
      else None)"

definition api_route :: "('p, 'w) server \<Rightarrow> decoders \<Rightarrow> hreq \<Rightarrow> (writer \<Rightarrow> (response, 'w sys) act) option" where
  "api_route S D r =
     (case api_segments S (hq_path r) of
        Some [a] \<Rightarrow> collection_route S D r a
      | Some [a, x] \<Rightarrow> item_route S D r a x
      | Some [a, x, b] \<Rightarrow> action_route S D r a x b
      | _ \<Rightarrow> None)"

text \<open>\<open>page\<close> answers the paths of the documents; a request without a route gets 404 (or 405, which is not told apart).\<close>

definition mux :: "('p, 'w) server \<Rightarrow> decoders \<Rightarrow> (string \<Rightarrow> json) \<Rightarrow> 'w handler" where
  "mux S D page w r =
     (if hq_path r = ''/healthz'' \<and> is_get r then write_json S w 200 (Mapped [(''status'', JStr ''ok'')])
      else if hs_docs S \<and> hq_path r \<in> {''/swagger.json'', ''/docs'', ''/redoc''} \<and> is_get r
        then answer w 200 (Some (page (hq_path r)))
      else case api_route S D r of None \<Rightarrow> answer w 404 None | Some h \<Rightarrow> h w)"

definition server_handler :: "('p, 'w) server \<Rightarrow> decoders \<Rightarrow> (string \<Rightarrow> json) \<Rightarrow> 'w handler" where
  "server_handler S D page = chain (mux S D page) (middlewares S)"

text \<open>What a goroutine left running does.\<close>

fun run_background :: "('p, 'w) server \<Rightarrow> background \<Rightarrow> (unit, 'w sys) act" where
  "run_background S (Run_task name ts) = unless_panic (manager_run_task (hs_backends S) name ts False)"
| "run_background S (Run_job name ctx) = unless_panic (run_now (hs_ext S) (hs_backends S) (hs_planner S) name False)"

end
