(* ===== verification/Server_Props.thy ===== *)
theory Server_Props
  imports Server_Api Job_Props
begin

text \<open>
  Properties of the HTTP layer: the case styles of JSON keys translate into each other; the bearer token guards
  every request that is not public; and, with the default prefix, no first token can be made through the server.
\<close>

section \<open>Key styles\<close>

text \<open>A word of a key: at least two lower case letters.\<close>

definition plain_word :: "string \<Rightarrow> bool" where
  "plain_word w \<longleftrightarrow> 2 \<le> length w \<and> list_all is_lower w"

lemma lower_upper [simp]:
  assumes "is_lower c"
  shows "lower_char (upper_char c) = c" "is_upper (upper_char c)" "\<not> is_upper c" "lower_char c = c"
    "upper_char c \<noteq> CHR ''_''" "upper_char c \<noteq> CHR ''-''" "c \<noteq> CHR ''_''" "c \<noteq> CHR ''-''"
proof -
  have b: "97 \<le> (of_char c :: nat)" "of_char c \<le> (122 :: nat)" using assms by (auto simp: is_lower_iff)
  then have u: "(of_char (upper_char c) :: nat) = of_char c - 32"
    using assms by (simp add: upper_char_def)
  show up: "is_upper (upper_char c)" unfolding is_upper_iff u using b by linarith
  show nup: "\<not> is_upper c" using b by (simp add: is_upper_iff)
  show "lower_char (upper_char c) = c"
    using up b by (simp add: lower_char_def u)
  show "lower_char c = c" using nup by (simp add: lower_char_def)
  show "upper_char c \<noteq> CHR ''_''" "upper_char c \<noteq> CHR ''-''" using up by (auto simp: is_upper_def less_eq_char_def)
  show "c \<noteq> CHR ''_''" "c \<noteq> CHR ''-''" using assms by (auto simp: is_lower_def less_eq_char_def)
qed

lemma words_loop_lower:
  "list_all is_lower w \<Longrightarrow> w \<noteq> [] \<Longrightarrow> words_loop prev cur (w @ rest) = words_loop (Some (List.last w)) (cur @ w) rest"
proof (induction w arbitrary: prev cur)
  case (Cons c w)
  then show ?case using Cons.IH [of "Some c" "cur @ [c]"] by (cases w) auto
qed simp

lemma plain_word_cases:
  assumes "plain_word w"
  obtains c d v where "w = c # d # v" "is_lower c" "is_lower d" "list_all is_lower v"
  using assms by (auto simp: plain_word_def numeral_2_eq_2 Suc_le_length_iff)

lemma last_lower: "plain_word w \<Longrightarrow> is_lower (List.last w)"
  by (auto simp: plain_word_def list_all_iff intro!: last_in_set elim: allE)

text \<open>Reading capitalised words: each capital letter after a lower case letter starts the next word.\<close>

lemma words_loop_capital:
  assumes "list_all plain_word ws" and "is_lower p"
  shows "words_loop (Some p) cur (concat (map upper_first ws)) = flush_word cur @ map upper_first ws"
  using assms
proof (induction ws arbitrary: p cur)
  case (Cons w ws)
  then obtain c d v where w: "w = c # d # v" and l: "is_lower c" "is_lower d" "list_all is_lower v"
    by (auto elim: plain_word_cases)
  have "words_loop (Some p) cur (concat (map upper_first (w # ws)))
      = flush_word cur @ words_loop (Some (upper_char c)) [upper_char c] ((d # v) @ concat (map upper_first ws))"
    using l Cons.prems by (simp add: w word_start_def)
  also have "\<dots> = flush_word cur @ words_loop (Some (List.last (d # v))) (upper_char c # d # v) (concat (map upper_first ws))"
    using l by (subst words_loop_lower) simp_all
  also have "\<dots> = flush_word cur @ flush_word (upper_char c # d # v) @ map upper_first ws"
    using Cons l last_lower [of w] by (subst Cons.IH) (auto simp: w)
  finally show ?case by (simp add: w flush_word_def)
qed (simp add: flush_word_def)

lemma words_loop_snake:
  "list_all plain_word ws \<Longrightarrow> ws \<noteq> [] \<Longrightarrow> words_loop prev [] (join_with ''_'' ws) = ws"
proof (induction "''_''" ws arbitrary: prev rule: join_with.induct)
  case (2 w)
  then show ?case
    using words_loop_lower [of w prev "[]" "[]"] by (cases "w = []") (auto simp: plain_word_def flush_word_def)
next
  case (3 w v ws)
  then show ?case
    using words_loop_lower [of w prev "[]"] by (cases "w = []") (auto simp: plain_word_def flush_word_def)
qed simp

lemma to_lower_plain [simp]:
  "list_all is_lower w \<Longrightarrow> to_lower w = w" "list_all is_lower w \<Longrightarrow> to_lower (upper_first w) = w"
proof -
  show low: "list_all is_lower w \<Longrightarrow> to_lower w = w" for w by (induction w) (auto simp: to_lower_def)
  show "list_all is_lower w \<Longrightarrow> to_lower (upper_first w) = w"
    using low [of "tl w"] by (cases w) (auto simp: to_lower_def)
qed

text \<open>The words of a key, whatever style it is written in.\<close>

definition key_words :: "string list \<Rightarrow> bool" where
  "key_words ws \<longleftrightarrow> ws \<noteq> [] \<and> list_all plain_word ws"

fun styled :: "key_style \<Rightarrow> string list \<Rightarrow> string" where
  "styled Snake ws = join_with ''_'' ws"
| "styled Pascal ws = concat (map upper_first ws)"
| "styled _ ws = hd ws @ concat (map upper_first (tl ws))"

lemma split_styled:
  assumes "key_words ws"
  shows "map to_lower (split_words (styled st ws)) = ws"
proof -
  obtain w us where ws: "ws = w # us" "plain_word w" "list_all plain_word us"
    using assms by (auto simp: key_words_def neq_Nil_conv)
  obtain c d v where w: "w = c # d # v" and l: "is_lower c" "is_lower d" "list_all is_lower v"
    using ws(2) by (auto elim: plain_word_cases)
  have low: "map to_lower (map upper_first us) = us" "map to_lower us = us"
    using ws(3) by (induction us) (auto simp: plain_word_def)
  have rest: "words_loop (Some (List.last w)) cur (concat (map upper_first us)) = flush_word cur @ map upper_first us" for cur
    using words_loop_capital ws last_lower by blast
  have camel: "words_loop None [] (w @ concat (map upper_first us)) = w # map upper_first us"
    using words_loop_lower [of w None "[]"] l rest by (simp add: w flush_word_def del: last.simps words_loop.simps)
  have "words_loop (Some (upper_char c)) [upper_char c] ((d # v) @ concat (map upper_first us))
      = upper_first w # map upper_first us"
    using l rest by (subst words_loop_lower) (simp_all add: w flush_word_def)
  then have pascal: "words_loop None [] (upper_first w @ concat (map upper_first us)) = upper_first w # map upper_first us"
    using l by (simp add: w word_start_def)
  have snake: "words_loop None [] (join_with ''_'' ws) = ws"
    using assms words_loop_snake by (simp add: key_words_def)
  have cap: "to_lower (upper_char c # d # v) = c # d # v" "to_lower (c # d # v) = c # d # v"
    using to_lower_plain [of w] l by (simp_all add: w)
  show ?thesis
    using cap camel pascal snake low l by (cases st) (auto simp: split_words_def ws w)
qed

lemma to_case_styled:
  assumes "key_words ws"
  shows "to_case s2 (styled s1 ws) = styled s2 ws"
proof -
  obtain w us where ws: "ws = w # us" "list_all is_lower w"
    using assms by (auto simp: key_words_def neq_Nil_conv plain_word_def)
  show ?thesis using split_styled [OF assms, of s1] ws by (cases s2) (auto simp: to_case_def)
qed

text \<open>The styles of keys translate into each other: a key of words of at least two letters, rendered in any style, is
  brought by \<open>to_case\<close> to its rendering in any other, so a client can get the documented snake case key back from the
  camel case one. Words of one letter are lost.\<close>

theorem key_style_roundtrip:
  assumes "ws \<noteq> []" and "\<And>w. w \<in> set ws \<Longrightarrow> 2 \<le> length w \<and> list_all is_lower w"
  shows "to_case Snake (join_with ''_'' ws) = join_with ''_'' ws \<and>
    to_case Camel (join_with ''_'' ws) = hd ws @ concat (map upper_first (tl ws)) \<and>
    to_case Snake (to_case st (join_with ''_'' ws)) = join_with ''_'' ws \<and>
    to_case st' (to_case st (join_with ''_'' ws)) = to_case st' (join_with ''_'' ws) \<and>
    to_case Snake (to_case Camel ''x_y_z'') = ''x_yz''"
proof -
  have kw: "key_words ws" using assms by (auto simp: key_words_def plain_word_def list_all_iff)
  note t = to_case_styled [OF kw]
  have "to_case Snake (to_case Camel ''x_y_z'') = ''x_yz''" by code_simp
  then show ?thesis
    using t [of Snake Snake] t [of Camel Snake] t [of st Snake] t [of Snake st] t [of st' st] t [of st' Snake] by simp
qed

theorem key_style_roundtrip_witness:
  "to_case Snake (to_case Camel ''num_nodes'') = ''num_nodes'' \<and> to_case Camel ''num_nodes'' = ''numNodes''"
proof -
  let ?ws = "[''num'', ''nodes'']"
  have p: "2 \<le> length w \<and> list_all is_lower w" if "w \<in> set ?ws" for w
    using that by (auto simp: is_lower_def less_eq_char_def)
  have "to_case Snake (to_case Camel (join_with ''_'' ?ws)) = join_with ''_'' ?ws"
    using key_style_roundtrip [of ?ws Camel Camel] p by blast
  moreover have "to_case Camel ''num_nodes'' = ''numNodes''" by code_simp
  ultimately show ?thesis by simp
qed

section \<open>Answers leave the state alone\<close>

lemma answer_run: "answer w status body st = (Inr \<lparr>rs_status = status, rs_headers = wr_headers w, rs_body = body, rs_background = []\<rparr>, st)"
  by (simp add: answer_def)

lemma write_json_run: "\<exists>resp. write_json S w status data st = (Inr resp, st) \<and> rs_status resp = status \<and> rs_background resp = []"
  by (simp add: write_json_def render_def answer_run)

lemma write_error_run: "\<exists>resp. write_error S w status e st = (Inr resp, st) \<and> rs_status resp = status \<and> rs_background resp = []"
  by (simp add: write_error_def render_def answer_run)

lemma auth_error_run: "\<exists>resp. auth_error w msg st = (Inr resp, st) \<and> rs_status resp = 401 \<and> rs_background resp = []"
  by (simp add: auth_error_def answer_run)

section \<open>The bearer token\<close>

definition opening_writer :: writer where
  "opening_writer = \<lparr>wr_headers = [], wr_id = []\<rparr>"

text \<open>The layers inside the authentication.\<close>

definition inner_handler :: "('p, 'w) server \<Rightarrow> decoders \<Rightarrow> (string \<Rightarrow> json) \<Rightarrow> 'w handler" where
  "inner_handler S D page = request_id (hs_random S) (hs_id_header S) (logging (mux S D page))"

definition preflight :: "('p, 'w) server \<Rightarrow> hreq \<Rightarrow> bool" where
  "preflight S r \<longleftrightarrow> hs_cors S \<and> hq_method r = ''OPTIONS''"

lemma server_handler_layers:
  assumes "hs_extra S = []"
  obtains w' where "server_handler S D page w r =
    (if preflight S r then answer w' 204 None
     else auth_middleware (hs_ext S) (hs_hash S) (hs_auth S) (inner_handler S D page) w' r)"
  by atomize_elim (auto simp: server_handler_def chain_def middlewares_def assms security_headers_def cors_def Let_def preflight_def inner_handler_def)

lemma find_token_sound: "find_token ts h now = Inr t \<Longrightarrow> t \<in> set ts \<and> tk_hash t = h \<and> \<not> token_expired t now"
  by (induction ts) (auto split: if_splits)

text \<open>A stored token that admits the request at this instant.\<close>

definition admitted_by :: "('p, 'w) server \<Rightarrow> hreq \<Rightarrow> 'w sys \<Rightarrow> token \<Rightarrow> bool" where
  "admitted_by S r st t \<longleftrightarrow>
     t \<in> set (st_tokens (fst st)) \<and> tk_hash t = hs_hash S (bearer_secret r) \<and> \<not> token_expired t (unix (hs_ext S) (snd st))"

lemma auth_refuses:
  assumes "hs_extra S = []" "hs_auth S" "\<not> public_request r" "\<not> preflight S r" "\<And>t. \<not> admitted_by S r st t"
  shows "\<exists>resp. server_handler S D page w r st = (Inr resp, st) \<and> rs_status resp = 401 \<and> rs_background resp = []"
proof -
  obtain w' where w': "server_handler S D page w r = auth_middleware (hs_ext S) (hs_hash S) True (inner_handler S D page) w' r"
    using server_handler_layers [OF assms(1), of D page w r] assms(2,4) by (metis (full_types))
  have "\<exists>e. get_token_by_hash (fst st) (hs_hash S (bearer_secret r)) (unix (hs_ext S) (snd st)) = Inl e"
    using assms(5) find_token_sound [of "st_tokens (fst st)"]
    by (cases "get_token_by_hash (fst st) (hs_hash S (bearer_secret r)) (unix (hs_ext S) (snd st))")
      (auto simp: get_token_by_hash_def admitted_by_def dest!: find_token_sound)
  then show ?thesis using assms(3) auth_error_run [of _ _ st] by (auto simp: w' auth_middleware_def)
qed

text \<open>C24. With authentication on, a request that is neither public nor a preflight of CORS and whose bearer secret hashes to
  no stored, unexpired token is answered 401, changes neither the store nor the world and starts nothing.\<close>

theorem auth_guards_requests:
  assumes "hs_extra S = []" "hs_auth S" "\<not> public_request r" "\<not> preflight S r"
    and "\<And>t. t \<in> set (st_tokens (fst st)) \<Longrightarrow> tk_hash t = hs_hash S (bearer_secret r) \<Longrightarrow>
      token_expired t (unix (hs_ext S) (snd st))"
  shows "\<exists>resp. server_handler S D page w r st = (Inr resp, st) \<and> rs_status resp = 401 \<and> rs_background resp = []"
  by (rule auth_refuses) (use assms in \<open>auto simp: admitted_by_def\<close>)

section \<open>The first token\<close>

text \<open>The requests of a session, one after the other; what is left running is collected.\<close>

fun serve_requests ::
  "('p, 'w) server \<Rightarrow> decoders \<Rightarrow> (string \<Rightarrow> json) \<Rightarrow> hreq list \<Rightarrow> 'w sys \<Rightarrow> (response res list) \<times> 'w sys" where
  "serve_requests S D page [] st = ([], st)"
| "serve_requests S D page (r # rs) st =
     (case server_handler S D page opening_writer r st of
        (x, st1) \<Rightarrow> (case serve_requests S D page rs st1 of (xs, st2) \<Rightarrow> (x # xs, st2)))"

definition harmless :: "response res \<Rightarrow> bool" where
  "harmless x \<longleftrightarrow> (\<exists>resp. x = Inr resp \<and> rs_background resp = [])"

lemma harmless_Inr [simp]: "harmless (Inr resp) \<longleftrightarrow> rs_background resp = []"
  by (simp add: harmless_def)

lemma public_is_harmless:
  assumes "hs_prefix S = default_api_prefix" "public_request r"
  shows "\<exists>resp. mux S D page w r st = (Inr resp, st) \<and> rs_background resp = []"
proof -
  have "api_segments S (hq_path r) = None"
    using assms(2) by (auto simp: public_request_def api_segments_def api_root_def assms(1) default_api_prefix_def has_prefix_def)
  then have api: "api_route S D r = None" by (simp add: api_route_def)
  obtain resp where "write_json S w 200 (Mapped [(''status'', JStr ''ok'')]) st = (Inr resp, st)" "rs_background resp = []"
    using write_json_run by blast
  then show ?thesis by (simp add: mux_def api answer_run)
qed

lemma tokenless_request:
  assumes "hs_extra S = []" "hs_auth S" "hs_prefix S = default_api_prefix" "st_tokens s = []"
  obtains x wd' where "server_handler S D page w r (s, wd) = (x, (s, wd'))" "harmless x"
proof -
  obtain w' where w': "server_handler S D page w r =
    (if preflight S r then answer w' 204 None
     else auth_middleware (hs_ext S) (hs_hash S) True (inner_handler S D page) w' r)"
    using server_handler_layers [OF assms(1), of D page w r] assms(2) by (metis (full_types))
  consider "preflight S r" | "\<not> preflight S r" "public_request r" | "\<not> preflight S r" "\<not> public_request r" by blast
  then show thesis
  proof cases
    case 1
    then show thesis using that by (simp add: w' answer_run)
  next
    case 2
    then have "server_handler S D page w r = inner_handler S D page w' r" by (simp add: w' auth_middleware_def)
    moreover obtain ident wd' where "(if header_value r (hs_id_header S) = [] then hs_random S wd
        else (header_value r (hs_id_header S), wd)) = (ident, wd')" by (rule prod.exhaust)
    then obtain w2 where "inner_handler S D page w' r (s, wd) = mux S D page w2 r (s, wd')"
      by (simp add: inner_handler_def request_id_def logging_def Let_def)
    ultimately show thesis using public_is_harmless [OF assms(3) 2(2)] that by (metis harmless_Inr)
  next
    case 3
    then show thesis using auth_refuses [OF assms(1,2) 3(2,1), of "(s, wd)" D page w] that assms(4)
      by (auto simp: admitted_by_def)
  qed
qed

lemma tokenless_requests:
  assumes "hs_extra S = []" "hs_auth S" "hs_prefix S = default_api_prefix" "st_tokens s = []"
  shows "fst (snd (serve_requests S D page rs (s, wd))) = s \<and> list_all harmless (fst (serve_requests S D page rs (s, wd)))"
proof (induction rs arbitrary: wd)
  case (Cons r rs)
  obtain x wd' where "server_handler S D page opening_writer r (s, wd) = (x, (s, wd'))" "harmless x"
    using tokenless_request [OF assms] by blast
  then show ?case using Cons [of wd'] by (simp add: split_beta)
qed simp

text \<open>C34. With authentication on, the default prefix and no token in the store, no sequence of requests, the creation of a
  token included, ever changes the store or starts a task or a job: the path left open for the first token,
  \<open>/api/v1/tokens\<close>, is not the one under which the tokens are served, \<open>/api/v1/gpi/tokens\<close>.\<close>

theorem no_first_token:
  assumes "hs_extra S = []" "hs_auth S" "hs_prefix S = default_api_prefix" "st_tokens s = []"
  shows "fst (snd (serve_requests S D page rs (s, wd))) = s \<and>
    (\<forall>x. x \<notin> set (fst (serve_requests S D page rs (s, wd))) \<or> (\<exists>resp. x = Inr resp \<and> rs_background resp = []))"
  using tokenless_requests [OF assms, of D page rs wd] by (auto simp: list_all_iff harmless_def)

section \<open>Reading\<close>

text \<open>A handler that leaves the state alone and starts nothing.\<close>

definition read_only :: "(writer \<Rightarrow> (response, 'w sys) act) \<Rightarrow> bool" where
  "read_only h \<longleftrightarrow> (\<forall>w st. \<exists>resp. h w st = (Inr resp, st) \<and> rs_background resp = [])"

lemma read_onlyI: "(\<And>w s wd. \<exists>resp. h w (s, wd) = (Inr resp, (s, wd)) \<and> rs_background resp = []) \<Longrightarrow> read_only h"
  by (auto simp: read_only_def)

lemma read_only_write:
  "read_only (\<lambda>w. write_json S w status data)" "read_only (\<lambda>w. write_error S w status e)"
  "read_only (\<lambda>w. answer w status body)" "read_only (\<lambda>w st. write_json S w status (f (fst st)) st)"
  by (auto simp: read_only_def write_json_def write_error_def render_def answer_run)

lemma read_only_get_cluster: "read_only (handle_get_cluster S name)"
proof (rule read_onlyI)
  show "\<exists>resp. handle_get_cluster S name w (s, wd) = (Inr resp, (s, wd)) \<and> rs_background resp = []" for w s wd
    by (cases "get_cluster s name")
      (auto simp: handle_get_cluster_def or_status_def cluster_at_def asks_def get_cluster_def
        write_json_def write_error_def render_def answer_run split: option.splits)
qed

lemma get_routes_read_only:
  assumes "is_get r" "api_route S D r = Some h"
  shows "read_only h"
proof -
  have not: "hq_method r \<noteq> ''POST''" "hq_method r \<noteq> ''PUT''" "hq_method r \<noteq> ''DELETE''"
    using assms(1) by (auto simp: is_get_def)
  have lists: "read_only (handle_list_clusters S)" "read_only (handle_list_services S)" "read_only (handle_list_jobs S)"
    "read_only (handle_list_config S)" "read_only (handle_list_tokens S)" "read_only (handle_get_config S x)" for x
    unfolding handle_list_clusters_def [abs_def] handle_list_services_def [abs_def] handle_list_jobs_def [abs_def]
      handle_list_config_def [abs_def] handle_list_tokens_def [abs_def] handle_get_config_def [abs_def]
    by (rule read_only_write)+
  show ?thesis
    using assms(2) not lists read_only_get_cluster
    by (auto simp: api_route_def collection_route_def item_route_def action_route_def split: option.splits list.splits if_splits)
qed

lemma mux_read_only:
  assumes "is_get r"
  shows "read_only (\<lambda>w. mux S D page w r)"
proof (cases "api_route S D r")
  case None
  then show ?thesis using write_json_run by (fastforce simp: read_only_def mux_def answer_run)
next
  case (Some h)
  with get_routes_read_only [OF assms Some] show ?thesis
    using write_json_run by (fastforce simp: read_only_def mux_def answer_run)
qed


section \<open>Dry runs\<close>

text \<open>A dry run of a launch on the cloud backend only plans: the store stays, the world sees at most the lookups of the
  optimizer and nothing is left running. On the other backends the flag is ignored and the cluster is launched.\<close>

theorem dry_run_only_plans:
  assumes "la_dry_run a"
  shows "if t_backend ts = ''cloud''
    then fst (snd (launch_task S w name ts a (s, wd))) = s \<and>
      (snd (snd (launch_task S w name ts a (s, wd))) = wd \<or>
       (\<exists>ms req. snd (snd (launch_task S w name ts a (s, wd))) = snd (optimize (pn_meta (hs_planner S)) ms (Some req) wd)))
    else launch_task S w name ts a = launch_task S w name ts (a\<lparr>la_dry_run := False\<rparr>)"
proof (cases "t_backend ts = ''cloud''")
  case False
  then show ?thesis by (simp add: launch_task_def provision_and_answer_def [abs_def])
next
  case c: True
  define req where "req = \<lparr>rq_resources = t_resources ts,
    rq_options = Some \<lparr>o_num_nodes = t_num_nodes ts, o_use_spot = la_use_spot a, o_cloud = la_cloud a,
      o_region = la_region a, o_zone = [], o_max_candidates = 0\<rparr>\<rparr>"
  obtain x wd' where p: "plan_request (hs_planner S) (la_optimizer a) req (s, wd) = (x, (s, wd'))"
    and wd': "wd' = wd \<or> (\<exists>ms. wd' = snd (optimize (pn_meta (hs_planner S)) ms (Some req) wd))"
    by atomize_elim (auto simp: plan_request_def world_def split: sum.split option.split prod.split, metis snd_conv)
  have "snd (launch_task S w name ts a (s, wd)) = (s, wd')"
    using assms c p [unfolded req_def]
    by (simp add: launch_task_def or_status_def write_json_def write_error_def render_def answer_run split: sum.split error.split)
  with wd' c show ?thesis by auto
qed

section \<open>What a response shows\<close>

text \<open>A text that occurs as a value of a body.\<close>

fun mentions :: "json \<Rightarrow> string \<Rightarrow> bool" where
  "mentions (JObj kvs) x \<longleftrightarrow> list_ex (\<lambda>(k, v). mentions v x) kvs"
| "mentions (JArr vs) x \<longleftrightarrow> list_ex (\<lambda>v. mentions v x) vs"
| "mentions (JStr y) x \<longleftrightarrow> x = y"
| "mentions _ x \<longleftrightarrow> False"

text \<open>Of the keys that become equal the last one stays.\<close>

lemma convert_fields_lookup:
  assumes "\<And>k' v'. (k', v') \<in> set ys \<Longrightarrow> to_case st k' \<noteq> to_case st k"
  shows "mget (convert_fields st (xs @ (k, v) # ys)) (to_case st k) = Some (convert_keys st v)"
proof -
  have "list_all (\<lambda>(k', v'). to_case st k' \<noteq> to_case st k) ys" using assms by (auto simp: list_all_iff)
  then have "mget (convert_fields st ys) (to_case st k) = None"
    by (induction ys) (auto simp: put_first_def simp del: not_None_eq)
  then show ?thesis by (induction xs) (auto simp: put_first_def simp del: not_None_eq)
qed

lemma mget_mem: "mget kvs k = Some v \<Longrightarrow> (k, v) \<in> set kvs"
  by (induction kvs) (auto split: if_splits)

lemma mget_mentions: "mget kvs k = Some v \<Longrightarrow> mentions v x \<Longrightarrow> mentions (JObj kvs) x"
  by (auto simp: list_ex_iff dest!: mget_mem)

lemma convert_creds:
  assumes "\<not> has_prefix (secret_access_key c) schema_ref"
  shows "mentions (convert_keys st (enc_creds c)) (secret_access_key c)"
proof -
  have "list_all (\<lambda>st. to_case st ''region'' \<noteq> to_case st ''secret_access_key'') [Camel, Snake, Pascal, Unstyled]" by code_simp
  then have "to_case st ''region'' \<noteq> to_case st ''secret_access_key''" by (cases st) auto
  then have "mget (convert_fields st ([(''access_key_id'', JStr (access_key_id c))] @
      (''secret_access_key'', JStr (secret_access_key c)) # omit (cred_region c = []) ''region'' (JStr (cred_region c))))
      (to_case st ''secret_access_key'') = Some (convert_keys st (JStr (secret_access_key c)))"
    by (intro convert_fields_lookup) (auto simp: omit_def field_def split: if_splits)
  moreover have "convert_keys st (JStr (secret_access_key c)) = JStr (secret_access_key c)"
    using assms by (simp add: convert_ref_def)
  ultimately show ?thesis
    using mget_mentions by (fastforce simp: enc_creds_def field_def)
qed

definition after_creds :: "string list" where
  "after_creds = [''ssh_target'', ''key_name'', ''key_path'', ''security_group_id'', ''vpc_id'', ''vswitch_id'', ''last_error'',
     ''created_at'', ''updated_at'']"

lemma after_creds_differ: "list_all (\<lambda>k. to_case st k \<noteq> to_case st ''cloud_creds'') after_creds"
proof -
  have "list_all (\<lambda>st. list_all (\<lambda>k. to_case st k \<noteq> to_case st ''cloud_creds'') after_creds) [Camel, Snake, Pascal, Unstyled]"
    by code_simp
  then show ?thesis by (cases st) (auto simp: list_all_iff)
qed

lemma enc_cluster_split:
  assumes "cl_creds c = Some cr"
  shows "\<exists>xs ys. enc_cluster c = JObj (xs @ (''cloud_creds'', enc_creds cr) # ys) \<and> fst ` set ys \<subseteq> set after_creds"
proof -
  let ?ys = "omit (cl_ssh c = None) ''ssh_target'' (enc_ptr enc_ssh (cl_ssh c)) @
     omit (cl_key_name c = []) ''key_name'' (JStr (cl_key_name c)) @
     omit (cl_key_path c = []) ''key_path'' (JStr (cl_key_path c)) @
     omit (cl_security_group c = []) ''security_group_id'' (JStr (cl_security_group c)) @
     omit (cl_vpc c = []) ''vpc_id'' (JStr (cl_vpc c)) @
     omit (cl_vswitch c = []) ''vswitch_id'' (JStr (cl_vswitch c)) @
     omit (cl_last_error c = []) ''last_error'' (JStr (cl_last_error c)) @
     field ''created_at'' (jint (cl_created_at c)) @ field ''updated_at'' (jint (cl_updated_at c))"
  have mid: "omit (cl_creds c = None) ''cloud_creds'' (enc_ptr enc_creds (cl_creds c)) = [(''cloud_creds'', enc_creds cr)]"
    using assms by (simp add: omit_def enc_ptr_def)
  have "\<exists>xs. enc_cluster c = JObj (xs @ (''cloud_creds'', enc_creds cr) # ?ys)"
    unfolding enc_cluster_def mid by (simp only: append_assoc [symmetric] append_Cons append_Nil) (rule exI, rule refl)
  moreover have "fst ` set ?ys \<subseteq> set after_creds" by (auto simp: omit_def field_def after_creds_def)
  ultimately show ?thesis by blast
qed

lemma cluster_body_secret:
  assumes "cl_creds c = Some cr" "\<not> has_prefix (secret_access_key cr) schema_ref"
  shows "mentions (convert_keys st (enc_cluster c)) (secret_access_key cr)"
proof -
  obtain xs ys where e: "enc_cluster c = JObj (xs @ (''cloud_creds'', enc_creds cr) # ys)" "fst ` set ys \<subseteq> set after_creds"
    using enc_cluster_split [OF assms(1)] by blast
  have "mget (convert_fields st (xs @ (''cloud_creds'', enc_creds cr) # ys)) (to_case st ''cloud_creds'') =
      Some (convert_keys st (enc_creds cr))"
    by (rule convert_fields_lookup) (use e(2) after_creds_differ [of st] in \<open>force simp: list_all_iff\<close>)
  then show ?thesis using convert_creds [OF assms(2)] mget_mentions by (fastforce simp: e(1))
qed

text \<open>The answer to a request for a cluster launched with credentials of its own contains their secret key, in every
  style of keys.\<close>

theorem cluster_response_shows_secret:
  assumes "get_cluster s name = Inr c" "cl_creds c = Some cr" "\<not> has_prefix (secret_access_key cr) schema_ref"
    and "hs_encoder S = raw_encoder" "wr_id w = []" "hs_key_style S \<noteq> Unstyled"
  shows "\<exists>resp body. handle_get_cluster S name w (s, wd) = (Inr resp, (s, wd)) \<and> rs_status resp = 200 \<and>
    rs_body resp = Some body \<and> mentions body (secret_access_key cr)"
  using assms cluster_body_secret [OF assms(2,3), of "hs_key_style S"]
  by (simp add: handle_get_cluster_def or_status_def cluster_at_def asks_def write_json_def render_def answer_run
      raw_encoder_def inject_request_id_def apply_key_style_def)

section \<open>Instances\<close>

definition sample_server :: "(unit, int) server" where
  "sample_server =
     new_server sample_ext (manager_backends 1 sample_ext ''home'') no_catalog (\<lambda>x. ''h'' @ x) (\<lambda>w. (''id'', w))
       (\<lambda>w. ((''new'', ''i''), w)) (\<lambda>w. (Inr ''tmp'', w))"

definition guarded_server :: "(unit, int) server" where
  "guarded_server = sample_server\<lparr>hs_auth := True\<rparr>"

definition no_body :: decoders where
  "no_body = \<lparr>dc_launch = (\<lambda>_. Inl (Err ''EOF'')), dc_task_launch = (\<lambda>_. Inl (Err ''EOF'')), dc_service_up = (\<lambda>_. Inl (Err ''EOF'')),
     dc_job = (\<lambda>_. Inl (Err ''EOF'')), dc_token = (\<lambda>_. Inr \<lparr>kq_name = [], kq_creator = [], kq_expires_in = 0\<rparr>),
     dc_expires = (\<lambda>_. 0), dc_value = (\<lambda>_. Inl (Err ''EOF'')), dc_yaml = (\<lambda>_. Inl (Err ''EOF''))\<rparr>"

definition delete_request :: hreq where
  "delete_request = \<lparr>hq_method = ''DELETE'', hq_path = ''/api/v1/gpi/clusters/c1'',
     hq_headers = [(''Authorization'', ''Bearer x'')]\<rparr>"

definition token_post :: "string \<Rightarrow> hreq" where
  "token_post path = \<lparr>hq_method = ''POST'', hq_path = path, hq_headers = []\<rparr>"

lemma sample_server_fields [simp]:
  "hs_extra sample_server = []" "hs_prefix sample_server = default_api_prefix" "hs_auth sample_server = False"
  "hs_cors sample_server = False" "hs_key_style sample_server = Camel" "hs_encoder sample_server = raw_encoder"
  "hs_hash sample_server = (\<lambda>x. ''h'' @ x)" "hs_extra guarded_server = []" "hs_auth guarded_server = True"
  "hs_prefix guarded_server = default_api_prefix" "hs_cors guarded_server = False" "hs_hash guarded_server = (\<lambda>x. ''h'' @ x)"
  by (simp_all add: guarded_server_def sample_server_def new_server_def sample_ext_def env_or_def getenv_def key_style_of_env_def
      response_format_of_env_def new_response_encoder_def)

theorem auth_guards_requests_witness:
  "\<exists>resp. server_handler guarded_server no_body JStr opening_writer delete_request (two_tokens, 0) = (Inr resp, (two_tokens, 0)) \<and>
     rs_status resp = 401"
proof -
  have secret: "bearer_secret delete_request = ''x''" by code_simp
  have closed: "\<not> public_request delete_request" by code_simp
  have "\<exists>resp. server_handler guarded_server no_body JStr opening_writer delete_request (two_tokens, 0) = (Inr resp, (two_tokens, 0)) \<and>
     rs_status resp = 401 \<and> rs_background resp = []"
    by (rule auth_guards_requests) (use closed in \<open>auto simp: preflight_def two_tokens_list secret\<close>)
  then show ?thesis by blast
qed

theorem no_first_token_witness:
  "fst (snd (serve_requests guarded_server no_body JStr [token_post ''/api/v1/tokens'', token_post ''/api/v1/gpi/tokens''] (empty_store, 0))) =
   empty_store"
  by (rule no_first_token [THEN conjunct1]) (simp_all add: empty_store_def)


definition dry_args :: launch_args where
  "dry_args = \<lparr>la_cloud = [], la_region = [], la_use_spot = False, la_dry_run = True, la_run_task = True, la_optimizer = []\<rparr>"

theorem dry_run_only_plans_witness:
  "fst (snd (launch_task sample_server opening_writer ''c'' demo_task dry_args (empty_store, 0))) = empty_store"
  using dry_run_only_plans [of dry_args demo_task sample_server opening_writer "''c''" empty_store "0 :: int"]
  by (simp add: dry_args_def demo_task_def)

definition keyed_cluster :: cluster where
  "keyed_cluster = sample_cluster\<lparr>cl_creds := Some \<lparr>access_key_id = ''id'', secret_access_key = ''secret'', cred_region = []\<rparr>\<rparr>"

theorem cluster_response_shows_secret_witness:
  "\<exists>resp body. fst (handle_get_cluster sample_server ''c'' opening_writer
       (empty_store\<lparr>st_clusters := [(''c'', keyed_cluster)]\<rparr>, 0 :: int)) = Inr resp \<and>
     rs_body resp = Some body \<and> mentions body ''secret''"
  using cluster_response_shows_secret [of "empty_store\<lparr>st_clusters := [(''c'', keyed_cluster)]\<rparr>" "''c''" keyed_cluster
    "\<lparr>access_key_id = ''id'', secret_access_key = ''secret'', cred_region = []\<rparr>" sample_server opening_writer 0]
  by (auto simp: get_cluster_def keyed_cluster_def opening_writer_def has_prefix_def schema_ref_def)

end
