(* ===== verification/State_Sql.thy ===== *)
theory State_Sql
  imports State_File
begin

text \<open>
  The SQL backend of the store, \<open>internal/state/sql.go\<close> (SQLite and MySQL).
  The database is a record of its tables, each the list of its rows. A statement is answered well, refused, or its
  answer is lost although it was done: \<open>q_verdicts\<close> decides the statements to come. A transaction works on its own copy,
  which a commit puts in place of the table; an insert that repeats a key is refused by the table.
\<close>

section \<open>The database\<close>

datatype sql_value = V_text string | V_num int

text \<open>A row of \<open>clusters\<close>, \<open>services\<close> or \<open>jobs\<close>: the columns to search by, and the entity as a document.\<close>

record sql_row =
  er_name :: string
  er_values :: "sql_value list"
  er_data :: json
  er_created :: int
  er_updated :: int

datatype verdict = Fine | Refused | Lost

record sql_db =
  q_verdicts :: "verdict list"
  q_tables :: "string list"
  q_clusters :: "sql_row list"
  q_services :: "sql_row list"
  q_jobs :: "sql_row list"
  q_yamls :: "cluster_yaml list"
  q_history :: "cluster_history list"
  q_events :: "cluster_event list"
  q_config :: "config_entry list"
  q_tokens :: "token list"

definition ask :: "sql_db \<Rightarrow> verdict \<times> sql_db" where
  "ask db = (case q_verdicts db of [] \<Rightarrow> (Fine, db) | v # vs \<Rightarrow> (v, db\<lparr>q_verdicts := vs\<rparr>))"

definition sql_failed :: error where
  "sql_failed = Err ''sql: statement failed''"

section \<open>Saving\<close>

text \<open>
  The inserts of a transaction; an entity that cannot be written as JSON stops them. \<open>clash\<close> is the unique key of the
  table.
\<close>

fun insert_all :: "('r \<Rightarrow> 'r \<Rightarrow> bool) \<Rightarrow> 'r res list \<Rightarrow> 'r list \<Rightarrow> sql_db \<Rightarrow> 'r list res \<times> sql_db" where
  "insert_all clash [] rows db = (Inr rows, db)"
| "insert_all clash (Inl e # rs) rows db = (Inl e, db)"
| "insert_all clash (Inr r # rs) rows db =
     (case ask db of
        (v, db1) \<Rightarrow>
          if v \<noteq> Fine then (Inl sql_failed, db1)
          else if list_ex (clash r) rows then (Inl (Err ''UNIQUE constraint failed''), db1)
          else insert_all clash rs (rows @ [r]) db1)"

text \<open>Begin, delete every row, insert the new ones, commit; whatever fails before the commit is rolled back.\<close>

definition replace_rows ::
  "string \<Rightarrow> ('r \<Rightarrow> 'r \<Rightarrow> bool) \<Rightarrow> ('r list \<Rightarrow> sql_db \<Rightarrow> sql_db) \<Rightarrow> 'r res list \<Rightarrow> sql_db \<Rightarrow> error option \<times> sql_db" where
  "replace_rows table clash store rs db =
     (case ask db of
        (v1, db1) \<Rightarrow>
          if v1 \<noteq> Fine then (Some sql_failed, db1)
          else (case ask db1 of
                  (v2, db2) \<Rightarrow>
                    if v2 \<noteq> Fine \<or> table \<notin> set (q_tables db2) then (Some sql_failed, db2)
                    else (case insert_all clash rs [] db2 of
                            (Inl e, db3) \<Rightarrow> (Some e, db3)
                          | (Inr rows, db3) \<Rightarrow>
                              (case ask db3 of
                                 (Fine, db4) \<Rightarrow> (None, store rows db4)
                               | (Refused, db4) \<Rightarrow> (Some sql_failed, db4)
                               | (Lost, db4) \<Rightarrow> (Some sql_failed, store rows db4)))))"

text \<open>The time of a row: that of the entity when it has one.\<close>

definition stamp :: "int \<Rightarrow> int \<Rightarrow> int" where
  "stamp now t = (if 0 < t then t else now)"

definition cluster_values :: "cluster \<Rightarrow> sql_value list" where
  "cluster_values c = [V_text (cl_status c), V_text (cl_backend c), V_text (cl_cloud c), V_text (cl_region c),
     V_num (cl_num_nodes c), V_text (cl_task_yaml c)]"

definition service_values :: "service \<Rightarrow> sql_value list" where
  "service_values v = [V_text (sc_status v), V_num (sc_replicas v), V_num (sc_port v)]"

definition job_values :: "job \<Rightarrow> sql_value list" where
  "job_values j = [V_text (j_status j), V_text (j_schedule j), V_num (j_run_count j), V_num (j_fail_count j), V_num (j_next_run j)]"

definition entity_row ::
  "('a \<Rightarrow> json res) \<Rightarrow> ('a \<Rightarrow> sql_value list) \<Rightarrow> ('a \<Rightarrow> int) \<Rightarrow> ('a \<Rightarrow> int) \<Rightarrow> int \<Rightarrow> string \<times> 'a \<Rightarrow> sql_row res" where
  "entity_row enc values created updated now kv =
     (case kv of (k, x) \<Rightarrow> bind_res (enc x) (\<lambda>j.
        Inr \<lparr>er_name = k, er_values = values x, er_data = j, er_created = stamp now (created x), er_updated = stamp now (updated x)\<rparr>))"

definition same_by :: "('r \<Rightarrow> 'k) \<Rightarrow> 'r \<Rightarrow> 'r \<Rightarrow> bool" where
  "same_by key r r' \<longleftrightarrow> key r = key r'"

definition save_entities ::
  "string \<Rightarrow> (sql_row list \<Rightarrow> sql_db \<Rightarrow> sql_db) \<Rightarrow> (int \<Rightarrow> string \<times> 'a \<Rightarrow> sql_row res) \<Rightarrow> (sql_db \<Rightarrow> int) \<Rightarrow> 'a smap \<Rightarrow>
   sql_db \<Rightarrow> error option \<times> sql_db" where
  "save_entities table store row clock m db =
     replace_rows table (same_by er_name) store (map (row (clock db)) m) db"

definition save_records ::
  "string \<Rightarrow> ('r \<Rightarrow> 'r \<Rightarrow> bool) \<Rightarrow> ('r list \<Rightarrow> sql_db \<Rightarrow> sql_db) \<Rightarrow> 'r list \<Rightarrow> sql_db \<Rightarrow> error option \<times> sql_db" where
  "save_records table clash store rs db = replace_rows table clash store (map Inr rs) db"

text \<open>Two tokens may share neither their id nor their hash. The table has no column for \<open>Active\<close>.\<close>

definition same_token :: "token \<Rightarrow> token \<Rightarrow> bool" where
  "same_token t t' \<longleftrightarrow> tk_id t = tk_id t' \<or> tk_hash t = tk_hash t'"

definition token_row :: "token \<Rightarrow> token" where
  "token_row t = t\<lparr>tk_active := False\<rparr>"

section \<open>Loading\<close>

definition select_rows :: "string \<Rightarrow> (sql_db \<Rightarrow> 'r list) \<Rightarrow> sql_db \<Rightarrow> 'r list res \<times> sql_db" where
  "select_rows table rows db =
     (case ask db of
        (v, db1) \<Rightarrow> if v \<noteq> Fine \<or> table \<notin> set (q_tables db1) then (Inl sql_failed, db1) else (Inr (rows db1), db1))"

definition load_entities ::
  "string \<Rightarrow> (sql_db \<Rightarrow> sql_row list) \<Rightarrow> (json \<Rightarrow> 'a res) \<Rightarrow> sql_db \<Rightarrow> 'a smap res \<times> sql_db" where
  "load_entities table rows dec db =
     (case select_rows table rows db of
        (r, db1) \<Rightarrow> (bind_res r (\<lambda>rs.
           bind_res (map_res (\<lambda>row. bind_res (dec (er_data row)) (\<lambda>x. Inr (er_name row, x))) rs) (\<lambda>kvs. Inr (put_all kvs))), db1))"

definition load_keyed :: "string \<Rightarrow> (sql_db \<Rightarrow> 'r list) \<Rightarrow> ('r \<Rightarrow> string) \<Rightarrow> sql_db \<Rightarrow> 'r smap res \<times> sql_db" where
  "load_keyed table rows key db =
     (case select_rows table rows db of (r, db1) \<Rightarrow> (bind_res r (\<lambda>rs. Inr (put_all (map (\<lambda>x. (key x, x)) rs))), db1))"

text \<open>\<open>ORDER BY\<close>; rows with the same time come in the order of the table here, in any order from a database.\<close>

definition load_ordered :: "string \<Rightarrow> (sql_db \<Rightarrow> 'r list) \<Rightarrow> ('r \<Rightarrow> int) \<Rightarrow> sql_db \<Rightarrow> 'r list res \<times> sql_db" where
  "load_ordered table rows time db =
     (case select_rows table rows db of (r, db1) \<Rightarrow> (bind_res r (\<lambda>rs. Inr (sort_key time rs)), db1))"

definition reactivate :: "int \<Rightarrow> token \<Rightarrow> token" where
  "reactivate now t = t\<lparr>tk_active := \<not> token_expired t now\<rparr>"

definition load_token_rows :: "(sql_db \<Rightarrow> int) \<Rightarrow> sql_db \<Rightarrow> token list res \<times> sql_db" where
  "load_token_rows clock db =
     (case load_ordered ''service_account_tokens'' q_tokens tk_created_at db of
        (r, db1) \<Rightarrow> (bind_res r (\<lambda>ts. Inr (map (reactivate (clock db1)) ts)), db1))"

section \<open>The backend\<close>

definition cluster_row :: "int \<Rightarrow> string \<times> cluster \<Rightarrow> sql_row res" where
  "cluster_row = entity_row marshal_cluster cluster_values cl_created_at cl_updated_at"

definition service_row :: "int \<Rightarrow> string \<times> service \<Rightarrow> sql_row res" where
  "service_row = entity_row (\<lambda>v. Inr (enc_service v)) service_values sc_created_at sc_updated_at"

definition job_row :: "int \<Rightarrow> string \<times> job \<Rightarrow> sql_row res" where
  "job_row = entity_row (\<lambda>j. Inr (enc_job j)) job_values j_created_at j_updated_at"

definition sql_backend :: "(sql_db \<Rightarrow> int) \<Rightarrow> sql_db backend_ops" where
  "sql_backend clock =
     \<lparr>b_load_clusters = load_entities ''clusters'' q_clusters dec_cluster,
      b_load_services = load_entities ''services'' q_services dec_service,
      b_load_jobs = load_entities ''jobs'' q_jobs dec_job,
      b_load_yamls = load_keyed ''cluster_yaml'' q_yamls y_cluster_name,
      b_load_history = load_keyed ''cluster_history'' q_history h_cluster_name,
      b_load_events = load_ordered ''cluster_events'' q_events e_transitioned_at,
      b_load_config = load_keyed ''config'' q_config ce_key,
      b_load_tokens = load_token_rows clock,
      b_save_clusters = save_entities ''clusters'' (\<lambda>rs db. db\<lparr>q_clusters := rs\<rparr>) cluster_row clock,
      b_save_services = save_entities ''services'' (\<lambda>rs db. db\<lparr>q_services := rs\<rparr>) service_row clock,
      b_save_jobs = save_entities ''jobs'' (\<lambda>rs db. db\<lparr>q_jobs := rs\<rparr>) job_row clock,
      b_save_yamls = (\<lambda>m. save_records ''cluster_yaml'' (same_by y_cluster_name) (\<lambda>rs db. db\<lparr>q_yamls := rs\<rparr>) (map snd m)),
      b_save_history = (\<lambda>m. save_records ''cluster_history'' (same_by h_cluster_name) (\<lambda>rs db. db\<lparr>q_history := rs\<rparr>) (map snd m)),
      b_save_events = save_records ''cluster_events'' (\<lambda>_ _. False) (\<lambda>rs db. db\<lparr>q_events := rs\<rparr>),
      b_save_config = (\<lambda>m. save_records ''config'' (same_by ce_key) (\<lambda>rs db. db\<lparr>q_config := rs\<rparr>) (map snd m)),
      b_save_tokens = (\<lambda>ts. save_records ''service_account_tokens'' same_token (\<lambda>rs db. db\<lparr>q_tokens := rs\<rparr>) (map token_row ts)),
      b_close = Pair None\<rparr>"

section \<open>The statements\<close>

definition columns_for :: "string \<Rightarrow> string list" where
  "columns_for table =
     (if table = ''clusters'' then [''status'', ''backend'', ''cloud'', ''region'', ''num_nodes'', ''task_yaml'']
      else if table = ''services'' then [''status'', ''replicas'', ''port'']
      else if table = ''jobs'' then [''status'', ''schedule'', ''run_count'', ''fail_count'', ''next_run'']
      else [])"

definition placeholders :: "nat \<Rightarrow> string" where
  "placeholders n = join_with '', '' (replicate n ''?'')"

definition insert_statement :: "string \<Rightarrow> string" where
  "insert_statement table =
     ''INSERT INTO '' @ table @ '' (name, '' @ join_with '', '' (columns_for table) @ '', data, created_at, updated_at) VALUES (?, '' @
     placeholders (length (columns_for table)) @ '', ?, ?, ?)''"

text \<open>The arguments bound to it: the name, the columns, the document and the two times.\<close>

definition insert_args :: "(json \<Rightarrow> string) \<Rightarrow> sql_row \<Rightarrow> sql_value list" where
  "insert_args text r =
     V_text (er_name r) # er_values r @ [V_text (text (er_data r)), V_num (er_created r), V_num (er_updated r)]"

section \<open>Opening\<close>

definition table_names :: "string list" where
  "table_names = [''clusters'', ''services'', ''jobs'', ''cluster_yaml'', ''cluster_history'', ''cluster_events'', ''config'',
     ''service_account_tokens'']"

definition create_table :: "string \<Rightarrow> sql_db \<Rightarrow> error option \<times> sql_db" where
  "create_table name db =
     (case ask db of
        (v, db1) \<Rightarrow>
          (let db2 = (if name \<in> set (q_tables db1) then db1 else db1\<lparr>q_tables := name # q_tables db1\<rparr>)
           in case v of Fine \<Rightarrow> (None, db2) | Refused \<Rightarrow> (Some sql_failed, db1) | Lost \<Rightarrow> (Some sql_failed, db2)))"

definition ensure_tables :: "sql_db \<Rightarrow> error option \<times> sql_db" where
  "ensure_tables db = each_w create_table table_names db"

definition mysql_dsn :: "string \<Rightarrow> string \<Rightarrow> string" where
  "mysql_dsn driver dsn =
     (if driver = ''mysql'' \<and> \<not> contains_str dsn ''parseTime=''
      then dsn @ (if contains_str dsn ''?'' then ''&'' else ''?'') @ ''parseTime=true'' else dsn)"

text \<open>\<open>connect\<close> is \<open>sql.Open\<close>: the database of a driver and a name.\<close>

definition new_sql_backend :: "(string \<Rightarrow> string \<Rightarrow> sql_db res) \<Rightarrow> (sql_db \<Rightarrow> int) \<Rightarrow> string \<Rightarrow> string \<Rightarrow> (sql_db backend_ops \<times> sql_db) res" where
  "new_sql_backend connect clock driver dsn =
     (case connect driver (mysql_dsn driver dsn) of
        Inl e \<Rightarrow> Inl (wrap_err (''open '' @ driver @ '' backend: '') e)
      | Inr db \<Rightarrow>
          (case ask db of
             (v, db1) \<Rightarrow>
               if v \<noteq> Fine then Inl (wrap_err (''ping '' @ driver @ '' backend: '') sql_failed)
               else (case ensure_tables db1 of (Some e, _) \<Rightarrow> Inl e | (None, db2) \<Rightarrow> Inr (sql_backend clock, db2))))"

end
