(* ===== verification/State_Sql_Props.thy ===== *)
theory State_Sql_Props
  imports State_Sql State_Props
begin

text \<open>
  What the SQL backend promises: a save that succeeds is read back, a save that fails leaves each table as it was or
  complete, and each insert binds as many arguments as its statement has columns.
\<close>

section \<open>One table\<close>

lemma ask_db: "ask db = (v, db') \<Longrightarrow> \<exists>vs. db' = db\<lparr>q_verdicts := vs\<rparr>"
  by (cases db) (auto simp: ask_def split: list.splits)

lemma insert_all_db: "insert_all clash rs rows db = (r, db') \<Longrightarrow> \<exists>vs. db' = db\<lparr>q_verdicts := vs\<rparr>"
proof (induction clash rs rows db rule: insert_all.induct)
  case (1 clash rows db)
  then show ?case by (intro exI [of _ "q_verdicts db"]) simp
next
  case (2 clash e rs rows db)
  then show ?case by (intro exI [of _ "q_verdicts db"]) simp
next
  case (3 clash r rs rows db)
  obtain v db1 where a: "ask db = (v, db1)" by (rule prod.exhaust)
  then obtain vs where "db1 = db\<lparr>q_verdicts := vs\<rparr>" using ask_db by blast
  then show ?case using 3 a by (auto split: if_splits)
qed

lemma insert_all_rows: "insert_all clash rs rows db = (Inr rows', db') \<Longrightarrow> \<exists>xs. rs = map Inr xs \<and> rows' = rows @ xs"
proof (induction clash rs rows db rule: insert_all.induct)
  case (3 clash r rs rows db)
  obtain v db1 where a: "ask db = (v, db1)" by (rule prod.exhaust)
  then have "v = Fine" "\<not> list_ex (clash r) rows" "insert_all clash rs (rows @ [r]) db1 = (Inr rows', db')"
    using 3(2) by (auto split: if_splits)
  then obtain xs where "rs = map Inr xs" "rows' = (rows @ [r]) @ xs" using 3(1) [OF a [symmetric]] by auto
  then show ?case by (intro exI [of _ "r # xs"]) simp
qed simp_all

text \<open>A transaction leaves the table alone or puts all the new rows in it; the latter when it succeeds.\<close>

lemma replace_rows_cases:
  assumes "replace_rows table clash store rs db = (r, db')"
  obtains (untouched) vs where "r \<noteq> None" "db' = db\<lparr>q_verdicts := vs\<rparr>"
  | (replaced) xs vs where "rs = map Inr xs" "db' = store xs (db\<lparr>q_verdicts := vs\<rparr>)" "table \<in> set (q_tables db)"
proof -
  obtain v1 db1 where 1: "ask db = (v1, db1)" by (rule prod.exhaust)
  obtain v2 db2 where 2: "ask db1 = (v2, db2)" by (rule prod.exhaust)
  obtain ri db3 where 3: "insert_all clash rs [] db2 = (ri, db3)" by (rule prod.exhaust)
  obtain v4 db4 where 4: "ask db3 = (v4, db4)" by (rule prod.exhaust)
  have upd: "\<exists>vs. db1 = db\<lparr>q_verdicts := vs\<rparr>" "\<exists>vs. db2 = db\<lparr>q_verdicts := vs\<rparr>" "\<exists>vs. db3 = db\<lparr>q_verdicts := vs\<rparr>"
    "\<exists>vs. db4 = db\<lparr>q_verdicts := vs\<rparr>"
    using ask_db [OF 1] ask_db [OF 2] insert_all_db [OF 3] ask_db [OF 4] by auto
  have "(r \<noteq> None \<and> (\<exists>vs. db' = db\<lparr>q_verdicts := vs\<rparr>)) \<or>
      (\<exists>xs vs. rs = map Inr xs \<and> db' = store xs (db\<lparr>q_verdicts := vs\<rparr>) \<and> table \<in> set (q_tables db))"
  proof (cases "v1 = Fine \<and> v2 = Fine \<and> table \<in> set (q_tables db2)")
    case False
    then show ?thesis using assms upd 1 2 by (auto simp: replace_rows_def split: if_splits)
  next
    case ok: True
    then have t: "table \<in> set (q_tables db)" using upd(2) by auto
    have run: "(r, db') = (case ri of Inl e \<Rightarrow> (Some e, db3) | Inr rows \<Rightarrow>
        (case v4 of Fine \<Rightarrow> (None, store rows db4) | Refused \<Rightarrow> (Some sql_failed, db4) | Lost \<Rightarrow> (Some sql_failed, store rows db4)))"
      using assms ok 1 2 3 4 by (auto simp: replace_rows_def split: sum.splits)
    show ?thesis
    proof (cases ri)
      case (Inl e)
      then show ?thesis using run upd(3) by auto
    next
      case (Inr rows)
      then obtain xs where "rs = map Inr xs" "rows = xs" using insert_all_rows 3 by fastforce
      then show ?thesis using run Inr upd(4) t by (cases v4) auto
    qed
  qed
  then show thesis using untouched replaced by blast
qed

lemma replace_rows_ok:
  assumes "replace_rows table clash store rs db = (None, db')"
  shows "\<exists>xs vs. rs = map Inr xs \<and> db' = store xs (db\<lparr>q_verdicts := vs\<rparr>) \<and> table \<in> set (q_tables db)"
  using assms by (cases rule: replace_rows_cases) auto

lemma save_records_ok:
  assumes "save_records table clash store xs db = (None, db')"
  shows "\<exists>vs. db' = store xs (db\<lparr>q_verdicts := vs\<rparr>) \<and> table \<in> set (q_tables db)"
proof -
  obtain ys vs where ys: "map (Inr :: 'a \<Rightarrow> 'a res) xs = map Inr ys" and rest: "db' = store ys (db\<lparr>q_verdicts := vs\<rparr>)" "table \<in> set (q_tables db)"
    using replace_rows_ok [OF assms [unfolded save_records_def]] by blast
  from ys have "xs = ys" by (rule map_injective) simp
  with rest show ?thesis by blast
qed

text \<open>The rows of a collection of entities, and reading them back.\<close>

definition rows_of :: "('a \<Rightarrow> json res) \<Rightarrow> 'a smap \<Rightarrow> sql_row list \<Rightarrow> bool" where
  "rows_of enc m rows \<longleftrightarrow> list_all2 (\<lambda>(k, x) r. er_name r = k \<and> enc x = Inr (er_data r)) m rows"

lemma entity_rows: "map (entity_row enc values created updated now) m = map Inr rows \<Longrightarrow> rows_of enc m rows"
proof (induction m arbitrary: rows)
  case (Cons kx m)
  obtain k x where kx: "kx = (k, x)" by (rule prod.exhaust)
  obtain row rows' where r: "rows = row # rows'" using Cons.prems by (cases rows) auto
  have row: "entity_row enc values created updated now (k, x) = Inr row"
    and rest: "map (entity_row enc values created updated now) m = map Inr rows'"
    using Cons.prems unfolding r kx by simp_all
  have "rows_of enc m rows'" by (rule Cons.IH [OF rest])
  moreover obtain j where "enc x = Inr j" "er_name row = k" "er_data row = j"
    using row by (cases "enc x") (auto simp: entity_row_def)
  ultimately show ?case using kx r by (simp add: rows_of_def)
qed (simp add: rows_of_def)

lemma save_entities_ok:
  assumes "save_entities table store (entity_row enc values created updated) clock m db = (None, db')"
  shows "\<exists>rows vs. rows_of enc m rows \<and> db' = store rows (db\<lparr>q_verdicts := vs\<rparr>) \<and> table \<in> set (q_tables db)"
  using replace_rows_ok [OF assms [unfolded save_entities_def]] entity_rows by blast

lemma load_rows:
  assumes "rows_of enc m rows" "wf_map m" "\<And>k x j. (k, x) \<in> set m \<Longrightarrow> enc x = Inr j \<Longrightarrow> dec j = Inr (f x)"
  shows "bind_res (map_res (\<lambda>row. bind_res (dec (er_data row)) (\<lambda>x. Inr (er_name row, x))) rows) (\<lambda>kvs. Inr (put_all kvs)) =
    Inr (map_vals f m)"
proof -
  have "map_res (\<lambda>row. bind_res (dec (er_data row)) (\<lambda>x. Inr (er_name row, x))) rows = Inr (map_vals f m)"
    using assms(1,3)
  proof (induction m arbitrary: rows)
    case (Cons kx m)
    obtain k x where kx: "kx = (k, x)" by (rule prod.exhaust)
    obtain row rows' where r: "rows = row # rows'" "er_name row = k" "enc x = Inr (er_data row)" "rows_of enc m rows'"
      using Cons.prems(1) kx by (auto simp: rows_of_def list_all2_Cons1)
    have "map_res (\<lambda>row. bind_res (dec (er_data row)) (\<lambda>x. Inr (er_name row, x))) rows' = Inr (map_vals f m)"
      using Cons.IH [OF r(4)] Cons.prems(2) by (metis list.set_intros(2))
    with r Cons.prems(2) [of k x] kx show ?case by (simp add: map_vals_def)
  qed (simp add: rows_of_def map_vals_def)
  moreover have "wf_map (map_vals f m)"
    using assms(2) by (simp add: map_vals_def comp_def case_prod_beta)
  ultimately show ?thesis by (simp add: put_all_distinct)
qed

lemma load_plain_rows:
  assumes "rows_of (\<lambda>v. Inr (e v)) m rows" "wf_map m" "\<And>x. dec (e x) = Inr x"
  shows "bind_res (map_res (\<lambda>row. bind_res (dec (er_data row)) (\<lambda>x. Inr (er_name row, x))) rows) (\<lambda>kvs. Inr (put_all kvs)) = Inr m"
  using load_rows [OF assms(1,2), of dec "\<lambda>x. x"] assms(3) by fastforce

lemma load_named:
  assumes "keyed key m"
  shows "put_all (map (\<lambda>x. (key x, x)) (map snd m)) = m"
proof -
  have "map (\<lambda>x. (key x, x)) (map snd m) = map id m"
    unfolding map_map
  proof (rule map_cong [OF refl])
    fix kv assume "kv \<in> set m"
    then have "mget m (fst kv) = Some (snd kv)" using assms by (simp add: keyed_def)
    then show "((\<lambda>x. (key x, x)) \<circ> snd) kv = id kv" using keyed_name [OF assms] by (cases kv) auto
  qed
  then show ?thesis using assms by (simp add: put_all_distinct keyed_def)
qed

section \<open>The whole store\<close>

lemma each_w_Cons: "each_w f (x # xs) w = (None, w') \<longleftrightarrow> (\<exists>w1. f x w = (None, w1) \<and> each_w f xs w1 = (None, w'))"
  by (auto split: prod.splits option.splits)

lemma each_w_keeps:
  assumes "list_all (\<lambda>f. \<forall>w. P w \<longrightarrow> P (snd (f w))) fs" "P w"
  shows "P (snd (each_w (\<lambda>f. f) fs w))"
  using assms
proof (induction fs arbitrary: w)
  case (Cons f fs)
  obtain r w1 where f: "f w = (r, w1)" by (rule prod.exhaust)
  then have "P w1" using Cons.prems by force
  then show ?case using Cons f by (cases r) auto
qed simp

text \<open>The tables after a save that succeeded.\<close>

definition saved_in :: "store \<Rightarrow> sql_db \<Rightarrow> bool" where
  "saved_in s db \<longleftrightarrow> rows_of marshal_cluster (st_clusters s) (q_clusters db) \<and>
     rows_of (\<lambda>v. Inr (enc_service v)) (st_services s) (q_services db) \<and>
     rows_of (\<lambda>j. Inr (enc_job j)) (st_jobs s) (q_jobs db) \<and>
     q_yamls db = map snd (st_yamls s) \<and> q_history db = map snd (st_history s) \<and> q_events db = st_events s \<and>
     q_config db = map snd (st_config s) \<and> q_tokens db = map token_row (st_tokens s) \<and>
     set table_names \<subseteq> set (q_tables db)"

lemma save_sql:
  assumes "save_store (sql_backend clock) s db = (None, db')"
  shows "saved_in s db'"
proof -
  from assms obtain d1 d2 d3 d4 d5 d6 d7 where
    1: "save_entities ''clusters'' (\<lambda>rs db. db\<lparr>q_clusters := rs\<rparr>) cluster_row clock (st_clusters s) db = (None, d1)" and
    2: "save_entities ''services'' (\<lambda>rs db. db\<lparr>q_services := rs\<rparr>) service_row clock (st_services s) d1 = (None, d2)" and
    3: "save_entities ''jobs'' (\<lambda>rs db. db\<lparr>q_jobs := rs\<rparr>) job_row clock (st_jobs s) d2 = (None, d3)" and
    4: "save_records ''cluster_yaml'' (same_by y_cluster_name) (\<lambda>rs db. db\<lparr>q_yamls := rs\<rparr>) (map snd (st_yamls s)) d3 = (None, d4)" and
    5: "save_records ''cluster_history'' (same_by h_cluster_name) (\<lambda>rs db. db\<lparr>q_history := rs\<rparr>) (map snd (st_history s)) d4 = (None, d5)" and
    6: "save_records ''cluster_events'' (\<lambda>_ _. False) (\<lambda>rs db. db\<lparr>q_events := rs\<rparr>) (st_events s) d5 = (None, d6)" and
    7: "save_records ''config'' (same_by ce_key) (\<lambda>rs db. db\<lparr>q_config := rs\<rparr>) (map snd (st_config s)) d6 = (None, d7)" and
    8: "save_records ''service_account_tokens'' same_token (\<lambda>rs db. db\<lparr>q_tokens := rs\<rparr>) (map token_row (st_tokens s)) d7 = (None, db')"
    unfolding save_store_def save_steps_def each_w_Cons sql_backend_def by auto
  note e = save_entities_ok [OF 1 [unfolded cluster_row_def]] save_entities_ok [OF 2 [unfolded service_row_def]]
    save_entities_ok [OF 3 [unfolded job_row_def]] save_records_ok [OF 4] save_records_ok [OF 5] save_records_ok [OF 6]
    save_records_ok [OF 7] save_records_ok [OF 8]
  from e show ?thesis by (auto simp: saved_in_def table_names_def)
qed

text \<open>The store a process reads back from the database at a time.\<close>

definition sql_store :: "int \<Rightarrow> store \<Rightarrow> store" where
  "sql_store now s = s\<lparr>st_clusters := map_vals norm_cluster (st_clusters s),
     st_events := sort_key e_transitioned_at (st_events s),
     st_tokens := map (reactivate now) (sort_key tk_created_at (st_tokens s))\<rparr>"

lemma map_sort_key: "(\<And>x. g (f x) = g x) \<Longrightarrow> sort_key g (map f xs) = map f (sort_key g xs)"
proof (induction xs)
  case (Cons x xs)
  have "insort_key g (f x) (map f ys) = map f (insort_key g x ys)" for ys
    by (induction ys) (simp_all add: Cons.prems)
  with Cons show ?case by simp
qed simp

lemma reactivate_tokens: "map (reactivate now) (sort_key tk_created_at (map token_row ts)) = map (reactivate now) (sort_key tk_created_at ts)"
proof -
  have "reactivate now (token_row t) = reactivate now t" for t
    by (simp add: reactivate_def token_row_def token_expired_def)
  then show ?thesis by (simp add: map_sort_key token_row_def)
qed

lemma ask_fine: "q_verdicts db = [] \<Longrightarrow> ask db = (Fine, db)"
  by (simp add: ask_def)

lemma open_sql:
  assumes "storable s" "saved_in s db" "q_verdicts db = []"
  shows "open_store (sql_backend clock) db = (Inr (sql_store (clock db) s), db)"
proof -
  note wf = storable_wf [OF assms(1)]
  have k: "keyed y_cluster_name (st_yamls s)" "keyed h_cluster_name (st_history s)" "keyed ce_key (st_config s)"
    using assms(1) by (simp_all add: storable_def store_ok_def)
  note r = assms(2) [unfolded saved_in_def]
  have t: "t \<in> set table_names \<Longrightarrow> select_rows t f db = (Inr (f db), db)" for t and f :: "sql_db \<Rightarrow> 'r list"
    using r assms(3) by (auto simp: select_rows_def ask_fine)
  have cs: "(k, x) \<in> set (st_clusters s) \<Longrightarrow> marshal_cluster x = Inr d \<Longrightarrow> dec_cluster d = Inr (norm_cluster x)" for k x d
    using assms(1) marshal_cluster_Inr [of x] dec_cluster_enc [of x] by (auto simp: storable_def)
  have c: "load_entities ''clusters'' q_clusters dec_cluster db = (Inr (map_vals norm_cluster (st_clusters s)), db)"
    unfolding load_entities_def using load_rows [OF conjunct1 [OF r] wf(1) cs]
    by (subst t) (simp_all add: table_names_def)
  have v: "load_entities ''services'' q_services dec_service db = (Inr (st_services s), db)"
    unfolding load_entities_def using r load_plain_rows [OF _ wf(2) dec_service_enc]
    by (subst t) (simp_all add: table_names_def)
  have j: "load_entities ''jobs'' q_jobs dec_job db = (Inr (st_jobs s), db)"
    unfolding load_entities_def using r load_plain_rows [OF _ wf(3) dec_job_enc]
    by (subst t) (simp_all add: table_names_def)
  have y: "load_keyed ''cluster_yaml'' q_yamls y_cluster_name db = (Inr (st_yamls s), db)"
    "load_keyed ''cluster_history'' q_history h_cluster_name db = (Inr (st_history s), db)"
    "load_keyed ''config'' q_config ce_key db = (Inr (st_config s), db)"
    unfolding load_keyed_def using r k by (simp_all add: t table_names_def load_named del: map_map)
  have e: "load_ordered ''cluster_events'' q_events e_transitioned_at db = (Inr (sort_key e_transitioned_at (st_events s)), db)"
    "load_token_rows clock db = (Inr (map (reactivate (clock db)) (sort_key tk_created_at (st_tokens s))), db)"
    unfolding load_ordered_def load_token_rows_def using r by (simp_all add: t table_names_def reactivate_tokens)
  show ?thesis
    by (simp add: open_store_def or_close_def sql_backend_def c v j y e sql_store_def)
qed

section \<open>Properties\<close>


definition sample_db :: "verdict list \<Rightarrow> sql_db" where
  "sample_db vs = \<lparr>q_verdicts = vs, q_tables = table_names, q_clusters = [], q_services = [], q_jobs = [], q_yamls = [],
     q_history = [], q_events = [], q_config = [], q_tokens = []\<rparr>"

definition sql_sample :: store where
  "sql_sample = empty_store\<lparr>st_clusters := [(''c'', sample_cluster)], st_tokens := [sample_token ''a'', sample_token ''b'']\<rparr>"

lemma sql_sample_storable: "storable sql_sample"
  by (simp add: sql_sample_def storable_def store_ok_def empty_store_def keyed_def sample_cluster_def cluster_storable_def)


text \<open>Each table as it was or with all the new rows.\<close>

definition old_or_saved :: "sql_db \<Rightarrow> store \<Rightarrow> sql_db \<Rightarrow> bool" where
  "old_or_saved db s db' \<longleftrightarrow>
     (q_clusters db' = q_clusters db \<or> rows_of marshal_cluster (st_clusters s) (q_clusters db')) \<and>
     (q_services db' = q_services db \<or> rows_of (\<lambda>v. Inr (enc_service v)) (st_services s) (q_services db')) \<and>
     (q_jobs db' = q_jobs db \<or> rows_of (\<lambda>j. Inr (enc_job j)) (st_jobs s) (q_jobs db')) \<and>
     (q_yamls db' = q_yamls db \<or> q_yamls db' = map snd (st_yamls s)) \<and>
     (q_history db' = q_history db \<or> q_history db' = map snd (st_history s)) \<and>
     (q_events db' = q_events db \<or> q_events db' = st_events s) \<and>
     (q_config db' = q_config db \<or> q_config db' = map snd (st_config s)) \<and>
     (q_tokens db' = q_tokens db \<or> q_tokens db' = map token_row (st_tokens s))"

lemma save_records_cases:
  assumes "P db" "\<And>vs. P (db\<lparr>q_verdicts := vs\<rparr>)" "\<And>vs. P (store xs (db\<lparr>q_verdicts := vs\<rparr>))"
  shows "P (snd (save_records table clash store xs db))"
proof -
  obtain r db' where r: "replace_rows table clash store (map Inr xs) db = (r, db')" by (rule prod.exhaust)
  from r have "P db'"
  proof (cases rule: replace_rows_cases)
    case (replaced ys vs)
    have "xs = ys" by (rule map_injective [OF replaced(1)]) simp
    then show ?thesis using replaced assms(3) by simp
  qed (use assms(2) in auto)
  then show ?thesis by (simp add: save_records_def r)
qed

lemma save_entities_cases:
  assumes "\<And>vs. P (db\<lparr>q_verdicts := vs\<rparr>)" "\<And>rows vs. rows_of enc m rows \<Longrightarrow> P (store rows (db\<lparr>q_verdicts := vs\<rparr>))"
  shows "P (snd (save_entities table store (entity_row enc values created updated) clock m db))"
proof -
  obtain r db' where r: "replace_rows table (same_by er_name) store (map (entity_row enc values created updated (clock db)) m) db = (r, db')"
    by (rule prod.exhaust)
  from r have "P db'"
  proof (cases rule: replace_rows_cases)
    case (replaced rows vs)
    then show ?thesis using assms(2) [OF entity_rows [OF replaced(1)]] by simp
  qed (use assms(1) in auto)
  then show ?thesis by (simp add: save_entities_def r)
qed

lemma save_steps_old_or_saved:
  "list_all (\<lambda>f. \<forall>db'. old_or_saved db s db' \<longrightarrow> old_or_saved db s (snd (f db'))) (save_steps (sql_backend clock) s)"
proof -
  note e = save_entities_cases [where P = "old_or_saved db s"] and r = save_records_cases [where P = "old_or_saved db s"]
  show ?thesis
    unfolding save_steps_def sql_backend_def backend_ops.simps list.pred_inject cluster_row_def service_row_def job_row_def
    by (intro conjI allI impI; (rule e r; simp add: old_or_saved_def)?) simp
qed

text \<open>C5. Every collection is saved in a transaction: whatever fails while a store is saved, an answer to a commit lost on the way
  included, each table holds the rows it held before or all the new ones.\<close>

theorem sql_save_atomic:
  "old_or_saved db s (snd (save_store (sql_backend clock) s db))"
  unfolding save_store_def
  by (rule each_w_keeps [OF save_steps_old_or_saved]) (simp add: old_or_saved_def)

text \<open>The statement that inserts an entity has as many placeholders as columns, and a row binds as many arguments.\<close>

definition placeholders_in :: "string \<Rightarrow> nat" where
  "placeholders_in q = length (filter ((=) CHR ''?'') q)"

lemma placeholders_of:
  "placeholders_in (insert_statement ''clusters'') = 10" "placeholders_in (insert_statement ''services'') = 7"
  "placeholders_in (insert_statement ''jobs'') = 9"
  and columns_of: "length (columns_for ''clusters'') = 6" "length (columns_for ''services'') = 3" "length (columns_for ''jobs'') = 5"
  by code_simp+

lemma args_of:
  "cluster_row now (k, c) = Inr r \<Longrightarrow> length (insert_args text r) = 10"
  "service_row now (k, v) = Inr r \<Longrightarrow> length (insert_args text r) = 7"
  "job_row now (k, j) = Inr r \<Longrightarrow> length (insert_args text r) = 9"
  by (auto simp: cluster_row_def service_row_def job_row_def entity_row_def bind_res_Inr insert_args_def
      cluster_values_def service_values_def job_values_def)

theorem insert_arguments_match:
  assumes "(table, row) \<in> {(''clusters'', cluster_row now (k, c)), (''services'', service_row now (k, v)), (''jobs'', job_row now (k, j))}"
    and "row = Inr r"
  shows "length (insert_args text r) = placeholders_in (insert_statement table) \<and>
    length (insert_args text r) = length (columns_for table) + 4"
proof -
  consider "table = ''clusters''" "cluster_row now (k, c) = Inr r" | "table = ''services''" "service_row now (k, v) = Inr r"
    | "table = ''jobs''" "job_row now (k, j) = Inr r"
    using assms by blast
  then show ?thesis by cases (simp_all only: args_of placeholders_of columns_of, simp_all)
qed

theorem insert_arguments_match_witness:
  "\<exists>r. cluster_row 9 (''c'', sample_cluster) = Inr r \<and> length (insert_args (\<lambda>_. []) r) = 10"
proof -
  obtain r where r: "cluster_row 9 (''c'', sample_cluster) = Inr r"
    by (cases "cluster_row 9 (''c'', sample_cluster)") (simp_all add: cluster_row_def entity_row_def marshal_cluster_def sample_cluster_def)
  with insert_arguments_match [of "''clusters''" "Inr r" 9 "''c''" sample_cluster] show ?thesis by (simp add: placeholders_of)
qed

text \<open>What two stores answer to every read.\<close>

definition same_reads :: "store \<Rightarrow> store \<Rightarrow> bool" where
  "same_reads s t \<longleftrightarrow> mget (st_clusters s) = mget (st_clusters t) \<and> mget (st_services s) = mget (st_services t) \<and>
     mget (st_jobs s) = mget (st_jobs t) \<and> mget (st_yamls s) = mget (st_yamls t) \<and> mget (st_history s) = mget (st_history t) \<and>
     st_events s = st_events t \<and> mget (st_config s) = mget (st_config t) \<and> st_tokens s = st_tokens t"

lemma mget_map_vals: "mget (map_vals f m) k = map_option f (mget m k)"
  by (induction m) (auto simp: map_vals_def)

lemma reactivate_same: "tk_active t = (\<not> token_expired t now) \<Longrightarrow> reactivate now t = t"
  by (simp add: reactivate_def)

text \<open>The SQL backend keeps the semantics of the file backend: a store saved through each of them is read back the same, as
  long as its events and tokens are in the order of their times and the tokens are marked by the clock.\<close>

theorem sql_equals_file:
  assumes "storable s" and "save_store (file_backend path) s fs = (None, fs')"
    and "\<forall>p \<in> set (state_paths path). p \<notin> set (fs_unreadable fs')"
    and "save_store (sql_backend clock) s db = (None, db')" and "q_verdicts db' = []"
    and "sorted (map e_transitioned_at (st_events s))" and "sorted (map tk_created_at (st_tokens s))"
    and "\<forall>t \<in> set (st_tokens s). tk_active t \<longleftrightarrow> \<not> token_expired t (clock db')"
  shows "\<exists>f q. open_at path fs' = (Inr f, fs') \<and> open_store (sql_backend clock) db' = (Inr q, db') \<and> same_reads f q"
proof -
  have "same_reads (norm_store s) (sql_store (clock db') s)"
    using assms(6-8)
    by (auto simp: same_reads_def norm_store_def sql_store_def mget_map_vals map_of_key_sorted fun_eq_iff sort_key_id_if_sorted
        reactivate_same intro!: map_idI [symmetric])
  then show ?thesis
    using open_file_saved [OF assms(1-3)] open_sql [OF assms(1) save_sql [OF assms(4)] assms(5)] by blast
qed

theorem sql_equals_file_witness:
  "\<exists>fs' db' f q. open_at ''s.json'' fs' = (Inr f, fs') \<and> open_store (sql_backend (\<lambda>_. 9)) db' = (Inr q, db') \<and> same_reads f q"
proof -
  let ?f = "save_store (file_backend ''s.json'') sql_sample sample_fs"
  let ?r = "save_store (sql_backend (\<lambda>_. 9)) sql_sample (sample_db [])"
  have "fst ?f = None" "fst ?r = None" by code_simp+
  then have fr: "?f = (None, snd ?f)" "?r = (None, snd ?r)" by (simp_all add: prod_eq_iff)
  have "fs_unreadable (snd ?f) = []" "q_verdicts (snd ?r) = []" by code_simp+
  moreover have "sorted (map e_transitioned_at (st_events sql_sample))" "sorted (map tk_created_at (st_tokens sql_sample))"
    "\<forall>t \<in> set (st_tokens sql_sample). tk_active t \<longleftrightarrow> \<not> token_expired t 9"
    by (simp_all add: sql_sample_def empty_store_def sample_token_def token_expired_def)
  ultimately show ?thesis
    using sql_equals_file [OF sql_sample_storable fr(1) _ fr(2)] by auto
qed

end
