(* ===== verification/Config.thy ===== *)
theory Config
  imports State_Store
begin

text \<open>
  The user's configuration, \<open>internal/config/config.go\<close>: finding and parsing the file of the user and that of the
  project, laying the second over the first, and the accessors. Parsing and decoding YAML is left to the
  library: a file is the tree of its nodes (\<open>cv_yaml\<close>), of which an empty document has none, and \<open>cv_decode\<close> reads
  the fields of a tree, whose errors the code drops. Aliases and merge keys are taken as resolved.
\<close>

section \<open>Nodes\<close>

datatype yaml_node = Node_map "(string \<times> yaml_node) list" | Node_seq "yaml_node list" | Node_scalar string

text \<open>
  \<open>mergeNode\<close> keeps the list of the children and the position of each key in it, the last one where the
  user's file repeats a key.
\<close>

definition last_child :: "string \<Rightarrow> (string \<times> yaml_node) list \<Rightarrow> yaml_node option" where
  "last_child k cs = map_of (rev cs) k"

fun set_first :: "string \<Rightarrow> yaml_node \<Rightarrow> (string \<times> yaml_node) list \<Rightarrow> (string \<times> yaml_node) list" where
  "set_first k v [] = []"
| "set_first k v ((k', x) # cs) = (if k' = k then (k, v) # cs else (k', x) # set_first k v cs)"

definition set_last :: "string \<Rightarrow> yaml_node \<Rightarrow> (string \<times> yaml_node) list \<Rightarrow> (string \<times> yaml_node) list" where
  "set_last k v cs = rev (set_first k v (rev cs))"

fun merge_children :: "(string \<times> yaml_node) list \<Rightarrow> (string \<times> yaml_node) list \<Rightarrow> (string \<times> yaml_node) list" and
    merge_value :: "yaml_node \<Rightarrow> yaml_node \<Rightarrow> yaml_node" where
  "merge_children cs [] = cs"
| "merge_children cs ((k, v) # over) =
     merge_children
       (case last_child k cs of
          None \<Rightarrow> cs @ [(k, v)]
        | Some old \<Rightarrow> set_last k (merge_value old v) cs) over"
| "merge_value (Node_map cs) (Node_map over) = Node_map (merge_children cs over)"
| "merge_value old v = v"

definition merge_node :: "yaml_node option \<Rightarrow> yaml_node \<Rightarrow> yaml_node" where
  "merge_node base over = (case base of None \<Rightarrow> over | Some b \<Rightarrow> merge_value b over)"

section \<open>The configuration\<close>

record logging_config =
  lc_level :: string
  lc_file :: string
  lc_format :: string
  lc_max_size :: int
  lc_max_backups :: int
  lc_max_age :: int
  lc_compress :: "bool option"

record config_values =
  cg_allowed :: "string list"
  cg_region :: string
  cg_zone :: string
  cg_spot :: "bool option"
  cg_logging :: logging_config

definition no_values :: config_values where
  "no_values = \<lparr>cg_allowed = [], cg_region = [], cg_zone = [], cg_spot = None,
     cg_logging = \<lparr>lc_level = [], lc_file = [], lc_format = [], lc_max_size = 0, lc_max_backups = 0, lc_max_age = 0,
       lc_compress = None\<rparr>\<rparr>"

record config =
  cf_values :: config_values
  cf_node :: "yaml_node option"

text \<open>\<open>cv_user_home\<close> is \<open>os.UserHomeDir\<close>, \<open>cv_cwd\<close> the working directory, empty when it cannot be told.\<close>

record 'w config_env =
  cv_env :: "string smap"
  cv_user_home :: "string res"
  cv_cwd :: string
  cv_join :: "string list \<Rightarrow> string"
  cv_read :: "string \<Rightarrow> 'w \<Rightarrow> string res"
  cv_yaml :: "string \<Rightarrow> yaml_node option res"
  cv_decode :: "yaml_node \<Rightarrow> config_values"

definition home_dir :: "'w config_env \<Rightarrow> string res" where
  "home_dir V =
     (if getenv (cv_env V) ''GPI_HOME'' \<noteq> [] then Inr (getenv (cv_env V) ''GPI_HOME'')
      else case cv_user_home V of Inl e \<Rightarrow> Inl e | Inr h \<Rightarrow> Inr (cv_join V [h, ''.gpi'']))"

definition user_path :: "'w config_env \<Rightarrow> string \<Rightarrow> string res" where
  "user_path V path =
     (if path \<noteq> [] then Inr path
      else case home_dir V of Inl e \<Rightarrow> Inl e | Inr dir \<Rightarrow> Inr (cv_join V [dir, ''config.yaml'']))"

definition project_path :: "'w config_env \<Rightarrow> string" where
  "project_path V = cv_join V [cv_cwd V, ''.gpi.yaml'']"

definition is_map_node :: "yaml_node \<Rightarrow> bool" where
  "is_map_node n = (case n of Node_map _ \<Rightarrow> True | _ \<Rightarrow> False)"

definition parse_node :: "'w config_env \<Rightarrow> string \<Rightarrow> 'w \<Rightarrow> yaml_node option" where
  "parse_node V file w =
     (case cv_read V file w of
        Inl _ \<Rightarrow> None
      | Inr data \<Rightarrow>
          (case cv_yaml V data of
             Inl _ \<Rightarrow> None
           | Inr None \<Rightarrow> None
           | Inr (Some n) \<Rightarrow> if is_map_node n then Some n else None))"

definition config_of :: "'w config_env \<Rightarrow> yaml_node option \<Rightarrow> config" where
  "config_of V base =
     (case base of
        None \<Rightarrow> \<lparr>cf_values = no_values, cf_node = None\<rparr>
      | Some n \<Rightarrow> \<lparr>cf_values = cv_decode V n, cf_node = Some n\<rparr>)"

definition read_config :: "'w config_env \<Rightarrow> string \<Rightarrow> 'w \<Rightarrow> config" where
  "read_config V path w =
     (let base = (case user_path V path of Inl _ \<Rightarrow> None | Inr user \<Rightarrow> parse_node V user w)
      in config_of V
           (case parse_node V (project_path V) w of None \<Rightarrow> base | Some proj \<Rightarrow> Some (merge_node base proj)))"

text \<open>The package's variables: the path set for tests and the configuration read last.\<close>

record config_state =
  cs_path :: string
  cs_config :: "config option"

definition set_path :: "string \<Rightarrow> config_state \<Rightarrow> config_state" where
  "set_path p st = st\<lparr>cs_path := p, cs_config := None\<rparr>"

definition reset_config :: "config_state \<Rightarrow> config_state" where
  "reset_config st = st\<lparr>cs_config := None\<rparr>"

definition load_config :: "'w config_env \<Rightarrow> 'w \<Rightarrow> config_state \<Rightarrow> config \<times> config_state" where
  "load_config V w st =
     (case cs_config st of
        Some c \<Rightarrow> (c, st)
      | None \<Rightarrow> (let c = read_config V (cs_path st) w in (c, st\<lparr>cs_config := Some c\<rparr>)))"

section \<open>Accessors\<close>

text \<open>The section of a cloud: the first child of that name, decoded by the caller.\<close>

definition no_section :: error where
  "no_section = Err ''config: no such section''"

definition config_section :: "config option \<Rightarrow> string \<Rightarrow> (yaml_node \<Rightarrow> 'a res) \<Rightarrow> 'a res" where
  "config_section c name decode =
     (case c of
        None \<Rightarrow> Inl no_section
      | Some cf \<Rightarrow>
          (case cf_node cf of
             Some (Node_map cs) \<Rightarrow> (case mget cs name of None \<Rightarrow> Inl no_section | Some v \<Rightarrow> decode v)
           | _ \<Rightarrow> Inl no_section))"

definition config_cloud :: "config option \<Rightarrow> string" where
  "config_cloud c =
     (case c of None \<Rightarrow> [] | Some cf \<Rightarrow>
        if length (cg_allowed (cf_values cf)) = 0 then [] else join_with '','' (cg_allowed (cf_values cf)))"

definition config_region :: "config option \<Rightarrow> string" where
  "config_region c = (case c of None \<Rightarrow> [] | Some cf \<Rightarrow> cg_region (cf_values cf))"

definition config_zone :: "config option \<Rightarrow> string" where
  "config_zone c = (case c of None \<Rightarrow> [] | Some cf \<Rightarrow> cg_zone (cf_values cf))"

definition config_spot :: "config option \<Rightarrow> bool" where
  "config_spot c = (case c of None \<Rightarrow> False | Some cf \<Rightarrow> (case cg_spot (cf_values cf) of None \<Rightarrow> False | Some b \<Rightarrow> b))"

definition log_level :: "config option \<Rightarrow> string" where
  "log_level c = (case c of None \<Rightarrow> [] | Some cf \<Rightarrow> lc_level (cg_logging (cf_values cf)))"

definition log_file :: "config option \<Rightarrow> string" where
  "log_file c = (case c of None \<Rightarrow> [] | Some cf \<Rightarrow> lc_file (cg_logging (cf_values cf)))"

definition log_format :: "config option \<Rightarrow> string" where
  "log_format c = (case c of None \<Rightarrow> [] | Some cf \<Rightarrow> lc_format (cg_logging (cf_values cf)))"

definition log_max_size :: "config option \<Rightarrow> int" where
  "log_max_size c = (case c of None \<Rightarrow> 0 | Some cf \<Rightarrow> lc_max_size (cg_logging (cf_values cf)))"

definition log_max_backups :: "config option \<Rightarrow> int" where
  "log_max_backups c = (case c of None \<Rightarrow> 0 | Some cf \<Rightarrow> lc_max_backups (cg_logging (cf_values cf)))"

definition log_max_age :: "config option \<Rightarrow> int" where
  "log_max_age c = (case c of None \<Rightarrow> 0 | Some cf \<Rightarrow> lc_max_age (cg_logging (cf_values cf)))"

definition log_compress :: "config option \<Rightarrow> bool option" where
  "log_compress c = (case c of None \<Rightarrow> None | Some cf \<Rightarrow> lc_compress (cg_logging (cf_values cf)))"

section \<open>What a merge gives\<close>

text \<open>A tree without repeated keys, and the node at a path of keys.\<close>

fun plain_node :: "yaml_node \<Rightarrow> bool" where
  "plain_node (Node_map cs) \<longleftrightarrow> distinct (map fst cs) \<and> (\<forall>(k, v) \<in> set cs. plain_node v)"
| "plain_node (Node_seq ns) \<longleftrightarrow> True"
| "plain_node (Node_scalar s) \<longleftrightarrow> True"

fun node_at :: "string list \<Rightarrow> yaml_node \<Rightarrow> yaml_node option" where
  "node_at [] n = Some n"
| "node_at (k # p) (Node_map cs) = (case mget cs k of None \<Rightarrow> None | Some v \<Rightarrow> node_at p v)"
| "node_at (k # p) n = None"

text \<open>A value that is not a mapping.\<close>

definition leaf_at :: "string list \<Rightarrow> yaml_node \<Rightarrow> yaml_node option" where
  "leaf_at p n = (case node_at p n of Some v \<Rightarrow> if is_map_node v then None else Some v | None \<Rightarrow> None)"

text \<open>The overlay says nothing about a path when the path leaves it at a mapping without the next key.\<close>

fun silent_at :: "string list \<Rightarrow> yaml_node \<Rightarrow> bool" where
  "silent_at [] n \<longleftrightarrow> False"
| "silent_at (k # p) (Node_map cs) \<longleftrightarrow> (case mget cs k of None \<Rightarrow> True | Some v \<Rightarrow> silent_at p v)"
| "silent_at (k # p) n \<longleftrightarrow> False"

lemma keys_set_first: "map fst (set_first k v cs) = map fst cs"
  by (induction cs) auto

lemma mget_set_first: "mget (set_first k v cs) k' = (if k' = k \<and> k \<in> fst ` set cs then Some v else mget cs k')"
  by (induction cs) (auto split: if_splits)

lemma map_of_rev_distinct: "distinct (map fst cs) \<Longrightarrow> map_of (rev cs) = map_of cs"
  by (rule map_of_eqI) (auto simp: rev_map [symmetric])

lemma set_last_distinct:
  assumes "distinct (map fst cs)"
  shows "map fst (set_last k v cs) = map fst cs"
    and "mget (set_last k v cs) k' = (if k' = k \<and> k \<in> fst ` set cs then Some v else mget cs k')"
proof -
  show keys: "map fst (set_last k v cs) = map fst cs"
    by (simp add: set_last_def rev_map [symmetric] keys_set_first)
  have "mget (set_last k v cs) = map_of (set_first k v (rev cs))"
    unfolding set_last_def using assms by (intro map_of_rev_distinct) (simp add: keys_set_first rev_map [symmetric])
  then show "mget (set_last k v cs) k' = (if k' = k \<and> k \<in> fst ` set cs then Some v else mget cs k')"
    using assms by (simp add: mget_set_first map_of_rev_distinct)
qed

text \<open>One key of the overlay, on keys that occur once.\<close>

definition merge_step :: "string \<Rightarrow> yaml_node \<Rightarrow> (string \<times> yaml_node) list \<Rightarrow> (string \<times> yaml_node) list" where
  "merge_step k v cs = (case last_child k cs of None \<Rightarrow> cs @ [(k, v)] | Some old \<Rightarrow> set_last k (merge_value old v) cs)"

lemma merge_children_Cons: "merge_children cs ((k, v) # over) = merge_children (merge_step k v cs) over"
  by (simp add: merge_step_def)

lemma merge_one:
  assumes "distinct (map fst cs)"
  shows "distinct (map fst (merge_step k v cs))"
    and "mget (merge_step k v cs) k' =
      (if k' = k then Some (case mget cs k of None \<Rightarrow> v | Some old \<Rightarrow> merge_value old v) else mget cs k')"
proof -
  have lc: "last_child k cs = mget cs k" by (simp add: last_child_def map_of_rev_distinct [OF assms(1)])
  have "distinct (map fst (merge_step k v cs)) \<and> mget (merge_step k v cs) k' =
      (if k' = k then Some (case mget cs k of None \<Rightarrow> v | Some old \<Rightarrow> merge_value old v) else mget cs k')"
  proof (cases "mget cs k")
    case None
    then have "k \<notin> fst ` set cs" by (simp add: map_of_eq_None_iff)
    then show ?thesis using assms by (simp add: merge_step_def lc None map_of_append map_add_def split: option.split)
  next
    case (Some old)
    then have "k \<in> fst ` set cs" by (rule mget_in_keys)
    then show ?thesis using assms by (simp add: merge_step_def lc Some set_last_distinct)
  qed
  then show "distinct (map fst (merge_step k v cs))"
    and "mget (merge_step k v cs) k' =
      (if k' = k then Some (case mget cs k of None \<Rightarrow> v | Some old \<Rightarrow> merge_value old v) else mget cs k')" by simp_all
qed

lemma merge_children_lookup:
  assumes "distinct (map fst cs)" "distinct (map fst over)"
  shows "mget (merge_children cs over) k =
    (case mget over k of None \<Rightarrow> mget cs k
     | Some v \<Rightarrow> Some (case mget cs k of None \<Rightarrow> v | Some old \<Rightarrow> merge_value old v))"
  using assms
proof (induction over arbitrary: cs)
  case (Cons kv over)
  obtain k0 v0 where kv: "kv = (k0, v0)" by (cases kv)
  have "mget over k0 = None" using Cons.prems(2) by (simp add: kv map_of_eq_None_iff)
  then show ?case
    using Cons.prems Cons.IH [OF merge_one(1) [OF Cons.prems(1)]]
    by (cases "k = k0") (simp_all add: kv merge_children_Cons merge_one(2) [OF Cons.prems(1)] del: merge_children.simps(2) split: option.split)
qed simp

lemma leaf_at_other: "leaf_at (k # p) (Node_seq ns) = None" "leaf_at (k # p) (Node_scalar s) = None"
  by (simp_all add: leaf_at_def)

lemma leaf_at_Cons: "leaf_at (k # p) (Node_map cs) = (case mget cs k of None \<Rightarrow> None | Some v \<Rightarrow> leaf_at p v)"
  by (simp add: leaf_at_def split: option.split)

lemma silent_no_leaf: "silent_at p n \<Longrightarrow> leaf_at p n = None"
  by (induction p n rule: silent_at.induct) (auto simp: leaf_at_def split: option.splits)

lemma merge_value_leaf:
  "plain_node b \<Longrightarrow> plain_node n \<Longrightarrow>
    leaf_at p (merge_value b n) = (if silent_at p n then leaf_at p b else leaf_at p n)"
proof (induction p arbitrary: b n)
  case Nil
  then show ?case by (cases "(b, n)" rule: merge_value.cases) (auto simp: leaf_at_def is_map_node_def)
next
  case (Cons k p)
  show ?case
  proof (cases "\<exists>cs over. b = Node_map cs \<and> n = Node_map over")
    case True
    then obtain cs over where bn: "b = Node_map cs" "n = Node_map over" by blast
    have d: "distinct (map fst cs)" "distinct (map fst over)" using Cons.prems by (simp_all add: bn)
    have sub: "mget cs k = Some x \<Longrightarrow> plain_node x" "mget over k = Some x \<Longrightarrow> plain_node x" for x
      using Cons.prems by (auto simp: bn dest!: map_of_SomeD)
    show ?thesis
      using Cons.IH sub silent_no_leaf by (auto simp: bn leaf_at_Cons merge_children_lookup [OF d] split: option.split)
  next
    case False
    then have "merge_value b n = n" by (cases "(b, n)" rule: merge_value.cases) auto
    with False show ?thesis
      by (cases b; cases n) (auto simp: leaf_at_Cons leaf_at_other silent_no_leaf split: option.split)
  qed
qed


definition two_files :: "unit config_env" where
  "two_files = \<lparr>cv_env = [(''GPI_HOME'', ''/g'')], cv_user_home = Inl (Err ''none''), cv_cwd = ''/p'', cv_join = join_with ''/'',
     cv_read = (\<lambda>f _. Inr f),
     cv_yaml = (\<lambda>f. Inr (Some (Node_map
       (if f = ''/g/config.yaml'' then [(''region'', Node_scalar ''r1''), (''aws'', Node_map [(''ssh_user'', Node_scalar ''root''), (''vpc'', Node_scalar ''v'')])]
        else [(''aws'', Node_map [(''vpc'', Node_scalar ''w'')])])))),
     cv_decode = (\<lambda>_. no_values)\<rparr>"


text \<open>The configuration is read once: later changes of the files are not seen until it is reset.\<close>

lemma load_config_cached: "load_config V w' (snd (load_config V w st)) = (fst (load_config V w st), snd (load_config V w st))"
  by (simp add: load_config_def Let_def split: option.split)

end
