(* ===== verification/Cloud_Http.thy ===== *)
theory Cloud_Http
  imports Effects
begin

text \<open>
  What the clients of the cloud interfaces share: requests and what becomes of them, the encoding of a form, the
  repeated attempts of one call, and reading the tree of a JSON answer into the fields the code names, as
  \<open>encoding/json\<close> does.
\<close>

section \<open>Requests\<close>

record http_request =
  hr_verb :: string
  hr_url :: string
  hr_headers :: "string smap"
  hr_body :: string

text \<open>
  A request cannot be made, is not answered, or is answered with a status and the bytes of the body that were read,
  with the error that cut the reading off.
\<close>

datatype http_reply = Bad_request error | No_answer error | Answered int string "error option"

definition truncate_text :: "string \<Rightarrow> nat \<Rightarrow> string" where
  "truncate_text s n = (if length s \<le> n then s else take n s)"

text \<open>\<open>url.Values.Encode\<close>: the pairs sorted by key, escaped.\<close>

definition hex_up :: "nat \<Rightarrow> char" where
  "hex_up n = upper_char (hex_low n)"

definition query_char :: "char \<Rightarrow> string" where
  "query_char c =
     (if is_lower c \<or> is_upper c \<or> is_digit c \<or> c \<in> set ''-_.~'' then [c]
      else if c = CHR '' '' then ''+''
      else [CHR ''%'', hex_up (of_char c div 16), hex_up (of_char c mod 16)])"

definition query_escape :: "string \<Rightarrow> string" where
  "query_escape s = concat (map query_char s)"

definition form_encode :: "string smap \<Rightarrow> string" where
  "form_encode m =
     join_with ''&'' (map (\<lambda>k. query_escape k @ ''='' @ query_escape (case mget m k of Some v \<Rightarrow> v | None \<Rightarrow> [])) (sorted_keys m))"

text \<open>
  The attempts of one call, of which there is always a first: only a request without an answer is tried again. \<open>wait\<close>
  returns the error of the context when that is done first; \<open>failure\<close> makes the error of an answer that is not a success.
\<close>

fun send_loop ::
  "(http_request \<Rightarrow> 'w \<Rightarrow> http_reply \<times> 'w) \<Rightarrow> (int \<Rightarrow> 'w \<Rightarrow> error option \<times> 'w) \<Rightarrow> (int \<Rightarrow> string \<Rightarrow> error) \<Rightarrow> http_request \<Rightarrow>
   int list \<Rightarrow> error \<Rightarrow> (string, 'w) act" where
  "send_loop post wait failure rq [] err w = (Inl err, w)"
| "send_loop post wait failure rq (a # as) err w =
     (case post rq w of
        (Bad_request e, w1) \<Rightarrow> (Inl e, w1)
      | (No_answer e, w1) \<Rightarrow>
          (case wait ((a + 1) * 500 * 1000000) w1 of
             (Some ce, w2) \<Rightarrow> (Inl ce, w2)
           | (None, w2) \<Rightarrow> send_loop post wait failure rq as e w2)
      | (Answered status body broken, w1) \<Rightarrow>
          (case broken of
             Some e \<Rightarrow> (Inl e, w1)
           | None \<Rightarrow> if 300 \<le> status then (Inl (failure status body), w1) else (Inr body, w1)))"

definition send_request ::
  "(http_request \<Rightarrow> 'w \<Rightarrow> http_reply \<times> 'w) \<Rightarrow> (int \<Rightarrow> 'w \<Rightarrow> error option \<times> 'w) \<Rightarrow> (int \<Rightarrow> string \<Rightarrow> error) \<Rightarrow> http_request \<Rightarrow>
   (string, 'w) act" where
  "send_request post wait failure rq = send_loop post wait failure rq [0..2] (Err [])"

section \<open>Trees of answers\<close>

text \<open>
  The type of a field the code decodes into. A \<open>null\<close> fits every type and leaves the zero value; a key that is not named is
  skipped; a value of another kind is an error of the whole document. Keys are matched exactly.
\<close>

datatype shape = Sh_any | Sh_str | Sh_int | Sh_float | Sh_bool | Sh_list shape | Sh_dict shape | Sh_rec "(string \<times> shape) list"

fun fits :: "shape \<Rightarrow> json \<Rightarrow> bool" where
  "fits sh JNull \<longleftrightarrow> True"
| "fits sh (JBool b) \<longleftrightarrow> sh = Sh_any \<or> sh = Sh_bool"
| "fits sh (JNum q) \<longleftrightarrow> sh = Sh_any \<or> sh = Sh_float \<or> sh = Sh_int \<and> of_int \<lfloor>q\<rfloor> = q"
| "fits sh (JStr s) \<longleftrightarrow> sh = Sh_any \<or> sh = Sh_str"
| "fits sh (JArr js) \<longleftrightarrow> sh = Sh_any \<or> (case sh of Sh_list s \<Rightarrow> list_all (fits s) js | _ \<Rightarrow> False)"
| "fits sh (JObj kvs) \<longleftrightarrow> sh = Sh_any \<or>
     (case sh of
        Sh_dict s \<Rightarrow> list_all (\<lambda>kv. fits s (snd kv)) kvs
      | Sh_rec fs \<Rightarrow> list_all (\<lambda>kv. case map_of fs (fst kv) of None \<Rightarrow> True | Some s \<Rightarrow> fits s (snd kv)) kvs
      | _ \<Rightarrow> False)"

text \<open>Reading by keys; a key that is missing gives the zero value.\<close>

fun json_at :: "string list \<Rightarrow> json \<Rightarrow> json" where
  "json_at [] j = j"
| "json_at (k # p) (JObj kvs) = (case mget kvs k of None \<Rightarrow> JNull | Some v \<Rightarrow> json_at p v)"
| "json_at (k # p) _ = JNull"

fun json_kids :: "json \<Rightarrow> json list" where
  "json_kids (JObj kvs) = map snd kvs"
| "json_kids (JArr vs) = vs"
| "json_kids _ = []"

fun json_str :: "json \<Rightarrow> string" where
  "json_str (JStr s) = s"
| "json_str _ = []"

fun json_int :: "json \<Rightarrow> int" where
  "json_int (JNum q) = \<lfloor>q\<rfloor>"
| "json_int _ = 0"

fun json_float :: "json \<Rightarrow> f64" where
  "json_float (JNum q) = Fin q"
| "json_float _ = Fin 0"

fun json_bool :: "json \<Rightarrow> bool" where
  "json_bool (JBool b) = b"
| "json_bool _ = False"

fun json_dict :: "json \<Rightarrow> string smap" where
  "json_dict (JObj kvs) = put_all (map (\<lambda>(k, v). (k, json_str v)) kvs)"
| "json_dict _ = []"

abbreviation str_at :: "string list \<Rightarrow> json \<Rightarrow> string" where "str_at p j \<equiv> json_str (json_at p j)"
abbreviation int_at :: "string list \<Rightarrow> json \<Rightarrow> int" where "int_at p j \<equiv> json_int (json_at p j)"
abbreviation float_at :: "string list \<Rightarrow> json \<Rightarrow> f64" where "float_at p j \<equiv> json_float (json_at p j)"
abbreviation bool_at :: "string list \<Rightarrow> json \<Rightarrow> bool" where "bool_at p j \<equiv> json_bool (json_at p j)"
abbreviation kids_at :: "string list \<Rightarrow> json \<Rightarrow> json list" where "kids_at p j \<equiv> json_kids (json_at p j)"

definition bad_shape :: error where
  "bad_shape = Err ''json: cannot unmarshal''"

text \<open>\<open>json.Unmarshal\<close> of a text into a value of a type; \<open>parse\<close> reads the text into its tree.\<close>

definition unmarshal :: "(string \<Rightarrow> json res) \<Rightarrow> shape \<Rightarrow> string \<Rightarrow> json res" where
  "unmarshal parse sh text =
     (case parse text of Inl e \<Rightarrow> Inl e | Inr j \<Rightarrow> if fits sh j then Inr j else Inl bad_shape)"

section \<open>Networks and images\<close>

record vswitch =
  vw_id :: string
  vw_name :: string
  vw_zone :: string
  vw_cidr :: string
  vw_vpc :: string

text \<open>The image with the latest date, the first of them when there are several.\<close>

definition newest_image :: "(string \<times> string) list \<Rightarrow> string option" where
  "newest_image items =
     (case sort_by (\<lambda>a b. snd b < snd a) items of [] \<Rightarrow> None | (ident, _) # _ \<Rightarrow> Some ident)"

text \<open>The zone asked for, or the one in the middle of the list.\<close>

definition pick_zone :: "string \<Rightarrow> string \<Rightarrow> (string list, 'w) act \<Rightarrow> (string, 'w) act" where
  "pick_zone region zone zones =
     (if zone \<noteq> [] then ret zone
      else bind_act zones (\<lambda>zs.
             if length zs = 0 then raise (Err (''no zones available in '' @ region)) else ret (zs ! (length zs div 2))))"

text \<open>A call for each machine until one fails.\<close>

fun each_id :: "(string \<Rightarrow> (unit, 'w) act) \<Rightarrow> string list \<Rightarrow> (unit, 'w) act" where
  "each_id f [] = ret ()"
| "each_id f (i # is) = seq_act (f i) (each_id f is)"

text \<open>The tags of a new machine, numbered.\<close>

definition put_if :: "bool \<Rightarrow> (string \<times> string) list \<Rightarrow> string smap \<Rightarrow> string smap" where
  "put_if b kvs m = (if b then foldl (\<lambda>m (k, v). mput k v m) m kvs else m)"

definition tag_key :: "string \<Rightarrow> int \<Rightarrow> string \<Rightarrow> string" where
  "tag_key prefix i part = prefix @ itoa i @ ''.'' @ part"

fun number_tags :: "string \<Rightarrow> int \<Rightarrow> string smap \<Rightarrow> string smap \<Rightarrow> string smap" where
  "number_tags prefix i [] params = params"
| "number_tags prefix i ((k, v) # tags) params =
     number_tags prefix (i + 1) tags (mput (tag_key prefix i ''Value'') v (mput (tag_key prefix i ''Key'') k params))"

end
