(* ===== verification/Cloud_Launch.thy ===== *)
theory Cloud_Launch
  imports Effects
begin

text \<open>
  The part of \<open>RunInstances\<close> that the providers of AWS and Aliyun share line by line: the machines of the cluster that
  already run are reused, stopped ones are started again, and new ones are tried in one network after the
  other. What a provider calls for it is an argument. The contract of both providers is the locale
  \<open>launch_client\<close>.
\<close>

section \<open>Reusing machines\<close>

definition status_pending :: instance_status where "status_pending = ''pending''"
definition status_stopping :: instance_status where "status_stopping = ''stopping''"
definition status_starting :: instance_status where "status_starting = ''starting''"
definition status_terminating :: instance_status where "status_terminating = ''terminating''"
definition status_unknown :: instance_status where "status_unknown = ''unknown''"

definition alive :: "inst \<Rightarrow> bool" where
  "alive i \<longleftrightarrow> i_status i = status_running \<or> i_status i = status_pending \<or> i_status i = status_starting"

definition halted :: "inst \<Rightarrow> bool" where
  "halted i \<longleftrightarrow> i_status i = status_stopped \<or> i_status i = status_stopping"

definition slice_panic :: error where
  "slice_panic = Panic ''slice bounds out of range''"

text \<open>
  \<open>None\<close>: new machines are needed. When the running and the started machines are too few the code slices past
  the end: beyond the capacity that panics, within it the missing entries are nil and panic when named.
\<close>

definition reuse_nodes :: "(string list \<Rightarrow> (unit, 'w) act) \<Rightarrow> launch_spec \<Rightarrow> inst list \<Rightarrow> (inst list option, 'w) act" where
  "reuse_nodes start spec existing =
     (let running = filter alive existing;
          stopped = filter halted existing;
          n = ls_num_nodes spec
      in if n \<le> int (length running)
         then (if n < 0 then raise slice_panic
               else ret (Some (map (\<lambda>i. i\<lparr>i_name := ls_name_prefix spec\<rparr>) (take (nat n) running))))
         else if 0 < length stopped \<and> ls_resume spec
         then (let some = take (nat (n - int (length running))) stopped
               in seq_act (catch_act (start (map i_id some)) (\<lambda>e. raise (wrap_err ''start stopped instances: '' e)))
                    (if int (length (running @ some)) < n then raise slice_panic
                     else ret (Some (map (\<lambda>i. i\<lparr>i_name := ls_name_prefix spec, i_status := status_starting\<rparr>)
                            (take (nat n) (running @ some))))))
         else ret None)"

section \<open>One network after the other\<close>

text \<open>
  Only an error that says so is worth the next network, after a pause. Without any network the loop does nothing
  and no error is returned.
\<close>

fun try_in_turn ::
  "(error \<Rightarrow> bool) \<Rightarrow> ('w \<Rightarrow> error option \<times> 'w) \<Rightarrow> ('n \<Rightarrow> ('a list, 'w) act) \<Rightarrow> 'n list \<Rightarrow> ('a list, 'w) act" where
  "try_in_turn again pause f [] w = (Inr [], w)"
| "try_in_turn again pause f (n # ns) w =
     (case f n w of
        (Inr x, w1) \<Rightarrow> (Inr x, w1)
      | (Inl e, w1) \<Rightarrow>
          if again e \<and> ns \<noteq> []
          then (case pause w1 of (Some ce, w2) \<Rightarrow> (Inl ce, w2) | (None, w2) \<Rightarrow> try_in_turn again pause f ns w2)
          else (Inl e, w1))"

definition contains_any :: "string list \<Rightarrow> error \<Rightarrow> bool" where
  "contains_any subs e = (case e of Panic _ \<Rightarrow> False | Err m \<Rightarrow> list_ex (contains_str m) subs)"

definition two_seconds :: int where "two_seconds = 2 * 1000000000"

text \<open>The machines just asked for.\<close>

definition pending_inst :: "launch_spec \<Rightarrow> string \<Rightarrow> string \<Rightarrow> inst" where
  "pending_inst spec zone ident =
     \<lparr>i_id = ident, i_name = ls_name_prefix spec, i_public_ip = [], i_private_ip = [], i_status = status_pending,
      i_type = ls_instance_type spec, i_region = ls_region spec, i_zone = zone, i_created_at = 0, i_tags = []\<rparr>"

section \<open>What the attempts amount to\<close>

text \<open>Networks that were tried and given up: each failed with an error worth another try, and the pause went by.\<close>

inductive given_up ::
  "(error \<Rightarrow> bool) \<Rightarrow> ('w \<Rightarrow> error option \<times> 'w) \<Rightarrow> ('n \<Rightarrow> ('a list, 'w) act) \<Rightarrow> 'w \<Rightarrow> 'n list \<Rightarrow> 'w \<Rightarrow> bool"
  for again pause f where
  nothing: "given_up again pause f w [] w"
| another: "f n w = (Inl e, w1) \<Longrightarrow> again e \<Longrightarrow> pause w1 = (None, w2) \<Longrightarrow> given_up again pause f w2 ns w3
    \<Longrightarrow> given_up again pause f w (n # ns) w3"

inductive_cases given_up_ConsE: "given_up again pause f w (n # ns) w'"

lemma try_in_turn_Inr:
  assumes "try_in_turn again pause f ns w = (Inr x, w')" "ns \<noteq> []"
  shows "\<exists>before n after w1. ns = before @ n # after \<and> given_up again pause f w before w1 \<and> f n w1 = (Inr x, w')"
  using assms
proof (induction ns arbitrary: w)
  case (Cons n ns)
  show ?case
  proof (cases "fst (f n w)")
    case (Inr y)
    then have "f n w = (Inr x, w')" using Cons.prems by (cases "f n w") simp
    then show ?thesis by (metis append_Nil given_up.nothing)
  next
    case (Inl e)
    then obtain w1 where f: "f n w = (Inl e, w1)" by (metis prod.collapse)
    obtain ce w2 where p: "pause w1 = (ce, w2)" by (cases "pause w1")
    have more: "again e" "ns \<noteq> []" "ce = None" "try_in_turn again pause f ns w2 = (Inr x, w')"
      using Cons.prems f p by (auto split: if_splits option.splits)
    then obtain before m after w3 where "ns = before @ m # after" "given_up again pause f w2 before w3" "f m w3 = (Inr x, w')"
      using Cons.IH by blast
    then show ?thesis
      using given_up.another [of f n w e w1 again pause w2] f p more by (metis append_Cons)
  qed
qed simp

lemma try_in_turn_Inl:
  assumes "try_in_turn again pause f ns w = (Inl e, w')"
  shows "\<exists>before n after w1. ns = before @ n # after \<and> given_up again pause f w before w1 \<and>
    (f n w1 = (Inl e, w') \<and> (after = [] \<or> \<not> again e) \<or>
     (\<exists>e' w2. f n w1 = (Inl e', w2) \<and> again e' \<and> pause w2 = (Some e, w')))"
  using assms
proof (induction ns arbitrary: w)
  case (Cons n ns)
  obtain e1 w1 where f: "f n w = (Inl e1, w1)"
    using Cons.prems by (cases "f n w"; cases "fst (f n w)") auto
  show ?case
  proof (cases "again e1 \<and> ns \<noteq> []")
    case False
    then have "f n w = (Inl e, w')" "ns = [] \<or> \<not> again e" using Cons.prems f by auto
    then show ?thesis by (metis append_Nil given_up.nothing)
  next
    case True
    obtain ce w2 where p: "pause w1 = (ce, w2)" by (cases "pause w1")
    show ?thesis
    proof (cases ce)
      case (Some c)
      then have "pause w1 = (Some e, w')" using Cons.prems f p True by simp
      then show ?thesis using f True by (metis append_Nil given_up.nothing)
    next
      case None
      then have "try_in_turn again pause f ns w2 = (Inl e, w')" using Cons.prems f p True by simp
      from Cons.IH [OF this] obtain before m after w3 where
        "ns = before @ m # after" "given_up again pause f w2 before w3"
        "f m w3 = (Inl e, w') \<and> (after = [] \<or> \<not> again e) \<or>
         (\<exists>e' w2. f m w3 = (Inl e', w2) \<and> again e' \<and> pause w2 = (Some e, w'))" by blast
      then show ?thesis
        using given_up.another [of f n w e1 w1 again pause w2 before w3] f p True None by (metis append_Cons)
    qed
  qed
qed simp

section \<open>The contract of a provider\<close>

text \<open>
  \<open>run\<close> is the provider's \<open>RunInstances\<close>, \<open>listed\<close> its listing of the cluster's machines, \<open>start\<close> its start of
  machines and \<open>create\<close> what it does when none are reused. A provider promises that it first lists and reuses, and that
  what it creates bears the name of the cluster and is pending.
\<close>

definition named :: "launch_spec \<Rightarrow> inst \<Rightarrow> bool" where
  "named spec i \<longleftrightarrow> i_name i = ls_name_prefix spec"

locale launch_client =
  fixes run :: "launch_spec \<Rightarrow> (inst list, 'w) act"
    and listed :: "launch_spec \<Rightarrow> (inst list, 'w) act"
    and start :: "launch_spec \<Rightarrow> string list \<Rightarrow> (unit, 'w) act"
    and create :: "launch_spec \<Rightarrow> (inst list, 'w) act"
  assumes run_listed: "listed spec w = (Inr existing, w1) \<Longrightarrow>
      run spec w = bind_act (reuse_nodes (start spec) spec existing)
        (\<lambda>r. case r of Some is \<Rightarrow> ret is | None \<Rightarrow> create spec) w1"
    and run_unlisted: "listed spec w = (Inl e, w1) \<Longrightarrow> \<exists>e'. run spec w = (Inl e', w1)"
    and create_named: "create spec w = (Inr is, w1) \<Longrightarrow>
      list_all (\<lambda>i. named spec i \<and> i_status i = status_pending \<and> i_type i = ls_instance_type spec) is"
begin

text \<open>
  Enough machines alive: exactly the first ones are returned and nothing else is called. Too few, and stopped ones that may
  be resumed: these are started, and when there are too few of both the code panics. Otherwise new ones are made.
\<close>

lemma outcome:
  assumes "listed spec w = (Inr existing, w1)" "0 \<le> ls_num_nodes spec"
  shows "run spec w =
    (let up = filter alive existing; off = filter halted existing; n = nat (ls_num_nodes spec); some = take (n - length up) off
     in if n \<le> length up then (Inr (map (\<lambda>i. i\<lparr>i_name := ls_name_prefix spec\<rparr>) (take n up)), w1)
        else if off \<noteq> [] \<and> ls_resume spec
        then (case start spec (map i_id some) w1 of
                (Inl e, w2) \<Rightarrow> (Inl (wrap_err ''start stopped instances: '' e), w2)
              | (Inr _, w2) \<Rightarrow>
                  if length up + length off < n then (Inl slice_panic, w2)
                  else (Inr (map (\<lambda>i. i\<lparr>i_name := ls_name_prefix spec, i_status := status_starting\<rparr>) (up @ some)), w2))
        else create spec w1)"
proof -
  define n where "n = nat (ls_num_nodes spec)"
  then have n: "ls_num_nodes spec = int n" using assms(2) by simp
  have d: "nat (int n - int l) = n - l" for l by simp
  show ?thesis
    unfolding run_listed [OF assms(1)] reuse_nodes_def n Let_def d
    by (auto simp: bind_act_def seq_act_def catch_act_def min_def split: prod.split sum.split)
qed

text \<open>Whatever is returned bears the name of the cluster.\<close>

lemma run_named:
  assumes "run spec w = (Inr is, w')"
  shows "list_all (named spec) is"
proof -
  obtain r w1 where l: "listed spec w = (r, w1)" by (cases "listed spec w")
  obtain existing where r: "r = Inr existing"
    using run_unlisted [of spec w _ w1] l assms by (cases r) auto
  have "run spec w = bind_act (reuse_nodes (start spec) spec existing)
        (\<lambda>r. case r of Some is \<Rightarrow> ret is | None \<Rightarrow> create spec) w1"
    using run_listed l r by simp
  with assms obtain o' w2 where u: "reuse_nodes (start spec) spec existing w1 = (Inr o', w2)"
    and c: "(case o' of Some is \<Rightarrow> ret is | None \<Rightarrow> create spec) w2 = (Inr is, w')"
    by (auto simp: bind_act_Inr)
  show ?thesis
  proof (cases o')
    case None
    then show ?thesis using create_named [of spec w2 "is" w'] c by (auto simp: list_all_iff)
  next
    case (Some js)
    then have "is = js" using c by simp
    then show ?thesis
      using u Some by (auto simp: reuse_nodes_def Let_def seq_act_def bind_act_Inr named_def list_all_iff split: if_splits)
  qed
qed

end

end
