(* ===== verification/Aws_Client.thy ===== *)
theory Aws_Client
  imports Cloud_Http Config
begin

text \<open>
  The client of the EC2 API, \<open>internal/cloud/aws/client.go\<close> and \<open>sign.go\<close>: finding the credentials, signing a
  request (AWS Signature Version 4), sending it and reading the answer. SHA-256 and its HMAC, the transport,
  the parsing of XML text into a tree and of times are parameters; the tree is decoded here, as
  \<open>encoding/xml\<close> does for the tags the code names.
\<close>

section \<open>Answers\<close>

text \<open>An element with its children and its text.\<close>

datatype xml = Xml string "xml list" string

fun xml_tag :: "xml \<Rightarrow> string" where "xml_tag (Xml t ks s) = t"

fun xml_kids :: "xml \<Rightarrow> xml list" where "xml_kids (Xml t ks s) = ks"

fun xml_text :: "xml \<Rightarrow> string" where "xml_text (Xml t ks s) = s"

fun xml_all :: "string list \<Rightarrow> xml \<Rightarrow> xml list" where
  "xml_all [] n = [n]"
| "xml_all (t # p) n = concat (map (xml_all p) (filter (\<lambda>k. xml_tag k = t) (xml_kids n)))"

text \<open>A string, an integer, a boolean at a path of tags; of several elements the last one counts.\<close>

definition xml_str :: "string list \<Rightarrow> xml \<Rightarrow> string" where
  "xml_str p n = (case rev (xml_all p n) of [] \<Rightarrow> [] | k # _ \<Rightarrow> xml_text k)"

definition xml_int_text :: "string \<Rightarrow> int res" where
  "xml_int_text s =
     (if trim_space s = [] then Inr 0
      else case atoi (trim_space s) of Some i \<Rightarrow> Inr i | None \<Rightarrow> Inl (Err (''strconv.ParseInt: parsing '' @ quote_str s @ '': invalid syntax'')))"

definition xml_int :: "string list \<Rightarrow> xml \<Rightarrow> int res" where
  "xml_int p n =
     (case map_res (\<lambda>k. xml_int_text (xml_text k)) (xml_all p n) of
        Inl e \<Rightarrow> Inl e
      | Inr is \<Rightarrow> Inr (case rev is of [] \<Rightarrow> 0 | i # _ \<Rightarrow> i))"

definition xml_bool_text :: "string \<Rightarrow> bool res" where
  "xml_bool_text s =
     (let b = trim_space s
      in if b = [] then Inr False
         else if b \<in> {''1'', ''t'', ''T'', ''true'', ''TRUE'', ''True''} then Inr True
         else if b \<in> {''0'', ''f'', ''F'', ''false'', ''FALSE'', ''False''} then Inr False
         else Inl (Err (''strconv.ParseBool: parsing '' @ quote_str s @ '': invalid syntax'')))"

definition xml_bool :: "string list \<Rightarrow> xml \<Rightarrow> bool res" where
  "xml_bool p n =
     (case map_res (\<lambda>k. xml_bool_text (xml_text k)) (xml_all p n) of
        Inl e \<Rightarrow> Inl e
      | Inr bs \<Rightarrow> Inr (case rev bs of [] \<Rightarrow> False | b # _ \<Rightarrow> b))"

section \<open>The outside\<close>

text \<open>
  \<open>ae_hash\<close> is \<open>sha256hex\<close>, \<open>ae_hmac\<close> the HMAC with a key; \<open>ae_date\<close> the time as \<open>20060102T150405Z\<close>, \<open>ae_day_ago\<close> that of
  a day before in RFC 3339; \<open>ae_wait\<close> waits unless the context is done first; \<open>ae_instant\<close> parses a time in one of the
  layouts of the code; \<open>ae_scan\<close> is \<open>Sscanf\<close> with \<open>%f\<close>; \<open>ae_marshal\<close> and \<open>ae_json\<close> write and read JSON text. \<open>ae_pages\<close>
  bounds the pages read of one listing.
\<close>

record 'w aws_env =
  ae_env :: "string smap"
  ae_user_home :: "string res"
  ae_join :: "string list \<Rightarrow> string"
  ae_read :: "string \<Rightarrow> 'w \<Rightarrow> string res"
  ae_hash :: "string \<Rightarrow> string"
  ae_hmac :: "string \<Rightarrow> string \<Rightarrow> string"
  ae_date :: "'w \<Rightarrow> string"
  ae_day_ago :: "'w \<Rightarrow> string"
  ae_nonce :: "'w \<Rightarrow> string"
  ae_post :: "http_request \<Rightarrow> 'w \<Rightarrow> http_reply \<times> 'w"
  ae_wait :: "int \<Rightarrow> 'w \<Rightarrow> error option \<times> 'w"
  ae_xml :: "string \<Rightarrow> xml res"
  ae_instant :: "string \<Rightarrow> string \<Rightarrow> int option"
  ae_scan :: "string \<Rightarrow> f64 res"
  ae_marshal :: "json \<Rightarrow> string"
  ae_json :: "string \<Rightarrow> json res"
  ae_base64 :: "string \<Rightarrow> string"
  ae_pages :: nat

section \<open>Credentials\<close>

text \<open>\<open>strings.Trim(line, "[]")\<close>.\<close>

definition trim_brackets :: "string \<Rightarrow> string" where
  "trim_brackets s =
     (let b = (\<lambda>c. c = CHR ''['' \<or> c = CHR '']'') in rev (dropWhile b (rev (dropWhile b s))))"

definition is_header :: "string \<Rightarrow> bool" where
  "is_header line \<longleftrightarrow> has_prefix line ''['' \<and> has_suffix line '']''"

fun credential_lines :: "string \<Rightarrow> bool \<Rightarrow> string \<times> string \<Rightarrow> string list \<Rightarrow> string \<times> string" where
  "credential_lines profile inside acc [] = acc"
| "credential_lines profile inside acc (l # ls) =
     (let line = trim_space l
      in if is_header line then credential_lines profile (trim_brackets line = profile) acc ls
         else if \<not> inside then credential_lines profile inside acc ls
         else (case cut_at CHR ''='' line of
                 (key, Some v) \<Rightarrow>
                   credential_lines profile inside
                     (if trim_space key = ''aws_access_key_id'' then (trim_space v, snd acc)
                      else if trim_space key = ''aws_secret_access_key'' then (fst acc, trim_space v)
                      else acc) ls
               | (_, None) \<Rightarrow> credential_lines profile inside acc ls))"

definition parse_credentials_file :: "string \<Rightarrow> string \<Rightarrow> string \<times> string" where
  "parse_credentials_file data profile =
     credential_lines (if profile = [] then ''default'' else profile) False ([], []) (split_on CHR 0x0A data)"

fun region_lines :: "string \<Rightarrow> bool \<Rightarrow> string list \<Rightarrow> string" where
  "region_lines profile inside [] = []"
| "region_lines profile inside (l # ls) =
     (let line = trim_space l
      in if is_header line then region_lines profile (trim_prefix (trim_brackets line) ''profile '' = profile) ls
         else if \<not> inside then region_lines profile inside ls
         else (case cut_at CHR ''='' line of
                 (key, Some v) \<Rightarrow> if trim_space key = ''region'' then trim_space v else region_lines profile inside ls
               | (_, None) \<Rightarrow> region_lines profile inside ls))"

definition parse_config_region :: "string \<Rightarrow> string \<Rightarrow> string" where
  "parse_config_region data profile =
     region_lines (if profile = [] then ''default'' else profile) False (split_on CHR 0x0A data)"

text \<open>What the files in the home directory add: the two keys when both are there, and the region when none is known.\<close>

definition disk_keys :: "'w aws_env \<Rightarrow> 'w \<Rightarrow> string \<times> string \<Rightarrow> string \<times> string" where
  "disk_keys A w keys =
     (case ae_user_home A of
        Inl _ \<Rightarrow> keys
      | Inr home \<Rightarrow>
          (case ae_read A (ae_join A [home, ''.aws'', ''credentials'']) w of
             Inl _ \<Rightarrow> keys
           | Inr data \<Rightarrow>
               (case parse_credentials_file data (getenv (ae_env A) ''AWS_PROFILE'') of
                  (ak, sk) \<Rightarrow> if ak \<noteq> [] \<and> sk \<noteq> [] then (ak, sk) else keys)))"

definition disk_region :: "'w aws_env \<Rightarrow> 'w \<Rightarrow> string \<Rightarrow> string" where
  "disk_region A w region =
     (case ae_user_home A of
        Inl _ \<Rightarrow> region
      | Inr home \<Rightarrow>
          if region \<noteq> [] then region
          else (case ae_read A (ae_join A [home, ''.aws'', ''config'']) w of
                  Inl _ \<Rightarrow> region
                | Inr data \<Rightarrow> parse_config_region data (getenv (ae_env A) ''AWS_PROFILE'')))"

definition load_credentials :: "'w aws_env \<Rightarrow> 'w \<Rightarrow> cloud_credentials res" where
  "load_credentials A w =
     (let ak = getenv (ae_env A) ''AWS_ACCESS_KEY_ID'';
          sk = getenv (ae_env A) ''AWS_SECRET_ACCESS_KEY'';
          region = (if getenv (ae_env A) ''AWS_REGION'' = [] then getenv (ae_env A) ''AWS_DEFAULT_REGION''
                    else getenv (ae_env A) ''AWS_REGION'');
          on_disk = (ak = [] \<or> sk = []);
          keys = (if on_disk then disk_keys A w (ak, sk) else (ak, sk));
          region2 = (if on_disk then disk_region A w region else region)
      in if fst keys = [] \<or> snd keys = []
         then Inl (Err ''aws credentials not found: set AWS_ACCESS_KEY_ID/AWS_SECRET_ACCESS_KEY or configure ~/.aws/credentials'')
         else Inr \<lparr>access_key_id = fst keys, secret_access_key = snd keys,
                   cred_region = if region2 = [] then ''us-east-1'' else region2\<rparr>)"

record aws_client =
  ac_cred :: cloud_credentials
  ac_region :: string

definition new_client_with_creds :: "string \<Rightarrow> cloud_credentials \<Rightarrow> aws_client" where
  "new_client_with_creds region cred =
     (let r = (if region = [] then cred_region cred else region)
      in \<lparr>ac_cred = cred, ac_region = if r = [] then ''us-east-1'' else r\<rparr>)"

definition new_client :: "'w aws_env \<Rightarrow> string \<Rightarrow> (aws_client, 'w) act" where
  "new_client A region w =
     (case load_credentials A w of
        Inl e \<Rightarrow> (Inl e, w)
      | Inr cred \<Rightarrow> (Inr (new_client_with_creds region cred), w))"

section \<open>Signing\<close>

text \<open>\<open>sortStrings\<close>: each string sinks to the left past the greater ones; the sorted part is kept reversed.\<close>

fun sink :: "string \<Rightarrow> string list \<Rightarrow> string list" where
  "sink x [] = [x]"
| "sink x (y # ys) = (if x < y then y # sink x ys else x # y # ys)"

definition sort_strings :: "string list \<Rightarrow> string list" where
  "sort_strings xs = rev (foldl (\<lambda>done_rev x. sink x done_rev) [] xs)"

definition line_feed :: string where
  "line_feed = [CHR 0x0A]"

definition canonical_headers_text :: "string smap \<Rightarrow> string list \<Rightarrow> string" where
  "canonical_headers_text headers keys =
     concat (map (\<lambda>k. k @ '':'' @ trim_space (case mget headers k of Some v \<Rightarrow> v | None \<Rightarrow> []) @ line_feed) keys)"

definition hmac_chain :: "'w aws_env \<Rightarrow> string \<Rightarrow> string list \<Rightarrow> string" where
  "hmac_chain A secret ks = foldl (ae_hmac A) (''AWS4'' @ secret) ks"

definition hex_encode :: "string \<Rightarrow> string" where
  "hex_encode s = concat (map (\<lambda>c. [hex_low (of_char c div 16), hex_low (of_char c mod 16)]) s)"

text \<open>The two halves of a key: its name, which the signature shows, and its secret, which it does not.\<close>

type_synonym key_id = string
type_synonym key_secret = string

definition sign_v4 ::
  "'w aws_env \<Rightarrow> string \<Rightarrow> string \<Rightarrow> string \<Rightarrow> string \<Rightarrow> key_id \<Rightarrow> key_secret \<Rightarrow> string \<Rightarrow> string \<Rightarrow> string \<Rightarrow> string smap \<Rightarrow> string" where
  "sign_v4 A verb uri region service access_key secret payload_hash amz_date date_stamp headers =
     (let keys = sort_strings (mkeys headers);
          signed = join_with '';'' keys;
          request = join_with line_feed [verb, uri, [], canonical_headers_text headers keys, signed, payload_hash];
          scope = join_with ''/'' [date_stamp, region, service, ''aws4_request''];
          to_sign = join_with line_feed [''AWS4-HMAC-SHA256'', amz_date, scope, ae_hash A request];
          key = hmac_chain A secret [date_stamp, region, service, ''aws4_request'']
      in ''AWS4-HMAC-SHA256 Credential='' @ access_key @ ''/'' @ scope @ '', SignedHeaders='' @ signed @
         '', Signature='' @ hex_encode (ae_hmac A key to_sign))"

section \<open>Calls\<close>

text \<open>An answer that is not a success: the error of the API when the body holds one.\<close>

definition api_failure :: "'w aws_env \<Rightarrow> int \<Rightarrow> string \<Rightarrow> error" where
  "api_failure A status body =
     (let plain = Err (''aws http '' @ itoa status @ '': '' @ truncate_text body 500)
      in case ae_xml A body of
           Inl _ \<Rightarrow> plain
         | Inr x \<Rightarrow>
             (let code = xml_str [''Errors'', ''Error'', ''Code''] x
              in if code \<noteq> []
                 then Err (''aws api error ['' @ code @ '']: '' @ xml_str [''Errors'', ''Error'', ''Message''] x @ '' (http '' @
                        itoa status @ '')'')
                 else plain))"

definition ec2_host :: "string \<Rightarrow> string" where
  "ec2_host region = ''ec2.'' @ region @ ''.amazonaws.com''"

definition ec2_request :: "'w aws_env \<Rightarrow> aws_client \<Rightarrow> string \<Rightarrow> string smap \<Rightarrow> string \<Rightarrow> http_request" where
  "ec2_request A c action params amz_date =
     (let payload = form_encode (mput ''Version'' ''2016-11-15'' (mput ''Action'' action params));
          payload_hash = ae_hash A payload;
          host = ec2_host (ac_region c);
          ctype = ''application/x-www-form-urlencoded; charset=utf-8'';
          headers = [(''content-type'', ctype), (''host'', host), (''x-amz-content-sha256'', payload_hash), (''x-amz-date'', amz_date)];
          auth = sign_v4 A ''POST'' ''/'' (ac_region c) ''ec2'' (access_key_id (ac_cred c)) (secret_access_key (ac_cred c))
            payload_hash amz_date (take 8 amz_date) headers
      in \<lparr>hr_verb = ''POST'', hr_url = ''https://'' @ host @ ''/'',
          hr_headers = [(''Content-Type'', ctype), (''X-Amz-Date'', amz_date), (''X-Amz-Content-Sha256'', payload_hash), (''Authorization'', auth)],
          hr_body = payload\<rparr>)"

definition aws_call :: "'w aws_env \<Rightarrow> aws_client \<Rightarrow> string \<Rightarrow> string smap \<Rightarrow> (string, 'w) act" where
  "aws_call A c action params w =
     send_request (ae_post A) (ae_wait A) (api_failure A) (ec2_request A c action params (ae_date A w)) w"

text \<open>A call whose answer is dropped, and one whose answer is decoded.\<close>

definition aws_do :: "'w aws_env \<Rightarrow> aws_client \<Rightarrow> string \<Rightarrow> string smap \<Rightarrow> (unit, 'w) act" where
  "aws_do A c action params = seq_act (aws_call A c action params) (ret ())"

definition aws_get :: "'w aws_env \<Rightarrow> aws_client \<Rightarrow> string \<Rightarrow> string smap \<Rightarrow> (xml \<Rightarrow> 'a res) \<Rightarrow> ('a, 'w) act" where
  "aws_get A c action params decode =
     bind_act (aws_call A c action params) (\<lambda>body.
       of_res (case bind_res (ae_xml A body) decode of
                 Inl e \<Rightarrow> Inl (wrap_err ''aws decode response: '' e)
               | Inr x \<Rightarrow> Inr x))"

end
