(* ===== verification/Aws_Ec2.thy ===== *)
theory Aws_Ec2
  imports Aws_Client
begin

text \<open>
  The operations of the EC2 client, \<open>internal/cloud/aws/ec2.go\<close>, and those for the catalog in \<open>metadata.go\<close> and
  \<open>pricing.go\<close>: the parameters each sends and what it reads from the answer. Listings are read page by page, at
  most \<open>ae_pages\<close> of them.
\<close>

section \<open>Items\<close>

record vpc_item =
  vp_id :: string
  vp_cidr :: string
  vp_default :: bool
  vp_tags :: "(string \<times> string) list"

record subnet_item =
  sn_id :: string
  sn_vpc :: string
  sn_zone :: string
  sn_cidr :: string
  sn_tags :: "(string \<times> string) list"

record security_group_item =
  sg_id :: string
  sg_name :: string
  sg_vpc :: string

definition xml_tags :: "xml \<Rightarrow> (string \<times> string) list" where
  "xml_tags n = map (\<lambda>k. (xml_str [''key''] k, xml_str [''value''] k)) (xml_all [''tagSet'', ''item''] n)"

text \<open>The value of the first tag \<open>Name\<close>.\<close>

definition tag_name :: "(string \<times> string) list \<Rightarrow> string" where
  "tag_name tags = (case mget tags ''Name'' of None \<Rightarrow> [] | Some v \<Rightarrow> v)"

definition vpc_name :: "vpc_item \<Rightarrow> string" where
  "vpc_name v = tag_name (vp_tags v)"

definition subnet_name :: "subnet_item \<Rightarrow> string" where
  "subnet_name s = tag_name (sn_tags s)"

definition map_status :: "string \<Rightarrow> instance_status" where
  "map_status s =
     (if s \<in> {''pending'', ''running'', ''stopping'', ''stopped'', ''terminated''} then s
      else if s = ''shutting-down'' then ''terminating'' else ''unknown'')"

definition parse_time :: "'w aws_env \<Rightarrow> string \<Rightarrow> int" where
  "parse_time A s =
     (if s = [] then 0
      else case List.find (\<lambda>t. t \<noteq> None) (map (\<lambda>layout. ae_instant A layout s)
             [''2006-01-02T15:04:05Z07:00'', ''2006-01-02T15:04:05.999Z07:00'', ''2006-01-02T15:04:05.999999Z'']) of
             Some (Some t) \<Rightarrow> t | _ \<Rightarrow> 0)"

section \<open>Listings in pages\<close>

definition out_of_pages :: error where
  "out_of_pages = Panic ''the listing has not ended''"

text \<open>Each page gives its items and the token of the next one, which is sent with the same parameters.\<close>

fun page_loop ::
  "nat \<Rightarrow> 'w aws_env \<Rightarrow> aws_client \<Rightarrow> string \<Rightarrow> (xml \<Rightarrow> 'a list res) \<Rightarrow> string smap \<Rightarrow> 'a list \<Rightarrow> ('a list, 'w) act" where
  "page_loop 0 A c action items params acc = raise out_of_pages"
| "page_loop (Suc n) A c action items params acc =
     bind_act (aws_get A c action params (\<lambda>x. bind_res (items x) (\<lambda>xs. Inr (xs, xml_str [''nextToken''] x))))
       (\<lambda>(xs, token).
          if token = [] then ret (acc @ xs)
          else page_loop n A c action items (mput ''NextToken'' token params) (acc @ xs))"

section \<open>Regions, zones and keys\<close>

definition describe_regions :: "'w aws_env \<Rightarrow> aws_client \<Rightarrow> (string list, 'w) act" where
  "describe_regions A c =
     aws_get A c ''DescribeRegions'' [] (\<lambda>x. Inr (map (xml_str [''regionName'']) (xml_all [''regionInfo'', ''item''] x)))"

definition describe_zones :: "'w aws_env \<Rightarrow> aws_client \<Rightarrow> (string list, 'w) act" where
  "describe_zones A c =
     aws_get A c ''DescribeAvailabilityZones'' [(''Filter.1.Name'', ''state''), (''Filter.1.Value.1'', ''available'')]
       (\<lambda>x. Inr (map (xml_str [''zoneName'']) (xml_all [''availabilityZoneInfo'', ''item''] x)))"

definition create_key_pair :: "'w aws_env \<Rightarrow> aws_client \<Rightarrow> string \<Rightarrow> (string, 'w) act" where
  "create_key_pair A c name = aws_get A c ''CreateKeyPair'' [(''KeyName'', name)] (\<lambda>x. Inr (xml_str [''keyMaterial''] x))"

definition delete_key_pair :: "'w aws_env \<Rightarrow> aws_client \<Rightarrow> string \<Rightarrow> (unit, 'w) act" where
  "delete_key_pair A c name = aws_do A c ''DeleteKeyPair'' [(''KeyName'', name)]"

section \<open>Instances\<close>

definition run_params :: "'w aws_env \<Rightarrow> string \<Rightarrow> launch_spec \<Rightarrow> string smap" where
  "run_params A nonce spec =
     number_tags ''TagSpecification.1.Tag.'' 2 (ls_tags spec)
     (put_if (ls_user_data spec \<noteq> []) [(''UserData'', ae_base64 A (ls_user_data spec))]
     (put_if (0 < ls_disk_gib spec)
        [(''BlockDeviceMappings.0.DeviceName'', ''/dev/sda1''), (''BlockDeviceMappings.0.Ebs.VolumeSize'', itoa (ls_disk_gib spec)),
         (''BlockDeviceMappings.0.Ebs.DeleteOnTermination'', ''true'')]
     (put_if (ls_spot_strategy spec \<noteq> [])
        [(''InstanceMarketOptions.0.MarketType'', ''spot''), (''InstanceMarketOptions.0.SpotOptions.0.SpotInstanceType'', ''one-time'')]
     (put_if (ls_vswitch spec = [] \<and> ls_security_group spec \<noteq> []) [(''SecurityGroupId.1'', ls_security_group spec)]
     (put_if (ls_vswitch spec \<noteq> []) [(''SubnetId'', ls_vswitch spec)]
        [(''ImageId'', ls_image_id spec), (''InstanceType'', ls_instance_type spec), (''MinCount'', itoa (ls_num_nodes spec)),
         (''MaxCount'', itoa (ls_num_nodes spec)), (''KeyName'', ls_key_name spec), (''ClientToken'', nonce),
         (''TagSpecification.1.ResourceType'', ''instance''), (''TagSpecification.1.Tag.1.Key'', ''Name''),
         (''TagSpecification.1.Tag.1.Value'', ls_name_prefix spec)])))))"

definition client_run_instances :: "'w aws_env \<Rightarrow> aws_client \<Rightarrow> launch_spec \<Rightarrow> (string list, 'w) act" where
  "client_run_instances A c spec w =
     aws_get A c ''RunInstances'' (run_params A (ae_nonce A w) spec)
       (\<lambda>x. Inr (map (xml_str [''instanceId'']) (xml_all [''instancesSet'', ''item''] x))) w"

definition instance_of :: "'w aws_env \<Rightarrow> aws_client \<Rightarrow> xml \<Rightarrow> inst" where
  "instance_of A c x =
     \<lparr>i_id = xml_str [''instanceId''] x, i_name = tag_name (xml_tags x), i_public_ip = xml_str [''publicIpAddress''] x,
      i_private_ip = xml_str [''privateIpAddress''] x, i_status = map_status (xml_str [''instanceState'', ''name''] x),
      i_type = xml_str [''instanceType''] x, i_region = ac_region c, i_zone = xml_str [''placement'', ''availabilityZone''] x,
      i_created_at = parse_time A (xml_str [''launchTime''] x), i_tags = []\<rparr>"

definition id_params :: "string list \<Rightarrow> string smap" where
  "id_params ids = map (\<lambda>(i, ident). (''InstanceId.'' @ itoa i, ident)) (zip [1..int (length ids)] ids)"

definition describe_params :: "string list \<Rightarrow> string \<Rightarrow> string smap" where
  "describe_params ids prefix =
     put_if (prefix \<noteq> []) [(''Filter.1.Name'', ''tag:Name''), (''Filter.1.Value.1'', prefix)] (id_params ids)"

definition client_describe_instances :: "'w aws_env \<Rightarrow> aws_client \<Rightarrow> string list \<Rightarrow> string \<Rightarrow> (inst list, 'w) act" where
  "client_describe_instances A c ids prefix =
     page_loop (ae_pages A) A c ''DescribeInstances''
       (\<lambda>x. Inr (map (instance_of A c) (xml_all [''reservationSet'', ''item'', ''instancesSet'', ''item''] x)))
       (describe_params ids prefix) []"

definition start_instance :: "'w aws_env \<Rightarrow> aws_client \<Rightarrow> string \<Rightarrow> (unit, 'w) act" where
  "start_instance A c ident = aws_do A c ''StartInstances'' [(''InstanceId.1'', ident)]"

definition stop_instance :: "'w aws_env \<Rightarrow> aws_client \<Rightarrow> string \<Rightarrow> (unit, 'w) act" where
  "stop_instance A c ident = aws_do A c ''StopInstances'' [(''InstanceId.1'', ident), (''Force'', ''true'')]"

definition terminate_instance :: "'w aws_env \<Rightarrow> aws_client \<Rightarrow> string \<Rightarrow> (unit, 'w) act" where
  "terminate_instance A c ident = aws_do A c ''TerminateInstances'' [(''InstanceId.1'', ident)]"

section \<open>Networks\<close>

definition create_security_group :: "'w aws_env \<Rightarrow> aws_client \<Rightarrow> string \<Rightarrow> string \<Rightarrow> string \<Rightarrow> (string, 'w) act" where
  "create_security_group A c name desc vpc =
     aws_get A c ''CreateSecurityGroup''
       (put_if (vpc \<noteq> []) [(''VpcId'', vpc)] [(''GroupName'', name), (''GroupDescription'', desc)])
       (\<lambda>x. Inr (xml_str [''groupId''] x))"

definition authorize_security_group :: "'w aws_env \<Rightarrow> aws_client \<Rightarrow> string \<Rightarrow> int \<Rightarrow> int \<Rightarrow> string \<Rightarrow> (unit, 'w) act" where
  "authorize_security_group A c group_id port_from port_to proto =
     aws_do A c ''AuthorizeSecurityGroupIngress''
       [(''GroupId'', group_id), (''IpPermissions.0.IpProtocol'', proto), (''IpPermissions.0.FromPort'', itoa port_from),
        (''IpPermissions.0.ToPort'', itoa port_to), (''IpPermissions.0.IpRanges.1.CidrIp'', ''0.0.0.0/0'')]"

definition describe_security_groups :: "'w aws_env \<Rightarrow> aws_client \<Rightarrow> (security_group_item list, 'w) act" where
  "describe_security_groups A c =
     aws_get A c ''DescribeSecurityGroups'' []
       (\<lambda>x. Inr (map (\<lambda>k. \<lparr>sg_id = xml_str [''groupId''] k, sg_name = xml_str [''groupName''] k, sg_vpc = xml_str [''vpcId''] k\<rparr>)
                  (xml_all [''securityGroupInfo'', ''item''] x)))"

definition vpc_of :: "xml \<Rightarrow> vpc_item res" where
  "vpc_of x = bind_res (xml_bool [''isDefault''] x) (\<lambda>d.
     Inr \<lparr>vp_id = xml_str [''vpcId''] x, vp_cidr = xml_str [''cidrBlock''] x, vp_default = d, vp_tags = xml_tags x\<rparr>)"

definition describe_vpcs :: "'w aws_env \<Rightarrow> aws_client \<Rightarrow> (vpc_item list, 'w) act" where
  "describe_vpcs A c = aws_get A c ''DescribeVpcs'' [] (\<lambda>x. map_res vpc_of (xml_all [''vpcSet'', ''item''] x))"

definition create_vpc :: "'w aws_env \<Rightarrow> aws_client \<Rightarrow> string \<Rightarrow> string \<Rightarrow> (string, 'w) act" where
  "create_vpc A c cidr name =
     aws_get A c ''CreateVpc''
       (put_if (name \<noteq> [])
          [(''TagSpecification.1.ResourceType'', ''vpc''), (''TagSpecification.1.Tag.1.Key'', ''Name''),
           (''TagSpecification.1.Tag.1.Value'', name)] [(''CidrBlock'', cidr)])
       (\<lambda>x. Inr (xml_str [''vpcId''] x))"

definition create_internet_gateway :: "'w aws_env \<Rightarrow> aws_client \<Rightarrow> (string, 'w) act" where
  "create_internet_gateway A c = aws_get A c ''CreateInternetGateway'' [] (\<lambda>x. Inr (xml_str [''internetGatewayId''] x))"

definition attach_internet_gateway :: "'w aws_env \<Rightarrow> aws_client \<Rightarrow> string \<Rightarrow> string \<Rightarrow> (unit, 'w) act" where
  "attach_internet_gateway A c igw vpc = aws_do A c ''AttachInternetGateway'' [(''InternetGatewayId'', igw), (''VpcId'', vpc)]"

definition create_route_table :: "'w aws_env \<Rightarrow> aws_client \<Rightarrow> string \<Rightarrow> (string, 'w) act" where
  "create_route_table A c vpc = aws_get A c ''CreateRouteTable'' [(''VpcId'', vpc)] (\<lambda>x. Inr (xml_str [''routeTableId''] x))"

definition create_route :: "'w aws_env \<Rightarrow> aws_client \<Rightarrow> string \<Rightarrow> string \<Rightarrow> (unit, 'w) act" where
  "create_route A c table igw =
     aws_do A c ''CreateRoute'' [(''RouteTableId'', table), (''DestinationCidrBlock'', ''0.0.0.0/0''), (''GatewayId'', igw)]"

definition associate_route_table :: "'w aws_env \<Rightarrow> aws_client \<Rightarrow> string \<Rightarrow> string \<Rightarrow> (unit, 'w) act" where
  "associate_route_table A c table subnet = aws_do A c ''AssociateRouteTable'' [(''RouteTableId'', table), (''SubnetId'', subnet)]"

text \<open>Of a subnet the flags and counts the program never reads are left out, with the errors of decoding them.\<close>

definition subnet_of :: "xml \<Rightarrow> subnet_item" where
  "subnet_of x =
     \<lparr>sn_id = xml_str [''subnetId''] x, sn_vpc = xml_str [''vpcId''] x, sn_zone = xml_str [''availabilityZone''] x,
      sn_cidr = xml_str [''cidrBlock''] x, sn_tags = xml_tags x\<rparr>"

definition describe_subnets :: "'w aws_env \<Rightarrow> aws_client \<Rightarrow> string \<Rightarrow> (subnet_item list, 'w) act" where
  "describe_subnets A c vpc =
     aws_get A c ''DescribeSubnets''
       (put_if (vpc \<noteq> []) [(''Filter.2.Name'', ''vpc-id''), (''Filter.2.Value.1'', vpc)]
          [(''Filter.1.Name'', ''state''), (''Filter.1.Value.1'', ''available'')])
       (\<lambda>x. Inr (map subnet_of (xml_all [''subnetSet'', ''item''] x)))"

definition create_subnet :: "'w aws_env \<Rightarrow> aws_client \<Rightarrow> string \<Rightarrow> string \<Rightarrow> string \<Rightarrow> (string, 'w) act" where
  "create_subnet A c vpc zone cidr =
     aws_get A c ''CreateSubnet'' (put_if (zone \<noteq> []) [(''AvailabilityZone'', zone)] [(''VpcId'', vpc), (''CidrBlock'', cidr)])
       (\<lambda>x. Inr (xml_str [''subnet'', ''subnetId''] x))"

definition client_list_vswitches :: "'w aws_env \<Rightarrow> aws_client \<Rightarrow> string \<Rightarrow> (vswitch list, 'w) act" where
  "client_list_vswitches A c vpc =
     bind_act (describe_subnets A c vpc) (\<lambda>items.
       ret (map (\<lambda>s. \<lparr>vw_id = sn_id s, vw_name = [], vw_zone = sn_zone s, vw_cidr = sn_cidr s, vw_vpc = sn_vpc s\<rparr>) items))"

section \<open>Images\<close>

definition image_pattern :: "string \<Rightarrow> string" where
  "image_pattern platform =
     (case mget [(''ubuntu'', ''ubuntu/images/hvm-ssd/ubuntu-*-amd64-server-*''), (''debian'', ''debian-*-amd64-*''),
                 (''amazon'', ''amzn2-ami-hvm-*-x86_64-gp2'')] platform of
        Some p \<Rightarrow> p | None \<Rightarrow> platform)"

definition client_get_image :: "'w aws_env \<Rightarrow> aws_client \<Rightarrow> string \<Rightarrow> (string, 'w) act" where
  "client_get_image A c platform =
     (let p = (if platform = [] then ''ubuntu'' else platform)
      in bind_act
           (aws_get A c ''DescribeImages''
              [(''Owner.1'', ''099720109477''), (''Filter.1.Name'', ''name''), (''Filter.1.Value.1'', image_pattern p),
               (''Filter.2.Name'', ''state''), (''Filter.2.Value.1'', ''available''), (''Filter.3.Name'', ''architecture''),
               (''Filter.3.Value.1'', ''x86_64'')]
              (\<lambda>x. Inr (map (\<lambda>k. (xml_str [''imageId''] k, xml_str [''creationDate''] k)) (xml_all [''imagesSet'', ''item''] x))))
           (\<lambda>items. case newest_image items of
                       None \<Rightarrow> raise (Err (''no '' @ p @ '' image found in '' @ ac_region c))
                     | Some ident \<Rightarrow> ret ident))"

end
