(* ===== verification/Aws_Provider.thy ===== *)
theory Aws_Provider
  imports Cloud_Launch Aws_Ec2
begin

text \<open>
  The AWS provider, \<open>internal/cloud/aws/provider.go\<close> and \<open>config.go\<close>: launching machines in a network found, named in the
  configuration or made for it, and the operations that pass through to the client.
\<close>

section \<open>Clients\<close>

record aws_config =
  awc_vpcs :: "string list"
  awc_subnets :: "string list"
  awc_security_group :: string
  awc_ssh_user :: string

text \<open>\<open>LoadConfig\<close>; \<open>decode\<close> reads the fields of the section.\<close>

definition aws_load_config :: "config \<Rightarrow> (yaml_node \<Rightarrow> aws_config res) \<Rightarrow> aws_config option" where
  "aws_load_config cf decode = (case config_section (Some cf) ''aws'' decode of Inl _ \<Rightarrow> None | Inr c \<Rightarrow> Some c)"

type_synonym aws_provider = "cloud_credentials option"

definition new_aws_provider :: "cloud_credentials option \<Rightarrow> aws_provider" where
  "new_aws_provider creds = creds"

definition aws_factory :: "cloud_credentials \<Rightarrow> aws_provider res" where
  "aws_factory creds = Inr (new_aws_provider (Some creds))"

definition aws_client_of :: "'w aws_env \<Rightarrow> aws_provider \<Rightarrow> (aws_client, 'w) act" where
  "aws_client_of A p =
     (case p of Some k \<Rightarrow> ret (new_client_with_creds (cred_region k) k) | None \<Rightarrow> new_client A [])"

definition at_region :: "string \<Rightarrow> aws_client \<Rightarrow> aws_client" where
  "at_region region c = (if region = [] then c else c\<lparr>ac_region := region\<rparr>)"

definition with_client :: "'w aws_env \<Rightarrow> aws_provider \<Rightarrow> string \<Rightarrow> (aws_client \<Rightarrow> ('a, 'w) act) \<Rightarrow> ('a, 'w) act" where
  "with_client A p region f = bind_act (aws_client_of A p) (\<lambda>c. f (at_region region c))"

section \<open>Operations passed through\<close>

definition aws_regions :: "'w aws_env \<Rightarrow> aws_provider \<Rightarrow> (string list, 'w) act" where
  "aws_regions A p = bind_act (aws_client_of A p) (describe_regions A)"

definition aws_list_instances :: "'w aws_env \<Rightarrow> aws_provider \<Rightarrow> string \<Rightarrow> string \<Rightarrow> (inst list, 'w) act" where
  "aws_list_instances A p region prefix = with_client A p region (\<lambda>c. client_describe_instances A c [] prefix)"

definition aws_describe_instances :: "'w aws_env \<Rightarrow> aws_provider \<Rightarrow> string \<Rightarrow> string list \<Rightarrow> (inst list, 'w) act" where
  "aws_describe_instances A p region ids = with_client A p region (\<lambda>c. client_describe_instances A c ids [])"

definition aws_stop_instances :: "'w aws_env \<Rightarrow> aws_provider \<Rightarrow> string \<Rightarrow> string list \<Rightarrow> (unit, 'w) act" where
  "aws_stop_instances A p region ids = with_client A p region (\<lambda>c. each_id (stop_instance A c) ids)"

definition aws_start_instances :: "'w aws_env \<Rightarrow> aws_provider \<Rightarrow> string \<Rightarrow> string list \<Rightarrow> (unit, 'w) act" where
  "aws_start_instances A p region ids = with_client A p region (\<lambda>c. each_id (start_instance A c) ids)"

definition aws_terminate_instances :: "'w aws_env \<Rightarrow> aws_provider \<Rightarrow> string \<Rightarrow> string list \<Rightarrow> (unit, 'w) act" where
  "aws_terminate_instances A p region ids = with_client A p region (\<lambda>c. each_id (terminate_instance A c) ids)"

definition aws_public_ip :: "'w aws_env \<Rightarrow> aws_provider \<Rightarrow> string \<Rightarrow> string \<Rightarrow> (string, 'w) act" where
  "aws_public_ip A p region ident =
     with_client A p region (\<lambda>c. bind_act (client_describe_instances A c [ident] []) (\<lambda>is.
       case is of [] \<Rightarrow> raise (Err (''instance '' @ ident @ '' not found'')) | i # _ \<Rightarrow> ret (i_public_ip i)))"

definition aws_zones :: "'w aws_env \<Rightarrow> aws_provider \<Rightarrow> string \<Rightarrow> (string list, 'w) act" where
  "aws_zones A p region = with_client A p region (describe_zones A)"

definition aws_create_key_pair :: "'w aws_env \<Rightarrow> aws_provider \<Rightarrow> string \<Rightarrow> string \<Rightarrow> (string, 'w) act" where
  "aws_create_key_pair A p region name = with_client A p region (\<lambda>c. create_key_pair A c name)"

definition aws_delete_key_pair :: "'w aws_env \<Rightarrow> aws_provider \<Rightarrow> string \<Rightarrow> string \<Rightarrow> (unit, 'w) act" where
  "aws_delete_key_pair A p region name = with_client A p region (\<lambda>c. delete_key_pair A c name)"

definition aws_create_security_group ::
  "'w aws_env \<Rightarrow> aws_provider \<Rightarrow> string \<Rightarrow> string \<Rightarrow> string \<Rightarrow> string \<Rightarrow> (string, 'w) act" where
  "aws_create_security_group A p region vpc name desc = with_client A p region (\<lambda>c. create_security_group A c name desc vpc)"

definition aws_authorize_security_group ::
  "'w aws_env \<Rightarrow> aws_provider \<Rightarrow> string \<Rightarrow> string \<Rightarrow> int \<Rightarrow> int \<Rightarrow> string \<Rightarrow> (unit, 'w) act" where
  "aws_authorize_security_group A p region group_id port_from port_to proto =
     with_client A p region (\<lambda>c. authorize_security_group A c group_id port_from port_to proto)"

definition aws_create_vpc :: "'w aws_env \<Rightarrow> aws_provider \<Rightarrow> string \<Rightarrow> string \<Rightarrow> string \<Rightarrow> (string, 'w) act" where
  "aws_create_vpc A p region cidr name = with_client A p region (\<lambda>c. create_vpc A c cidr name)"

definition aws_create_vswitch ::
  "'w aws_env \<Rightarrow> aws_provider \<Rightarrow> string \<Rightarrow> string \<Rightarrow> string \<Rightarrow> string \<Rightarrow> (string, 'w) act" where
  "aws_create_vswitch A p region vpc zone cidr = with_client A p region (\<lambda>c. create_subnet A c vpc zone cidr)"

definition aws_list_vswitches :: "'w aws_env \<Rightarrow> aws_provider \<Rightarrow> string \<Rightarrow> string \<Rightarrow> (vswitch list, 'w) act" where
  "aws_list_vswitches A p region vpc = with_client A p region (\<lambda>c. client_list_vswitches A c vpc)"

definition aws_get_image :: "'w aws_env \<Rightarrow> aws_provider \<Rightarrow> string \<Rightarrow> string \<Rightarrow> (string, 'w) act" where
  "aws_get_image A p region platform = with_client A p region (\<lambda>c. client_get_image A c platform)"

section \<open>Networks\<close>

definition match_vpc :: "vpc_item list \<Rightarrow> string list \<Rightarrow> string" where
  "match_vpc vpcs want =
     (case concat (map (\<lambda>x. filter (\<lambda>v. vp_id v = x \<or> vpc_name v = x) vpcs) want) of [] \<Rightarrow> [] | v # _ \<Rightarrow> vp_id v)"

definition match_security_group :: "security_group_item list \<Rightarrow> string \<Rightarrow> string" where
  "match_security_group groups want =
     (case List.find (\<lambda>g. sg_name g = want \<or> sg_id g = want) groups of None \<Rightarrow> [] | Some g \<Rightarrow> sg_id g)"

definition match_subnets :: "subnet_item list \<Rightarrow> string list \<Rightarrow> subnet_item list" where
  "match_subnets subnets want =
     concat (map (\<lambda>x. case List.find (\<lambda>s. sn_id s = x \<or> subnet_name s = x) subnets of None \<Rightarrow> [] | Some s \<Rightarrow> [s]) want)"

definition create_vpc_network :: "'w aws_env \<Rightarrow> aws_client \<Rightarrow> string \<Rightarrow> string \<Rightarrow> (subnet_item list, 'w) act" where
  "create_vpc_network A c region zone =
     bind_act (create_vpc A c ''10.0.0.0/16'' ''gpi-vpc'') (\<lambda>vpc.
     bind_act (create_internet_gateway A c) (\<lambda>igw.
     seq_act (attach_internet_gateway A c igw vpc)
     (bind_act (create_route_table A c vpc) (\<lambda>table.
     seq_act (create_route A c table igw)
     (bind_act (pick_zone region zone (describe_zones A c)) (\<lambda>z.
     bind_act (create_subnet A c vpc z ''10.0.1.0/24'') (\<lambda>subnet.
     seq_act (associate_route_table A c table subnet)
     (ret [\<lparr>sn_id = subnet, sn_vpc = vpc, sn_zone = z, sn_cidr = [], sn_tags = []\<rparr>]))))))))"

definition default_vpc :: "vpc_item list \<Rightarrow> string" where
  "default_vpc vpcs = (case List.find vp_default vpcs of None \<Rightarrow> [] | Some v \<Rightarrow> vp_id v)"

text \<open>\<open>vpcFor\<close> and \<open>securityGroupFor\<close> return the specification with the field they set.\<close>

definition vpc_for :: "'w aws_env \<Rightarrow> aws_client \<Rightarrow> aws_config option \<Rightarrow> launch_spec \<Rightarrow> (launch_spec, 'w) act" where
  "vpc_for A c cfg spec =
     (if ls_vpc spec \<noteq> [] then ret spec
      else bind_act (describe_vpcs A c) (\<lambda>vpcs.
        let wanted = (case cfg of None \<Rightarrow> [] | Some k \<Rightarrow> match_vpc vpcs (awc_vpcs k))
        in if wanted \<noteq> [] then ret (spec\<lparr>ls_vpc := wanted\<rparr>)
           else (case List.find vp_default vpcs of
                   Some v \<Rightarrow> ret (spec\<lparr>ls_vpc := vp_id v\<rparr>)
                 | None \<Rightarrow> bind_act (create_vpc_network A c (ls_region spec) [])
                     (\<lambda>subnets. ret (spec\<lparr>ls_vpc := sn_vpc (hd subnets)\<rparr>)))))"

definition new_security_group :: "'w aws_env \<Rightarrow> aws_client \<Rightarrow> launch_spec \<Rightarrow> (launch_spec, 'w) act" where
  "new_security_group A c spec =
     bind_act (create_security_group A c ''gpi-sg'' ''gpi managed security group'' (ls_vpc spec)) (\<lambda>g.
     seq_act (authorize_security_group A c g 22 22 ''tcp'')
     (seq_act (authorize_security_group A c g 1024 65535 ''tcp'')
     (ret (spec\<lparr>ls_security_group := g\<rparr>))))"

definition security_group_for :: "'w aws_env \<Rightarrow> aws_client \<Rightarrow> aws_config option \<Rightarrow> launch_spec \<Rightarrow> (launch_spec, 'w) act" where
  "security_group_for A c cfg spec =
     (let want = (case cfg of None \<Rightarrow> [] | Some k \<Rightarrow> awc_security_group k)
      in if want \<noteq> []
         then bind_act (describe_security_groups A c) (\<lambda>groups.
                if match_security_group groups want \<noteq> []
                then ret (spec\<lparr>ls_security_group := match_security_group groups want\<rparr>)
                else new_security_group A c spec)
         else new_security_group A c spec)"

definition subnets_for :: "'w aws_env \<Rightarrow> aws_client \<Rightarrow> aws_config option \<Rightarrow> launch_spec \<Rightarrow> (subnet_item list, 'w) act" where
  "subnets_for A c cfg spec =
     bind_act (if ls_vpc spec \<noteq> [] then ret (ls_vpc spec) else bind_act (describe_vpcs A c) (\<lambda>vpcs. ret (default_vpc vpcs)))
       (\<lambda>vpc.
          if vpc = [] then create_vpc_network A c (ls_region spec) (ls_zone spec)
          else bind_act (describe_subnets A c vpc) (\<lambda>subnets.
            let wanted = (case cfg of None \<Rightarrow> [] | Some k \<Rightarrow> match_subnets subnets (awc_subnets k));
                zoned = filter (\<lambda>s. sn_zone s = ls_zone spec) subnets
            in if wanted \<noteq> [] then ret wanted
               else if subnets \<noteq> [] then ret (if ls_zone spec \<noteq> [] \<and> zoned \<noteq> [] then zoned else subnets)
               else create_vpc_network A c (ls_region spec) (ls_zone spec)))"

section \<open>Launching\<close>

definition aws_retryable :: "error \<Rightarrow> bool" where
  "aws_retryable = contains_any [''InsufficientInstanceCapacity'', ''InsufficientCapacity'', ''InstanceLimitExceeded'',
     ''Unsupported'', ''InvalidParameterValue'', ''IncorrectVpcState'', ''PendingVerification'']"

definition launch_in :: "'w aws_env \<Rightarrow> aws_client \<Rightarrow> launch_spec \<Rightarrow> subnet_item \<Rightarrow> (inst list, 'w) act" where
  "launch_in A c spec s =
     bind_act (client_run_instances A c (spec\<lparr>ls_vswitch := sn_id s, ls_zone := sn_zone s\<rparr>)) (\<lambda>ids.
       ret (map (pending_inst spec (sn_zone s)) ids))"

definition with_image :: "'w aws_env \<Rightarrow> aws_client \<Rightarrow> launch_spec \<Rightarrow> (launch_spec, 'w) act" where
  "with_image A c spec =
     (if ls_image_id spec \<noteq> [] then ret spec
      else bind_act (client_get_image A c ''ubuntu'') (\<lambda>image. ret (spec\<lparr>ls_image_id := image\<rparr>)))"

text \<open>New machines: image, network and security group, then the subnets in turn.\<close>

definition aws_create :: "'w aws_env \<Rightarrow> aws_config option \<Rightarrow> aws_client \<Rightarrow> launch_spec \<Rightarrow> (inst list, 'w) act" where
  "aws_create A cfg c spec =
     bind_act (with_image A c spec) (\<lambda>spec2.
     bind_act (if ls_security_group spec2 \<noteq> [] then ret spec2
               else bind_act (vpc_for A c cfg spec2) (security_group_for A c cfg)) (\<lambda>spec3.
     bind_act (subnets_for A c cfg spec3) (\<lambda>subnets.
       try_in_turn aws_retryable (ae_wait A two_seconds) (launch_in A c spec3) subnets)))"

definition in_client_region :: "aws_client \<Rightarrow> launch_spec \<Rightarrow> launch_spec" where
  "in_client_region c spec = (if ls_region spec = [] then spec\<lparr>ls_region := ac_region c\<rparr> else spec)"

definition aws_run_instances ::
  "'w aws_env \<Rightarrow> aws_config option \<Rightarrow> aws_provider \<Rightarrow> launch_spec \<Rightarrow> (inst list, 'w) act" where
  "aws_run_instances A cfg p spec0 =
     bind_act (aws_client_of A p) (\<lambda>c.
       let spec = in_client_region c spec0
       in bind_act
            (catch_act (aws_list_instances A p (ls_region spec) (ls_name_prefix spec))
               (\<lambda>e. raise (wrap_err ''list existing instances: '' e)))
            (\<lambda>existing.
               bind_act (reuse_nodes (aws_start_instances A p (ls_region spec)) spec existing)
                 (\<lambda>r. case r of Some is \<Rightarrow> ret is | None \<Rightarrow> aws_create A cfg c spec)))"

end
