(* ===== verification/Aws_Catalog.thy ===== *)
theory Aws_Catalog
  imports Aws_Provider
begin

text \<open>
  The metadata source of AWS, \<open>internal/cloud/aws/metadata.go\<close> and \<open>pricing.go\<close>: the instance types a region offers as
  entries of the catalog, and their prices, on demand from the pricing service and spot from EC2. The prices of
  the instance types are fetched one after the other; the code runs them at the same time, each on its own entry.
\<close>

section \<open>Instance types\<close>

record type_item =
  ty_name :: string
  ty_vcpus :: int
  ty_memory :: int
  ty_gpus :: "(string \<times> int) list"

definition gpu_of :: "xml \<Rightarrow> (string \<times> int) res" where
  "gpu_of x = bind_res (xml_int [''count''] x) (\<lambda>n. Inr (xml_str [''name''] x, n))"

definition type_of :: "xml \<Rightarrow> type_item res" where
  "type_of x =
     bind_res (xml_int [''vcpuInfo'', ''defaultVCpus''] x) (\<lambda>v.
     bind_res (xml_int [''memoryInfo'', ''sizeInMiB''] x) (\<lambda>m.
     bind_res (map_res gpu_of (xml_all [''gpuInfo'', ''gpus'', ''item''] x)) (\<lambda>gs.
     Inr \<lparr>ty_name = xml_str [''instanceType''] x, ty_vcpus = v, ty_memory = m, ty_gpus = gs\<rparr>)))"

definition describe_instance_types :: "'w aws_env \<Rightarrow> aws_client \<Rightarrow> (type_item list, 'w) act" where
  "describe_instance_types A c =
     page_loop (ae_pages A) A c ''DescribeInstanceTypes'' (\<lambda>x. map_res type_of (xml_all [''instanceTypeInfoSet'', ''item''] x))
       [(''MaxResults'', ''100'')] []"

text \<open>The set of the offered types, as the list of their names.\<close>

definition region_instance_types :: "'w aws_env \<Rightarrow> aws_client \<Rightarrow> string \<Rightarrow> (string list, 'w) act" where
  "region_instance_types A c region =
     page_loop (ae_pages A) A c ''DescribeInstanceTypeOfferings''
       (\<lambda>x. Inr (map (xml_str [''instanceType'']) (xml_all [''instanceTypeOfferingSet'', ''item''] x)))
       [(''LocationType'', ''region''), (''MaxResults'', ''100''), (''Filter.1.Name'', ''location''), (''Filter.1.Value.1'', region)] []"

text \<open>The cases of \<open>normalizeAccel\<close> in their order.\<close>

definition accel_families :: "(string \<times> string) list" where
  "accel_families =
     [(''T4'', ''T4''), (''A10'', ''A10''), (''A100'', ''A100''), (''A800'', ''A800''), (''V100'', ''V100''), (''H100'', ''H100''),
      (''K80'', ''K80''), (''M60'', ''M60''), (''P4'', ''P4''), (''P40'', ''P40''), (''G4AD'', ''A10''), (''G5G'', ''A10'')]"

text \<open>The token before the first \<open>-\<close> or \<open>:\<close>, when there is one.\<close>

definition first_token :: "string \<Rightarrow> string" where
  "first_token s =
     (let t = takeWhile (\<lambda>c. c \<noteq> CHR ''-'' \<and> c \<noteq> CHR '':'') s in if t = [] then s else t)"

definition normalize_accel :: "string \<Rightarrow> string" where
  "normalize_accel name0 =
     (let name = trim_space name0
      in if name = [] then name
         else case List.find (\<lambda>(p, f). has_prefix name p) accel_families of
                Some (p, f) \<Rightarrow> f
              | None \<Rightarrow> first_token name)"

definition spec_accel :: "(string \<times> int) list \<Rightarrow> (string \<times> int) list" where
  "spec_accel gpus =
     (if gpus = [] then []
      else (let n = normalize_accel (fst (last gpus))
            in [(if n = [] then ''gpu'' else n, sum_list (map snd gpus))]))"

definition aws_to_spec :: "string \<Rightarrow> string \<Rightarrow> type_item \<Rightarrow> itype" where
  "aws_to_spec cloud region it =
     \<lparr>it_cloud = cloud, it_region = region, it_type = ty_name it, it_vcpus = ty_vcpus it,
      it_memory = Fin (of_int (ty_memory it) / 1024), it_accel = spec_accel (ty_gpus it), it_max_disk = Fin 500\<rparr>"

definition metadata_client :: "'w aws_env \<Rightarrow> aws_provider \<Rightarrow> string \<Rightarrow> (aws_client, 'w) act" where
  "metadata_client A p region =
     (case p of
        Some k \<Rightarrow> ret (new_client_with_creds region (if region \<noteq> [] then k\<lparr>cred_region := region\<rparr> else k))
      | None \<Rightarrow> new_client A region)"

definition aws_fetch_specs :: "'w aws_env \<Rightarrow> aws_provider \<Rightarrow> string \<Rightarrow> (itype list, 'w) act" where
  "aws_fetch_specs A p region =
     bind_act (metadata_client A p region) (\<lambda>c.
     bind_act (describe_instance_types A c) (\<lambda>all_types.
     bind_act (region_instance_types A c region) (\<lambda>offered.
     ret (map (aws_to_spec ''aws'' region) (filter (\<lambda>it. ty_name it \<in> set offered) all_types)))))"

section \<open>Prices\<close>

function batches :: "nat \<Rightarrow> 'a list \<Rightarrow> 'a list list" where
  "batches n xs = (if xs = [] \<or> n = 0 then [] else take n xs # batches n (drop n xs))"
  by pat_completeness auto
termination by (relation "measure (\<lambda>(n, xs). length xs)") auto

declare batches.simps [simp del]

definition spot_params :: "string \<Rightarrow> string list \<Rightarrow> string smap" where
  "spot_params start batch =
     [(''ProductDescription'', ''Linux/UNIX''), (''MaxResults'', ''100'')] @
     map (\<lambda>(i, t). (''InstanceType.'' @ itoa i, t)) (zip [1..int (length batch)] batch) @ [(''StartTime'', start)]"

text \<open>The first positive price of each type stays.\<close>

definition add_spot :: "'w aws_env \<Rightarrow> f64 smap \<Rightarrow> string \<times> string \<Rightarrow> f64 smap" where
  "add_spot A out item =
     (case item of (t, s) \<Rightarrow>
        if mget out t \<noteq> None then out
        else case ae_scan A s of Inl _ \<Rightarrow> out | Inr p \<Rightarrow> if f_le p (Fin 0) then out else mput t p out)"

text \<open>What was read before an error is returned beside it.\<close>

fun spot_loop :: "'w aws_env \<Rightarrow> aws_client \<Rightarrow> string list list \<Rightarrow> f64 smap \<Rightarrow> 'w \<Rightarrow> (f64 smap \<times> error option) \<times> 'w" where
  "spot_loop A c [] out w = ((out, None), w)"
| "spot_loop A c (b # bs) out w =
     (case aws_get A c ''DescribeSpotPriceHistory'' (spot_params (ae_day_ago A w) b)
             (\<lambda>x. Inr (map (\<lambda>k. (xml_str [''instanceType''] k, xml_str [''spotPrice''] k)) (xml_all [''spotPriceHistorySet'', ''item''] x))) w of
        (Inl e, w1) \<Rightarrow> ((out, Some e), w1)
      | (Inr items, w1) \<Rightarrow> spot_loop A c bs (foldl (add_spot A) out items) w1)"

definition describe_spot_prices :: "'w aws_env \<Rightarrow> aws_client \<Rightarrow> string list \<Rightarrow> 'w \<Rightarrow> (f64 smap \<times> error option) \<times> 'w" where
  "describe_spot_prices A c types = spot_loop A c (batches 10 types) []"

definition pricing_body :: "string \<Rightarrow> string \<Rightarrow> json" where
  "pricing_body region t =
     (let term_of = (\<lambda>(f, v). JObj [(''Type'', JStr ''TERM_MATCH''), (''Field'', JStr f), (''Value'', JStr v)])
      in JObj [(''ServiceCode'', JStr ''AmazonEC2''),
               (''Filters'', JArr (map term_of [(''instanceType'', t), (''regionCode'', region), (''operatingSystem'', ''Linux''),
                  (''capacitystatus'', ''Used''), (''tenancy'', ''Shared'')])),
               (''MaxResults'', jint 1)])"

definition pricing_request :: "'w aws_env \<Rightarrow> cloud_credentials \<Rightarrow> string \<Rightarrow> string \<Rightarrow> string \<Rightarrow> http_request" where
  "pricing_request A cred region t amz_date =
     (let body = ae_marshal A (pricing_body region t);
          payload_hash = ae_hash A body;
          host = ''api.pricing.'' @ region @ ''.amazonaws.com'';
          ctype = ''application/x-amz-json-1.1'';
          auth = sign_v4 A ''POST'' ''/'' region ''pricing'' (access_key_id cred) (secret_access_key cred) payload_hash amz_date
            (take 8 amz_date) [(''content-type'', ctype), (''host'', host), (''x-amz-content-sha256'', payload_hash), (''x-amz-date'', amz_date)]
      in \<lparr>hr_verb = ''POST'', hr_url = ''https://'' @ host @ ''/'',
          hr_headers = [(''Content-Type'', ctype), (''X-Amz-Target'', ''AWSPriceListService.GetProducts''), (''X-Amz-Date'', amz_date),
            (''X-Amz-Content-Sha256'', payload_hash), (''Authorization'', auth)],
          hr_body = body\<rparr>)"

definition product_shape :: shape where
  "product_shape = Sh_rec
     [(''product'', Sh_rec [(''attributes'', Sh_rec [(''instanceType'', Sh_str)])]),
      (''terms'', Sh_rec [(''OnDemand'', Sh_dict (Sh_rec [(''priceDimensions'', Sh_dict (Sh_rec
         [(''pricePerUnit'', Sh_rec [(''USD'', Sh_str)])]))]))])]"

definition products_shape :: shape where
  "products_shape = Sh_rec [(''PriceList'', Sh_list Sh_any), (''NextToken'', Sh_str)]"

text \<open>The prices of a product in the order of the maps' iteration.\<close>

definition product_prices :: "json \<Rightarrow> string list" where
  "product_prices product =
     concat (map (\<lambda>od. map (str_at [''pricePerUnit'', ''USD'']) (kids_at [''priceDimensions''] od))
       (kids_at [''terms'', ''OnDemand''] product))"

definition positive_price :: "'w aws_env \<Rightarrow> string \<Rightarrow> f64 option" where
  "positive_price A s = (case ae_scan A s of Inl _ \<Rightarrow> None | Inr p \<Rightarrow> if f_lt (Fin 0) p then Some p else None)"

text \<open>A product that cannot be decoded is skipped.\<close>

definition priced_products :: "'w aws_env \<Rightarrow> string \<Rightarrow> json \<Rightarrow> f64 list" where
  "priced_products A t answer =
     concat (map (\<lambda>pl. if fits product_shape pl \<and> str_at [''product'', ''attributes'', ''instanceType''] pl = t
                        then List.map_filter (positive_price A) (product_prices pl) else [])
       (kids_at [''PriceList''] answer))"

definition on_demand_price :: "'w aws_env \<Rightarrow> cloud_credentials \<Rightarrow> string \<Rightarrow> string \<Rightarrow> (f64, 'w) act" where
  "on_demand_price A cred region t w =
     bind_act (send_request (ae_post A) (ae_wait A)
                 (\<lambda>status body. Err (''aws pricing http '' @ itoa status @ '': '' @ truncate_text body 500))
                 (pricing_request A cred region t (ae_date A w)))
       (\<lambda>body. case unmarshal (ae_json A) products_shape body of
                  Inl e \<Rightarrow> raise (wrap_err ''aws pricing decode: '' e)
                | Inr answer \<Rightarrow>
                    (case priced_products A t answer of
                       [] \<Rightarrow> raise (Err (''aws pricing: no on-demand price for '' @ t @ '' in '' @ region))
                     | p # _ \<Rightarrow> ret p)) w"

definition metadata_creds :: "'w aws_env \<Rightarrow> aws_provider \<Rightarrow> 'w \<Rightarrow> cloud_credentials res" where
  "metadata_creds A p w = (case p of Some k \<Rightarrow> Inr k | None \<Rightarrow> load_credentials A w)"

definition price_or_zero :: "f64 res \<Rightarrow> f64" where
  "price_or_zero r = (case r of Inl _ \<Rightarrow> Fin 0 | Inr p \<Rightarrow> p)"

fun price_loop ::
  "'w aws_env \<Rightarrow> cloud_credentials \<Rightarrow> string \<Rightarrow> f64 smap \<Rightarrow> string list \<Rightarrow> price smap \<Rightarrow> 'w \<Rightarrow> price smap \<times> 'w" where
  "price_loop A cred region spot [] out w = (out, w)"
| "price_loop A cred region spot (t # ts) out w =
     (case on_demand_price A cred region t w of
        (r, w1) \<Rightarrow>
          (let p = \<lparr>p_on_demand = price_or_zero r, p_spot = (case mget spot t of None \<Rightarrow> Fin 0 | Some x \<Rightarrow> x)\<rparr>
           in price_loop A cred region spot ts
                (if f_lt (Fin 0) (p_on_demand p) \<or> f_lt (Fin 0) (p_spot p) then mput t p out else out) w1))"

definition aws_fetch_prices :: "'w aws_env \<Rightarrow> aws_provider \<Rightarrow> string \<Rightarrow> string list \<Rightarrow> (price smap, 'w) act" where
  "aws_fetch_prices A p region types w =
     (case metadata_creds A p w of
        Inl e \<Rightarrow> (Inl e, w)
      | Inr cred \<Rightarrow>
          if types = [] then (Inr [], w)
          else (case describe_spot_prices A (new_client_with_creds region cred) types w of
                  ((spot, _), w1) \<Rightarrow> (case price_loop A cred region spot types [] w1 of (out, w2) \<Rightarrow> (Inr out, w2))))"

definition aws_source :: "'w aws_env \<Rightarrow> aws_provider \<Rightarrow> 'w source" where
  "aws_source A p =
     \<lparr>src_specs_ttl = 24 * 3600 * second, src_price_ttl = 10 * 60 * second, src_regions = aws_regions A p,
      src_fetch_specs = aws_fetch_specs A p, src_fetch_prices = aws_fetch_prices A p\<rparr>"

end
