(* ===== verification/Aws_Props.thy ===== *)
theory Aws_Props
  imports Aws_Catalog
begin

text \<open>
  What the AWS provider promises: the contract of \<open>Cloud_Launch\<close>, where its calls go and how many they are, what a listing
  collects, the sorting of signed headers, and the names it gives to accelerators.
\<close>

section \<open>The provider keeps the contract\<close>

text \<open>The parts of a specification that no step of a launch changes.\<close>

definition same_order :: "launch_spec \<Rightarrow> launch_spec \<Rightarrow> bool" where
  "same_order s t \<longleftrightarrow> ls_name_prefix s = ls_name_prefix t \<and> ls_instance_type s = ls_instance_type t \<and> ls_region s = ls_region t \<and>
     ls_num_nodes s = ls_num_nodes t \<and> ls_zone s = ls_zone t"

lemma same_order_refl [simp]: "same_order s s"
  by (simp add: same_order_def)

lemma with_image_same: "with_image A c s w = (Inr t, w') \<Longrightarrow> same_order s t"
  by (auto simp: with_image_def same_order_def act_simps split: if_splits)

lemma vpc_for_same: "vpc_for A c cfg s w = (Inr t, w') \<Longrightarrow> same_order s t"
  by (auto simp: vpc_for_def same_order_def act_simps Let_def split: if_splits option.splits)

lemma new_security_group_same: "new_security_group A c s w = (Inr t, w') \<Longrightarrow> same_order s t"
  by (auto simp: new_security_group_def same_order_def act_simps seq_act_def)

lemma security_group_for_same: "security_group_for A c cfg s w = (Inr t, w') \<Longrightarrow> same_order s t"
  by (auto simp: security_group_for_def act_simps Let_def dest: new_security_group_same split: if_splits)
    (auto simp: same_order_def)

lemma same_order_trans: "same_order s t \<Longrightarrow> same_order t u \<Longrightarrow> same_order s u"
  by (simp add: same_order_def)

text \<open>A machine as it is returned when it was asked for.\<close>

definition asked_for :: "launch_spec \<Rightarrow> inst \<Rightarrow> bool" where
  "asked_for spec i \<longleftrightarrow> named spec i \<and> i_status i = status_pending \<and> i_type i = ls_instance_type spec \<and> i_region i = ls_region spec"

lemma asked_for_pending: "same_order s t \<Longrightarrow> asked_for s (pending_inst t z i)"
  by (simp add: asked_for_def named_def pending_inst_def same_order_def)

lemma launch_in_asked: "same_order s t \<Longrightarrow> launch_in A c t sn w = (Inr is, w') \<Longrightarrow> list_all (asked_for s) is"
  by (auto simp: launch_in_def act_simps list_all_iff asked_for_pending)

lemma try_in_turn_all:
  assumes "\<And>n w is w'. f n w = (Inr is, w') \<Longrightarrow> list_all P is" "try_in_turn again pause f ns w = (Inr is, w')"
  shows "list_all P is"
proof (cases ns)
  case Nil
  then show ?thesis using assms(2) by simp
next
  case Cons
  then show ?thesis using try_in_turn_Inr [OF assms(2)] assms(1) by blast
qed

lemma aws_create_asked:
  assumes "aws_create A cfg c s w = (Inr is, w')"
  shows "list_all (asked_for s) is"
proof -
  obtain s2 w2 s3 w3 ns w4 where i: "with_image A c s w = (Inr s2, w2)"
    and g: "(if ls_security_group s2 \<noteq> [] then ret s2 else bind_act (vpc_for A c cfg s2) (security_group_for A c cfg)) w2 = (Inr s3, w3)"
    and t: "try_in_turn aws_retryable (ae_wait A two_seconds) (launch_in A c s3) ns w4 = (Inr is, w')"
    using assms by (auto simp: aws_create_def bind_act_Inr)
  have "same_order s2 s3"
    using g by (auto simp: bind_act_Inr split: if_splits dest!: vpc_for_same security_group_for_same intro: same_order_trans)
  with with_image_same [OF i] have "same_order s s3" by (rule same_order_trans)
  then show ?thesis by (intro try_in_turn_all [OF _ t] launch_in_asked)
qed

abbreviation bound_client :: "cloud_credentials \<Rightarrow> aws_client" where
  "bound_client k \<equiv> new_client_with_creds (cred_region k) k"

definition aws_spec :: "cloud_credentials \<Rightarrow> launch_spec \<Rightarrow> launch_spec" where
  "aws_spec k s = in_client_region (bound_client k) s"

lemma aws_spec_fields [simp]:
  "ls_num_nodes (aws_spec k s) = ls_num_nodes s" "ls_name_prefix (aws_spec k s) = ls_name_prefix s"
  "ls_resume (aws_spec k s) = ls_resume s" "ls_instance_type (aws_spec k s) = ls_instance_type s"
  by (simp_all add: aws_spec_def in_client_region_def)

lemma reuse_nodes_cong:
  "ls_num_nodes s = ls_num_nodes t \<Longrightarrow> ls_name_prefix s = ls_name_prefix t \<Longrightarrow> ls_resume s = ls_resume t \<Longrightarrow>
   reuse_nodes start s existing = reuse_nodes start t existing"
  by (simp add: reuse_nodes_def Let_def)

interpretation aws: launch_client
  "aws_run_instances A cfg (Some k)"
  "\<lambda>s. aws_list_instances A (Some k) (ls_region (aws_spec k s)) (ls_name_prefix s)"
  "\<lambda>s. aws_start_instances A (Some k) (ls_region (aws_spec k s))"
  "\<lambda>s. aws_create A cfg (bound_client k) (aws_spec k s)"
  for A :: "'w aws_env" and cfg k
proof
  fix s and w w1 :: 'w and existing
  assume l: "aws_list_instances A (Some k) (ls_region (aws_spec k s)) (ls_name_prefix s) w = (Inr existing, w1)"
  show "aws_run_instances A cfg (Some k) s w =
    bind_act (reuse_nodes (aws_start_instances A (Some k) (ls_region (aws_spec k s))) s existing)
      (\<lambda>r. case r of Some is \<Rightarrow> ret is | None \<Rightarrow> aws_create A cfg (bound_client k) (aws_spec k s)) w1"
    using l by (simp add: aws_run_instances_def aws_client_of_def bind_act_def [of "ret _"] Let_def aws_spec_def [symmetric]
        bind_act_apply [of _ w] catch_act_def reuse_nodes_cong [of "aws_spec k s" s])
next
  fix s and w w1 :: 'w and e
  assume l: "aws_list_instances A (Some k) (ls_region (aws_spec k s)) (ls_name_prefix s) w = (Inl e, w1)"
  show "\<exists>e'. aws_run_instances A cfg (Some k) s w = (Inl e', w1)"
    using l by (simp add: aws_run_instances_def aws_client_of_def bind_act_def [of "ret _"] Let_def aws_spec_def [symmetric]
        bind_act_fail catch_act_def)
next
  fix s and w w1 :: 'w and "is"
  assume "aws_create A cfg (bound_client k) (aws_spec k s) w = (Inr is, w1)"
  from aws_create_asked [OF this]
  show "list_all (\<lambda>i. named s i \<and> i_status i = status_pending \<and> i_type i = ls_instance_type s) is"
    by (auto simp: list_all_iff asked_for_def named_def)
qed

section \<open>Where the calls go and how many they are\<close>

definition ec2_url :: "aws_client \<Rightarrow> string" where
  "ec2_url c = ''https://'' @ ec2_host (ac_region c) @ ''/''"

lemma ec2_request_url [simp]: "hr_url (ec2_request A c action params date) = ec2_url c"
  by (simp add: ec2_request_def ec2_url_def Let_def)

text \<open>What only requests to one address and the waiting can change.\<close>

definition kept_by :: "('w \<Rightarrow> bool) \<Rightarrow> 'w aws_env \<Rightarrow> string \<Rightarrow> bool" where
  "kept_by P A url \<longleftrightarrow> (\<forall>rq w. hr_url rq = url \<longrightarrow> P w \<longrightarrow> P (snd (ae_post A rq w))) \<and> (\<forall>d w. P w \<longrightarrow> P (snd (ae_wait A d w)))"

lemma keeps_send_loop:
  assumes "kept_by P A (hr_url rq)"
  shows "keeps P (send_loop (ae_post A) (ae_wait A) failure rq as err)"
proof (rule keepsI)
  fix w assume "P w"
  then show "P (snd (send_loop (ae_post A) (ae_wait A) failure rq as err w))"
  proof (induction as arbitrary: err w)
    case (Cons a as)
    obtain rep w1 where p: "ae_post A rq w = (rep, w1)" by (rule prod.exhaust)
    obtain r w2 where q: "ae_wait A ((a + 1) * 500 * 1000000) w1 = (r, w2)" by (rule prod.exhaust)
    have "P w1" "P w2" using assms Cons.prems p q unfolding kept_by_def by (metis snd_conv)+
    then show ?case using p q Cons.IH by (auto split: http_reply.split option.split)
  qed simp
qed

lemma keeps_aws_call [keeps_intros]: "kept_by P A (ec2_url c) \<Longrightarrow> keeps P (aws_call A c action params)"
  using keeps_send_loop [of P A "ec2_request A c action params _"]
  by (simp add: keeps_def aws_call_def send_request_def)

lemma keeps_aws_get [keeps_intros]: "kept_by P A (ec2_url c) \<Longrightarrow> keeps P (aws_get A c action params dec)"
  unfolding aws_get_def by (intro keeps_intros)

lemma keeps_aws_do [keeps_intros]: "kept_by P A (ec2_url c) \<Longrightarrow> keeps P (aws_do A c action params)"
  unfolding aws_do_def by (intro keeps_intros)

lemmas ec2_defs = create_vpc_def create_internet_gateway_def attach_internet_gateway_def create_route_table_def create_route_def
  describe_zones_def create_subnet_def associate_route_table_def describe_vpcs_def create_security_group_def
  authorize_security_group_def describe_security_groups_def describe_subnets_def

lemma keeps_option [keeps_intros]:
  "keeps P a \<Longrightarrow> (\<And>x. keeps P (f x)) \<Longrightarrow> keeps P (case r of None \<Rightarrow> a | Some x \<Rightarrow> f x)"
  by (cases r) auto

lemma keeps_network [keeps_intros]: "kept_by P A (ec2_url c) \<Longrightarrow> keeps P (create_vpc_network A c region zone)"
  unfolding create_vpc_network_def pick_zone_def ec2_defs by (intro keeps_intros)

lemma keeps_vpc_for [keeps_intros]: "kept_by P A (ec2_url c) \<Longrightarrow> keeps P (vpc_for A c cfg s)"
  unfolding vpc_for_def ec2_defs Let_def by (intro keeps_intros)

lemma keeps_security_group_for [keeps_intros]: "kept_by P A (ec2_url c) \<Longrightarrow> keeps P (security_group_for A c cfg s)"
  unfolding security_group_for_def new_security_group_def ec2_defs Let_def by (intro keeps_intros)

lemma keeps_subnets_for [keeps_intros]: "kept_by P A (ec2_url c) \<Longrightarrow> keeps P (subnets_for A c cfg s)"
  unfolding subnets_for_def ec2_defs Let_def by (intro keeps_intros)

lemma keeps_client_run [keeps_intros]: "kept_by P A (ec2_url c) \<Longrightarrow> keeps P (client_run_instances A c s)"
  using keeps_aws_get by (force simp: keeps_def client_run_instances_def)

lemma keeps_try_in_turn [keeps_intros]:
  assumes "\<And>w. P w \<Longrightarrow> P (snd (pause w))" "\<And>n. keeps P (f n)"
  shows "keeps P (try_in_turn again pause f ns)"
proof (rule keepsI)
  fix w assume "P w"
  then show "P (snd (try_in_turn again pause f ns w))"
  proof (induction ns arbitrary: w)
    case (Cons n ns)
    obtain r w1 where f: "f n w = (r, w1)" by (rule prod.exhaust)
    obtain q w2 where p: "pause w1 = (q, w2)" by (rule prod.exhaust)
    have "P w1" using keepsD [OF assms(2) Cons.prems f] .
    moreover from this have "P w2" using assms(1) p by (metis snd_conv)
    ultimately show ?case using f p Cons.IH by (auto split: sum.split option.split)
  qed simp
qed

lemma keeps_launch_in [keeps_intros]: "kept_by P A (ec2_url c) \<Longrightarrow> keeps P (launch_in A c s n)"
  unfolding launch_in_def by (intro keeps_intros)

lemma keeps_image [keeps_intros]: "kept_by P A (ec2_url c) \<Longrightarrow> keeps P (with_image A c s)"
  unfolding with_image_def client_get_image_def Let_def by (intro keeps_intros)

lemma keeps_aws_create: "kept_by P A (ec2_url c) \<Longrightarrow> keeps P (aws_create A cfg c s)"
  unfolding aws_create_def by (intro keeps_intros) (auto simp: kept_by_def)

text \<open>A bound on a measure of the world that each request raises by at most one: the requests sent.\<close>

definition costs :: "('w \<Rightarrow> nat) \<Rightarrow> nat \<Rightarrow> ('a, 'w) act \<Rightarrow> bool" where
  "costs sent n m \<longleftrightarrow> (\<forall>w. sent (snd (m w)) \<le> sent w + n)"

definition counts :: "('w \<Rightarrow> nat) \<Rightarrow> 'w aws_env \<Rightarrow> bool" where
  "counts sent A \<longleftrightarrow> (\<forall>rq w. sent (snd (ae_post A rq w)) \<le> sent w + 1) \<and> (\<forall>d w. sent (snd (ae_wait A d w)) \<le> sent w)"

lemma costs_ret [simp]: "costs sent n (ret x)" "costs sent n (raise e)" "costs sent n (of_res r)"
  by (simp_all add: costs_def)

lemma costs_bind: "costs sent n m \<Longrightarrow> (\<And>x. costs sent k (f x)) \<Longrightarrow> costs sent (n + k) (bind_act m f)"
proof -
  assume m: "costs sent n m" and f: "\<And>x. costs sent k (f x)"
  have "sent (snd (bind_act m f w)) \<le> sent w + (n + k)" for w
  proof -
    obtain r w1 where 1: "m w = (r, w1)" by (rule prod.exhaust)
    then have "sent w1 \<le> sent w + n" using m unfolding costs_def by (metis snd_conv)
    then have "sent (snd (f x w1)) \<le> sent w + (n + k)" for x
      using f [of x, unfolded costs_def, rule_format, of w1] by linarith
    then show ?thesis using 1 \<open>sent w1 \<le> sent w + n\<close> by (cases r) (simp_all add: bind_act_def)
  qed
  then show ?thesis by (simp add: costs_def)
qed

lemma costs_mono: "costs sent n m \<Longrightarrow> n \<le> k \<Longrightarrow> costs sent k m"
  by (auto simp: costs_def intro: order_trans)

lemma costs_send_loop: "counts sent A \<Longrightarrow> costs sent (length as) (send_loop (ae_post A) (ae_wait A) failure rq as err)"
proof (induction as arbitrary: err)
  case (Cons a as)
  have "sent (snd (send_loop (ae_post A) (ae_wait A) failure rq (a # as) err w)) \<le> sent w + length (a # as)" for w
  proof -
    obtain rep w1 where p: "ae_post A rq w = (rep, w1)" by (rule prod.exhaust)
    obtain r w2 where q: "ae_wait A ((a + 1) * 500 * 1000000) w1 = (r, w2)" by (rule prod.exhaust)
    have "sent w1 \<le> sent w + 1" "sent w2 \<le> sent w1"
      using Cons.prems p q unfolding counts_def by (metis snd_conv)+
    moreover have "sent (snd (send_loop (ae_post A) (ae_wait A) failure rq as e w2)) \<le> sent w2 + length as" for e
      using Cons by (simp add: costs_def)
    ultimately have "sent (snd (send_loop (ae_post A) (ae_wait A) failure rq as e w2)) \<le> sent w + length (a # as)" for e
      using order_trans [of "sent (snd (send_loop (ae_post A) (ae_wait A) failure rq as e w2))" "sent w2 + length as"] by simp
    then show ?thesis
      using p q \<open>sent w1 \<le> sent w + 1\<close> \<open>sent w2 \<le> sent w1\<close> by (auto split: http_reply.split option.split)
  qed
  then show ?case by (simp add: costs_def)
qed (simp add: costs_def)

lemma costs_aws_call: "counts sent A \<Longrightarrow> costs sent 3 (aws_call A c action params)"
  using costs_send_loop [of sent A "[0..2]" _ "ec2_request A c action params _"]
  by (simp add: costs_def aws_call_def send_request_def)

lemma costs_aws_get: "counts sent A \<Longrightarrow> costs sent 3 (aws_get A c action params dec)"
  unfolding aws_get_def by (rule costs_mono [OF costs_bind [of _ 3 _ 0]]) (auto simp: costs_aws_call)

lemma costs_aws_do: "counts sent A \<Longrightarrow> costs sent 3 (aws_do A c action params)"
  unfolding aws_do_def seq_act_def by (rule costs_mono [OF costs_bind [of _ 3 _ 0]]) (auto simp: costs_aws_call)

lemma costs_page_loop: "counts sent A \<Longrightarrow> costs sent (3 * n) (page_loop n A c action items params acc)"
proof (induction n arbitrary: params acc)
  case (Suc n)
  show ?case
    unfolding page_loop.simps
    by (rule costs_mono [OF costs_bind [of _ 3 _ "3 * n"]]) (auto simp: costs_aws_get Suc split: prod.split)
qed simp

lemma costs_each_id: "(\<And>i. costs sent n (f i)) \<Longrightarrow> costs sent (n * length is) (each_id f is)"
proof (induction "is")
  case (Cons i "is")
  then show ?case
    unfolding each_id.simps seq_act_def by (intro costs_mono [OF costs_bind [of _ n _ "n * length is"]]) auto
qed simp

section \<open>Listings\<close>

text \<open>The pages of a listing, each asked with the token the one before ended with.\<close>

inductive listing :: "'w aws_env \<Rightarrow> aws_client \<Rightarrow> string \<Rightarrow> (xml \<Rightarrow> 'a list res) \<Rightarrow> nat \<Rightarrow> string smap \<Rightarrow> 'w \<Rightarrow> 'a list \<Rightarrow> 'w \<Rightarrow> bool"
  for A c action items where
  last_page: "aws_get A c action params (\<lambda>x. bind_res (items x) (\<lambda>xs. Inr (xs, xml_str [''nextToken''] x))) w = (Inr (xs, []), w1)
    \<Longrightarrow> listing A c action items 1 params w xs w1"
| more_pages: "aws_get A c action params (\<lambda>x. bind_res (items x) (\<lambda>xs. Inr (xs, xml_str [''nextToken''] x))) w = (Inr (xs, token), w1)
    \<Longrightarrow> token \<noteq> [] \<Longrightarrow> listing A c action items n (mput ''NextToken'' token params) w1 ys w2
    \<Longrightarrow> listing A c action items (Suc n) params w (xs @ ys) w2"

lemma listing_loop: "listing A c action items k params w xs w' \<Longrightarrow> k \<le> n \<Longrightarrow> page_loop n A c action items params acc w = (Inr (acc @ xs), w')"
proof (induction k params w xs w' arbitrary: n acc rule: listing.induct)
  case last_page
  then show ?case by (cases n) (simp_all add: bind_act_def)
next
  case more_pages
  then show ?case by (cases n) (simp_all add: bind_act_def)
qed

lemma loop_listing: "page_loop n A c action items params acc w = (Inr r, w') \<Longrightarrow>
  \<exists>k xs. k \<le> n \<and> listing A c action items k params w xs w' \<and> r = acc @ xs"
proof (induction n arbitrary: params acc w)
  case (Suc n)
  then obtain xs token w1 where g: "aws_get A c action params (\<lambda>x. bind_res (items x) (\<lambda>xs. Inr (xs, xml_str [''nextToken''] x))) w = (Inr (xs, token), w1)"
    and rest: "(if token = [] then ret (acc @ xs) else page_loop n A c action items (mput ''NextToken'' token params) (acc @ xs)) w1 = (Inr r, w')"
    by (auto simp: bind_act_Inr)
  show ?case
  proof (cases "token = []")
    case True
    then show ?thesis using rest listing.last_page [of A c action params items w xs w1] g by (intro exI [of _ 1] exI [of _ xs]) auto
  next
    case False
    then obtain k ys where "k \<le> n" "listing A c action items k (mput ''NextToken'' token params) w1 ys w'" "r = (acc @ xs) @ ys"
      using rest Suc.IH [of "mput ''NextToken'' token params" "acc @ xs" w1] by auto
    then show ?thesis using listing.more_pages [OF g False] by (intro exI [of _ "Suc k"] exI [of _ "xs @ ys"]) auto
  qed
qed simp

section \<open>Signed headers\<close>

lemma mset_sink: "mset (sink x ys) = add_mset x (mset ys)"
  by (induction ys) auto

lemma set_sink: "set (sink x ys) = insert x (set ys)"
  by (metis mset_sink set_mset_add_mset_insert set_mset_mset)

lemma sink_descending: "sorted_wrt (\<ge>) ys \<Longrightarrow> sorted_wrt (\<ge>) (sink x ys)"
  by (induction ys) (auto simp: set_sink)

lemma sort_strings_sort: "sort_strings xs = sort xs"
proof -
  have "mset (foldl (\<lambda>d x. sink x d) ys xs) = mset ys + mset xs \<and>
    (sorted_wrt (\<ge>) ys \<longrightarrow> sorted_wrt (\<ge>) (foldl (\<lambda>d x. sink x d) ys xs))" for ys
    by (induction xs arbitrary: ys) (auto simp: mset_sink sink_descending)
  from this [of "[]"] have "mset (sort_strings xs) = mset xs" "sorted (sort_strings xs)"
    by (simp_all add: sort_strings_def sorted_wrt_rev)
  then show ?thesis by (metis properties_for_sort)
qed

section \<open>Names of accelerators\<close>

lemma first_token_not_empty: "s \<noteq> [] \<Longrightarrow> first_token s \<noteq> []"
  by (simp add: first_token_def Let_def)

lemma normalize_accel_find:
  assumes "trim_space name \<noteq> []" "List.find (\<lambda>(p, f). has_prefix (trim_space name) p) accel_families = Some (p, f)"
  shows "normalize_accel name = f"
  using assms by (simp add: normalize_accel_def Let_def)

lemma spec_accel_shape: "list_all (\<lambda>(n, c). n \<noteq> []) (spec_accel gpus) \<and> length (spec_accel gpus) \<le> 1"
  by (simp add: spec_accel_def Let_def)

lemma lower_names:
  "to_lower ''A100'' = ''a100''" "to_lower ''A10'' = ''a10''" "to_lower ''P40'' = ''p40''" "to_lower ''P4'' = ''p4''"
  by code_simp+

lemma accel_family_found:
  "List.find (\<lambda>(p, f). has_prefix (''A100'' @ rest) p) accel_families = Some (''A10'', ''A10'')"
  "List.find (\<lambda>(p, f). has_prefix (''P40'' @ rest) p) accel_families = Some (''P4'', ''P4'')"
  by (simp_all add: accel_families_def has_prefix_def)

lemma mistaken_accel:
  assumes "(full, short) \<in> {(''A100'', ''A10''), (''P40'', ''P4'')}" and "ty_gpus it \<noteq> []"
    and "has_prefix (trim_space (fst (last (ty_gpus it)))) full"
  shows "it_accel (aws_to_spec cloud region it) = [(short, sum_list (map snd (ty_gpus it)))]"
proof -
  obtain rest where r: "trim_space (fst (last (ty_gpus it))) = full @ rest" using assms(3) by (auto simp: has_prefix_iff)
  have "normalize_accel (fst (last (ty_gpus it))) = short"
  proof (cases "full = ''A100''")
    case True
    then have "short = ''A10''" using assms(1) by simp
    then show ?thesis using normalize_accel_find [of "fst (last (ty_gpus it))"] r True accel_family_found(1) by simp
  next
    case False
    then have "full = ''P40''" "short = ''P4''" using assms(1) by auto
    then show ?thesis using normalize_accel_find [of "fst (last (ty_gpus it))"] r accel_family_found(2) by simp
  qed
  moreover have "short \<noteq> []" using assms(1) by auto
  ultimately show ?thesis using assms(2) by (simp add: aws_to_spec_def spec_accel_def)
qed

section \<open>Properties\<close>

text \<open>
  An account whose answers to every request hold one running machine; the world is the list of the addresses the requests
  were sent to.
\<close>

definition sample_answer :: xml where
  "sample_answer = Xml ''r''
     [Xml ''reservationSet'' [Xml ''item'' [Xml ''instancesSet'' [Xml ''item'' [Xml ''instanceId'' [] ''i-1'',
        Xml ''instanceState'' [Xml ''name'' [] ''running''] []] []] []] []] [],
      Xml ''instancesSet'' [Xml ''item'' [Xml ''instanceId'' [] ''i-2''] []] [],
      Xml ''vpcSet'' [Xml ''item'' [Xml ''vpcId'' [] ''vpc-1'', Xml ''isDefault'' [] ''true''] []] [],
      Xml ''subnetSet'' [Xml ''item'' [Xml ''subnetId'' [] ''sn-1'', Xml ''availabilityZone'' [] ''a''] []] [],
      Xml ''groupId'' [] ''sg-1'',
      Xml ''instanceTypeInfoSet'' [Xml ''item'' [Xml ''instanceType'' [] ''p'', Xml ''gpuInfo'' [Xml ''gpus'' [Xml ''item''
        [Xml ''name'' [] ''V100''] []] []] []] []] [],
      Xml ''instanceTypeOfferingSet'' [Xml ''item'' [Xml ''instanceType'' [] ''p''] []] []] []"

definition sample_aws :: "string list aws_env" where
  "sample_aws = \<lparr>ae_env = [], ae_user_home = Inr ''/h'', ae_join = join_with ''/'', ae_read = (\<lambda>_ _. Inl (Err [])), ae_hash = id,
     ae_hmac = (\<lambda>k d. k @ d), ae_date = (\<lambda>_. ''20240101T000000Z''), ae_day_ago = (\<lambda>_. []), ae_nonce = (\<lambda>_. ''n''),
     ae_post = (\<lambda>rq w. (Answered 200 [] None, w @ [hr_url rq])), ae_wait = (\<lambda>_ w. (None, w)), ae_xml = (\<lambda>_. Inr sample_answer),
     ae_instant = (\<lambda>_ _. None), ae_scan = (\<lambda>_. Inl (Err [])), ae_marshal = (\<lambda>_. []), ae_json = (\<lambda>_. Inl (Err [])), ae_base64 = id,
     ae_pages = 2\<rparr>"

definition sample_keys :: cloud_credentials where
  "sample_keys = \<lparr>access_key_id = ''a'', secret_access_key = ''s'', cred_region = ''r1''\<rparr>"

definition sample_order :: launch_spec where
  "sample_order = \<lparr>ls_instance_type = ''g'', ls_region = ''r2'', ls_zone = [], ls_num_nodes = 1, ls_image_id = ''ami'', ls_key_name = [],
     ls_security_group = [], ls_vswitch = [], ls_vpc = [], ls_spot_strategy = [], ls_disk_gib = 0, ls_user_data = [], ls_tags = [],
     ls_name_prefix = ''c'', ls_resume = True\<rparr>"


lemma sample_call: "aws_call sample_aws c action params w = (Inr [], w @ [ec2_url c])"
proof -
  have "[0..2] = [0, 1, 2::int]" by (simp add: upto.simps)
  then show ?thesis by (simp add: aws_call_def send_request_def sample_aws_def)
qed

lemma sample_get: "aws_get sample_aws c action params dec w =
    (case dec sample_answer of Inl e \<Rightarrow> (Inl (wrap_err ''aws decode response: '' e), w @ [ec2_url c]) | Inr x \<Rightarrow> (Inr x, w @ [ec2_url c]))"
proof -
  have "ae_xml sample_aws b = Inr sample_answer" for b by (simp add: sample_aws_def)
  then show ?thesis by (simp add: aws_get_def bind_act_def sample_call split: sum.split)
qed

lemma sample_listing:
  "aws_list_instances sample_aws (Some sample_keys) ''r2'' ''c'' [] =
     (Inr [\<lparr>i_id = ''i-1'', i_name = [], i_public_ip = [], i_private_ip = [], i_status = ''running'', i_type = [], i_region = ''r2'',
       i_zone = [], i_created_at = 0, i_tags = []\<rparr>], [''https://ec2.r2.amazonaws.com/''])"
proof -
  have "ae_pages sample_aws = Suc (Suc 0)" by (simp add: sample_aws_def)
  then show ?thesis
    by (simp add: aws_list_instances_def with_client_def bind_act_def aws_client_of_def at_region_def client_describe_instances_def
        sample_get instance_of_def sample_answer_def xml_str_def xml_tags_def tag_name_def map_status_def parse_time_def
        new_client_with_creds_def sample_keys_def ec2_url_def ec2_host_def)
qed


text \<open>New machines are always asked for in the region of the credentials: while machines are created nothing is sent to
  any other address, whatever the region of the specification is, which the machines are then said to be in.\<close>

theorem aws_creates_in_own_region:
  assumes "kept_by P A (ec2_url c)" and "P w" and "aws_create A cfg c spec w = (r, w')"
  shows "P w' \<and> (case r of Inl _ \<Rightarrow> True | Inr is \<Rightarrow> list_all (asked_for spec) is)"
  using keepsD [OF keeps_aws_create [OF assms(1)] assms(2,3)] aws_create_asked [of A cfg c spec w _ w'] assms(3)
  by (auto split: sum.split)

theorem aws_creates_in_own_region_witness:
  "\<exists>is w'. aws_create sample_aws None (bound_client sample_keys) sample_order [] = (Inr is, w') \<and> map i_region is = [''r2''] \<and>
     list_all (\<lambda>u. u = ''https://ec2.r1.amazonaws.com/'') w'"
proof -
  let ?P = "list_all (\<lambda>u. u = ''https://ec2.r1.amazonaws.com/'')"
  have u: "ec2_url (bound_client sample_keys) = ''https://ec2.r1.amazonaws.com/''" by code_simp
  have k: "kept_by ?P sample_aws (ec2_url (bound_client sample_keys))"
    unfolding u by (simp add: kept_by_def sample_aws_def)
  have trim: "trim_space ''true'' = ''true''" by code_simp
  have c: "map_sum id (map i_id) (fst (aws_create sample_aws None (bound_client sample_keys) sample_order [])) = Inr [''i-2'']"
    using trim by (simp add: aws_create_def with_image_def vpc_for_def security_group_for_def new_security_group_def subnets_for_def sample_order_def
        bind_act_def seq_act_def describe_vpcs_def describe_subnets_def create_security_group_def authorize_security_group_def
        aws_do_def sample_call sample_get vpc_of_def xml_bool_def xml_bool_text_def sample_answer_def xml_str_def xml_tags_def Let_def
        launch_in_def client_run_instances_def subnet_of_def pending_inst_def)
  obtain r w' where r: "aws_create sample_aws None (bound_client sample_keys) sample_order [] = (r, w')" by (rule prod.exhaust)
  then obtain i where i: "r = Inr [i]" using c by (cases r) auto
  from aws_creates_in_own_region [OF k _ r] i r show ?thesis
    by (simp add: asked_for_def sample_order_def)
qed




text \<open>The signature of a request depends on its headers alone, not on the order a map gives them in: they are signed in the
  order of their names.\<close>

theorem signature_canonical:
  assumes "wf_map h" and "wf_map h'" and "mget h = mget h'"
  shows "sort_strings (mkeys h) = sorted_keys h \<and>
    sign_v4 A verb uri region service key secret payload date stamp h = sign_v4 A verb uri region service key secret payload date stamp h'"
  using sorted_keys_cong [OF assms]
  by (simp add: sort_strings_sort sign_v4_def sorted_keys_def canonical_headers_text_def assms(3))

theorem signature_canonical_witness:
  "sign_v4 sample_aws ''POST'' ''/'' ''r'' ''s'' ''k'' ''x'' ''p'' ''d'' ''t'' [(''b'', ''1''), (''a'', ''2'')] =
   sign_v4 sample_aws ''POST'' ''/'' ''r'' ''s'' ''k'' ''x'' ''p'' ''d'' ''t'' [(''a'', ''2''), (''b'', ''1'')]"
proof -
  have m: "mget [(''b'', ''1''), (''a'', ''2'')] = mget [(''a'', ''2''), (''b'', ''1'')]" by (rule ext) simp
  show ?thesis by (rule conjunct2 [OF signature_canonical [OF _ _ m]]) simp_all
qed


lemma sample_specs:
  "aws_fetch_specs sample_aws (Some sample_keys) ''r2'' w =
     (Inr [aws_to_spec ''aws'' ''r2'' \<lparr>ty_name = ''p'', ty_vcpus = 0, ty_memory = 0, ty_gpus = [(''V100'', 0)]\<rparr>],
      w @ [''https://ec2.r2.amazonaws.com/'', ''https://ec2.r2.amazonaws.com/''])"
proof -
  have "ae_pages sample_aws = Suc (Suc 0)" by (simp add: sample_aws_def)
  moreover have "map_res type_of (xml_all [''instanceTypeInfoSet'', ''item''] sample_answer) =
      Inr [\<lparr>ty_name = ''p'', ty_vcpus = 0, ty_memory = 0, ty_gpus = [(''V100'', 0)]\<rparr>]"
    "map (xml_str [''instanceType'']) (xml_all [''instanceTypeOfferingSet'', ''item''] sample_answer) = [''p'']"
    "xml_str [''nextToken''] sample_answer = []" "ec2_url (new_client_with_creds ''r2'' (sample_keys\<lparr>cred_region := ''r2''\<rparr>)) = ''https://ec2.r2.amazonaws.com/''"
    by code_simp+
  ultimately show ?thesis
    by (simp add: aws_fetch_specs_def metadata_client_def describe_instance_types_def region_instance_types_def bind_act_def sample_get)
qed


text \<open>A machine with A100 or P40 accelerators is offered as one with A10 or P4: a task that asks for the former never gets it,
  and one that asks for the latter may.\<close>

theorem aws_accelerator_mistaken:
  assumes "(full, short) \<in> {(''A100'', ''A10''), (''P40'', ''P4'')}" and "ty_gpus it \<noteq> []"
    and "has_prefix (trim_space (fst (last (ty_gpus it)))) full"
  shows "it_accel (aws_to_spec ''aws'' region it) = [(short, sum_list (map snd (ty_gpus it)))] \<and>
    \<not> matches_accel (it_accel (aws_to_spec ''aws'' region it)) [(full, n)] \<and>
    matches_accel (it_accel (aws_to_spec ''aws'' region it)) [(short, sum_list (map snd (ty_gpus it)))]"
proof -
  have s: "it_accel (aws_to_spec ''aws'' region it) = [(short, sum_list (map snd (ty_gpus it)))]"
    by (rule mistaken_accel [OF assms])
  moreover have "to_lower full \<noteq> short" "to_lower short \<noteq> short" "full \<noteq> short"
    using assms(1) lower_names by auto
  ultimately show ?thesis by (simp add: matches_accel_def)
qed

theorem aws_accelerator_mistaken_witness:
  "\<not> matches_accel (it_accel (aws_to_spec ''aws'' ''r'' \<lparr>ty_name = ''p4d.24xlarge'', ty_vcpus = 96, ty_memory = 1179648,
     ty_gpus = [(''A100'', 8)]\<rparr>)) [(''A100'', 8)]"
proof -
  have "trim_space ''A100'' = ''A100''" by code_simp
  then show ?thesis
    by (intro aws_accelerator_mistaken [THEN conjunct2, THEN conjunct1, of _ "''A10''"]) (simp_all add: has_prefix_def)
qed

end
