(* ===== verification/Aliyun_Client.thy ===== *)
theory Aliyun_Client
  imports Cloud_Http Config
begin

text \<open>
  The client of the ECS API, \<open>internal/cloud/aliyun/client.go\<close>, \<open>sign.go\<close> and \<open>ecs.go\<close>: the credentials, the signature, the call, and
  the operations with the parameters each sends and what it reads from the answer. HMAC-SHA1, the transport and the
  parsing of JSON text and of times are parameters.
\<close>

section \<open>The client\<close>

text \<open>
  \<open>al_mac\<close> is the HMAC of a text under a key, in base64; \<open>al_stamp\<close> the time as it is sent; \<open>al_nonce\<close> a fresh random text.
  \<open>al_pages\<close> bounds the pages read of one listing.
\<close>

record 'w ali_env =
  al_env :: "string smap"
  al_user_home :: "string res"
  al_join :: "string list \<Rightarrow> string"
  al_read :: "string \<Rightarrow> 'w \<Rightarrow> string res"
  al_mac :: "string \<Rightarrow> string \<Rightarrow> string"
  al_stamp :: "'w \<Rightarrow> string"
  al_nonce :: "'w \<Rightarrow> string \<times> 'w"
  al_post :: "http_request \<Rightarrow> 'w \<Rightarrow> http_reply \<times> 'w"
  al_wait :: "int \<Rightarrow> 'w \<Rightarrow> error option \<times> 'w"
  al_instant :: "string \<Rightarrow> int option"
  al_json :: "string \<Rightarrow> json res"
  al_base64 :: "string \<Rightarrow> string"
  al_order :: "'w \<Rightarrow> nat \<Rightarrow> nat list"
  al_pages :: nat

record ali_cred =
  alc_key :: string
  alc_secret :: string

definition ali_keys_shape :: shape where
  "ali_keys_shape = Sh_rec [(''access_key_id'', Sh_str), (''access_key_secret'', Sh_str)]"

text \<open>A file that can be read and decoded replaces both keys, also by empty ones.\<close>

definition ali_disk_keys :: "'w ali_env \<Rightarrow> 'w \<Rightarrow> string \<times> string \<Rightarrow> string \<times> string" where
  "ali_disk_keys A w keys =
     (case al_user_home A of
        Inl _ \<Rightarrow> keys
      | Inr home \<Rightarrow>
          (case al_read A (al_join A [home, ''.aliyun'', ''config.json'']) w of
             Inl _ \<Rightarrow> keys
           | Inr data \<Rightarrow>
               (case unmarshal (al_json A) ali_keys_shape data of
                  Inl _ \<Rightarrow> keys
                | Inr j \<Rightarrow> (str_at [''access_key_id''] j, str_at [''access_key_secret''] j))))"

definition ali_load_credentials :: "'w ali_env \<Rightarrow> 'w \<Rightarrow> ali_cred res" where
  "ali_load_credentials A w =
     (let ak = getenv (al_env A) ''ALIBABA_CLOUD_ACCESS_KEY_ID'';
          sk = getenv (al_env A) ''ALIBABA_CLOUD_ACCESS_KEY_SECRET'';
          keys = (if ak = [] \<or> sk = [] then ali_disk_keys A w (ak, sk) else (ak, sk))
      in if fst keys = [] \<or> snd keys = []
         then Inl (Err ''aliyun credentials not found: set ALIBABA_CLOUD_ACCESS_KEY_ID/SECRET or configure ~/.aliyun/config.json'')
         else Inr \<lparr>alc_key = fst keys, alc_secret = snd keys\<rparr>)"

record ali_client =
  ali_cl_cred :: ali_cred
  ali_cl_endpoint :: string
  ali_cl_region :: string

definition ali_client_with_creds :: "'w ali_env \<Rightarrow> string \<Rightarrow> ali_cred \<Rightarrow> ali_client" where
  "ali_client_with_creds A region cred =
     (let e = getenv (al_env A) ''ALIBABA_CLOUD_ENDPOINT''
      in \<lparr>ali_cl_cred = cred, ali_cl_endpoint = if e = [] then ''ecs.aliyuncs.com'' else e, ali_cl_region = region\<rparr>)"

definition ali_new_client :: "'w ali_env \<Rightarrow> string \<Rightarrow> (ali_client, 'w) act" where
  "ali_new_client A region w =
     (case ali_load_credentials A w of
        Inl e \<Rightarrow> (Inl e, w) | Inr cred \<Rightarrow> (Inr (ali_client_with_creds A region cred), w))"

section \<open>Signing\<close>

text \<open>\<open>uriEncode\<close>: the escaping of a form with three replacements.\<close>

definition replace_one :: "char \<Rightarrow> string \<Rightarrow> string \<Rightarrow> string" where
  "replace_one c by s = concat (map (\<lambda>x. if x = c then by else [x]) s)"

fun restore_tilde :: "string \<Rightarrow> string" where
  "restore_tilde [] = []"
| "restore_tilde (c # s) =
     (if c = CHR ''%'' \<and> take 2 s = ''7E'' then CHR ''~'' # restore_tilde (drop 2 s) else c # restore_tilde s)"

definition uri_encode :: "string \<Rightarrow> string" where
  "uri_encode s = restore_tilde (replace_one CHR ''*'' ''%2A'' (replace_one CHR ''+'' ''%20'' (query_escape s)))"

definition sign_request :: "'w ali_env \<Rightarrow> string \<Rightarrow> string \<Rightarrow> string smap \<Rightarrow> string" where
  "sign_request A verb secret params =
     (let pair = (\<lambda>k. uri_encode k @ ''='' @ uri_encode (case mget params k of Some v \<Rightarrow> v | None \<Rightarrow> []));
          canonical = join_with ''&'' (map pair (sorted_keys params))
      in al_mac A (secret @ ''&'') (join_with ''&'' [verb, uri_encode ''/'', uri_encode canonical]))"

section \<open>Calls\<close>

text \<open>The parameters of a call: those of the operation, and the common ones over them.\<close>

definition ali_params :: "'w ali_env \<Rightarrow> ali_client \<Rightarrow> string \<Rightarrow> string \<Rightarrow> string \<Rightarrow> string smap \<Rightarrow> string smap" where
  "ali_params A c action nonce stamp params =
     (let p1 = foldl (\<lambda>m (k, v). mput k v m) (mdel ''Signature'' params)
            [(''Action'', action), (''Version'', ''2014-05-26''), (''Format'', ''JSON''), (''AccessKeyId'', alc_key (ali_cl_cred c)),
             (''SignatureMethod'', ''HMAC-SHA1''), (''SignatureVersion'', ''1.0''), (''SignatureNonce'', nonce), (''Timestamp'', stamp)];
          p2 = (if ali_cl_region c \<noteq> [] \<and> action \<noteq> ''DescribeRegions'' then mput ''RegionId'' (ali_cl_region c) p1 else p1)
      in mput ''Signature'' (sign_request A ''POST'' (alc_secret (ali_cl_cred c)) p2) p2)"

definition ali_error_shape :: shape where
  "ali_error_shape = Sh_rec [(''Code'', Sh_str), (''Message'', Sh_str), (''Status'', Sh_int)]"

definition ali_failure :: "'w ali_env \<Rightarrow> int \<Rightarrow> string \<Rightarrow> error" where
  "ali_failure A status body =
     (case unmarshal (al_json A) ali_error_shape body of
        Inr j \<Rightarrow> Err (''aliyun api error ['' @ str_at [''Code''] j @ '']: '' @ str_at [''Message''] j @ '' (http '' @ itoa status @ '')'')
      | Inl _ \<Rightarrow> Err (''aliyun http '' @ itoa status @ '': '' @ truncate_text body 500))"

definition ali_request :: "ali_client \<Rightarrow> string smap \<Rightarrow> http_request" where
  "ali_request c params =
     \<lparr>hr_verb = ''POST'', hr_url = ''https://'' @ ali_cl_endpoint c @ ''/'',
      hr_headers = [(''Content-Type'', ''application/x-www-form-urlencoded'')], hr_body = form_encode params\<rparr>"

definition ali_call :: "'w ali_env \<Rightarrow> ali_client \<Rightarrow> string \<Rightarrow> string smap \<Rightarrow> (string, 'w) act" where
  "ali_call A c action params w =
     (case al_nonce A w of
        (nonce, w1) \<Rightarrow>
          send_request (al_post A) (al_wait A) (ali_failure A) (ali_request c (ali_params A c action nonce (al_stamp A w1) params)) w1)"

definition ali_do :: "'w ali_env \<Rightarrow> ali_client \<Rightarrow> string \<Rightarrow> string smap \<Rightarrow> (unit, 'w) act" where
  "ali_do A c action params = seq_act (ali_call A c action params) (ret ())"

definition ali_get :: "'w ali_env \<Rightarrow> ali_client \<Rightarrow> string \<Rightarrow> string smap \<Rightarrow> shape \<Rightarrow> (json, 'w) act" where
  "ali_get A c action params sh =
     bind_act (ali_call A c action params) (\<lambda>body.
       of_res (case unmarshal (al_json A) sh body of
                 Inl e \<Rightarrow> Inl (wrap_err ''aliyun decode response: '' e) | Inr j \<Rightarrow> Inr j))"

section \<open>Regions, zones and keys\<close>

definition ali_describe_regions :: "'w ali_env \<Rightarrow> ali_client \<Rightarrow> (string list, 'w) act" where
  "ali_describe_regions A c =
     bind_act (ali_get A c ''DescribeRegions'' []
                 (Sh_rec [(''Regions'', Sh_rec [(''Region'', Sh_list (Sh_rec [(''RegionId'', Sh_str)]))])]))
       (\<lambda>j. ret (map (str_at [''RegionId'']) (kids_at [''Regions'', ''Region''] j)))"

definition ali_describe_zones :: "'w ali_env \<Rightarrow> ali_client \<Rightarrow> string \<Rightarrow> (string list, 'w) act" where
  "ali_describe_zones A c region =
     bind_act (ali_get A c ''DescribeZones'' [(''RegionId'', region)]
                 (Sh_rec [(''Zones'', Sh_rec [(''Zone'', Sh_list (Sh_rec [(''ZoneId'', Sh_str)]))])]))
       (\<lambda>j. ret (map (str_at [''ZoneId'']) (kids_at [''Zones'', ''Zone''] j)))"

text \<open>A call whose answer is one string.\<close>

definition ali_string :: "'w ali_env \<Rightarrow> ali_client \<Rightarrow> string \<Rightarrow> string smap \<Rightarrow> string \<Rightarrow> (string, 'w) act" where
  "ali_string A c action params key =
     bind_act (ali_get A c action params (Sh_rec [(key, Sh_str)])) (\<lambda>j. ret (str_at [key] j))"

text \<open>The answer of \<open>CreateKeyPair\<close> is decoded with the name of the key too.\<close>

definition ali_create_key_pair :: "'w ali_env \<Rightarrow> ali_client \<Rightarrow> string \<Rightarrow> string \<Rightarrow> (string, 'w) act" where
  "ali_create_key_pair A c region name =
     bind_act (ali_get A c ''CreateKeyPair'' [(''RegionId'', region), (''KeyPairName'', name)]
                 (Sh_rec [(''KeyPairName'', Sh_str), (''PrivateKeyBody'', Sh_str)]))
       (\<lambda>j. ret (str_at [''PrivateKeyBody''] j))"

definition ali_delete_key_pair :: "'w ali_env \<Rightarrow> ali_client \<Rightarrow> string \<Rightarrow> string \<Rightarrow> (unit, 'w) act" where
  "ali_delete_key_pair A c region name = ali_do A c ''DeleteKeyPair'' [(''RegionId'', region), (''KeyPairName'', name)]"

section \<open>Networks\<close>

definition ali_create_vpc :: "'w ali_env \<Rightarrow> ali_client \<Rightarrow> string \<Rightarrow> string \<Rightarrow> string \<Rightarrow> (string, 'w) act" where
  "ali_create_vpc A c region cidr name =
     ali_string A c ''CreateVpc'' [(''RegionId'', region), (''CidrBlock'', cidr), (''VpcName'', name)] ''VpcId''"

definition ali_vpcs_shape :: shape where
  "ali_vpcs_shape = Sh_rec [(''Vpcs'', Sh_rec [(''Vpc'', Sh_list (Sh_rec
     [(''VpcId'', Sh_str), (''VpcName'', Sh_str), (''Status'', Sh_str), (''IsDefault'', Sh_bool), (''CreationTime'', Sh_str)]))])]"

text \<open>Of a network only the id is ever read.\<close>

definition ali_describe_vpcs :: "'w ali_env \<Rightarrow> ali_client \<Rightarrow> string \<Rightarrow> bool \<Rightarrow> (string list, 'w) act" where
  "ali_describe_vpcs A c region only_default =
     bind_act (ali_get A c ''DescribeVpcs'' (put_if only_default [(''IsDefault'', ''true'')] [(''RegionId'', region)]) ali_vpcs_shape)
       (\<lambda>j. ret (map (str_at [''VpcId'']) (kids_at [''Vpcs'', ''Vpc''] j)))"

definition ali_create_vswitch ::
  "'w ali_env \<Rightarrow> ali_client \<Rightarrow> string \<Rightarrow> string \<Rightarrow> string \<Rightarrow> string \<Rightarrow> string \<Rightarrow> (string, 'w) act" where
  "ali_create_vswitch A c region vpc zone cidr name =
     ali_string A c ''CreateVSwitch'' [(''RegionId'', region), (''VpcId'', vpc), (''ZoneId'', zone), (''CidrBlock'', cidr),
       (''VSwitchName'', name)] ''VSwitchId''"

definition ali_vswitches_shape :: shape where
  "ali_vswitches_shape = Sh_rec [(''VSwitches'', Sh_rec [(''VSwitch'', Sh_list (Sh_rec
     [(''VSwitchId'', Sh_str), (''VSwitchName'', Sh_str), (''ZoneId'', Sh_str), (''CidrBlock'', Sh_str), (''VpcId'', Sh_str),
      (''Status'', Sh_str), (''AvailableIpAddressCount'', Sh_int)]))])]"

definition ali_vswitch_of :: "json \<Rightarrow> vswitch" where
  "ali_vswitch_of j =
     \<lparr>vw_id = str_at [''VSwitchId''] j, vw_name = str_at [''VSwitchName''] j, vw_zone = str_at [''ZoneId''] j,
      vw_cidr = str_at [''CidrBlock''] j, vw_vpc = str_at [''VpcId''] j\<rparr>"

definition ali_list_vswitches :: "'w ali_env \<Rightarrow> ali_client \<Rightarrow> string \<Rightarrow> string \<Rightarrow> (vswitch list, 'w) act" where
  "ali_list_vswitches A c region vpc =
     bind_act (ali_get A c ''DescribeVSwitches'' [(''RegionId'', region), (''VpcId'', vpc)] ali_vswitches_shape)
       (\<lambda>j. ret (map ali_vswitch_of (kids_at [''VSwitches'', ''VSwitch''] j)))"

definition ali_create_security_group ::
  "'w ali_env \<Rightarrow> ali_client \<Rightarrow> string \<Rightarrow> string \<Rightarrow> string \<Rightarrow> string \<Rightarrow> (string, 'w) act" where
  "ali_create_security_group A c region vpc name desc =
     ali_string A c ''CreateSecurityGroup'' [(''RegionId'', region), (''VpcId'', vpc), (''SecurityGroupName'', name),
       (''Description'', desc)] ''SecurityGroupId''"

definition ali_authorize_security_group ::
  "'w ali_env \<Rightarrow> ali_client \<Rightarrow> string \<Rightarrow> string \<Rightarrow> int \<Rightarrow> int \<Rightarrow> string \<Rightarrow> (unit, 'w) act" where
  "ali_authorize_security_group A c region group_id port_from port_to proto =
     ali_do A c ''AuthorizeSecurityGroup'' [(''RegionId'', region), (''SecurityGroupId'', group_id), (''IpProtocol'', proto),
       (''PortRange'', itoa port_from @ ''/'' @ itoa port_to), (''SourceCidrIp'', ''0.0.0.0/0'')]"

section \<open>Machines\<close>

text \<open>The limit of the spot price is set nowhere in the program, so it is not sent.\<close>

definition ali_run_params :: "'w ali_env \<Rightarrow> string \<Rightarrow> launch_spec \<Rightarrow> string smap" where
  "ali_run_params A nonce spec =
     number_tags ''Tag.'' 1 (ls_tags spec)
     (put_if (ls_user_data spec \<noteq> []) [(''UserData'', al_base64 A (ls_user_data spec))]
     (put_if (ls_spot_strategy spec \<noteq> []) [(''SpotStrategy'', ls_spot_strategy spec)]
     (put_if (0 < ls_disk_gib spec) [(''SystemDisk.Size'', itoa (ls_disk_gib spec))]
     (put_if (ls_zone spec \<noteq> []) [(''ZoneId'', ls_zone spec)]
     (put_if (ls_vswitch spec \<noteq> []) [(''VSwitchId'', ls_vswitch spec)]
        [(''RegionId'', ls_region spec), (''ImageId'', ls_image_id spec), (''InstanceType'', ls_instance_type spec),
         (''InstanceName'', ls_name_prefix spec), (''Amount'', itoa (ls_num_nodes spec)), (''InstanceChargeType'', ''PostPaid''),
         (''KeyPairName'', ls_key_name spec), (''SecurityGroupId'', ls_security_group spec), (''ClientToken'', nonce),
         (''InternetMaxBandwidthOut'', ''100'')])))))"

definition ali_client_run :: "'w ali_env \<Rightarrow> ali_client \<Rightarrow> launch_spec \<Rightarrow> (string list, 'w) act" where
  "ali_client_run A c spec w =
     (case al_nonce A w of
        (nonce, w1) \<Rightarrow>
          bind_act (ali_get A c ''RunInstances'' (ali_run_params A nonce spec)
                      (Sh_rec [(''InstanceIdSets'', Sh_rec [(''InstanceIdSet'', Sh_list Sh_str)])]))
            (\<lambda>j. ret (map json_str (kids_at [''InstanceIdSets'', ''InstanceIdSet''] j))) w1)"

definition ali_status :: "string \<Rightarrow> instance_status" where
  "ali_status s =
     (case mget [(''Pending'', ''pending''), (''Starting'', ''starting''), (''Running'', ''running''), (''Stopping'', ''stopping''),
                 (''Stopped'', ''stopped''), (''Deleted'', ''terminated'')] s of Some t \<Rightarrow> t | None \<Rightarrow> ''unknown'')"

definition ali_time :: "'w ali_env \<Rightarrow> string \<Rightarrow> int" where
  "ali_time A s = (if s = [] then 0 else case al_instant A s of Some t \<Rightarrow> t | None \<Rightarrow> 0)"

definition first_str :: "json list \<Rightarrow> string" where
  "first_str js = (case js of [] \<Rightarrow> [] | j # _ \<Rightarrow> json_str j)"

definition ali_instances_shape :: shape where
  "ali_instances_shape = Sh_rec [(''Instances'', Sh_rec [(''Instance'', Sh_list (Sh_rec
     [(''InstanceId'', Sh_str), (''InstanceName'', Sh_str), (''Status'', Sh_str), (''InstanceType'', Sh_str), (''RegionId'', Sh_str),
      (''ZoneId'', Sh_str), (''CreationTime'', Sh_str), (''PublicIpAddress'', Sh_rec [(''IpAddress'', Sh_list Sh_str)]),
      (''EipAddress'', Sh_rec [(''IpAddress'', Sh_str)]),
      (''VpcAttributes'', Sh_rec [(''PrivateIpAddress'', Sh_rec [(''IpAddress'', Sh_list Sh_str)])])]))]), (''TotalCount'', Sh_int)]"

definition ali_instance_of :: "'w ali_env \<Rightarrow> json \<Rightarrow> inst" where
  "ali_instance_of A j =
     (let eip = str_at [''EipAddress'', ''IpAddress''] j
      in \<lparr>i_id = str_at [''InstanceId''] j, i_name = str_at [''InstanceName''] j,
          i_public_ip = (if eip = [] then first_str (kids_at [''PublicIpAddress'', ''IpAddress''] j) else eip),
          i_private_ip = first_str (kids_at [''VpcAttributes'', ''PrivateIpAddress'', ''IpAddress''] j),
          i_status = ali_status (str_at [''Status''] j), i_type = str_at [''InstanceType''] j, i_region = str_at [''RegionId''] j,
          i_zone = str_at [''ZoneId''] j, i_created_at = ali_time A (str_at [''CreationTime''] j), i_tags = []\<rparr>)"

definition ali_client_describe ::
  "'w ali_env \<Rightarrow> ali_client \<Rightarrow> string \<Rightarrow> string list \<Rightarrow> string \<Rightarrow> int \<Rightarrow> (inst list, 'w) act" where
  "ali_client_describe A c region ids prefix page =
     bind_act (ali_get A c ''DescribeInstances''
                 (put_if (prefix \<noteq> []) [(''InstanceName'', prefix)]
                 (put_if (0 < length ids) [(''InstanceIds'', ''[\"'' @ join_with ''\",\"'' ids @ ''\"]'')]
                    [(''RegionId'', region), (''PageSize'', ''100''), (''PageNumber'', itoa page)])) ali_instances_shape)
       (\<lambda>j. ret (map (ali_instance_of A) (kids_at [''Instances'', ''Instance''] j)))"

definition ali_start_instance :: "'w ali_env \<Rightarrow> ali_client \<Rightarrow> string \<Rightarrow> string \<Rightarrow> (unit, 'w) act" where
  "ali_start_instance A c region ident = ali_do A c ''StartInstance'' [(''RegionId'', region), (''InstanceId'', ident)]"

definition ali_stop_instance :: "'w ali_env \<Rightarrow> ali_client \<Rightarrow> string \<Rightarrow> string \<Rightarrow> (unit, 'w) act" where
  "ali_stop_instance A c region ident =
     ali_do A c ''StopInstance'' [(''RegionId'', region), (''InstanceId'', ident), (''ForceStop'', ''true'')]"

definition ali_delete_instance :: "'w ali_env \<Rightarrow> ali_client \<Rightarrow> string \<Rightarrow> string \<Rightarrow> (unit, 'w) act" where
  "ali_delete_instance A c region ident =
     ali_do A c ''DeleteInstance'' [(''RegionId'', region), (''InstanceId'', ident), (''Force'', ''true'')]"

section \<open>Images\<close>

definition ali_images_shape :: shape where
  "ali_images_shape = Sh_rec [(''Images'', Sh_rec [(''Image'', Sh_list (Sh_rec
     [(''ImageId'', Sh_str), (''ImageName'', Sh_str), (''CreationTime'', Sh_str), (''ImageOwnerAlias'', Sh_str), (''Status'', Sh_str)]))])]"

definition ali_wanted_image :: "string \<Rightarrow> json \<Rightarrow> bool" where
  "ali_wanted_image platform j \<longleftrightarrow>
     str_at [''Status''] j = ''Available'' \<and> str_at [''ImageOwnerAlias''] j = ''system'' \<and>
     contains_str (to_lower (str_at [''ImageName''] j)) platform \<and> contains_str (to_lower (str_at [''ImageName''] j)) ''x64''"

text \<open>At most three pages of a hundred images are looked at.\<close>

fun ali_image_pages ::
  "'w ali_env \<Rightarrow> ali_client \<Rightarrow> string \<Rightarrow> string \<Rightarrow> int list \<Rightarrow> (string \<times> string) list \<Rightarrow> ((string \<times> string) list, 'w) act" where
  "ali_image_pages A c region platform [] acc = ret acc"
| "ali_image_pages A c region platform (p # ps) acc =
     bind_act (ali_get A c ''DescribeImages'' [(''RegionId'', region), (''PageSize'', ''100''), (''PageNumber'', itoa p)] ali_images_shape)
       (\<lambda>j. let images = kids_at [''Images'', ''Image''] j;
                found = map (\<lambda>i. (str_at [''ImageId''] i, str_at [''CreationTime''] i)) (filter (ali_wanted_image platform) images)
            in if length images < 100 then ret (acc @ found) else ali_image_pages A c region platform ps (acc @ found))"

definition ali_client_image :: "'w ali_env \<Rightarrow> ali_client \<Rightarrow> string \<Rightarrow> string \<Rightarrow> (string, 'w) act" where
  "ali_client_image A c region platform =
     bind_act (ali_image_pages A c region platform [1..3] []) (\<lambda>items.
       case newest_image items of
         None \<Rightarrow> raise (Err (''no '' @ platform @ '' system image found in '' @ region))
       | Some ident \<Rightarrow> ret ident)"

end
