(* ===== verification/Aliyun_Provider.thy ===== *)
theory Aliyun_Provider
  imports Cloud_Launch Aliyun_Client
begin

text \<open>
  The provider of Alibaba Cloud, \<open>internal/cloud/aliyun/provider.go\<close> and \<open>config.go\<close>, and its metadata source, \<open>metadata.go\<close> and
  \<open>pricing.go\<close>. The prices of the instance types are asked one after the other, in an order of the world's choosing: the
  code runs them at the same time, each on its own entry.
\<close>

section \<open>Clients\<close>

record ali_config =
  alg_vpc :: string
  alg_vswitches :: "string list"
  alg_security_group :: string
  alg_ssh_user :: string

text \<open>\<open>LoadConfig\<close>; \<open>decode\<close> reads the fields of the section.\<close>

definition ali_load_config :: "config \<Rightarrow> (yaml_node \<Rightarrow> ali_config res) \<Rightarrow> ali_config option" where
  "ali_load_config cf decode = (case config_section (Some cf) ''aliyun'' decode of Inl _ \<Rightarrow> None | Inr c \<Rightarrow> Some c)"

type_synonym ali_provider = "ali_cred option"

definition new_ali_provider :: "ali_cred option \<Rightarrow> ali_provider" where
  "new_ali_provider creds = creds"

definition ali_factory :: "cloud_credentials \<Rightarrow> ali_provider res" where
  "ali_factory k = Inr (new_ali_provider (Some \<lparr>alc_key = access_key_id k, alc_secret = secret_access_key k\<rparr>))"

text \<open>\<open>client\<close> and \<open>metadataClient\<close>, which differ in the region.\<close>

definition ali_client_in :: "'w ali_env \<Rightarrow> ali_provider \<Rightarrow> string \<Rightarrow> (ali_client, 'w) act" where
  "ali_client_in A p region =
     (case p of Some k \<Rightarrow> ret (ali_client_with_creds A region k) | None \<Rightarrow> ali_new_client A region)"

definition ali_with :: "'w ali_env \<Rightarrow> ali_provider \<Rightarrow> (ali_client \<Rightarrow> ('a, 'w) act) \<Rightarrow> ('a, 'w) act" where
  "ali_with A p f = bind_act (ali_client_in A p []) f"

definition or_hangzhou :: "string \<Rightarrow> string" where
  "or_hangzhou region = (if region = [] then ''cn-hangzhou'' else region)"

section \<open>Operations passed through\<close>

definition ali_regions :: "'w ali_env \<Rightarrow> ali_provider \<Rightarrow> (string list, 'w) act" where
  "ali_regions A p = ali_with A p (ali_describe_regions A)"

text \<open>Page after page until one is not full.\<close>

fun ali_pages :: "nat \<Rightarrow> 'w ali_env \<Rightarrow> ali_client \<Rightarrow> string \<Rightarrow> string \<Rightarrow> int \<Rightarrow> inst list \<Rightarrow> (inst list, 'w) act" where
  "ali_pages 0 A c region prefix page acc = raise (Panic ''the listing has not ended'')"
| "ali_pages (Suc n) A c region prefix page acc =
     bind_act (ali_client_describe A c region [] prefix page) (\<lambda>batch.
       if length batch < 100 then ret (acc @ batch) else ali_pages n A c region prefix (page + 1) (acc @ batch))"

definition ali_list_instances :: "'w ali_env \<Rightarrow> ali_provider \<Rightarrow> string \<Rightarrow> string \<Rightarrow> (inst list, 'w) act" where
  "ali_list_instances A p region prefix = ali_with A p (\<lambda>c. ali_pages (al_pages A) A c region prefix 1 [])"

definition ali_describe_instances :: "'w ali_env \<Rightarrow> ali_provider \<Rightarrow> string \<Rightarrow> string list \<Rightarrow> (inst list, 'w) act" where
  "ali_describe_instances A p region ids = ali_with A p (\<lambda>c. ali_client_describe A c region ids [] 1)"

definition ali_stop_instances :: "'w ali_env \<Rightarrow> ali_provider \<Rightarrow> string \<Rightarrow> string list \<Rightarrow> (unit, 'w) act" where
  "ali_stop_instances A p region ids = ali_with A p (\<lambda>c. each_id (ali_stop_instance A c region) ids)"

definition ali_start_instances :: "'w ali_env \<Rightarrow> ali_provider \<Rightarrow> string \<Rightarrow> string list \<Rightarrow> (unit, 'w) act" where
  "ali_start_instances A p region ids = ali_with A p (\<lambda>c. each_id (ali_start_instance A c region) ids)"

definition ali_terminate_instances :: "'w ali_env \<Rightarrow> ali_provider \<Rightarrow> string \<Rightarrow> string list \<Rightarrow> (unit, 'w) act" where
  "ali_terminate_instances A p region ids = ali_with A p (\<lambda>c. each_id (ali_delete_instance A c region) ids)"

definition ali_public_ip :: "'w ali_env \<Rightarrow> ali_provider \<Rightarrow> string \<Rightarrow> string \<Rightarrow> (string, 'w) act" where
  "ali_public_ip A p region ident =
     ali_with A p (\<lambda>c. bind_act (ali_client_describe A c region [ident] [] 1) (\<lambda>is.
       case is of [] \<Rightarrow> raise (Err (''instance '' @ ident @ '' not found'')) | i # _ \<Rightarrow> ret (i_public_ip i)))"

definition ali_zones :: "'w ali_env \<Rightarrow> ali_provider \<Rightarrow> string \<Rightarrow> (string list, 'w) act" where
  "ali_zones A p region = ali_with A p (\<lambda>c. ali_describe_zones A c (or_hangzhou region))"

definition ali_key_pair :: "'w ali_env \<Rightarrow> ali_provider \<Rightarrow> string \<Rightarrow> string \<Rightarrow> (string, 'w) act" where
  "ali_key_pair A p region name = ali_with A p (\<lambda>c. ali_create_key_pair A c region name)"

definition ali_drop_key_pair :: "'w ali_env \<Rightarrow> ali_provider \<Rightarrow> string \<Rightarrow> string \<Rightarrow> (unit, 'w) act" where
  "ali_drop_key_pair A p region name = ali_with A p (\<lambda>c. ali_delete_key_pair A c region name)"

definition ali_security_group :: "'w ali_env \<Rightarrow> ali_provider \<Rightarrow> string \<Rightarrow> string \<Rightarrow> string \<Rightarrow> string \<Rightarrow> (string, 'w) act" where
  "ali_security_group A p region vpc name desc = ali_with A p (\<lambda>c. ali_create_security_group A c region vpc name desc)"

definition ali_authorize :: "'w ali_env \<Rightarrow> ali_provider \<Rightarrow> string \<Rightarrow> string \<Rightarrow> int \<Rightarrow> int \<Rightarrow> string \<Rightarrow> (unit, 'w) act" where
  "ali_authorize A p region group_id port_from port_to proto =
     ali_with A p (\<lambda>c. ali_authorize_security_group A c region group_id port_from port_to proto)"

definition ali_vpc :: "'w ali_env \<Rightarrow> ali_provider \<Rightarrow> string \<Rightarrow> string \<Rightarrow> string \<Rightarrow> (string, 'w) act" where
  "ali_vpc A p region cidr name = ali_with A p (\<lambda>c. ali_create_vpc A c (or_hangzhou region) cidr name)"

definition ali_vswitch :: "'w ali_env \<Rightarrow> ali_provider \<Rightarrow> string \<Rightarrow> string \<Rightarrow> string \<Rightarrow> string \<Rightarrow> string \<Rightarrow> (string, 'w) act" where
  "ali_vswitch A p region vpc zone cidr name = ali_with A p (\<lambda>c. ali_create_vswitch A c region vpc zone cidr name)"

definition ali_vswitches :: "'w ali_env \<Rightarrow> ali_provider \<Rightarrow> string \<Rightarrow> string \<Rightarrow> (vswitch list, 'w) act" where
  "ali_vswitches A p region vpc = ali_with A p (\<lambda>c. ali_list_vswitches A c region vpc)"

definition ali_image :: "'w ali_env \<Rightarrow> ali_provider \<Rightarrow> string \<Rightarrow> string \<Rightarrow> (string, 'w) act" where
  "ali_image A p region platform = ali_with A p (\<lambda>c. ali_client_image A c (or_hangzhou region) platform)"

section \<open>Launching\<close>

definition ensure_security_group :: "'w ali_env \<Rightarrow> ali_client \<Rightarrow> string \<Rightarrow> string \<Rightarrow> (string, 'w) act" where
  "ensure_security_group A c region vpc =
     bind_act (ali_create_security_group A c region vpc ''gpi-sg'' ''gpi managed security group'') (\<lambda>g.
     seq_act (ali_authorize_security_group A c region g 22 22 ''tcp'')
     (seq_act (ali_authorize_security_group A c region g 1024 65535 ''tcp'') (ret g)))"

text \<open>The switches named in the configuration, each looked for in a listing of its own.\<close>

fun named_vswitches :: "(vswitch list, 'w) act \<Rightarrow> string list \<Rightarrow> (vswitch list, 'w) act" where
  "named_vswitches listing [] = ret []"
| "named_vswitches listing (i # is) =
     bind_act listing (\<lambda>vs.
     bind_act (named_vswitches listing is) (\<lambda>rest.
       ret ((case List.find (\<lambda>v. vw_id v = i) vs of None \<Rightarrow> [] | Some v \<Rightarrow> [v]) @ rest)))"

definition first_default_vpc :: "'w ali_env \<Rightarrow> ali_client \<Rightarrow> string \<Rightarrow> (string, 'w) act" where
  "first_default_vpc A c region =
     bind_act (ali_describe_vpcs A c region True) (\<lambda>vpcs. ret (case vpcs of [] \<Rightarrow> [] | v # _ \<Rightarrow> v))"

definition fresh_vswitch :: "'w ali_env \<Rightarrow> ali_client \<Rightarrow> string \<Rightarrow> string \<Rightarrow> string \<Rightarrow> (vswitch list, 'w) act" where
  "fresh_vswitch A c region vpc0 zone0 =
     bind_act (if vpc0 = [] then ali_create_vpc A c region ''172.16.0.0/16'' ''gpi-vpc'' else ret vpc0) (\<lambda>vpc.
     bind_act (pick_zone region zone0 (ali_describe_zones A c region)) (\<lambda>zone.
     bind_act (ali_create_vswitch A c region vpc zone ''172.16.0.0/24'' ''gpi-vswitch'') (\<lambda>ident.
       ret [\<lparr>vw_id = ident, vw_name = [], vw_zone = zone, vw_cidr = [], vw_vpc = vpc\<rparr>])))"

definition ali_vswitches_for :: "'w ali_env \<Rightarrow> ali_client \<Rightarrow> ali_config option \<Rightarrow> launch_spec \<Rightarrow> (vswitch list, 'w) act" where
  "ali_vswitches_for A c cfg spec =
     (let region = ls_region spec
      in bind_act (case cfg of None \<Rightarrow> ret []
                   | Some k \<Rightarrow> named_vswitches (ali_list_vswitches A c region (ls_vpc spec)) (alg_vswitches k))
           (\<lambda>wanted.
              if wanted \<noteq> [] then ret wanted
              else bind_act (if ls_vpc spec = [] then first_default_vpc A c region else ret (ls_vpc spec)) (\<lambda>vpc.
                   bind_act (if vpc \<noteq> [] then ali_list_vswitches A c region vpc else ret []) (\<lambda>existing.
                     if existing \<noteq> [] then ret existing else fresh_vswitch A c region vpc (ls_zone spec)))))"

definition ali_retryable :: "error \<Rightarrow> bool" where
  "ali_retryable = contains_any [''NoStock'', ''InvalidResourceType.NotSupported'', ''IncorrectVpcStatus'', ''InvalidVSwitch'',
     ''Zone.NotOnSale'']"

text \<open>The zone of a switch is taken only when the task asks for none.\<close>

definition ali_zone_for :: "launch_spec \<Rightarrow> vswitch \<Rightarrow> string" where
  "ali_zone_for spec v = (if ls_zone spec = [] then vw_zone v else ls_zone spec)"

definition ali_launch_in :: "'w ali_env \<Rightarrow> ali_client \<Rightarrow> launch_spec \<Rightarrow> vswitch \<Rightarrow> (inst list, 'w) act" where
  "ali_launch_in A c spec v =
     bind_act (ali_client_run A c (spec\<lparr>ls_vswitch := vw_id v, ls_zone := ali_zone_for spec v\<rparr>)) (\<lambda>ids.
       ret (map (pending_inst spec (ali_zone_for spec v)) ids))"

definition ali_with_vpc :: "'w ali_env \<Rightarrow> ali_client \<Rightarrow> ali_config option \<Rightarrow> launch_spec \<Rightarrow> (launch_spec, 'w) act" where
  "ali_with_vpc A c cfg spec =
     (let own = (case cfg of None \<Rightarrow> [] | Some k \<Rightarrow> alg_vpc k)
      in if ls_vpc spec \<noteq> [] then ret spec
         else if own \<noteq> [] then ret (spec\<lparr>ls_vpc := own\<rparr>)
         else bind_act (first_default_vpc A c (ls_region spec)) (\<lambda>v. ret (spec\<lparr>ls_vpc := v\<rparr>)))"

definition ali_with_image :: "'w ali_env \<Rightarrow> ali_client \<Rightarrow> launch_spec \<Rightarrow> (launch_spec, 'w) act" where
  "ali_with_image A c spec =
     (if ls_image_id spec \<noteq> [] then ret spec
      else bind_act (ali_client_image A c (ls_region spec) ''ubuntu'') (\<lambda>i. ret (spec\<lparr>ls_image_id := i\<rparr>)))"

definition ali_with_group :: "'w ali_env \<Rightarrow> ali_client \<Rightarrow> ali_config option \<Rightarrow> launch_spec \<Rightarrow> (launch_spec, 'w) act" where
  "ali_with_group A c cfg spec =
     (let own = (case cfg of None \<Rightarrow> [] | Some k \<Rightarrow> alg_security_group k)
      in if ls_security_group spec \<noteq> [] then ret spec
         else if own \<noteq> [] then ret (spec\<lparr>ls_security_group := own\<rparr>)
         else bind_act (ensure_security_group A c (ls_region spec) (ls_vpc spec)) (\<lambda>g. ret (spec\<lparr>ls_security_group := g\<rparr>)))"

definition ali_create :: "'w ali_env \<Rightarrow> ali_config option \<Rightarrow> ali_client \<Rightarrow> launch_spec \<Rightarrow> (inst list, 'w) act" where
  "ali_create A cfg c spec =
     bind_act (ali_with_vpc A c cfg spec) (\<lambda>spec2.
     bind_act (ali_with_image A c spec2) (\<lambda>spec3.
     bind_act (ali_with_group A c cfg spec3) (\<lambda>spec4.
     bind_act (ali_vswitches_for A c cfg spec4) (\<lambda>vs.
       try_in_turn ali_retryable (al_wait A two_seconds) (ali_launch_in A c spec4) vs))))"

definition in_default_region :: "launch_spec \<Rightarrow> launch_spec" where
  "in_default_region spec = spec\<lparr>ls_region := or_hangzhou (ls_region spec)\<rparr>"

definition ali_run_instances ::
  "'w ali_env \<Rightarrow> ali_config option \<Rightarrow> ali_provider \<Rightarrow> launch_spec \<Rightarrow> (inst list, 'w) act" where
  "ali_run_instances A cfg p spec0 =
     bind_act (ali_client_in A p []) (\<lambda>c.
       let spec = in_default_region spec0
       in bind_act
            (catch_act (ali_list_instances A p (ls_region spec) (ls_name_prefix spec))
               (\<lambda>e. raise (wrap_err ''list existing instances: '' e)))
            (\<lambda>existing.
               bind_act (reuse_nodes (ali_start_instances A p (ls_region spec)) spec existing)
                 (\<lambda>r. case r of Some is \<Rightarrow> ret is | None \<Rightarrow> ali_create A cfg c spec)))"

section \<open>Instance types\<close>

definition ali_types_shape :: shape where
  "ali_types_shape = Sh_rec [(''InstanceTypes'', Sh_rec [(''InstanceType'', Sh_list (Sh_rec
     [(''InstanceTypeId'', Sh_str), (''CpuCoreCount'', Sh_int), (''MemorySize'', Sh_float), (''GPUAmount'', Sh_int), (''GPUSpec'', Sh_str)]))]),
     (''NextToken'', Sh_str)]"

fun ali_type_pages :: "nat \<Rightarrow> 'w ali_env \<Rightarrow> ali_client \<Rightarrow> string smap \<Rightarrow> json list \<Rightarrow> (json list, 'w) act" where
  "ali_type_pages 0 A c params acc = raise (Panic ''the listing has not ended'')"
| "ali_type_pages (Suc n) A c params acc =
     bind_act (ali_get A c ''DescribeInstanceTypes'' params ali_types_shape) (\<lambda>j.
       let all_types = acc @ kids_at [''InstanceTypes'', ''InstanceType''] j; token = str_at [''NextToken''] j
       in if token = [] then ret all_types else ali_type_pages n A c (mput ''NextToken'' token params) all_types)"

definition ali_describe_types :: "'w ali_env \<Rightarrow> ali_client \<Rightarrow> string \<Rightarrow> (json list, 'w) act" where
  "ali_describe_types A c region = ali_type_pages (al_pages A) A c [(''RegionId'', region), (''MaxResults'', ''100'')] []"

text \<open>The word after the last space.\<close>

definition ali_accel_name :: "string \<Rightarrow> string" where
  "ali_accel_name s =
     (let name = trim_space s; word = rev (takeWhile (\<lambda>c. c \<noteq> CHR '' '') (rev name)) in if word = [] then ''gpu'' else word)"

definition ali_to_spec :: "string \<Rightarrow> string \<Rightarrow> json \<Rightarrow> itype" where
  "ali_to_spec cloud region j =
     (let n = int_at [''GPUAmount''] j
      in \<lparr>it_cloud = cloud, it_region = region, it_type = str_at [''InstanceTypeId''] j, it_vcpus = int_at [''CpuCoreCount''] j,
          it_memory = float_at [''MemorySize''] j,
          it_accel = (if 0 < n then [(ali_accel_name (str_at [''GPUSpec''] j), n)] else []), it_max_disk = Fin 500\<rparr>)"

definition ali_fetch_specs :: "'w ali_env \<Rightarrow> ali_provider \<Rightarrow> string \<Rightarrow> (itype list, 'w) act" where
  "ali_fetch_specs A p region =
     bind_act (ali_client_in A p region) (\<lambda>c.
     bind_act (ali_describe_types A c region) (\<lambda>js. ret (map (ali_to_spec ''aliyun'' region) js)))"

section \<open>Prices\<close>

definition ali_price_shape :: shape where
  "ali_price_shape = Sh_rec [(''PriceInfo'', Sh_rec [(''Price'', Sh_rec [(''OriginalPrice'', Sh_float), (''TradePrice'', Sh_float)])])]"

definition ali_spot_shape :: shape where
  "ali_spot_shape = Sh_rec [(''SpotPrices'', Sh_rec [(''SpotPriceType'', Sh_list (Sh_rec
     [(''InstanceType'', Sh_str), (''SpotPrice'', Sh_float), (''ZoneId'', Sh_str), (''Timestamp'', Sh_str)]))])]"

text \<open>The price of one type, if any.\<close>

definition ali_on_demand :: "'w ali_env \<Rightarrow> ali_client \<Rightarrow> string \<Rightarrow> string \<Rightarrow> (f64 option, 'w) act" where
  "ali_on_demand A c region t =
     bind_act (ali_get A c ''DescribePrice'' [(''RegionId'', region), (''PriceUnit'', ''Hour''), (''ResourceType'', ''instance''),
                 (''InstanceType'', t), (''SystemDisk.Category'', ''cloud_essd'')] ali_price_shape)
       (\<lambda>j. let trade = float_at [''PriceInfo'', ''Price'', ''TradePrice''] j;
                price = (if f_le trade (Fin 0) then float_at [''PriceInfo'', ''Price'', ''OriginalPrice''] j else trade)
            in ret (if f_lt (Fin 0) price then Some price else None))"

definition ali_spot :: "'w ali_env \<Rightarrow> ali_client \<Rightarrow> string \<Rightarrow> string \<Rightarrow> (f64 option, 'w) act" where
  "ali_spot A c region t =
     bind_act (ali_get A c ''DescribeSpotPriceHistory'' [(''RegionId'', region), (''NetworkType'', ''vpc''), (''InstanceType'', t),
                 (''Offset'', ''1''), (''PageSize'', ''20'')] ali_spot_shape)
       (\<lambda>j. ret (map_option (float_at [''SpotPrice''])
              (List.find (\<lambda>i. str_at [''InstanceType''] i = t \<and> f_lt (Fin 0) (float_at [''SpotPrice''] i))
                 (kids_at [''SpotPrices'', ''SpotPriceType''] j))))"

text \<open>The calls for each type; the first error is returned only when nothing could be priced.\<close>

fun price_calls ::
  "(string \<Rightarrow> (f64 option, 'w) act) \<Rightarrow> string list \<Rightarrow> f64 smap \<Rightarrow> error option \<Rightarrow> 'w \<Rightarrow> (f64 smap \<times> error option) \<times> 'w" where
  "price_calls ask [] out err w = ((out, err), w)"
| "price_calls ask (t # ts) out err w =
     (case ask t w of
        (Inl e, w1) \<Rightarrow> price_calls ask ts out (if err = None then Some e else err) w1
      | (Inr None, w1) \<Rightarrow> price_calls ask ts out err w1
      | (Inr (Some p), w1) \<Rightarrow> price_calls ask ts (mput t p out) err w1)"

text \<open>\<open>parallelPrice\<close>: the types in the order the world chooses.\<close>

definition parallel_price ::
  "('w \<Rightarrow> nat \<Rightarrow> nat list) \<Rightarrow> (string \<Rightarrow> (f64 option, 'w) act) \<Rightarrow> string list \<Rightarrow> 'w \<Rightarrow> (f64 smap \<times> error option) \<times> 'w" where
  "parallel_price order ask types w =
     (case price_calls ask (map (\<lambda>i. types ! i) (order w (length types))) [] None w of
        ((out, err), w1) \<Rightarrow> ((out, if out = [] then err else None), w1))"

definition ali_price_of :: "f64 smap \<Rightarrow> f64 smap \<Rightarrow> string \<Rightarrow> price" where
  "ali_price_of on_demand spot t =
     (let at_zero = (\<lambda>m. case mget m t of None \<Rightarrow> Fin 0 | Some x \<Rightarrow> x) in \<lparr>p_on_demand = at_zero on_demand, p_spot = at_zero spot\<rparr>)"

definition worth_a_price :: "price \<Rightarrow> bool" where
  "worth_a_price p \<longleftrightarrow> f_lt (Fin 0) (p_on_demand p) \<or> f_lt (Fin 0) (p_spot p)"

definition ali_fetch_prices :: "'w ali_env \<Rightarrow> ali_provider \<Rightarrow> string \<Rightarrow> string list \<Rightarrow> (price smap, 'w) act" where
  "ali_fetch_prices A p region types w =
     (case ali_client_in A p region w of
        (Inl e, w1) \<Rightarrow> (Inl e, w1)
      | (Inr c, w1) \<Rightarrow>
          if types = [] then (Inr [], w1)
          else (case parallel_price (al_order A) (ali_on_demand A c region) types w1 of
                  ((on_demand, _), w2) \<Rightarrow>
                    (case parallel_price (al_order A) (ali_spot A c region) types w2 of
                       ((spot, _), w3) \<Rightarrow>
                         (Inr (foldl (\<lambda>out t. if worth_a_price (ali_price_of on_demand spot t)
                                              then mput t (ali_price_of on_demand spot t) out else out) [] types), w3))))"

definition ali_source :: "'w ali_env \<Rightarrow> ali_provider \<Rightarrow> 'w source" where
  "ali_source A p =
     \<lparr>src_specs_ttl = 24 * 3600 * second, src_price_ttl = 10 * 60 * second, src_regions = ali_regions A p,
      src_fetch_specs = ali_fetch_specs A p, src_fetch_prices = ali_fetch_prices A p\<rparr>"

end
