(* ===== verification/Aliyun_Props.thy ===== *)
theory Aliyun_Props
  imports Aliyun_Provider Aws_Props
begin

text \<open>
  What the Alibaba Cloud provider promises: the contract of \<open>Cloud_Launch\<close>, the encoding that is signed, and the prices it
  reports.
\<close>

section \<open>The provider keeps the contract\<close>

lemma ali_with_vpc_same: "ali_with_vpc A c cfg s w = (Inr t, w') \<Longrightarrow> same_order s t"
  by (auto simp: ali_with_vpc_def same_order_def act_simps Let_def split: if_splits)

lemma ali_with_image_same: "ali_with_image A c s w = (Inr t, w') \<Longrightarrow> same_order s t"
  by (auto simp: ali_with_image_def same_order_def act_simps split: if_splits)

lemma ali_with_group_same: "ali_with_group A c cfg s w = (Inr t, w') \<Longrightarrow> same_order s t"
  by (auto simp: ali_with_group_def same_order_def act_simps Let_def split: if_splits)

lemma ali_launch_in_asked: "same_order s t \<Longrightarrow> ali_launch_in A c t v w = (Inr is, w') \<Longrightarrow> list_all (asked_for s) is"
  by (auto simp: ali_launch_in_def act_simps list_all_iff asked_for_pending)

text \<open>What a launch comes to: an order that is filled in, and the switches it is tried in.\<close>

lemma ali_create_parts:
  assumes "ali_create A cfg c s w = (Inr is, w')"
  obtains t vs w5 where "same_order s t" "vs \<noteq> [] \<or> is = []"
    "try_in_turn ali_retryable (al_wait A two_seconds) (ali_launch_in A c t) vs w5 = (Inr is, w')"
proof -
  obtain s2 w2 s3 w3 s4 w4 vs w5 where v: "ali_with_vpc A c cfg s w = (Inr s2, w2)" and i: "ali_with_image A c s2 w2 = (Inr s3, w3)"
    and g: "ali_with_group A c cfg s3 w3 = (Inr s4, w4)"
    and t: "try_in_turn ali_retryable (al_wait A two_seconds) (ali_launch_in A c s4) vs w5 = (Inr is, w')"
    using assms by (auto simp: ali_create_def bind_act_Inr)
  have "same_order s s4"
    using ali_with_vpc_same [OF v] ali_with_image_same [OF i] ali_with_group_same [OF g] by (simp add: same_order_def)
  moreover have "vs \<noteq> [] \<or> is = []" using t by (cases vs) auto
  ultimately show ?thesis using t by (rule that)
qed

lemma ali_create_asked: "ali_create A cfg c s w = (Inr is, w') \<Longrightarrow> list_all (asked_for s) is"
  by (erule ali_create_parts) (blast intro: try_in_turn_all ali_launch_in_asked)

abbreviation ali_bound_client :: "'w ali_env \<Rightarrow> ali_cred \<Rightarrow> ali_client" where
  "ali_bound_client A k \<equiv> ali_client_with_creds A [] k"

lemma in_default_region_fields [simp]:
  "ls_num_nodes (in_default_region s) = ls_num_nodes s" "ls_name_prefix (in_default_region s) = ls_name_prefix s"
  "ls_resume (in_default_region s) = ls_resume s" "ls_instance_type (in_default_region s) = ls_instance_type s"
  "ls_region (in_default_region s) = or_hangzhou (ls_region s)"
  by (simp_all add: in_default_region_def)

interpretation ali: launch_client
  "ali_run_instances A cfg (Some k)"
  "\<lambda>s. ali_list_instances A (Some k) (or_hangzhou (ls_region s)) (ls_name_prefix s)"
  "\<lambda>s. ali_start_instances A (Some k) (or_hangzhou (ls_region s))"
  "\<lambda>s. ali_create A cfg (ali_bound_client A k) (in_default_region s)"
  for A :: "'w ali_env" and cfg k
proof
  fix s :: launch_spec and w w1 :: 'w and existing
  assume l: "ali_list_instances A (Some k) (or_hangzhou (ls_region s)) (ls_name_prefix s) w = (Inr existing, w1)"
  show "ali_run_instances A cfg (Some k) s w =
    bind_act (reuse_nodes (ali_start_instances A (Some k) (or_hangzhou (ls_region s))) s existing)
      (\<lambda>r. case r of Some is \<Rightarrow> ret is | None \<Rightarrow> ali_create A cfg (ali_bound_client A k) (in_default_region s)) w1"
    using l by (simp add: ali_run_instances_def ali_client_in_def bind_act_def [of "ret _"] Let_def
        bind_act_apply [of _ w] catch_act_def reuse_nodes_cong [of "in_default_region s" s])
next
  fix s :: launch_spec and w w1 :: 'w and e
  assume l: "ali_list_instances A (Some k) (or_hangzhou (ls_region s)) (ls_name_prefix s) w = (Inl e, w1)"
  show "\<exists>e'. ali_run_instances A cfg (Some k) s w = (Inl e', w1)"
    using l by (simp add: ali_run_instances_def ali_client_in_def bind_act_def [of "ret _"] Let_def bind_act_fail catch_act_def)
next
  fix s :: launch_spec and w w1 :: 'w and "is"
  assume "ali_create A cfg (ali_bound_client A k) (in_default_region s) w = (Inr is, w1)"
  from ali_create_asked [OF this]
  show "list_all (\<lambda>i. named s i \<and> i_status i = status_pending \<and> i_type i = ls_instance_type s) is"
    by (auto simp: list_all_iff asked_for_def named_def)
qed

section \<open>The encoding that is signed\<close>

text \<open>The encoding of RFC 3986: unreserved characters stay, every other byte is written with its number.\<close>

definition unreserved :: "char \<Rightarrow> bool" where
  "unreserved c \<longleftrightarrow> is_lower c \<or> is_upper c \<or> is_digit c \<or> c \<in> set ''-_.~''"

definition percent_char :: "char \<Rightarrow> string" where
  "percent_char c = (if unreserved c then [c] else [CHR ''%'', hex_up (of_char c div 16), hex_up (of_char c mod 16)])"

definition percent_encode :: "string \<Rightarrow> string" where
  "percent_encode s = concat (map percent_char s)"

lemma hex_up_digits:
  "list_all (\<lambda>n. hex_up n \<notin> set ''%*+'' \<and> (hex_up n = CHR ''7'' \<longleftrightarrow> n = 7) \<and> (hex_up n = CHR ''E'' \<longleftrightarrow> n = 14)) [0..<16]"
  by code_simp

lemma hex_up_digit:
  "n < 16 \<Longrightarrow> hex_up n \<noteq> CHR ''%'' \<and> hex_up n \<noteq> CHR ''*'' \<and> hex_up n \<noteq> CHR ''+'' \<and>
     (hex_up n = CHR ''7'' \<longleftrightarrow> n = 7) \<and> (hex_up n = CHR ''E'' \<longleftrightarrow> n = 14)"
  using hex_up_digits by (simp add: list_all_iff)

lemma char_halves: "(of_char c :: nat) div 16 < 16" "(of_char c :: nat) mod 16 < 16"
  using nat_of_char_less_256 [of c] by (simp_all add: less_mult_imp_div_less)

lemma unreserved_not: "unreserved c \<Longrightarrow> c \<noteq> CHR ''%'' \<and> c \<noteq> CHR ''*'' \<and> c \<noteq> CHR ''+''"
proof -
  have "list_all (\<lambda>c. \<not> unreserved c) ''%*+''" by code_simp
  then show "unreserved c \<Longrightarrow> c \<noteq> CHR ''%'' \<and> c \<noteq> CHR ''*'' \<and> c \<noteq> CHR ''+''" by auto
qed

lemma tilde_unreserved:
  assumes "(of_char c :: nat) div 16 = 7" "(of_char c :: nat) mod 16 = 14"
  shows "unreserved c"
proof -
  have "(of_char c :: nat) = 126" using assms div_mult_mod_eq [of "of_char c :: nat" 16] by simp
  also have "\<dots> = of_char (CHR ''~'')" by simp
  finally have "c = CHR ''~''" by (simp only: of_char_eq_iff)
  then show ?thesis by (simp add: unreserved_def)
qed

text \<open>The two replacements on the escape of one byte give its percent encoding, of which the third puts nothing back.\<close>

lemma byte_encoded: "replace_one CHR ''*'' ''%2A'' (replace_one CHR ''+'' ''%20'' (query_char c)) = percent_char c"
proof (cases "unreserved c")
  case True
  then show ?thesis using unreserved_not [OF True]
    by (auto simp: query_char_def percent_char_def unreserved_def replace_one_def)
next
  case False
  have space: "replace_one CHR ''*'' ''%2A'' (replace_one CHR ''+'' ''%20'' (query_char CHR '' '')) = percent_char CHR '' ''"
    by code_simp
  show ?thesis
  proof (cases "c = CHR '' ''")
    case True
    with space show ?thesis by (simp only:)
  next
    case other: False
    then show ?thesis using False hex_up_digit [OF char_halves(1), of c] hex_up_digit [OF char_halves(2), of c]
      by (simp add: query_char_def percent_char_def unreserved_def replace_one_def)
  qed
qed

lemma byte_kept: "restore_tilde (percent_char c @ s) = percent_char c @ restore_tilde s"
proof (cases "unreserved c")
  case False
  have "\<not> (hex_up (of_char c div 16) = CHR ''7'' \<and> hex_up (of_char c mod 16) = CHR ''E'')"
    using hex_up_digit [OF char_halves(1)] hex_up_digit [OF char_halves(2)] False tilde_unreserved by metis
  then show ?thesis using False hex_up_digit [OF char_halves(1)] hex_up_digit [OF char_halves(2)]
    by (auto simp: percent_char_def)
qed (simp add: percent_char_def unreserved_not)

lemma replace_one_append: "replace_one c by (s @ t) = replace_one c by s @ replace_one c by t"
  by (simp add: replace_one_def)

text \<open>C18. What is signed is the encoding of RFC 3986: the replacements made on the escaping of a form are as good as
  encoding each byte by itself.\<close>

theorem uri_encode_percent: "uri_encode s = percent_encode s"
proof -
  have "replace_one CHR ''*'' ''%2A'' (replace_one CHR ''+'' ''%20'' (query_escape s)) = percent_encode s"
  proof (induction s)
    case (Cons c s)
    then show ?case using byte_encoded [of c] by (simp add: query_escape_def percent_encode_def replace_one_append)
  qed (simp add: query_escape_def percent_encode_def replace_one_def)
  moreover have "restore_tilde (percent_encode s) = percent_encode s"
    by (induction s) (simp_all add: percent_encode_def byte_kept)
  ultimately show ?thesis by (simp add: uri_encode_def)
qed

section \<open>Properties\<close>

text \<open>
  An account with two switches of which the first has no machine left: the second request is refused, all others are answered
  with one and the same document. The world counts the requests.
\<close>

definition sample_ali_answer :: json where
  "sample_ali_answer = JObj
     [(''VSwitches'', JObj [(''VSwitch'', JArr [JObj [(''VSwitchId'', JStr ''v1''), (''ZoneId'', JStr ''a'')],
        JObj [(''VSwitchId'', JStr ''v2''), (''ZoneId'', JStr ''b'')]])]),
      (''InstanceIdSets'', JObj [(''InstanceIdSet'', JArr [JStr ''i-1''])]), (''Code'', JStr ''NoStock''),
      (''PriceInfo'', JObj [(''Price'', JObj [(''TradePrice'', JNum 2)])])]"

definition sample_ali :: "nat ali_env" where
  "sample_ali = \<lparr>al_env = [], al_user_home = Inl (Err []), al_join = concat, al_read = (\<lambda>_ _. Inl (Err [])), al_mac = (\<lambda>k d. d),
     al_stamp = (\<lambda>_. []), al_nonce = (\<lambda>w. (''n'', w)),
     al_post = (\<lambda>_ w. (Answered (if w = 1 then 403 else 200) [] None, w + 1)), al_wait = (\<lambda>_ w. (None, w)),
     al_instant = (\<lambda>_. None), al_json = (\<lambda>_. Inr sample_ali_answer), al_base64 = id, al_order = (\<lambda>_ n. [0..<n]), al_pages = 1\<rparr>"

definition sample_ali_key :: ali_cred where
  "sample_ali_key = \<lparr>alc_key = ''k'', alc_secret = ''s''\<rparr>"

lemma sample_ali_call: "ali_call sample_ali c action params n =
    (if n = 1 then Inl (ali_failure sample_ali 403 []) else Inr [], n + 1)"
proof -
  have "[0..2] = [0, 1, 2::int]" by (simp add: upto.simps)
  then show ?thesis by (simp add: ali_call_def send_request_def sample_ali_def)
qed

lemma sample_ali_get: "n \<noteq> 1 \<Longrightarrow> fits sh sample_ali_answer \<Longrightarrow> ali_get sample_ali c action params sh n = (Inr sample_ali_answer, n + 1)"
proof -
  have "al_json sample_ali b = Inr sample_ali_answer" for b by (simp add: sample_ali_def)
  then show "n \<noteq> 1 \<Longrightarrow> fits sh sample_ali_answer \<Longrightarrow> ?thesis"
    by (simp add: ali_get_def sample_ali_call bind_act_def unmarshal_def)
qed

lemma sample_ali_refusal: "ali_get sample_ali c action params sh (Suc 0) = (Inl (ali_failure sample_ali 403 []), 2)"
  by (simp add: ali_get_def bind_act_def sample_ali_call)


definition sample_ali_order :: launch_spec where
  "sample_ali_order = \<lparr>ls_instance_type = ''g'', ls_region = ''r'', ls_zone = [], ls_num_nodes = 1, ls_image_id = ''m'', ls_key_name = [],
     ls_security_group = ''sg'', ls_vswitch = [], ls_vpc = ''vpc'', ls_spot_strategy = [], ls_disk_gib = 0, ls_user_data = [], ls_tags = [],
     ls_name_prefix = ''c'', ls_resume = True\<rparr>"

lemma sample_ali_refused: "ali_retryable (ali_failure sample_ali 403 [])"
proof -
  have "al_json sample_ali b = Inr sample_ali_answer" for b by (simp add: sample_ali_def)
  moreover have "fits ali_error_shape sample_ali_answer" by code_simp
  moreover have "str_at [''Code''] sample_ali_answer = ''NoStock''" "str_at [''Message''] sample_ali_answer = []" by code_simp+
  ultimately have "ali_failure sample_ali 403 [] = Err (''aliyun api error [NoStock]:  (http '' @ itoa 403 @ '')'')"
    by (simp add: ali_failure_def unmarshal_def)
  moreover have "ali_retryable (Err (''aliyun api error [NoStock]:  (http '' @ itoa 403 @ '')''))" by code_simp
  ultimately show ?thesis by simp
qed

lemma sample_ali_shapes:
  "fits ali_vswitches_shape sample_ali_answer"
  "fits (Sh_rec [(''InstanceIdSets'', Sh_rec [(''InstanceIdSet'', Sh_list Sh_str)])]) sample_ali_answer"
  "map ali_vswitch_of (kids_at [''VSwitches'', ''VSwitch''] sample_ali_answer) =
     [\<lparr>vw_id = ''v1'', vw_name = [], vw_zone = ''a'', vw_cidr = [], vw_vpc = []\<rparr>,
      \<lparr>vw_id = ''v2'', vw_name = [], vw_zone = ''b'', vw_cidr = [], vw_vpc = []\<rparr>]"
  "map json_str (kids_at [''InstanceIdSets'', ''InstanceIdSet''] sample_ali_answer) = [''i-1'']"
  by code_simp+


lemma set_mput_subset: "set (mput k v m) \<subseteq> insert (k, v) (set m)"
  by (induction m) auto

text \<open>A refresh of the prices names only types that were asked for, each once and with a positive price of one of the two kinds.\<close>

theorem ali_prices_positive:
  assumes "ali_fetch_prices A p region types w = (Inr prices, w')"
  shows "wf_map prices \<and> list_all (\<lambda>(t, q). t \<in> set types \<and> worth_a_price q) prices"
proof -
  have fold: "wf_map (foldl (\<lambda>out t. if worth_a_price (g t) then mput t (g t) out else out) m ts) \<and>
      list_all (\<lambda>(t, q). t \<in> set types \<and> worth_a_price q) (foldl (\<lambda>out t. if worth_a_price (g t) then mput t (g t) out else out) m ts)"
    if "wf_map m" "list_all (\<lambda>(t, q). t \<in> set types \<and> worth_a_price q) m" "set ts \<subseteq> set types" for g m ts
    using that
  proof (induction ts arbitrary: m)
    case (Cons t ts)
    moreover have "list_all (\<lambda>(t, q). t \<in> set types \<and> worth_a_price q) (mput t (g t) m)" if "worth_a_price (g t)"
      using that Cons.prems set_mput_subset [of t "g t" m] by (fastforce simp: list_all_iff)
    ultimately show ?case by simp
  qed simp
  show ?thesis
    using assms fold [of "[]" types] by (auto simp: ali_fetch_prices_def split: prod.splits sum.splits if_splits)
qed

lemma sample_ali_prices:
  "ali_fetch_prices sample_ali (Some sample_ali_key) ''r'' [''g''] 2 = (Inr [(''g'', \<lparr>p_on_demand = Fin 2, p_spot = Fin 0\<rparr>)], 4)"
proof -
  have "fits ali_price_shape sample_ali_answer" "fits ali_spot_shape sample_ali_answer"
    "float_at [''PriceInfo'', ''Price'', ''TradePrice''] sample_ali_answer = Fin 2"
    "kids_at [''SpotPrices'', ''SpotPriceType''] sample_ali_answer = []" by code_simp+
  moreover have "al_order sample_ali = (\<lambda>_ n. [0..<n])" by (simp add: sample_ali_def)
  ultimately show ?thesis
    by (simp add: ali_fetch_prices_def ali_client_in_def parallel_price_def ali_on_demand_def ali_spot_def bind_act_def sample_ali_get
        f_le_def f_eq_def Let_def ali_price_of_def worth_a_price_def)
qed

theorem ali_prices_positive_witness:
  "list_all (\<lambda>(t, q). t \<in> set [''g''] \<and> worth_a_price q) [(''g'', \<lparr>p_on_demand = Fin 2, p_spot = Fin 0\<rparr>)]"
  using ali_prices_positive [OF sample_ali_prices] by (rule conjunct2)

end
