(* ===== verification/Kube_Client.thy ===== *)
theory Kube_Client
  imports Cloud_Http Cloud_Launch Config Provisioner
begin

text \<open>
  The Kubernetes provider's settings, clients and knowledge of accelerators: \<open>internal/cloud/kubernetes/config.go\<close>, \<open>client.go\<close> and
  \<open>gpu.go\<close>. The API server, the library that reads kubeconfig files and builds clients, and the clock are parameters.
\<close>

section \<open>Settings\<close>

record kube_options =
  ko_context :: string
  ko_namespace :: string
  ko_image :: string
  ko_gpilet_dir :: string
  ko_gpilet_interval :: int
  ko_ray_head_port :: int
  ko_ray_dashboard_port :: int
  ko_pod_wait_timeout :: int
  ko_pod_wait_retries :: int

definition kube_load_config :: "config \<Rightarrow> (yaml_node \<Rightarrow> kube_options res) \<Rightarrow> kube_options option" where
  "kube_load_config cf decode = (case config_section (Some cf) ''kubernetes'' decode of Inl _ \<Rightarrow> None | Inr c \<Rightarrow> Some c)"

definition text_or :: "string \<Rightarrow> (kube_options \<Rightarrow> string) \<Rightarrow> kube_options option \<Rightarrow> string" where
  "text_or d f cfg = (case cfg of None \<Rightarrow> d | Some c \<Rightarrow> if f c = [] then d else f c)"

definition int_or :: "int \<Rightarrow> (kube_options \<Rightarrow> int) \<Rightarrow> kube_options option \<Rightarrow> int" where
  "int_or d f cfg = (case cfg of None \<Rightarrow> d | Some c \<Rightarrow> if f c \<le> 0 then d else f c)"

definition effective_namespace :: "kube_options option \<Rightarrow> string" where
  "effective_namespace = text_or ''default'' ko_namespace"

definition effective_gpilet_dir :: "kube_options option \<Rightarrow> string" where
  "effective_gpilet_dir = text_or ''/var/lib/gpilet'' ko_gpilet_dir"

definition effective_gpilet_interval :: "kube_options option \<Rightarrow> int" where
  "effective_gpilet_interval = int_or 10 ko_gpilet_interval"

definition effective_ray_head_port :: "kube_options option \<Rightarrow> int" where
  "effective_ray_head_port = int_or 6379 ko_ray_head_port"

definition effective_ray_dashboard_port :: "kube_options option \<Rightarrow> int" where
  "effective_ray_dashboard_port = int_or 8265 ko_ray_dashboard_port"

text \<open>A duration in nanoseconds: the product wraps around at 64 bits.\<close>

definition wrapped :: "int \<Rightarrow> int" where
  "wrapped i = (i + 2 ^ 63) mod 2 ^ 64 - 2 ^ 63"

definition effective_pod_wait_timeout :: "kube_options option \<Rightarrow> int" where
  "effective_pod_wait_timeout cfg =
     (case cfg of None \<Rightarrow> 120 * second | Some c \<Rightarrow> if ko_pod_wait_timeout c \<le> 0 then 120 * second else wrapped (ko_pod_wait_timeout c * second))"

definition effective_pod_wait_retries :: "kube_options option \<Rightarrow> int" where
  "effective_pod_wait_retries = int_or 3 ko_pod_wait_retries"

section \<open>Pods and nodes\<close>

text \<open>What the API server says of a pod and of a node; an allocatable quantity is its value rounded up to an integer.\<close>

datatype pod_phase = Pod_pending | Pod_running | Pod_succeeded | Pod_failed | Pod_unknown

record pod_view =
  pv_name :: string
  pv_uid :: string
  pv_labels :: "string smap"
  pv_phase :: pod_phase
  pv_ip :: string
  pv_host_ip :: string

record kube_node =
  kn_labels :: "string smap"
  kn_allocatable :: "int smap"

datatype env_value = Plain string | From_field string

text \<open>
  A pod as it is created, with its one container; quantities are the texts they are parsed from, an affinity is a label with its
  values. What is the same in every pod (the restart policy, the shared memory it mounts) is left out.
\<close>

record pod_spec =
  ps_name :: string
  ps_namespace :: string
  ps_labels :: "string smap"
  ps_image :: string
  ps_env :: "(string \<times> env_value) list"
  ps_command :: "string list"
  ps_requests :: "string smap"
  ps_limits :: "string smap"
  ps_affinity :: "(string \<times> string list) option"

section \<open>The world\<close>

datatype kube_error = Not_found error | Already_exists error | Api_error error

fun kube_err :: "kube_error \<Rightarrow> error" where
  "kube_err (Not_found e) = e"
| "kube_err (Already_exists e) = e"
| "kube_err (Api_error e) = e"

text \<open>A kubeconfig file: the names of its contexts and the current one.\<close>

record kubeconfig =
  kc_contexts :: "string list"
  kc_current :: string

text \<open>
  \<open>ku_load\<close> reads a kubeconfig, \<open>ku_rest\<close> builds the settings of a connection for a context and \<open>ku_connect\<close> a client of type
  \<open>'k\<close>; the others are the calls of the API. \<open>ku_grace\<close> of a deletion is its grace period, if one is given. \<open>ku_rounds\<close>
  bounds the rounds of a waiting loop.
\<close>

record ('r, 'k, 'w) kube_env =
  ku_env :: "string smap"
  ku_user_home :: "string res"
  ku_join :: "string list \<Rightarrow> string"
  ku_load :: "string \<Rightarrow> 'w \<Rightarrow> kubeconfig res"
  ku_rest :: "string \<Rightarrow> string \<Rightarrow> 'w \<Rightarrow> 'r res"
  ku_connect :: "'r \<Rightarrow> 'k res"
  ku_delete :: "'k \<Rightarrow> string \<Rightarrow> string \<Rightarrow> int option \<Rightarrow> 'w \<Rightarrow> kube_error option \<times> 'w"
  ku_create :: "'k \<Rightarrow> string \<Rightarrow> pod_spec \<Rightarrow> 'w \<Rightarrow> kube_error option \<times> 'w"
  ku_get :: "'k \<Rightarrow> string \<Rightarrow> string \<Rightarrow> 'w \<Rightarrow> (kube_error + pod_view) \<times> 'w"
  ku_list :: "'k \<Rightarrow> string \<Rightarrow> string \<Rightarrow> 'w \<Rightarrow> (kube_error + pod_view list) \<times> 'w"
  ku_nodes :: "'k \<Rightarrow> 'w \<Rightarrow> (kube_error + kube_node list) \<times> 'w"
  ku_create_namespace :: "'k \<Rightarrow> string \<Rightarrow> string smap \<Rightarrow> 'w \<Rightarrow> kube_error option \<times> 'w"
  ku_now :: "'w \<Rightarrow> int"
  ku_sleep :: "int \<Rightarrow> 'w \<Rightarrow> 'w"
  ku_rounds :: nat

text \<open>The variables of the package, and the actions that see them beside the world.\<close>

record 'k kube_vars =
  kv_pool :: "'k smap"
  kv_config :: "kubeconfig option"

type_synonym ('a, 'k, 'w) kube_act = "('a, 'k kube_vars \<times> 'w) act"

definition api :: "('w \<Rightarrow> (kube_error + 'a) \<times> 'w) \<Rightarrow> ('a, 'k, 'w) kube_act" where
  "api f s = (case f (snd s) of (Inl e, w) \<Rightarrow> (Inl (kube_err e), (fst s, w)) | (Inr x, w) \<Rightarrow> (Inr x, (fst s, w)))"

definition api_do :: "('w \<Rightarrow> kube_error option \<times> 'w) \<Rightarrow> (kube_error option, 'k, 'w) kube_act" where
  "api_do f s = (case f (snd s) of (r, w) \<Rightarrow> (Inr r, (fst s, w)))"

section \<open>Clients\<close>

definition kubeconfig_path :: "('r, 'k, 'w) kube_env \<Rightarrow> string res" where
  "kubeconfig_path K =
     (let p = getenv (ku_env K) ''KUBECONFIG''
      in if p \<noteq> [] then Inr p
         else case ku_user_home K of
                Inl e \<Rightarrow> Inl (wrap_err ''home dir: '' e) | Inr home \<Rightarrow> Inr (ku_join K [home, ''.kube'', ''config'']))"

text \<open>\<open>loadConfig\<close>: the file is read once.\<close>

definition load_kubeconfig :: "('r, 'k, 'w) kube_env \<Rightarrow> (kubeconfig, 'k, 'w) kube_act" where
  "load_kubeconfig K s =
     (case kv_config (fst s) of
        Some c \<Rightarrow> (Inr c, s)
      | None \<Rightarrow>
          (case kubeconfig_path K of
             Inl e \<Rightarrow> (Inl e, s)
           | Inr p \<Rightarrow>
               (case ku_load K p (snd s) of
                  Inl e \<Rightarrow> (Inl (wrap_err (''load kubeconfig '' @ p @ '': '') e), s)
                | Inr c \<Rightarrow> (Inr c, ((fst s)\<lparr>kv_config := Some c\<rparr>, snd s)))))"

definition kube_contexts :: "('r, 'k, 'w) kube_env \<Rightarrow> (string list, 'k, 'w) kube_act" where
  "kube_contexts K = bind_act (load_kubeconfig K) (\<lambda>c. ret (kc_contexts c))"

definition client_for :: "('r, 'k, 'w) kube_env \<Rightarrow> string \<Rightarrow> ('k, 'k, 'w) kube_act" where
  "client_for K ctx s =
     (case mget (kv_pool (fst s)) ctx of
        Some c \<Rightarrow> (Inr c, s)
      | None \<Rightarrow>
          (case kubeconfig_path K of
             Inl e \<Rightarrow> (Inl e, s)
           | Inr p \<Rightarrow>
               (case ku_rest K p ctx (snd s) of
                  Inl e \<Rightarrow> (Inl (wrap_err (''build config for context '' @ quote_str ctx @ '': '') e), s)
                | Inr r \<Rightarrow>
                    (case ku_connect K r of
                       Inl e \<Rightarrow> (Inl (wrap_err (''create client for context '' @ quote_str ctx @ '': '') e), s)
                     | Inr c \<Rightarrow> (Inr c, ((fst s)\<lparr>kv_pool := mput ctx c (kv_pool (fst s))\<rparr>, snd s))))))"

definition current_context :: "('r, 'k, 'w) kube_env \<Rightarrow> (string, 'k, 'w) kube_act" where
  "current_context K =
     bind_act (load_kubeconfig K) (\<lambda>c.
       if kc_current c \<noteq> [] then ret (kc_current c) else raise (Err ''no current context set in kubeconfig''))"

text \<open>What every operation on a region begins with.\<close>

definition context_or_current :: "('r, 'k, 'w) kube_env \<Rightarrow> string \<Rightarrow> (string, 'k, 'w) kube_act" where
  "context_or_current K region = (if region = [] then current_context K else ret region)"

section \<open>Accelerators\<close>

record gpu_formatter =
  gf_name :: string
  gf_key :: string
  gf_value :: "string \<Rightarrow> string"

definition gpu_formatters :: "gpu_formatter list" where
  "gpu_formatters =
     [\<lparr>gf_name = ''GKE'', gf_key = ''cloud.google.com/gke-accelerator'',
        gf_value = (\<lambda>v. to_upper (trim_prefix (trim_prefix v ''nvidia-'') ''tesla-''))\<rparr>,
      \<lparr>gf_name = ''GFD'', gf_key = ''nvidia.com/gpu.product'',
        gf_value = (\<lambda>v. to_upper (hd (split_on CHR ''-'' (trim_prefix v ''NVIDIA-''))))\<rparr>,
      \<lparr>gf_name = ''Karpenter'', gf_key = ''karpenter.k8s.aws/instance-gpu-name'', gf_value = to_upper\<rparr>,
      \<lparr>gf_name = ''CoreWeave'', gf_key = ''gpu.nvidia.com/class'', gf_value = to_upper\<rparr>,
      \<lparr>gf_name = ''GPI'', gf_key = ''gpi.dev/accelerator'', gf_value = to_upper\<rparr>]"

definition gpu_resource_keys :: "string list" where
  "gpu_resource_keys = [''nvidia.com/gpu'', ''amd.com/gpu'', ''google.com/tpu'', ''aws.amazon.com/neuron'']"

record gpu_found =
  gd_type :: string
  gd_count :: int
  gd_key :: string
  gd_value :: string
  gd_resource :: string
  gd_affinity :: "string \<times> string list"

definition build_node_affinity :: "string \<Rightarrow> string \<Rightarrow> string \<times> string list" where
  "build_node_affinity k v = (k, [v])"

text \<open>The first of the resources of a node that counts any.\<close>

definition counted_resource :: "kube_node \<Rightarrow> (string \<times> int) option" where
  "counted_resource n =
     (case List.find (\<lambda>r. case mget (kn_allocatable n) r of None \<Rightarrow> False | Some q \<Rightarrow> 0 < q) gpu_resource_keys of
        None \<Rightarrow> None
      | Some r \<Rightarrow> map_option (\<lambda>q. (r, q)) (mget (kn_allocatable n) r))"

text \<open>The first label, in the order of the formatters, whose accelerator is accepted on a node that counts some.\<close>

fun node_gpu :: "(string \<Rightarrow> bool) \<Rightarrow> kube_node \<Rightarrow> gpu_formatter list \<Rightarrow> gpu_found option" where
  "node_gpu want n [] = None"
| "node_gpu want n (f # fs) =
     (case mget (kn_labels n) (gf_key f) of
        None \<Rightarrow> node_gpu want n fs
      | Some raw \<Rightarrow>
          if \<not> want (gf_value f raw) then node_gpu want n fs
          else (case counted_resource n of
                  None \<Rightarrow> node_gpu want n fs
                | Some (r, q) \<Rightarrow>
                    Some \<lparr>gd_type = gf_value f raw, gd_count = q, gd_key = gf_key f, gd_value = raw, gd_resource = r,
                          gd_affinity = build_node_affinity (gf_key f) raw\<rparr>))"

fun nodes_gpu :: "(string \<Rightarrow> bool) \<Rightarrow> kube_node list \<Rightarrow> gpu_found option" where
  "nodes_gpu want [] = None"
| "nodes_gpu want (n # ns) = (case node_gpu want n gpu_formatters of Some g \<Rightarrow> Some g | None \<Rightarrow> nodes_gpu want ns)"

definition detect_gpu :: "('r, 'k, 'w) kube_env \<Rightarrow> string \<Rightarrow> (gpu_found option, 'k, 'w) kube_act" where
  "detect_gpu K ctx =
     bind_act (client_for K ctx) (\<lambda>cs. bind_act (api (ku_nodes K cs)) (\<lambda>ns. ret (nodes_gpu (\<lambda>t. t \<noteq> []) ns)))"

definition detect_gpu_for_type :: "('r, 'k, 'w) kube_env \<Rightarrow> string \<Rightarrow> string \<Rightarrow> (gpu_found option, 'k, 'w) kube_act" where
  "detect_gpu_for_type K ctx t =
     bind_act (client_for K ctx) (\<lambda>cs. bind_act (api (ku_nodes K cs)) (\<lambda>ns. ret (nodes_gpu (\<lambda>d. to_upper d = to_upper t) ns)))"

end
