(* ===== verification/Kube_Provider.thy ===== *)
theory Kube_Provider
  imports Kube_Client
begin

text \<open>
  The Kubernetes provider, \<open>internal/cloud/kubernetes/provider.go\<close> and \<open>metadata.go\<close>: pods as machines, the contexts of the kubeconfig as
  regions, the nodes of a cluster as a catalog. Logging is left out.
\<close>

section \<open>Names and instance types\<close>

text \<open>\<open>parseInstanceType\<close>: the parts between double dashes; the number of a part is what \<open>Atoi\<close> returns, errors ignored.\<close>

record shape_of_type =
  sh_cpus :: int
  sh_mem :: int
  sh_gpu :: string
  sh_gpus :: int

definition parse_type_part :: "shape_of_type \<Rightarrow> string \<Rightarrow> shape_of_type" where
  "parse_type_part t raw =
     (let part = trim_space raw
      in if has_suffix part ''CPU'' then t\<lparr>sh_cpus := atoi_value (trim_suffix part ''CPU'')\<rparr>
         else if has_suffix part ''GB'' then t\<lparr>sh_mem := atoi_value (trim_suffix part ''GB'')\<rparr>
         else case cut_at CHR '':'' part of
                (c # g, Some n) \<Rightarrow> t\<lparr>sh_gpu := c # g, sh_gpus := atoi_value n\<rparr>
              | _ \<Rightarrow> if part \<noteq> [] then t\<lparr>sh_gpu := part, sh_gpus := 1\<rparr> else t)"

definition parse_instance_type :: "string \<Rightarrow> shape_of_type" where
  "parse_instance_type s =
     foldl parse_type_part \<lparr>sh_cpus = 0, sh_mem = 0, sh_gpu = [], sh_gpus = 0\<rparr> (split_str ''--'' s)"

definition instance_type_name :: "int \<Rightarrow> int \<Rightarrow> string \<Rightarrow> int \<Rightarrow> string" where
  "instance_type_name cpus mem gpu n =
     itoa cpus @ ''CPU--'' @ itoa mem @ ''GB'' @ (if 0 < n \<and> gpu \<noteq> [] then ''--'' @ gpu @ '':'' @ itoa n else [])"

definition truncate_name :: "string \<Rightarrow> nat \<Rightarrow> string" where
  "truncate_name s n = (if length s \<le> n then s else take n s)"

definition resolve_gpu_resource_key :: "string \<Rightarrow> string" where
  "resolve_gpu_resource_key t =
     (let u = to_upper t
      in if contains_str u ''TPU'' then ''google.com/tpu''
         else if contains_str u ''NEURON'' \<or> contains_str u ''TRAINIUM'' \<or> contains_str u ''INFERENTIA'' then ''aws.amazon.com/neuron''
         else ''nvidia.com/gpu'')"

section \<open>Pods\<close>

definition label_cluster :: string where "label_cluster = ''gpi.dev/cluster-name''"
definition label_role :: string where "label_role = ''gpi.dev/role''"
definition label_managed :: string where "label_managed = ''gpi.dev/managed-by''"

definition pod_startup_command :: "kube_options option \<Rightarrow> string \<Rightarrow> string list" where
  "pod_startup_command cfg role =
     (let gpilet = ''/usr/local/bin/gpilet serve --dir '' @ effective_gpilet_dir cfg @ '' --interval '' @ itoa (effective_gpilet_interval cfg);
          ray = (if role = ''head''
                 then ''ray start --head --port='' @ itoa (effective_ray_head_port cfg) @ '' --dashboard-port='' @
                      itoa (effective_ray_dashboard_port cfg) @ '' --disable-usage-stats --node-ip-address=$GPI_POD_IP''
                 else ''until ray start --address=$GPI_HEAD_ADDR:'' @ itoa (effective_ray_head_port cfg) @
                      '' --node-ip-address=$GPI_POD_IP --disable-usage-stats; do echo '' @ dq @ ''worker join failed, retrying'' @ dq @
                      ''; sleep 2; done'')
      in [''/bin/sh'', ''-c'',
          ''set -e'' @ nl @ ''ulimit -n 65536'' @ nl @ ''nohup '' @ gpilet @ '' > /var/log/gpilet.log 2>&1 &'' @ nl @
          ray @ nl @ ''tail -f /dev/null'' @ nl])"

record pod_params =
  pp_name :: string
  pp_namespace :: string
  pp_spec :: launch_spec
  pp_role :: string
  pp_head_addr :: string
  pp_cfg :: "kube_options option"

text \<open>The tags of the task come over the labels of the program.\<close>

definition pod_labels :: "pod_params \<Rightarrow> string smap" where
  "pod_labels p =
     foldl (\<lambda>m (k, v). mput k v m)
       [(label_cluster, ls_name_prefix (pp_spec p)), (label_role, pp_role p), (label_managed, ''gpi'')] (ls_tags (pp_spec p))"

definition pod_env :: "pod_params \<Rightarrow> shape_of_type \<Rightarrow> (string \<times> env_value) list" where
  "pod_env p t =
     [(''GPI_ROLE'', Plain (pp_role p)), (''GPI_POD_IP'', From_field ''status.podIP'')] @
     (if sh_gpus t = 0 then [(''NVIDIA_VISIBLE_DEVICES'', Plain ''none'')] else []) @
     (if pp_role p \<noteq> ''head'' \<and> pp_head_addr p \<noteq> [] then [(''GPI_HEAD_ADDR'', Plain (pp_head_addr p))] else [])"

definition pod_resources :: "shape_of_type \<Rightarrow> string smap" where
  "pod_resources t =
     put_if (0 < sh_gpus t \<and> sh_gpu t \<noteq> []) [(resolve_gpu_resource_key (sh_gpu t), itoa (sh_gpus t))]
     (put_if (0 < sh_mem t) [(''memory'', itoa (sh_mem t) @ ''Gi'')]
     (put_if (0 < sh_cpus t) [(''cpu'', itoa (sh_cpus t))] []))"

text \<open>\<open>buildPod\<close>; the nodes are looked at for an affinity in the region of the specification, errors ignored.\<close>

definition build_pod :: "('r, 'k, 'w) kube_env \<Rightarrow> pod_params \<Rightarrow> (pod_spec, 'k, 'w) kube_act" where
  "build_pod K p =
     (let t = parse_instance_type (ls_instance_type (pp_spec p));
          pod = \<lparr>ps_name = pp_name p, ps_namespace = pp_namespace p, ps_labels = pod_labels p, ps_image = ls_image_id (pp_spec p),
                 ps_env = pod_env p t, ps_command = pod_startup_command (pp_cfg p) (pp_role p), ps_requests = pod_resources t,
                 ps_limits = pod_resources t, ps_affinity = None\<rparr>
      in if 0 < sh_gpus t \<and> sh_gpu t \<noteq> []
         then bind_act (catch_act (detect_gpu_for_type K (ls_region (pp_spec p)) (sh_gpu t)) (\<lambda>_. ret None))
                (\<lambda>g. ret (pod\<lparr>ps_affinity := map_option gd_affinity g\<rparr>))
         else ret pod)"

section \<open>Waiting\<close>

text \<open>A pod is looked at every half second until what is wanted of it is seen, or the deadline has passed.\<close>

fun poll_pod ::
  "nat \<Rightarrow> ('r, 'k, 'w) kube_env \<Rightarrow> 'k \<Rightarrow> string \<Rightarrow> string \<Rightarrow> int \<Rightarrow> (pod_view \<Rightarrow> bool) \<Rightarrow> 'w \<Rightarrow> (pod_view option \<times> 'w) option" where
  "poll_pod 0 K cs ns name deadline seen w = None"
| "poll_pod (Suc n) K cs ns name deadline seen w =
     (if \<not> ku_now K w < deadline then Some (None, w)
      else case ku_get K cs ns name w of
             (Inr p, w1) \<Rightarrow> if seen p then Some (Some p, w1) else poll_pod n K cs ns name deadline seen (ku_sleep K 500000000 w1)
           | (Inl e, w1) \<Rightarrow> poll_pod n K cs ns name deadline seen (ku_sleep K 500000000 w1))"

definition wait_for_pod ::
  "('r, 'k, 'w) kube_env \<Rightarrow> 'k \<Rightarrow> string \<Rightarrow> string \<Rightarrow> int \<Rightarrow> (pod_view \<Rightarrow> bool) \<Rightarrow> (pod_view option, 'k, 'w) kube_act" where
  "wait_for_pod K cs ns name timeout seen s =
     (case poll_pod (ku_rounds K) K cs ns name (ku_now K (snd s) + timeout) seen (snd s) of
        None \<Rightarrow> (Inl out_of_rounds, s)
      | Some (r, w) \<Rightarrow> (Inr r, (fst s, w)))"

definition wait_pod_running :: "('r, 'k, 'w) kube_env \<Rightarrow> 'k \<Rightarrow> string \<Rightarrow> string \<Rightarrow> int \<Rightarrow> (bool, 'k, 'w) kube_act" where
  "wait_pod_running K cs ns name timeout =
     bind_act (wait_for_pod K cs ns name timeout (\<lambda>p. pv_phase p = Pod_running)) (\<lambda>r. ret (r \<noteq> None))"

definition wait_pod_ip :: "('r, 'k, 'w) kube_env \<Rightarrow> 'k \<Rightarrow> string \<Rightarrow> string \<Rightarrow> int \<Rightarrow> (string, 'k, 'w) kube_act" where
  "wait_pod_ip K cs ns name timeout =
     bind_act (wait_for_pod K cs ns name timeout (\<lambda>p. pv_ip p \<noteq> [])) (\<lambda>r. ret (case r of None \<Rightarrow> [] | Some p \<Rightarrow> pv_ip p))"

text \<open>The text of a duration is a parameter of the message.\<close>

fun pod_attempts :: "nat \<Rightarrow> (bool, 'k, 'w) kube_act \<Rightarrow> (bool, 'k, 'w) kube_act" where
  "pod_attempts 0 try_once = ret False"
| "pod_attempts (Suc n) try_once = bind_act try_once (\<lambda>ok. if ok then ret True else pod_attempts n try_once)"

definition wait_pod_ready ::
  "('r, 'k, 'w) kube_env \<Rightarrow> (int \<Rightarrow> string) \<Rightarrow> 'k \<Rightarrow> string \<Rightarrow> string \<Rightarrow> int \<Rightarrow> int \<Rightarrow> (unit, 'k, 'w) kube_act" where
  "wait_pod_ready K dur cs ns name timeout retries =
     bind_act (pod_attempts (nat retries) (wait_pod_running K cs ns name timeout)) (\<lambda>ok.
       if ok then ret ()
       else raise (Err (''pod '' @ name @ '' did not reach Running within '' @ itoa retries @ '' attempts of '' @ dur timeout)))"

fun cleanup_pods :: "('r, 'k, 'w) kube_env \<Rightarrow> 'k \<Rightarrow> string \<Rightarrow> string list \<Rightarrow> (unit, 'k, 'w) kube_act" where
  "cleanup_pods K cs ns [] = ret ()"
| "cleanup_pods K cs ns (n # names) = seq_act (api_do (ku_delete K cs ns n (Some 0))) (cleanup_pods K cs ns names)"

definition give_up_pods :: "('r, 'k, 'w) kube_env \<Rightarrow> 'k \<Rightarrow> string \<Rightarrow> string list \<Rightarrow> error \<Rightarrow> ('a, 'k, 'w) kube_act" where
  "give_up_pods K cs ns names e = seq_act (cleanup_pods K cs ns names) (raise e)"

section \<open>Launching\<close>

definition node_role :: "int \<Rightarrow> int \<Rightarrow> string" where
  "node_role num i = (if i = 0 \<or> num = 1 then ''head'' else ''worker'')"

definition pod_name :: "string \<Rightarrow> int \<Rightarrow> int \<Rightarrow> string" where
  "pod_name cluster num i =
     (if num \<le> 1 then cluster
      else if node_role num i = ''head'' then cluster @ ''-head'' else cluster @ ''-worker'' @ itoa i)"

definition pod_instance :: "launch_spec \<Rightarrow> string \<Rightarrow> string \<Rightarrow> inst" where
  "pod_instance spec ctx name =
     \<lparr>i_id = name, i_name = name, i_public_ip = [], i_private_ip = [], i_status = status_running, i_type = ls_instance_type spec,
      i_region = ctx, i_zone = [], i_created_at = 0, i_tags = ls_tags spec\<rparr>"

text \<open>One node: a stale pod of its name is deleted, the pod made, and waited for; \<open>created\<close> are the pods made before it.\<close>

definition launch_pod ::
  "('r, 'k, 'w) kube_env \<Rightarrow> (int \<Rightarrow> string) \<Rightarrow> kube_options option \<Rightarrow> launch_spec \<Rightarrow> 'k \<Rightarrow> string \<Rightarrow> string list \<Rightarrow> string \<Rightarrow> int \<Rightarrow>
   (string, 'k, 'w) kube_act" where
  "launch_pod K dur cfg spec cs ns created head_addr i =
     (let num = ls_num_nodes spec;
          role = node_role num i;
          name = pod_name (truncate_name (ls_name_prefix spec) 42) num i;
          timeout = effective_pod_wait_timeout cfg
      in seq_act (api_do (ku_delete K cs ns name None))
         (bind_act (build_pod K \<lparr>pp_name = name, pp_namespace = ns, pp_spec = spec, pp_role = role, pp_head_addr = head_addr, pp_cfg = cfg\<rparr>) (\<lambda>pod.
          bind_act (api_do (ku_create K cs ns pod)) (\<lambda>r.
            case r of
              Some e \<Rightarrow> raise (wrap_err (''create pod '' @ name @ '': '') (kube_err e))
            | None \<Rightarrow>
                seq_act (catch_act (wait_pod_ready K dur cs ns name timeout (effective_pod_wait_retries cfg))
                           (give_up_pods K cs ns (created @ [name])))
                (if role = ''head'' \<and> 1 < num
                 then bind_act (wait_pod_ip K cs ns name timeout) (\<lambda>ip.
                        if ip = [] then give_up_pods K cs ns (created @ [name]) (Err (''head pod '' @ name @ '': no pod IP within '' @ dur timeout)) else ret ip)
                 else ret head_addr)))))"

fun launch_pods ::
  "('r, 'k, 'w) kube_env \<Rightarrow> (int \<Rightarrow> string) \<Rightarrow> kube_options option \<Rightarrow> launch_spec \<Rightarrow> 'k \<Rightarrow> string \<Rightarrow> string \<Rightarrow> string list \<Rightarrow> string \<Rightarrow>
   int list \<Rightarrow> (inst list, 'k, 'w) kube_act" where
  "launch_pods K dur cfg spec cs ns ctx created head_addr [] = ret []"
| "launch_pods K dur cfg spec cs ns ctx created head_addr (i # is) =
     bind_act (launch_pod K dur cfg spec cs ns created head_addr i) (\<lambda>addr.
       let name = pod_name (truncate_name (ls_name_prefix spec) 42) (ls_num_nodes spec) i
       in bind_act (launch_pods K dur cfg spec cs ns ctx (created @ [name]) addr is) (\<lambda>rest.
            ret (pod_instance spec ctx name # rest)))"

definition launch_context :: "('r, 'k, 'w) kube_env \<Rightarrow> kube_options option \<Rightarrow> launch_spec \<Rightarrow> (string, 'k, 'w) kube_act" where
  "launch_context K cfg spec =
     (let own = (case cfg of None \<Rightarrow> [] | Some c \<Rightarrow> ko_context c)
      in if ls_region spec \<noteq> [] then ret (ls_region spec) else context_or_current K own)"

definition kube_run_instances ::
  "('r, 'k, 'w) kube_env \<Rightarrow> (int \<Rightarrow> string) \<Rightarrow> kube_options option \<Rightarrow> launch_spec \<Rightarrow> (inst list, 'k, 'w) kube_act" where
  "kube_run_instances K dur cfg spec =
     bind_act (launch_context K cfg spec) (\<lambda>ctx.
     bind_act (client_for K ctx) (\<lambda>cs.
       launch_pods K dur cfg spec cs (effective_namespace cfg) ctx [] [] [0..ls_num_nodes spec - 1]))"

section \<open>The other operations\<close>

text \<open>They look in the namespace \<open>default\<close>, whatever the settings say.\<close>

definition with_kube :: "('r, 'k, 'w) kube_env \<Rightarrow> string \<Rightarrow> (string \<Rightarrow> 'k \<Rightarrow> ('a, 'k, 'w) kube_act) \<Rightarrow> ('a, 'k, 'w) kube_act" where
  "with_kube K region f = bind_act (context_or_current K region) (\<lambda>ctx. bind_act (client_for K ctx) (f ctx))"

definition pod_status :: "pod_phase \<Rightarrow> instance_status" where
  "pod_status p =
     (case p of Pod_pending \<Rightarrow> status_pending | Pod_running \<Rightarrow> status_running | Pod_succeeded \<Rightarrow> status_terminated
      | Pod_failed \<Rightarrow> status_terminated | Pod_unknown \<Rightarrow> status_unknown)"

text \<open>The type of the machine is read from the label with the name of the cluster.\<close>

definition pod_to_instance :: "string \<Rightarrow> pod_view \<Rightarrow> inst" where
  "pod_to_instance ctx p =
     \<lparr>i_id = pv_name p, i_name = pv_name p, i_public_ip = pv_ip p, i_private_ip = pv_ip p, i_status = pod_status (pv_phase p),
      i_type = (case mget (pv_labels p) label_cluster of None \<Rightarrow> [] | Some v \<Rightarrow> v), i_region = ctx, i_zone = [], i_created_at = 0,
      i_tags = []\<rparr>"

definition kube_regions :: "('r, 'k, 'w) kube_env \<Rightarrow> (string list, 'k, 'w) kube_act" where
  "kube_regions K = kube_contexts K"

definition kube_list_instances :: "('r, 'k, 'w) kube_env \<Rightarrow> string \<Rightarrow> string \<Rightarrow> (inst list, 'k, 'w) kube_act" where
  "kube_list_instances K region prefix =
     with_kube K region (\<lambda>ctx cs.
       bind_act (api (ku_list K cs ''default'' (label_cluster @ ''='' @ prefix))) (\<lambda>ps. ret (map (pod_to_instance ctx) ps)))"

fun describe_pods :: "('r, 'k, 'w) kube_env \<Rightarrow> string \<Rightarrow> 'k \<Rightarrow> string list \<Rightarrow> (inst list, 'k, 'w) kube_act" where
  "describe_pods K ctx cs [] = ret []"
| "describe_pods K ctx cs (i # ids) =
     bind_act (api (ku_list K cs ''default'' (label_managed @ ''=gpi''))) (\<lambda>ps.
     bind_act (describe_pods K ctx cs ids) (\<lambda>rest.
       ret ((case List.find (\<lambda>p. pv_name p = i \<or> pv_uid p = i) ps of None \<Rightarrow> [] | Some p \<Rightarrow> [pod_to_instance ctx p]) @ rest)))"

definition kube_describe_instances :: "('r, 'k, 'w) kube_env \<Rightarrow> string \<Rightarrow> string list \<Rightarrow> (inst list, 'k, 'w) kube_act" where
  "kube_describe_instances K region ids = with_kube K region (\<lambda>ctx cs. describe_pods K ctx cs ids)"

definition kube_stop_instances :: "string \<Rightarrow> string list \<Rightarrow> (unit, 'k, 'w) kube_act" where
  "kube_stop_instances region ids = raise (Err ''stop is not supported on Kubernetes'')"

definition kube_start_instances :: "string \<Rightarrow> string list \<Rightarrow> (unit, 'k, 'w) kube_act" where
  "kube_start_instances region ids = raise (Err ''start is not supported on Kubernetes'')"

fun delete_pods :: "('r, 'k, 'w) kube_env \<Rightarrow> 'k \<Rightarrow> string list \<Rightarrow> (unit, 'k, 'w) kube_act" where
  "delete_pods K cs [] = ret ()"
| "delete_pods K cs (i # ids) =
     bind_act (api_do (ku_delete K cs ''default'' i (Some 0))) (\<lambda>r.
       case r of
         None \<Rightarrow> delete_pods K cs ids
       | Some (Not_found e) \<Rightarrow> delete_pods K cs ids
       | Some e \<Rightarrow> raise (wrap_err (''delete pod '' @ i @ '': '') (kube_err e)))"

definition kube_terminate_instances :: "('r, 'k, 'w) kube_env \<Rightarrow> string \<Rightarrow> string list \<Rightarrow> (unit, 'k, 'w) kube_act" where
  "kube_terminate_instances K region ids = with_kube K region (\<lambda>ctx cs. delete_pods K cs ids)"

definition kube_public_ip :: "('r, 'k, 'w) kube_env \<Rightarrow> string \<Rightarrow> string \<Rightarrow> (string, 'k, 'w) kube_act" where
  "kube_public_ip K region i =
     with_kube K region (\<lambda>ctx cs s.
       case ku_get K cs ''default'' i (snd s) of
         (Inl (Not_found e), w) \<Rightarrow> (Inr [], (fst s, w))
       | (Inl e, w) \<Rightarrow> (Inl (kube_err e), (fst s, w))
       | (Inr p, w) \<Rightarrow> (Inr (if pv_ip p \<noteq> [] then pv_ip p else pv_host_ip p), (fst s, w)))"

definition kube_create_vpc :: "('r, 'k, 'w) kube_env \<Rightarrow> string \<Rightarrow> string \<Rightarrow> string \<Rightarrow> (string, 'k, 'w) kube_act" where
  "kube_create_vpc K region cidr name =
     with_kube K region (\<lambda>ctx cs.
       bind_act (api_do (ku_create_namespace K cs name [(label_managed, ''gpi'')])) (\<lambda>r.
         case r of
           None \<Rightarrow> ret name
         | Some (Already_exists e) \<Rightarrow> ret name
         | Some e \<Rightarrow> raise (wrap_err (''create namespace '' @ name @ '': '') (kube_err e))))"

definition kube_image :: "kube_options option \<Rightarrow> string" where
  "kube_image = text_or ''ghcr.io/acmestack/gpi-base:latest'' ko_image"

text \<open>What Kubernetes has no use for.\<close>

definition kube_zones :: "(string list, 'k, 'w) kube_act" where "kube_zones = ret []"
definition kube_no_text :: "(string, 'k, 'w) kube_act" where "kube_no_text = ret []"
definition kube_no_effect :: "(unit, 'k, 'w) kube_act" where "kube_no_effect = ret ()"
definition kube_vswitches :: "(vswitch list, 'k, 'w) kube_act" where "kube_vswitches = ret []"

section \<open>The catalog\<close>

definition gib_of :: "int \<Rightarrow> int" where
  "gib_of m = sgn m * (\<bar>m\<bar> div (1024 * 1024 * 1024))"

definition quantity :: "kube_node \<Rightarrow> string \<Rightarrow> int" where
  "quantity n k = (case mget (kn_allocatable n) k of None \<Rightarrow> 0 | Some q \<Rightarrow> q)"

text \<open>The value of the last resource looked at: the first positive one, or the last one present; with none, the count as it was.\<close>

fun first_positive :: "kube_node \<Rightarrow> string list \<Rightarrow> int \<Rightarrow> int" where
  "first_positive n [] c = c"
| "first_positive n (r # rs) c =
     (case mget (kn_allocatable n) r of None \<Rightarrow> first_positive n rs c | Some q \<Rightarrow> if 0 < q then q else first_positive n rs q)"

fun spec_gpu :: "kube_node \<Rightarrow> gpu_formatter list \<Rightarrow> string \<times> int \<Rightarrow> string \<times> int" where
  "spec_gpu n [] tc = tc"
| "spec_gpu n (f # fs) tc =
     (case mget (kn_labels n) (gf_key f) of
        None \<Rightarrow> spec_gpu n fs tc
      | Some raw \<Rightarrow>
          (let c = first_positive n gpu_resource_keys (snd tc)
           in if 0 < c then (gf_value f raw, c) else spec_gpu n fs (gf_value f raw, c)))"

definition node_spec :: "string \<Rightarrow> kube_node \<Rightarrow> itype" where
  "node_spec ctx n =
     (let cpus = quantity n ''cpu''; mem = gib_of (quantity n ''memory''); g = spec_gpu n gpu_formatters ([], 0)
      in \<lparr>it_cloud = ''kubernetes'', it_region = ctx, it_type = instance_type_name cpus mem (fst g) (snd g), it_vcpus = cpus,
          it_memory = Fin (of_int mem), it_accel = (if 0 < snd g \<and> fst g \<noteq> [] then [g] else []), it_max_disk = Fin 0\<rparr>)"

text \<open>One entry for each type, the first node of the type; the order of the answer is that of a map.\<close>

definition add_spec :: "string \<Rightarrow> itype smap \<Rightarrow> kube_node \<Rightarrow> itype smap" where
  "add_spec ctx seen n =
     (let s = node_spec ctx n in if mget seen (it_type s) \<noteq> None then seen else mput (it_type s) s seen)"

definition kube_fetch_specs :: "('r, 'k, 'w) kube_env \<Rightarrow> string \<Rightarrow> (itype list, 'k, 'w) kube_act" where
  "kube_fetch_specs K region =
     with_kube K region (\<lambda>ctx cs. bind_act (api (ku_nodes K cs)) (\<lambda>ns. ret (map snd (foldl (add_spec ctx) [] ns))))"

definition kube_fetch_prices :: "string \<Rightarrow> string list \<Rightarrow> price smap res" where
  "kube_fetch_prices region types = Inr (foldl (\<lambda>m t. mput t \<lparr>p_on_demand = Fin 0, p_spot = Fin 0\<rparr> m) [] types)"

definition kube_source :: "('r, 'k, 'w) kube_env \<Rightarrow> ('k kube_vars \<times> 'w) source" where
  "kube_source K =
     \<lparr>src_specs_ttl = 24 * 3600 * second, src_price_ttl = 10 * 60 * second, src_regions = kube_regions K,
      src_fetch_specs = kube_fetch_specs K, src_fetch_prices = (\<lambda>region types s. (kube_fetch_prices region types, s))\<rparr>"

end
