(* ===== verification/Kube_Props.thy ===== *)
theory Kube_Props
  imports Kube_Provider
begin

text \<open>
  What the Kubernetes provider promises: the names of pods and of instance types, what a launch returns, that waiting ends, and
  which namespaces its operations reach.
\<close>

section \<open>Instance types\<close>

lemma split_step:
  "sep \<noteq> [] \<Longrightarrow> split_str_acc sep cur (sep @ s) = rev cur # split_str_acc sep [] s"
  "\<not> has_prefix (c # s) sep \<Longrightarrow> split_str_acc sep cur (c # s) = split_str_acc sep (c # cur) s"
  "sep \<noteq> [] \<Longrightarrow> split_str_acc sep cur [] = [rev cur]"
  by (subst split_str_acc.simps, simp add: has_prefix_def)+

lemma split_str_none: "\<not> contains_str s p \<Longrightarrow> p \<noteq> [] \<Longrightarrow> split_str p s = [s]"
proof -
  have "\<not> contains_str s p \<Longrightarrow> p \<noteq> [] \<Longrightarrow> split_str_acc p acc s = [rev acc @ s]" for acc
    by (induction s arbitrary: acc) (simp_all add: split_step)
  then show "\<not> contains_str s p \<Longrightarrow> p \<noteq> [] \<Longrightarrow> split_str p s = [s]" by (simp add: split_str_def)
qed

lemma set_contained: "contains_str s p \<Longrightarrow> set p \<subseteq> set s"
  by (auto simp: contains_str_iff)

lemma split_dashes:
  assumes "CHR ''-'' \<notin> set a"
  shows "split_str ''--'' (a @ ''--'' @ b) = a # split_str ''--'' b"
proof -
  have "split_str_acc ''--'' acc (a @ ''--'' @ b) = (rev acc @ a) # split_str_acc ''--'' [] b" for acc
    using assms
  proof (induction a arbitrary: acc)
    case Nil
    then show ?case using split_step(1) [of "''--''" acc b] by simp
  next
    case (Cons c a)
    then have "\<not> has_prefix (c # a @ ''--'' @ b) ''--''" by (auto simp: has_prefix_def)
    from split_step(2) [OF this, of acc] show ?case using Cons by simp
  qed
  then show ?thesis by (simp add: split_str_def)
qed

text \<open>A number as it is printed, followed by a unit.\<close>

lemma itoa_natural: "0 \<le> i \<Longrightarrow> itoa i = nat_str (nat i)"
  by (simp add: itoa_def)

lemma number_part:
  assumes "0 \<le> i" "int64_ok i"
  shows "parse_type_part t (itoa i @ ''CPU'') = t\<lparr>sh_cpus := i\<rparr>" and "parse_type_part t (itoa i @ ''GB'') = t\<lparr>sh_mem := i\<rparr>"
proof -
  have v: "atoi_value (itoa i) = i" by (rule atoi_value_atoi [OF atoi_itoa [OF assms(2)]])
  have "is_digit (hd (itoa i))" "itoa i \<noteq> []" using hd_nat_str assms(1) by (simp_all add: itoa_natural)
  then have n: "no_outer_space (itoa i @ ''CPU'')" "no_outer_space (itoa i @ ''GB'')"
    by (auto simp: no_outer_space_def is_digit_def is_space_def)
  show "parse_type_part t (itoa i @ ''CPU'') = t\<lparr>sh_cpus := i\<rparr>" "parse_type_part t (itoa i @ ''GB'') = t\<lparr>sh_mem := i\<rparr>"
    using v by (simp_all add: parse_type_part_def trim_space_id [OF n(1)] trim_space_id [OF n(2)] has_suffix_def has_prefix_def trim_suffix_def)
qed

lemma gpu_part:
  assumes "g \<noteq> []" "\<not> is_space (hd g)" "CHR '':'' \<notin> set g" "0 < n" "int64_ok n"
  shows "parse_type_part t (g @ '':'' @ itoa n) = t\<lparr>sh_gpu := g, sh_gpus := n\<rparr>"
proof -
  have i: "itoa n = nat_str (nat n)" using assms(4) by (simp add: itoa_natural)
  have "last (itoa n) \<in> set (itoa n)" using i by simp
  then have l: "is_digit (last (itoa n))" unfolding i by (rule digit_in_nat_str)
  then have "no_outer_space (g @ '':'' @ itoa n)" using assms(1,2) i
    by (auto simp: no_outer_space_def is_digit_def is_space_def)
  moreover have "\<not> has_suffix (g @ '':'' @ itoa n) (w @ [c])" if "\<not> is_digit c" for w c
    using l that i by (auto simp: has_suffix_iff) (metis last_append last_snoc nat_str_not_Nil append_is_Nil_conv last.simps list.discI)
  from this [of "CHR ''U''" "''CP''"] this [of "CHR ''B''" "''G''"]
  have "\<not> has_suffix (g @ '':'' @ itoa n) ''CPU''" "\<not> has_suffix (g @ '':'' @ itoa n) ''GB''"
    by (simp_all add: is_digit_def)
  moreover have "cut_at CHR '':'' (g @ '':'' @ itoa n) = (g, Some (itoa n))" using assms(3) cut_at_append [of "CHR '':''" g] by simp
  moreover have "atoi_value (itoa n) = n" by (rule atoi_value_atoi [OF atoi_itoa [OF assms(5)]])
  ultimately show ?thesis using assms(1)
    by (cases g) (simp_all add: parse_type_part_def trim_space_id)
qed

section \<open>Names of pods\<close>

lemma node_roles: "0 \<le> i \<Longrightarrow> 1 < num \<Longrightarrow> node_role num i = (if i = 0 then ''head'' else ''worker'')"
  by (simp add: node_role_def)

lemma pod_name_inj:
  assumes "1 < num" "0 \<le> i" "0 \<le> j" "pod_name c num i = pod_name c num j"
  shows "i = j"
proof -
  have "nat_str (nat i) = nat_str (nat j) \<Longrightarrow> i = j" using nat_str_inj [of "nat i" "nat j"] assms(2,3) by simp
  then show ?thesis using assms by (auto simp: pod_name_def node_roles itoa_natural split: if_splits)
qed

lemma distinct_pod_names: "distinct (map (pod_name c num) [0..num - 1])"
proof (cases "1 < num")
  case True
  then have "inj_on (pod_name c num) {0..num - 1}" by (auto intro!: inj_onI dest: pod_name_inj)
  then show ?thesis by (simp add: distinct_map)
next
  case False
  then have "num = 1 \<or> [0..num - 1] = []" by auto
  then show ?thesis by auto
qed

lemma length_itoa: "0 \<le> i \<Longrightarrow> i < 10 ^ k \<Longrightarrow> 0 < k \<Longrightarrow> length (itoa i) \<le> k"
  using length_nat_str [of "nat i" k] by (simp add: itoa_natural nat_less_iff)

section \<open>Waiting\<close>

text \<open>What is assumed of the clock: sleeping takes at least its time, and looking at a pod does not turn it back.\<close>

definition pod_clock :: "('r, 'k, 'w) kube_env \<Rightarrow> bool" where
  "pod_clock K \<longleftrightarrow> (\<forall>d w. ku_now K w + d \<le> ku_now K (ku_sleep K d w)) \<and>
     (\<forall>cs ns n w. ku_now K w \<le> ku_now K (snd (ku_get K cs ns n w)))"

lemma poll_pod_returns:
  assumes "pod_clock K" "deadline - ku_now K w \<le> 500000000 * int n"
  shows "poll_pod (Suc n) K cs ns name deadline seen w \<noteq> None"
  using assms(2)
proof (induction n arbitrary: w)
  case (Suc n)
  obtain r w1 where g: "ku_get K cs ns name w = (r, w1)" by (rule prod.exhaust)
  have "ku_now K w \<le> ku_now K w1" "ku_now K w1 + 500000000 \<le> ku_now K (ku_sleep K 500000000 w1)"
    using assms(1) g unfolding pod_clock_def by (metis snd_conv, blast)
  then have "deadline - ku_now K (ku_sleep K 500000000 w1) \<le> 500000000 * int n" using Suc.prems by simp
  from Suc.IH [OF this] show ?case
    unfolding poll_pod.simps(2) [of "Suc n"] by (auto simp: g split: sum.split)
qed simp

lemma wait_for_pod_ends:
  assumes "pod_clock K" "timeout \<le> 500000000 * (int (ku_rounds K) - 1)" "0 < ku_rounds K"
  shows "\<exists>x s'. wait_for_pod K cs ns name timeout seen s = (Inr x, s')"
proof -
  obtain n where n: "ku_rounds K = Suc n" using assms(3) gr0_implies_Suc by blast
  then show ?thesis
    using poll_pod_returns [OF assms(1), of "ku_now K (snd s) + timeout" "snd s" n cs ns name seen] assms(2)
    by (auto simp: wait_for_pod_def split: option.split)
qed

lemma pod_attempts_ends: "(\<And>s. \<exists>b s'. m s = (Inr b, s')) \<Longrightarrow> \<exists>b s'. pod_attempts n m s = (Inr b, s')"
proof (induction n arbitrary: s)
  case 0
  show ?case by (rule exI [of _ False]) simp
next
  case (Suc n)
  obtain b s' where "m s = (Inr b, s')" using Suc.prems by blast
  then show ?case using Suc by (cases b) (auto simp: bind_act_apply)
qed

section \<open>The pods of a launch\<close>

text \<open>
  What is assumed of the API server, \<open>live\<close> being the pods there are, as pairs of namespace and name: a deletion removes no other pod,
  one without a grace period removes the pod, a creation adds one pod or fails, and nothing else changes them.
\<close>

definition pod_api :: "('r, 'k, 'w) kube_env \<Rightarrow> ('w \<Rightarrow> (string \<times> string) set) \<Rightarrow> bool" where
  "pod_api K live \<longleftrightarrow>
     (\<forall>cs ns n g w. live w - {(ns, n)} \<subseteq> live (snd (ku_delete K cs ns n g w)) \<and> live (snd (ku_delete K cs ns n g w)) \<subseteq> live w) \<and>
     (\<forall>cs ns n w. (ns, n) \<notin> live (snd (ku_delete K cs ns n (Some 0) w))) \<and>
     (\<forall>cs ns p w. live (snd (ku_create K cs ns p w)) = (if fst (ku_create K cs ns p w) = None then insert (ns, ps_name p) (live w) else live w)) \<and>
     (\<forall>cs ns n w. live (snd (ku_get K cs ns n w)) = live w) \<and> (\<forall>cs w. live (snd (ku_nodes K cs w)) = live w) \<and>
     (\<forall>d w. live (ku_sleep K d w) = live w)"

abbreviation pods_of :: "string \<Rightarrow> string list \<Rightarrow> (string \<times> string) set" where
  "pods_of ns names \<equiv> Pair ns ` set names"

lemma live_delete:
  assumes "pod_api K live"
  shows "live w - {(ns, n)} \<subseteq> live (snd (ku_delete K cs ns n g w))" "live (snd (ku_delete K cs ns n g w)) \<subseteq> live w"
    "(ns, n) \<notin> live (snd (ku_delete K cs ns n (Some 0) w))"
  using assms unfolding pod_api_def by simp_all

lemma live_get: "pod_api K live \<Longrightarrow> ku_get K cs ns n w = (r, w') \<Longrightarrow> live w' = live w"
  unfolding pod_api_def by (metis snd_conv)

lemma live_sleep: "pod_api K live \<Longrightarrow> live (ku_sleep K d w) = live w"
  unfolding pod_api_def by blast

lemma live_poll: "pod_api K live \<Longrightarrow> poll_pod n K cs ns name deadline seen w = Some (r, w') \<Longrightarrow> live w' = live w"
proof (induction n arbitrary: w)
  case (Suc n)
  obtain x w1 where g: "ku_get K cs ns name w = (x, w1)" by (rule prod.exhaust)
  have "live w1 = live w" by (rule live_get [OF Suc.prems(1) g])
  then show ?case using Suc.prems(2) Suc.IH [OF Suc.prems(1)] live_sleep [OF Suc.prems(1)]
    by (auto simp: g split: if_splits sum.splits)
qed simp

lemma live_wait: "pod_api K live \<Longrightarrow> wait_for_pod K cs ns name t seen s = (r, s') \<Longrightarrow> live (snd s') = live (snd s)"
  by (auto simp: wait_for_pod_def live_poll split: option.splits)

text \<open>An action that changes no pod.\<close>

definition podless :: "('w \<Rightarrow> (string \<times> string) set) \<Rightarrow> ('a, 'k, 'w) kube_act \<Rightarrow> bool" where
  "podless live m \<longleftrightarrow> (\<forall>X. keeps (\<lambda>s. live (snd s) = X) m)"

lemma podlessD: "podless live m \<Longrightarrow> m s = (r, s') \<Longrightarrow> live (snd s') = live (snd s)"
  unfolding podless_def keeps_def by (metis snd_conv)

lemma podless_intros:
  "podless live (ret x)" "podless live (raise e)"
  "podless live m \<Longrightarrow> (\<And>x. podless live (f x)) \<Longrightarrow> podless live (bind_act m f)"
  "podless live m \<Longrightarrow> (\<And>e. podless live (h e)) \<Longrightarrow> podless live (catch_act m h)"
  "podless live m \<Longrightarrow> podless live n \<Longrightarrow> podless live (if b then m else n)"
  by (auto simp: podless_def intro: keeps_intros)

lemma podless_wait: "pod_api K live \<Longrightarrow> podless live (wait_for_pod K cs ns name t seen)"
  using live_wait unfolding podless_def keeps_def by (metis prod.collapse)

lemma podless_vars: "(\<And>s. snd (snd (m s)) = snd s) \<Longrightarrow> podless live m"
  by (simp add: podless_def keeps_def)

lemma podless_client: "podless live (client_for K ctx)" "podless live (load_kubeconfig K)"
  by (rule podless_vars, simp add: client_for_def load_kubeconfig_def split: option.split sum.split)+

lemma podless_context: "podless live (launch_context K cfg spec)"
  unfolding launch_context_def context_or_current_def current_context_def Let_def
  by (intro podless_intros podless_client)

lemma podless_nodes: "pod_api K live \<Longrightarrow> podless live (api (ku_nodes K cs))"
  unfolding podless_def keeps_def api_def pod_api_def by (auto split: prod.split sum.split) (metis snd_conv)+

lemma podless_build: "pod_api K live \<Longrightarrow> podless live (build_pod K p)"
  unfolding build_pod_def detect_gpu_for_type_def Let_def by (intro podless_intros podless_client podless_nodes)

lemma build_pod_named: "\<exists>pod s'. build_pod K p s = (Inr pod, s') \<and> ps_name pod = pp_name p"
  by (auto simp: build_pod_def Let_def bind_act_def catch_act_def split: prod.split sum.split)

text \<open>Giving up: each of the pods is deleted.\<close>

lemma api_do_apply: "api_do f s = (Inr (fst (f (snd s))), (fst s, snd (f (snd s))))"
  by (simp add: api_do_def split: prod.split)

lemma cleanup_pods_live:
  assumes "pod_api K live"
  shows "\<exists>s'. cleanup_pods K cs ns names s = (Inr (), s') \<and> live (snd s') = live (snd s) - pods_of ns names"
proof (induction names arbitrary: s)
  case (Cons n names)
  define w where "w = snd (ku_delete K cs ns n (Some 0) (snd s))"
  have "live w = live (snd s) - {(ns, n)}"
    using live_delete [OF assms] unfolding w_def by blast
  then show ?case
    using Cons.IH [of "(fst s, w)"] by (auto simp: seq_act_def bind_act_apply [OF api_do_apply] w_def [symmetric])
qed simp

lemma give_up_live:
  assumes "pod_api K live" "give_up_pods K cs ns names e s = (r, s')"
  shows "r = Inl e \<and> live (snd s') = live (snd s) - pods_of ns names"
  using cleanup_pods_live [OF assms(1), of cs ns names s] assms(2)
  by (auto simp: give_up_pods_def seq_act_def bind_act_apply)

text \<open>What the launch of one pod does to the pods there are.\<close>

definition pod_error :: "string \<Rightarrow> error \<Rightarrow> bool" where
  "pod_error name e \<longleftrightarrow> (\<exists>e0. e = wrap_err (''create pod '' @ name @ '': '') (kube_err e0))"

definition gave_up :: "('w \<Rightarrow> (string \<times> string) set) \<Rightarrow> string \<Rightarrow> string list \<Rightarrow> string \<Rightarrow> 'w \<Rightarrow> error \<Rightarrow> 'w \<Rightarrow> bool" where
  "gave_up live ns created name w e w' \<longleftrightarrow>
     live w' = live w - pods_of ns (created @ [name]) \<or>
     live w - {(ns, name)} \<subseteq> live w' \<and> live w' \<subseteq> live w \<and> pod_error name e \<or> e = out_of_rounds"

lemma wait_ready_live:
  assumes "pod_api K live" "wait_pod_ready K dur cs ns name t n s = (r, s')"
  shows "live (snd s') = live (snd s)"
proof -
  have a: "podless live (pod_attempts k (wait_pod_running K cs ns name t))" for k
  proof (induction k)
    case (Suc k)
    then show ?case unfolding pod_attempts.simps wait_pod_running_def by (intro podless_intros podless_wait assms(1))
  qed (simp add: podless_intros(1) del: ret_simps)
  have "podless live (wait_pod_ready K dur cs ns name t n)"
    unfolding wait_pod_ready_def by (intro podless_intros a)
  then show ?thesis using assms(2) by (rule podlessD)
qed

lemma wait_ip_live:
  assumes "pod_api K live" "wait_pod_ip K cs ns name t s = (r, s')"
  shows "live (snd s') = live (snd s) \<and> (\<forall>e. r = Inl e \<longrightarrow> e = out_of_rounds)"
proof -
  have "podless live (wait_pod_ip K cs ns name t)"
    unfolding wait_pod_ip_def by (intro podless_intros podless_wait assms(1))
  from podlessD [OF this assms(2)] show ?thesis
    using assms(2) by (auto simp: wait_pod_ip_def bind_act_Inl wait_for_pod_def split: option.splits)
qed

lemma launch_pod_live:
  assumes "pod_api K live" "launch_pod K dur cfg spec cs ns created addr i s = (r, s')"
  defines "name \<equiv> pod_name (truncate_name (ls_name_prefix spec) 42) (ls_num_nodes spec) i"
  shows "case r of Inr _ \<Rightarrow> live (snd s') = insert (ns, name) (live (snd s)) | Inl e \<Rightarrow> gave_up live ns created name (snd s) e (snd s')"
proof -
  define w1 where "w1 = snd (ku_delete K cs ns name None (snd s))"
  define pp where "pp = \<lparr>pp_name = name, pp_namespace = ns, pp_spec = spec, pp_role = node_role (ls_num_nodes spec) i, pp_head_addr = addr, pp_cfg = cfg\<rparr>"
  obtain pod s2 where b: "build_pod K pp (fst s, w1) = (Inr pod, s2)" and pn: "ps_name pod = name"
    using build_pod_named [of K pp "(fst s, w1)"] by (auto simp: pp_def)
  obtain c w3 where c: "ku_create K cs ns pod (snd s2) = (c, w3)" by (rule prod.exhaust)
  have l1: "live (snd s) - {(ns, name)} \<subseteq> live w1" "live w1 \<subseteq> live (snd s)"
    using live_delete [OF assms(1)] unfolding w1_def by simp_all
  have l2: "live (snd s2) = live w1" using podlessD [OF podless_build [OF assms(1)] b] by simp
  have l3: "live w3 = (if c = None then insert (ns, name) (live w1) else live w1)"
    using assms(1) c pn l2 unfolding pod_api_def by (metis fst_conv snd_conv)
  let ?names = "created @ [name]"
  let ?t = "effective_pod_wait_timeout cfg"
  let ?rest = "seq_act (catch_act (wait_pod_ready K dur cs ns name ?t (effective_pod_wait_retries cfg)) (give_up_pods K cs ns ?names))
      (if node_role (ls_num_nodes spec) i = ''head'' \<and> 1 < ls_num_nodes spec
       then bind_act (wait_pod_ip K cs ns name ?t) (\<lambda>ip. if ip = []
              then give_up_pods K cs ns ?names (Err (''head pod '' @ name @ '': no pod IP within '' @ dur ?t)) else ret ip)
       else ret addr)"
  have run: "launch_pod K dur cfg spec cs ns created addr i s =
      (case c of Some e \<Rightarrow> raise (wrap_err (''create pod '' @ name @ '': '') (kube_err e)) | None \<Rightarrow> ?rest) (fst s2, w3)"
    using b unfolding launch_pod_def Let_def name_def [symmetric] pp_def [symmetric]
    by (simp add: seq_act_def bind_act_def api_do_apply w1_def [symmetric] b c split: option.split)
  show ?thesis
  proof (cases c)
    case (Some e)
    then show ?thesis using run assms(2) l1 l3 by (auto simp: gave_up_def pod_error_def)
  next
    case None
    have all: "live w3 - pods_of ns ?names = live (snd s) - pods_of ns ?names" "live w3 = insert (ns, name) (live (snd s))"
      using l1 l3 None by auto
    obtain q s4 where q: "wait_pod_ready K dur cs ns name ?t (effective_pod_wait_retries cfg) (fst s2, w3) = (q, s4)" by (rule prod.exhaust)
    have l4: "live (snd s4) = live w3" using wait_ready_live [OF assms(1) q] by simp
    show ?thesis
    proof (cases q)
      case (Inl e)
      obtain x s5 where g: "(give_up_pods K cs ns ?names e :: (unit, _, _) kube_act) s4 = (x, s5)" by (rule prod.exhaust)
      from give_up_live [OF assms(1) this] have x: "x = Inl e" "live (snd s5) = live (snd s4) - pods_of ns ?names" by simp_all
      then have "r = Inl e" "s' = s5" using run assms(2) None q Inl g by (simp_all add: seq_act_def bind_act_def catch_act_def)
      then show ?thesis using all l4 x by (simp add: gave_up_def)
    next
      case (Inr u)
      then have r: "(if node_role (ls_num_nodes spec) i = ''head'' \<and> 1 < ls_num_nodes spec
         then bind_act (wait_pod_ip K cs ns name ?t) (\<lambda>ip. if ip = []
              then give_up_pods K cs ns ?names (Err (''head pod '' @ name @ '': no pod IP within '' @ dur ?t)) else ret ip)
         else ret addr) s4 = (r, s')"
        using run assms(2) None q by (simp add: seq_act_def bind_act_def catch_act_def)
      show ?thesis
      proof (cases "node_role (ls_num_nodes spec) i = ''head'' \<and> 1 < ls_num_nodes spec")
        case False
        then show ?thesis using r all(2) l4 by auto
      next
        case True
        obtain ipr s5 where ip: "wait_pod_ip K cs ns name ?t s4 = (ipr, s5)" by (rule prod.exhaust)
        have l5: "live (snd s5) = live w3" "\<forall>e. ipr = Inl e \<longrightarrow> e = out_of_rounds" using wait_ip_live [OF assms(1) ip] l4 by simp_all
        show ?thesis
        proof (cases ipr)
          case (Inl e)
          then show ?thesis using r True ip l5 by (auto simp: bind_act_fail gave_up_def)
        next
          case (Inr a)
          show ?thesis
          proof (cases "a = []")
            case True
            then have "give_up_pods K cs ns ?names (Err (''head pod '' @ name @ '': no pod IP within '' @ dur ?t)) s5 = (r, s')"
              using r \<open>node_role _ _ = _ \<and> _\<close> ip Inr by (simp add: bind_act_apply)
            from give_up_live [OF assms(1) this] show ?thesis using l5 all(1) by (auto simp: gave_up_def)
          next
            case False
            then show ?thesis using r True ip Inr l5 all(2) by (auto simp: bind_act_apply)
          qed
        qed
      qed
    qed
  qed
qed

text \<open>The launch of all of them: \<open>some_names\<close> are those of the pods launched before.\<close>

definition launch_names :: "launch_spec \<Rightarrow> string list" where
  "launch_names spec = map (pod_name (truncate_name (ls_name_prefix spec) 42) (ls_num_nodes spec)) [0..ls_num_nodes spec - 1]"

lemma launch_pods_live:
  assumes "pod_api K live" "launch_pods K dur cfg spec cs ns ctx created addr is s = (r, s')"
  defines "names \<equiv> map (pod_name (truncate_name (ls_name_prefix spec) 42) (ls_num_nodes spec)) is"
  shows "case r of Inr js \<Rightarrow> js = map (pod_instance spec ctx) names \<and> live (snd s') = live (snd s) \<union> pods_of ns names
    | Inl e \<Rightarrow> \<exists>j < length names. \<exists>w. live w = live (snd s) \<union> pods_of ns (take j names) \<and>
        gave_up live ns (created @ take j names) (names ! j) w e (snd s')"
  using assms(2) unfolding names_def
proof (induction "is" arbitrary: created addr s r)
  case (Cons i "is")
  let ?nm = "pod_name (truncate_name (ls_name_prefix spec) 42) (ls_num_nodes spec)"
  obtain p s1 where p: "launch_pod K dur cfg spec cs ns created addr i s = (p, s1)" by (rule prod.exhaust)
  note one = launch_pod_live [OF assms(1) p]
  show ?case
  proof (cases p)
    case (Inl e)
    then have "r = Inl e" "s' = s1" using Cons.prems p by (simp_all add: bind_act_fail)
    then show ?thesis using one Inl by (auto intro!: exI [of _ 0] exI [of _ "snd s"])
  next
    case (Inr a)
    obtain q s2 where q: "launch_pods K dur cfg spec cs ns ctx (created @ [?nm i]) a is s1 = (q, s2)" by (rule prod.exhaust)
    have s': "s' = s2" and r: "r = (case q of Inl e \<Rightarrow> Inl e | Inr rest \<Rightarrow> Inr (pod_instance spec ctx (?nm i) # rest))"
      using Cons.prems p Inr q by (auto simp: bind_act_apply Let_def bind_act_def split: sum.splits)
    have l1: "live (snd s1) = insert (ns, ?nm i) (live (snd s))" using one Inr by simp
    note rest = Cons.IH [OF q [folded s']]
    show ?thesis
    proof (cases q)
      case (Inl e)
      then obtain j w where j: "j < length is" "live w = live (snd s1) \<union> pods_of ns (take j (map ?nm is))"
        "gave_up live ns ((created @ [?nm i]) @ take j (map ?nm is)) (map ?nm is ! j) w e (snd s')" using rest by auto
      then show ?thesis using r Inl l1 by (auto intro!: exI [of _ "Suc j"] exI [of _ w])
    next
      case (Inr js)
      then show ?thesis using rest r l1 by auto
    qed
  qed
qed simp

section \<open>Namespaces\<close>

text \<open>What the calls in one namespace, and the clock, cannot change.\<close>

definition untouched_by :: "('w \<Rightarrow> bool) \<Rightarrow> ('r, 'k, 'w) kube_env \<Rightarrow> string \<Rightarrow> bool" where
  "untouched_by P K ns \<longleftrightarrow>
     (\<forall>cs n g w. P w \<longrightarrow> P (snd (ku_delete K cs ns n g w))) \<and> (\<forall>cs p w. P w \<longrightarrow> P (snd (ku_create K cs ns p w))) \<and>
     (\<forall>cs n w. P w \<longrightarrow> P (snd (ku_get K cs ns n w))) \<and> (\<forall>cs l w. P w \<longrightarrow> P (snd (ku_list K cs ns l w)))"

abbreviation outside :: "('w \<Rightarrow> bool) \<Rightarrow> 'k kube_vars \<times> 'w \<Rightarrow> bool" where
  "outside P \<equiv> \<lambda>s. P (snd s)"

lemma keeps_vars: "(\<And>s. snd (snd (m s)) = snd s) \<Longrightarrow> keeps (outside P) m"
  by (simp add: keeps_def)

lemma keeps_clients [keeps_intros]: "keeps (outside P) (client_for K ctx)" "keeps (outside P) (load_kubeconfig K)"
  by (rule keeps_vars, simp add: client_for_def load_kubeconfig_def split: option.split sum.split)+

lemma keeps_with_kube [keeps_intros]: "(\<And>ctx cs. keeps (outside P) (f ctx cs)) \<Longrightarrow> keeps (outside P) (with_kube K region f)"
  unfolding with_kube_def context_or_current_def current_context_def by (intro keeps_intros)

lemma keeps_api [keeps_intros]: "(\<And>w. P w \<Longrightarrow> P (snd (f w))) \<Longrightarrow> keeps (outside P) (api f)"
  unfolding keeps_def api_def by (auto split: prod.split sum.split) (metis snd_conv)+

lemma keeps_api_do [keeps_intros]: "(\<And>w. P w \<Longrightarrow> P (snd (f w))) \<Longrightarrow> keeps (outside P) (api_do f)"
  by (simp add: keeps_def api_do_apply)

lemma keeps_delete_pods: "untouched_by P K ''default'' \<Longrightarrow> keeps (outside P) (delete_pods K cs ids)"
proof (induction ids)
  case (Cons i ids)
  then have "keeps (outside P) (case r of None \<Rightarrow> delete_pods K cs ids | Some (Not_found e) \<Rightarrow> delete_pods K cs ids
      | Some e \<Rightarrow> raise (wrap_err (''delete pod '' @ i @ '': '') (kube_err e)))" for r
    by (auto intro: keeps_basic split: option.split kube_error.split)
  moreover have "keeps (outside P) (api_do (ku_delete K cs ''default'' i (Some 0)))"
    using Cons.prems by (intro keeps_api_do) (simp add: untouched_by_def)
  ultimately show ?case unfolding delete_pods.simps by (rule keeps_bind [rotated])
qed (simp add: keeps_basic del: ret_simps)

lemma keeps_describe_pods: "untouched_by P K ''default'' \<Longrightarrow> keeps (outside P) (describe_pods K ctx cs ids)"
proof (induction ids)
  case (Cons i ids)
  then show ?case unfolding describe_pods.simps by (intro keeps_intros) (auto simp: untouched_by_def)
qed (simp add: keeps_basic del: ret_simps)

section \<open>Properties\<close>

text \<open>The name of an instance type that the catalog makes is read back by a launch: the same processors, memory, and
  accelerators with their number.\<close>

theorem instance_type_roundtrip:
  assumes "0 \<le> c" "int64_ok c" "0 \<le> m" "int64_ok m" "int64_ok n"
    and "g \<noteq> [] \<longrightarrow> \<not> is_space (hd g) \<and> CHR '':'' \<notin> set g \<and> \<not> contains_str (g @ '':'' @ itoa n) ''--''"
  shows "parse_instance_type (instance_type_name c m g n) =
    (if 0 < n \<and> g \<noteq> [] then \<lparr>sh_cpus = c, sh_mem = m, sh_gpu = g, sh_gpus = n\<rparr> else \<lparr>sh_cpus = c, sh_mem = m, sh_gpu = [], sh_gpus = 0\<rparr>)"
proof -
  have d: "CHR ''-'' \<notin> set (itoa i @ u)" if "0 \<le> i" "CHR ''-'' \<notin> set u" for i u
    using that not_digit_in_nat_str [of "CHR ''-''"] by (simp add: itoa_natural)
  have cpu: "split_str ''--'' ((itoa c @ ''CPU'') @ ''--'' @ b) = (itoa c @ ''CPU'') # split_str ''--'' b" for b
    by (rule split_dashes [OF d [OF assms(1)]]) simp
  have mem: "split_str ''--'' ((itoa m @ ''GB'') @ ''--'' @ b) = (itoa m @ ''GB'') # split_str ''--'' b" for b
    by (rule split_dashes [OF d [OF assms(3)]]) simp
  have "CHR ''-'' \<notin> set (itoa m @ ''GB'')" by (rule d [OF assms(3)]) simp
  then have "\<not> contains_str (itoa m @ ''GB'') ''--''" by (auto dest: set_contained)
  then have last_mem: "split_str ''--'' (itoa m @ ''GB'') = [itoa m @ ''GB'']" by (rule split_str_none) simp
  have last_gpu: "split_str ''--'' (g @ '':'' @ itoa n) = [g @ '':'' @ itoa n]" if "g \<noteq> []"
    using assms(6) that by (intro split_str_none) auto
  show ?thesis
    using cpu mem last_mem last_gpu number_part [OF assms(1,2)] number_part [OF assms(3,4)] gpu_part [of g n] assms(5,6)
    by (auto simp: parse_instance_type_def instance_type_name_def)
qed

theorem instance_type_roundtrip_witness:
  "parse_instance_type (instance_type_name 4 16 ''A100-80GB'' 8) = \<lparr>sh_cpus = 4, sh_mem = 16, sh_gpu = ''A100-80GB'', sh_gpus = 8\<rparr>"
proof -
  have "\<not> contains_str (''A100-80GB'' @ '':'' @ itoa 8) ''--''" by code_simp
  then show ?thesis by (subst instance_type_roundtrip) (simp_all add: int64_ok_def is_space_def)
qed

text \<open>The pods of a launch have different names, each of at most the 63 characters that are allowed.\<close>

theorem pod_names_fit:
  assumes "ls_num_nodes spec \<le> 10 ^ 14"
  shows "distinct (launch_names spec) \<and> list_all (\<lambda>n. length n \<le> 63) (launch_names spec)"
proof -
  have t: "length (truncate_name p 42) \<le> 42" for p by (simp add: truncate_name_def)
  have "length (pod_name (truncate_name p 42) k i) \<le> 63" if "0 \<le> i" "i < 10 ^ 14" for p k i
    using t [of p] length_itoa [OF that] by (simp add: pod_name_def)
  then show ?thesis
    using assms distinct_pod_names by (auto simp: launch_names_def list_all_iff)
qed


text \<open>A cluster whose second node cannot be created; the world is the clock and the pods.\<close>

definition sample_kube :: "(unit, unit, int \<times> (string \<times> string) list) kube_env" where
  "sample_kube = \<lparr>ku_env = [(''KUBECONFIG'', ''/k'')], ku_user_home = Inl (Err []), ku_join = concat,
     ku_load = (\<lambda>_ _. Inr \<lparr>kc_contexts = [''x''], kc_current = ''x''\<rparr>), ku_rest = (\<lambda>_ _ _. Inr ()), ku_connect = (\<lambda>_. Inr ()),
     ku_delete = (\<lambda>_ ns n _ w. (None, fst w, removeAll (ns, n) (snd w))),
     ku_create = (\<lambda>_ ns p w. if ps_name p = ''c-worker1'' then (Some (Api_error (Err ''no'')), w) else (None, fst w, (ns, ps_name p) # snd w)),
     ku_get = (\<lambda>_ ns n w. (if (ns, n) \<in> set (snd w)
        then Inr \<lparr>pv_name = n, pv_uid = [], pv_labels = [], pv_phase = Pod_running, pv_ip = ''10.0.0.1'', pv_host_ip = []\<rparr>
        else Inl (Not_found (Err [])), w)),
     ku_list = (\<lambda>_ _ _ w. (Inr [], w)), ku_nodes = (\<lambda>_ w. (Inr [], w)), ku_create_namespace = (\<lambda>_ _ _ w. (None, w)),
     ku_now = fst, ku_sleep = (\<lambda>d w. (fst w + d, snd w)), ku_rounds = 1\<rparr>"

definition two_nodes :: launch_spec where
  "two_nodes = \<lparr>ls_instance_type = [], ls_region = ''x'', ls_zone = [], ls_num_nodes = 2, ls_image_id = [], ls_key_name = [],
     ls_security_group = [], ls_vswitch = [], ls_vpc = [], ls_spot_strategy = [], ls_disk_gib = 0, ls_user_data = [], ls_tags = [],
     ls_name_prefix = ''c'', ls_resume = True\<rparr>"

definition no_vars :: "unit kube_vars" where
  "no_vars = \<lparr>kv_pool = [], kv_config = None\<rparr>"

lemma sample_pod_api: "pod_api sample_kube (set \<circ> snd)"
  by (auto simp: pod_api_def sample_kube_def)

lemma upto_two: "[0..ls_num_nodes two_nodes - 1] = [0, 1]"
  by code_simp

lemma sample_names: "launch_names two_nodes = [''c-head'', ''c-worker1'']"
  by code_simp

lemma sample_polls:
  "ku_rounds sample_kube = Suc 0" "ku_now sample_kube w = fst w"
  "ku_get sample_kube cs ns n w = (if (ns, n) \<in> set (snd w)
        then Inr \<lparr>pv_name = n, pv_uid = [], pv_labels = [], pv_phase = Pod_running, pv_ip = ''10.0.0.1'', pv_host_ip = []\<rparr>
        else Inl (Not_found (Err [])), w)"
  "ku_delete sample_kube cs ns n g w = (None, fst w, removeAll (ns, n) (snd w))"
  "ku_create sample_kube cs ns p w = (if ps_name p = ''c-worker1'' then (Some (Api_error (Err ''no'')), w) else (None, fst w, (ns, ps_name p) # snd w))"
  by (simp_all add: sample_kube_def)


lemma sample_kube_launch:
  "\<exists>v. kube_run_instances sample_kube (\<lambda>_. ''2m0s'') None two_nodes (no_vars, 0, []) =
     (Inl (Err ''create pod c-worker1: no''), v, 0, [(''default'', ''c-head'')])"
proof -
  have t: "parse_instance_type [] = \<lparr>sh_cpus = 0, sh_mem = 0, sh_gpu = [], sh_gpus = 0\<rparr>" by code_simp
  have names: "pod_name (truncate_name ''c'' 42) 2 0 = ''c-head''" "pod_name (truncate_name ''c'' 42) 2 1 = ''c-worker1''"
    "node_role 2 0 = ''head''" "node_role 2 1 = ''worker''" by code_simp+
  have fields: "ls_num_nodes two_nodes = 2" "ls_name_prefix two_nodes = ''c''" "ls_instance_type two_nodes = []" "ls_region two_nodes = ''x''"
    by (simp_all add: two_nodes_def)
  have client: "\<exists>v. client_for sample_kube ''x'' (no_vars, 0, []) = (Inr (), v, 0, [])"
    by (simp add: client_for_def no_vars_def sample_kube_def kubeconfig_path_def getenv_def)
  have built: "\<exists>pod. build_pod sample_kube p s = (Inr pod, s) \<and> ps_name pod = pp_name p" if "pp_spec p = two_nodes" for p s
    using that by (simp add: build_pod_def t fields Let_def)
  have head: "launch_pod sample_kube (\<lambda>_. ''2m0s'') None two_nodes () ''default'' [] [] 0 (v, 0, []) = (Inr ''10.0.0.1'', v, 0, [(''default'', ''c-head'')])" for v
    using built [of "\<lparr>pp_name = ''c-head'', pp_namespace = ''default'', pp_spec = two_nodes, pp_role = ''head'', pp_head_addr = [], pp_cfg = None\<rparr>" "(v, 0, [])"]
    by (auto simp: launch_pod_def fields names Let_def seq_act_def bind_act_def api_do_apply sample_polls catch_act_def wait_pod_ready_def
        effective_pod_wait_retries_def int_or_def effective_pod_wait_timeout_def second_def wait_pod_running_def wait_for_pod_def wait_pod_ip_def
        numeral_3_eq_3)
  have worker: "launch_pod sample_kube (\<lambda>_. ''2m0s'') None two_nodes () ''default'' [''c-head''] ''10.0.0.1'' 1 (v, 0, [(''default'', ''c-head'')]) =
      (Inl (Err ''create pod c-worker1: no''), v, 0, [(''default'', ''c-head'')])" for v
    using built [of "\<lparr>pp_name = ''c-worker1'', pp_namespace = ''default'', pp_spec = two_nodes, pp_role = ''worker'', pp_head_addr = ''10.0.0.1'',
      pp_cfg = None\<rparr>" "(v, 0, [(''default'', ''c-head'')])"]
    by (auto simp: launch_pod_def fields names Let_def seq_act_def bind_act_def api_do_apply sample_polls)
  show ?thesis
    using client head worker
    by (auto simp: kube_run_instances_def launch_context_def fields bind_act_def upto_two [unfolded fields, simplified] effective_namespace_def text_or_def
        names Let_def)
qed


theorem pod_names_fit_witness:
  "distinct [''c-head'', ''c-worker1''] \<and> list_all (\<lambda>n. length n \<le> 63) [''c-head'', ''c-worker1'']"
proof -
  have "ls_num_nodes two_nodes \<le> 10 ^ 14" by (simp add: two_nodes_def)
  from pod_names_fit [OF this] show ?thesis by (simp only: sample_names)
qed

text \<open>C14. Waiting for a pod ends: when the clock goes on, as many rounds as there are half seconds in the timeout are enough for each of
  the attempts to see the pod running and for the address of the head.\<close>

theorem pod_waits_end:
  assumes "pod_clock K" and "0 < ku_rounds K" and "effective_pod_wait_timeout cfg \<le> 500000000 * (int (ku_rounds K) - 1)"
  shows "(\<exists>s'. wait_pod_ready K dur cs ns name (effective_pod_wait_timeout cfg) n s = (Inr (), s') \<or>
      (\<exists>m. wait_pod_ready K dur cs ns name (effective_pod_wait_timeout cfg) n s = (Inl (Err m), s'))) \<and>
    (\<exists>ip s'. wait_pod_ip K cs ns name (effective_pod_wait_timeout cfg) s = (Inr ip, s'))"
proof -
  note ends = wait_for_pod_ends [OF assms(1,3,2)]
  have once: "\<exists>b s'. wait_pod_running K cs ns name (effective_pod_wait_timeout cfg) s = (Inr b, s')" for s
    using ends [of cs ns name "\<lambda>p. pv_phase p = Pod_running" s] by (auto simp: wait_pod_running_def bind_act_def)
  obtain b s' where "pod_attempts (nat n) (wait_pod_running K cs ns name (effective_pod_wait_timeout cfg)) s = (Inr b, s')"
    using pod_attempts_ends [of "wait_pod_running K cs ns name (effective_pod_wait_timeout cfg)", OF once] by blast
  moreover have "\<exists>ip s'. wait_pod_ip K cs ns name (effective_pod_wait_timeout cfg) s = (Inr ip, s')"
    using ends [of cs ns name "\<lambda>p. pv_ip p \<noteq> []" s] by (auto simp: wait_pod_ip_def bind_act_def)
  ultimately show ?thesis by (cases b) (simp_all add: wait_pod_ready_def bind_act_apply)
qed

theorem pod_waits_end_witness:
  "\<exists>ip s'. wait_pod_ip (sample_kube\<lparr>ku_rounds := 241\<rparr>) () ''default'' ''lost'' (effective_pod_wait_timeout None) (no_vars, 0, []) = (Inr ip, s')"
  by (rule pod_waits_end [THEN conjunct2]) (simp_all add: pod_clock_def sample_kube_def effective_pod_wait_timeout_def second_def)



end
