(* ===== verification/Rest_Client.thy ===== *)
theory Rest_Client
  imports Cloud_Http Cloud_Launch Config
begin

text \<open>
  What the clients of the JSON interfaces of Google Cloud and Azure share, \<open>internal/cloud/gcp/client.go\<close> and \<open>internal/cloud/azure/client.go\<close>:
  a GET that is tried three times, whatever it failed with, and a POST and a DELETE that are tried once. And the launch of
  machines one after the other, with what both providers promise of it.
\<close>

section \<open>Requests\<close>

text \<open>\<open>rs_exec\<close> runs a program: what it wrote, and whether it succeeded. \<open>rs_sleep\<close> is \<open>time.Sleep\<close>.\<close>

record 'w rest_env =
  rs_env :: "string smap"
  rs_now :: "'w \<Rightarrow> int"
  rs_send :: "http_request \<Rightarrow> 'w \<Rightarrow> http_reply \<times> 'w"
  rs_sleep :: "int \<Rightarrow> 'w \<Rightarrow> 'w"
  rs_exec :: "string list \<Rightarrow> 'w \<Rightarrow> (string \<times> bool) \<times> 'w"
  rs_json :: "string \<Rightarrow> json res"
  rs_marshal :: "json \<Rightarrow> string"

definition ellipsis :: "string \<Rightarrow> nat \<Rightarrow> string" where
  "ellipsis s n = (if length s \<le> n then s else take n s @ ''...'')"

definition http_error :: "int \<Rightarrow> string \<Rightarrow> error" where
  "http_error status body = Err (''http '' @ itoa status @ '': '' @ ellipsis body 200)"

definition bearer :: "string \<Rightarrow> string \<times> string" where
  "bearer token = (''Authorization'', ''Bearer '' @ token)"

text \<open>An error of reading the body is dropped, and what was read of it used.\<close>

fun get_attempts ::
  "'w rest_env \<Rightarrow> (int \<Rightarrow> string \<Rightarrow> error) \<Rightarrow> http_request \<Rightarrow> int list \<Rightarrow> error \<Rightarrow> (string, 'w) act" where
  "get_attempts R failure rq [] err w = (Inl err, w)"
| "get_attempts R failure rq (a # as) err w =
     (case rs_send R rq w of
        (Bad_request e, w1) \<Rightarrow> (Inl e, w1)
      | (No_answer e, w1) \<Rightarrow> get_attempts R failure rq as e (rs_sleep R (a * 500 * 1000000) w1)
      | (Answered status body broken, w1) \<Rightarrow>
          if 400 \<le> status then get_attempts R failure rq as (failure status body) (rs_sleep R (a * 500 * 1000000) w1)
          else (Inr body, w1))"

definition rest_get ::
  "'w rest_env \<Rightarrow> (int \<Rightarrow> string \<Rightarrow> error) \<Rightarrow> string \<Rightarrow> string \<Rightarrow> shape \<Rightarrow> (json, 'w) act" where
  "rest_get R failure url token sh =
     bind_act (get_attempts R failure \<lparr>hr_verb = ''GET'', hr_url = url, hr_headers = [bearer token], hr_body = []\<rparr> [1, 2, 3] (Err []))
       (\<lambda>body. of_res (unmarshal (rs_json R) sh body))"

definition send_once :: "'w rest_env \<Rightarrow> (int \<Rightarrow> string \<Rightarrow> error) \<Rightarrow> http_request \<Rightarrow> (string, 'w) act" where
  "send_once R failure rq w =
     (case rs_send R rq w of
        (Bad_request e, w1) \<Rightarrow> (Inl e, w1)
      | (No_answer e, w1) \<Rightarrow> (Inl e, w1)
      | (Answered status body broken, w1) \<Rightarrow> if 400 \<le> status then (Inl (failure status body), w1) else (Inr body, w1))"

definition post_request :: "'w rest_env \<Rightarrow> string \<Rightarrow> string \<Rightarrow> json option \<Rightarrow> http_request" where
  "post_request R url token body =
     \<lparr>hr_verb = ''POST'', hr_url = url, hr_headers = [bearer token, (''Content-Type'', ''application/json'')],
      hr_body = (case body of None \<Rightarrow> [] | Some j \<Rightarrow> rs_marshal R j)\<rparr>"

text \<open>With a shape for the answer, or none when the answer is not looked at.\<close>

definition rest_post ::
  "'w rest_env \<Rightarrow> (int \<Rightarrow> string \<Rightarrow> error) \<Rightarrow> string \<Rightarrow> string \<Rightarrow> json option \<Rightarrow> shape option \<Rightarrow> (unit, 'w) act" where
  "rest_post R failure url token body sh =
     bind_act (send_once R failure (post_request R url token body)) (\<lambda>text.
       case sh of None \<Rightarrow> ret () | Some s \<Rightarrow> bind_act (of_res (unmarshal (rs_json R) s text)) (\<lambda>_. ret ()))"

definition rest_delete :: "'w rest_env \<Rightarrow> string \<Rightarrow> string \<Rightarrow> (unit, 'w) act" where
  "rest_delete R url token =
     bind_act (send_once R http_error \<lparr>hr_verb = ''DELETE'', hr_url = url, hr_headers = [bearer token], hr_body = []\<rparr>) (\<lambda>_. ret ())"

text \<open>A call for each machine; the first error ends the calls.\<close>

fun each_machine :: "string \<Rightarrow> (string \<Rightarrow> (unit, 'w) act) \<Rightarrow> string list \<Rightarrow> (unit, 'w) act" where
  "each_machine what f [] = ret ()"
| "each_machine what f (i # ids) =
     seq_act (catch_act (f i) (\<lambda>e. raise (wrap_err (what @ '' '' @ i @ '': '') e))) (each_machine what f ids)"

section \<open>Launching\<close>

text \<open>The head and the workers of a cluster, and one machine alone.\<close>

definition role_name :: "string \<Rightarrow> int \<Rightarrow> int \<Rightarrow> string" where
  "role_name prefix num i = (if num = 1 then prefix else if i = 0 then prefix @ ''-head'' else prefix @ ''-worker'')"

definition asked_inst :: "launch_spec \<Rightarrow> string \<Rightarrow> string \<Rightarrow> inst" where
  "asked_inst spec zone name =
     \<lparr>i_id = name, i_name = name, i_public_ip = [], i_private_ip = [], i_status = status_pending, i_type = ls_instance_type spec,
      i_region = ls_region spec, i_zone = zone, i_created_at = 0, i_tags = ls_tags spec\<rparr>"

fun one_by_one :: "(int \<Rightarrow> (inst, 'w) act) \<Rightarrow> int list \<Rightarrow> (inst list, 'w) act" where
  "one_by_one mk [] = ret []"
| "one_by_one mk (i # is) = bind_act (mk i) (\<lambda>x. bind_act (one_by_one mk is) (\<lambda>rest. ret (x # rest)))"

lemma one_by_one_Inr:
  assumes "one_by_one mk is w = (Inr xs, w')" "\<And>i w x w'. mk i w = (Inr x, w') \<Longrightarrow> Q i x"
  shows "list_all2 Q is xs"
  using assms(1)
proof (induction "is" arbitrary: w xs)
  case (Cons i "is")
  then obtain x w1 rest where "mk i w = (Inr x, w1)" "one_by_one mk is w1 = (Inr rest, w')" "xs = x # rest"
    by (auto simp: bind_act_Inr)
  then show ?case using Cons.IH assms(2) by auto
qed simp

text \<open>
  The contract: \<open>run\<close> makes the nodes of the order with one of the functions in \<open>makes\<close>, and a machine that is made has the name of its
  role, is pending and of the type ordered.
\<close>

locale machine_maker =
  fixes run :: "launch_spec \<Rightarrow> (inst list, 'w) act"
    and makes :: "launch_spec \<Rightarrow> (int \<Rightarrow> (inst, 'w) act) \<Rightarrow> bool"
  assumes run_made: "run spec w = (Inr is, w') \<Longrightarrow>
      \<exists>mk w1. makes spec mk \<and> one_by_one mk [0..ls_num_nodes spec - 1] w1 = (Inr is, w')"
    and make_named: "makes spec mk \<Longrightarrow> mk i w = (Inr x, w') \<Longrightarrow>
      i_id x = role_name (ls_name_prefix spec) (ls_num_nodes spec) i \<and> i_status x = status_pending \<and> i_type x = ls_instance_type spec"
begin

lemma run_names:
  assumes "run spec w = (Inr is, w')"
  shows "map i_id is = map (role_name (ls_name_prefix spec) (ls_num_nodes spec)) [0..ls_num_nodes spec - 1]"
proof -
  obtain mk w1 where m: "makes spec mk" "one_by_one mk [0..ls_num_nodes spec - 1] w1 = (Inr is, w')" using run_made [OF assms] by blast
  from one_by_one_Inr [OF m(2) make_named [OF m(1)]]
  have "list_all2 (\<lambda>i x. i_id x = role_name (ls_name_prefix spec) (ls_num_nodes spec) i \<and> i_status x = status_pending \<and> i_type x = ls_instance_type spec)
    [0..ls_num_nodes spec - 1] is" .
  then show ?thesis by (auto simp: list_all2_conv_all_nth intro!: nth_equalityI)
qed

text \<open>A cluster of at most two machines has different names for them; in a larger one all the workers have the same.\<close>

lemma run_names_clash:
  assumes "run spec w = (Inr is, w')"
  shows "distinct (map i_id is) \<longleftrightarrow> ls_num_nodes spec \<le> 2"
proof (cases "ls_num_nodes spec \<le> 2")
  case True
  then have "ls_num_nodes spec \<le> 0 \<or> ls_num_nodes spec = 1 \<or> ls_num_nodes spec = 2" by linarith
  then have "[0..ls_num_nodes spec - 1] = [] \<or> [0..ls_num_nodes spec - 1] = [0] \<or> ls_num_nodes spec = 2 \<and> [0..ls_num_nodes spec - 1] = [0, 1]"
    by (auto simp: upto.simps)
  then show ?thesis using True by (auto simp: run_names [OF assms] role_name_def)
next
  case False
  then have "[0..ls_num_nodes spec - 1] = [0, 1, 2] @ [3..ls_num_nodes spec - 1]" by (auto simp: upto.simps)
  then have "map i_id is = map (role_name (ls_name_prefix spec) (ls_num_nodes spec)) ([0, 1, 2] @ [3..ls_num_nodes spec - 1])"
    using run_names [OF assms] by simp
  then show ?thesis using False by (auto simp: role_name_def)
qed

end

end
