(* ===== verification/Gcp_Provider.thy ===== *)
theory Gcp_Provider
  imports Rest_Client
begin

text \<open>
  The provider of Google Cloud, \<open>internal/cloud/gcp\<close>: credentials and tokens obtained from the program \<open>gcloud\<close>, the operations on
  machines and networks, and the catalog. The directory made when the program starts is left out.
\<close>

section \<open>The client\<close>

text \<open>No expiry is the zero time, before every present.\<close>

record gcp_cred =
  gpc_project :: string
  gpc_key_path :: string
  gpc_token :: string
  gpc_expiry :: "int option"

definition gcp_load_credentials :: "'w rest_env \<Rightarrow> gcp_cred res" where
  "gcp_load_credentials R =
     (let p = getenv (rs_env R) ''GCP_PROJECT_ID''
      in if p = [] then Inl (Err ''GCP_PROJECT_ID not set'')
         else Inr \<lparr>gpc_project = p, gpc_key_path = getenv (rs_env R) ''GCP_SERVICE_ACCOUNT_KEY'', gpc_token = [], gpc_expiry = None\<rparr>)"

record gcp_client =
  gcl_cred :: gcp_cred
  gcl_region :: string
  gcl_token :: string

definition refresh_from_adc :: "'w rest_env \<Rightarrow> gcp_cred \<Rightarrow> (string, 'w) act" where
  "refresh_from_adc R k w =
     (case rs_exec R [''gcloud'', ''auth'', ''print-access-token'', ''--project='' @ gpc_project k] w of
        ((out, ok), w1) \<Rightarrow>
          if \<not> ok then (Inl (Err (''get access token: '' @ trim_space out)), w1)
          else if trim_space out = [] then (Inl (Err ''empty access token''), w1)
          else (Inr (trim_space out), w1))"

definition refresh_from_service_account :: "'w rest_env \<Rightarrow> gcp_cred \<Rightarrow> (string, 'w) act" where
  "refresh_from_service_account R k w =
     (case rs_exec R [''gcloud'', ''auth'', ''activate-service-account'', ''--key-file='' @ gpc_key_path k] w of
        ((out, ok), w1) \<Rightarrow>
          if \<not> ok then (Inl (Err (''activate service account: '' @ trim_space out)), w1) else refresh_from_adc R k w1)"

definition gcp_refresh_token :: "'w rest_env \<Rightarrow> gcp_cred \<Rightarrow> (string, 'w) act" where
  "gcp_refresh_token R k w =
     (if gpc_token k \<noteq> [] \<and> (case gpc_expiry k of None \<Rightarrow> False | Some t \<Rightarrow> rs_now R w < t) then (Inr (gpc_token k), w)
      else if gpc_key_path k \<noteq> [] then refresh_from_service_account R k w
      else refresh_from_adc R k w)"

definition gcp_client_with_creds :: "'w rest_env \<Rightarrow> string \<Rightarrow> gcp_cred \<Rightarrow> (gcp_client, 'w) act" where
  "gcp_client_with_creds R region k =
     bind_act (catch_act (gcp_refresh_token R k) (\<lambda>e. raise (wrap_err ''gcp auth: '' e))) (\<lambda>t.
       ret \<lparr>gcl_cred = k, gcl_region = region, gcl_token = t\<rparr>)"

definition gcp_new_client :: "'w rest_env \<Rightarrow> string \<Rightarrow> (gcp_client, 'w) act" where
  "gcp_new_client R region = bind_act (of_res (gcp_load_credentials R)) (gcp_client_with_creds R region)"

text \<open>
  \<open>APIError\<close>, whose fields the error document is searched for at its top. They have no tags, so that keys are matched whatever their
  case.
\<close>

fun fold_keys :: "json \<Rightarrow> json" where
  "fold_keys (JObj kvs) = JObj (map (\<lambda>kv. (to_lower (fst kv), fold_keys (snd kv))) kvs)"
| "fold_keys (JArr js) = JArr (map fold_keys js)"
| "fold_keys j = j"

definition gcp_error_shape :: shape where
  "gcp_error_shape = Sh_rec [(''code'', Sh_int), (''message'', Sh_str), (''errors'', Sh_list (Sh_rec [(''code'', Sh_str), (''message'', Sh_str)]))]"

definition gcp_api_error :: "int \<Rightarrow> json \<Rightarrow> error" where
  "gcp_api_error status j =
     (case kids_at [''errors''] j of
        e # _ \<Rightarrow> Err (''gcp api: '' @ str_at [''message''] e @ '' ('' @ str_at [''code''] e @ '')'')
      | [] \<Rightarrow> Err (''gcp api: '' @ str_at [''message''] j @ '' (http '' @ itoa status @ '')''))"

definition gcp_failure :: "'w rest_env \<Rightarrow> int \<Rightarrow> string \<Rightarrow> error" where
  "gcp_failure R status body =
     (case unmarshal (\<lambda>text. case rs_json R text of Inl e \<Rightarrow> Inl e | Inr j \<Rightarrow> Inr (fold_keys j)) gcp_error_shape body of
        Inl _ \<Rightarrow> http_error status body
      | Inr j \<Rightarrow> gcp_api_error status j)"

definition gcp_url :: "string \<Rightarrow> string \<Rightarrow> string" where
  "gcp_url project path = ''https://compute.googleapis.com/compute/v1/projects/'' @ project @ ''/'' @ path"

definition gcp_call :: "'w rest_env \<Rightarrow> gcp_client \<Rightarrow> string \<Rightarrow> string \<Rightarrow> shape \<Rightarrow> (json, 'w) act" where
  "gcp_call R c project path sh = rest_get R (gcp_failure R) (gcp_url project path) (gcl_token c) sh"

definition gcp_call_post :: "'w rest_env \<Rightarrow> gcp_client \<Rightarrow> string \<Rightarrow> string \<Rightarrow> json option \<Rightarrow> shape option \<Rightarrow> (unit, 'w) act" where
  "gcp_call_post R c project path body sh = rest_post R (gcp_failure R) (gcp_url project path) (gcl_token c) body sh"

definition gcp_call_delete :: "'w rest_env \<Rightarrow> gcp_client \<Rightarrow> string \<Rightarrow> string \<Rightarrow> (unit, 'w) act" where
  "gcp_call_delete R c project path = rest_delete R (gcp_url project path) (gcl_token c)"

section \<open>The provider\<close>

type_synonym gcp_provider = "gcp_cred option"

text \<open>The factory takes the region of the keys for the project and the key for a token, without an expiry.\<close>

definition gcp_factory :: "cloud_credentials \<Rightarrow> gcp_provider res" where
  "gcp_factory k = Inr (Some \<lparr>gpc_project = cred_region k, gpc_key_path = [], gpc_token = access_key_id k, gpc_expiry = None\<rparr>)"

definition gcp_default_region :: "gcp_provider \<Rightarrow> string" where
  "gcp_default_region p = (case p of None \<Rightarrow> [] | Some k \<Rightarrow> if gpc_project k \<noteq> [] then ''us-central1'' else [])"

definition gcp_client_of :: "'w rest_env \<Rightarrow> gcp_provider \<Rightarrow> string \<Rightarrow> (gcp_client, 'w) act" where
  "gcp_client_of R p region =
     (let r = (if region = [] then gcp_default_region p else region)
      in case p of Some k \<Rightarrow> gcp_client_with_creds R r k | None \<Rightarrow> gcp_new_client R r)"

definition gcp_project_id :: "gcp_provider \<Rightarrow> string res" where
  "gcp_project_id p =
     (case p of Some k \<Rightarrow> if gpc_project k \<noteq> [] then Inr (gpc_project k) else Inl (Err ''GCP project ID not configured'')
      | None \<Rightarrow> Inl (Err ''GCP project ID not configured''))"

text \<open>What every operation begins with: the project, and then a client.\<close>

definition with_gcp :: "'w rest_env \<Rightarrow> gcp_provider \<Rightarrow> string \<Rightarrow> (string \<Rightarrow> gcp_client \<Rightarrow> ('a, 'w) act) \<Rightarrow> ('a, 'w) act" where
  "with_gcp R p region f = bind_act (of_res (gcp_project_id p)) (\<lambda>project. bind_act (gcp_client_of R p region) (f project))"

definition gcp_regions :: "string list" where
  "gcp_regions = [''us-central1-a'', ''us-central1-b'', ''us-central1-c'', ''us-east1-b'', ''us-east1-c'', ''us-east1-d'',
     ''europe-west1-b'', ''europe-west1-c'', ''europe-west1-d'', ''asia-east1-a'', ''asia-east1-b'', ''asia-east1-c'']"

text \<open>The zone a machine is created in, and the one all other operations look in.\<close>

definition gcp_zone :: "launch_spec \<Rightarrow> string" where
  "gcp_zone spec = (if ls_zone spec = [] then ls_region spec @ ''-a'' else ls_zone spec)"

definition ubuntu_image :: string where
  "ubuntu_image = ''projects/ubuntu-os-cloud/global/images/family/ubuntu-2204-lts''"

definition gcp_machine_body :: "launch_spec \<Rightarrow> string \<Rightarrow> json" where
  "gcp_machine_body spec name =
     JObj [(''disks'', JArr [JObj [(''autoDelete'', JBool True), (''boot'', JBool True),
              (''initializeParams'', JObj [(''sourceImage'', JStr ubuntu_image)])]]),
           (''labels'', JObj (map (\<lambda>(k, v). (k, JStr v)) (ls_tags spec))),
           (''machineType'', JStr (''zones/'' @ gcp_zone spec @ ''/machineTypes/'' @ ls_instance_type spec)),
           (''metadata'', JObj [(''items'', JArr [JObj [(''key'', JStr ''gpi-cluster''), (''value'', JStr (ls_name_prefix spec))]])]),
           (''name'', JStr name),
           (''networkInterfaces'', JArr [JObj
              [(''accessConfigs'', JArr [JObj [(''name'', JStr ''External NAT''), (''type'', JStr ''ONE_TO_ONE_NAT'')]]),
               (''network'', JStr ''global/networks/default'')]])]"

definition gcp_make :: "'w rest_env \<Rightarrow> gcp_client \<Rightarrow> string \<Rightarrow> launch_spec \<Rightarrow> int \<Rightarrow> (inst, 'w) act" where
  "gcp_make R c project spec i =
     (let name = role_name (ls_name_prefix spec) (ls_num_nodes spec) i
      in seq_act (catch_act (gcp_call_post R c project (''zones/'' @ gcp_zone spec @ ''/instances'') (Some (gcp_machine_body spec name))
                              (Some (Sh_rec [(''name'', Sh_str)])))
                    (\<lambda>e. raise (wrap_err (''create instance '' @ name @ '': '') e)))
           (ret (asked_inst spec (gcp_zone spec) name)))"

definition gcp_run_instances :: "'w rest_env \<Rightarrow> gcp_provider \<Rightarrow> launch_spec \<Rightarrow> (inst list, 'w) act" where
  "gcp_run_instances R p spec =
     with_gcp R p (ls_region spec) (\<lambda>project c. one_by_one (gcp_make R c project spec) [0..ls_num_nodes spec - 1])"

definition last_part :: "char \<Rightarrow> string \<Rightarrow> string" where
  "last_part c s = last (split_on c s)"

definition extract_machine_type :: "string \<Rightarrow> string" where
  "extract_machine_type = last_part CHR ''/''"

definition gcp_parse_zone :: "string \<Rightarrow> string" where
  "gcp_parse_zone = last_part CHR ''/''"

definition gcp_parse_machine_type :: "string \<Rightarrow> string" where
  "gcp_parse_machine_type = extract_machine_type"

definition gcp_status :: "string \<Rightarrow> instance_status" where
  "gcp_status s =
     (case map_of [(''running'', status_running), (''stopped'', status_stopped), (''suspended'', status_stopped),
                   (''stopping'', status_stopping), (''provisioning'', status_pending), (''staging'', status_pending),
                   (''repairing'', status_pending), (''terminated'', status_terminated), (''terminating'', status_terminated)] (to_lower s) of
        Some t \<Rightarrow> t | None \<Rightarrow> status_unknown)"

definition gcp_item_shape :: shape where
  "gcp_item_shape = Sh_rec
     [(''name'', Sh_str), (''machineType'', Sh_str), (''status'', Sh_str), (''zone'', Sh_str),
      (''networkInterfaces'', Sh_list (Sh_rec [(''accessConfigs'', Sh_list (Sh_rec [(''natIP'', Sh_str)]))])), (''labels'', Sh_dict Sh_str)]"

definition gcp_instance_of :: "string \<Rightarrow> json \<Rightarrow> inst" where
  "gcp_instance_of region j =
     \<lparr>i_id = str_at [''name''] j, i_name = str_at [''name''] j,
      i_public_ip = (case kids_at [''networkInterfaces''] j of
                       [] \<Rightarrow> [] | n # _ \<Rightarrow> (case kids_at [''accessConfigs''] n of [] \<Rightarrow> [] | a # _ \<Rightarrow> str_at [''natIP''] a)),
      i_private_ip = [], i_status = gcp_status (str_at [''status''] j), i_type = extract_machine_type (str_at [''machineType''] j),
      i_region = region, i_zone = region @ ''-a'', i_created_at = 0, i_tags = json_dict (json_at [''labels''] j)\<rparr>"

definition gcp_list_instances :: "'w rest_env \<Rightarrow> gcp_provider \<Rightarrow> string \<Rightarrow> string \<Rightarrow> (inst list, 'w) act" where
  "gcp_list_instances R p region prefix =
     with_gcp R p region (\<lambda>project c.
       bind_act (gcp_call R c project (''zones/'' @ region @ ''-a/instances?filter=name='' @ prefix) (Sh_rec [(''items'', Sh_list gcp_item_shape)]))
         (\<lambda>j. ret (map (gcp_instance_of region) (filter (\<lambda>i. has_prefix (str_at [''name''] i) prefix) (kids_at [''items''] j)))))"

text \<open>A machine that cannot be read is left out, whatever the error is.\<close>

fun gcp_describe_each :: "'w rest_env \<Rightarrow> gcp_client \<Rightarrow> string \<Rightarrow> string \<Rightarrow> string list \<Rightarrow> (inst list, 'w) act" where
  "gcp_describe_each R c project region [] = ret []"
| "gcp_describe_each R c project region (i # ids) =
     bind_act (catch_act (bind_act (gcp_call R c project (''zones/'' @ region @ ''-a/instances/'' @ i) gcp_item_shape)
                            (\<lambda>j. ret [gcp_instance_of region j])) (\<lambda>_. ret []))
       (\<lambda>found. bind_act (gcp_describe_each R c project region ids) (\<lambda>rest. ret (found @ rest)))"

definition gcp_describe_instances :: "'w rest_env \<Rightarrow> gcp_provider \<Rightarrow> string \<Rightarrow> string list \<Rightarrow> (inst list, 'w) act" where
  "gcp_describe_instances R p region ids = with_gcp R p region (\<lambda>project c. gcp_describe_each R c project region ids)"

definition gcp_stop_instances :: "'w rest_env \<Rightarrow> gcp_provider \<Rightarrow> string \<Rightarrow> string list \<Rightarrow> (unit, 'w) act" where
  "gcp_stop_instances R p region ids =
     with_gcp R p region (\<lambda>project c.
       each_machine ''stop'' (\<lambda>i. gcp_call_post R c project (''zones/'' @ region @ ''-a/instances/'' @ i @ ''/stop'') None None) ids)"

definition gcp_start_instances :: "'w rest_env \<Rightarrow> gcp_provider \<Rightarrow> string \<Rightarrow> string list \<Rightarrow> (unit, 'w) act" where
  "gcp_start_instances R p region ids =
     with_gcp R p region (\<lambda>project c.
       each_machine ''start'' (\<lambda>i. gcp_call_post R c project (''zones/'' @ region @ ''-a/instances/'' @ i @ ''/start'') None None) ids)"

definition gcp_terminate_instances :: "'w rest_env \<Rightarrow> gcp_provider \<Rightarrow> string \<Rightarrow> string list \<Rightarrow> (unit, 'w) act" where
  "gcp_terminate_instances R p region ids =
     with_gcp R p region (\<lambda>project c.
       each_machine ''delete'' (\<lambda>i. gcp_call_delete R c project (''zones/'' @ region @ ''-a/instances/'' @ i)) ids)"

definition gcp_public_ip :: "'w rest_env \<Rightarrow> gcp_provider \<Rightarrow> string \<Rightarrow> string \<Rightarrow> (string, 'w) act" where
  "gcp_public_ip R p region i =
     bind_act (gcp_describe_instances R p region [i]) (\<lambda>is.
       ret (case List.find (\<lambda>x. i_id x = i \<and> i_public_ip x \<noteq> []) is of None \<Rightarrow> [] | Some x \<Rightarrow> i_public_ip x))"

definition gcp_zones :: "string \<Rightarrow> string list" where
  "gcp_zones region = [region @ ''-a'', region @ ''-b'', region @ ''-c'']"

definition no_key_pair :: string where "no_key_pair = []"

definition gcp_security_group :: "'w rest_env \<Rightarrow> gcp_provider \<Rightarrow> string \<Rightarrow> string \<Rightarrow> string \<Rightarrow> (string, 'w) act" where
  "gcp_security_group R p region vpc name =
     with_gcp R p region (\<lambda>project c. seq_act (gcp_call_post R c project ''global/firewalls''
       (Some (JObj [(''allowed'', JArr []), (''name'', JStr name), (''network'', JStr (''global/networks/'' @ vpc)),
                    (''sourceRanges'', JArr [JStr ''0.0.0.0/0''])])) None) (ret name))"

definition gcp_vpc :: "'w rest_env \<Rightarrow> gcp_provider \<Rightarrow> string \<Rightarrow> string \<Rightarrow> (string, 'w) act" where
  "gcp_vpc R p region name =
     with_gcp R p region (\<lambda>project c. seq_act (gcp_call_post R c project ''global/networks''
       (Some (JObj [(''autoCreateSubnetworks'', JBool True), (''name'', JStr name)])) None) (ret name))"

definition gcp_vswitch :: "'w rest_env \<Rightarrow> gcp_provider \<Rightarrow> string \<Rightarrow> string \<Rightarrow> string \<Rightarrow> string \<Rightarrow> (string, 'w) act" where
  "gcp_vswitch R p region vpc cidr name =
     with_gcp R p region (\<lambda>project c. seq_act (gcp_call_post R c project (''regions/'' @ region @ ''/subnetworks'')
       (Some (JObj [(''ipCidrRange'', JStr cidr), (''name'', JStr name), (''network'', JStr (''global/networks/'' @ vpc)),
                    (''region'', JStr region)])) None) (ret name))"

definition gcp_vswitches :: "'w rest_env \<Rightarrow> gcp_provider \<Rightarrow> string \<Rightarrow> string \<Rightarrow> (vswitch list, 'w) act" where
  "gcp_vswitches R p region vpc =
     with_gcp R p region (\<lambda>project c.
       bind_act (gcp_call R c project (''regions/'' @ region @ ''/subnetworks?filter=network='' @ vpc)
                   (Sh_rec [(''items'', Sh_list (Sh_rec [(''name'', Sh_str), (''ipCidrRange'', Sh_str), (''network'', Sh_str)]))]))
         (\<lambda>j. ret (map (\<lambda>i. \<lparr>vw_id = [], vw_name = str_at [''name''] i, vw_zone = [], vw_cidr = str_at [''ipCidrRange''] i, vw_vpc = vpc\<rparr>)
                     (kids_at [''items''] j))))"

section \<open>The catalog\<close>

text \<open>Splitting at dashes and joining again gives the text back, so only the prefixes go.\<close>

definition extract_gpu_type :: "string \<Rightarrow> string" where
  "extract_gpu_type full =
     to_upper (trim_prefix (trim_prefix (join_with ''-'' (split_on CHR ''-'' full)) ''nvidia-tesla-'') ''nvidia-'')"

definition gcp_types_shape :: shape where
  "gcp_types_shape = Sh_rec [(''items'', Sh_list (Sh_rec
     [(''name'', Sh_str), (''guestCpus'', Sh_int), (''memoryMb'', Sh_int), (''isSharedCpu'', Sh_bool),
      (''guestAccelerators'', Sh_list (Sh_rec [(''type'', Sh_str), (''guestAcceleratorCount'', Sh_int)]))]))]"

text \<open>Megabytes as gibibytes.\<close>

definition mb_gib :: "int \<Rightarrow> f64" where
  "mb_gib m = Fin (of_int m / 1024)"

definition gcp_spec_of :: "string \<Rightarrow> json \<Rightarrow> itype" where
  "gcp_spec_of region j =
     \<lparr>it_cloud = ''gcp'', it_region = region, it_type = str_at [''name''] j, it_vcpus = int_at [''guestCpus''] j,
      it_memory = mb_gib (int_at [''memoryMb''] j),
      it_accel = foldl (\<lambda>m a. mput (extract_gpu_type (str_at [''type''] a)) (int_at [''guestAcceleratorCount''] a) m) []
        (kids_at [''guestAccelerators''] j),
      it_max_disk = Fin 0\<rparr>"

definition gcp_fetch_specs :: "'w rest_env \<Rightarrow> gcp_provider \<Rightarrow> string \<Rightarrow> (itype list, 'w) act" where
  "gcp_fetch_specs R p region =
     with_gcp R p region (\<lambda>project c.
       bind_act (gcp_call R c project (''zones/'' @ region @ ''-a/machineTypes'') gcp_types_shape) (\<lambda>j.
         ret (map (gcp_spec_of region) (filter (\<lambda>i. \<not> bool_at [''isSharedCpu''] i) (kids_at [''items''] j)))))"

definition zero_prices :: "string list \<Rightarrow> price smap" where
  "zero_prices types = foldl (\<lambda>m t. mput t \<lparr>p_on_demand = Fin 0, p_spot = Fin 0\<rparr> m) [] types"

definition gcp_source :: "'w rest_env \<Rightarrow> gcp_provider \<Rightarrow> 'w source" where
  "gcp_source R p =
     \<lparr>src_specs_ttl = 24 * 3600 * second, src_price_ttl = 10 * 60 * second, src_regions = ret gcp_regions,
      src_fetch_specs = gcp_fetch_specs R p, src_fetch_prices = (\<lambda>region types. ret (zero_prices types))\<rparr>"

end
