(* ===== verification/Azure_Provider.thy ===== *)
theory Azure_Provider
  imports Rest_Client Go_Time
begin

text \<open>
  The provider of Azure, \<open>internal/cloud/azure\<close>: the token of a service principal, the operations on machines and networks, and the
  catalog. The directory made when the program starts is left out.
\<close>

section \<open>The client\<close>

record azure_cred =
  azc_subscription :: string
  azc_tenant :: string
  azc_client :: string
  azc_secret :: string
  azc_token :: string
  azc_expiry :: "int option"

definition azure_load_credentials :: "'w rest_env \<Rightarrow> azure_cred res" where
  "azure_load_credentials R =
     (let s = getenv (rs_env R) ''AZURE_SUBSCRIPTION_ID''
      in if s = [] then Inl (Err ''AZURE_SUBSCRIPTION_ID not set'')
         else Inr \<lparr>azc_subscription = s, azc_tenant = getenv (rs_env R) ''AZURE_TENANT_ID'', azc_client = getenv (rs_env R) ''AZURE_CLIENT_ID'',
                   azc_secret = getenv (rs_env R) ''AZURE_CLIENT_SECRET'', azc_token = [], azc_expiry = None\<rparr>)"

record azure_client =
  azl_cred :: azure_cred
  azl_region :: string
  azl_token :: string

definition azure_token_shape :: shape where
  "azure_token_shape = Sh_rec [(''access_token'', Sh_str), (''expires_in'', Sh_str)]"

definition azure_token_request :: "azure_cred \<Rightarrow> http_request" where
  "azure_token_request k =
     \<lparr>hr_verb = ''POST'', hr_url = ''https://login.microsoftonline.com/'' @ azc_tenant k @ ''/oauth2/token'',
      hr_headers = [(''Content-Type'', ''application/x-www-form-urlencoded'')],
      hr_body = ''grant_type=client_credentials&client_id='' @ azc_client k @ ''&client_secret='' @ azc_secret k @
        ''&resource=https://management.azure.com/''\<rparr>"

text \<open>The lifetime of a token, less five minutes; fifty-five minutes when it cannot be read.\<close>

definition token_expiry :: "int \<Rightarrow> string \<Rightarrow> int" where
  "token_expiry now expires_in =
     (case parse_duration (expires_in @ ''s'') of
        Inr d \<Rightarrow> now + (d - 5 * 60 * 1000000000) | Inl _ \<Rightarrow> now + 55 * 60 * 1000000000)"

text \<open>A token that is still good is kept in the credentials but not handed to the client.\<close>

definition azure_refresh_token :: "'w rest_env \<Rightarrow> azure_client \<Rightarrow> (azure_client, 'w) act" where
  "azure_refresh_token R c w =
     (let k = azl_cred c
      in if azc_token k \<noteq> [] \<and> (case azc_expiry k of None \<Rightarrow> False | Some t \<Rightarrow> rs_now R w < t) then (Inr c, w)
         else if azc_tenant k = [] \<or> azc_client k = [] \<or> azc_secret k = []
         then (Inl (Err ''missing azure credentials (set AZURE_TENANT_ID, AZURE_CLIENT_ID, AZURE_CLIENT_SECRET)''), w)
         else (case rs_send R (azure_token_request k) w of
                 (Bad_request e, w1) \<Rightarrow> (Inl e, w1)
               | (No_answer e, w1) \<Rightarrow> (Inl (wrap_err ''token request: '' e), w1)
               | (Answered status body broken, w1) \<Rightarrow>
                   if status \<noteq> 200 then (Inl (wrap_err ''token error: '' (http_error status body)), w1)
                   else (case unmarshal (rs_json R) azure_token_shape body of
                           Inl e \<Rightarrow> (Inl (wrap_err ''parse token: '' e), w1)
                         | Inr j \<Rightarrow>
                             (Inr (c\<lparr>azl_token := str_at [''access_token''] j,
                                     azl_cred := k\<lparr>azc_token := str_at [''access_token''] j,
                                       azc_expiry := Some (token_expiry (rs_now R w1) (str_at [''expires_in''] j))\<rparr>\<rparr>), w1))))"

definition azure_client_with_creds :: "'w rest_env \<Rightarrow> string \<Rightarrow> azure_cred \<Rightarrow> (azure_client, 'w) act" where
  "azure_client_with_creds R region k =
     catch_act (azure_refresh_token R \<lparr>azl_cred = k, azl_region = region, azl_token = []\<rparr>) (\<lambda>e. raise (wrap_err ''azure auth: '' e))"

definition azure_new_client :: "'w rest_env \<Rightarrow> string \<Rightarrow> (azure_client, 'w) act" where
  "azure_new_client R region = bind_act (of_res (azure_load_credentials R)) (azure_client_with_creds R region)"

definition azure_failure :: "'w rest_env \<Rightarrow> int \<Rightarrow> string \<Rightarrow> error" where
  "azure_failure R status body =
     (case unmarshal (rs_json R) (Sh_rec [(''code'', Sh_str), (''message'', Sh_str)]) body of
        Inl _ \<Rightarrow> http_error status body
      | Inr j \<Rightarrow> Err (''azure api: '' @ str_at [''message''] j @ '' ('' @ str_at [''code''] j @ '')''))"

definition azure_url :: "string \<Rightarrow> string" where
  "azure_url path = ''https://management.azure.com'' @ path @ ''?api-version=2024-03-01''"

definition azure_call :: "'w rest_env \<Rightarrow> azure_client \<Rightarrow> string \<Rightarrow> shape \<Rightarrow> (json, 'w) act" where
  "azure_call R c path sh = rest_get R (azure_failure R) (azure_url path) (azl_token c) sh"

definition azure_call_post :: "'w rest_env \<Rightarrow> azure_client \<Rightarrow> string \<Rightarrow> json option \<Rightarrow> (unit, 'w) act" where
  "azure_call_post R c path body = rest_post R (azure_failure R) (azure_url path) (azl_token c) body None"

definition azure_call_delete :: "'w rest_env \<Rightarrow> azure_client \<Rightarrow> string \<Rightarrow> (unit, 'w) act" where
  "azure_call_delete R c path = rest_delete R (azure_url path) (azl_token c)"

section \<open>The provider\<close>

type_synonym azure_provider = "azure_cred option"

text \<open>The factory has no place for the client's secret.\<close>

definition azure_factory :: "cloud_credentials \<Rightarrow> azure_provider res" where
  "azure_factory k =
     Inr (Some \<lparr>azc_subscription = cred_region k, azc_tenant = access_key_id k, azc_client = secret_access_key k, azc_secret = [],
                azc_token = [], azc_expiry = None\<rparr>)"

definition azure_client_of :: "'w rest_env \<Rightarrow> azure_provider \<Rightarrow> string \<Rightarrow> (azure_client, 'w) act" where
  "azure_client_of R p region = (case p of Some k \<Rightarrow> azure_client_with_creds R region k | None \<Rightarrow> azure_new_client R region)"

definition azure_regions :: "string list" where
  "azure_regions = [''eastus'', ''eastus2'', ''westus'', ''westus2'', ''westus3'', ''centralus'', ''northcentralus'', ''southcentralus'',
     ''northeurope'', ''westeurope'', ''uksouth'', ''ukwest'', ''eastasia'', ''southeastasia'', ''japaneast'', ''japanwest'',
     ''koreacentral'', ''koreasouth'']"

definition subscription_path :: "azure_provider \<Rightarrow> string" where
  "subscription_path p = ''/subscriptions/'' @ (case p of None \<Rightarrow> [] | Some k \<Rightarrow> azc_subscription k)"

definition group_path :: "azure_provider \<Rightarrow> string \<Rightarrow> string \<Rightarrow> string" where
  "group_path p rg rest = subscription_path p @ ''/resourceGroups/'' @ rg @ ''/providers/'' @ rest"

definition vm_path :: "azure_provider \<Rightarrow> string \<Rightarrow> string \<Rightarrow> string" where
  "vm_path p rg name = group_path p rg (''Microsoft.Compute/virtualMachines/'' @ name)"

text \<open>The group a machine is created in bears the name of the cluster; the other operations look in one with the name of the machine.\<close>

definition azure_machine_body :: "azure_client \<Rightarrow> launch_spec \<Rightarrow> string \<Rightarrow> json" where
  "azure_machine_body c spec name =
     JObj [(''location'', JStr (ls_region spec)),
           (''properties'', JObj
              [(''hardwareProfile'', JObj [(''vmSize'', JStr (ls_instance_type spec))]),
               (''networkProfile'', JObj [(''networkInterfaces'', JArr [JObj [(''id'', JStr
                  (''/subscriptions/'' @ azc_subscription (azl_cred c) @ ''/resourceGroups/'' @ ls_name_prefix spec @
                   ''-rg/providers/Microsoft.Network/networkInterfaces/'' @ name @ ''-nic''))]])]),
               (''osProfile'', JObj [(''adminUsername'', JStr ''azureuser''), (''computerName'', JStr name)]),
               (''storageProfile'', JObj
                  [(''imageReference'', JObj [(''offer'', JStr ''ubuntu-24_04-lts''), (''publisher'', JStr ''Canonical''), (''sku'', JStr ''server''),
                      (''version'', JStr ''latest'')]),
                   (''osDisk'', JObj [(''createOption'', JStr ''FromImage''),
                      (''managedDisk'', JObj [(''storageAccountType'', JStr ''Standard_LRS'')])])])]),
           (''tags'', JObj (map (\<lambda>(k, v). (k, JStr v)) (ls_tags spec)))]"

definition azure_make :: "'w rest_env \<Rightarrow> azure_provider \<Rightarrow> azure_client \<Rightarrow> launch_spec \<Rightarrow> int \<Rightarrow> (inst, 'w) act" where
  "azure_make R p c spec i =
     (let name = role_name (ls_name_prefix spec) (ls_num_nodes spec) i
      in seq_act (catch_act (azure_call_post R c (vm_path p (ls_name_prefix spec @ ''-rg'') name) (Some (azure_machine_body c spec name)))
                    (\<lambda>e. raise (wrap_err (''create VM '' @ name @ '': '') e)))
           (ret (asked_inst spec [] name)))"

definition azure_run_instances :: "'w rest_env \<Rightarrow> azure_provider \<Rightarrow> launch_spec \<Rightarrow> (inst list, 'w) act" where
  "azure_run_instances R p spec =
     bind_act (azure_client_of R p (ls_region spec)) (\<lambda>c. one_by_one (azure_make R p c spec) [0..ls_num_nodes spec - 1])"

definition azure_status :: "string \<Rightarrow> instance_status" where
  "azure_status s =
     (case map_of [(''succeeded'', status_running), (''running'', status_running), (''stopped'', status_stopped),
                   (''deallocating'', status_stopping), (''stopping'', status_stopping), (''creating'', status_pending),
                   (''updating'', status_pending), (''provisioning'', status_pending), (''failed'', status_terminated)] (to_lower s) of
        Some t \<Rightarrow> t | None \<Rightarrow> status_unknown)"

definition azure_vm_shape :: shape where
  "azure_vm_shape = Sh_rec
     [(''name'', Sh_str), (''location'', Sh_str), (''properties'', Sh_rec [(''vmSize'', Sh_str), (''provisioningState'', Sh_str)]),
      (''tags'', Sh_dict Sh_str)]"

definition azure_instance_of :: "json \<Rightarrow> inst" where
  "azure_instance_of j =
     \<lparr>i_id = str_at [''name''] j, i_name = str_at [''name''] j, i_public_ip = [], i_private_ip = [],
      i_status = azure_status (str_at [''properties'', ''provisioningState''] j), i_type = str_at [''properties'', ''vmSize''] j,
      i_region = str_at [''location''] j, i_zone = [], i_created_at = 0, i_tags = json_dict (json_at [''tags''] j)\<rparr>"

definition azure_list_instances :: "'w rest_env \<Rightarrow> azure_provider \<Rightarrow> string \<Rightarrow> string \<Rightarrow> (inst list, 'w) act" where
  "azure_list_instances R p region prefix =
     bind_act (azure_client_of R p region) (\<lambda>c.
     bind_act (azure_call R c (subscription_path p @ ''/providers/Microsoft.Compute/virtualMachines?$filter=startswith(name,'' @ [CHR 0x27] @ prefix @ [CHR 0x27] @ '')'')
                 (Sh_rec [(''value'', Sh_list azure_vm_shape)]))
       (\<lambda>j. ret (map azure_instance_of (filter (\<lambda>i. has_prefix (str_at [''name''] i) prefix) (kids_at [''value''] j)))))"

text \<open>A machine is looked for in two groups; one that is not found, or cannot be read, is left out.\<close>

fun azure_find_in :: "'w rest_env \<Rightarrow> azure_provider \<Rightarrow> azure_client \<Rightarrow> string \<Rightarrow> string list \<Rightarrow> (inst list, 'w) act" where
  "azure_find_in R p c i [] = ret []"
| "azure_find_in R p c i (g # gs) =
     catch_act (bind_act (azure_call R c (vm_path p g i) azure_vm_shape) (\<lambda>j. ret [azure_instance_of j])) (\<lambda>_. azure_find_in R p c i gs)"

fun azure_describe_each :: "'w rest_env \<Rightarrow> azure_provider \<Rightarrow> azure_client \<Rightarrow> string list \<Rightarrow> (inst list, 'w) act" where
  "azure_describe_each R p c [] = ret []"
| "azure_describe_each R p c (i # ids) =
     bind_act (azure_find_in R p c i [''default'', i @ ''-rg'']) (\<lambda>found.
     bind_act (azure_describe_each R p c ids) (\<lambda>rest. ret (found @ rest)))"

definition azure_describe_instances :: "'w rest_env \<Rightarrow> azure_provider \<Rightarrow> string \<Rightarrow> string list \<Rightarrow> (inst list, 'w) act" where
  "azure_describe_instances R p region ids = bind_act (azure_client_of R p region) (\<lambda>c. azure_describe_each R p c ids)"

definition azure_stop_instances :: "'w rest_env \<Rightarrow> azure_provider \<Rightarrow> string \<Rightarrow> string list \<Rightarrow> (unit, 'w) act" where
  "azure_stop_instances R p region ids =
     bind_act (azure_client_of R p region) (\<lambda>c. each_machine ''stop'' (\<lambda>i. azure_call_post R c (vm_path p (i @ ''-rg'') i @ ''/powerOff'') None) ids)"

definition azure_start_instances :: "'w rest_env \<Rightarrow> azure_provider \<Rightarrow> string \<Rightarrow> string list \<Rightarrow> (unit, 'w) act" where
  "azure_start_instances R p region ids =
     bind_act (azure_client_of R p region) (\<lambda>c. each_machine ''start'' (\<lambda>i. azure_call_post R c (vm_path p (i @ ''-rg'') i @ ''/start'') None) ids)"

definition azure_terminate_instances :: "'w rest_env \<Rightarrow> azure_provider \<Rightarrow> string \<Rightarrow> string list \<Rightarrow> (unit, 'w) act" where
  "azure_terminate_instances R p region ids =
     bind_act (azure_client_of R p region) (\<lambda>c. each_machine ''delete'' (\<lambda>i. azure_call_delete R c (vm_path p (i @ ''-rg'') i)) ids)"

definition azure_public_ip :: "'w rest_env \<Rightarrow> azure_provider \<Rightarrow> string \<Rightarrow> string \<Rightarrow> (string, 'w) act" where
  "azure_public_ip R p region i =
     bind_act (azure_client_of R p region) (\<lambda>c.
     bind_act (azure_call R c (group_path p (i @ ''-rg'') (''Microsoft.Network/publicIPAddresses/'' @ i @ ''-ip''))
                 (Sh_rec [(''properties'', Sh_rec [(''ipAddress'', Sh_str)])]))
       (\<lambda>j. ret (str_at [''properties'', ''ipAddress''] j)))"

definition azure_zones :: "string list" where "azure_zones = [''1'', ''2'', ''3'']"

definition azure_security_group :: "'w rest_env \<Rightarrow> azure_provider \<Rightarrow> string \<Rightarrow> string \<Rightarrow> (string, 'w) act" where
  "azure_security_group R p region name =
     bind_act (azure_client_of R p region) (\<lambda>c.
     seq_act (azure_call_post R c (group_path p (name @ ''-rg'') (''Microsoft.Network/networkSecurityGroups/'' @ name))
       (Some (JObj [(''location'', JStr region), (''properties'', JObj [(''securityRules'', JArr [])])]))) (ret name))"

definition azure_vpc :: "'w rest_env \<Rightarrow> azure_provider \<Rightarrow> string \<Rightarrow> string \<Rightarrow> string \<Rightarrow> (string, 'w) act" where
  "azure_vpc R p region cidr name =
     bind_act (azure_client_of R p region) (\<lambda>c.
     seq_act (azure_call_post R c (group_path p (name @ ''-rg'') (''Microsoft.Network/virtualNetworks/'' @ name))
       (Some (JObj [(''location'', JStr region),
                    (''properties'', JObj [(''addressSpace'', JObj [(''addressPrefixes'', JArr [JStr cidr])])])]))) (ret name))"

definition azure_vswitch :: "'w rest_env \<Rightarrow> azure_provider \<Rightarrow> string \<Rightarrow> string \<Rightarrow> string \<Rightarrow> string \<Rightarrow> (string, 'w) act" where
  "azure_vswitch R p region vpc cidr name =
     bind_act (azure_client_of R p region) (\<lambda>c.
     seq_act (azure_call_post R c (group_path p (vpc @ ''-rg'') (''Microsoft.Network/virtualNetworks/'' @ vpc @ ''/subnets/'' @ name))
       (Some (JObj [(''properties'', JObj [(''addressPrefix'', JStr cidr)])]))) (ret name))"

definition azure_vswitches :: "'w rest_env \<Rightarrow> azure_provider \<Rightarrow> string \<Rightarrow> string \<Rightarrow> (vswitch list, 'w) act" where
  "azure_vswitches R p region vpc =
     bind_act (azure_client_of R p region) (\<lambda>c.
     bind_act (azure_call R c (group_path p (vpc @ ''-rg'') (''Microsoft.Network/virtualNetworks/'' @ vpc @ ''/subnets''))
                 (Sh_rec [(''value'', Sh_list (Sh_rec [(''name'', Sh_str), (''properties'', Sh_rec [(''addressPrefix'', Sh_str)])]))]))
       (\<lambda>j. ret (map (\<lambda>i. \<lparr>vw_id = [], vw_name = str_at [''name''] i, vw_zone = [], vw_cidr = str_at [''properties'', ''addressPrefix''] i,
                           vw_vpc = vpc\<rparr>) (kids_at [''value''] j))))"

definition azure_image :: string where "azure_image = ''Canonical:ubuntu-24_04-lts:server:latest''"

section \<open>The catalog\<close>

definition azure_sizes_shape :: shape where
  "azure_sizes_shape = Sh_rec [(''value'', Sh_list (Sh_rec
     [(''name'', Sh_str), (''numberOfCores'', Sh_int), (''memoryInMB'', Sh_int), (''maxDataDiskCount'', Sh_int)]))]"

definition azure_spec_of :: "string \<Rightarrow> json \<Rightarrow> itype" where
  "azure_spec_of region j =
     \<lparr>it_cloud = ''azure'', it_region = region, it_type = str_at [''name''] j, it_vcpus = int_at [''numberOfCores''] j,
      it_memory = Fin (of_int (int_at [''memoryInMB''] j) / 1024), it_accel = [], it_max_disk = Fin 0\<rparr>"

definition azure_fetch_specs :: "'w rest_env \<Rightarrow> azure_provider \<Rightarrow> string \<Rightarrow> (itype list, 'w) act" where
  "azure_fetch_specs R p region =
     bind_act (azure_client_of R p region) (\<lambda>c.
     bind_act (azure_call R c (''/providers/Microsoft.Compute/locations/'' @ region @ ''/vmSizes'') azure_sizes_shape)
       (\<lambda>j. ret (map (azure_spec_of region) (kids_at [''value''] j))))"

definition azure_fetch_prices :: "string list \<Rightarrow> price smap" where
  "azure_fetch_prices types = foldl (\<lambda>m t. mput t \<lparr>p_on_demand = Fin 0, p_spot = Fin 0\<rparr> m) [] types"

definition azure_source :: "'w rest_env \<Rightarrow> azure_provider \<Rightarrow> 'w source" where
  "azure_source R p =
     \<lparr>src_specs_ttl = 24 * 3600 * second, src_price_ttl = 10 * 60 * second, src_regions = ret azure_regions,
      src_fetch_specs = azure_fetch_specs R p, src_fetch_prices = (\<lambda>region types. ret (azure_fetch_prices types))\<rparr>"

end
