(* ===== verification/Rest_Props.thy ===== *)
theory Rest_Props
  imports Gcp_Provider Azure_Provider
begin

text \<open>
  What the providers of Google Cloud and Azure promise: the contract \<open>machine_maker\<close>, where their requests go, and what becomes of
  the keys that a task brings along.
\<close>

section \<open>The contract\<close>

lemma gcp_make_Inr: "gcp_make R c project spec i w = (Inr x, w') \<Longrightarrow> x = asked_inst spec (gcp_zone spec) (role_name (ls_name_prefix spec) (ls_num_nodes spec) i)"
  by (auto simp: gcp_make_def Let_def seq_act_def bind_act_Inr)

lemma azure_make_Inr: "azure_make R p c spec i w = (Inr x, w') \<Longrightarrow> x = asked_inst spec [] (role_name (ls_name_prefix spec) (ls_num_nodes spec) i)"
  by (auto simp: azure_make_def Let_def seq_act_def bind_act_Inr)

interpretation gcp: machine_maker "gcp_run_instances R p" "\<lambda>spec mk. \<exists>c project. mk = gcp_make R c project spec" for R :: "'w rest_env" and p
proof
  fix spec and w w' :: 'w and "is"
  assume "gcp_run_instances R p spec w = (Inr is, w')"
  then show "\<exists>mk w1. (\<exists>c project. mk = gcp_make R c project spec) \<and> one_by_one mk [0..ls_num_nodes spec - 1] w1 = (Inr is, w')"
    by (auto simp: gcp_run_instances_def with_gcp_def bind_act_Inr)
next
  fix spec mk i x and w w' :: 'w
  assume "\<exists>c project. mk = gcp_make R c project spec" "mk i w = (Inr x, w')"
  then show "i_id x = role_name (ls_name_prefix spec) (ls_num_nodes spec) i \<and> i_status x = status_pending \<and> i_type x = ls_instance_type spec"
    by (auto simp: asked_inst_def dest!: gcp_make_Inr)
qed

interpretation azure: machine_maker "azure_run_instances R p" "\<lambda>spec mk. \<exists>c. mk = azure_make R p c spec" for R :: "'w rest_env" and p
proof
  fix spec and w w' :: 'w and "is"
  assume "azure_run_instances R p spec w = (Inr is, w')"
  then show "\<exists>mk w1. (\<exists>c. mk = azure_make R p c spec) \<and> one_by_one mk [0..ls_num_nodes spec - 1] w1 = (Inr is, w')"
    by (auto simp: azure_run_instances_def bind_act_Inr)
next
  fix spec mk i x and w w' :: 'w
  assume "\<exists>c. mk = azure_make R p c spec" "mk i w = (Inr x, w')"
  then show "i_id x = role_name (ls_name_prefix spec) (ls_num_nodes spec) i \<and> i_status x = status_pending \<and> i_type x = ls_instance_type spec"
    by (auto simp: asked_inst_def dest!: azure_make_Inr)
qed

section \<open>Where the requests go\<close>

text \<open>What requests to addresses of one kind, and the waiting, cannot change.\<close>

definition unreached :: "('w \<Rightarrow> bool) \<Rightarrow> 'w rest_env \<Rightarrow> (string \<Rightarrow> bool) \<Rightarrow> bool" where
  "unreached P R there \<longleftrightarrow> (\<forall>rq w. there (hr_url rq) \<longrightarrow> P w \<longrightarrow> P (snd (rs_send R rq w))) \<and> (\<forall>d w. P w \<longrightarrow> P (rs_sleep R d w)) \<and>
     (\<forall>args w. P w \<longrightarrow> P (snd (rs_exec R args w)))"

lemma keeps_send_once: "unreached P R there \<Longrightarrow> there (hr_url rq) \<Longrightarrow> keeps P (send_once R failure rq)"
  unfolding keeps_def send_once_def unreached_def by (auto split: prod.split http_reply.split) (metis snd_conv)+

lemma keeps_get_attempts:
  assumes "unreached P R there" "there (hr_url rq)"
  shows "keeps P (get_attempts R failure rq as err)"
proof (rule keepsI)
  fix w assume "P w"
  then show "P (snd (get_attempts R failure rq as err w))"
  proof (induction as arbitrary: err w)
    case (Cons a as)
    obtain rep w1 where s: "rs_send R rq w = (rep, w1)" by (rule prod.exhaust)
    have "P w1" using assms s Cons.prems unfolding unreached_def by (metis snd_conv)
    moreover from this have "P (rs_sleep R d w1)" for d using assms(1) unfolding unreached_def by blast
    ultimately show ?case using s Cons.IH by (auto split: http_reply.split)
  qed simp
qed

lemma keeps_rest_get: "unreached P R there \<Longrightarrow> there url \<Longrightarrow> keeps P (rest_get R failure url token sh)"
  unfolding rest_get_def by (intro keeps_bind keeps_basic, rule keeps_get_attempts, assumption, simp)

lemma keeps_rest_post: "unreached P R there \<Longrightarrow> there url \<Longrightarrow> keeps P (rest_post R failure url token body s)"
  unfolding rest_post_def by (cases s) (auto intro!: keeps_bind keeps_basic keeps_send_once simp: post_request_def simp del: ret_simps)

lemma keeps_rest_delete: "unreached P R there \<Longrightarrow> there url \<Longrightarrow> keeps P (rest_delete R url token)"
  unfolding rest_delete_def by (intro keeps_bind keeps_basic, rule keeps_send_once, assumption, simp)

lemma keeps_each_machine: "(\<And>i. keeps P (f i)) \<Longrightarrow> keeps P (each_machine what f ids)"
  by (induction ids) (auto intro: keeps_intros simp del: ret_simps)

lemma keeps_exec:
  assumes "unreached P R there" "P w"
  shows "P (snd (rs_exec R args w))"
  using assms unfolding unreached_def by blast

lemma keeps_gcp_token: "unreached P R there \<Longrightarrow> keeps P (gcp_refresh_token R k)"
proof (rule keepsI)
  fix w assume u: "unreached P R there" and w: "P w"
  have adc: "P (snd (refresh_from_adc R k v))" if "P v" for v
    using keeps_exec [OF u that] by (auto simp: refresh_from_adc_def split: prod.split) (metis snd_conv)+
  have "P (snd (refresh_from_service_account R k w))"
    using keeps_exec [OF u w] adc by (auto simp: refresh_from_service_account_def split: prod.split) (metis snd_conv)+
  then show "P (snd (gcp_refresh_token R k w))" using adc [OF w] w by (simp add: gcp_refresh_token_def)
qed

lemma keeps_with_gcp:
  assumes "unreached P R there" "\<And>c. keeps P (f (gpc_project k) c)"
  shows "keeps P (with_gcp R (Some k) region f)"
proof (cases "gpc_project k = []")
  case True
  then show ?thesis by (auto simp: with_gcp_def gcp_project_id_def bind_act_def of_res_def intro!: keepsI)
next
  case False
  then have "with_gcp R (Some k) region f = bind_act (gcp_client_of R (Some k) region) (f (gpc_project k))"
    by (intro ext) (simp add: with_gcp_def gcp_project_id_def bind_act_def of_res_def)
  then show ?thesis
    by (auto intro!: keeps_bind keeps_catch keeps_basic keeps_gcp_token assms
        simp: gcp_client_of_def gcp_client_with_creds_def Let_def simp del: ret_simps)
qed

section \<open>Machines of one name\<close>

text \<open>The workers of a cluster of more than two machines are given one name, on both clouds; a request for the second is for the first again.\<close>

lemma gcp_worker_names_clash: "gcp_run_instances R p spec w = (Inr is, w') \<Longrightarrow> distinct (map i_id is) \<longleftrightarrow> ls_num_nodes spec \<le> 2"
  by (rule gcp.run_names_clash)

lemma azure_worker_names_clash: "azure_run_instances R p spec w = (Inr is, w') \<Longrightarrow> distinct (map i_id is) \<longleftrightarrow> ls_num_nodes spec \<le> 2"
  by (rule azure.run_names_clash)

section \<open>Machines out of reach\<close>

lemma in_zone_a:
  "has_prefix (gcp_url project (''zones/'' @ region @ ''-a/instances/'' @ rest)) (gcp_url project (''zones/'' @ region @ ''-a/instances/''))"
proof -
  have "gcp_url project (''zones/'' @ region @ ''-a/instances/'' @ rest) = gcp_url project (''zones/'' @ region @ ''-a/instances/'') @ rest"
    by (simp add: gcp_url_def)
  then show ?thesis by (simp only: has_prefix_def) simp
qed

text \<open>Stopping, starting and terminating machines on Google Cloud sends requests only for machines of the zone \<open>a\<close> of the region, in
  the project of the credentials: they change nothing that such requests cannot. So a machine that a launch put in another zone, as
  its order may ask, is never stopped nor terminated.
\<close>

theorem gcp_stays_in_zone_a:
  assumes "unreached P R (\<lambda>url. has_prefix url (gcp_url (gpc_project k) (''zones/'' @ region @ ''-a/instances/'')))" "P w"
  shows "P (snd (gcp_stop_instances R (Some k) region ids w)) \<and> P (snd (gcp_start_instances R (Some k) region ids w)) \<and>
    P (snd (gcp_terminate_instances R (Some k) region ids w))"
proof -
  note rules = keeps_with_gcp [OF assms(1)] keeps_each_machine keeps_rest_post [OF assms(1)] keeps_rest_delete [OF assms(1)]
  have "keeps P (gcp_stop_instances R (Some k) region ids)" "keeps P (gcp_start_instances R (Some k) region ids)"
    "keeps P (gcp_terminate_instances R (Some k) region ids)"
    unfolding gcp_stop_instances_def gcp_start_instances_def gcp_terminate_instances_def gcp_call_post_def gcp_call_delete_def
    by (intro rules in_zone_a)+
  then show ?thesis using assms(2) by (simp add: keeps_def)
qed

text \<open>A project whose world is the number of machines in the zone \<open>b\<close> of the region \<open>r\<close>.\<close>

definition zone_b :: string where "zone_b = gcp_url ''p'' ''zones/r-b/instances''"

definition sample_rest :: "nat rest_env" where
  "sample_rest = \<lparr>rs_env = [], rs_now = (\<lambda>_. 0),
     rs_send = (\<lambda>rq w. (Answered 200 [] None,
       if hr_verb rq = ''POST'' \<and> hr_url rq = zone_b then Suc w else if has_prefix (hr_url rq) (zone_b @ ''/'') then w - 1 else w)),
     rs_sleep = (\<lambda>_ w. w), rs_exec = (\<lambda>_ w. ((''t'', True), w)), rs_json = (\<lambda>_. Inr (JObj [])), rs_marshal = (\<lambda>_. [])\<rparr>"

definition sample_gcp :: gcp_cred where
  "sample_gcp = \<lparr>gpc_project = ''p'', gpc_key_path = [], gpc_token = [], gpc_expiry = None\<rparr>"

definition zone_b_order :: launch_spec where
  "zone_b_order = \<lparr>ls_instance_type = ''g'', ls_region = ''r'', ls_zone = ''r-b'', ls_num_nodes = 1, ls_image_id = [], ls_key_name = [],
     ls_security_group = [], ls_vswitch = [], ls_vpc = [], ls_spot_strategy = [], ls_disk_gib = 0, ls_user_data = [], ls_tags = [],
     ls_name_prefix = ''c'', ls_resume = True\<rparr>"

lemma sample_rest_out_of_zone_b:
  "unreached (\<lambda>w. w = 1) sample_rest (\<lambda>url. has_prefix url (gcp_url (gpc_project sample_gcp) (''zones/'' @ ''r'' @ ''-a/instances/'')))"
proof -
  have "\<not> has_prefix url (zone_b @ ''/'')" "url \<noteq> zone_b" if "has_prefix url (gcp_url ''p'' ''zones/r-a/instances/'')" for url
  proof -
    from that have "take (length (zone_b @ ''/'')) url = gcp_url ''p'' ''zones/r-a/instances/''" by (simp add: has_prefix_def zone_b_def gcp_url_def)
    then show "\<not> has_prefix url (zone_b @ ''/'')" "url \<noteq> zone_b" by (auto simp: has_prefix_def zone_b_def gcp_url_def)
  qed
  then show ?thesis by (simp add: unreached_def sample_rest_def sample_gcp_def)
qed

theorem gcp_stays_in_zone_a_witness:
  "snd (gcp_run_instances sample_rest (Some sample_gcp) zone_b_order 0) = 1 \<and>
   snd (gcp_terminate_instances sample_rest (Some sample_gcp) ''r'' [''c''] 1) = 1"
proof
  have "trim_space ''t'' = ''t''" by code_simp
  then show "snd (gcp_run_instances sample_rest (Some sample_gcp) zone_b_order 0) = 1"
    by (simp add: gcp_run_instances_def with_gcp_def gcp_project_id_def gcp_client_of_def gcp_client_with_creds_def gcp_refresh_token_def
        refresh_from_adc_def catch_act_def bind_act_def seq_act_def Let_def sample_gcp_def sample_rest_def zone_b_order_def gcp_make_def
        gcp_call_post_def rest_post_def send_once_def post_request_def gcp_zone_def unmarshal_def zone_b_def)
  show "snd (gcp_terminate_instances sample_rest (Some sample_gcp) ''r'' [''c''] 1) = 1"
    using gcp_stays_in_zone_a [OF sample_rest_out_of_zone_b, of 1 "[''c'']"] by simp
qed

section \<open>Keys that are not used\<close>

definition no_azure_secret :: error where
  "no_azure_secret = Err ''azure auth: missing azure credentials (set AZURE_TENANT_ID, AZURE_CLIENT_ID, AZURE_CLIENT_SECRET)''"

lemma azure_factory_client: "azure_factory keys = Inr p \<Longrightarrow> azure_client_of R p region w = (Inl no_azure_secret, w)"
  by (auto simp: azure_factory_def azure_client_of_def azure_client_with_creds_def catch_act_def azure_refresh_token_def Let_def no_azure_secret_def)

text \<open>Whatever keys a task brings for Azure, every operation of the provider made for them fails before it sends a request, as
  there is no place for the client's secret among them.
\<close>

theorem azure_factory_never_authenticates:
  "\<exists>p. azure_factory keys = Inr p \<and>
     azure_run_instances R p spec w = (Inl no_azure_secret, w) \<and> azure_list_instances R p region prefix w = (Inl no_azure_secret, w) \<and>
     azure_describe_instances R p region ids w = (Inl no_azure_secret, w) \<and> azure_stop_instances R p region ids w = (Inl no_azure_secret, w) \<and>
     azure_start_instances R p region ids w = (Inl no_azure_secret, w) \<and> azure_terminate_instances R p region ids w = (Inl no_azure_secret, w) \<and>
     azure_public_ip R p region i w = (Inl no_azure_secret, w) \<and> azure_fetch_specs R p region w = (Inl no_azure_secret, w)"
proof -
  obtain p where p: "azure_factory keys = Inr p" by (simp add: azure_factory_def)
  note no = azure_factory_client [OF p]
  show ?thesis
    by (rule exI [of _ p]) (simp add: p no bind_act_def azure_run_instances_def azure_list_instances_def azure_describe_instances_def
        azure_stop_instances_def azure_start_instances_def azure_terminate_instances_def azure_public_ip_def azure_fetch_specs_def)
qed

text \<open>A token among the keys for Google Cloud has no expiry, so it is never used: the client's token is what \<open>gcloud\<close> prints.\<close>

lemma gcp_token_ignored:
  assumes "gcp_factory keys = Inr p" "gcp_client_of R p region w = (Inr c, w')"
  shows "\<exists>printed. rs_exec R [''gcloud'', ''auth'', ''print-access-token'', ''--project='' @ cred_region keys] w = ((printed, True), w') \<and>
    gcl_token c = trim_space printed"
  using assms
  by (auto simp: gcp_factory_def gcp_client_of_def gcp_client_with_creds_def Let_def bind_act_Inr catch_act_def gcp_refresh_token_def
      refresh_from_adc_def split: prod.splits if_splits sum.splits)

end
