(* ===== verification/Gpilet.thy ===== *)
theory Gpilet
  imports Provisioner Cloud_Http State_File "HOL-Library.Word"
begin

text \<open>
  The agent that runs on the nodes, \<open>internal/gpilet\<close> and \<open>cmd/gpilet\<close>: what it reads of \<open>/proc\<close> and of the programs it runs, the report
  it makes of it, and the loop that publishes a report at each tick. Its files are those of \<open>State_File\<close>, where any call may fail;
  what it senses is a function of a world of its own. Every text that cannot be read counts as zero, as in the code.
\<close>

section \<open>Sensing\<close>

text \<open>
  \<open>ne_read\<close> is \<open>os.ReadFile\<close>, \<open>ne_statfs\<close> the blocks, their size and the free ones of the root, \<open>ne_look\<close> is \<open>exec.LookPath\<close> and \<open>ne_run\<close>
  runs a program: its output, when it succeeds.
\<close>

record 'w node_env =
  ne_hostname :: string
  ne_now :: "'w \<Rightarrow> int"
  ne_read :: "string \<Rightarrow> 'w \<Rightarrow> string option"
  ne_statfs :: "'w \<Rightarrow> (int \<times> int \<times> int) option"
  ne_look :: "string \<Rightarrow> 'w \<Rightarrow> bool"
  ne_run :: "string list \<Rightarrow> 'w \<Rightarrow> string option \<times> 'w"

text \<open>\<open>strings.Count\<close> of a text that is not empty.\<close>

fun count_text :: "string \<Rightarrow> string \<Rightarrow> nat" where
  "count_text p [] = 0"
| "count_text p (c # s) = (if has_prefix (c # s) p then Suc (count_text p (drop (length p - 1) s)) else count_text p s)"

definition cpu_count :: "'w node_env \<Rightarrow> 'w \<Rightarrow> int" where
  "cpu_count N w = (case ne_read N ''/proc/cpuinfo'' w of Some data \<Rightarrow> int (count_text ''processor'' data) | None \<Rightarrow> 1)"

definition load_avg :: "'w node_env \<Rightarrow> 'w \<Rightarrow> f64" where
  "load_avg N w =
     (case ne_read N ''/proc/loadavg'' w of
        None \<Rightarrow> Fin 0
      | Some data \<Rightarrow> (case Go_Strings.fields data of [] \<Rightarrow> Fin 0 | f # _ \<Rightarrow> (case parse_float f of Some v \<Rightarrow> v | None \<Rightarrow> Fin 0)))"

record cpu_times =
  ct_user :: "64 word"
  ct_nice :: "64 word"
  ct_system :: "64 word"
  ct_idle :: "64 word"
  ct_iowait :: "64 word"
  ct_irq :: "64 word"
  ct_softirq :: "64 word"

text \<open>The value of \<open>strconv.ParseUint\<close>, whose error is dropped: nothing for another text, the largest number for a larger one.\<close>

definition uint_value :: "string \<Rightarrow> 64 word" where
  "uint_value s = (if all_digits s then word_of_nat (min (digits_val s) (2 ^ 64 - 1)) else 0)"

text \<open>The fields after the first; missing ones stay zero.\<close>

definition nth_uint :: "string list \<Rightarrow> nat \<Rightarrow> 64 word" where
  "nth_uint fs i = (if i < length fs then uint_value (fs ! i) else 0)"

definition cpu_times_of :: "string list \<Rightarrow> cpu_times" where
  "cpu_times_of fs =
     \<lparr>ct_user = nth_uint fs 0, ct_nice = nth_uint fs 1, ct_system = nth_uint fs 2, ct_idle = nth_uint fs 3,
      ct_iowait = nth_uint fs 4, ct_irq = nth_uint fs 5, ct_softirq = nth_uint fs 6\<rparr>"

fun first_cpu_line :: "string list list \<Rightarrow> cpu_times option" where
  "first_cpu_line [] = None"
| "first_cpu_line (fs # rest) =
     (if length fs < 5 \<or> hd fs \<noteq> ''cpu'' then first_cpu_line rest else Some (cpu_times_of (tl fs)))"

definition read_cpu_times :: "'w node_env \<Rightarrow> 'w \<Rightarrow> cpu_times option" where
  "read_cpu_times N w =
     (case ne_read N ''/proc/stat'' w of
        None \<Rightarrow> None | Some data \<Rightarrow> first_cpu_line (map Go_Strings.fields (split_on CHR 0x0A data)))"

definition cpu_total :: "cpu_times \<Rightarrow> 64 word" where
  "cpu_total t = ct_user t + ct_nice t + ct_system t + ct_idle t + ct_iowait t + ct_irq t + ct_softirq t"

definition cpu_idle :: "cpu_times \<Rightarrow> 64 word" where
  "cpu_idle t = ct_idle t + ct_iowait t"

definition busy_share :: "cpu_times \<Rightarrow> f64" where
  "busy_share t =
     (if cpu_total t = 0 then Fin 0
      else Fin (of_int (uint (cpu_total t - cpu_idle t)) / of_int (uint (cpu_total t)) * 100))"

section \<open>The report\<close>

record gpu =
  gpu_index :: int
  gpu_name :: string
  gpu_memory_total :: int
  gpu_memory_used :: int
  gpu_utilization :: f64

record agent_status =
  as_hostname :: string
  as_collected_at :: int
  as_load_avg :: f64
  as_cpus :: int
  as_cpu_usage :: f64
  as_mem_total :: f64
  as_mem_used :: f64
  as_disk_total :: f64
  as_disk_used :: f64
  as_gpus :: "gpu list"
  as_ray :: bool
  as_uptime :: int

text \<open>The previous report is not looked at: the share is the one since the machine started.\<close>

definition cpu_usage :: "'w node_env \<Rightarrow> agent_status option \<Rightarrow> 'w \<Rightarrow> f64" where
  "cpu_usage N prev w = (case read_cpu_times N w of None \<Rightarrow> Fin 0 | Some t \<Rightarrow> busy_share t)"

text \<open>The last lines that name the total and the available memory, in kilobytes.\<close>

fun mem_lines :: "string list list \<Rightarrow> int \<Rightarrow> int \<Rightarrow> int \<times> int" where
  "mem_lines [] total_kb avail_kb = (total_kb, avail_kb)"
| "mem_lines (fs # rest) total_kb avail_kb =
     (if length fs < 2 then mem_lines rest total_kb avail_kb
      else let v = atoi_value (fs ! 1)
           in if fs ! 0 = ''MemTotal:'' then mem_lines rest v avail_kb
              else if fs ! 0 = ''MemAvailable:'' then mem_lines rest total_kb v
              else mem_lines rest total_kb avail_kb)"

definition kb_gb :: "int \<Rightarrow> f64" where
  "kb_gb n = Fin (of_int n / 1024 / 1024)"

definition mem_usage :: "'w node_env \<Rightarrow> 'w \<Rightarrow> f64 \<times> f64" where
  "mem_usage N w =
     (case ne_read N ''/proc/meminfo'' w of
        None \<Rightarrow> (Fin 0, Fin 0)
      | Some data \<Rightarrow>
          (case mem_lines (map Go_Strings.fields (split_on CHR 0x0A data)) 0 0 of
             (total_kb, avail_kb) \<Rightarrow>
               if total_kb = 0 then (Fin 0, Fin 0)
               else (kb_gb total_kb, kb_gb (sint (word_of_int total_kb - word_of_int avail_kb :: 64 word)))))"

definition disk_usage :: "'w node_env \<Rightarrow> 'w \<Rightarrow> f64 \<times> f64" where
  "disk_usage N w =
     (case ne_statfs N w of
        None \<Rightarrow> (Fin 0, Fin 0)
      | Some (blocks, size_of, free) \<Rightarrow>
          (let total_gb = of_int blocks * of_int size_of / 10 ^ 9; free_gb = of_int free * of_int size_of / 10 ^ 9
           in (Fin total_gb, Fin (total_gb - free_gb))))"

definition gpu_line :: "string \<Rightarrow> gpu list" where
  "gpu_line line =
     (let parts = split_str '', '' line
      in if length parts < 5 then []
         else [\<lparr>gpu_index = atoi_value (parts ! 0), gpu_name = parts ! 1, gpu_memory_total = atoi_value (parts ! 2),
                gpu_memory_used = atoi_value (parts ! 3),
                gpu_utilization = (case parse_float (parts ! 4) of Some v \<Rightarrow> v | None \<Rightarrow> Fin 0)\<rparr>])"

definition gpu_usage :: "'w node_env \<Rightarrow> 'w \<Rightarrow> gpu list \<times> 'w" where
  "gpu_usage N w =
     (if \<not> ne_look N ''nvidia-smi'' w then ([], w)
      else case ne_run N [''nvidia-smi'', ''--query-gpu=index,name,memory.total,memory.used,utilization.gpu'',
                          ''--format=csv,noheader,nounits''] w of
             (None, w1) \<Rightarrow> ([], w1)
           | (Some out, w1) \<Rightarrow> (concat (map gpu_line (split_on CHR 0x0A (trim_space out))), w1))"

definition ray_running :: "'w node_env \<Rightarrow> 'w \<Rightarrow> bool \<times> 'w" where
  "ray_running N w =
     (if (case ne_read N ''/proc/1/cmdline'' w of Some data \<Rightarrow> contains_str data ''ray'' | None \<Rightarrow> False) then (True, w)
      else case ne_run N [''pgrep'', ''-f'', ''raylet''] w of
             (Some out, w1) \<Rightarrow> (trim_space out \<noteq> [], w1) | (None, w1) \<Rightarrow> (False, w1))"

definition collect :: "'w node_env \<Rightarrow> agent_status option \<Rightarrow> 'w \<Rightarrow> agent_status \<times> 'w" where
  "collect N prev w =
     (let (gpus, w1) = gpu_usage N w; (ray, w2) = ray_running N w1
      in (\<lparr>as_hostname = ne_hostname N, as_collected_at = ne_now N w, as_load_avg = load_avg N w, as_cpus = cpu_count N w,
           as_cpu_usage = cpu_usage N prev w2, as_mem_total = fst (mem_usage N w), as_mem_used = snd (mem_usage N w),
           as_disk_total = fst (disk_usage N w), as_disk_used = snd (disk_usage N w), as_gpus = gpus, as_ray = ray, as_uptime = 0\<rparr>, w2))"

text \<open>\<open>MemUsedPct\<close>. Both amounts are finite (\<open>mem_usage\<close>); another would be none of the cases.\<close>

definition mem_used_pct :: "agent_status \<Rightarrow> f64" where
  "mem_used_pct s =
     (case (as_mem_total s, as_mem_used s) of
        (Fin t, Fin u) \<Rightarrow> if t \<le> 0 then Fin 0 else Fin (u / t * 100)
      | _ \<Rightarrow> NaN)"

section \<open>Publishing\<close>

text \<open>The report as a document: \<open>time.Time\<close> is a text, which a parameter makes of the instant.\<close>

definition enc_gpu :: "gpu \<Rightarrow> json" where
  "enc_gpu g = JObj [(''index'', JNum (of_int (gpu_index g))), (''name'', JStr (gpu_name g)),
     (''memory_total_mib'', JNum (of_int (gpu_memory_total g))), (''memory_used_mib'', JNum (of_int (gpu_memory_used g))),
     (''utilization_pct'', jf64 (gpu_utilization g))]"

definition enc_status :: "(int \<Rightarrow> string) \<Rightarrow> agent_status \<Rightarrow> json" where
  "enc_status stamp s =
     JObj ([(''hostname'', JStr (as_hostname s)), (''collected_at'', JStr (stamp (as_collected_at s))),
            (''load_avg_1'', jf64 (as_load_avg s)), (''cpus'', JNum (of_int (as_cpus s))), (''cpu_usage_pct'', jf64 (as_cpu_usage s)),
            (''mem_total_gb'', jf64 (as_mem_total s)), (''mem_used_gb'', jf64 (as_mem_used s)),
            (''disk_total_gb'', jf64 (as_disk_total s)), (''disk_used_gb'', jf64 (as_disk_used s))] @
           (if as_gpus s = [] then [] else [(''gpus'', JArr (map enc_gpu (as_gpus s)))]) @
           [(''ray_running'', JBool (as_ray s)), (''gpilet_uptime_secs'', JNum (of_int (as_uptime s)))])"

text \<open>\<open>json.MarshalIndent\<close> refuses a report with an amount that is not a number.\<close>

definition writable :: "agent_status \<Rightarrow> bool" where
  "writable s \<longleftrightarrow> list_all is_fin ([as_load_avg s, as_cpu_usage s, as_mem_total s, as_mem_used s, as_disk_total s, as_disk_used s] @
     map gpu_utilization (as_gpus s))"

text \<open>The report is written beside its file, and the file replaced; what fails is logged and left.\<close>

definition publish :: "string \<Rightarrow> json \<Rightarrow> fsys \<Rightarrow> fsys" where
  "publish path data fs0 =
     (case next_fault fs0 of
        (True, fs1) \<Rightarrow> fs1\<lparr>fs_files := mput (tmp_of path) Torn (fs_files fs1)\<rparr>
      | (False, fs1) \<Rightarrow>
          (let fs2 = fs1\<lparr>fs_files := mput (tmp_of path) (Doc data) (fs_files fs1)\<rparr>
           in case next_fault fs2 of
                (True, fs3) \<Rightarrow> fs3
              | (False, fs3) \<Rightarrow> fs3\<lparr>fs_files := mput path (Doc data) (mdel (tmp_of path) (fs_files fs3))\<rparr>))"

record 'w agent =
  ag_prev :: "agent_status option"
  ag_files :: fsys
  ag_world :: 'w

definition status_path :: "string \<Rightarrow> string" where
  "status_path dir = dir @ ''/status.json''"

definition agent_write :: "'w node_env \<Rightarrow> (int \<Rightarrow> string) \<Rightarrow> string \<Rightarrow> int \<Rightarrow> 'w agent \<Rightarrow> 'w agent" where
  "agent_write N stamp dir start a =
     (case collect N (ag_prev a) (ag_world a) of
        (s, w1) \<Rightarrow>
          (let st = s\<lparr>as_uptime := (ne_now N w1 - start) div 1000000000\<rparr>
           in \<lparr>ag_prev = Some st, ag_files = (if writable st then publish (status_path dir) (enc_status stamp st) (ag_files a) else ag_files a),
               ag_world = w1\<rparr>))"

text \<open>
  The loop over what its channels deliver, a tick or a signal, which comes at some later world. After a signal a last
  report is written; without one the loop goes on waiting.
\<close>

datatype 'w agent_event = Tick 'w | Signal 'w

fun agent_loop :: "('w agent \<Rightarrow> 'w agent) \<Rightarrow> 'w agent_event list \<Rightarrow> 'w agent \<Rightarrow> 'w agent" where
  "agent_loop write [] a = a"
| "agent_loop write (Tick w # es) a = agent_loop write es (write (a\<lparr>ag_world := w\<rparr>))"
| "agent_loop write (Signal w # es) a = write (a\<lparr>ag_world := w\<rparr>)"

text \<open>The directory and the seconds between reports.\<close>

definition agent_defaults :: "string \<times> int" where
  "agent_defaults = (''/var/lib/gpilet'', 10)"

definition parse_flags :: "string option \<Rightarrow> int option \<Rightarrow> string \<times> int" where
  "parse_flags dir interval =
     (case dir of None \<Rightarrow> fst agent_defaults | Some d \<Rightarrow> d,
      (case interval of None \<Rightarrow> snd agent_defaults | Some i \<Rightarrow> i) * 1000000000)"

text \<open>A ticker of a period that is not positive panics, after the first report.\<close>

definition serve_agent ::
  "'w node_env \<Rightarrow> (int \<Rightarrow> string) \<Rightarrow> string \<times> int \<Rightarrow> 'w agent_event list \<Rightarrow> fsys \<Rightarrow> 'w \<Rightarrow> unit res \<times> fsys" where
  "serve_agent N stamp flags events fs w =
     (case next_fault fs of
        (True, fs1) \<Rightarrow> (Inl (Err ''mkdir failed''), fs1)
      | (False, fs1) \<Rightarrow>
          (let write = agent_write N stamp (fst flags) (ne_now N w);
               a = write \<lparr>ag_prev = None, ag_files = fs1, ag_world = w\<rparr>
           in if snd flags \<le> 0 then (Inl (Panic ''non-positive interval for NewTicker''), ag_files a)
              else (Inr (), ag_files (agent_loop write events a))))"

definition status_command :: "string \<Rightarrow> fsys \<Rightarrow> fcontent res" where
  "status_command dir fs =
     (case read_file (status_path dir) fs of
        None \<Rightarrow> Inl (Err (''gpilet: no status yet at '' @ dir @ ''/status.json: ''))
      | Some c \<Rightarrow> Inr c)"

section \<open>What the control plane reads\<close>

text \<open>The type \<open>formatGpiletHealth\<close> decodes into, and what it takes of a document.\<close>

definition health_shape :: shape where
  "health_shape = Sh_rec
     [(''cpus'', Sh_int), (''cpu_usage_pct'', Sh_float), (''load_avg_1'', Sh_float), (''mem_total_gb'', Sh_float), (''mem_used_gb'', Sh_float),
      (''gpus'', Sh_list (Sh_rec [(''index'', Sh_int), (''name'', Sh_str), (''memory_total_mib'', Sh_int), (''memory_used_mib'', Sh_int),
         (''utilization_pct'', Sh_float)])), (''ray_running'', Sh_bool)]"

definition decode_health :: "json \<Rightarrow> health option" where
  "decode_health j =
     (if fits health_shape j
      then Some \<lparr>hl_cpus = int_at [''cpus''] j, hl_cpu_usage = float_at [''cpu_usage_pct''] j, hl_load = float_at [''load_avg_1''] j,
                 hl_mem_total = float_at [''mem_total_gb''] j, hl_mem_used = float_at [''mem_used_gb''] j,
                 hl_gpus = length (kids_at [''gpus''] j), hl_ray = bool_at [''ray_running''] j\<rparr>
      else None)"

end
