(* ===== verification/Gpilet_Props.thy ===== *)
theory Gpilet_Props
  imports Gpilet
begin

text \<open>
  What the agent promises: the percentages it reports, that its file is never seen half written, and that the control plane
  reads back what it wrote.
\<close>

section \<open>Percentages\<close>

definition cpu_ticks :: "cpu_times \<Rightarrow> nat" where
  "cpu_ticks t = unat (ct_user t) + unat (ct_nice t) + unat (ct_system t) + unat (ct_idle t) + unat (ct_iowait t) + unat (ct_irq t) +
     unat (ct_softirq t)"

lemma unat_add_fits: "unat (x :: 64 word) + unat y < 2 ^ 64 \<Longrightarrow> unat (x + y) = unat x + unat y"
  by (simp add: unat_word_ariths)

lemma unat_cpu_total:
  assumes "cpu_ticks t < 2 ^ 64"
  shows "unat (cpu_total t) = cpu_ticks t"
  using assms unfolding cpu_total_def cpu_ticks_def by (simp add: unat_add_fits)

lemma unat_cpu_idle: "cpu_ticks t < 2 ^ 64 \<Longrightarrow> unat (cpu_idle t) \<le> cpu_ticks t"
  unfolding cpu_idle_def cpu_ticks_def by (simp add: unat_add_fits)

lemma share_of:
  assumes "a \<le> b" "0 < b"
  shows "0 \<le> of_nat a / of_nat b * (100 :: rat) \<and> of_nat a / of_nat b * (100 :: rat) \<le> 100"
  using assms by (simp add: field_simps)

lemma uint_as_rat: "(of_int (uint x) :: rat) = of_nat (unat (x :: 64 word))"
proof -
  have "uint x = int (unat x)" by (rule uint_nat)
  then show ?thesis by (simp only: of_int_of_nat_eq)
qed

lemma busy_share_bounds:
  assumes "cpu_ticks t < 2 ^ 64"
  shows "\<exists>q. busy_share t = Fin q \<and> 0 \<le> q \<and> q \<le> 100"
proof (cases "cpu_total t = 0")
  case False
  let ?busy = "unat (cpu_total t - cpu_idle t)"
  have "cpu_idle t \<le> cpu_total t" using unat_cpu_total [OF assms] unat_cpu_idle [OF assms] by (simp add: word_le_nat_alt)
  then have "?busy \<le> unat (cpu_total t)" by (simp add: unat_sub)
  moreover have "0 < unat (cpu_total t)" using False by (simp add: unat_gt_0)
  ultimately have "0 \<le> of_nat ?busy / of_nat (unat (cpu_total t)) * (100 :: rat) \<and>
      of_nat ?busy / of_nat (unat (cpu_total t)) * (100 :: rat) \<le> 100"
    by (rule share_of)
  then show ?thesis using False by (simp only: busy_share_def if_False uint_as_rat) blast
qed (simp add: busy_share_def)

text \<open>The share of the processor the agent reports is a percentage, as long as the ticks the kernel has counted fit in 64 bits
  together; and it is the same whatever the report before was.\<close>

theorem cpu_usage_is_percentage:
  assumes "\<forall>t. read_cpu_times N w = Some t \<longrightarrow> cpu_ticks t < 2 ^ 64"
  shows "\<exists>q. cpu_usage N prev w = Fin q \<and> 0 \<le> q \<and> q \<le> 100 \<and> cpu_usage N other w = Fin q"
  using assms busy_share_bounds by (cases "read_cpu_times N w") (auto simp: cpu_usage_def)

text \<open>A node of which only the ticks can be read.\<close>

definition sample_node :: "unit node_env" where
  "sample_node = \<lparr>ne_hostname = ''n'', ne_now = (\<lambda>_. 0),
     ne_read = (\<lambda>path _. if path = ''/proc/stat'' then Some ''cpu 10 0 10 60 20'' else None),
     ne_statfs = (\<lambda>_. None), ne_look = (\<lambda>_ _. False), ne_run = (\<lambda>_ w. (None, w))\<rparr>"

lemma sample_fields: "map Go_Strings.fields (split_on CHR 0x0A ''cpu 10 0 10 60 20'') = [[''cpu'', ''10'', ''0'', ''10'', ''60'', ''20'']]"
  by code_simp

lemma sample_uints: "uint_value ''10'' = 10" "uint_value ''0'' = 0" "uint_value ''60'' = 60" "uint_value ''20'' = 20"
  by (simp_all add: uint_value_def all_digits_def digits_val_def is_digit_def digit_val_def)

lemma sample_ticks: "read_cpu_times sample_node () =
    Some \<lparr>ct_user = 10, ct_nice = 0, ct_system = 10, ct_idle = 60, ct_iowait = 20, ct_irq = 0, ct_softirq = 0\<rparr>"
proof -
  have "read_cpu_times sample_node () = first_cpu_line [[''cpu'', ''10'', ''0'', ''10'', ''60'', ''20'']]"
    unfolding read_cpu_times_def by (simp only: sample_node_def node_env.simps refl if_True option.case sample_fields)
  then show ?thesis by (simp add: cpu_times_of_def nth_uint_def sample_uints)
qed

theorem cpu_usage_is_percentage_witness:
  "\<exists>q. cpu_usage sample_node None () = Fin q \<and> 0 \<le> q \<and> q \<le> 100 \<and> cpu_usage sample_node None () = Fin q"
  using cpu_usage_is_percentage [of sample_node "()" None None] by (simp add: sample_ticks cpu_ticks_def)

section \<open>The file\<close>

lemma tmp_differs [simp]: "tmp_of p \<noteq> p" "p \<noteq> tmp_of p"
  by (simp_all add: tmp_of_def)

lemma agent_fault_files [simp]: "next_fault fs = (b, fs') \<Longrightarrow> fs_files fs' = fs_files fs" "next_fault fs = (b, fs') \<Longrightarrow> fs_unreadable fs' = fs_unreadable fs"
  by (auto simp: next_fault_def split: list.splits)

lemma publish_files: "fs_files (publish p d fs) \<in> set (write_states p d (fs_files fs))"
  by (auto simp: publish_def write_states_def Let_def split: prod.splits bool.splits)

lemma publish_unreadable: "fs_unreadable (publish p d fs) = fs_unreadable fs"
  by (auto simp: publish_def Let_def split: prod.splits bool.splits)

text \<open>At no step of a publication is the file anything but the old one or the new report.\<close>

lemma write_states_whole: "m \<in> set (write_states p d files) \<Longrightarrow> mget m p = mget files p \<or> mget m p = Some (Doc d)"
  by (auto simp: write_states_def)

lemma publish_reads: "read_file p (publish p d fs) = read_file p fs \<or> read_file p (publish p d fs) = Some (Doc d)"
  using write_states_whole [OF publish_files, of p d fs] by (auto simp: read_file_def publish_unreadable)

definition whole_report :: "(int \<Rightarrow> string) \<Rightarrow> fcontent option \<Rightarrow> fcontent option \<Rightarrow> bool" where
  "whole_report stamp old c \<longleftrightarrow> c = old \<or> (\<exists>st. writable st \<and> c = Some (Doc (enc_status stamp st)))"

lemma agent_write_whole:
  assumes "whole_report stamp old (read_file (status_path dir) (ag_files a))"
  shows "whole_report stamp old (read_file (status_path dir) (ag_files (agent_write N stamp dir start a)))"
proof -
  obtain s w1 where c: "collect N (ag_prev a) (ag_world a) = (s, w1)" by (rule prod.exhaust)
  let ?st = "s\<lparr>as_uptime := (ne_now N w1 - start) div 1000000000\<rparr>"
  show ?thesis
    using assms publish_reads [of "status_path dir" "enc_status stamp ?st" "ag_files a"]
    by (auto simp: agent_write_def c Let_def whole_report_def)
qed

lemma agent_loop_whole:
  assumes "\<And>b. whole_report stamp old (read_file p (ag_files b)) \<Longrightarrow> whole_report stamp old (read_file p (ag_files (write b)))"
    and "whole_report stamp old (read_file p (ag_files a))"
  shows "whole_report stamp old (read_file p (ag_files (agent_loop write es a)))"
  using assms(2)
proof (induction es arbitrary: a)
  case (Cons e es)
  then show ?case by (cases e) (simp_all add: assms(1))
qed simp

lemma read_next_fault: "next_fault fs = (b, fs') \<Longrightarrow> read_file p fs' = read_file p fs"
  by (simp add: read_file_def)

text \<open>C38. Whatever fails while the agent runs, and whenever it is stopped, the file of its status is the one that was there before or
  a whole report, even to a reader that looks in the middle of a publication.\<close>

theorem agent_file_is_whole:
  "(read_file (status_path dir) (snd (serve_agent N stamp (dir, period) es fs w)) = read_file (status_path dir) fs \<or>
    (\<exists>st. writable st \<and> read_file (status_path dir) (snd (serve_agent N stamp (dir, period) es fs w)) = Some (Doc (enc_status stamp st)))) \<and>
   list_all (\<lambda>m. mget m (status_path dir) = mget files (status_path dir) \<or> mget m (status_path dir) = Some (Doc d))
     (write_states (status_path dir) d files)"
proof -
  obtain b fs1 where f: "next_fault fs = (b, fs1)" by (rule prod.exhaust)
  let ?save = "agent_write N stamp dir (ne_now N w)"
  let ?old = "read_file (status_path dir) fs"
  have first: "whole_report stamp ?old (read_file (status_path dir) (ag_files (?save \<lparr>ag_prev = None, ag_files = fs1, ag_world = w\<rparr>)))"
    by (rule agent_write_whole) (simp add: whole_report_def read_next_fault [OF f])
  have "whole_report stamp ?old (read_file (status_path dir) (snd (serve_agent N stamp (dir, period) es fs w)))"
    using first agent_loop_whole [OF agent_write_whole first, where es = es] read_next_fault [OF f]
    by (cases b) (simp_all add: serve_agent_def f Let_def, simp add: whole_report_def)
  then show ?thesis using write_states_whole by (auto simp: whole_report_def list_all_iff)
qed

section \<open>Reading it back\<close>

lemma jf64_fin: "is_fin x \<Longrightarrow> \<exists>q. x = Fin q \<and> jf64 x = JNum q"
  by (cases x) (simp_all add: is_fin_def)

lemma jf64_fits: "fits Sh_float (jf64 x)"
  by (cases x) simp_all

lemma jf64_read: "is_fin x \<Longrightarrow> json_float (jf64 x) = x"
  by (cases x) (simp_all add: is_fin_def)

lemma enc_gpu_fits: "fits (Sh_rec [(''index'', Sh_int), (''name'', Sh_str), (''memory_total_mib'', Sh_int), (''memory_used_mib'', Sh_int),
    (''utilization_pct'', Sh_float)]) (enc_gpu g)"
  by (simp add: enc_gpu_def jf64_fits)

text \<open>C39. The control plane reads in a report of the agent what the agent has put there: the processors and their use, the load, the
  memory, the number of accelerators and whether ray runs.\<close>

theorem agent_report_read_back:
  assumes "writable s"
  shows "decode_health (enc_status stamp s) =
    Some \<lparr>hl_cpus = as_cpus s, hl_cpu_usage = as_cpu_usage s, hl_load = as_load_avg s, hl_mem_total = as_mem_total s,
          hl_mem_used = as_mem_used s, hl_gpus = length (as_gpus s), hl_ray = as_ray s\<rparr>"
proof -
  have "fits health_shape (enc_status stamp s)"
    using enc_gpu_fits by (auto simp: health_shape_def enc_status_def jf64_fits list_all_iff)
  then show ?thesis using assms
    by (auto simp: decode_health_def enc_status_def jf64_read writable_def)
qed

definition sample_status :: agent_status where
  "sample_status = \<lparr>as_hostname = ''n'', as_collected_at = 0, as_load_avg = Fin 1, as_cpus = 8, as_cpu_usage = Fin 20, as_mem_total = Fin 64,
     as_mem_used = Fin 24, as_disk_total = Fin 100, as_disk_used = Fin 50,
     as_gpus = [\<lparr>gpu_index = 0, gpu_name = ''T4'', gpu_memory_total = 15360, gpu_memory_used = 0, gpu_utilization = Fin 0\<rparr>],
     as_ray = True, as_uptime = 10\<rparr>"

theorem agent_report_read_back_witness:
  "decode_health (enc_status (\<lambda>_. ''t'') sample_status) =
    Some \<lparr>hl_cpus = 8, hl_cpu_usage = Fin 20, hl_load = Fin 1, hl_mem_total = Fin 64, hl_mem_used = Fin 24, hl_gpus = 1, hl_ray = True\<rparr>"
  using agent_report_read_back [of sample_status "\<lambda>_. ''t''"] by (simp add: sample_status_def writable_def is_fin_def)

end
