(* ===== verification/Cli_Base.thy ===== *)
theory Cli_Base
  imports Server_Api Config
begin

text \<open>
  What the commands of \<open>internal/cli\<close> share: printing, tables, times, the quoting of the words of a command, the plan as a table
  and the settings of the log. A command is an action on the store and the world that ends with an error or without; what it prints goes to
  the world.
\<close>

section \<open>Text\<close>

definition newline :: string where "newline = [CHR 0x0A]"

text \<open>How many bytes the first rune of a text has: one for a byte that does not begin a proper encoding.\<close>

definition byte_in :: "string \<Rightarrow> nat \<Rightarrow> nat \<Rightarrow> nat \<Rightarrow> bool" where
  "byte_in s i lo hi \<longleftrightarrow> i < length s \<and> lo \<le> of_char (s ! i) \<and> of_char (s ! i) \<le> hi"

definition second_byte :: "string \<Rightarrow> bool" where
  "second_byte s \<longleftrightarrow>
     byte_in s 1 (if s ! 0 = CHR 0xE0 then 0xA0 else if s ! 0 = CHR 0xF0 then 0x90 else 0x80)
       (if s ! 0 = CHR 0xED then 0x9F else if s ! 0 = CHR 0xF4 then 0x8F else 0xBF)"

definition rune_width :: "string \<Rightarrow> nat" where
  "rune_width s =
     (if byte_in s 0 0xC2 0xDF \<and> second_byte s then 2
      else if byte_in s 0 0xE0 0xEF \<and> second_byte s \<and> byte_in s 2 0x80 0xBF then 3
      else if byte_in s 0 0xF0 0xF4 \<and> second_byte s \<and> byte_in s 2 0x80 0xBF \<and> byte_in s 3 0x80 0xBF then 4
      else 1)"

fun rune_count :: "string \<Rightarrow> nat" where
  "rune_count [] = 0"
| "rune_count (c # s) = Suc (rune_count (drop (rune_width (c # s) - 1) s))"

text \<open>\<open>%-ns\<close>: filled with spaces to the right, to a width in runes.\<close>

definition pad :: "nat \<Rightarrow> string \<Rightarrow> string" where
  "pad n s = s @ replicate (n - rune_count s) CHR '' ''"

text \<open>A line of a table: columns of given widths, and the last as it is.\<close>

fun table_line :: "(nat \<times> string) list \<Rightarrow> string" where
  "table_line [] = newline"
| "table_line [(n, s)] = pad n s @ newline"
| "table_line ((n, s) # cols) = pad n s @ '' '' @ table_line cols"

text \<open>The year of a day since 1970, in the terms of \<open>Go_Time\<close>, whose years begin in March.\<close>

definition civil_year :: "int \<Rightarrow> int" where
  "civil_year days =
     (let era = (days + 719468) div 146097; doe = (days + 719468) mod 146097; century = min 3 (doe div 36524);
          in_century = doe - 36524 * century
      in era * 400 + 100 * century + 4 * (in_century div 1461) + min 3 (in_century mod 1461 div 365) +
         (if fst (month_and_day days) \<le> 2 then 1 else 0))"

definition digits2 :: "int \<Rightarrow> string" where
  "digits2 d = (if d < 10 then ''0'' else []) @ itoa d"

definition zone_text :: "int \<Rightarrow> string" where
  "zone_text z =
     (if z = 0 then ''Z'' else (if z < 0 then ''-'' else ''+'') @ digits2 (\<bar>z\<bar> div 3600) @ '':'' @ digits2 (\<bar>z\<bar> div 60 mod 60))"

text \<open>\<open>Format(time.RFC3339)\<close> of a second in a location; years of four digits.\<close>

definition rfc3339 :: "(int \<Rightarrow> int) \<Rightarrow> int \<Rightarrow> string" where
  "rfc3339 zone t =
     (let l = t + zone t; c = clock zone t; y = itoa (civil_year (l div 86400))
      in replicate (4 - length y) CHR ''0'' @ y @ ''-'' @ digits2 (ck_month c) @ ''-'' @ digits2 (ck_day c) @ ''T'' @ digits2 (ck_hour c) @
         '':'' @ digits2 (ck_minute c) @ '':'' @ digits2 (l mod 60) @ zone_text (zone t))"

definition format_time :: "(int \<Rightarrow> int) \<Rightarrow> int \<Rightarrow> string" where
  "format_time zone ts = (if ts = 0 then ''-'' else rfc3339 zone ts)"

definition or_dash :: "string \<Rightarrow> string" where
  "or_dash s = (if s = [] then ''-'' else s)"

definition sorted_kv :: "string smap \<Rightarrow> string" where
  "sorted_kv m = join_with '', '' (map (\<lambda>k. k @ ''='' @ (case mget m k of Some v \<Rightarrow> v | None \<Rightarrow> [])) (sorted_keys m))"

section \<open>Words of a command\<close>

text \<open>What a shell reads as it stands. A word with any other byte is put between quotes, whatever is in it.\<close>

definition plain_byte :: "char \<Rightarrow> bool" where
  "plain_byte c \<longleftrightarrow> is_lower c \<or> is_upper c \<or> is_digit c \<or> c \<in> set ''_-./:=,+''"

definition cli_quote :: "string \<Rightarrow> string" where
  "cli_quote s = (if list_all plain_byte s then s else [CHR 0x27] @ s @ [CHR 0x27])"

definition join_command :: "string list \<Rightarrow> string" where
  "join_command parts = join_with '' '' (map cli_quote parts)"

section \<open>Commands\<close>

text \<open>
  \<open>ci_rounds\<close> bounds the rounds of the waiting loops, \<open>ci_dir\<close> is the directory of the program, \<open>ci_print\<close> writes to the standard
  output and \<open>ci_answer\<close> reads a word; \<open>ci_forced\<close> is \<open>optimizer.PricesForced\<close> and \<open>ci_health\<close> decodes the report of an agent.
\<close>

record ('p, 'w) cli =
  ci_ext :: "('p, 'w) ext"
  ci_rounds :: nat
  ci_dir :: string
  ci_planner :: "'w planner"
  ci_config :: "config option"
  ci_print :: "string \<Rightarrow> 'w \<Rightarrow> 'w"
  ci_answer :: "'w \<Rightarrow> string \<times> 'w"
  ci_forced :: "string \<Rightarrow> string \<Rightarrow> string list \<Rightarrow> 'w \<Rightarrow> price smap res \<times> 'w"
  ci_health :: "string \<Rightarrow> health option"

definition say :: "('p, 'w) cli \<Rightarrow> string \<Rightarrow> (unit, 'w sys) act" where
  "say C s = world (\<lambda>w. (Inr (), ci_print C s w))"

fun for_each :: "('a \<Rightarrow> (unit, 's) act) \<Rightarrow> 'a list \<Rightarrow> (unit, 's) act" where
  "for_each f [] = ret ()"
| "for_each f (x # xs) = seq_act (f x) (for_each f xs)"

definition say_lines :: "('p, 'w) cli \<Rightarrow> string list \<Rightarrow> (unit, 'w sys) act" where
  "say_lines C = for_each (say C)"

text \<open>The backends, with the command's callback for the lines of a program.\<close>

definition streaming :: "('p, 'w) cli \<Rightarrow> string \<Rightarrow> ('p, 'w) ext" where
  "streaming C prefix = (ci_ext C)\<lparr>x_emit := (\<lambda>line. ci_print C (prefix @ '' '' @ line @ newline))\<rparr>"

definition cli_backends :: "('p, 'w) cli \<Rightarrow> string \<Rightarrow> 'w exec_backend smap" where
  "cli_backends C prefix = manager_backends (ci_rounds C) (streaming C prefix) (ci_dir C)"

section \<open>The plan\<close>

definition format_hours :: "f64 \<Rightarrow> string" where
  "format_hours h = (if f_le h (Fin 0) then ''-'' else fmt_fixed 3 h @ ''h'')"

definition shows_time :: "plan \<Rightarrow> bool" where
  "shows_time p \<longleftrightarrow> f_lt (Fin 0) (pl_time p) \<or> (case pl_launches p of [] \<Rightarrow> False | l # _ \<Rightarrow> f_lt (Fin 0) (l_time l))"

definition plan_row :: "bool \<Rightarrow> launch \<Rightarrow> string" where
  "plan_row timed l =
     table_line ([(3, itoa (l_order l)), (10, l_cloud l), (10, l_region l), (24, l_instance_type l), (8, itoa (l_num_nodes l)),
       (8, itoa (l_vcpus l)), (10, fmt_fixed 3 (cost_per_hour l))] @ (if timed then [(10, format_hours (l_time l))] else []))"

definition plan_head :: "bool \<Rightarrow> string" where
  "plan_head timed =
     table_line ([(3, ''#''), (10, ''CLOUD''), (10, ''REGION''), (24, ''INSTANCE''), (8, ''NODES''), (8, ''CPUS''), (10, ''$/hr'')] @
       (if timed then [(10, ''EST TIME'')] else []))"

text \<open>The last line of a table without times looks at the first launch.\<close>

definition print_plan :: "('p, 'w) cli \<Rightarrow> plan \<Rightarrow> (unit, 'w sys) act" where
  "print_plan C p =
     (let timed = shows_time p
      in seq_act (say_lines C (plan_head timed # map (plan_row timed) (pl_launches p)))
           (if timed then say C (newline @ ''Total estimated time: '' @ format_hours (pl_time p) @ newline)
            else bind_act (of_res (first_launch p)) (\<lambda>l.
                   say C (newline @ ''Total estimated cost: $'' @ fmt_fixed 3 (pl_cost p) @ ''/hour for '' @ itoa (l_num_nodes l) @ '' node(s)'' @
                     newline))))"

section \<open>The log\<close>

datatype log_severity = Sev_debug | Sev_info | Sev_warn | Sev_error

definition parse_level :: "string \<Rightarrow> log_severity" where
  "parse_level s =
     (let l = to_lower (trim_space s)
      in if l = ''debug'' then Sev_debug else if l = ''warn'' \<or> l = ''warning'' then Sev_warn
         else if l = ''error'' then Sev_error else Sev_info)"

record log_config =
  lg_level :: string
  lg_file :: string
  lg_format :: string
  lg_max_size :: int
  lg_max_backups :: int
  lg_max_age :: int
  lg_compress :: bool

fun first_non_empty :: "string list \<Rightarrow> string" where
  "first_non_empty [] = []"
| "first_non_empty (v # vs) = (if v \<noteq> [] then v else first_non_empty vs)"

definition setup_logging :: "string smap \<Rightarrow> config option \<Rightarrow> string \<Rightarrow> string \<Rightarrow> string \<Rightarrow> log_config" where
  "setup_logging env cfg level file format =
     \<lparr>lg_level = first_non_empty [level, getenv env ''GPI_LOG_LEVEL'', log_level cfg],
      lg_file = first_non_empty [file, getenv env ''GPI_LOG_FILE'', log_file cfg],
      lg_format = first_non_empty [format, getenv env ''GPI_LOG_FORMAT'', log_format cfg],
      lg_max_size = log_max_size cfg, lg_max_backups = log_max_backups cfg, lg_max_age = log_max_age cfg,
      lg_compress = (case log_compress cfg of None \<Rightarrow> True | Some c \<Rightarrow> c)\<rparr>"

text \<open>Where the log goes: the level, whether as text, and the file with its rotation, if there is one.\<close>

record log_rotation =
  lr_file :: string
  lr_max_size :: int
  lr_max_backups :: int
  lr_max_age :: int
  lr_compress :: bool

definition rotation :: "log_config \<Rightarrow> log_rotation" where
  "rotation c =
     \<lparr>lr_file = lg_file c, lr_max_size = (if 0 < lg_max_size c then lg_max_size c else 100),
      lr_max_backups = (if 0 < lg_max_backups c then lg_max_backups c else 5),
      lr_max_age = (if 0 < lg_max_age c then lg_max_age c else 30), lr_compress = lg_compress c\<rparr>"

record log_sink =
  sk_level :: log_severity
  sk_text :: bool
  sk_rotation :: "log_rotation option"

definition setup_log :: "log_config \<Rightarrow> log_sink" where
  "setup_log c =
     \<lparr>sk_level = parse_level (lg_level c), sk_text = (lg_format c \<noteq> ''json''),
      sk_rotation = (if lg_file c = [] then None else Some (rotation c))\<rparr>"

end
