(* ===== verification/Cli.thy ===== *)
theory Cli
  imports Cli_Base
begin

text \<open>
  The commands of \<open>internal/cli\<close> that work on the state of the program: launching, optimizing, the life of clusters and what is shown of
  them, services and jobs; and how a command is run from the shell. Flags are records; \<open>None\<close> is a flag that was not given, where
  the code tells that apart.
\<close>

section \<open>Launching\<close>

record launch_flags =
  lf_cluster :: string
  lf_cloud :: string
  lf_region :: string
  lf_zone :: "string option"
  lf_num_nodes :: int
  lf_spot :: "bool option"
  lf_optimizer :: string
  lf_dry_run :: bool
  lf_yes :: bool

definition or_config :: "string \<Rightarrow> string \<Rightarrow> string" where
  "or_config flag configured = (if flag = [] then configured else flag)"

text \<open>A flag overrides the configuration.\<close>

definition search_options :: "config option \<Rightarrow> launch_flags \<Rightarrow> task \<Rightarrow> options" where
  "search_options cfg f ts =
     \<lparr>o_num_nodes = t_num_nodes ts, o_use_spot = (case lf_spot f of None \<Rightarrow> config_spot cfg | Some b \<Rightarrow> b),
      o_cloud = or_config (lf_cloud f) (config_cloud cfg), o_region = or_config (lf_region f) (config_region cfg),
      o_zone = (case lf_zone f of None \<Rightarrow> config_zone cfg | Some z \<Rightarrow> z), o_max_candidates = 0\<rparr>"

definition select_optimizer :: "('p, 'w) cli \<Rightarrow> string \<Rightarrow> (metric list option, 'w sys) act" where
  "select_optimizer C name = of_res (resolve_optimizer (pn_registry (ci_planner C)) name)"

definition search_plan :: "('p, 'w) cli \<Rightarrow> metric list option \<Rightarrow> launch_flags \<Rightarrow> task \<Rightarrow> (plan, 'w sys) act" where
  "search_plan C opt f ts =
     (case opt of
        None \<Rightarrow> raise nil_deref
      | Some ms \<Rightarrow> world (optimize (pn_meta (ci_planner C)) ms
          (Some \<lparr>rq_resources = t_resources ts, rq_options = Some (search_options (ci_config C) f ts)\<rparr>)))"

text \<open>The error of the refresh is part of its result.\<close>

definition refresh_launch_price :: "('p, 'w) cli \<Rightarrow> launch \<Rightarrow> (price option res, 'w sys) act" where
  "refresh_launch_price C l =
     (if \<not> has_cloud (l_cloud l) (x_registries (ci_ext C)) then ret (Inr None)
      else world (\<lambda>w. case ci_forced C (l_cloud l) (l_region l) [l_instance_type l] w of
                        (Inl e, w1) \<Rightarrow> (Inr (Inl e), w1)
                      | (Inr ps, w1) \<Rightarrow> (Inr (Inr (mget ps (l_instance_type l))), w1)))"

definition with_live_price :: "price \<Rightarrow> launch \<Rightarrow> launch" where
  "with_live_price p l =
     l\<lparr>l_spot := (if f_lt (Fin 0) (p_spot p) then p_spot p else l_spot l),
       l_on_demand := (if f_lt (Fin 0) (p_on_demand p) then p_on_demand p else l_on_demand l)\<rparr>"

definition refreshed_plan :: "('p, 'w) cli \<Rightarrow> plan \<Rightarrow> launch \<Rightarrow> (launch, 'w sys) act" where
  "refreshed_plan C p l =
     bind_act (refresh_launch_price C l) (\<lambda>live.
       case live of
         Inl e \<Rightarrow> seq_act (say C (''(live price refresh unavailable: '' @ err_text e @ '')'' @ newline)) (ret l)
       | Inr None \<Rightarrow> ret l
       | Inr (Some pr) \<Rightarrow>
           (let l' = with_live_price pr l
            in seq_act (say C (''Live price check '' @ l_cloud l @ ''/'' @ l_region l @ '' '' @ l_instance_type l @ '': on-demand $'' @
                          fmt_fixed 4 (p_on_demand pr) @ '', spot $'' @ fmt_fixed 4 (p_spot pr) @ newline))
               (seq_act (print_plan C (p\<lparr>pl_launches := l' # tl (pl_launches p), pl_cost := total_cost_per_hour l'\<rparr>)) (ret l'))))"

definition confirmed :: "('p, 'w) cli \<Rightarrow> string \<Rightarrow> (string \<Rightarrow> bool) \<Rightarrow> (bool, 'w sys) act" where
  "confirmed C prompt yes =
     seq_act (say C prompt) (bind_act (world (\<lambda>w. case ci_answer C w of (a, w1) \<Rightarrow> (Inr a, w1))) (\<lambda>a.
       if yes a then ret True else seq_act (say C (''aborted'' @ newline)) (ret False)))"

text \<open>The launch the command decides on; none for a dry run, or when the user refuses.\<close>

definition choose_launch :: "('p, 'w) cli \<Rightarrow> launch_flags \<Rightarrow> string \<Rightarrow> task \<Rightarrow> metric list option \<Rightarrow> (launch option, 'w sys) act" where
  "choose_launch C f name ts opt =
     (if t_backend ts \<noteq> ''cloud''
      then seq_act (say C (''=== Backend: '' @ t_backend ts @ '' (no placement needed) ==='' @ newline)) (ret (Some (bare_launch ts)))
      else bind_act (search_plan C opt f ts) (\<lambda>p.
           seq_act (say C (''=== Optimizer summary ('' @ strategy_name (case opt of None \<Rightarrow> [] | Some ms \<Rightarrow> ms) @ '') ==='' @ newline))
          (seq_act (print_plan C p)
             (if lf_dry_run f then ret None
              else bind_act (of_res (first_launch p)) (\<lambda>l.
                   bind_act (refreshed_plan C p l) (\<lambda>l'.
                     if lf_yes f then ret (Some l')
                     else bind_act (confirmed C (''Launch cluster '' @ quote_str name @ '' in '' @ l_cloud l' @ ''/'' @ l_region l' @ '' ('' @
                            l_instance_type l' @ '')? [y/N] '') (\<lambda>a. to_lower (trim_space a) = ''y'')) (\<lambda>yes.
                          ret (if yes then Some l' else None))))))))"

definition cmd_launch :: "('p, 'w) cli \<Rightarrow> launch_flags \<Rightarrow> string \<Rightarrow> (unit, 'w sys) act" where
  "cmd_launch C f path =
     bind_act (load_of (ci_ext C) path) (\<lambda>ts0.
       let name = or_config (lf_cluster f) (t_name ts0); ts = override_nodes (lf_num_nodes f) ts0
       in bind_act (select_optimizer C (lf_optimizer f)) (\<lambda>opt.
          bind_act (choose_launch C f name ts opt) (\<lambda>chosen.
            case chosen of
              None \<Rightarrow> ret ()
            | Some l \<Rightarrow>
                bind_act (manager_launch (streaming C ''(task)'') (cli_backends C ''(task)'') name ts (Some l)) (\<lambda>c.
                seq_act (say C (''Cluster '' @ cl_name c @ '' provisioned: '' @ itoa (cl_num_nodes c) @ '' node(s) via '' @ cl_backend c @ newline))
                (bind_act (manager_run_task (cli_backends C ''(task)'') name ts True) (\<lambda>code.
                  if code \<noteq> 0 then raise (Err (''task run exited with code '' @ itoa code)) else ret ()))))))"

definition cmd_optimize :: "('p, 'w) cli \<Rightarrow> launch_flags \<Rightarrow> string \<Rightarrow> (unit, 'w sys) act" where
  "cmd_optimize C f path =
     bind_act (load_of (ci_ext C) path) (\<lambda>ts.
     bind_act (select_optimizer C (lf_optimizer f)) (\<lambda>opt.
     bind_act (search_plan C opt f (override_nodes (lf_num_nodes f) ts)) (print_plan C)))"

section \<open>The life of a cluster\<close>

definition done_text :: "string \<Rightarrow> string \<Rightarrow> string" where
  "done_text name what = ''Cluster '' @ name @ '' '' @ what @ ''.'' @ newline"

definition cmd_down :: "('p, 'w) cli \<Rightarrow> string \<Rightarrow> (unit, 'w sys) act" where
  "cmd_down C name = seq_act (manager_down (cli_backends C []) name) (say C (done_text name ''terminated''))"

definition cmd_stop :: "('p, 'w) cli \<Rightarrow> string \<Rightarrow> (unit, 'w sys) act" where
  "cmd_stop C name = seq_act (manager_stop (cli_backends C []) name) (say C (done_text name ''stopped''))"

definition cmd_start :: "('p, 'w) cli \<Rightarrow> string \<Rightarrow> (unit, 'w sys) act" where
  "cmd_start C name = seq_act (manager_start (cli_backends C []) name) (say C (done_text name ''started''))"

definition cmd_exec :: "('p, 'w) cli \<Rightarrow> string \<Rightarrow> string list \<Rightarrow> (unit, 'w sys) act" where
  "cmd_exec C name args =
     bind_act (manager_exec (cli_backends C ''(exec)'') name (join_command args) True) (\<lambda>code.
       if code \<noteq> 0 then raise (Err (''command exited with code '' @ itoa code)) else ret ())"

section \<open>What is shown\<close>

definition with_role :: "string \<Rightarrow> cluster \<Rightarrow> int" where
  "with_role r c = int (length (filter (\<lambda>n. n_role n = r) (cl_instances c)))"

definition head_count :: "cluster \<Rightarrow> int" where "head_count = with_role role_head"
definition worker_count :: "cluster \<Rightarrow> int" where "worker_count = with_role role_worker"

definition cluster_roles :: "cluster \<Rightarrow> string" where
  "cluster_roles c =
     (if cl_num_nodes c \<le> 1 then ''-'' else itoa (head_count c) @ ''head/'' @ itoa (worker_count c) @ ''worker'')"

text \<open>A table of the entities, or a line that says there are none.\<close>

definition show_all :: "('p, 'w) cli \<Rightarrow> (store \<Rightarrow> 'a list) \<Rightarrow> string \<Rightarrow> string \<Rightarrow> ('a \<Rightarrow> string) \<Rightarrow> (unit, 'w sys) act" where
  "show_all C entities none head row =
     bind_act (asks (\<lambda>s. Inr (entities s))) (\<lambda>xs. if xs = [] then say C (none @ newline) else say_lines C (head # map row xs))"

definition cluster_line :: "cluster \<Rightarrow> string" where
  "cluster_line c =
     table_line [(20, cl_name c), (12, cl_status c), (10, cl_cloud c), (12, cl_region c), (6, itoa (cl_num_nodes c)), (10, cluster_roles c),
       (24, case cl_launch c of None \<Rightarrow> [] | Some l \<Rightarrow> l_instance_type l), (16, get_node_ip c)]"

definition cmd_status :: "('p, 'w) cli \<Rightarrow> (unit, 'w sys) act" where
  "cmd_status C = show_all C list_clusters ''No clusters.''
     (table_line [(20, ''NAME''), (12, ''STATUS''), (10, ''CLOUD''), (12, ''REGION''), (6, ''NODES''), (10, ''ROLE''), (24, ''INSTANCE''),
        (16, ''PUBLIC IP'')]) cluster_line"

definition cmd_cluster_yaml :: "('p, 'w) cli \<Rightarrow> string \<Rightarrow> (unit, 'w sys) act" where
  "cmd_cluster_yaml C name = bind_act (asks (\<lambda>s. get_cluster_yaml s name)) (\<lambda>y. say C (y_yaml y @ newline))"

definition history_lines :: "(int \<Rightarrow> int) \<Rightarrow> cluster_history \<Rightarrow> string list" where
  "history_lines zone h =
     [''Cluster    : '' @ h_cluster_name h @ newline, ''Nodes      : '' @ itoa (h_num_nodes h) @ newline,
      ''Cloud      : '' @ h_cloud h @ ''/'' @ h_region h @ '' ('' @ h_zone h @ '')'' @ newline,
      ''Instance   : '' @ h_instance_type h @ newline, ''Backend    : '' @ h_backend h @ newline,
      ''LaunchedAt : '' @ format_time zone (h_launched_at h) @ newline]"

definition cmd_cluster_history :: "('p, 'w) cli \<Rightarrow> string \<Rightarrow> (unit, 'w sys) act" where
  "cmd_cluster_history C name =
     bind_act (asks (\<lambda>s. Inr (list_cluster_history s))) (\<lambda>hs.
       case List.find (\<lambda>h. h_cluster_name h = name) hs of
         None \<Rightarrow> raise (Err (''no history for cluster '' @ name))
       | Some h \<Rightarrow> say_lines C (history_lines (x_zone (ci_ext C)) h))"

definition event_row :: "(int \<Rightarrow> int) \<Rightarrow> cluster_event \<Rightarrow> string" where
  "event_row zone e =
     table_line [(22, rfc3339 zone (e_transitioned_at e)), (20, or_dash (e_starting_status e)), (20, e_ending_status e), (14, e_type e),
       (0, or_dash (e_request_id e))]"

definition cmd_cluster_events :: "('p, 'w) cli \<Rightarrow> string \<Rightarrow> (unit, 'w sys) act" where
  "cmd_cluster_events C name = show_all C (\<lambda>s. list_cluster_events_for s name) (''No events for cluster '' @ name @ ''.'')
     (table_line [(22, ''TIME''), (20, ''FROM''), (20, ''TO''), (14, ''TYPE''), (0, ''REQUEST ID'')]) (event_row (x_zone (ci_ext C)))"

definition topology_lines :: "cluster \<Rightarrow> string list" where
  "topology_lines c =
     [''Cluster    : '' @ cl_name c @ newline, ''Status     : '' @ cl_status c @ newline,
      ''Cloud      : '' @ cl_cloud c @ ''/'' @ cl_region c @ newline,
      ''Topology   : '' @ itoa (head_count c) @ '' head + '' @ itoa (worker_count c) @ '' worker (total '' @ itoa (cl_num_nodes c) @ '')'' @ newline] @
     (if 1 < cl_num_nodes c
      then (case cluster_head c of
              None \<Rightarrow> []
            | Some h \<Rightarrow> [''Ray head   : '' @ n_private_ip h @ '':6379 (dashboard http://'' @ n_public_ip h @ '':8265)'' @ newline])
      else []) @
     (if cl_labels c \<noteq> [] then [''Ray labels : '' @ sorted_kv (cl_labels c) @ newline] else []) @
     (if cl_tags c \<noteq> [] then [''Tags       : '' @ sorted_kv (cl_tags c) @ newline] else [])"

definition cmd_cluster_status :: "('p, 'w) cli \<Rightarrow> string \<Rightarrow> (unit, 'w sys) act" where
  "cmd_cluster_status C name = bind_act (asks (\<lambda>s. get_cluster s name)) (\<lambda>c. say_lines C (topology_lines c))"

definition node_row :: "node \<Rightarrow> string" where
  "node_row n =
     table_line [(16, n_id n), (8, or_dash (n_role n)), (18, n_public_ip n), (18, n_private_ip n), (12, n_status n), (0, n_instance_type n)]"

definition say_health :: "('p, 'w) cli \<Rightarrow> cluster \<Rightarrow> node \<Rightarrow> (unit, 'w sys) act" where
  "say_health C c n =
     (if n_public_ip n = [] then ret ()
      else bind_act (world (\<lambda>w. case manager_health (ci_ext C) (ci_health C) c n w of (line, w1) \<Rightarrow> (Inr line, w1))) (\<lambda>line.
             say C (''  '' @ pad 16 (n_id n) @ '' '' @ line @ newline)))"

definition cmd_cluster_nodes :: "('p, 'w) cli \<Rightarrow> bool \<Rightarrow> string \<Rightarrow> (unit, 'w sys) act" where
  "cmd_cluster_nodes C health name =
     bind_act (asks (\<lambda>s. get_cluster s name)) (\<lambda>c.
       seq_act (say_lines C (table_line [(16, ''NODE ID''), (8, ''ROLE''), (18, ''PUBLIC IP''), (18, ''PRIVATE IP''), (12, ''STATUS''),
                  (0, ''INSTANCE TYPE'')] # map node_row (cl_instances c)))
         (if health then seq_act (say C (newline @ ''Live health (gpilet):'' @ newline)) (for_each (say_health C c) (cl_instances c)) else ret ()))"

section \<open>Services\<close>

record serve_flags =
  sf_name :: string
  sf_cloud :: string
  sf_region :: string
  sf_optimizer :: string
  sf_yes :: bool

definition serve_options :: "serve_flags \<Rightarrow> options" where
  "serve_options f = \<lparr>o_num_nodes = 0, o_use_spot = False, o_cloud = sf_cloud f, o_region = sf_region f, o_zone = [], o_max_candidates = 0\<rparr>"

definition confirm_service :: "('p, 'w) cli \<Rightarrow> string \<Rightarrow> service_spec \<Rightarrow> plan \<Rightarrow> (bool, 'w sys) act" where
  "confirm_service C name sv p =
     bind_act (of_res (first_launch p)) (\<lambda>l.
       confirmed C (''Deploy service '' @ quote_str name @ '' with '' @ itoa (sv_replicas sv) @ '' replica(s), port '' @ itoa (sv_port sv) @
         '', base instance '' @ l_instance_type l @ '' in '' @ l_cloud l @ ''/'' @ l_region l @ ''? [y/N] '') (\<lambda>a. a = ''y'' \<or> a = ''Y''))"

definition cmd_serve_up :: "('p, 'w) cli \<Rightarrow> serve_flags \<Rightarrow> string \<Rightarrow> (unit, 'w sys) act" where
  "cmd_serve_up C f path =
     bind_act (load_of (ci_ext C) path) (\<lambda>ts.
       case t_service ts of
         None \<Rightarrow> raise (Err ''task has no service section; add a service block to deploy it as a service'')
       | Some sv \<Rightarrow>
           (let name = or_config (sf_name f) (t_name ts)
            in bind_act (plan_request (ci_planner C) (sf_optimizer f) \<lparr>rq_resources = t_resources ts, rq_options = Some (serve_options f)\<rparr>) (\<lambda>p.
               bind_act (if sf_yes f then ret True else confirm_service C name sv p) (\<lambda>yes.
                 if \<not> yes then ret ()
                 else bind_act (service_up (ci_ext C) (cli_backends C []) name ts p) (\<lambda>v.
                        say_lines C ((''Service '' @ sc_name v @ '' is running.'' @ newline) #
                          map (\<lambda>ep. ''  endpoint: http://'' @ ep @ newline) (sc_endpoints v)))))))"

definition service_line :: "service \<Rightarrow> string" where
  "service_line v =
     table_line [(20, sc_name v), (10, sc_status v), (6, itoa (sc_replicas v)), (10, itoa (sc_port v)), (0, join_with '','' (sc_endpoints v))]"

definition cmd_serve_status :: "('p, 'w) cli \<Rightarrow> (unit, 'w sys) act" where
  "cmd_serve_status C = show_all C list_services ''No services.''
     (table_line [(20, ''NAME''), (10, ''STATUS''), (6, ''REPL''), (10, ''PORT''), (0, ''ENDPOINTS'')]) service_line"

text \<open>A replica that cannot be taken down is logged and forgotten with its service.\<close>

definition cmd_serve_down :: "('p, 'w) cli \<Rightarrow> string \<Rightarrow> (unit, 'w sys) act" where
  "cmd_serve_down C name =
     bind_act (asks (\<lambda>s. get_service s name)) (\<lambda>v.
       seq_act (each_quiet (manager_down (cli_backends C [])) (sc_replica_clusters v))
      (seq_act (do_delete_service (ci_ext C) name) (say C (''Service '' @ name @ '' torn down.'' @ newline))))"

section \<open>Jobs\<close>

record job_flags =
  jf_name :: string
  jf_schedule :: string
  jf_retries :: int
  jf_optimizer :: string
  jf_run :: bool

definition cmd_jobs_run :: "('p, 'w) cli \<Rightarrow> string \<Rightarrow> (unit, 'w sys) act" where
  "cmd_jobs_run C name =
     seq_act (run_now (streaming C ''(job)'') (cli_backends C ''(job)'') (ci_planner C) name True) (say C (''Job '' @ name @ '' finished.'' @ newline))"

definition cmd_jobs_submit :: "('p, 'w) cli \<Rightarrow> job_flags \<Rightarrow> string \<Rightarrow> (unit, 'w sys) act" where
  "cmd_jobs_submit C f path =
     bind_act (submit (ci_ext C) (jf_name f) path (jf_schedule f) (jf_retries f) (jf_optimizer f)) (\<lambda>j.
       seq_act (say C (''Job '' @ j_name j @ '' registered (schedule='' @ quote_str (j_schedule j) @ '', retries='' @ itoa (j_retries j) @ '').'' @ newline))
         (if jf_run f then seq_act (say C (''Running '' @ j_name j @ '' now...'' @ newline)) (cmd_jobs_run C (j_name j)) else ret ()))"

definition job_line :: "(int \<Rightarrow> int) \<Rightarrow> job \<Rightarrow> string" where
  "job_line zone j =
     table_line [(20, j_name j), (12, j_status j), (10, itoa (j_run_count j)), (10, itoa (j_fail_count j)), (10, j_schedule j),
       (16, format_time zone (j_next_run j)), (0, format_time zone (j_last_run j))]"

definition cmd_jobs_status :: "('p, 'w) cli \<Rightarrow> (unit, 'w sys) act" where
  "cmd_jobs_status C = show_all C list_jobs ''No jobs.''
     (table_line [(20, ''NAME''), (12, ''STATUS''), (10, ''RUNS''), (10, ''FAILS''), (10, ''SCHEDULE''), (16, ''NEXT RUN''), (0, ''LAST'')])
     (job_line (x_zone (ci_ext C)))"

section \<open>Running a command\<close>

text \<open>
  \<open>dir\<close> is the program's directory, when it can be told; the store is opened for each command. The exit code is 1 for an error.
\<close>

definition with_ctx ::
  "string res \<Rightarrow> 'w backend_ops \<Rightarrow> (string \<Rightarrow> (unit, 'w sys) act) \<Rightarrow> 'w \<Rightarrow> unit res \<times> 'w" where
  "with_ctx dir B f w =
     (case dir of
        Inl e \<Rightarrow> (Inl e, w)
      | Inr d \<Rightarrow>
          (case open_store B w of
             (Inl e, w1) \<Rightarrow> (Inl e, w1)
           | (Inr s, w1) \<Rightarrow> (case f d (s, w1) of (r, (s', w2)) \<Rightarrow> (r, w2))))"

definition execute :: "(string \<Rightarrow> 'w \<Rightarrow> 'w) \<Rightarrow> ('w \<Rightarrow> unit res \<times> 'w) \<Rightarrow> 'w \<Rightarrow> int \<times> 'w" where
  "execute complain command w =
     (case command w of
        (Inr _, w1) \<Rightarrow> (0, w1)
      | (Inl e, w1) \<Rightarrow> (1, complain (''error: '' @ err_text e @ newline) w1))"

end
