(* ===== verification/Cli_Server.thy ===== *)
theory Cli_Server
  imports Cli_Base Rest_Client
begin

text \<open>
  The commands of \<open>internal/cli\<close> about the server: starting it with the flags' settings, and the client of its tokens, which talks to a
  running server by HTTP. The environment and the transport are those of \<open>Rest_Client\<close>.
\<close>

section \<open>Starting the server\<close>

record server_flags =
  vf_port :: int
  vf_response_format :: string
  vf_request_id_header :: string
  vf_key_style :: string
  vf_api_prefix :: string
  vf_require_auth :: bool
  vf_enable_cors :: bool
  vf_enable_docs :: bool

definition style_named :: "string \<Rightarrow> key_style option" where
  "style_named s = map_of [(''camel'', Camel), (''snake'', Snake), (''pascal'', Pascal)] s"

text \<open>A flag that is empty leaves what the environment says; a style that is not known is ignored.\<close>

definition configured_server :: "server_flags \<Rightarrow> ('p, 'w) server \<Rightarrow> ('p, 'w) server" where
  "configured_server f S0 =
     (let S1 = (if vf_response_format f = [] then S0 else set_response_encoder (Some (new_response_encoder (vf_response_format f))) S0);
          S2 = (if vf_request_id_header f = [] then S1 else set_request_id_header (vf_request_id_header f) S1);
          S3 = (case style_named (vf_key_style f) of None \<Rightarrow> S2 | Some style \<Rightarrow> set_key_style style S2);
          S4 = set_api_prefix (vf_api_prefix f) S3
      in S4\<lparr>hs_auth := vf_require_auth f, hs_cors := vf_enable_cors f, hs_docs := vf_enable_docs f\<rparr>)"

section \<open>The client of the tokens\<close>

definition api_base :: "string smap \<Rightarrow> string" where
  "api_base env =
     (let v = getenv env ''GPI_API_BASE'' in if v \<noteq> [] then trim_right_slashes v else ''http://127.0.0.1:8080'')"

definition api_http_request :: "'w rest_env \<Rightarrow> string \<Rightarrow> string \<Rightarrow> json option \<Rightarrow> http_request" where
  "api_http_request R verb path body =
     \<lparr>hr_verb = verb, hr_url = api_base (rs_env R) @ path,
      hr_headers = (case body of None \<Rightarrow> [] | Some _ \<Rightarrow> [(''Content-Type'', ''application/json'')]) @
        (let tok = getenv (rs_env R) ''GPI_API_TOKEN'' in if tok \<noteq> [] then [bearer tok] else []),
      hr_body = (case body of None \<Rightarrow> [] | Some j \<Rightarrow> rs_marshal R j)\<rparr>"

definition api_failure_text :: "string \<Rightarrow> string \<Rightarrow> string \<Rightarrow> error" where
  "api_failure_text verb path raw = Err (''api '' @ verb @ '' '' @ path @ '': '' @ trim_space raw)"

text \<open>
  \<open>tryUnwrapData\<close>: what is under the key \<open>data\<close> of an object when the type asked for can hold it, and the whole answer otherwise.
  Encoding what was decoded and decoding it again changes nothing.
\<close>

definition unwrapped :: "shape \<Rightarrow> json \<Rightarrow> json option" where
  "unwrapped sh j =
     (case j of
        JObj kvs \<Rightarrow> (case mget kvs ''data'' of None \<Rightarrow> None | Some d \<Rightarrow> if fits sh d then Some d else None)
      | _ \<Rightarrow> None)"

definition api_decode :: "'w rest_env \<Rightarrow> shape \<Rightarrow> string \<Rightarrow> json res" where
  "api_decode R sh raw =
     (case (case rs_json R raw of Inl _ \<Rightarrow> None | Inr j \<Rightarrow> unwrapped sh j) of
        Some d \<Rightarrow> Inr d | None \<Rightarrow> unmarshal (rs_json R) sh raw)"

text \<open>An answer without a body leaves the zero value.\<close>

definition api_request :: "'w rest_env \<Rightarrow> string \<Rightarrow> string \<Rightarrow> json option \<Rightarrow> shape option \<Rightarrow> (json, 'w) act" where
  "api_request R verb path body sh w =
     (case rs_send R (api_http_request R verb path body) w of
        (Bad_request e, w1) \<Rightarrow> (Inl e, w1)
      | (No_answer e, w1) \<Rightarrow> (Inl e, w1)
      | (Answered status raw broken, w1) \<Rightarrow>
          (if 300 \<le> status then Inl (api_failure_text verb path raw)
           else case sh of None \<Rightarrow> Inr JNull | Some s \<Rightarrow> if raw = [] then Inr JNull else api_decode R s raw, w1))"

definition any_object :: shape where "any_object = Sh_dict Sh_any"
definition any_list :: shape where "any_list = Sh_list Sh_any"

text \<open>\<open>as_string\<close>, \<open>to_int64\<close> and \<open>as_bool\<close> of a value decoded without a type.\<close>

definition as_string :: "json \<Rightarrow> string" where "as_string = json_str"

definition to_int64 :: "json \<Rightarrow> int" where
  "to_int64 j = (case j of JNum q \<Rightarrow> f_trunc (Fin q) | _ \<Rightarrow> 0)"

definition as_bool :: "json \<Rightarrow> bool" where "as_bool = json_bool"

definition tokens_path :: string where
  "tokens_path = ''/api/v1/tokens''"

text \<open>What a command prints, when it succeeds.\<close>

definition cmd_token_create :: "'w rest_env \<Rightarrow> (int \<Rightarrow> int) \<Rightarrow> string \<Rightarrow> string \<Rightarrow> int \<Rightarrow> (string list, 'w) act" where
  "cmd_token_create R zone name creator expires_in =
     bind_act (api_request R ''POST'' tokens_path
       (Some (JObj [(''creator'', JStr creator), (''expires_in'', JNum (of_int expires_in)), (''name'', JStr name)])) (Some any_object)) (\<lambda>j.
     ret [''Token created (shown once):'' @ newline,
          ''  token_id   : '' @ as_string (json_at [''tokenId''] j) @ newline,
          ''  token_name : '' @ as_string (json_at [''tokenName''] j) @ newline,
          ''  token      : '' @ as_string (json_at [''token''] j) @ newline,
          ''  expires_at : '' @ (let e = to_int64 (json_at [''expiresAt''] j) in if 0 < e then rfc3339 zone e else ''never'') @ newline,
          newline @ ''Use it as: Authorization: Bearer '' @ as_string (json_at [''token''] j) @ newline])"

definition token_line :: "(int \<Rightarrow> int) \<Rightarrow> json \<Rightarrow> string list" where
  "token_line zone j =
     (case j of
        JObj kvs \<Rightarrow>
          [table_line [(12, as_string (json_at [''tokenId''] j)), (16, as_string (json_at [''tokenName''] j)),
             (10, as_string (json_at [''creator''] j)), (24, format_time zone (to_int64 (json_at [''createdAt''] j))),
             (10, if as_bool (json_at [''active''] j) then ''true'' else ''false'')]]
      | _ \<Rightarrow> [])"

definition cmd_token_list :: "'w rest_env \<Rightarrow> (int \<Rightarrow> int) \<Rightarrow> (string list, 'w) act" where
  "cmd_token_list R zone =
     bind_act (api_request R ''GET'' tokens_path None (Some any_list)) (\<lambda>j.
       ret (if json_kids j = [] then [''No tokens.'' @ newline]
            else table_line [(12, ''ID''), (16, ''NAME''), (10, ''CREATOR''), (24, ''CREATED''), (10, ''ACTIVE'')] #
              concat (map (token_line zone) (json_kids j))))"

definition cmd_token_revoke :: "'w rest_env \<Rightarrow> string \<Rightarrow> (string list, 'w) act" where
  "cmd_token_revoke R i =
     seq_act (api_request R ''DELETE'' (tokens_path @ ''/'' @ i) None None) (ret [''Token '' @ i @ '' revoked.'' @ newline])"

definition cmd_token_rotate :: "'w rest_env \<Rightarrow> string \<Rightarrow> int \<Rightarrow> (string list, 'w) act" where
  "cmd_token_rotate R i expires_in =
     bind_act (api_request R ''POST'' (tokens_path @ ''/'' @ i @ ''/rotate'') (Some (JObj [(''expires_in'', JNum (of_int expires_in))]))
                (Some any_object)) (\<lambda>j.
       ret [''Token '' @ as_string (json_at [''tokenId''] j) @ '' rotated. New secret (shown once):'' @ newline,
            ''  token : '' @ as_string (json_at [''token''] j) @ newline])"

end
