(* ===== verification/Cli_Props.thy ===== *)
theory Cli_Props
  imports Cli Cli_Server Provisioner_Props Provisioner_Life
begin

text \<open>
  What the commands promise: that a shell reads the words of \<open>gpi exec\<close> as they were given, that showing changes nothing, that a
  launch in the cloud waits for consent; and that the token commands do not reach the server.
\<close>

section \<open>The words of a command\<close>

text \<open>All the words of a line, at most \<open>n\<close> of them; spaces between words are skipped.\<close>

fun sh_words :: "nat \<Rightarrow> string \<Rightarrow> string list option" where
  "sh_words n s =
     (case dropWhile ((=) CHR '' '') s of
        [] \<Rightarrow> Some []
      | s' \<Rightarrow> (case n of
                0 \<Rightarrow> None
              | Suc m \<Rightarrow> (case sh_word False s' of None \<Rightarrow> None | Some (w, r) \<Rightarrow> map_option ((#) w) (sh_words m r))))"

declare sh_words.simps [simp del]

definition word_end :: "string \<Rightarrow> string \<Rightarrow> bool" where
  "word_end e rest \<longleftrightarrow> e = [] \<and> rest = [] \<or> e = CHR '' '' # rest"

lemma sh_word_end: "word_end e rest \<Longrightarrow> sh_word False e = Some ([], rest)"
  by (auto simp: word_end_def)

lemma plain_byte_special: "\<not> plain_byte CHR 0x27" "\<not> plain_byte CHR '' ''" "\<not> plain_byte CHR 0x5C"
  by (simp_all add: plain_byte_def is_lower_def is_upper_def is_digit_def)

lemma sh_word_plain: "list_all plain_byte s \<Longrightarrow> word_end e rest \<Longrightarrow> sh_word False (s @ e) = Some (s, rest)"
proof (induction s)
  case (Cons c s)
  then have "c \<noteq> CHR 0x27" "c \<noteq> CHR '' ''" "c \<noteq> CHR 0x5C" using plain_byte_special by auto
  then show ?case using Cons by simp
qed (simp add: sh_word_end)

lemma sh_word_in_quotes: "CHR 0x27 \<notin> set s \<Longrightarrow> word_end e rest \<Longrightarrow> sh_word True (s @ CHR 0x27 # e) = Some (s, rest)"
  by (induction s) (auto simp: sh_word_end)

definition passable :: "string \<Rightarrow> bool" where
  "passable a \<longleftrightarrow> a \<noteq> [] \<and> CHR 0x27 \<notin> set a"

lemma sh_word_cli_quote: "passable a \<Longrightarrow> word_end e rest \<Longrightarrow> sh_word False (cli_quote a @ e) = Some (a, rest)"
  by (simp add: cli_quote_def passable_def sh_word_plain sh_word_in_quotes)

lemma cli_quote_starts: "passable a \<Longrightarrow> dropWhile ((=) CHR '' '') (cli_quote a @ e) = cli_quote a @ e"
  using plain_byte_special by (cases a) (auto simp: cli_quote_def passable_def)

lemma sh_words_step:
  assumes "passable a" "word_end e rest"
  shows "sh_words (Suc n) (cli_quote a @ e) = map_option ((#) a) (sh_words n rest)"
proof -
  have "cli_quote a @ e \<noteq> []" using assms(1) by (auto simp: cli_quote_def passable_def)
  then obtain c t where ct: "cli_quote a @ e = c # t" by (metis list.exhaust)
  have "dropWhile ((=) CHR '' '') (c # t) = c # t" "sh_word False (c # t) = Some (a, rest)"
    using cli_quote_starts [OF assms(1), of e] sh_word_cli_quote [OF assms] ct by simp_all
  then show ?thesis
    unfolding ct sh_words.simps [of "Suc n"] by (simp only: list.case nat.case option.case prod.case)
qed



text \<open>An empty word is lost, and a quote ends the quoting: what follows it is read by the shell as part of the line.\<close>

lemma exec_words_lost:
  "sh_words 2 (join_command [''rm'', []]) = Some [''rm'']"
  "sh_words 6 (join_command [''echo'', [CHR 0x27] @ '' ; reboot ; '' @ [CHR 0x27]]) = Some [''echo'', [], '';'', ''reboot'', '';'', []]"
  by code_simp+

section \<open>Commands that only look\<close>

lemma keeps_say [keeps_intros]: "keeps (\<lambda>(s, w). P s) (say C text)"
  by (simp add: say_def keeps_world)

lemma keeps_for_each [keeps_intros]: "(\<And>x. keeps P (f x)) \<Longrightarrow> keeps P (for_each f xs)"
  by (induction xs) (auto intro: keeps_intros simp del: ret_simps)

lemma keeps_say_lines [keeps_intros]: "keeps (\<lambda>(s, w). P s) (say_lines C ls)"
  by (simp add: say_lines_def keeps_for_each keeps_say)

lemma keeps_show_all [keeps_intros]: "keeps (\<lambda>(s, w). P s) (show_all C entities none head row)"
  by (auto simp: show_all_def intro!: keeps_intros)

lemma keeps_print_plan [keeps_intros]: "keeps (\<lambda>(s, w). P s) (print_plan C p)"
  by (auto simp: print_plan_def Let_def intro!: keeps_intros)

lemma keeps_search_plan [keeps_intros]: "keeps (\<lambda>(s, w). P s) (search_plan C opt f ts)"
  by (cases opt) (auto simp: search_plan_def intro!: keeps_intros simp del: ret_simps)

lemma keeps_load_select [keeps_intros]: "keeps (\<lambda>(s, w). P s) (load_of X path)" "keeps (\<lambda>(s, w). P s) (select_optimizer C name)"
  by (simp_all add: load_of_def select_optimizer_def keeps_intros)

lemma keeps_say_health [keeps_intros]: "keeps (\<lambda>(s, w). P s) (say_health C c n)"
  by (auto simp: say_health_def intro!: keeps_intros)

lemma keeps_history [keeps_intros]: "keeps (\<lambda>(s, w). P s) (cmd_cluster_history C name)"
  unfolding cmd_cluster_history_def
  by (rule keeps_bind [OF keeps_world(3)]) (auto split: option.split intro!: keeps_intros simp del: ret_simps)

lemma unchanged: "keeps (\<lambda>(s, w). s = fst st) m \<Longrightarrow> fst (snd (m st)) = fst st"
  by (cases st) (auto simp: keeps_def split_beta)

text \<open>The commands that show clusters, their topology, nodes, task, history and events, services, jobs or a plan leave the store as it is,
  even when they fail or ask the agents of the nodes.\<close>

theorem shown_commands_keep_store:
  "fst (snd (cmd_status C st)) = fst st \<and> fst (snd (cmd_cluster_status C name st)) = fst st \<and>
   fst (snd (cmd_cluster_nodes C health name st)) = fst st \<and> fst (snd (cmd_cluster_yaml C name st)) = fst st \<and>
   fst (snd (cmd_cluster_history C name st)) = fst st \<and> fst (snd (cmd_cluster_events C name st)) = fst st \<and>
   fst (snd (cmd_serve_status C st)) = fst st \<and> fst (snd (cmd_jobs_status C st)) = fst st \<and> fst (snd (cmd_optimize C f path st)) = fst st"
  unfolding cmd_status_def cmd_cluster_status_def cmd_cluster_nodes_def cmd_cluster_yaml_def cmd_cluster_events_def cmd_serve_status_def
    cmd_jobs_status_def cmd_optimize_def
  by (intro conjI unchanged keeps_intros)

section \<open>Consent\<close>

lemma keeps_refresh [keeps_intros]: "keeps (\<lambda>(s, w). P s) (refresh_launch_price C l)"
  by (auto simp: refresh_launch_price_def intro!: keeps_intros)

lemma keeps_refreshed [keeps_intros]: "keeps (\<lambda>(s, w). P s) (refreshed_plan C p l)"
  unfolding refreshed_plan_def Let_def
  by (rule keeps_bind [OF keeps_refresh]) (auto split: sum.split option.split intro!: keeps_intros simp del: ret_simps)

lemma keeps_confirmed [keeps_intros]: "keeps (\<lambda>(s, w). P s) (confirmed C prompt yes)"
  by (auto simp: confirmed_def intro!: keeps_intros simp del: ret_simps)

lemma keeps_choose [keeps_intros]: "keeps (\<lambda>(s, w). P s) (choose_launch C f name ts opt)"
  by (auto simp: choose_launch_def intro!: keeps_intros simp del: ret_simps)

text \<open>What a user who never says yes gives as an answer.\<close>

definition never_agrees :: "('p, 'w) cli \<Rightarrow> bool" where
  "never_agrees C \<longleftrightarrow> (\<forall>w. to_lower (trim_space (fst (ci_answer C w))) \<noteq> ''y'')"

lemma confirmed_no:
  assumes "never_agrees C" "confirmed C prompt (\<lambda>a. to_lower (trim_space a) = ''y'') st = (Inr yes, st')"
  shows "\<not> yes"
  using assms by (auto simp: confirmed_def never_agrees_def seq_act_def bind_act_Inr world_def split: prod.splits if_splits) (metis fst_conv)

lemma chosen_needs_consent:
  assumes "choose_launch C f name ts opt st = (Inr (Some l), st')" "t_backend ts = ''cloud''"
    "lf_dry_run f \<or> \<not> lf_yes f \<and> never_agrees C"
  shows False
  using assms by (auto simp: choose_launch_def seq_act_def bind_act_Inr split: if_splits dest: confirmed_no)

text \<open>C36. A launch in the cloud that is a dry run, or that the user does not agree to, leaves the store as it is: no cluster is launched,
  whatever the plan and the prices are.\<close>

theorem launch_needs_consent:
  assumes "\<And>w ts. x_load_task (ci_ext C) path w = Inr ts \<Longrightarrow> t_backend ts = ''cloud''"
    and "lf_dry_run f \<or> \<not> lf_yes f \<and> never_agrees C"
  shows "fst (snd (cmd_launch C f path st)) = fst st"
proof -
  obtain r st1 where load: "load_of (ci_ext C) path st = (r, st1)" by (rule prod.exhaust)
  have st1: "fst st1 = fst st" using unchanged [of st "load_of (ci_ext C) path", OF keeps_load_select(1)] load by simp
  show ?thesis
  proof (cases r)
    case (Inl e)
    then show ?thesis using load st1 by (simp add: cmd_launch_def bind_act_def)
  next
    case (Inr ts0)
    then have cloud: "t_backend (override_nodes (lf_num_nodes f) ts0) = ''cloud''"
      using assms(1) load by (cases st) (auto simp: load_of_def world_def override_nodes_def)
    let ?opt = "resolve_optimizer (pn_registry (ci_planner C)) (lf_optimizer f)"
    show ?thesis
    proof (cases ?opt)
      case (Inl e)
      then show ?thesis using load st1 Inr by (simp add: cmd_launch_def bind_act_def select_optimizer_def Let_def)
    next
      case opt: (Inr opt)
      let ?choice = "choose_launch C f (or_config (lf_cluster f) (t_name ts0)) (override_nodes (lf_num_nodes f) ts0) opt"
      obtain chosen st2 where c: "?choice st1 = (chosen, st2)" by (rule prod.exhaust)
      have "fst st2 = fst st" using unchanged [of st1 ?choice, OF keeps_choose] c st1 by simp
      moreover have "chosen \<noteq> Inr (Some l)" for l using chosen_needs_consent [OF _ cloud assms(2)] c by blast
      ultimately show ?thesis using load Inr opt c
        by (cases chosen; cases "projr chosen") (auto simp: cmd_launch_def bind_act_def select_optimizer_def Let_def)
    qed
  qed
qed

text \<open>A catalog with one type, and a user who answers no.\<close>

definition refusing_cli :: "(unit, int) cli" where
  "refusing_cli = \<lparr>ci_ext = sample_ext\<lparr>x_load_task := (\<lambda>_ _. Inr demo_task)\<rparr>, ci_rounds = 1, ci_dir = ''home'',
     ci_planner = \<lparr>pn_registry = initial_registry,
       pn_meta = \<lparr>m_clouds = (\<lambda>w. (Inr [''sim''], w)), m_regions = (\<lambda>_ w. (Inr [''r''], w)),
         m_instances = (\<lambda>_ _ w. (Inr [\<lparr>it_cloud = ''sim'', it_region = ''r'', it_type = ''small'', it_vcpus = 2, it_memory = Fin 4, it_accel = [],
           it_max_disk = Fin 0\<rparr>], w)), m_prices = (\<lambda>_ _ _ w. ([], None, w))\<rparr>\<rparr>,
     ci_config = None, ci_print = (\<lambda>_ w. w + 1), ci_answer = (\<lambda>w. (''n'', w)), ci_forced = (\<lambda>_ _ _ w. (Inr [], w)), ci_health = (\<lambda>_. None)\<rparr>"

definition plain_flags :: launch_flags where
  "plain_flags = \<lparr>lf_cluster = ''c'', lf_cloud = [], lf_region = [], lf_zone = None, lf_num_nodes = 0, lf_spot = None, lf_optimizer = [],
     lf_dry_run = False, lf_yes = False\<rparr>"

theorem launch_needs_consent_witness: "fst (snd (cmd_launch refusing_cli plain_flags ''t.yaml'' (empty_store, 0))) = empty_store"
proof -
  have "to_lower (trim_space ''n'') \<noteq> ''y''" by code_simp
  then have "never_agrees refusing_cli" by (simp add: never_agrees_def refusing_cli_def)
  then show ?thesis
    using launch_needs_consent [of refusing_cli "''t.yaml''" plain_flags "(empty_store, 0)"]
    by (simp add: refusing_cli_def plain_flags_def demo_task_def)
qed

section \<open>The token commands\<close>

lemma trim_prefix_default: "api_root (configured_server f (new_server X bs P hash random new_token mktemp)) = default_api_prefix"
  if "getenv (x_env X) ''GPI_API_PREFIX'' = []" "vf_api_prefix f = []"
proof -
  have "hs_prefix (configured_server f (new_server X bs P hash random new_token mktemp)) = default_api_prefix"
    using that by (simp add: configured_server_def Let_def set_api_prefix_def new_server_def env_or_def set_response_encoder_def
        set_request_id_header_def set_key_style_def split: option.split)
  then show ?thesis by (simp add: api_root_def default_api_prefix_def has_prefix_def)
qed

text \<open>
  The commands ask for \<open>/api/v1/tokens\<close> and what is below it; a server that is started without a prefix of its own serves its interface
  under \<open>/api/v1/gpi\<close> and answers that there is no such page.
\<close>

lemma token_commands_miss_the_server:
  assumes "getenv (x_env X) ''GPI_API_PREFIX'' = []" "vf_api_prefix f = []"
    and "S = configured_server f (new_server X bs P hash random new_token mktemp)"
    and "hq_path r = tokens_path @ rest"
  shows "mux S D page w r = answer w 404 None"
proof -
  have "api_route S D r = None"
    using trim_prefix_default [OF assms(1,2)] assms(3,4)
    by (simp add: api_route_def api_segments_def has_prefix_def default_api_prefix_def tokens_path_def)
  then show ?thesis using assms(4) by (simp add: mux_def tokens_path_def)
qed

end
