(* ===== verification/Server_Docs.thy ===== *)
theory Server_Docs
  imports Server_Api
begin

text \<open>
  The document of the interface, \<open>internal/server/swagger.go\<close>: an OpenAPI description of the routes and of the bodies of the requests, with the
  prefix the server has. Texts are bytes. The pages that show it are constant.
\<close>

section \<open>Operations\<close>

definition typed :: "string \<Rightarrow> json" where "typed t = JObj [(''type'', JStr t)]"

definition described :: "string \<Rightarrow> string \<Rightarrow> json" where
  "described t d = JObj [(''type'', JStr t), (''description'', JStr d)]"

definition answer_doc :: "string \<Rightarrow> json" where
  "answer_doc what = JObj [(''description'', JStr what),
     (''content'', JObj [(''application/json'', JObj [(''schema'', typed ''object'')])])]"

definition op_fields :: "string \<Rightarrow> string list \<Rightarrow> (string \<times> json) list" where
  "op_fields summary tags =
     [(''summary'', JStr summary), (''tags'', JArr (map JStr tags)),
      (''responses'', JObj [(''200'', answer_doc ''Success''), (''400'', answer_doc ''Error''), (''500'', answer_doc ''Error'')])]"

definition op_doc :: "string \<Rightarrow> string list \<Rightarrow> json" where
  "op_doc summary tags = JObj (op_fields summary tags)"

definition ref_text :: "string \<Rightarrow> string" where
  "ref_text schema = ''#/components/schemas/'' @ schema"

text \<open>An operation with a body.\<close>

definition post_doc :: "string \<Rightarrow> string list \<Rightarrow> string \<Rightarrow> json" where
  "post_doc summary tags schema = JObj (op_fields summary tags @
     [(''requestBody'', JObj [(''required'', JBool True),
        (''content'', JObj [(''application/json'', JObj [(''schema'', JObj [(''$ref'', JStr (ref_text schema))])])])])])"

definition path_param :: "string \<Rightarrow> json" where
  "path_param name = JArr [JObj [(''name'', JStr name), (''in'', JStr ''path''), (''required'', JBool True), (''schema'', typed ''string'')]]"

definition paths_doc :: "string \<Rightarrow> (string \<times> json) list" where
  "paths_doc prefix =
     [(prefix @ ''/clusters'', JObj [(''get'', op_doc ''List clusters'' [''clusters''])]),
      (prefix @ ''/clusters/{name}'', JObj [(''get'', op_doc ''Get a cluster'' [''clusters'']), (''delete'', op_doc ''Terminate a cluster'' [''clusters'']), (''parameters'', path_param ''name'')]),
      (prefix @ ''/clusters/{name}/launch'', JObj [(''post'', post_doc ''Launch a task given as YAML string'' [''clusters''] ''launchRequest''), (''parameters'', path_param ''name'')]),
      (prefix @ ''/tasks/{name}/launch'', JObj [(''post'', post_doc ''Launch a task given as a structured Task object'' [''tasks''] ''taskLaunchRequest''), (''parameters'', path_param ''name'')]),
      (prefix @ ''/services'', JObj [(''get'', op_doc ''List services'' [''services''])]),
      (prefix @ ''/services/up'', JObj [(''post'', post_doc ''Deploy a service'' [''services''] ''serviceUpRequest'')]),
      (prefix @ ''/services/{name}'', JObj [(''delete'', op_doc ''Tear down a service'' [''services'']), (''parameters'', path_param ''name'')]),
      (prefix @ ''/jobs'', JObj [(''get'', op_doc ''List jobs'' [''jobs'']), (''post'', post_doc ''Submit a job'' [''jobs''] ''jobSubmitRequest'')]),
      (prefix @ ''/jobs/{name}/run'', JObj [(''post'', post_doc ''Run a job'' [''jobs''] ''jobRunRequest''), (''parameters'', path_param ''name'')]),
      (prefix @ ''/config'', JObj [(''get'', op_doc ''List config entries'' [''config''])]),
      (prefix @ ''/config/{key}'', JObj [(''get'', op_doc ''Get a config value'' [''config'']), (''put'', op_doc ''Set a config value'' [''config'']), (''parameters'', path_param ''key'')]),
      (prefix @ ''/tokens'', JObj [(''get'', op_doc ''List tokens'' [''tokens'']), (''post'', op_doc ''Create a token'' [''tokens''])]),
      (prefix @ ''/tokens/{id}'', JObj [(''delete'', op_doc ''Revoke a token'' [''tokens'']), (''parameters'', path_param ''id'')]),
      (prefix @ ''/tokens/{id}/rotate'', JObj [(''post'', op_doc ''Rotate a token'' [''tokens'']), (''parameters'', path_param ''id'')])]"

section \<open>Bodies\<close>

definition launch_request_doc :: json where
  "launch_request_doc = JObj
     [(''type'', JStr ''object''),
      (''properties'', JObj
       [(''name'', described ''string'' ''Cluster name (defaults to task name)''),
        (''task'', described ''string'' ''Task YAML''),
        (''clusterName'', typed ''string''),
        (''cloud'', described ''string'' ''Cloud filter''),
        (''region'', typed ''string''),
        (''numNodes'', typed ''integer''),
        (''useSpot'', typed ''boolean''),
        (''dryRun'', described ''boolean'' ''Only compute the placement plan''),
        (''runTask'', described ''boolean'' ''Start running the task after provisioning''),
        (''optimizer'', described ''string'' ''Placement optimizer or strategy: cost, time, or a priority list like cost,time (default: cost)'')])]"

definition task_launch_request_doc :: json where
  "task_launch_request_doc = JObj
     [(''type'', JStr ''object''),
      (''properties'', JObj
       [(''task'', JObj [(''$ref'', JStr (ref_text ''Task'')), (''description'', JStr ''Task object (structured JSON)'')]),
        (''cloud'', typed ''string''),
        (''region'', typed ''string''),
        (''numNodes'', typed ''integer''),
        (''useSpot'', typed ''boolean''),
        (''dryRun'', described ''boolean'' ''Only compute the placement plan''),
        (''runTask'', described ''boolean'' ''Start running the task after provisioning''),
        (''optimizer'', described ''string'' ''Placement optimizer or strategy (default: cost)'')]),
      (''required'', JArr [JStr ''task''])]"

definition task_doc :: json where
  "task_doc = JObj
     [(''type'', JStr ''object''),
      (''description'', JStr ''A task to launch: resources to provision plus setup/run commands.''),
      (''properties'', JObj
       [(''name'', described ''string'' ''Cluster/task name (optional; generated if empty)''),
        (''numNodes'', described ''integer'' ''Number of nodes, >1 auto-forms Ray cluster (optional, default 1)''),
        (''resources'', JObj [(''$ref'', JStr (ref_text ''Resources''))]),
        (''workdir'', described ''string'' ''Optional local working directory uploaded to every node''),
        (''fileMounts'', JObj [(''type'', JStr ''object''), (''additionalProperties'', typed ''string''), (''description'', JStr ((''Optional local files copied to each node (path '' @ [CHR 0xE2] @ [CHR 0x86] @ [CHR 0x92] @ '' remote path)'')))]),
        (''tags'', JObj [(''type'', JStr ''object''), (''additionalProperties'', typed ''string''), (''description'', JStr ''Optional labels attached to cloud instances'')]),
        (''credentials'', described ''object'' ''Optional per-cloud access keys: { <cloud>: { accessKeyId, secretAccessKey, region } }''),
        (''backend'', described ''string'' ''Optional execution backend: cloud|existing|docker|local (default cloud)''),
        (''ssh'', JObj [(''$ref'', JStr (ref_text ''SSHTarget''))]),
        (''docker'', JObj [(''$ref'', JStr (ref_text ''DockerSpec''))]),
        (''setup'', described ''string'' ''Optional setup script run on every node before the task''),
        (''run'', described ''string'' ''Main command executed on the head node''),
        (''envs'', JObj [(''type'', JStr ''object''), (''additionalProperties'', typed ''string''), (''description'', JStr ''Optional extra environment variables'')]),
        (''service'', JObj [(''$ref'', JStr (ref_text ''ServiceSpec''))])])]"

definition ssh_target_doc :: json where
  "ssh_target_doc = JObj
     [(''type'', JStr ''object''),
      (''description'', JStr ''Existing host to attach to (backend: existing).''),
      (''properties'', JObj
       [(''host'', typed ''string''),
        (''user'', described ''string'' ''Optional, default root''),
        (''key'', described ''string'' ''Optional SSH private key path''),
        (''port'', described ''integer'' ''Optional, default 22'')])]"

definition docker_spec_doc :: json where
  "docker_spec_doc = JObj
     [(''type'', JStr ''object''),
      (''description'', JStr ''Container execution config (backend: docker).''),
      (''properties'', JObj
       [(''image'', typed ''string''),
        (''volumes'', JObj [(''type'', JStr ''object''), (''additionalProperties'', typed ''string'')]),
        (''envs'', JObj [(''type'', JStr ''object''), (''additionalProperties'', typed ''string'')]),
        (''gpus'', described ''integer'' ''Optional number of host GPUs'')])]"

definition service_spec_doc :: json where
  "service_spec_doc = JObj
     [(''type'', JStr ''object''),
      (''description'', JStr ''Exposes the task as a replicated service.''),
      (''properties'', JObj
       [(''replicas'', typed ''integer''),
        (''port'', typed ''integer''),
        (''healthCheck'', described ''string'' ''Optional health probe''),
        (''workingDir'', described ''string'' ''Optional working directory''),
        (''run'', described ''string'' ''Optional service run command (defaults to task run)''),
        (''readyServer'', described ''string'' ''Optional readiness URL''),
        (''ports'', JObj [(''type'', JStr ''array''), (''items'', typed ''integer'')]),
        (''targetConcurrentSessions'', described ''integer'' ''Optional autoscaling target'')])]"

definition resources_doc :: json where
  "resources_doc = JObj
     [(''type'', JStr ''object''),
      (''description'', JStr ''Compute requirements used to filter candidate instance types.''),
      (''properties'', JObj
       [(''cloud'', typed ''string''),
        (''region'', typed ''string''),
        (''zone'', typed ''string''),
        (''instanceType'', typed ''string''),
        (''cpus'', JObj [(''oneOf'', JArr [typed ''string'', typed ''integer'']), (''description'', JStr ((''CPU range, e.g. '' @ [CHR 0x22] @ ''8+'' @ [CHR 0x22] @ '', '' @ [CHR 0x22] @ ''4-8'' @ [CHR 0x22] @ '', or a fixed number'')))]),
        (''memory'', JObj [(''oneOf'', JArr [typed ''string'', typed ''integer'']), (''description'', JStr ((''Memory in GiB, e.g. '' @ [CHR 0x22] @ ''16+'' @ [CHR 0x22])))]),
        (''diskSize'', JObj [(''oneOf'', JArr [typed ''string'', typed ''integer''])]),
        (''accelerators'', JObj [(''type'', JStr ''object''), (''additionalProperties'', typed ''integer''), (''description'', JStr ((''e.g. {'' @ [CHR 0x22] @ ''A100'' @ [CHR 0x22] @ '': 1}'')))]),
        (''useSpot'', typed ''boolean''),
        (''timeSec'', described ''integer'' ''Estimated runtime in seconds (used by the time metric)''),
        (''labels'', JObj [(''type'', JStr ''object''), (''additionalProperties'', typed ''string'')])])]"

definition service_up_request_doc :: json where
  "service_up_request_doc = JObj
     [(''type'', JStr ''object''),
      (''properties'', JObj
       [(''name'', typed ''string''),
        (''task'', described ''string'' ''Task YAML with a service block''),
        (''cloud'', typed ''string''),
        (''region'', typed ''string''),
        (''optimizer'', described ''string'' ''Placement optimizer or strategy (default: cost)'')])]"

definition job_submit_request_doc :: json where
  "job_submit_request_doc = JObj
     [(''type'', JStr ''object''),
      (''properties'', JObj
       [(''name'', typed ''string''),
        (''task'', described ''string'' ''Task YAML or task file path''),
        (''schedule'', JObj [(''type'', JStr ''string''), (''description'', JStr ((''Cron schedule, e.g. '' @ [CHR 0x27] @ ''0 0 * * *'' @ [CHR 0x27])))]),
        (''retries'', typed ''integer''),
        (''optimizer'', described ''string'' ''Placement optimizer or strategy (default: cost)'')])]"

definition job_run_request_doc :: json where
  "job_run_request_doc = JObj
     [(''type'', JStr ''object''),
      (''properties'', JObj
       [(''name'', typed ''string'')])]"

section \<open>The document\<close>

definition info_doc :: "string \<Rightarrow> json" where
  "info_doc version = JObj
     [(''title'', JStr ''gpi API''),
      (''version'', JStr version),
      (''description'', JStr (''gpi multi-cloud compute scheduler REST API. '' @ ''Authenticate with `Authorization: Bearer <token>` when the server runs with --require-auth.''))]"

definition tags_doc :: json where
  "tags_doc = JArr
     [JObj [(''name'', JStr ''clusters''), (''description'', JStr ''Cluster lifecycle'')],
      JObj [(''name'', JStr ''tasks''), (''description'', JStr ''Task submission (structured JSON body)'')],
      JObj [(''name'', JStr ''services''), (''description'', JStr ''Replicated services'')],
      JObj [(''name'', JStr ''jobs''), (''description'', JStr ''Scheduled jobs'')],
      JObj [(''name'', JStr ''config''), (''description'', JStr ''Runtime configuration'')],
      JObj [(''name'', JStr ''tokens''), (''description'', JStr ''Service-account tokens'')]]"

definition schemas_doc :: "(string \<times> json) list" where
  "schemas_doc =
     [(''launchRequest'', launch_request_doc),
      (''taskLaunchRequest'', task_launch_request_doc),
      (''Task'', task_doc),
      (''SSHTarget'', ssh_target_doc),
      (''DockerSpec'', docker_spec_doc),
      (''ServiceSpec'', service_spec_doc),
      (''Resources'', resources_doc),
      (''serviceUpRequest'', service_up_request_doc),
      (''jobSubmitRequest'', job_submit_request_doc),
      (''jobRunRequest'', job_run_request_doc)]"

definition swagger_spec :: "string \<Rightarrow> string \<Rightarrow> json" where
  "swagger_spec version prefix = JObj
     [(''openapi'', JStr ''3.0.3''), (''info'', info_doc version), (''tags'', tags_doc), (''paths'', JObj (paths_doc prefix)),
      (''components'', JObj
         [(''securitySchemes'', JObj [(''bearerAuth'',
             JObj [(''type'', JStr ''http''), (''scheme'', JStr ''bearer''), (''bearerFormat'', JStr ''token'')])]),
          (''schemas'', JObj schemas_doc)]),
      (''security'', JArr [JObj [(''bearerAuth'', JArr [])]])]"

text \<open>What a server answers at \<open>/swagger.json\<close>: the keys are not put in its style.\<close>

definition server_spec :: "string \<Rightarrow> ('p, 'w) server \<Rightarrow> json" where
  "server_spec version S = swagger_spec version (if hs_prefix S = [] then default_api_prefix else hs_prefix S)"

end
