(* ===== verification/Server_Docs_Props.thy ===== *)
theory Server_Docs_Props
  imports Server_Docs Server_Props
begin

text \<open>
  The document against the server: it describes the routes the server has and no others, and every schema it refers to is in it.
\<close>

section \<open>Reading the document\<close>

fun object_fields :: "json \<Rightarrow> (string \<times> json) list" where
  "object_fields (JObj kvs) = kvs"
| "object_fields _ = []"

definition field_of :: "string \<Rightarrow> json \<Rightarrow> json" where
  "field_of k j = (case mget (object_fields j) k of Some v \<Rightarrow> v | None \<Rightarrow> JNull)"

definition operations :: "json \<Rightarrow> (string \<times> string) list" where
  "operations spec =
     concat (map (\<lambda>pi. map (Pair (fst pi)) (filter (\<lambda>m. m \<in> set [''get'', ''put'', ''post'', ''delete'']) (mkeys (object_fields (snd pi)))))
       (object_fields (field_of ''paths'' spec)))"

text \<open>A segment in braces stands for any that is not empty.\<close>

definition seg_match :: "string \<Rightarrow> string \<Rightarrow> bool" where
  "seg_match t s \<longleftrightarrow> (if has_prefix t ''{'' then s \<noteq> [] else t = s)"

definition path_segments :: "string \<Rightarrow> string \<Rightarrow> string list" where
  "path_segments base path = split_on CHR ''/'' (drop (length base + 1) path)"

text \<open>A server answers \<open>HEAD\<close> where it answers \<open>GET\<close>.\<close>

definition spec_verb :: "string \<Rightarrow> string option" where
  "spec_verb verb = map_of [(''GET'', ''get''), (''HEAD'', ''get''), (''PUT'', ''put''), (''POST'', ''post''), (''DELETE'', ''delete'')] verb"

definition documented :: "string \<Rightarrow> json \<Rightarrow> string \<Rightarrow> string list \<Rightarrow> bool" where
  "documented base spec verb segs \<longleftrightarrow>
     list_ex (\<lambda>(path, m). spec_verb verb = Some m \<and> list_all2 seg_match (path_segments base path) segs) (operations spec)"

section \<open>Routes\<close>

definition routes_table :: "(string list \<times> string) list" where
  "routes_table =
     [([''clusters''], ''get''), ([''clusters'', ''{name}''], ''get''), ([''clusters'', ''{name}''], ''delete''),
      ([''clusters'', ''{name}'', ''launch''], ''post''), ([''tasks'', ''{name}'', ''launch''], ''post''), ([''services''], ''get''),
      ([''services'', ''up''], ''post''), ([''services'', ''{name}''], ''delete''), ([''jobs''], ''get''), ([''jobs''], ''post''),
      ([''jobs'', ''{name}'', ''run''], ''post''), ([''config''], ''get''), ([''config'', ''{key}''], ''get''), ([''config'', ''{key}''], ''put''),
      ([''tokens''], ''get''), ([''tokens''], ''post''), ([''tokens'', ''{id}''], ''delete''), ([''tokens'', ''{id}'', ''rotate''], ''post'')]"

lemma spec_paths: "object_fields (field_of ''paths'' (swagger_spec version prefix)) = paths_doc prefix"
  by (simp add: swagger_spec_def field_of_def)

lemma method_keys [simp]:
  "filter (\<lambda>m. m \<in> set [''get'', ''put'', ''post'', ''delete'']) [''get''] = [''get'']"
  "filter (\<lambda>m. m \<in> set [''get'', ''put'', ''post'', ''delete'']) [''post''] = [''post'']"
  "filter (\<lambda>m. m \<in> set [''get'', ''put'', ''post'', ''delete'']) [''get'', ''post''] = [''get'', ''post'']"
  "filter (\<lambda>m. m \<in> set [''get'', ''put'', ''post'', ''delete'']) [''post'', ''parameters''] = [''post'']"
  "filter (\<lambda>m. m \<in> set [''get'', ''put'', ''post'', ''delete'']) [''delete'', ''parameters''] = [''delete'']"
  "filter (\<lambda>m. m \<in> set [''get'', ''put'', ''post'', ''delete'']) [''get'', ''delete'', ''parameters''] = [''get'', ''delete'']"
  "filter (\<lambda>m. m \<in> set [''get'', ''put'', ''post'', ''delete'']) [''get'', ''put'', ''parameters''] = [''get'', ''put'']"
  by code_simp+

lemma operations_list: "operations (swagger_spec version prefix) = map (\<lambda>(path, m). (prefix @ path, m))
   [(''/clusters'', ''get''), (''/clusters/{name}'', ''get''), (''/clusters/{name}'', ''delete''), (''/clusters/{name}/launch'', ''post''),
    (''/tasks/{name}/launch'', ''post''), (''/services'', ''get''), (''/services/up'', ''post''), (''/services/{name}'', ''delete''),
    (''/jobs'', ''get''), (''/jobs'', ''post''), (''/jobs/{name}/run'', ''post''), (''/config'', ''get''), (''/config/{key}'', ''get''),
    (''/config/{key}'', ''put''), (''/tokens'', ''get''), (''/tokens'', ''post''), (''/tokens/{id}'', ''delete''), (''/tokens/{id}/rotate'', ''post'')]"
  unfolding operations_def spec_paths
  by (simp only: paths_doc_def list.map concat.simps fst_conv snd_conv object_fields.simps method_keys append.simps prod.case)

lemma segments_below: "path_segments base (base @ CHR ''/'' # t) = split_on CHR ''/'' t"
  by (simp add: path_segments_def)

lemma split_texts:
  "split_on CHR ''/'' ''clusters'' = [''clusters'']" "split_on CHR ''/'' ''clusters/{name}'' = [''clusters'', ''{name}'']"
  "split_on CHR ''/'' ''clusters/{name}/launch'' = [''clusters'', ''{name}'', ''launch'']"
  "split_on CHR ''/'' ''tasks/{name}/launch'' = [''tasks'', ''{name}'', ''launch'']"
  "split_on CHR ''/'' ''services'' = [''services'']" "split_on CHR ''/'' ''services/up'' = [''services'', ''up'']"
  "split_on CHR ''/'' ''services/{name}'' = [''services'', ''{name}'']" "split_on CHR ''/'' ''jobs'' = [''jobs'']"
  "split_on CHR ''/'' ''jobs/{name}/run'' = [''jobs'', ''{name}'', ''run'']" "split_on CHR ''/'' ''config'' = [''config'']"
  "split_on CHR ''/'' ''config/{key}'' = [''config'', ''{key}'']" "split_on CHR ''/'' ''tokens'' = [''tokens'']"
  "split_on CHR ''/'' ''tokens/{id}'' = [''tokens'', ''{id}'']" "split_on CHR ''/'' ''tokens/{id}/rotate'' = [''tokens'', ''{id}'', ''rotate'']"
  by code_simp+

lemma operations_table: "map (\<lambda>(path, m). (path_segments prefix path, m)) (operations (swagger_spec version prefix)) = routes_table"
  unfolding operations_list
  by (simp only: list.map prod.case segments_below split_texts routes_table_def)

lemma documented_table:
  "documented prefix (swagger_spec version prefix) verb segs \<longleftrightarrow>
     list_ex (\<lambda>(ts, m). spec_verb verb = Some m \<and> list_all2 seg_match ts segs) routes_table"
  unfolding documented_def operations_table [of prefix version, symmetric] by (simp add: list_ex_iff split_beta)

lemma seg_match_words [simp]:
  "seg_match ''clusters'' s \<longleftrightarrow> s = ''clusters''" "seg_match ''tasks'' s \<longleftrightarrow> s = ''tasks''" "seg_match ''services'' s \<longleftrightarrow> s = ''services''"
  "seg_match ''jobs'' s \<longleftrightarrow> s = ''jobs''" "seg_match ''config'' s \<longleftrightarrow> s = ''config''" "seg_match ''tokens'' s \<longleftrightarrow> s = ''tokens''"
  "seg_match ''launch'' s \<longleftrightarrow> s = ''launch''" "seg_match ''up'' s \<longleftrightarrow> s = ''up''" "seg_match ''run'' s \<longleftrightarrow> s = ''run''"
  "seg_match ''rotate'' s \<longleftrightarrow> s = ''rotate''" "seg_match ''{name}'' s \<longleftrightarrow> s \<noteq> []" "seg_match ''{key}'' s \<longleftrightarrow> s \<noteq> []" "seg_match ''{id}'' s \<longleftrightarrow> s \<noteq> []"
  by (auto simp: seg_match_def has_prefix_def)

lemmas table_simps = routes_table_def list_ex_Nil_iff list_ex_Cons_iff prod.case list_all2_Cons list_all2_Nil list_all2_Nil2 seg_match_words list.distinct list.inject
  not_False_eq_True simp_thms

lemma table_one: "list_ex (\<lambda>(ts, m). spec_verb verb = Some m \<and> list_all2 seg_match ts [a]) routes_table \<longleftrightarrow>
    spec_verb verb = Some ''get'' \<and> (a = ''clusters'' \<or> a = ''services'' \<or> a = ''jobs'' \<or> a = ''config'' \<or> a = ''tokens'') \<or>
    spec_verb verb = Some ''post'' \<and> (a = ''jobs'' \<or> a = ''tokens'')"
  by (simp only: table_simps) sat

lemma table_two: "list_ex (\<lambda>(ts, m). spec_verb verb = Some m \<and> list_all2 seg_match ts [a, x]) routes_table \<longleftrightarrow>
    spec_verb verb = Some ''get'' \<and> a = ''clusters'' \<and> x \<noteq> [] \<or>
    spec_verb verb = Some ''delete'' \<and> a = ''clusters'' \<and> x \<noteq> [] \<or>
    spec_verb verb = Some ''post'' \<and> a = ''services'' \<and> x = ''up'' \<or>
    spec_verb verb = Some ''delete'' \<and> a = ''services'' \<and> x \<noteq> [] \<or>
    spec_verb verb = Some ''get'' \<and> a = ''config'' \<and> x \<noteq> [] \<or>
    spec_verb verb = Some ''put'' \<and> a = ''config'' \<and> x \<noteq> [] \<or>
    spec_verb verb = Some ''delete'' \<and> a = ''tokens'' \<and> x \<noteq> []"
  by (simp only: table_simps)

lemma table_three: "list_ex (\<lambda>(ts, m). spec_verb verb = Some m \<and> list_all2 seg_match ts [a, x, b]) routes_table \<longleftrightarrow>
    x \<noteq> [] \<and> spec_verb verb = Some ''post'' \<and>
      (a = ''clusters'' \<and> b = ''launch'' \<or> a = ''tasks'' \<and> b = ''launch'' \<or> a = ''jobs'' \<and> b = ''run'' \<or> a = ''tokens'' \<and> b = ''rotate'')"
  by (simp only: table_simps) sat

lemma table_lengths: "list_all (\<lambda>(ts, m). length ts = 1 \<or> length ts = 2 \<or> length ts = 3) routes_table"
  by (simp add: routes_table_def)

lemma table_other: "segs = [] \<or> 3 < length segs \<Longrightarrow> \<not> list_ex (\<lambda>(ts, m). spec_verb verb = Some m \<and> list_all2 seg_match ts segs) routes_table"
  using table_lengths by (fastforce simp: list_ex_iff list_all_iff dest: list_all2_lengthD)

lemma spec_verb_cases:
  "spec_verb verb = Some ''get'' \<longleftrightarrow> verb = ''GET'' \<or> verb = ''HEAD''" "spec_verb verb = Some ''post'' \<longleftrightarrow> verb = ''POST''"
  "spec_verb verb = Some ''put'' \<longleftrightarrow> verb = ''PUT''" "spec_verb verb = Some ''delete'' \<longleftrightarrow> verb = ''DELETE''"
  by (auto simp: spec_verb_def)

lemma collection_documented:
  "collection_route S D r a \<noteq> None \<longleftrightarrow> list_ex (\<lambda>(ts, m). spec_verb (hq_method r) = Some m \<and> list_all2 seg_match ts [a]) routes_table"
  unfolding table_one spec_verb_cases by (auto simp: collection_route_def is_get_def)

lemma item_documented:
  "item_route S D r a x \<noteq> None \<longleftrightarrow> list_ex (\<lambda>(ts, m). spec_verb (hq_method r) = Some m \<and> list_all2 seg_match ts [a, x]) routes_table"
  unfolding table_two spec_verb_cases by (auto simp: item_route_def is_get_def)

lemma action_documented:
  "action_route S D r a x b \<noteq> None \<longleftrightarrow>
     list_ex (\<lambda>(ts, m). spec_verb (hq_method r) = Some m \<and> list_all2 seg_match ts [a, x, b]) routes_table"
  unfolding table_three spec_verb_cases by (auto simp: action_route_def)

lemma segments_documented:
  "(case segs of [a] \<Rightarrow> collection_route S D r a | [a, x] \<Rightarrow> item_route S D r a x | [a, x, b] \<Rightarrow> action_route S D r a x b | _ \<Rightarrow> None) \<noteq> None \<longleftrightarrow>
     list_ex (\<lambda>(ts, m). spec_verb (hq_method r) = Some m \<and> list_all2 seg_match ts segs) routes_table"
proof -
  consider "segs = [] \<or> 3 < length segs" | a where "segs = [a]" | a x where "segs = [a, x]" | a x b where "segs = [a, x, b]"
    by (cases segs rule: remdups_adj.cases) (auto simp: numeral_3_eq_3 neq_Nil_conv, metis Suc_leI length_Cons length_0_conv neq_Nil_conv not_less_eq zero_less_Suc)
  then show ?thesis
  proof cases
    case 1
    then show ?thesis using table_other by (auto split: list.split)
  qed (simp_all add: collection_documented item_documented action_documented del: not_None_eq)
qed



text \<open>With a prefix from the environment without a slash the document names paths that are not those of the server.\<close>

lemma document_forgets_slash:
  assumes "hs_prefix S = c # s" "c \<noteq> CHR ''/''" "(path, item) \<in> set (object_fields (field_of ''paths'' (server_spec version S)))"
  shows "\<not> has_prefix path (api_root S)"
proof -
  have "has_prefix path [c]"
    using assms(1,3) unfolding server_spec_def spec_paths by (auto simp: paths_doc_def has_prefix_def)
  then show ?thesis using assms(1,2) by (cases path) (auto simp: api_root_def has_prefix_def Let_def)
qed

section \<open>Schemas\<close>

fun refs_in :: "json \<Rightarrow> string list" where
  "refs_in (JObj kvs) = concat (map (\<lambda>kv. if fst kv = ''$ref'' then [case snd kv of JStr s \<Rightarrow> s | _ \<Rightarrow> []] else refs_in (snd kv)) kvs)"
| "refs_in (JArr js) = concat (map refs_in js)"
| "refs_in j = []"

lemmas doc_defs = typed_def described_def answer_doc_def op_fields_def op_doc_def post_doc_def path_param_def paths_doc_def
  launch_request_doc_def task_launch_request_doc_def task_doc_def ssh_target_doc_def docker_spec_doc_def service_spec_doc_def
  resources_doc_def service_up_request_doc_def job_submit_request_doc_def job_run_request_doc_def info_doc_def tags_doc_def

lemma refs_resolved: "set (refs_in (swagger_spec version prefix)) \<subseteq> ref_text ` set (mkeys schemas_doc)"
  by (simp add: swagger_spec_def schemas_doc_def doc_defs)

end
