(* ===== verification/Server_Run.thy ===== *)
theory Server_Run
  imports Server_Props Serve_Props Job_Props
begin

text \<open>
  The server at work, \<open>Run\<close> and \<open>scheduler\<close> in \<open>internal/server/server.go\<close>: requests, the ticks of the scheduler and what goroutines have
  left to do, in any order, until the context is cancelled or the listener fails. Each of them is one step here. It is where all
  components meet, and where the invariant of the store is shown to hold.
\<close>

section \<open>Running\<close>

text \<open>
  \<open>net/http\<close> recovers from a panic in a handler, whose request is left without an answer; in any other goroutine a panic ends the program.
  \<open>Resume i\<close> is the turn of a goroutine that a handler has started, \<open>Pass w\<close> a change of the world.
\<close>

datatype 'w run_event = Request hreq | Resume nat | Scheduler_tick | Pass 'w | Cancelled | Listen_failed error

datatype 'w run_state = Serving "background list" "'w sys" | Returned "unit res" "'w sys" | Crashed string "'w sys"

fun run_sys :: "'w run_state \<Rightarrow> 'w sys" where
  "run_sys (Serving bg st) = st"
| "run_sys (Returned r st) = st"
| "run_sys (Crashed m st) = st"

definition goroutine :: "background list \<Rightarrow> (unit, 'w sys) act \<Rightarrow> 'w sys \<Rightarrow> 'w run_state" where
  "goroutine bg m st = (case m st of (Inl (Panic e), st1) \<Rightarrow> Crashed e st1 | (_, st1) \<Rightarrow> Serving bg st1)"

fun run_step ::
  "('p, 'w) server \<Rightarrow> decoders \<Rightarrow> (string \<Rightarrow> json) \<Rightarrow> 'w run_event \<Rightarrow> 'w run_state \<Rightarrow> 'w run_state" where
  "run_step S D page (Request r) (Serving bg st) =
     (case server_handler S D page opening_writer r st of
        (Inl _, st1) \<Rightarrow> Serving bg st1 | (Inr resp, st1) \<Rightarrow> Serving (bg @ rs_background resp) st1)"
| "run_step S D page (Resume i) (Serving bg st) =
     (if i < length bg then goroutine (take i bg @ drop (i + 1) bg) (run_background S (bg ! i)) st else Serving bg st)"
| "run_step S D page Scheduler_tick (Serving bg st) = goroutine bg (scheduler_tick (hs_ext S) (hs_backends S) (hs_planner S)) st"
| "run_step S D page (Pass w) (Serving bg st) = Serving bg (fst st, w)"
| "run_step S D page Cancelled (Serving bg st) = Returned (Inr ()) st"
| "run_step S D page (Listen_failed e) (Serving bg st) = Returned (Inl e) st"
| "run_step S D page ev R = R"

definition run_server ::
  "('p, 'w) server \<Rightarrow> decoders \<Rightarrow> (string \<Rightarrow> json) \<Rightarrow> 'w run_event list \<Rightarrow> 'w sys \<Rightarrow> 'w run_state" where
  "run_server S D page evs st = fold (run_step S D page) evs (Serving [] st)"

section \<open>The invariant\<close>

lemma keeps_bind_result:
  "keeps P m \<Longrightarrow> (\<And>x s s'. m s = (Inr x, s') \<Longrightarrow> keeps P (f x)) \<Longrightarrow> keeps P (bind_act m f)"
  by (fastforce simp: keeps_def bind_act_def split: prod.split sum.split)

lemma keeps_unless_panic [keeps_intros]: "keeps P m \<Longrightarrow> keeps P (unless_panic m)"
  by (auto simp: keeps_def unless_panic_def split: prod.splits sum.splits error.splits)

lemma keeps_each [keeps_intros]:
  "(\<And>x. keeps P (f x)) \<Longrightarrow> keeps P (each_quiet f xs)" "(\<And>n. keeps P (g n)) \<Longrightarrow> keeps P (run_due g ns)"
  "(\<And>i. keeps P (h i)) \<Longrightarrow> keeps P (up_replicas h is)"
proof -
  show "(\<And>x. keeps P (f x)) \<Longrightarrow> keeps P (each_quiet f xs)" by (induction xs) (auto intro: keeps_intros simp del: ret_simps)
  show "(\<And>n. keeps P (g n)) \<Longrightarrow> keeps P (run_due g ns)" by (induction ns) (auto intro: keeps_intros simp del: ret_simps)
  show "(\<And>i. keeps P (h i)) \<Longrightarrow> keeps P (up_replicas h is)" by (induction "is") (auto intro: keeps_intros simp del: ret_simps)
qed

text \<open>The calls of the backends, through the contract they meet.\<close>

lemma keeps_manager_down:
  assumes "cluster_invariant P"
  shows "keeps (\<lambda>(s, w). P s) (manager_down (manager_backends n X dir) name)"
  unfolding manager_down_def
proof (rule keeps_bind_result [OF keeps_for_cluster])
  fix b s s'
  assume "for_cluster (manager_backends n X dir) name s = (Inr b, s')"
  then obtain nm where "mget (manager_backends n X dir) nm = Some b" using for_cluster_backend by blast
  with manager_backend have "backend_contract b" by blast
  then show "keeps (\<lambda>(s, w). P s) (eb_down b name)" by (rule backend_contract.life_keeps(1) [OF _ assms])
qed

lemma keeps_run_task: "keeps (\<lambda>(s, w). P s) (manager_run_task (manager_backends n X dir) name ts stream)"
  by (rule keeps_neutral) (use runs_read_only in \<open>metis prod.collapse\<close>)

text \<open>The operations of the store that no other component has used.\<close>

lemma keeps_store_ops [keeps_intros]:
  "keeps (\<lambda>(s, w). store_ok s) (do_delete_service X name)"
  "keeps (\<lambda>(s, w). store_ok s) (do_mark_token X ident)"
  "keeps (\<lambda>(s, w). store_ok s) (stored (\<lambda>s w. set_config (x_backend X) (unix X w) key v s w))"
  unfolding do_delete_service_def do_mark_token_def
  by (rule keeps_op [where x = "\<lambda>s w. ODeleteService name"] keeps_op [where x = "\<lambda>s w. OMarkToken (unix X w) ident"]
      keeps_op [where x = "\<lambda>s w. OConfig (unix X w) key v"]; simp)+

lemma keeps_tokens [keeps_intros]:
  fixes S :: "('p, 'w) server"
  shows "keeps (\<lambda>(s, w). store_ok s) (do_create_token S name creator expires)"
    and "keeps (\<lambda>(s, w). store_ok s) (do_rotate_token S ident expires)"
    and "keeps (\<lambda>(s, w). store_ok s) (do_delete_token S ident)"
proof -
  have create: "store_ok (fst (snd (create_token B hash now secret i name creator expires s w)))" if "store_ok s"
    for B :: "'w backend_ops" and hash now secret i s w
    using run_op_ok [OF that, of "OCreateToken now secret i name creator expires" B hash w] by simp
  have rotate: "store_ok (fst (snd (rotate_token B hash now secret ident expires s w)))" if "store_ok s"
    for B :: "'w backend_ops" and hash now secret s w
    using run_op_ok [OF that, of "ORotateToken now secret ident expires" B hash w] by simp
  have delete: "store_ok (fst (snd (delete_token B ident s w)))" if "store_ok s" for B :: "'w backend_ops" and s w
    using run_op_ok [OF that, of "ODeleteToken ident" B id w] by simp
  show "keeps (\<lambda>(s, w). store_ok s) (do_create_token S name creator expires)"
    by (rule keeps_stI) (simp add: do_create_token_def split_beta create)
  show "keeps (\<lambda>(s, w). store_ok s) (do_rotate_token S ident expires)"
    by (rule keeps_stI) (simp add: do_rotate_token_def split_beta rotate)
  show "keeps (\<lambda>(s, w). store_ok s) (do_delete_token S ident)"
  proof (rule keeps_stI)
    fix st :: "'w sys"
    assume "store_ok (fst st)"
    then have "store_ok (fst (snd (delete_token (x_backend (hs_ext S)) ident (fst st) (snd st))))" by (rule delete)
    then show "store_ok (fst (snd (do_delete_token S ident st)))"
      by (auto simp: do_delete_token_def split: prod.splits option.splits)
  qed
qed

text \<open>Jobs and services.\<close>

lemma keeps_submit [keeps_intros]: "keeps (\<lambda>(s, w). store_ok s) (submit X name path schedule retries opt)"
proof -
  have add: "keeps (\<lambda>(s, w). store_ok s) (add_and_return X j)" for j
    using keeps_do_add_job [of X j] by (auto simp: keeps_def add_and_return_def split_beta)
  show ?thesis unfolding submit_def by (intro keeps_bind keeps_world add keeps_read_only [OF read_only_load_of])
qed

lemma keeps_attempts:
  assumes "keeps (\<lambda>(s, w). store_ok s) once"
  shows "keeps (\<lambda>(s, w). store_ok s) (attempts X name stream retries once err as)"
proof (induction "as" arbitrary: err)
  case Nil
  show ?case unfolding attempts.simps job_update_def by (intro keeps_intros) (simp add: mark_failed_def)
next
  case (Cons a "as")
  have update: "keeps (\<lambda>(s, w). store_ok s) (job_update X name g)" if "\<And>j. j_name (g j) = j_name j" for g
    unfolding job_update_def by (intro keeps_intros that)
  have "store_ok (fst (snd (case once st of
          (Inr _, st1) \<Rightarrow> job_update X name mark_done st1
        | (Inl (Panic m), st1) \<Rightarrow> (Inl (Panic m), st1)
        | (Inl (Err m), st1) \<Rightarrow> attempts X name stream retries once (Some (Err m)) as (snd (job_update X name (mark_attempt (Err m)) st1)))))"
    if "store_ok (fst st)" for st
  proof -
    obtain q st1 where q: "once st = (q, st1)" by (rule prod.exhaust)
    have ok: "store_ok (fst st1)" using keeps_store_okD [OF assms that] q by simp
    have "store_ok (fst (snd (job_update X name (mark_attempt e) st1)))" for e
      by (intro keeps_store_okD [OF update ok]) (simp add: mark_attempt_def)
    then show ?thesis
      using q ok keeps_store_okD [OF Cons.IH] keeps_store_okD [OF update ok, of mark_done]
      by (cases q) (auto simp: mark_done_def split: error.splits)
  qed
  then show ?case unfolding attempts.simps
    by (intro keeps_seq keeps_stI) (auto simp: note_retry_def intro: keeps_store_okD keeps_intros)
qed

lemma keeps_run_now: "keeps (\<lambda>(s, w). store_ok s) (run_now X (manager_backends n X dir) P name stream)"
  unfolding run_now_def job_update_def
  by (intro keeps_intros keeps_attempts keeps_run_once [OF ok.cluster_invariant_axioms] keeps_read_only read_only_load_of) (simp add: mark_started_def)

lemma keeps_reschedule [keeps_intros]: "keeps (\<lambda>(s, w). store_ok s) (reschedule X name)"
proof -
  have "op_ok (OUpdateJob t name (\<lambda>j. case q j of Inl e \<Rightarrow> (Some e, j) | Inr u \<Rightarrow> (None, set_next u j)))" for t and q :: "job \<Rightarrow> int option res"
    by (auto simp: set_next_def split: sum.split option.split)
  then show ?thesis unfolding reschedule_def
    by (intro keeps_op [where x = "\<lambda>s w. OUpdateJob (unix X w) name
        (\<lambda>j. case compute_next X j w of Inl e \<Rightarrow> (Some e, j) | Inr u \<Rightarrow> (None, set_next u j))"]) simp_all
qed

lemma keeps_tick: "keeps (\<lambda>(s, w). store_ok s) (scheduler_tick X (manager_backends n X dir) P)"
proof -
  have "keeps (\<lambda>(s, w). store_ok s) (run_due (scheduled_run X (manager_backends n X dir) P) ns)" for ns
    unfolding scheduled_run_def by (intro keeps_intros keeps_run_now)
  then show ?thesis by (intro keeps_stI) (simp add: scheduler_tick_def Let_def keeps_store_okD)
qed

lemma keeps_service_up:
  fixes X :: "('p, 'w) ext"
  shows "keeps (\<lambda>(s, w). store_ok s) (service_up X (manager_backends n X dir) name ts p)"
proof -
  have failed: "keeps (\<lambda>(s, w). store_ok s) (failed_replica X name i m)" for i m
    unfolding failed_replica_def by (intro keeps_intros ok.keeps_clusters) simp
  have replica: "keeps (\<lambda>(s, w). store_ok s) (up_replica X (manager_backends n X dir) name ts sv ls i)" for sv ls i
  proof (cases ls)
    case (Cons l rest)
    show ?thesis
    proof (rule keeps_stI)
      fix st :: "'w sys"
      assume s: "store_ok (fst st)"
      obtain q st1 where q: "manager_launch X (manager_backends n X dir) (replica_name name i) (replica_task name i ts sv) (Some l) st = (q, st1)"
        by (rule prod.exhaust)
      have ok1: "store_ok (fst st1)" using keeps_store_okD [OF keeps_manager_launch [OF ok.cluster_invariant_axioms] s] q by (metis snd_conv)
      have "store_ok (fst (snd (service_update X name (add_replica c e) st1)))" for c e
        by (intro keeps_store_okD [OF _ ok1] keeps_intros) (simp add: add_replica_def)
      then show "store_ok (fst (snd (up_replica X (manager_backends n X dir) name ts sv ls i st)))"
        using q ok1 keeps_store_okD [OF failed ok1] by (cases q) (auto simp: up_replica_def Cons split: error.splits)
    qed
  qed (simp add: up_replica_def keeps_basic)
  show ?thesis
    unfolding service_up_def Let_def
    by (cases "t_service ts") (auto intro!: keeps_intros replica simp del: ret_simps)
qed

lemma keeps_service_down: "keeps (\<lambda>(s, w). store_ok s) (service_down X (manager_backends n X dir) name)"
  unfolding service_down_def by (intro keeps_intros keeps_manager_down [OF ok.cluster_invariant_axioms])

text \<open>The handlers of a server whose manager has the four backends, and the middlewares around them.\<close>

lemma keeps_answers [keeps_intros]:
  "keeps P (answer w status body)" "keeps P (write_json S w status data)" "keeps P (write_error S w status e)"
  by (simp_all add: keeps_def write_json_def write_error_def render_def answer_run)

lemma keeps_or_status [keeps_intros]: "keeps P m \<Longrightarrow> (\<And>x. keeps P (k x)) \<Longrightarrow> keeps P (or_status S w status m k)"
  using keeps_answers(3) [of P S w status] by (fastforce simp: keeps_def or_status_def split: prod.split sum.split error.split)

lemma keeps_of_bad [keeps_intros]: "(\<And>x. keeps P (k x)) \<Longrightarrow> keeps P (of_bad S w q k)"
  unfolding of_bad_def by (intro keeps_intros)

lemma keeps_background [keeps_intros]: "keeps P m \<Longrightarrow> keeps P (with_background bg m)"
  unfolding with_background_def by (intro keeps_intros)

lemma keeps_plan [keeps_intros]: "keeps (\<lambda>(s, w). P s) (plan_request Q name req)"
  by (rule keeps_read_only [OF read_only_plan])

definition proper_server :: "('p, 'w) server \<Rightarrow> bool" where
  "proper_server S \<longleftrightarrow> hs_extra S = [] \<and> (\<exists>n dir. hs_backends S = manager_backends n (hs_ext S) dir)"

lemma keeps_launches_of_server:
  assumes "proper_server S"
  shows "keeps (\<lambda>(s, w). store_ok s) (handle_launch S D r w)" "keeps (\<lambda>(s, w). store_ok s) (handle_launch_task S D x r w)"
proof -
  obtain n dir where bs: "hs_backends S = manager_backends n (hs_ext S) dir" using assms by (auto simp: proper_server_def)
  have l: "keeps (\<lambda>(s, w). store_ok s) (launch_task S w name ts a)" for name ts a
    unfolding launch_task_def provision_and_answer_def bs by (intro keeps_intros keeps_manager_launch [OF ok.cluster_invariant_axioms])
  show "keeps (\<lambda>(s, w). store_ok s) (handle_launch S D r w)" unfolding handle_launch_def Let_def by (intro keeps_intros l)
  show "keeps (\<lambda>(s, w). store_ok s) (handle_launch_task S D x r w)"
    unfolding handle_launch_task_def Let_def by (intro keeps_of_bad) (auto split: option.split prod.split intro!: l keeps_intros)
qed

lemma keeps_other_changes:
  assumes "proper_server S"
  shows "keeps (\<lambda>(s, w). store_ok s) (handle_delete_cluster S x w)" "keeps (\<lambda>(s, w). store_ok s) (handle_service_up S D r w)"
    "keeps (\<lambda>(s, w). store_ok s) (handle_service_down S x w)" "keeps (\<lambda>(s, w). store_ok s) (handle_submit_job S D r w)"
    "keeps (\<lambda>(s, w). store_ok s) (handle_run_job S x w)" "keeps (\<lambda>(s, w). store_ok s) (handle_create_token S D r w)"
    "keeps (\<lambda>(s, w). store_ok s) (handle_delete_token S x w)" "keeps (\<lambda>(s, w). store_ok s) (handle_rotate_token S D x r w)"
    "keeps (\<lambda>(s, w). store_ok s) (handle_set_config S D x r w)"
proof -
  obtain n dir where bs: "hs_backends S = manager_backends n (hs_ext S) dir" using assms by (auto simp: proper_server_def)
  show "keeps (\<lambda>(s, w). store_ok s) (handle_delete_cluster S x w)"
    unfolding handle_delete_cluster_def bs by (intro keeps_intros keeps_manager_down [OF ok.cluster_invariant_axioms])
  show "keeps (\<lambda>(s, w). store_ok s) (handle_service_up S D r w)"
    unfolding handle_service_up_def bs by (intro keeps_intros keeps_service_up)
  show "keeps (\<lambda>(s, w). store_ok s) (handle_service_down S x w)"
    unfolding handle_service_down_def bs by (intro keeps_intros keeps_service_down)
  show "keeps (\<lambda>(s, w). store_ok s) (handle_submit_job S D r w)" unfolding handle_submit_job_def write_temp_task_def by (intro keeps_intros)
  show "keeps (\<lambda>(s, w). store_ok s) (handle_run_job S x w)" unfolding handle_run_job_def by (intro keeps_intros)
  show "keeps (\<lambda>(s, w). store_ok s) (handle_create_token S D r w)" unfolding handle_create_token_def by (intro keeps_intros keeps_pair)
  show "keeps (\<lambda>(s, w). store_ok s) (handle_delete_token S x w)" unfolding handle_delete_token_def by (intro keeps_intros)
  show "keeps (\<lambda>(s, w). store_ok s) (handle_rotate_token S D x r w)" unfolding handle_rotate_token_def by (intro keeps_intros keeps_pair)
  show "keeps (\<lambda>(s, w). store_ok s) (handle_set_config S D x r w)" unfolding handle_set_config_def by (intro keeps_intros)
qed

lemma keeps_shown:
  "keeps P (handle_list_clusters S w)" "keeps P (handle_list_services S w)" "keeps P (handle_list_jobs S w)" "keeps P (handle_list_config S w)"
  "keeps P (handle_list_tokens S w)" "keeps P (handle_get_config S x w)"
  using keeps_answers(2) [of P S w 200]
  by (simp_all add: keeps_def handle_list_clusters_def handle_list_services_def handle_list_jobs_def handle_list_config_def
      handle_list_tokens_def handle_get_config_def)

lemma keeps_get_cluster: "keeps (\<lambda>(s, w). P s) (handle_get_cluster S x w)"
  unfolding handle_get_cluster_def by (intro keeps_intros keeps_cluster_at)

lemmas keeps_handlers = keeps_launches_of_server keeps_other_changes keeps_shown keeps_get_cluster

lemma keeps_route:
  assumes "proper_server S" "api_route S D r = Some h"
  shows "keeps (\<lambda>(s, w). store_ok s) (h w)"
  using assms
  by (auto simp: api_route_def collection_route_def item_route_def action_route_def keeps_handlers
      split: option.splits list.splits if_splits)

lemma keeps_mux: "proper_server S \<Longrightarrow> keeps (\<lambda>(s, w). store_ok s) (mux S D page w r)"
  unfolding mux_def by (auto split: option.split intro!: keeps_intros keeps_route)

lemma keeps_middleware:
  fixes X :: "('p, 'w) ext" and h :: "'w handler"
  assumes "\<And>w r. keeps (\<lambda>(s, w). store_ok s) (h w r)"
  shows "keeps (\<lambda>(s, w). store_ok s) (security_headers h w r)" "keeps (\<lambda>(s, w). store_ok s) (cors origins h w r)"
    "keeps (\<lambda>(s, w). store_ok s) (auth_middleware X hash enabled h w r)" "keeps (\<lambda>(s, w). store_ok s) (request_id gen key h w r)"
    "keeps (\<lambda>(s, w). store_ok s) (logging h w r)"
proof -
  note k = keeps_store_okD [OF assms]
  show "keeps (\<lambda>(s, w). store_ok s) (security_headers h w r)" "keeps (\<lambda>(s, w). store_ok s) (logging h w r)"
    by (simp_all add: security_headers_def logging_def assms)
  show "keeps (\<lambda>(s, w). store_ok s) (cors origins h w r)" unfolding cors_def Let_def by (intro keeps_intros assms)
  show "keeps (\<lambda>(s, w). store_ok s) (request_id gen key h w r)"
    by (rule keeps_stI) (auto simp: request_id_def Let_def split_beta intro: k)
  have refuse: "keeps (\<lambda>(s, w). store_ok s) (auth_error w msg :: (response, 'w sys) act)" for msg unfolding auth_error_def by (rule keeps_answers)
  have admit: "keeps (\<lambda>(s, w). store_ok s) (seq_act (quiet (do_mark_token X ident)) (h w r))" for ident by (intro keeps_intros assms)
  show "keeps (\<lambda>(s, w). store_ok s) (auth_middleware X hash enabled h w r)"
  proof (rule keeps_stI)
    fix st :: "'w sys"
    assume "store_ok (fst st)"
    then show "store_ok (fst (snd (auth_middleware X hash enabled h w r st)))"
      using keeps_store_okD [OF refuse] keeps_store_okD [OF admit] k by (simp add: auth_middleware_def split: sum.split)
  qed
qed

lemma keeps_server_handler:
  assumes "proper_server S"
  shows "keeps (\<lambda>(s, w). store_ok s) (server_handler S D page w r)"
proof -
  have "hs_extra S = []" using assms by (simp add: proper_server_def)
  then show ?thesis
    unfolding server_handler_def chain_def middlewares_def by (auto intro!: keeps_middleware keeps_mux [OF assms])
qed

lemma run_step_ok:
  assumes "proper_server S" "store_ok (fst (run_sys R))"
  shows "store_ok (fst (run_sys (run_step S D page ev R)))"
proof (cases R)
  case (Serving bg st)
  obtain n dir where bs: "hs_backends S = manager_backends n (hs_ext S) dir" using assms(1) by (auto simp: proper_server_def)
  have ok: "store_ok (fst st)" using assms(2) Serving by simp
  have turn: "store_ok (fst (run_sys (goroutine bg' m st)))" if "keeps (\<lambda>(s, w). store_ok s) m" for bg' m
    using keeps_store_okD [OF that ok] by (auto simp: goroutine_def split: prod.splits sum.splits error.splits)
  have background: "keeps (\<lambda>(s, w). store_ok s) (run_background S b)" for b
    by (cases b) (auto simp: bs intro!: keeps_intros keeps_run_task keeps_run_now)
  show ?thesis
  proof (cases ev)
    case (Request r)
    then show ?thesis
      using keeps_store_okD [OF keeps_server_handler [OF assms(1)] ok, of D page opening_writer r] Serving
      by (auto split: prod.split sum.split)
  next
    case (Resume i)
    then show ?thesis using Serving ok turn [OF background] by simp
  next
    case Scheduler_tick
    then show ?thesis using Serving turn [OF keeps_tick] bs by simp
  qed (use Serving ok in simp_all)
qed (use assms in simp_all)

text \<open>C2. Whatever requests come, whenever the scheduler ticks and in whatever order goroutines get their turn, the store of a running
  server is consistent: every map holds each name once and files every entity under its own name, even when steps fail, panic or end the server.\<close>

theorem running_server_invariant:
  assumes "proper_server S" "store_ok (fst st)"
  shows "store_ok (fst (run_sys (run_server S D page evs st)))"
proof -
  have "store_ok (fst (run_sys (fold (run_step S D page) evs R)))" if "store_ok (fst (run_sys R))" for R
    using that by (induction evs arbitrary: R) (simp_all add: run_step_ok [OF assms(1)])
  then show ?thesis using assms(2) by (simp add: run_server_def)
qed

theorem running_server_invariant_witness:
  "store_ok (fst (run_sys (run_server sample_server no_body JStr
     [Request (token_post ''/api/v1/gpi/tokens''), Scheduler_tick, Resume 0, Pass 5, Cancelled] (empty_store, 0))))"
  by (rule running_server_invariant) (auto simp: proper_server_def sample_server_def new_server_def store_ok_def empty_store_def)

text \<open>A server that has stopped, by itself or with a crash, does nothing more.\<close>

lemma stopped_stays: "run_step S D page ev (Returned q st) = Returned q st" "run_step S D page ev (Crashed m st) = Crashed m st"
  by (cases ev; simp)+

text \<open>A job that the end of the program has left running is not due again, and the server refuses to run it.\<close>

lemma abandoned_job_stuck:
  assumes "get_job (fst st) name = Inr j" "j_status j = ''running''"
  shows "j \<notin> set (due X st) \<and> (\<exists>resp. handle_run_job S name w st = (Inr resp, st) \<and> rs_status resp = 409 \<and> rs_background resp = [])"
  using assms by (cases st) (auto simp: due_def is_due_def handle_run_job_def or_status_def asks_def write_error_def render_def answer_run)

end
