(* ===== verification/Spec2Isabelle.thy ===== *)
theory Spec2Isabelle
  imports Prelude Go_Strings Go_Float Go_Time Task_Accel Task_Range Task_Resources Task_Spec
    Cloud_Base Metacache Metacache_Steps Optimizer Optimizer_Props State_Types State_Json State_Store State_File State_Props
    Effects Provisioner Provisioner_Props Provisioner_Life Backends Backend_Props Jobs_Cron
    Jobs Job_Props Serve Serve_Props Server_Http Server_Api Server_Props
    State_Sql State_Sql_Props Config Cloud_Http Cloud_Launch Aws_Client Aws_Ec2 Aws_Provider Aws_Catalog Aws_Props
    Aliyun_Client Aliyun_Provider Aliyun_Props Kube_Client Kube_Provider Kube_Props
    Rest_Client Gcp_Provider Azure_Provider Rest_Props Gpilet Gpilet_Props Cli_Base Cli Cli_Server Cli_Props
    Server_Docs Server_Docs_Props Server_Run
begin

text \<open>
  gpi: placing and running GPU tasks on clouds.

  A user writes a task in YAML (\<open>src/internal/task\<close>); the optimizer (\<open>internal/optimizer\<close>) ranks the instance
  types of the clouds' catalogs (\<open>internal/cloud/catalog\<close>, read through the cache of \<open>internal/metacache\<close>) that
  satisfy its resources; a backend (\<open>internal/backend\<close>: cloud, existing host, docker, local) launches a cluster
  for it, in the cloud by the provisioner (\<open>internal/provisioner\<close>), which calls a provider (\<open>internal/cloud\<close>) and
  runs \<open>ssh\<close>; the cluster is recorded in the store (\<open>internal/state\<close>), which keeps its collections in memory and
  saves all of them through a file, redis or SQL backend at each mutation. Jobs (\<open>internal/jobs\<close>) run tasks on
  a schedule, services (\<open>internal/serve\<close>) launch replicas, and a server (\<open>internal/server\<close>) offers all of it as a REST
  interface.

  How the program is modelled. Strings are lists of characters, a Go string being its bytes. Errors are values of
  \<open>error\<close> (\<open>Err\<close> with the message, \<open>Panic\<close> for a run-time panic) in \<open>error + 'a\<close>. Maps are association lists with
  unique keys (\<open>smap\<close>, laws in \<open>Prelude\<close>); where Go iterates over a map in random order the model uses the order
  of the list, and no theorem depends on it. Floats are exact rationals with the infinities and NaN
  (\<open>Go_Float\<close>): rounding is not modelled. Integers are unbounded where the code only compares and adds
  small ones; \<open>Jobs_Cron\<close> wraps its loop counter at 64 bits, and \<open>atoi\<close> refuses numbers that do not fit.
  Whatever reaches outside the program is a parameter: the clock, the providers, the programs run, the file
  system and the order in which goroutines run are functions of an opaque world, collected in the record \<open>ext\<close>
  of \<open>Effects\<close>; an operation is a function of the store and this world that returns a result or an error with
  the new state, so that effects before an error stay.

  The theories, each with the code it models:
    \<^item> \<open>Prelude\<close>, \<open>Go_Strings\<close>, \<open>Go_Float\<close>, \<open>Go_Time\<close>: results, maps, and what the program uses of Go's \<open>strings\<close>,
      \<open>strconv\<close>, \<open>fmt\<close>, \<open>sort\<close> and \<open>time\<close> (civil time of an instant in a location, \<open>ParseDuration\<close>).
    \<^item> \<open>Task_Accel\<close>, \<open>Task_Range\<close>, \<open>Task_Resources\<close>, \<open>Task_Spec\<close>: \<open>internal/task\<close>, the parsing of the decoded YAML values,
      inheritance of ordered alternatives, defaults and validation. Shown: what \<open>SetDefaults\<close> establishes and that
      it is idempotent, inheritance, and which texts parse back.
    \<^item> \<open>Cloud_Base\<close>, \<open>Metacache\<close>, \<open>Metacache_Steps\<close>: the provider registry and the catalog's sources, and the cache with its expiry and
      back-off: each call as one step, and as the three between which others may come, over maps with addresses. Shown: what a
      failed or forced refresh keeps, which prices concurrent calls keep and which they forget, and that a call which nothing
      interrupts is the one step.
    \<^item> \<open>Optimizer\<close>, \<open>Optimizer_Props\<close>: candidates, prices, metrics, ranking, strategies. Shown: a plan satisfies the
      resources (stated independently as \<open>meets\<close>), the ranking is the stable sorted permutation, cheapest first.
    \<^item> \<open>State_Types\<close>, \<open>State_Json\<close>, \<open>State_Store\<close>, \<open>State_File\<close>, \<open>State_Props\<close>: the entities, their JSON documents, the
      operations of the store, the file and redis backends (a save as the list of file system states it goes
      through, so that a crash can be placed between any two). Shown: the invariant of the store, durability,
      atomicity of each file, tokens, and what a failed save leaves behind.
    \<^item> \<open>State_Sql\<close>, \<open>State_Sql_Props\<close>: \<open>internal/state/sql.go\<close>, the tables and the transactions that replace their rows. The
      database is the rows it has committed and the list of verdicts it will give on the statements it is sent. Shown:
      durability, atomicity of each table, and that it keeps the semantics of the file backend.
    \<^item> \<open>Config\<close>: \<open>internal/config\<close>, the user's and the project's file and their merge. Shown: the project overrides the
      user value by value.
    \<^item> \<open>Cloud_Http\<close>, \<open>Cloud_Launch\<close>: what the clouds share. Requests, the attempts of a call, forms, trees of JSON; and
      how a launch reuses, restarts or creates machines. The locale \<open>launch_client\<close> states what a provider promises
      and derives the outcome of a launch; it is interpreted on the providers.
    \<^item> \<open>Aws_Client\<close>, \<open>Aws_Ec2\<close>, \<open>Aws_Provider\<close>, \<open>Aws_Catalog\<close>, \<open>Aws_Props\<close>: \<open>internal/cloud/aws\<close>. Shown: the outcome of a launch, where the
      requests go and how many they are, that listings collect every page, that the signature is canonical, and what
      the catalog says. A listing is read for a number of pages, a parameter, after which the model gives up: the
      theorems about listings speak of those that end within it.
    \<^item> \<open>Aliyun_Client\<close>, \<open>Aliyun_Provider\<close>, \<open>Aliyun_Props\<close>: \<open>internal/cloud/aliyun\<close>. Shown: falling back from one switch to the next, the
      encoding that is signed, and the prices.
    \<^item> \<open>Kube_Client\<close>, \<open>Kube_Provider\<close>, \<open>Kube_Props\<close>: \<open>internal/cloud/kubernetes\<close>. The variables of the package (the clients and the
      kubeconfig, kept once read) are threaded beside the world. Shown: which pods a launch leaves, failed or not, that
      the waiting for pods ends (a bound on the rounds is a parameter, and one for each half second of the timeout is
      enough), the names of instance types, and the namespaces the operations reach.
    \<^item> \<open>Rest_Client\<close>, \<open>Gcp_Provider\<close>, \<open>Azure_Provider\<close>, \<open>Rest_Props\<close>: \<open>internal/cloud/gcp\<close> and \<open>internal/cloud/azure\<close>, which differ in paths
      and bodies and share their clients and the launch of machines one by one (the locale \<open>machine_maker\<close>, interpreted
      on both). Shown: the names of the machines, where the requests go, and which keys are never used.
    \<^item> \<open>Effects\<close>, \<open>Provisioner\<close>, \<open>Provisioner_Props\<close>, \<open>Provisioner_Life\<close>: \<open>internal/provisioner\<close>. The waiting loops take a
      bound on their rounds as fuel; 62 rounds of \<open>waitReady\<close> (15 minutes at a tick each 15 seconds) and 122 of
      \<open>waitSSH\<close> (10 minutes at 5 seconds) are enough whenever the clock does not go back, which is
      \<open>waiting_ends\<close>. The life of a cluster is an inductive relation; each operation is shown to follow it with
      Hoare-style rules (\<open>leads\<close>) over the sequencing operators.
    \<^item> \<open>Backends\<close>, \<open>Backend_Props\<close>: \<open>internal/backend\<close>. A backend is a record of operations; the locale
      \<open>backend_contract\<close> states what the manager relies on and is interpreted on the four backends.
    \<^item> \<open>Jobs_Cron\<close>: \<open>internal/jobs/cron.go\<close>, parsing of schedules and the search for the next run, with its bound of
      five years of minutes.
    \<^item> \<open>Jobs\<close>, \<open>Job_Props\<close>: the job manager and the ticks of the server's scheduler. Shown: how a run accounts for its
      attempts, when a job is due, that a job can succeed only once, and which schedule brings the scheduler down.
    \<^item> \<open>Serve\<close>, \<open>Serve_Props\<close>: bringing services up and taking them down. Shown: what a deployment, failed or not,
      leaves in the store, and that it never runs the service.
    \<^item> \<open>Server_Http\<close>, \<open>Server_Api\<close>, \<open>Server_Props\<close>: the middlewares, key styles and response encoders; the handlers
      and their routes. A handler is a function of the writer, the request, the store and the world, that answers a
      response with the goroutines it leaves running. Shown: what authentication guards, that reading changes
      nothing, that a dry run only plans, how key styles translate, and that no first token can be made.
    \<^item> \<open>Gpilet\<close>, \<open>Gpilet_Props\<close>: the agent on the nodes, \<open>internal/gpilet\<close> and \<open>cmd/gpilet\<close>: what it senses, its report, and the
      loop that publishes one at each tick, over the list of what its channels deliver. Shown: the bounds of the share
      of the processors, that its file is never half written, and that the control plane reads what it reports.
    \<^item> \<open>Cli_Base\<close>, \<open>Cli\<close>, \<open>Cli_Server\<close>, \<open>Cli_Props\<close>: \<open>internal/cli\<close> and the settings of \<open>internal/logging\<close>. A command is an action that prints
      into the world; flags are records. Shown: how a shell reads the words of \<open>gpi exec\<close>, that showing changes nothing,
      that nothing is launched in the cloud by a dry run or without consent, and what the token commands ask for.
    \<^item> \<open>Server_Run\<close>: the server at work, over a list of requests, ticks, turns of goroutines and changes of the world. Shown: the
      invariant of the store, through every handler and what they call, in any such run.
    \<^item> \<open>Server_Docs\<close>, \<open>Server_Docs_Props\<close>: \<open>internal/server/swagger.go\<close>, the OpenAPI document. Shown: it describes the routes of
      the server and no others, except under a prefix without a slash, and all its references resolve.

  Named hypotheses on the outside: \<open>clock_ok\<close> and \<open>pod_clock\<close> (the clock does not go back, a ticker keeps its period, a
  sleep takes its time), \<open>fair_order\<close> (each goroutine of a group runs once), \<open>counts\<close> and \<open>kept_by\<close> (what a request counts for, and
  cannot change), \<open>unreached\<close> (what requests
  to some addresses cannot change), \<open>pod_api\<close> (which pods the calls of the Kubernetes API add and remove),
  \<open>never_agrees\<close> (the user at the terminal does not answer yes).

  Not modelled: code that nothing calls (\<open>Resources.Copy\<close> with its setters and the shorthands of \<open>internal/optimizer\<close> for one metric); the text of HTTP bodies and the two constant pages that show the API document; the listening socket
  of the server; the reading of flags, which a library does, and the tree and the help of the commands; the
  encoding of log lines; the generators of imports and of \<open>docs/openapi.json\<close>; the text
  of SQL statements other than the inserts of entities; cryptographic hashes and the parsing of JSON, XML and YAML
  texts, which are parameters; the lock of the store, since each of its operations is one step; sharing
  of entities between the store and its callers, except where the provisioner relies on it (the cluster it
  updates is the stored one).
\<close>

end
